(* ===== verification/Prelude.thy ===== *)
theory Prelude
  imports Main "HOL-Library.Word" "HOL-Library.Monad_Syntax"
begin

text \<open>
  Shared vocabulary of the development: machine integers and pointers, the
  \<open>named_theorems\<close> collections, byte buffers and C strings, big-endian fields,
  the bucket index contract shared by the two hash indices of the driver, and the
  list lemmas the components use.

  Windows run-time routines that only move data (\<^verbatim>\<open>RtlCopyMemory\<close>,
  \<^verbatim>\<open>RtlZeroMemory\<close>, \<^verbatim>\<open>REVERSE_BYTES_*\<close>, the \<^verbatim>\<open>LIST_ENTRY\<close>
  macros, \<^verbatim>\<open>strlen\<close>, \<^verbatim>\<open>strcmp\<close>) are modelled by their documented effect.
\<close>

unbundle bit_operations_syntax

section \<open>Types\<close>

type_synonym u8 = "8 word"
type_synonym u16 = "16 word"
type_synonym u32 = "32 word"
type_synonym u64 = "64 word"
type_synonym bytes = "u8 list"
type_synonym ptr = nat

named_theorems queue_simps \<open>unfolding rules for the request queues\<close>
named_theorems stats_simps \<open>effect of the operations on the counters\<close>
named_theorems buffer_simps \<open>unfolding rules for buffer stores\<close>

lemma word_less_inc:
  fixes x :: "'a::len word"
  assumes "x \<noteq> - 1" shows "x < x + 1"
proof -
  have "x + 1 \<noteq> 0" using assms by (metis add_eq_0_iff2)
  then have "unat (x + 1) = Suc (unat x)" by (simp add: unatSuc add.commute)
  then show ?thesis by (simp add: word_less_nat_alt)
qed

lemma ucast_up_down [simp]: "(ucast (ucast (x :: u32) :: u64) :: u32) = x"
  by (rule bit_word_eqI) (simp add: bit_ucast_iff)

lemma unat_ucast_up [simp]: "unat (ucast (x :: u32) :: u64) = unat x"
proof -
  have "unat x < 2 ^ LENGTH(32)" by (rule unsigned_less)
  then have "unat x < 2 ^ 64" by simp
  then show ?thesis by (simp add: unsigned_ucast_eq take_bit_nat_eq_self)
qed

text \<open>Multiplying without overflow and dividing again.\<close>

lemma word_mult_div:
  fixes a b :: "'a::len word"
  assumes "b \<noteq> 0" "unat a * unat b < 2 ^ LENGTH('a)" shows "a * b div b = a"
proof -
  have "unat (a * b) = unat a * unat b" using assms(2) by (simp add: unat_mult_lem [THEN iffD1])
  then have "unat (a * b div b) = unat a" using assms(1) by (simp add: unat_div unat_eq_0)
  then show ?thesis by (simp add: word_unat_eq_iff)
qed

text \<open>Searching a list whose only match is at its end.\<close>

lemma find_snoc: "\<forall>q \<in> set xs. \<not> P q \<Longrightarrow> P p \<Longrightarrow> find P (xs @ [p]) = Some p"
  by (induction xs) auto

section \<open>Buffers\<close>

text \<open>
  A store of \<open>bs\<close> at offset \<open>off\<close>. \<open>None\<close> is a store that leaves the buffer:
  the C code would overwrite foreign memory there.
\<close>

definition store :: "nat \<Rightarrow> bytes \<Rightarrow> bytes \<Rightarrow> bytes option" where
  "store off bs buf =
     (if off + length bs \<le> length buf
      then Some (take off buf @ bs @ drop (off + length bs) buf) else None)"

fun stores :: "(nat \<times> bytes) list \<Rightarrow> bytes \<Rightarrow> bytes option" where
  "stores [] buf = Some buf"
| "stores ((off, bs) # ws) buf = Option.bind (store off bs buf) (stores ws)"

lemma store_Some_iff: "(\<exists>b. store off bs buf = Some b) \<longleftrightarrow> off + length bs \<le> length buf"
  by (simp add: store_def)

lemma store_length: "store off bs buf = Some b \<Longrightarrow> length b = length buf"
  by (auto simp: store_def split: if_splits)

lemma store_nth:
  "store off bs buf = Some b \<Longrightarrow> i < length buf \<Longrightarrow>
     b ! i = (if off \<le> i \<and> i < off + length bs then bs ! (i - off) else buf ! i)"
  by (auto simp: store_def nth_append split: if_splits)

lemma store_take:
  "store off bs buf = Some b \<Longrightarrow> take (length bs) (drop off b) = bs"
  by (auto simp: store_def split: if_splits)

lemma stores_length: "stores ws buf = Some b \<Longrightarrow> length b = length buf"
proof (induction ws arbitrary: buf)
  case (Cons w ws)
  then show ?case by (cases w) (auto split: bind_splits dest: store_length)
qed simp

lemma stores_total:
  "(\<forall>(off, bs) \<in> set ws. off + length bs \<le> length buf) \<Longrightarrow> \<exists>b. stores ws buf = Some b"
proof (induction ws arbitrary: buf)
  case (Cons w ws)
  obtain off bs where w: "w = (off, bs)" by (cases w)
  with Cons.prems obtain b where b: "store off bs buf = Some b"
    by (auto simp: store_def)
  moreover have "\<forall>(off, bs) \<in> set ws. off + length bs \<le> length b"
    using Cons.prems store_length [OF b] by auto
  ultimately show ?case using Cons.IH [of b] w by simp
qed simp

section \<open>C strings in fixed arrays\<close>

definition cstr :: "bytes \<Rightarrow> bytes" where
  "cstr xs = takeWhile (\<lambda>c. c \<noteq> 0) xs"

definition strlen :: "bytes \<Rightarrow> nat" where
  "strlen xs = length (cstr xs)"

definition streq :: "bytes \<Rightarrow> bytes \<Rightarrow> bool" where
  "streq xs ys \<longleftrightarrow> cstr xs = cstr ys"

lemma strlen_le: "strlen xs \<le> length xs"
  by (simp add: strlen_def cstr_def length_takeWhile_le)

lemma strlen_terminated:
  assumes "n < length xs" shows "strlen (xs[n := 0]) \<le> n"
proof -
  have "length (takeWhile (\<lambda>c. c \<noteq> 0) (xs[n := 0])) \<le> n"
  proof (rule ccontr)
    assume "\<not> ?thesis"
    then have *: "n < length (takeWhile (\<lambda>c. c \<noteq> 0) (xs[n := 0]))" by simp
    then have "takeWhile (\<lambda>c. c \<noteq> 0) (xs[n := 0]) ! n = xs[n := 0] ! n"
      by (rule takeWhile_nth)
    moreover have "takeWhile (\<lambda>c. c \<noteq> 0) (xs[n := 0]) ! n \<noteq> 0"
      using nth_mem [OF *] by (blast dest: set_takeWhileD)
    ultimately show False using assms by simp
  qed
  then show ?thesis by (simp add: strlen_def cstr_def)
qed

lemma streq_refl [simp]: "streq xs xs"
  by (simp add: streq_def)

lemma streq_sym: "streq xs ys \<Longrightarrow> streq ys xs"
  by (simp add: streq_def)

lemma streq_trans: "streq xs ys \<Longrightarrow> streq ys zs \<Longrightarrow> streq xs zs"
  by (simp add: streq_def)

section \<open>Big-endian fields\<close>

definition be_word :: "bytes \<Rightarrow> 'a::len word" where
  "be_word bs = foldl (\<lambda>acc b. push_bit 8 acc OR ucast b) 0 bs"

definition be_bytes :: "nat \<Rightarrow> 'a::len word \<Rightarrow> bytes" where
  "be_bytes n w = map (\<lambda>i. ucast (drop_bit (8 * i) w)) (rev [0..<n])"

lemma be_bytes_length [simp]: "length (be_bytes n w) = n"
  by (simp add: be_bytes_def)

lemma be_word_Nil [simp]: "be_word [] = 0"
  by (simp add: be_word_def)

lemma be_word_snoc: "be_word (bs @ [b]) = push_bit 8 (be_word bs) OR ucast b"
  by (simp add: be_word_def)

lemma bit_be_word:
  "bit (be_word bs :: 'a::len word) k \<longleftrightarrow>
     k < LENGTH('a) \<and> k < 8 * length bs \<and> bit (rev bs ! (k div 8)) (k mod 8)"
proof (induction bs arbitrary: k rule: rev_induct)
  case Nil
  then show ?case by simp
next
  case (snoc b bs)
  show ?case
  proof (cases "k < 8")
    case True
    then show ?thesis
      by (auto simp: be_word_snoc bit_or_iff bit_push_bit_iff bit_ucast_iff)
  next
    case False
    then have d: "k div 8 = Suc ((k - 8) div 8)" and m: "k mod 8 = (k - 8) mod 8"
      by (simp_all add: le_div_geq le_mod_geq)
    have nb: "\<not> bit b k" using False bit_imp_le_length [of b k] by auto
    show ?thesis
      using False snoc.IH [of "k - 8"] nb
      by (auto simp: be_word_snoc bit_or_iff bit_push_bit_iff bit_ucast_iff d m)
  qed
qed

lemma rev_be_bytes_nth: "i < n \<Longrightarrow> rev (be_bytes n w) ! i = ucast (drop_bit (8 * i) w)"
  by (simp add: be_bytes_def flip: rev_map)

lemma be_roundtrip:
  fixes w :: "'a::len word"
  assumes "LENGTH('a) \<le> 8 * n" shows "be_word (be_bytes n w) = w"
proof (rule bit_word_eqI)
  fix k assume k: "k < LENGTH('a)"
  with assms have "k div 8 < n" by auto
  then show "bit (be_word (be_bytes n w) :: 'a word) k = bit w k"
    using k assms by (auto simp: bit_be_word rev_be_bytes_nth bit_ucast_iff bit_drop_bit_eq)
qed

lemma be_bytes_be_word:
  assumes "length bs = n" "8 * n \<le> LENGTH('a)" shows "be_bytes n (be_word bs :: 'a::len word) = bs"
proof -
  have "rev (be_bytes n (be_word bs :: 'a word)) = rev bs"
  proof (rule nth_equalityI)
    fix i assume "i < length (rev (be_bytes n (be_word bs :: 'a word)))"
    then have i: "i < n" by simp
    have "ucast (drop_bit (8 * i) (be_word bs :: 'a word)) = rev bs ! i"
    proof (rule bit_word_eqI)
      fix k assume "k < LENGTH(8)"
      then have k: "k < 8" by simp
      then have "8 * i + k < 8 * n" "(8 * i + k) div 8 = i" "(8 * i + k) mod 8 = k" using i by auto
      then show "bit (ucast (drop_bit (8 * i) (be_word bs :: 'a word)) :: u8) k = bit (rev bs ! i) k"
        using assms k by (simp add: bit_ucast_iff bit_drop_bit_eq bit_be_word)
    qed
    then show "rev (be_bytes n (be_word bs :: 'a word)) ! i = rev bs ! i"
      using i by (simp add: rev_be_bytes_nth)
  qed (simp add: assms)
  then show ?thesis by simp
qed

text \<open>The machine's own byte order is little-endian.\<close>

definition le_word :: "bytes \<Rightarrow> 'a::len word" where
  "le_word bs = be_word (rev bs)"

definition le_bytes :: "nat \<Rightarrow> 'a::len word \<Rightarrow> bytes" where
  "le_bytes n w = map (\<lambda>i. ucast (drop_bit (8 * i) w)) [0..<n]"

lemma le_bytes_length [simp]: "length (le_bytes n w) = n"
  by (simp add: le_bytes_def)

lemma rev_le_bytes: "rev (le_bytes n w) = be_bytes n w"
  by (simp add: le_bytes_def be_bytes_def rev_map)

lemma le_roundtrip:
  fixes w :: "'a::len word"
  assumes "LENGTH('a) \<le> 8 * n" shows "le_word (le_bytes n w) = w"
  using assms by (simp add: le_word_def rev_le_bytes be_roundtrip)

lemma be_bytes_inj:
  fixes v w :: "'a::len word"
  assumes "LENGTH('a) \<le> 8 * n" "be_bytes n v = be_bytes n w" shows "v = w"
  using assms by (metis be_roundtrip)

end
