(* ===== verification/HashIndex.thy ===== *)
theory HashIndex
  imports Prelude
begin

text \<open>
  The driver indexes two lists by a key with chained hash buckets: the submitted
  requests of a device by tag (\<^verbatim>\<open>SubmittedReqHashBuckets\<close>) and the devices of the
  adapter by connection id (\<^verbatim>\<open>ConnIdHashBuckets\<close>). This theory holds the list
  operations behind \<^verbatim>\<open>InsertHeadList\<close> and \<^verbatim>\<open>RemoveEntryList\<close> on bucket
  chains, the agreement predicate between a list and its index, and the locale whose
  lemmas both indices use.
\<close>

section \<open>Bucket chains\<close>

text \<open>\<^verbatim>\<open>InsertHeadList(&Buckets[b], &x->HashLink)\<close>.\<close>

definition bucket_insert :: "nat \<Rightarrow> 'x \<Rightarrow> 'x list list \<Rightarrow> 'x list list" where
  "bucket_insert b x bs = bs[b := x # bs ! b]"

text \<open>\<^verbatim>\<open>RemoveEntryList(&x->HashLink)\<close>: the entry leaves whichever chain links it.\<close>

definition unlink :: "'x \<Rightarrow> 'x list list \<Rightarrow> 'x list list" where
  "unlink x bs = map (remove1 x) bs"

text \<open>A list and its bucket array hold the same entries, each in the bucket of its slot.\<close>

definition indexed :: "('x \<Rightarrow> nat) \<Rightarrow> nat \<Rightarrow> 'x list \<Rightarrow> 'x list list \<Rightarrow> bool" where
  "indexed slot n xs bs \<longleftrightarrow>
     length bs = n \<and> distinct xs \<and>
     (\<forall>i < n. distinct (bs ! i) \<and> set (bs ! i) = {x \<in> set xs. slot x = i})"

lemma indexed_distinct [dest]: "indexed slot n xs bs \<Longrightarrow> distinct xs"
  by (simp add: indexed_def)

lemma indexed_length [dest]: "indexed slot n xs bs \<Longrightarrow> length bs = n"
  by (simp add: indexed_def)

lemma indexed_init: "indexed slot n [] (replicate n [])"
  by (simp add: indexed_def)

lemma indexed_cong:
  assumes "\<And>x. x \<in> set xs \<Longrightarrow> slot x = slot' x"
  shows "indexed slot n xs bs = indexed slot' n xs bs"
  using assms by (auto simp: indexed_def)

lemma indexed_insert:
  assumes "indexed slot n xs bs" "x \<notin> set xs" "slot x < n"
  shows "indexed slot n (xs @ [x]) (bucket_insert (slot x) x bs)"
  using assms unfolding indexed_def bucket_insert_def
  by (auto simp: nth_list_update)

lemma indexed_unlink:
  assumes "indexed slot n xs bs"
  shows "indexed slot n (remove1 x xs) (unlink x bs)"
  using assms unfolding indexed_def unlink_def by auto

lemma find_Some_iff_distinct:
  assumes "inj_on key (set xs)"
  shows "find (\<lambda>x. key x = k) xs = Some x \<longleftrightarrow> x \<in> set xs \<and> key x = k"
  using assms by (induction xs) (auto simp: inj_on_def)

lemma remove1_hd: "xs \<noteq> [] \<Longrightarrow> remove1 (hd xs) xs = tl xs"
  by (cases xs) auto

section \<open>The index contract\<close>

text \<open>
  The parameters of an index: the key of an entry, the bucket of a key and the number of
  buckets. The only law is that every key has a bucket; the lemmas say that a lookup in
  one chain is a lookup in the whole list.
\<close>

locale hash_index =
  fixes key :: "'x \<Rightarrow> 'k"
    and bucket :: "'k \<Rightarrow> nat"
    and n :: nat
  assumes bucket_lt: "bucket k < n"
begin

lemma chain_set:
  "indexed (\<lambda>x. bucket (key x)) n xs bs \<Longrightarrow>
     set (bs ! bucket k) = {x \<in> set xs. bucket (key x) = bucket k}"
  using bucket_lt by (auto simp: indexed_def)

lemma lookup_sound:
  assumes "indexed (\<lambda>x. bucket (key x)) n xs bs"
    and "find (\<lambda>x. key x = k) (bs ! bucket k) = Some x"
  shows "x \<in> set xs \<and> key x = k"
  using assms chain_set [OF assms(1), of k] by (auto simp: find_Some_iff)

lemma lookup_None:
  assumes "indexed (\<lambda>x. bucket (key x)) n xs bs"
  shows "find (\<lambda>x. key x = k) (bs ! bucket k) = None \<longleftrightarrow> k \<notin> key ` set xs"
  using chain_set [OF assms, of k] by (auto simp: find_None_iff)

lemma lookup_scan:
  assumes "indexed (\<lambda>x. bucket (key x)) n xs bs" and "inj_on key (set xs)"
  shows "find (\<lambda>x. key x = k) (bs ! bucket k) = find (\<lambda>x. key x = k) xs"
proof (cases "find (\<lambda>x. key x = k) xs")
  case None
  then have "k \<notin> key ` set xs" by (auto simp: find_None_iff)
  with lookup_None [OF assms(1)] None show ?thesis by simp
next
  case (Some x)
  with assms(2) have x: "x \<in> set xs" "key x = k" by (auto simp: find_Some_iff_distinct)
  have "set (bs ! bucket k) \<subseteq> set xs" using chain_set [OF assms(1)] by auto
  with assms(2) have "inj_on key (set (bs ! bucket k))" by (rule inj_on_subset)
  moreover have "x \<in> set (bs ! bucket k)" using x chain_set [OF assms(1), of k] by auto
  ultimately show ?thesis using Some x by (simp add: find_Some_iff_distinct)
qed

lemma insert_index:
  "indexed (\<lambda>x. bucket (key x)) n xs bs \<Longrightarrow> x \<notin> set xs \<Longrightarrow>
     indexed (\<lambda>x. bucket (key x)) n (xs @ [x]) (bucket_insert (bucket (key x)) x bs)"
  using indexed_insert [of "\<lambda>x. bucket (key x)" n xs bs x] bucket_lt by simp

end

end
