(* ===== verification/Platform.thy ===== *)
theory Platform
  imports Prelude
begin

text \<open>
  Constants of the Windows driver kit and of the SCSI standards that the driver uses by
  name (\<^verbatim>\<open>ntstatus.h\<close>, \<^verbatim>\<open>srb.h\<close>, \<^verbatim>\<open>scsi.h\<close>), and the two kernel
  primitives with state of their own: rundown protection and the resource lock.
\<close>

section \<open>Status codes\<close>

abbreviation (input) STATUS_SUCCESS :: u32 where "STATUS_SUCCESS \<equiv> 0"
abbreviation (input) STATUS_PENDING :: u32 where "STATUS_PENDING \<equiv> 0x103"
abbreviation (input) STATUS_BUFFER_OVERFLOW :: u32 where "STATUS_BUFFER_OVERFLOW \<equiv> 0x80000005"
abbreviation (input) STATUS_DEVICE_BUSY :: u32 where "STATUS_DEVICE_BUSY \<equiv> 0x80000011"
abbreviation (input) STATUS_INVALID_HANDLE :: u32 where "STATUS_INVALID_HANDLE \<equiv> 0xC0000008"
abbreviation (input) STATUS_INVALID_PARAMETER :: u32 where "STATUS_INVALID_PARAMETER \<equiv> 0xC000000D"
abbreviation (input) STATUS_INVALID_DEVICE_REQUEST :: u32 where
  "STATUS_INVALID_DEVICE_REQUEST \<equiv> 0xC0000010"
abbreviation (input) STATUS_ACCESS_DENIED :: u32 where "STATUS_ACCESS_DENIED \<equiv> 0xC0000022"
abbreviation (input) STATUS_BUFFER_TOO_SMALL :: u32 where "STATUS_BUFFER_TOO_SMALL \<equiv> 0xC0000023"
abbreviation (input) STATUS_OBJECT_TYPE_MISMATCH :: u32 where
  "STATUS_OBJECT_TYPE_MISMATCH \<equiv> 0xC0000024"
abbreviation (input) STATUS_OBJECT_NAME_NOT_FOUND :: u32 where
  "STATUS_OBJECT_NAME_NOT_FOUND \<equiv> 0xC0000034"
abbreviation (input) STATUS_OBJECT_NAME_COLLISION :: u32 where
  "STATUS_OBJECT_NAME_COLLISION \<equiv> 0xC0000035"
abbreviation (input) STATUS_INSUFFICIENT_RESOURCES :: u32 where
  "STATUS_INSUFFICIENT_RESOURCES \<equiv> 0xC000009A"
abbreviation (input) STATUS_INTERNAL_ERROR :: u32 where "STATUS_INTERNAL_ERROR \<equiv> 0xC00000E5"
abbreviation (input) STATUS_TOO_MANY_ADDRESSES :: u32 where "STATUS_TOO_MANY_ADDRESSES \<equiv> 0xC0000209"
abbreviation (input) STATUS_NOT_FOUND :: u32 where "STATUS_NOT_FOUND \<equiv> 0xC0000225"
abbreviation (input) STATUS_SHUTDOWN_IN_PROGRESS :: u32 where
  "STATUS_SHUTDOWN_IN_PROGRESS \<equiv> 0xC00002FE"

text \<open>\<^verbatim>\<open>NT_SUCCESS\<close>: the status read as a signed value is not negative.\<close>

definition NT_SUCCESS :: "u32 \<Rightarrow> bool" where
  "NT_SUCCESS s \<longleftrightarrow> \<not> bit s 31"

abbreviation (input) SRB_STATUS_PENDING :: u8 where "SRB_STATUS_PENDING \<equiv> 0x00"
abbreviation (input) SRB_STATUS_SUCCESS :: u8 where "SRB_STATUS_SUCCESS \<equiv> 0x01"
abbreviation (input) SRB_STATUS_ABORTED :: u8 where "SRB_STATUS_ABORTED \<equiv> 0x02"
abbreviation (input) SRB_STATUS_ERROR :: u8 where "SRB_STATUS_ERROR \<equiv> 0x04"
abbreviation (input) SRB_STATUS_INVALID_REQUEST :: u8 where "SRB_STATUS_INVALID_REQUEST \<equiv> 0x06"
abbreviation (input) SRB_STATUS_NO_DEVICE :: u8 where "SRB_STATUS_NO_DEVICE \<equiv> 0x08"
abbreviation (input) SRB_STATUS_TIMEOUT :: u8 where "SRB_STATUS_TIMEOUT \<equiv> 0x09"
abbreviation (input) SRB_STATUS_BUS_RESET :: u8 where "SRB_STATUS_BUS_RESET \<equiv> 0x0E"
abbreviation (input) SRB_STATUS_DATA_OVERRUN :: u8 where "SRB_STATUS_DATA_OVERRUN \<equiv> 0x12"
abbreviation (input) SRB_STATUS_BAD_SRB_BLOCK_LENGTH :: u8 where
  "SRB_STATUS_BAD_SRB_BLOCK_LENGTH \<equiv> 0x15"
abbreviation (input) SRB_STATUS_INTERNAL_ERROR :: u8 where "SRB_STATUS_INTERNAL_ERROR \<equiv> 0x30"
abbreviation (input) SRB_STATUS_AUTOSENSE_VALID :: u8 where "SRB_STATUS_AUTOSENSE_VALID \<equiv> 0x80"
abbreviation (input) SRB_FLAGS_DISABLE_AUTOSENSE :: u32 where "SRB_FLAGS_DISABLE_AUTOSENSE \<equiv> 0x20"

abbreviation (input) SCSISTAT_CHECK_CONDITION :: u8 where "SCSISTAT_CHECK_CONDITION \<equiv> 0x02"
abbreviation (input) SCSI_SENSE_MEDIUM_ERROR :: u8 where "SCSI_SENSE_MEDIUM_ERROR \<equiv> 0x03"
abbreviation (input) SCSI_SENSE_ILLEGAL_REQUEST :: u8 where "SCSI_SENSE_ILLEGAL_REQUEST \<equiv> 0x05"
abbreviation (input) SCSI_ADSENSE_UNRECOVERED_ERROR :: u8 where "SCSI_ADSENSE_UNRECOVERED_ERROR \<equiv> 0x11"
abbreviation (input) SCSI_ADSENSE_ILLEGAL_COMMAND :: u8 where "SCSI_ADSENSE_ILLEGAL_COMMAND \<equiv> 0x20"
abbreviation (input) SCSI_ADSENSE_ILLEGAL_BLOCK :: u8 where "SCSI_ADSENSE_ILLEGAL_BLOCK \<equiv> 0x21"
abbreviation (input) SCSI_ADSENSE_INVALID_CDB :: u8 where "SCSI_ADSENSE_INVALID_CDB \<equiv> 0x24"
abbreviation (input) SCSI_ADSENSE_INVALID_FIELD_PARAMETER_LIST :: u8 where
  "SCSI_ADSENSE_INVALID_FIELD_PARAMETER_LIST \<equiv> 0x26"

section \<open>SCSI operation codes\<close>

abbreviation (input) SCSIOP_TEST_UNIT_READY :: u8 where "SCSIOP_TEST_UNIT_READY \<equiv> 0x00"
abbreviation (input) SCSIOP_READ6 :: u8 where "SCSIOP_READ6 \<equiv> 0x08"
abbreviation (input) SCSIOP_WRITE6 :: u8 where "SCSIOP_WRITE6 \<equiv> 0x0A"
abbreviation (input) SCSIOP_INQUIRY :: u8 where "SCSIOP_INQUIRY \<equiv> 0x12"
abbreviation (input) SCSIOP_MODE_SENSE :: u8 where "SCSIOP_MODE_SENSE \<equiv> 0x1A"
abbreviation (input) SCSIOP_READ_CAPACITY :: u8 where "SCSIOP_READ_CAPACITY \<equiv> 0x25"
abbreviation (input) SCSIOP_READ :: u8 where "SCSIOP_READ \<equiv> 0x28"
abbreviation (input) SCSIOP_WRITE :: u8 where "SCSIOP_WRITE \<equiv> 0x2A"
abbreviation (input) SCSIOP_VERIFY :: u8 where "SCSIOP_VERIFY \<equiv> 0x2F"
abbreviation (input) SCSIOP_SYNCHRONIZE_CACHE :: u8 where "SCSIOP_SYNCHRONIZE_CACHE \<equiv> 0x35"
abbreviation (input) SCSIOP_UNMAP :: u8 where "SCSIOP_UNMAP \<equiv> 0x42"
abbreviation (input) SCSIOP_MODE_SENSE10 :: u8 where "SCSIOP_MODE_SENSE10 \<equiv> 0x5A"
abbreviation (input) SCSIOP_PERSISTENT_RESERVE_IN :: u8 where "SCSIOP_PERSISTENT_RESERVE_IN \<equiv> 0x5E"
abbreviation (input) SCSIOP_PERSISTENT_RESERVE_OUT :: u8 where "SCSIOP_PERSISTENT_RESERVE_OUT \<equiv> 0x5F"
abbreviation (input) SCSIOP_READ16 :: u8 where "SCSIOP_READ16 \<equiv> 0x88"
abbreviation (input) SCSIOP_WRITE16 :: u8 where "SCSIOP_WRITE16 \<equiv> 0x8A"
abbreviation (input) SCSIOP_SYNCHRONIZE_CACHE16 :: u8 where "SCSIOP_SYNCHRONIZE_CACHE16 \<equiv> 0x91"
abbreviation (input) SCSIOP_READ_CAPACITY16 :: u8 where "SCSIOP_READ_CAPACITY16 \<equiv> 0x9E"
abbreviation (input) SCSIOP_REPORT_LUNS :: u8 where "SCSIOP_REPORT_LUNS \<equiv> 0xA0"
abbreviation (input) SCSIOP_READ12 :: u8 where "SCSIOP_READ12 \<equiv> 0xA8"
abbreviation (input) SCSIOP_WRITE12 :: u8 where "SCSIOP_WRITE12 \<equiv> 0xAA"

section \<open>Rundown protection\<close>

text \<open>
  \<^verbatim>\<open>EX_RUNDOWN_REF\<close>: a reference count that can be acquired until someone waits for
  its release (\<^verbatim>\<open>ExWaitForRundownProtectionRelease\<close>); the wait returns when the
  count is zero.
\<close>

record EX_RUNDOWN_REF =
  RdCount :: nat
  RdStarted :: bool

definition rundown_init :: EX_RUNDOWN_REF where
  "rundown_init = \<lparr>RdCount = 0, RdStarted = False\<rparr>"

definition ExAcquireRundownProtection :: "EX_RUNDOWN_REF \<Rightarrow> bool \<times> EX_RUNDOWN_REF" where
  "ExAcquireRundownProtection r =
     (if RdStarted r then (False, r) else (True, r\<lparr>RdCount := RdCount r + 1\<rparr>))"

definition ExReleaseRundownProtection :: "EX_RUNDOWN_REF \<Rightarrow> EX_RUNDOWN_REF" where
  "ExReleaseRundownProtection r = r\<lparr>RdCount := RdCount r - 1\<rparr>"

definition ExRundownWait :: "EX_RUNDOWN_REF \<Rightarrow> EX_RUNDOWN_REF" where
  "ExRundownWait r = r\<lparr>RdStarted := True\<rparr>"

definition ExRundownDone :: "EX_RUNDOWN_REF \<Rightarrow> bool" where
  "ExRundownDone r \<longleftrightarrow> RdStarted r \<and> RdCount r = 0"

lemma acquire_release:
  "ExAcquireRundownProtection r = (True, r') \<Longrightarrow> ExReleaseRundownProtection r' = r"
  by (auto simp: ExAcquireRundownProtection_def ExReleaseRundownProtection_def split: if_splits)

lemma acquire_after_wait: "\<not> fst (ExAcquireRundownProtection (ExRundownWait r))"
  by (simp add: ExAcquireRundownProtection_def ExRundownWait_def)

end
