(* ===== verification/Types.thy ===== *)
theory Types
  imports Platform
begin

text \<open>
  The structures shared by the driver and its user-space library,
  \<^verbatim>\<open>include/wnbd_ioctl.h\<close>. Reserved fields carry no data and are left out; fixed
  character arrays are byte lists that may hold bytes after their terminator.
\<close>

abbreviation (input) WNBD_MAX_NAME_LENGTH :: nat where "WNBD_MAX_NAME_LENGTH \<equiv> 256"
abbreviation (input) WNBD_MAX_OWNER_LENGTH :: nat where "WNBD_MAX_OWNER_LENGTH \<equiv> 16"
abbreviation (input) WNBD_MAX_OPT_NAME_LENGTH :: nat where "WNBD_MAX_OPT_NAME_LENGTH \<equiv> 64"
abbreviation (input) WNBD_DEFAULT_MAX_TRANSFER_LENGTH :: u32 where
  "WNBD_DEFAULT_MAX_TRANSFER_LENGTH \<equiv> 2097152"
abbreviation (input) WNBD_DEFAULT_MAX_IO_REQ_PER_ADAPTER :: u64 where
  "WNBD_DEFAULT_MAX_IO_REQ_PER_ADAPTER \<equiv> 1000"
abbreviation (input) WNBD_DEFAULT_MAX_IO_REQ_PER_LUN :: u64 where
  "WNBD_DEFAULT_MAX_IO_REQ_PER_LUN \<equiv> 255"
abbreviation (input) WNBD_ABS_MAX_IO_REQ_PER_ADAPTER :: u32 where
  "WNBD_ABS_MAX_IO_REQ_PER_ADAPTER \<equiv> 131072"
abbreviation (input) WNBD_ABS_MAX_IO_REQ_PER_LUN :: u32 where "WNBD_ABS_MAX_IO_REQ_PER_LUN \<equiv> 1024"
abbreviation (input) WNBD_DEFAULT_STALE_REQ_TIMEOUT_MS :: u64 where
  "WNBD_DEFAULT_STALE_REQ_TIMEOUT_MS \<equiv> 15000"
abbreviation (input) WNBD_DEFAULT_STALE_CONN_TIMEOUT_MS :: u64 where
  "WNBD_DEFAULT_STALE_CONN_TIMEOUT_MS \<equiv> 60000"

datatype WnbdRequestType =
    WnbdReqTypeUnknown | WnbdReqTypeRead | WnbdReqTypeWrite | WnbdReqTypeFlush
  | WnbdReqTypeUnmap | WnbdReqTypeDisconnect | WnbdReqTypePersistResIn
  | WnbdReqTypePersistResOut

record WNBD_STATUS =
  ScsiStatus :: u8
  SenseKey :: u8
  ASC :: u8
  ASCQ :: u8
  Information :: u64
  InformationValid :: bool

definition zero_status :: WNBD_STATUS where
  "zero_status = \<lparr>ScsiStatus = 0, SenseKey = 0, ASC = 0, ASCQ = 0,
     Information = 0, InformationValid = False\<rparr>"

record NBD_CONNECTION_PROPERTIES =
  Hostname :: bytes
  PortNumber :: u32
  ExportName :: bytes
  SkipNegotiation :: bool

record WNBD_FLAGS =
  ReadOnly :: bool
  FlushSupported :: bool
  FUASupported :: bool
  UnmapSupported :: bool
  UnmapAnchorSupported :: bool
  UseKernelNbd :: bool
  PersistResSupported :: bool
  NaaIdSpecified :: bool
  UseUserspaceNbd :: bool

record WNBD_PROPERTIES =
  InstanceName :: bytes
  SerialNumber :: bytes
  Owner :: bytes
  Flags :: WNBD_FLAGS
  BlockCount :: u64
  BlockSize :: u32
  MaxUnmapDescCount :: u32
  Pid :: u32
  NbdProperties :: NBD_CONNECTION_PROPERTIES
  NaaIdentifier :: bytes

record WNBD_CONNECTION_INFO =
  CiProperties :: WNBD_PROPERTIES
  BusNumber :: u16
  CiTargetId :: u16
  CiLun :: u16
  CiConnectionId :: u64
  CiDiskNumber :: u32
  CiPNPDeviceID :: "u16 list"

record WNBD_DRV_STATS =
  TotalReceivedIORequests :: u64
  TotalSubmittedIORequests :: u64
  TotalReceivedIOReplies :: u64
  UnsubmittedIORequests :: u64
  PendingSubmittedIORequests :: u64
  AbortedSubmittedIORequests :: u64
  AbortedUnsubmittedIORequests :: u64
  CompletedAbortedIORequests :: u64
  OutstandingIOCount :: u64
  LastReceivedReqTimestamp :: u64
  LastSubmittedReqTimestamp :: u64
  LastReplyTimestamp :: u64

definition zero_stats :: WNBD_DRV_STATS where
  "zero_stats = \<lparr>TotalReceivedIORequests = 0, TotalSubmittedIORequests = 0,
     TotalReceivedIOReplies = 0, UnsubmittedIORequests = 0, PendingSubmittedIORequests = 0,
     AbortedSubmittedIORequests = 0, AbortedUnsubmittedIORequests = 0,
     CompletedAbortedIORequests = 0, OutstandingIOCount = 0, LastReceivedReqTimestamp = 0,
     LastSubmittedReqTimestamp = 0, LastReplyTimestamp = 0\<rparr>"

text \<open>The \<^verbatim>\<open>Cmd\<close> union of \<^verbatim>\<open>WNBD_IO_REQUEST\<close>, one constructor per member.\<close>

datatype WNBD_CMD =
    CmdNone
  | CmdRead (RdBlockAddress: u64) (RdBlockCount: u32) (RdForceUnitAccess: bool)
  | CmdWrite (WrBlockAddress: u64) (WrBlockCount: u32) (WrForceUnitAccess: bool)
  | CmdFlush (FlBlockAddress: u64) (FlBlockCount: u32)
  | CmdUnmap (UnCount: u32) (UnAnchor: bool)
  | CmdPersistResIn (PiServiceAction: u8) (PiAllocationLength: u16)
  | CmdPersistResOut (PoServiceAction: u8) (PoScope: u8) (PoType: u8)
      (PoParameterListLength: u16)

record WNBD_IO_REQUEST =
  RequestHandle :: u64
  RequestType :: WnbdRequestType
  Cmd :: WNBD_CMD

definition zero_request :: WNBD_IO_REQUEST where
  "zero_request = \<lparr>RequestHandle = 0, RequestType = WnbdReqTypeUnknown, Cmd = CmdNone\<rparr>"

record WNBD_UNMAP_DESCRIPTOR =
  UdBlockAddress :: u64
  UdBlockCount :: u32

record WNBD_IO_RESPONSE =
  RspRequestHandle :: u64
  RspRequestType :: WnbdRequestType
  RspStatus :: WNBD_STATUS

end
