(* ===== verification/Srb.thy ===== *)
theory Srb
  imports Types
begin

text \<open>
  SCSI request blocks and command descriptor blocks: \<^verbatim>\<open>driver/srb_helper.h\<close>,
  the request classification of \<^verbatim>\<open>driver/util.h\<close> and the sense data writer
  \<^verbatim>\<open>SetSrbStatus\<close> of \<^verbatim>\<open>driver/util.c\<close>. The storage port driver owns the
  request blocks; the record has the fields the miniport reads or writes through the
  \<^verbatim>\<open>SrbGet*\<close> and \<^verbatim>\<open>SrbSet*\<close> accessors.
\<close>

record SRB =
  SrbFunction :: u8
  SrbStatus :: u8
  SrbScsiStatus :: u8
  SrbPathId :: u8
  SrbTargetId :: u8
  SrbLun :: u8
  SrbFlags :: u32
  DataTransferLength :: u32
  DataBuffer :: "bytes option"
  SrbCdb :: "bytes option"
  SenseInfoBuffer :: "bytes option"
  SenseInfoBufferLength :: u8

text \<open>
  \<^verbatim>\<open>Cdb->AsByte[i]\<close>. The union has 16 bytes; a shorter list stands for a
  descriptor padded with zeroes.
\<close>

definition cdb_byte :: "bytes \<Rightarrow> nat \<Rightarrow> u8" where
  "cdb_byte c i = (if i < length c then c ! i else 0)"

definition cdb_field :: "bytes \<Rightarrow> nat \<Rightarrow> nat \<Rightarrow> bytes" where
  "cdb_field c off n = map (cdb_byte c) [off..<off + n]"

lemma cdb_field_length [simp]: "length (cdb_field c off n) = n"
  by (simp add: cdb_field_def)

section \<open>Block ranges\<close>

text \<open>
  \<^verbatim>\<open>SrbCdbGetRange\<close>: the group code in the top three bits selects the layout. The
  result is the block address, the block count and the force-unit-access bit; an unknown
  group leaves the caller's zeroes.
\<close>

definition SrbCdbGetRange :: "bytes \<Rightarrow> u64 \<times> u32 \<times> u32" where
  "SrbCdbGetRange Cdb =
     (let group = cdb_byte Cdb 0 AND 0xE0 in
      if group = 0x00 then
        (be_word [cdb_byte Cdb 1 AND 0x1F, cdb_byte Cdb 2, cdb_byte Cdb 3],
         (if cdb_byte Cdb 4 \<noteq> 0 then ucast (cdb_byte Cdb 4) else 256), 0)
      else if group = 0x20 \<or> group = 0x40 then
        (be_word (cdb_field Cdb 2 4), be_word (cdb_field Cdb 7 2),
         ucast (drop_bit 3 (cdb_byte Cdb 1) AND 1))
      else if group = 0x80 then
        (be_word (cdb_field Cdb 2 8), be_word (cdb_field Cdb 10 4),
         ucast (drop_bit 3 (cdb_byte Cdb 1) AND 1))
      else if group = 0xA0 then
        (be_word (cdb_field Cdb 2 4), be_word (cdb_field Cdb 6 4),
         ucast (drop_bit 3 (cdb_byte Cdb 1) AND 1))
      else (0, 0, 0))"

section \<open>Request classification\<close>

definition ScsiOpToWnbdReqType :: "u8 \<Rightarrow> WnbdRequestType" where
  "ScsiOpToWnbdReqType ScsiOp =
     (if ScsiOp \<in> {SCSIOP_READ6, SCSIOP_READ, SCSIOP_READ12, SCSIOP_READ16}
      then WnbdReqTypeRead
      else if ScsiOp \<in> {SCSIOP_WRITE6, SCSIOP_WRITE, SCSIOP_WRITE12, SCSIOP_WRITE16}
      then WnbdReqTypeWrite
      else if ScsiOp = SCSIOP_UNMAP then WnbdReqTypeUnmap
      else if ScsiOp \<in> {SCSIOP_SYNCHRONIZE_CACHE, SCSIOP_SYNCHRONIZE_CACHE16}
      then WnbdReqTypeFlush
      else if ScsiOp = SCSIOP_PERSISTENT_RESERVE_IN then WnbdReqTypePersistResIn
      else if ScsiOp = SCSIOP_PERSISTENT_RESERVE_OUT then WnbdReqTypePersistResOut
      else WnbdReqTypeUnknown)"

definition IsReadSrb :: "SRB \<Rightarrow> bool" where
  "IsReadSrb Srb =
     (case SrbCdb Srb of None \<Rightarrow> False
      | Some Cdb \<Rightarrow>
          cdb_byte Cdb 0 \<in> {SCSIOP_READ6, SCSIOP_READ, SCSIOP_READ12, SCSIOP_READ16})"

definition IsPerResInSrb :: "SRB \<Rightarrow> bool" where
  "IsPerResInSrb Srb =
     (case SrbCdb Srb of None \<Rightarrow> False
      | Some Cdb \<Rightarrow> cdb_byte Cdb 0 = SCSIOP_PERSISTENT_RESERVE_IN)"

text \<open>The request type sent to user space and the two SRB predicates agree.\<close>

lemma IsReadSrb_type:
  "IsReadSrb Srb \<longleftrightarrow> (\<exists>Cdb. SrbCdb Srb = Some Cdb \<and>
     ScsiOpToWnbdReqType (cdb_byte Cdb 0) = WnbdReqTypeRead)"
  by (cases "SrbCdb Srb") (auto simp: IsReadSrb_def ScsiOpToWnbdReqType_def)

lemma IsPerResInSrb_type:
  "IsPerResInSrb Srb \<longleftrightarrow> (\<exists>Cdb. SrbCdb Srb = Some Cdb \<and>
     ScsiOpToWnbdReqType (cdb_byte Cdb 0) = WnbdReqTypePersistResIn)"
  by (cases "SrbCdb Srb") (auto simp: IsPerResInSrb_def ScsiOpToWnbdReqType_def)

lemma ScsiOpToWnbdReqType_not_disconnect [simp]:
  "ScsiOpToWnbdReqType op \<noteq> WnbdReqTypeDisconnect"
  by (simp add: ScsiOpToWnbdReqType_def)

section \<open>Sense data\<close>

text \<open>
  Fixed format sense data (18 bytes, \<^verbatim>\<open>SENSE_DATA\<close>): error code and valid bit at 0,
  sense key at 2, information at 3 to 6, additional length at 7, code and qualifier at 12
  and 13. The information is stored through a 64-bit pointer, so eight bytes are written
  from offset 3, in the machine's byte order.
\<close>

definition sense_bytes :: "nat \<Rightarrow> WNBD_STATUS \<Rightarrow> bytes" where
  "sense_bytes len Status =
     (let buf = (replicate len 0)
                  [0 := 0x70, 2 := SenseKey Status AND 0x0F, 12 := ASC Status,
                   13 := ASCQ Status, 7 := 10]
      in if InformationValid Status
         then (take 3 buf @ le_bytes 8 (Information Status) @ drop 11 buf)[0 := 0xF0]
         else buf)"

definition SetSrbStatus :: "SRB \<Rightarrow> WNBD_STATUS \<Rightarrow> SRB" where
  "SetSrbStatus Srb Status =
     (let Srb = Srb\<lparr>SrbScsiStatus := ScsiStatus Status\<rparr> in
      if SenseInfoBuffer Srb \<noteq> None \<and> 18 \<le> unat (SenseInfoBufferLength Srb) \<and>
         SrbFlags Srb AND SRB_FLAGS_DISABLE_AUTOSENSE = 0
      then (let Srb = Srb\<lparr>SenseInfoBuffer :=
                            Some (sense_bytes (unat (SenseInfoBufferLength Srb)) Status)\<rparr>;
                Srb = (if ScsiStatus Status = 0
                       then Srb\<lparr>SrbScsiStatus := SCSISTAT_CHECK_CONDITION\<rparr> else Srb)
            in Srb\<lparr>SrbStatus := SRB_STATUS_ERROR OR SRB_STATUS_AUTOSENSE_VALID\<rparr>)
      else Srb\<lparr>SrbStatus := SRB_STATUS_ERROR\<rparr>)"

end
