(* ===== verification/Options.thy ===== *)
theory Options
  imports Types
begin

text \<open>
  Driver options, \<^verbatim>\<open>driver/options.c\<close> and \<^verbatim>\<open>driver/options.h\<close>, with
  \<^verbatim>\<open>WstrToBool\<close> of \<^verbatim>\<open>driver/util.h\<close>. The state is the option table
  \<^verbatim>\<open>WnbdDriverOptions\<close>. The value union is kept as its 512 bytes, so that reading a
  member reads the bytes the last writer left. The registry and
  \<^verbatim>\<open>RtlUnicodeStringToInt64\<close> are parameters.
\<close>

section \<open>Data\<close>

datatype WnbdOptValType = WnbdOptUnknown | WnbdOptBool | WnbdOptInt64 | WnbdOptWstr

type_synonym wstr = "u16 list"

record WNBD_OPTION_VALUE =
  ValType :: WnbdOptValType
  Data :: bytes

record WNBD_OPTION =
  OptName :: wstr
  OptType :: WnbdOptValType
  OptDefault :: WNBD_OPTION_VALUE
  OptValue :: WNBD_OPTION_VALUE

definition AsBool :: "bytes \<Rightarrow> bool" where
  "AsBool d = (take 1 d \<noteq> [0] \<and> d \<noteq> [])"

definition AsInt64 :: "bytes \<Rightarrow> u64" where
  "AsInt64 d = le_word (take 8 d)"

fun AsWstr :: "bytes \<Rightarrow> wstr" where
  "AsWstr (lo # hi # d) = le_word [lo, hi] # AsWstr d"
| "AsWstr _ = []"

definition bool_data :: "bool \<Rightarrow> bytes" where
  "bool_data b = (if b then 1 else 0) # replicate 511 0"

definition int64_data :: "u64 \<Rightarrow> bytes" where
  "int64_data w = le_bytes 8 w @ replicate 504 0"

definition wlit :: "string \<Rightarrow> wstr" where
  "wlit s = map of_char s"

definition wcs :: "wstr \<Rightarrow> wstr" where
  "wcs xs = takeWhile (\<lambda>c. c \<noteq> 0) xs"

definition towlower :: "u16 \<Rightarrow> u16" where
  "towlower c = (if 65 \<le> c \<and> c \<le> 90 then c + 32 else c)"

text \<open>\<^verbatim>\<open>!_wcsicmp(a, b)\<close>.\<close>

definition wcsieq :: "wstr \<Rightarrow> wstr \<Rightarrow> bool" where
  "wcsieq a b \<longleftrightarrow> map towlower (wcs a) = map towlower (wcs b)"

lemma wcsieq_refl [simp]: "wcsieq a a" by (simp add: wcsieq_def)

abbreviation (input) REG_NONE :: u32 where "REG_NONE \<equiv> 0"
abbreviation (input) REG_SZ :: u32 where "REG_SZ \<equiv> 1"
abbreviation (input) REG_QWORD :: u32 where "REG_QWORD \<equiv> 11"

fun WnbdOptRegType :: "WnbdOptValType \<Rightarrow> u32" where
  "WnbdOptRegType WnbdOptBool = REG_QWORD"
| "WnbdOptRegType WnbdOptInt64 = REG_QWORD"
| "WnbdOptRegType WnbdOptWstr = REG_SZ"
| "WnbdOptRegType WnbdOptUnknown = REG_NONE"

fun WnbdOptRegSize :: "WnbdOptValType \<Rightarrow> nat" where
  "WnbdOptRegSize WnbdOptBool = 8"
| "WnbdOptRegSize WnbdOptInt64 = 8"
| "WnbdOptRegSize WnbdOptWstr = WNBD_MAX_NAME_LENGTH"
| "WnbdOptRegSize WnbdOptUnknown = 0"

definition bool_opt :: "string \<Rightarrow> bool \<Rightarrow> WNBD_OPTION" where
  "bool_opt n b =
     \<lparr>OptName = wlit n, OptType = WnbdOptBool,
      OptDefault = \<lparr>ValType = WnbdOptBool, Data = bool_data b\<rparr>,
      OptValue = \<lparr>ValType = WnbdOptBool, Data = bool_data b\<rparr>\<rparr>"

definition int64_opt :: "string \<Rightarrow> u64 \<Rightarrow> WNBD_OPTION" where
  "int64_opt n v =
     \<lparr>OptName = wlit n, OptType = WnbdOptInt64,
      OptDefault = \<lparr>ValType = WnbdOptInt64, Data = int64_data v\<rparr>,
      OptValue = \<lparr>ValType = WnbdOptInt64, Data = int64_data v\<rparr>\<rparr>"

definition WnbdDriverOptions :: "WNBD_OPTION list" where
  "WnbdDriverOptions =
     [int64_opt ''LogLevel'' 1,
      bool_opt ''NewMappingsAllowed'' True,
      bool_opt ''EtwLoggingEnabled'' True,
      bool_opt ''WppLoggingEnabled'' False,
      bool_opt ''DbgPrintEnabled'' True,
      int64_opt ''MaxIOReqPerAdapter'' WNBD_DEFAULT_MAX_IO_REQ_PER_ADAPTER,
      int64_opt ''MaxIOReqPerLun'' WNBD_DEFAULT_MAX_IO_REQ_PER_LUN,
      bool_opt ''RemoveStaleConnections'' True,
      int64_opt ''StaleReqTimeoutMs'' WNBD_DEFAULT_STALE_REQ_TIMEOUT_MS,
      int64_opt ''StaleConnTimeoutMs'' WNBD_DEFAULT_STALE_CONN_TIMEOUT_MS]"

datatype WNBD_OPT_KEY =
    OptLogLevel | OptNewMappingsAllowed | OptEtwLoggingEnabled | OptWppLoggingEnabled
  | OptDbgPrintEnabled | OptMaxIOReqPerAdapter | OptMaxIOReqPerLun
  | OptRemoveStaleConnections | OptStaleReqTimeoutMs | OptStaleConnTimeoutMs

fun opt_index :: "WNBD_OPT_KEY \<Rightarrow> nat" where
  "opt_index OptLogLevel = 0"
| "opt_index OptNewMappingsAllowed = 1"
| "opt_index OptEtwLoggingEnabled = 2"
| "opt_index OptWppLoggingEnabled = 3"
| "opt_index OptDbgPrintEnabled = 4"
| "opt_index OptMaxIOReqPerAdapter = 5"
| "opt_index OptMaxIOReqPerLun = 6"
| "opt_index OptRemoveStaleConnections = 7"
| "opt_index OptStaleReqTimeoutMs = 8"
| "opt_index OptStaleConnTimeoutMs = 9"

text \<open>\<^verbatim>\<open>WnbdDriverOptions[k].Value.Data.AsBool\<close> and \<^verbatim>\<open>AsInt64\<close>.\<close>

definition opt_bool :: "WNBD_OPTION list \<Rightarrow> WNBD_OPT_KEY \<Rightarrow> bool" where
  "opt_bool opts k = AsBool (Data (OptValue (opts ! opt_index k)))"

definition opt_int64 :: "WNBD_OPTION list \<Rightarrow> WNBD_OPT_KEY \<Rightarrow> u64" where
  "opt_int64 opts k = AsInt64 (Data (OptValue (opts ! opt_index k)))"

section \<open>The registry\<close>

text \<open>
  \<^verbatim>\<open>ZwQueryValueKey\<close> (status, value type, data), \<^verbatim>\<open>ZwSetValueKey\<close> and
  \<^verbatim>\<open>ZwDeleteValueKey\<close> on the driver's key.
\<close>

record 'r registry =
  ZwQueryValueKey :: "'r \<Rightarrow> wstr \<Rightarrow> u32 \<times> u32 \<times> bytes"
  ZwSetValueKey :: "'r \<Rightarrow> wstr \<Rightarrow> u32 \<Rightarrow> bytes \<Rightarrow> u32 \<times> 'r"
  ZwDeleteValueKey :: "'r \<Rightarrow> wstr \<Rightarrow> u32 \<times> 'r"

section \<open>Operations\<close>

fun find_opt_from :: "nat \<Rightarrow> WNBD_OPTION list \<Rightarrow> wstr \<Rightarrow> nat option" where
  "find_opt_from i [] Name = None"
| "find_opt_from i (op # ops) Name =
     (if wcsieq Name (OptName op) then Some i else find_opt_from (Suc i) ops Name)"

definition WnbdFindOpt :: "WNBD_OPTION list \<Rightarrow> wstr \<Rightarrow> nat option" where
  "WnbdFindOpt opts Name = find_opt_from 0 opts Name"

definition WnbdGetPersistentOpt ::
  "'r registry \<Rightarrow> 'r \<Rightarrow> WNBD_OPTION list \<Rightarrow> wstr \<Rightarrow> WNBD_OPTION_VALUE \<Rightarrow>
     u32 \<times> WNBD_OPTION_VALUE" where
  "WnbdGetPersistentOpt R r opts Name Val =
     (case WnbdFindOpt opts Name of
        None \<Rightarrow> (STATUS_OBJECT_NAME_NOT_FOUND, Val)
      | Some i \<Rightarrow>
          (let Option = opts ! i; Val = Val\<lparr>Data := replicate 512 0\<rparr>;
               (Status, RType, RData) = ZwQueryValueKey R r (wcs Name)
           in if Status \<noteq> 0 then (Status, Val)
              else if WnbdOptRegType (OptType Option) \<noteq> RType
              then (STATUS_OBJECT_TYPE_MISMATCH, Val)
              else (case OptType Option of
                 WnbdOptBool \<Rightarrow>
                   if length RData \<noteq> 8 then (STATUS_OBJECT_TYPE_MISMATCH, Val)
                   else (STATUS_SUCCESS,
                     \<lparr>ValType = OptType Option, Data = bool_data ((le_word RData :: u64) \<noteq> 0)\<rparr>)
               | WnbdOptInt64 \<Rightarrow>
                   if length RData \<noteq> 8 then (STATUS_OBJECT_TYPE_MISMATCH, Val)
                   else (STATUS_SUCCESS,
                     \<lparr>ValType = OptType Option, Data = int64_data (le_word RData)\<rparr>)
               | WnbdOptWstr \<Rightarrow>
                   if length RData > 512 then (STATUS_BUFFER_OVERFLOW, Val)
                   else (STATUS_SUCCESS,
                     \<lparr>ValType = OptType Option,
                      Data = RData @ replicate (512 - length RData) 0\<rparr>)
               | WnbdOptUnknown \<Rightarrow> (STATUS_OBJECT_TYPE_MISMATCH, Val))))"

definition WnbdGetDrvOpt ::
  "'r registry \<Rightarrow> 'r \<Rightarrow> WNBD_OPTION list \<Rightarrow> wstr \<Rightarrow> WNBD_OPTION_VALUE \<Rightarrow> bool \<Rightarrow>
     u32 \<times> WNBD_OPTION_VALUE" where
  "WnbdGetDrvOpt R r opts Name Val Persistent =
     (if Persistent then WnbdGetPersistentOpt R r opts Name Val
      else case WnbdFindOpt opts Name of
             None \<Rightarrow> (STATUS_OBJECT_NAME_NOT_FOUND, Val)
           | Some i \<Rightarrow> (STATUS_SUCCESS, OptValue (opts ! i)))"

definition WstrToBool :: "wstr \<Rightarrow> u32 \<times> bool" where
  "WstrToBool s =
     (if list_ex (wcsieq s) (map wlit [''1'', ''t'', ''true'', ''yes'', ''y''])
      then (STATUS_SUCCESS, True)
      else if list_ex (wcsieq s) (map wlit [''0'', ''f'', ''false'', ''no'', ''n''])
      then (STATUS_SUCCESS, False)
      else (STATUS_INVALID_PARAMETER, False))"

text \<open>
  \<open>toInt64\<close> is \<^verbatim>\<open>RtlUnicodeStringToInt64\<close> on the string buffer with its length
  field; the code passes length 0.
\<close>

definition WnbdProcessOptionValue ::
  "(nat \<Rightarrow> wstr \<Rightarrow> u32 \<times> u64) \<Rightarrow> WNBD_OPTION \<Rightarrow> WNBD_OPTION_VALUE \<Rightarrow>
     u32 \<times> WNBD_OPTION_VALUE" where
  "WnbdProcessOptionValue toInt64 Option Val =
     (let Val = (if ValType Val = WnbdOptWstr
                 then Val\<lparr>Data := (Data Val)[510 := 0, 511 := 0]\<rparr> else Val)
      in if ValType Val = OptType Option then (STATUS_SUCCESS, Val)
         else if ValType Val \<noteq> WnbdOptWstr then (STATUS_OBJECT_TYPE_MISMATCH, Val)
         else (case OptType Option of
                 WnbdOptBool \<Rightarrow>
                   (let (Status, b) = WstrToBool (AsWstr (Data Val))
                    in if Status = 0
                       then (Status, \<lparr>ValType = OptType Option, Data = bool_data b\<rparr>)
                       else (Status, Val))
               | WnbdOptInt64 \<Rightarrow>
                   (let (Status, v) = toInt64 0 (AsWstr (Data Val))
                    in if Status = 0
                       then (Status, \<lparr>ValType = OptType Option, Data = int64_data v\<rparr>)
                       else (Status, Val))
               | _ \<Rightarrow> (STATUS_OBJECT_TYPE_MISMATCH, Val)))"

definition WnbdSetDrvOpt ::
  "'r registry \<Rightarrow> (nat \<Rightarrow> wstr \<Rightarrow> u32 \<times> u64) \<Rightarrow> 'r \<Rightarrow> WNBD_OPTION list \<Rightarrow> wstr \<Rightarrow>
     WNBD_OPTION_VALUE \<Rightarrow> bool \<Rightarrow> u32 \<times> 'r \<times> WNBD_OPTION list \<times> WNBD_OPTION_VALUE" where
  "WnbdSetDrvOpt R toInt64 r opts Name Val Persistent =
     (case WnbdFindOpt opts Name of
        None \<Rightarrow> (STATUS_OBJECT_NAME_NOT_FOUND, r, opts, Val)
      | Some i \<Rightarrow>
          (let Option = opts ! i;
               (Status, Val) = WnbdProcessOptionValue toInt64 Option Val
           in if Status \<noteq> 0 then (Status, r, opts, Val)
              else (let (Status, r) =
                      (if Persistent
                       then ZwSetValueKey R r (wcs Name) (WnbdOptRegType (OptType Option))
                              (take (WnbdOptRegSize (OptType Option)) (Data Val))
                       else (STATUS_SUCCESS, r))
                    in if Status \<noteq> 0 then (Status, r, opts, Val)
                       else (STATUS_SUCCESS, r, opts[i := Option\<lparr>OptValue := Val\<rparr>], Val))))"

definition WnbdResetDrvOpt ::
  "'r registry \<Rightarrow> 'r \<Rightarrow> WNBD_OPTION list \<Rightarrow> wstr \<Rightarrow> bool \<Rightarrow>
     u32 \<times> 'r \<times> WNBD_OPTION list" where
  "WnbdResetDrvOpt R r opts Name Persistent =
     (case WnbdFindOpt opts Name of
        None \<Rightarrow> (STATUS_OBJECT_NAME_NOT_FOUND, r, opts)
      | Some i \<Rightarrow>
          (let (Status, r) = (if Persistent then ZwDeleteValueKey R r (wcs Name)
                              else (STATUS_SUCCESS, r))
           in if Status \<noteq> 0 then (Status, r, opts)
              else (STATUS_SUCCESS, r,
                    opts[i := (opts ! i)\<lparr>OptValue := OptDefault (opts ! i)\<rparr>])))"

definition reload_one ::
  "'r registry \<Rightarrow> (nat \<Rightarrow> wstr \<Rightarrow> u32 \<times> u64) \<Rightarrow> 'r \<Rightarrow> nat \<Rightarrow> WNBD_OPTION list \<Rightarrow>
     u32 \<times> WNBD_OPTION list" where
  "reload_one R toInt64 r i opts =
     (let Option = opts ! i;
          (Status, Val) = WnbdGetPersistentOpt R r opts (OptName Option)
                            \<lparr>ValType = WnbdOptUnknown, Data = replicate 512 0\<rparr>
      in if Status \<noteq> 0 then (Status, opts)
         else (let (Status, Val) = WnbdProcessOptionValue toInt64 Option Val
               in if Status \<noteq> 0 then (Status, opts)
                  else (Status, opts[i := Option\<lparr>OptValue := Val\<rparr>])))"

fun reload_from ::
  "'r registry \<Rightarrow> (nat \<Rightarrow> wstr \<Rightarrow> u32 \<times> u64) \<Rightarrow> 'r \<Rightarrow> nat list \<Rightarrow> u32 \<Rightarrow> WNBD_OPTION list \<Rightarrow>
     u32 \<times> WNBD_OPTION list" where
  "reload_from R toInt64 r [] Status opts = (Status, opts)"
| "reload_from R toInt64 r (i # is) Status opts =
     (let (Status, opts) = reload_one R toInt64 r i opts
      in reload_from R toInt64 r is Status opts)"

definition WnbdReloadPersistentOptions ::
  "'r registry \<Rightarrow> (nat \<Rightarrow> wstr \<Rightarrow> u32 \<times> u64) \<Rightarrow> 'r \<Rightarrow> WNBD_OPTION list \<Rightarrow>
     u32 \<times> WNBD_OPTION list" where
  "WnbdReloadPersistentOptions R toInt64 r opts =
     reload_from R toInt64 r [0..<length opts] STATUS_SUCCESS opts"

text \<open>
  The entries written to the option list buffer, in order, with the status and the buffer
  size left in \<^verbatim>\<open>*BufferSize\<close>; \<^verbatim>\<open>Count\<close> is their number.
\<close>

definition list_entry ::
  "'r registry \<Rightarrow> 'r \<Rightarrow> WNBD_OPTION list \<Rightarrow> bool \<Rightarrow> WNBD_OPTION \<Rightarrow> WNBD_OPTION list" where
  "list_entry R r opts Persistent op =
     (if Persistent
      then (let (Status, Val) = WnbdGetPersistentOpt R r opts (OptName op)
                                  \<lparr>ValType = WnbdOptUnknown, Data = replicate 512 0\<rparr>
            in if Status = 0 then [op\<lparr>OptValue := Val\<rparr>] else [])
      else [op])"

definition WnbdListDrvOpt ::
  "'r registry \<Rightarrow> 'r \<Rightarrow> WNBD_OPTION list \<Rightarrow> nat \<Rightarrow> bool \<Rightarrow>
     u32 \<times> nat \<times> WNBD_OPTION list" where
  "WnbdListDrvOpt R r opts BufferSize Persistent =
     (let RequiredBuffSize = 1368 * length opts + 1376
      in if BufferSize < RequiredBuffSize
         then (STATUS_BUFFER_TOO_SMALL, RequiredBuffSize, [])
         else (STATUS_SUCCESS, BufferSize,
               concat (map (list_entry R r opts Persistent) opts)))"

section \<open>Invariant\<close>

text \<open>
  The table keeps the names and types it was built with, so that the enumeration
  \<^verbatim>\<open>WNBD_OPT_KEY\<close> addresses the right rows, and every value has the type of its row.
\<close>

definition value_ok :: "WnbdOptValType \<Rightarrow> WNBD_OPTION_VALUE \<Rightarrow> bool" where
  "value_ok t v \<longleftrightarrow> ValType v = t \<and> length (Data v) = 512"

definition opts_ok :: "WNBD_OPTION list \<Rightarrow> bool" where
  "opts_ok opts \<longleftrightarrow>
     map OptName opts = map OptName WnbdDriverOptions \<and>
     map OptType opts = map OptType WnbdDriverOptions \<and>
     map OptDefault opts = map OptDefault WnbdDriverOptions \<and>
     (\<forall>op \<in> set opts. value_ok (OptType op) (OptValue op) \<and> value_ok (OptType op) (OptDefault op))"

lemma opts_ok_length [simp]: "opts_ok opts \<Longrightarrow> length opts = 10"
  unfolding opts_ok_def by (drule conjunct1, drule arg_cong [of _ _ length])
    (simp add: WnbdDriverOptions_def)

lemma opts_ok_nth:
  assumes "opts_ok opts" "i < 10"
  shows "value_ok (OptType (opts ! i)) (OptValue (opts ! i))"
    and "value_ok (OptType (opts ! i)) (OptDefault (opts ! i))"
    and "OptName (opts ! i) = OptName (WnbdDriverOptions ! i)"
    and "OptType (opts ! i) = OptType (WnbdDriverOptions ! i)"
    and "OptDefault (opts ! i) = OptDefault (WnbdDriverOptions ! i)"
proof -
  have len: "length opts = 10" "length WnbdDriverOptions = 10"
    using assms(1) by (simp_all add: WnbdDriverOptions_def)
  then have "opts ! i \<in> set opts" using assms(2) by simp
  then show "value_ok (OptType (opts ! i)) (OptValue (opts ! i))"
    and "value_ok (OptType (opts ! i)) (OptDefault (opts ! i))"
    using assms(1) by (simp_all add: opts_ok_def)
  have "map OptName opts ! i = map OptName WnbdDriverOptions ! i"
    and "map OptType opts ! i = map OptType WnbdDriverOptions ! i"
    and "map OptDefault opts ! i = map OptDefault WnbdDriverOptions ! i"
    using assms(1) by (simp_all add: opts_ok_def)
  with len assms(2) show "OptName (opts ! i) = OptName (WnbdDriverOptions ! i)"
    and "OptType (opts ! i) = OptType (WnbdDriverOptions ! i)"
    and "OptDefault (opts ! i) = OptDefault (WnbdDriverOptions ! i)" by simp_all
qed

lemma opts_ok_update:
  assumes "opts_ok opts" "i < 10" "value_ok (OptType (opts ! i)) v"
  shows "opts_ok (opts[i := (opts ! i)\<lparr>OptValue := v\<rparr>])"
proof -
  have len: "i < length opts" using assms by simp
  have "map OptName (opts[i := (opts ! i)\<lparr>OptValue := v\<rparr>]) = map OptName opts"
    and "map OptType (opts[i := (opts ! i)\<lparr>OptValue := v\<rparr>]) = map OptType opts"
    and "map OptDefault (opts[i := (opts ! i)\<lparr>OptValue := v\<rparr>]) = map OptDefault opts"
    using len by (simp_all add: map_update list_update_same_conv)
  moreover have "\<forall>op \<in> set (opts[i := (opts ! i)\<lparr>OptValue := v\<rparr>]).
      value_ok (OptType op) (OptValue op) \<and> value_ok (OptType op) (OptDefault op)"
    using assms opts_ok_nth [OF assms(1,2)] set_update_subset_insert [of opts i]
    by (force simp: opts_ok_def)
  ultimately show ?thesis using assms(1) by (simp add: opts_ok_def)
qed

lemma find_opt_from_Some:
  "find_opt_from k ops Name = Some i \<Longrightarrow>
     k \<le> i \<and> i < k + length ops \<and> wcsieq Name (OptName (ops ! (i - k)))"
proof (induction ops arbitrary: k)
  case (Cons op ops)
  show ?case
  proof (cases "wcsieq Name (OptName op)")
    case True
    with Cons.prems show ?thesis by simp
  next
    case False
    with Cons.prems have "find_opt_from (Suc k) ops Name = Some i" by simp
    then have "Suc k \<le> i \<and> i < Suc k + length ops \<and> wcsieq Name (OptName (ops ! (i - Suc k)))"
      by (rule Cons.IH)
    then show ?thesis by (auto simp: nth_Cons')
  qed
qed simp

lemma WnbdFindOpt_Some:
  "WnbdFindOpt opts Name = Some i \<Longrightarrow> i < length opts \<and> wcsieq Name (OptName (opts ! i))"
  using find_opt_from_Some [of 0 opts Name i] by (simp add: WnbdFindOpt_def)

lemma find_opt_from_names:
  "map OptName ops = map OptName ops' \<Longrightarrow> find_opt_from k ops Name = find_opt_from k ops' Name"
proof (induction ops arbitrary: ops' k)
  case (Cons op ops)
  then obtain op' ops'' where "ops' = op' # ops''" by (cases ops') auto
  with Cons show ?case by auto
qed simp

lemma WnbdFindOpt_ok:
  "opts_ok opts \<Longrightarrow> WnbdFindOpt opts Name = WnbdFindOpt WnbdDriverOptions Name"
  by (auto simp: opts_ok_def WnbdFindOpt_def intro: find_opt_from_names)

text \<open>Equal names up to case find the same row.\<close>

lemma find_opt_from_cong:
  assumes "wcsieq n n'" shows "find_opt_from k ops n = find_opt_from k ops n'"
  using assms by (induction ops arbitrary: k) (auto simp: wcsieq_def)

lemma WnbdFindOpt_own:
  assumes "opts_ok opts" "WnbdFindOpt opts Name = Some i"
  shows "WnbdFindOpt opts (OptName (opts ! i)) = Some i"
  using WnbdFindOpt_Some [OF assms(2)] assms(2) find_opt_from_cong [of Name "OptName (opts ! i)" 0 opts]
  by (simp add: WnbdFindOpt_def)

section \<open>Every operation keeps the table well-typed\<close>

lemma value_ok_bool [simp]: "value_ok WnbdOptBool \<lparr>ValType = WnbdOptBool, Data = bool_data b\<rparr>"
  by (simp add: value_ok_def bool_data_def)

lemma value_ok_int64 [simp]: "value_ok WnbdOptInt64 \<lparr>ValType = WnbdOptInt64, Data = int64_data w\<rparr>"
  by (simp add: value_ok_def int64_data_def)

lemma opts_ok_init: "opts_ok WnbdDriverOptions"
  by (simp add: opts_ok_def WnbdDriverOptions_def bool_opt_def int64_opt_def)

lemma WnbdProcessOptionValue_ok:
  assumes "WnbdProcessOptionValue c Option Val = (0, Val')" "length (Data Val) = 512"
  shows "value_ok (OptType Option) Val'"
  using assms unfolding WnbdProcessOptionValue_def
  by (auto simp: Let_def value_ok_def bool_data_def int64_data_def
      split: if_splits prod.splits WnbdOptValType.splits)

lemma WnbdGetPersistentOpt_ok:
  assumes "WnbdGetPersistentOpt R r opts Name Val = (0, Val')" "WnbdFindOpt opts Name = Some i"
  shows "value_ok (OptType (opts ! i)) Val'"
  using assms unfolding WnbdGetPersistentOpt_def
  by (auto simp: Let_def value_ok_def bool_data_def int64_data_def
      split: if_splits prod.splits WnbdOptValType.splits)

lemma WnbdSetDrvOpt_ok:
  assumes "opts_ok opts" "length (Data Val) = 512"
    and "WnbdSetDrvOpt R c r opts Name Val Persistent = (Status, r', opts', Val')"
  shows "opts_ok opts'"
proof (cases "WnbdFindOpt opts Name")
  case None
  with assms show ?thesis by (simp add: WnbdSetDrvOpt_def)
next
  case (Some i)
  with assms(1) WnbdFindOpt_Some [OF Some] have i: "i < 10" by simp
  from Some assms(1,3) show ?thesis
    unfolding WnbdSetDrvOpt_def
    by (auto simp: Let_def split: prod.splits if_splits
        intro!: opts_ok_update [OF assms(1) i] WnbdProcessOptionValue_ok [OF _ assms(2)])
qed

lemma WnbdResetDrvOpt_ok:
  assumes "opts_ok opts" "WnbdResetDrvOpt R r opts Name Persistent = (Status, r', opts')"
  shows "opts_ok opts'"
proof (cases "WnbdFindOpt opts Name")
  case None
  with assms show ?thesis by (simp add: WnbdResetDrvOpt_def)
next
  case (Some i)
  with assms(1) WnbdFindOpt_Some [OF Some] have i: "i < 10" by simp
  from Some assms show ?thesis
    unfolding WnbdResetDrvOpt_def
    by (auto simp: Let_def split: prod.splits if_splits
        intro!: opts_ok_update [OF assms(1) i] opts_ok_nth(2) [OF assms(1) i])
qed

lemma reload_one_ok:
  assumes "opts_ok opts" "i < 10" shows "opts_ok (snd (reload_one R c r i opts))"
proof -
  let ?z = "\<lparr>ValType = WnbdOptUnknown, Data = replicate 512 0\<rparr>"
  obtain S V where g: "WnbdGetPersistentOpt R r opts (OptName (opts ! i)) ?z = (S, V)"
    by (cases "WnbdGetPersistentOpt R r opts (OptName (opts ! i)) ?z") auto
  obtain S' V' where q: "WnbdProcessOptionValue c (opts ! i) V = (S', V')"
    by (cases "WnbdProcessOptionValue c (opts ! i) V") auto
  show ?thesis
  proof (cases "S = 0 \<and> S' = 0")
    case True
    with g obtain j where "WnbdFindOpt opts (OptName (opts ! i)) = Some j"
      by (auto simp: WnbdGetPersistentOpt_def split: option.splits)
    with g True have "length (Data V) = 512"
      using WnbdGetPersistentOpt_ok by (fastforce simp: value_ok_def)
    with q True have "value_ok (OptType (opts ! i)) V'"
      using WnbdProcessOptionValue_ok by blast
    with assms show ?thesis
      by (simp add: reload_one_def Let_def g q True opts_ok_update)
  next
    case False
    with assms show ?thesis by (auto simp: reload_one_def Let_def g q)
  qed
qed

lemma reload_from_ok:
  "opts_ok opts \<Longrightarrow> \<forall>i \<in> set is. i < 10 \<Longrightarrow>
     opts_ok (snd (reload_from R c r is S opts))"
proof (induction "is" arbitrary: S opts)
  case (Cons i "is")
  then show ?case
    using reload_one_ok [of opts i R c r] by (auto simp: Let_def split: prod.splits)
qed simp

lemma WnbdReloadPersistentOptions_ok:
  "opts_ok opts \<Longrightarrow> opts_ok (snd (WnbdReloadPersistentOptions R c r opts))"
  unfolding WnbdReloadPersistentOptions_def by (rule reload_from_ok) auto

section \<open>Persistence\<close>

text \<open>
  What the driver relies on in the registry: a value that was stored is read back under
  any spelling of its name.
\<close>

definition reg_lawful :: "'r registry \<Rightarrow> bool" where
  "reg_lawful R \<longleftrightarrow>
     (\<forall>r n t d r' n'. ZwSetValueKey R r n t d = (0, r') \<longrightarrow> wcsieq n n' \<longrightarrow>
        length d \<le> 512 \<longrightarrow> ZwQueryValueKey R r' n' = (0, t, d))"

lemma wcs_wcs [simp]: "wcs (wcs n) = wcs n"
  by (auto simp: wcs_def takeWhile_eq_all_conv dest: set_takeWhileD)

lemma AsInt64_int64_data [simp]: "AsInt64 (int64_data w) = w"
  by (simp add: AsInt64_def int64_data_def le_roundtrip)

lemma AsBool_bool_data [simp]: "AsBool (bool_data b) = b"
  by (simp add: AsBool_def bool_data_def)

lemma reload_one_other:
  "i \<noteq> j \<Longrightarrow> snd (reload_one R c r j opts) ! i = opts ! i"
  by (auto simp: reload_one_def Let_def split: prod.splits)

lemma reload_from_other:
  "i \<notin> set is \<Longrightarrow> snd (reload_from R c r is S opts) ! i = opts ! i"
proof (induction "is" arbitrary: S opts)
  case (Cons j "is")
  then show ?case
    using reload_one_other [of i j R c r opts] by (auto simp: Let_def split: prod.splits)
qed simp

lemma reload_one_int64:
  assumes "opts_ok opts" "i < 10" "WnbdFindOpt opts (OptName (opts ! i)) = Some i"
    and "OptType (opts ! i) = WnbdOptInt64" "length d = 8"
    and "ZwQueryValueKey R r (wcs (OptName (opts ! i))) = (0, REG_QWORD, d)"
  shows "AsInt64 (Data (OptValue (snd (reload_one R c r i opts) ! i))) = le_word d"
  using assms
  by (simp add: reload_one_def Let_def WnbdGetPersistentOpt_def WnbdProcessOptionValue_def)

lemma reload_from_int64:
  assumes "opts_ok opts" "i \<in> set is" "distinct is" "\<forall>j \<in> set is. j < 10"
    and "WnbdFindOpt WnbdDriverOptions (OptName (WnbdDriverOptions ! i)) = Some i"
    and "OptType (WnbdDriverOptions ! i) = WnbdOptInt64" "length d = 8"
    and "ZwQueryValueKey R r (wcs (OptName (WnbdDriverOptions ! i))) = (0, REG_QWORD, d)"
  shows "AsInt64 (Data (OptValue (snd (reload_from R c r is S opts) ! i))) = le_word d"
  using assms(1-4)
proof (induction "is" arbitrary: S opts)
  case (Cons j "is")
  obtain S' opts' where one: "reload_one R c r j opts = (S', opts')"
    by (cases "reload_one R c r j opts")
  have ok: "opts_ok opts'" using reload_one_ok [of opts j R c r] Cons.prems one by simp
  show ?case
  proof (cases "i = j")
    case True
    with Cons.prems have i: "i < 10" "i \<notin> set is" by auto
    have "AsInt64 (Data (OptValue (opts' ! i))) = le_word d"
      using reload_one_int64 [OF Cons.prems(1) i(1), of d R r c] opts_ok_nth [OF Cons.prems(1) i(1)]
        assms(5-8) one True WnbdFindOpt_ok [OF Cons.prems(1)] by simp
    then show ?thesis using reload_from_other [OF i(2), of R c r S' opts'] one True
      by simp
  next
    case False
    with Cons ok one show ?thesis by simp
  qed
qed simp

text \<open>
  C40: a 64-bit option that was set persistently survives a driver reload: reading the
  registry into a table of defaults gives the value that was in force after the set.
\<close>

theorem persistent_int64_survives_reload:
  assumes "reg_lawful R" "opts_ok opts" "opts_ok opts0" "length (Data Val) = 512"
    and "WnbdFindOpt opts Name = Some i" "OptType (opts ! i) = WnbdOptInt64"
    and set: "WnbdSetDrvOpt R c r opts Name Val True = (STATUS_SUCCESS, r', opts', Val')"
  shows "AsInt64 (Data (OptValue (snd (WnbdReloadPersistentOptions R c r' opts0) ! i)))
           = AsInt64 (Data (OptValue (opts' ! i)))"
proof -
  have i: "i < 10" and nm: "wcsieq Name (OptName (opts ! i))"
    using WnbdFindOpt_Some [OF assms(5)] assms(2) by auto
  have own: "WnbdFindOpt WnbdDriverOptions (OptName (WnbdDriverOptions ! i)) = Some i"
    using WnbdFindOpt_own [OF assms(2,5)] opts_ok_nth(3) [OF assms(2) i]
      WnbdFindOpt_ok [OF assms(2)] by simp
  have ty: "OptType (WnbdDriverOptions ! i) = WnbdOptInt64"
    using opts_ok_nth(4) [OF assms(2) i] assms(6) by simp
  from set assms(5,6) obtain w where
    pv: "WnbdProcessOptionValue c (opts ! i) Val = (0, Val')"
    and zs: "ZwSetValueKey R r (wcs Name) REG_QWORD (take 8 (Data Val')) = (0, r')"
    and opts': "opts' = opts[i := (opts ! i)\<lparr>OptValue := Val'\<rparr>]"
    by (auto simp: WnbdSetDrvOpt_def Let_def split: prod.splits if_splits)
  have len: "length (Data Val') = 512"
    using WnbdProcessOptionValue_ok [OF pv assms(4)] by (simp add: value_ok_def)
  have "wcsieq (wcs Name) (wcs (OptName (WnbdDriverOptions ! i)))"
    using nm opts_ok_nth(3) [OF assms(2) i] by (simp add: wcsieq_def)
  with assms(1) zs len
  have "ZwQueryValueKey R r' (wcs (OptName (WnbdDriverOptions ! i)))
          = (0, REG_QWORD, take 8 (Data Val'))"
    unfolding reg_lawful_def by simp
  then have "AsInt64 (Data (OptValue (snd (WnbdReloadPersistentOptions R c r' opts0) ! i)))
      = le_word (take 8 (Data Val'))"
    unfolding WnbdReloadPersistentOptions_def
    using assms(3) i own ty len by (intro reload_from_int64) auto
  moreover have "OptValue (opts' ! i) = Val'" using opts' i assms(2) by simp
  ultimately show ?thesis by (simp add: AsInt64_def)
qed

text \<open>A registry that keeps its values in a map from lower case names.\<close>

definition map_registry :: "(wstr \<Rightarrow> (u32 \<times> bytes) option) registry" where
  "map_registry = \<lparr>
     ZwQueryValueKey = (\<lambda>r n. case r (map towlower (wcs n)) of
       None \<Rightarrow> (STATUS_OBJECT_NAME_NOT_FOUND, 0, []) | Some (t, b) \<Rightarrow> (STATUS_SUCCESS, t, b)),
     ZwSetValueKey = (\<lambda>r n t b. (STATUS_SUCCESS, r(map towlower (wcs n) \<mapsto> (t, b)))),
     ZwDeleteValueKey = (\<lambda>r n. (STATUS_SUCCESS, r(map towlower (wcs n) := None)))\<rparr>"

lemma map_registry_lawful: "reg_lawful map_registry"
  by (auto simp: reg_lawful_def map_registry_def wcsieq_def)

theorem persistent_int64_survives_reload_witness:
  "\<exists>r' opts' Val'. WnbdSetDrvOpt map_registry (\<lambda>_ _. (1, 0)) (\<lambda>_. None) WnbdDriverOptions (wlit ''loglevel'')
        \<lparr>ValType = WnbdOptInt64, Data = int64_data 5\<rparr> True = (STATUS_SUCCESS, r', opts', Val') \<and>
     AsInt64 (Data (OptValue (snd (WnbdReloadPersistentOptions map_registry (\<lambda>_ _. (1, 0)) r' WnbdDriverOptions) ! 0))) = 5"
proof -
  let ?v = "\<lparr>ValType = WnbdOptInt64, Data = int64_data 5\<rparr>" and ?c = "\<lambda>_ _. (1 :: u32, 0 :: u64)"
  have op: "WnbdDriverOptions ! 0 = int64_opt ''LogLevel'' 1" by (simp add: WnbdDriverOptions_def)
  have "wcsieq (wlit ''loglevel'') (wlit ''LogLevel'')" by (simp add: wcsieq_def wcs_def wlit_def towlower_def)
  then have f: "WnbdFindOpt WnbdDriverOptions (wlit ''loglevel'') = Some 0"
    by (simp add: WnbdFindOpt_def WnbdDriverOptions_def int64_opt_def)
  obtain r' opts' Val' where r: "WnbdSetDrvOpt map_registry ?c (\<lambda>_. None) WnbdDriverOptions (wlit ''loglevel'') ?v True =
      (STATUS_SUCCESS, r', opts', Val')" and v: "opts' = WnbdDriverOptions[0 := (WnbdDriverOptions ! 0)\<lparr>OptValue := ?v\<rparr>]"
    by (simp add: WnbdSetDrvOpt_def f WnbdProcessOptionValue_def op int64_opt_def map_registry_def)
  have "AsInt64 (Data (OptValue (opts' ! 0))) = 5"
    by (simp add: v) (simp add: WnbdDriverOptions_def)
  moreover have "length (Data ?v) = 512" "OptType (WnbdDriverOptions ! 0) = WnbdOptInt64"
    by (simp_all add: int64_data_def op int64_opt_def)
  ultimately show ?thesis
    using persistent_int64_survives_reload [OF map_registry_lawful opts_ok_init opts_ok_init _ f _ r] r by auto
qed

end
