(* ===== verification/Device.thy ===== *)
theory Device
  imports HashIndex Srb Options
begin

text \<open>
  The disk device and its request queues: the structures of
  \<^verbatim>\<open>driver/scsi_driver_extensions.h\<close> and the queue, pool, completion and reference
  routines of \<^verbatim>\<open>driver/util.c\<close>. A linked list is the list of the pointers it links;
  a spin lock makes the operation it brackets one step, so it does not appear in the
  state. Pool allocations, the clock and the identity of the woken thread come from the
  kernel and are arguments.
\<close>

section \<open>State\<close>

record SRB_QUEUE_ELEMENT =
  ElemSrb :: ptr
  StartingLbn :: u64
  DataLength :: u32
  FUA :: bool
  ElemExtension :: ptr
  Tag :: u64
  Aborted :: bool
  Completed :: bool
  Pooled :: bool
  ReqTimestamp :: u64

definition zero_element :: SRB_QUEUE_ELEMENT where
  "zero_element = \<lparr>ElemSrb = 0, StartingLbn = 0, DataLength = 0, FUA = False,
     ElemExtension = 0, Tag = 0, Aborted = False, Completed = False, Pooled = False,
     ReqTimestamp = 0\<rparr>"

record WNBD_DISK_DEVICE =
  Connected :: bool
  Properties :: WNBD_PROPERTIES
  ConnectionId :: u64
  Bus :: u16
  Target :: u16
  Lun :: u16
  DiskNumber :: u32
  PNPDeviceID :: "u16 list"
  PDO :: "ptr option"
  InquiryData :: "bytes option"
  PendingReqListHead :: "ptr list"
  SubmittedReqListHead :: "ptr list"
  SubmittedReqHashBuckets :: "ptr list list"
  SrbElementPool :: "ptr list"
  DeviceEvent :: nat
  DeviceMonitorThread :: "ptr option"
  HardRemoveDevice :: bool
  DeviceRemovalEvent :: bool
  RundownProtection :: EX_RUNDOWN_REF
  Stats :: WNBD_DRV_STATS

text \<open>
  The kernel memory the driver works on: queue elements with the set of those currently
  allocated, request blocks, the trace of the requests handed back to the port driver
  (\<^verbatim>\<open>StorPortNotification(RequestComplete, ...)\<close>, oldest first), the static
  \<^verbatim>\<open>RequestHandle\<close> counter of the dispatcher, and the number of memory descriptor
  lists allocated and locked.
\<close>

record kmem =
  Elems :: "ptr \<Rightarrow> SRB_QUEUE_ELEMENT"
  Allocated :: "ptr set"
  Srbs :: "ptr \<Rightarrow> SRB"
  Notified :: "ptr list"
  RequestHandleCounter :: u64
  Mdls :: nat
  LockedMdls :: nat

type_synonym dstate = "kmem \<times> WNBD_DISK_DEVICE"

definition elem_upd :: "ptr \<Rightarrow> (SRB_QUEUE_ELEMENT \<Rightarrow> SRB_QUEUE_ELEMENT) \<Rightarrow> kmem \<Rightarrow> kmem" where
  "elem_upd p f m = m\<lparr>Elems := (Elems m)(p := f (Elems m p))\<rparr>"

definition srb_upd :: "ptr \<Rightarrow> (SRB \<Rightarrow> SRB) \<Rightarrow> kmem \<Rightarrow> kmem" where
  "srb_upd p f m = m\<lparr>Srbs := (Srbs m)(p := f (Srbs m p))\<rparr>"

definition stat_upd :: "(WNBD_DRV_STATS \<Rightarrow> WNBD_DRV_STATS) \<Rightarrow> WNBD_DISK_DEVICE \<Rightarrow> WNBD_DISK_DEVICE" where
  "stat_upd f d = d\<lparr>Stats := f (Stats d)\<rparr>"

abbreviation srb_of :: "kmem \<Rightarrow> ptr \<Rightarrow> SRB" where
  "srb_of m p \<equiv> Srbs m (ElemSrb (Elems m p))"

lemma elem_upd_sel [simp]:
  "Elems (elem_upd p f m) = (Elems m)(p := f (Elems m p))"
  "Allocated (elem_upd p f m) = Allocated m"
  "Srbs (elem_upd p f m) = Srbs m"
  "Notified (elem_upd p f m) = Notified m"
  "RequestHandleCounter (elem_upd p f m) = RequestHandleCounter m"
  "Mdls (elem_upd p f m) = Mdls m"
  "LockedMdls (elem_upd p f m) = LockedMdls m"
  by (simp_all add: elem_upd_def)

lemma srb_upd_sel [simp]:
  "Elems (srb_upd p f m) = Elems m"
  "Allocated (srb_upd p f m) = Allocated m"
  "Srbs (srb_upd p f m) = (Srbs m)(p := f (Srbs m p))"
  "Notified (srb_upd p f m) = Notified m"
  "RequestHandleCounter (srb_upd p f m) = RequestHandleCounter m"
  "Mdls (srb_upd p f m) = Mdls m"
  "LockedMdls (srb_upd p f m) = LockedMdls m"
  by (simp_all add: srb_upd_def)

lemma stat_upd_sel [simp]:
  "Stats (stat_upd f d) = f (Stats d)"
  "Connected (stat_upd f d) = Connected d"
  "Properties (stat_upd f d) = Properties d"
  "ConnectionId (stat_upd f d) = ConnectionId d"
  "Bus (stat_upd f d) = Bus d"
  "Target (stat_upd f d) = Target d"
  "Lun (stat_upd f d) = Lun d"
  "PendingReqListHead (stat_upd f d) = PendingReqListHead d"
  "SubmittedReqListHead (stat_upd f d) = SubmittedReqListHead d"
  "SubmittedReqHashBuckets (stat_upd f d) = SubmittedReqHashBuckets d"
  "SrbElementPool (stat_upd f d) = SrbElementPool d"
  "DeviceEvent (stat_upd f d) = DeviceEvent d"
  "HardRemoveDevice (stat_upd f d) = HardRemoveDevice d"
  "DeviceRemovalEvent (stat_upd f d) = DeviceRemovalEvent d"
  "RundownProtection (stat_upd f d) = RundownProtection d"
  by (simp_all add: stat_upd_def)

section \<open>Submitted requests\<close>

abbreviation (input) WNBD_SUBMITTED_REQ_HASH_BUCKETS :: nat where
  "WNBD_SUBMITTED_REQ_HASH_BUCKETS \<equiv> 256"

definition WnbdSubmittedReqBucket :: "u64 \<Rightarrow> nat" where
  "WnbdSubmittedReqBucket t = unat (t AND 0xFF)"

definition WnbdInitSubmittedReqHash :: "WNBD_DISK_DEVICE \<Rightarrow> WNBD_DISK_DEVICE" where
  "WnbdInitSubmittedReqHash d =
     d\<lparr>SubmittedReqHashBuckets := replicate WNBD_SUBMITTED_REQ_HASH_BUCKETS []\<rparr>"

definition WnbdSubmittedReqInsert :: "kmem \<Rightarrow> ptr \<Rightarrow> WNBD_DISK_DEVICE \<Rightarrow> WNBD_DISK_DEVICE" where
  "WnbdSubmittedReqInsert m e d =
     d\<lparr>SubmittedReqListHead := SubmittedReqListHead d @ [e],
       SubmittedReqHashBuckets :=
         bucket_insert (WnbdSubmittedReqBucket (Tag (Elems m e))) e (SubmittedReqHashBuckets d)\<rparr>"

definition submitted_unlink :: "ptr \<Rightarrow> WNBD_DISK_DEVICE \<Rightarrow> WNBD_DISK_DEVICE" where
  "submitted_unlink e d =
     d\<lparr>SubmittedReqListHead := remove1 e (SubmittedReqListHead d),
       SubmittedReqHashBuckets := unlink e (SubmittedReqHashBuckets d)\<rparr>"

definition WnbdSubmittedReqRemoveByTag ::
  "kmem \<Rightarrow> u64 \<Rightarrow> WNBD_DISK_DEVICE \<Rightarrow> ptr option \<times> WNBD_DISK_DEVICE" where
  "WnbdSubmittedReqRemoveByTag m t d =
     (case find (\<lambda>e. Tag (Elems m e) = t)
             (SubmittedReqHashBuckets d ! WnbdSubmittedReqBucket t) of
        None \<Rightarrow> (None, d)
      | Some e \<Rightarrow> (Some e, submitted_unlink e d))"

definition WnbdSubmittedReqRemoveHead ::
  "WNBD_DISK_DEVICE \<Rightarrow> ptr option \<times> WNBD_DISK_DEVICE" where
  "WnbdSubmittedReqRemoveHead d =
     (case SubmittedReqListHead d of
        [] \<Rightarrow> (None, d)
      | e # es \<Rightarrow> (Some e, submitted_unlink e d))"

section \<open>The element pool\<close>

abbreviation (input) WNBD_SRB_POOL_SIZE :: nat where "WNBD_SRB_POOL_SIZE \<equiv> 256"

text \<open>One \<^verbatim>\<open>ExAllocatePoolZero\<close>: the kernel's answer is the argument.\<close>

fun ExAllocatePoolZero :: "ptr option \<Rightarrow> kmem \<Rightarrow> ptr option \<times> kmem" where
  "ExAllocatePoolZero None m = (None, m)"
| "ExAllocatePoolZero (Some p) m =
     (Some p, m\<lparr>Elems := (Elems m)(p := zero_element), Allocated := insert p (Allocated m)\<rparr>)"

definition ExFreePool :: "ptr \<Rightarrow> kmem \<Rightarrow> kmem" where
  "ExFreePool p m = m\<lparr>Allocated := Allocated m - {p}\<rparr>"

fun populate :: "nat \<Rightarrow> ptr option list \<Rightarrow> dstate \<Rightarrow> dstate" where
  "populate (Suc n) (Some p # as) (m, d) =
     (let (_, m) = ExAllocatePoolZero (Some p) m;
          m = elem_upd p (\<lambda>e. e\<lparr>Pooled := True\<rparr>) m
      in populate n as (m, d\<lparr>SrbElementPool := p # SrbElementPool d\<rparr>))"
| "populate _ _ s = s"

definition WnbdPopulateSrbElementPool :: "ptr option list \<Rightarrow> dstate \<Rightarrow> dstate" where
  "WnbdPopulateSrbElementPool as s = populate WNBD_SRB_POOL_SIZE as s"

function WnbdDrainSrbElementPool :: "dstate \<Rightarrow> dstate" where
  "WnbdDrainSrbElementPool (m, d) =
     (case SrbElementPool d of
        [] \<Rightarrow> (m, d)
      | e # es \<Rightarrow> WnbdDrainSrbElementPool (ExFreePool e m, d\<lparr>SrbElementPool := es\<rparr>))"
  by pat_completeness auto
termination by (relation "measure (\<lambda>(m, d). length (SrbElementPool d))") auto

declare WnbdDrainSrbElementPool.simps [simp del]

definition WnbdAllocSrbElement :: "ptr option \<Rightarrow> dstate \<Rightarrow> ptr option \<times> dstate" where
  "WnbdAllocSrbElement a s =
     (let (m, d) = s in
      case SrbElementPool d of
        e # es \<Rightarrow>
          (Some e, elem_upd e (\<lambda>_. zero_element\<lparr>Pooled := True\<rparr>) m,
           d\<lparr>SrbElementPool := es\<rparr>)
      | [] \<Rightarrow> (let (p, m) = ExAllocatePoolZero a m in (p, m, d)))"

definition WnbdFreeSrbElement :: "ptr \<Rightarrow> dstate \<Rightarrow> dstate" where
  "WnbdFreeSrbElement e s =
     (let (m, d) = s in
      if Pooled (Elems m e) then (m, d\<lparr>SrbElementPool := e # SrbElementPool d\<rparr>)
      else (ExFreePool e m, d))"

section \<open>Completion and draining\<close>

definition CompleteRequest :: "ptr \<Rightarrow> bool \<Rightarrow> dstate \<Rightarrow> dstate" where
  "CompleteRequest e FreeElement s =
     (let (m, d) = s;
          was = Completed (Elems m e);
          m = elem_upd e (\<lambda>x. x\<lparr>Completed := True\<rparr>) m;
          (m, d) = (if was then (m, d)
                    else (m\<lparr>Notified := Notified m @ [ElemSrb (Elems m e)]\<rparr>,
                          stat_upd (\<lambda>st. st\<lparr>OutstandingIOCount := OutstandingIOCount st - 1\<rparr>) d))
      in if FreeElement then WnbdFreeSrbElement e (m, d) else (m, d))"

definition WnbdDisconnectAsync :: "WNBD_DISK_DEVICE \<Rightarrow> WNBD_DISK_DEVICE" where
  "WnbdDisconnectAsync d = d\<lparr>HardRemoveDevice := True, DeviceRemovalEvent := True\<rparr>"

text \<open>
  The stale connection test of \<^verbatim>\<open>DrainDeviceQueue\<close>; times are in units of 100 ns.
\<close>

definition stale_request :: "WNBD_OPTION list \<Rightarrow> u64 \<Rightarrow> SRB_QUEUE_ELEMENT \<Rightarrow> WNBD_DRV_STATS \<Rightarrow> bool" where
  "stale_request opts TimeNow e st =
     (let ReqMs = opt_int64 opts OptStaleReqTimeoutMs;
          ReqMs = (if ReqMs = 0 then WNBD_DEFAULT_STALE_REQ_TIMEOUT_MS else ReqMs);
          ConnMs = opt_int64 opts OptStaleConnTimeoutMs;
          ConnMs = (if ConnMs = 0 then WNBD_DEFAULT_STALE_CONN_TIMEOUT_MS else ConnMs)
      in ReqTimestamp e \<noteq> 0 \<and> ReqTimestamp e < TimeNow \<and>
         ReqMs < (TimeNow - ReqTimestamp e) div 10000 \<and>
         LastReplyTimestamp st \<noteq> 0 \<and> LastReplyTimestamp st < TimeNow \<and>
         ConnMs < (TimeNow - LastReplyTimestamp st) div 10000)"

definition drain_remove :: "bool \<Rightarrow> WNBD_DISK_DEVICE \<Rightarrow> ptr option \<times> WNBD_DISK_DEVICE" where
  "drain_remove SubmittedRequests d =
     (if SubmittedRequests then WnbdSubmittedReqRemoveHead d
      else case PendingReqListHead d of
             [] \<Rightarrow> (None, d)
           | e # es \<Rightarrow> (Some e, d\<lparr>PendingReqListHead := es\<rparr>))"

definition abort_element :: "bool \<Rightarrow> ptr \<Rightarrow> dstate \<Rightarrow> dstate" where
  "abort_element SubmittedRequests e s =
     (let (m, d) = s;
          m = srb_upd (ElemSrb (Elems m e))
                (\<lambda>srb. srb\<lparr>DataTransferLength := 0, SrbStatus := SRB_STATUS_ABORTED\<rparr>) m
      in if Aborted (Elems m e) then (m, d)
         else (elem_upd e (\<lambda>x. x\<lparr>Aborted := True\<rparr>) m,
               stat_upd (\<lambda>st. if SubmittedRequests
                  then st\<lparr>AbortedSubmittedIORequests := AbortedSubmittedIORequests st + 1\<rparr>
                  else st\<lparr>AbortedUnsubmittedIORequests := AbortedUnsubmittedIORequests st + 1\<rparr>) d))"

abbreviation queue_of :: "bool \<Rightarrow> WNBD_DISK_DEVICE \<Rightarrow> ptr list" where
  "queue_of SubmittedRequests d \<equiv>
     (if SubmittedRequests then SubmittedReqListHead d else PendingReqListHead d)"

lemma complete_lists [simp]:
  "PendingReqListHead (snd (CompleteRequest e b s)) = PendingReqListHead (snd s)"
  "SubmittedReqListHead (snd (CompleteRequest e b s)) = SubmittedReqListHead (snd s)"
  "SubmittedReqHashBuckets (snd (CompleteRequest e b s)) = SubmittedReqHashBuckets (snd s)"
  "DeviceEvent (snd (CompleteRequest e b s)) = DeviceEvent (snd s)"
  "HardRemoveDevice (snd (CompleteRequest e b s)) = HardRemoveDevice (snd s)"
  "Properties (snd (CompleteRequest e b s)) = Properties (snd s)"
  by (cases s; simp add: CompleteRequest_def WnbdFreeSrbElement_def Let_def)+

lemma abort_lists [simp]:
  "PendingReqListHead (snd (abort_element b e s)) = PendingReqListHead (snd s)"
  "SubmittedReqListHead (snd (abort_element b e s)) = SubmittedReqListHead (snd s)"
  "SubmittedReqHashBuckets (snd (abort_element b e s)) = SubmittedReqHashBuckets (snd s)"
  "SrbElementPool (snd (abort_element b e s)) = SrbElementPool (snd s)"
  "DeviceEvent (snd (abort_element b e s)) = DeviceEvent (snd s)"
  "HardRemoveDevice (snd (abort_element b e s)) = HardRemoveDevice (snd s)"
  "Properties (snd (abort_element b e s)) = Properties (snd s)"
  by (cases s; simp add: abort_element_def Let_def)+

lemma drain_remove_Some:
  "drain_remove b d = (Some e, d') \<Longrightarrow> queue_of b d = e # queue_of b d'"
  by (auto simp: drain_remove_def WnbdSubmittedReqRemoveHead_def submitted_unlink_def
      split: list.splits if_splits)

text \<open>The loop of \<^verbatim>\<open>DrainDeviceQueue\<close>; the flag is \<^verbatim>\<open>StaleConnDetected\<close>.\<close>

function drain_loop ::
  "WNBD_OPTION list \<Rightarrow> u64 \<Rightarrow> bool \<Rightarrow> bool \<Rightarrow> bool \<Rightarrow> dstate \<Rightarrow> bool \<times> dstate" where
  "drain_loop opts now SubmittedRequests CheckStaleConn Stale (m, d) =
     (case drain_remove SubmittedRequests d of
        (None, d) \<Rightarrow> (Stale, m, d)
      | (Some e, d) \<Rightarrow>
          (let s = abort_element SubmittedRequests e (m, d);
               Stale = (Stale \<or> CheckStaleConn \<and>
                          stale_request opts now (Elems (fst s) e) (Stats (snd s)))
           in drain_loop opts now SubmittedRequests CheckStaleConn Stale
                (CompleteRequest e True s)))"
  by pat_completeness auto
termination
  by (relation "measure (\<lambda>(_, _, b, _, _, s). length (queue_of b (snd s)))")
     (auto dest!: drain_remove_Some [OF sym] split: if_splits)

declare drain_loop.simps [simp del]

lemma drain_loop_hard:
  "drain_loop opts now b c st (m, d) = (st', m', d') \<Longrightarrow> HardRemoveDevice d' = HardRemoveDevice d"
proof (induction opts now b c st "(m, d)" arbitrary: m d rule: drain_loop.induct)
  case (1 opts now b c st m d)
  obtain r d1 where rm: "drain_remove b d = (r, d1)" by (cases "drain_remove b d")
  have h: "HardRemoveDevice d1 = HardRemoveDevice d"
    using rm by (auto simp: drain_remove_def WnbdSubmittedReqRemoveHead_def submitted_unlink_def
        split: if_splits list.splits)
  show ?case
  proof (cases r)
    case None
    with rm h 1(2) show ?thesis by (simp add: drain_loop.simps [of opts now b c st m d])
  next
    case (Some e)
    obtain m3 d3 where cp: "CompleteRequest e True (abort_element b e (m, d1)) = (m3, d3)"
      by (cases "CompleteRequest e True (abort_element b e (m, d1))")
    from arg_cong [OF cp, of "\<lambda>s. HardRemoveDevice (snd s)"] h
    have "HardRemoveDevice d3 = HardRemoveDevice d" by simp
    with 1(1) [OF rm [symmetric] Some refl refl cp] 1(2) show ?thesis
      by (simp add: drain_loop.simps [of opts now b c st m d] rm Some cp Let_def)
  qed
qed

definition DrainDeviceQueue ::
  "WNBD_OPTION list \<Rightarrow> u64 \<Rightarrow> bool \<Rightarrow> bool \<Rightarrow> dstate \<Rightarrow> dstate" where
  "DrainDeviceQueue opts TimeNow SubmittedRequests CheckStaleConn s =
     (let (Stale, m, d) = drain_loop opts TimeNow SubmittedRequests CheckStaleConn False s
      in if Stale \<and> opt_bool opts OptRemoveStaleConnections
         then (m, WnbdDisconnectAsync d) else (m, d))"

definition HasPendingAsyncRequests :: "WNBD_DISK_DEVICE \<Rightarrow> bool" where
  "HasPendingAsyncRequests d \<longleftrightarrow>
     SubmittedReqListHead d \<noteq> [] \<or> PendingReqListHead d \<noteq> []"

section \<open>References\<close>

definition WnbdAcquireDevice :: "WNBD_DISK_DEVICE \<Rightarrow> bool \<times> WNBD_DISK_DEVICE" where
  "WnbdAcquireDevice d =
     (let (ok, r) = ExAcquireRundownProtection (RundownProtection d)
      in (ok, d\<lparr>RundownProtection := r\<rparr>))"

definition WnbdReleaseDevice :: "WNBD_DISK_DEVICE \<Rightarrow> WNBD_DISK_DEVICE" where
  "WnbdReleaseDevice d =
     d\<lparr>RundownProtection := ExReleaseRundownProtection (RundownProtection d)\<rparr>"

text \<open>
  \<^verbatim>\<open>WnbdDisconnectSync\<close> up to the wait for the monitor thread: the removal event is
  set and the caller's reference is given back.
\<close>

definition WnbdDisconnectSync :: "WNBD_DISK_DEVICE \<Rightarrow> WNBD_DISK_DEVICE" where
  "WnbdDisconnectSync d = WnbdReleaseDevice (d\<lparr>DeviceRemovalEvent := True\<rparr>)"

section \<open>Request validation\<close>

definition ValidateScsiRequest :: "WNBD_DISK_DEVICE \<Rightarrow> SRB \<Rightarrow> bool" where
  "ValidateScsiRequest d Srb =
     (case SrbCdb Srb of
        None \<Rightarrow> False
      | Some Cdb \<Rightarrow>
          (let t = ScsiOpToWnbdReqType (cdb_byte Cdb 0); fl = Flags (Properties d) in
           if t \<in> {WnbdReqTypeUnmap, WnbdReqTypeWrite, WnbdReqTypeFlush, WnbdReqTypePersistResOut}
              \<and> ReadOnly fl then False
           else if t \<notin> {WnbdReqTypeUnmap, WnbdReqTypeWrite, WnbdReqTypeFlush,
                         WnbdReqTypePersistResOut, WnbdReqTypePersistResIn, WnbdReqTypeRead}
           then False
           else if t = WnbdReqTypeUnmap then UnmapSupported fl
           else if t = WnbdReqTypeFlush then FlushSupported fl
           else if t \<in> {WnbdReqTypePersistResIn, WnbdReqTypePersistResOut}
           then PersistResSupported fl
           else True))"


section \<open>The submitted request queue\<close>

text \<open>
  What the dispatcher and the drain rely on: a queue of requests in submission order from
  which a request can be taken by its tag or from the front. The lemmas say that taking
  by tag is a search of the whole queue, that a tag is answered at most once, and that
  the front is the oldest request.
\<close>

locale submitted_queue =
  fixes els :: "'q \<Rightarrow> 'e list"
    and tag :: "'e \<Rightarrow> u64"
    and inv :: "'q \<Rightarrow> bool"
    and ins :: "'e \<Rightarrow> 'q \<Rightarrow> 'q"
    and rem_tag :: "u64 \<Rightarrow> 'q \<Rightarrow> 'e option \<times> 'q"
    and rem_head :: "'q \<Rightarrow> 'e option \<times> 'q"
  assumes els_ins: "els (ins e q) = els q @ [e]"
    and inv_ins: "inv q \<Longrightarrow> tag e \<notin> tag ` set (els q) \<Longrightarrow> inv (ins e q)"
    and rem_tag_miss: "inv q \<Longrightarrow> t \<notin> tag ` set (els q) \<Longrightarrow> rem_tag t q = (None, q)"
    and rem_tag_hit: "inv q \<Longrightarrow> e \<in> set (els q) \<Longrightarrow>
           \<exists>q'. rem_tag (tag e) q = (Some e, q') \<and> inv q' \<and> els q' = remove1 e (els q)"
    and rem_head_Nil: "els q = [] \<Longrightarrow> rem_head q = (None, q)"
    and rem_head_Cons: "inv q \<Longrightarrow> els q = e # es \<Longrightarrow>
           \<exists>q'. rem_head q = (Some e, q') \<and> inv q' \<and> els q' = es"
    and inv_tags: "inv q \<Longrightarrow> distinct (map tag (els q))"
begin

lemma rem_tag_search:
  assumes "inv q" shows "fst (rem_tag t q) = find (\<lambda>e. tag e = t) (els q)"
proof (cases "find (\<lambda>e. tag e = t) (els q)")
  case None
  then have "t \<notin> tag ` set (els q)" by (auto simp: find_None_iff)
  with rem_tag_miss [OF assms] None show ?thesis by simp
next
  case (Some e)
  then have "e \<in> set (els q)" "tag e = t" by (auto simp: find_Some_iff)
  with rem_tag_hit [OF assms, of e] Some show ?thesis by auto
qed

lemma ins_rem_tag:
  assumes "inv q" "tag e \<notin> tag ` set (els q)"
  shows "\<exists>q'. rem_tag (tag e) (ins e q) = (Some e, q') \<and> inv q' \<and> els q' = els q"
proof -
  have "e \<notin> set (els q)" using assms(2) by blast
  with rem_tag_hit [OF inv_ins [OF assms], of e] show ?thesis
    by (auto simp: els_ins remove1_append)
qed

lemma rem_tag_once:
  assumes "inv q" "rem_tag t q = (Some e, q')"
  shows "rem_tag t q' = (None, q')"
proof -
  have "find (\<lambda>e. tag e = t) (els q) = Some e"
    using rem_tag_search [OF assms(1), of t] assms(2) by simp
  then have e: "e \<in> set (els q)" "tag e = t" by (auto simp: find_Some_iff)
  from rem_tag_hit [OF assms(1) e(1)] e(2) assms(2)
  have q': "inv q'" "els q' = remove1 e (els q)" by auto
  have "t \<notin> tag ` set (els q')"
    using inv_tags [OF assms(1)] e q'(2)
    by (auto simp: distinct_map inj_on_def)
  with rem_tag_miss [OF q'(1)] show ?thesis by simp
qed

lemma rem_tag_others:
  assumes "inv q" "rem_tag t q = (r, q')"
  shows "els q' = filter (\<lambda>e. tag e \<noteq> t) (els q)"
proof (cases "t \<in> tag ` set (els q)")
  case False
  with rem_tag_miss [OF assms(1)] assms(2) have "q' = q" by auto
  moreover have "filter (\<lambda>e. tag e \<noteq> t) (els q) = els q"
    using False by (auto simp: filter_id_conv)
  ultimately show ?thesis by simp
next
  case True
  then obtain e where e: "e \<in> set (els q)" "t = tag e" by auto
  have d: "distinct (els q)" "inj_on tag (set (els q))"
    using inv_tags [OF assms(1)] by (simp_all add: distinct_map)
  have "els q' = remove1 e (els q)" using rem_tag_hit [OF assms(1) e(1)] assms(2) e(2) by auto
  also have "\<dots> = filter (\<lambda>x. tag x \<noteq> t) (els q)"
    using d e by (auto simp: distinct_remove1_removeAll removeAll_filter_not_eq inj_on_def
        intro!: filter_cong)
  finally show ?thesis .
qed

end

definition submitted_ok :: "kmem \<Rightarrow> WNBD_DISK_DEVICE \<Rightarrow> bool" where
  "submitted_ok m d \<longleftrightarrow>
     indexed (\<lambda>e. WnbdSubmittedReqBucket (Tag (Elems m e))) WNBD_SUBMITTED_REQ_HASH_BUCKETS
       (SubmittedReqListHead d) (SubmittedReqHashBuckets d) \<and>
     inj_on (\<lambda>e. Tag (Elems m e)) (set (SubmittedReqListHead d))"

lemma bucket_lt_256 [simp]: "WnbdSubmittedReqBucket t < 256"
proof -
  have "t AND 0xFF \<le> 0xFF" by (rule word_and_le1)
  then have "unat (t AND 0xFF) \<le> 255" by (simp add: word_le_nat_alt)
  then show ?thesis by (simp add: WnbdSubmittedReqBucket_def)
qed

interpretation tag_index: hash_index "\<lambda>e. Tag (Elems m e)" WnbdSubmittedReqBucket
  WNBD_SUBMITTED_REQ_HASH_BUCKETS for m
  by unfold_locales simp

lemma submitted_unlink_ok:
  "submitted_ok m d \<Longrightarrow> submitted_ok m (submitted_unlink e d)"
  unfolding submitted_ok_def submitted_unlink_def
  by (auto intro: indexed_unlink inj_on_subset [OF _ set_remove1_subset])

interpretation sq: submitted_queue SubmittedReqListHead "\<lambda>e. Tag (Elems m e)" "submitted_ok m"
  "WnbdSubmittedReqInsert m" "WnbdSubmittedReqRemoveByTag m" WnbdSubmittedReqRemoveHead for m
proof (unfold_locales, goal_cases)
  case (1 e q)
  then show ?case by (simp add: WnbdSubmittedReqInsert_def)
next
  case (2 q e)
  then have "e \<notin> set (SubmittedReqListHead q)" by blast
  with 2 show ?case
    by (auto simp: submitted_ok_def WnbdSubmittedReqInsert_def intro: tag_index.insert_index)
next
  case (3 q t)
  then have "find (\<lambda>x. Tag (Elems m x) = t)
      (SubmittedReqHashBuckets q ! WnbdSubmittedReqBucket t) = None"
    using tag_index.lookup_None [of m "SubmittedReqListHead q" "SubmittedReqHashBuckets q" t]
    by (simp add: submitted_ok_def)
  then show ?case by (simp add: WnbdSubmittedReqRemoveByTag_def)
next
  case (4 q e)
  then have "find (\<lambda>x. Tag (Elems m x) = Tag (Elems m e))
      (SubmittedReqHashBuckets q ! WnbdSubmittedReqBucket (Tag (Elems m e))) = Some e"
    using tag_index.lookup_scan [of m "SubmittedReqListHead q" "SubmittedReqHashBuckets q"]
    by (simp add: submitted_ok_def find_Some_iff_distinct)
  with 4 show ?case
    by (simp add: WnbdSubmittedReqRemoveByTag_def submitted_unlink_ok)
       (simp add: submitted_unlink_def)
next
  case (5 q)
  then show ?case by (simp add: WnbdSubmittedReqRemoveHead_def)
next
  case (6 q e es)
  then show ?case
    by (simp add: WnbdSubmittedReqRemoveHead_def submitted_unlink_ok)
       (simp add: submitted_unlink_def)
next
  case (7 q)
  then show ?case by (auto simp: submitted_ok_def distinct_map)
qed


section \<open>The queue invariant\<close>

text \<open>
  Every element is in at most one list and allocated; the tag index agrees with the
  submitted list; queued elements are neither aborted nor completed; only pool elements
  are pooled back; no queued request lacks a count of the semaphore that wakes the
  dispatcher; tags are below the handle counter.
\<close>

definition linked :: "WNBD_DISK_DEVICE \<Rightarrow> ptr list" where
  "linked d = PendingReqListHead d @ SubmittedReqListHead d @ SrbElementPool d"

definition queued :: "WNBD_DISK_DEVICE \<Rightarrow> ptr list" where
  "queued d = PendingReqListHead d @ SubmittedReqListHead d"

definition queues_ok :: "kmem \<Rightarrow> WNBD_DISK_DEVICE \<Rightarrow> bool" where
  "queues_ok m d \<longleftrightarrow>
     distinct (linked d) \<and> set (linked d) \<subseteq> Allocated m \<and> submitted_ok m d \<and>
     (\<forall>e \<in> set (queued d). \<not> Aborted (Elems m e) \<and> \<not> Completed (Elems m e)) \<and>
     (\<forall>e \<in> set (SrbElementPool d). Pooled (Elems m e)) \<and>
     (\<forall>e \<in> set (SubmittedReqListHead d). Tag (Elems m e) \<le> RequestHandleCounter m) \<and>
     length (PendingReqListHead d) \<le> DeviceEvent d"

text \<open>An element taken out of the lists and not yet given back.\<close>

definition in_hand :: "ptr \<Rightarrow> dstate \<Rightarrow> bool" where
  "in_hand e s \<longleftrightarrow> e \<in> Allocated (fst s) \<and> e \<notin> set (linked (snd s))"

lemma linked_stat_upd [simp]:
  "linked (stat_upd f d) = linked d" "queued (stat_upd f d) = queued d"
  by (simp_all add: linked_def queued_def)

definition srbs_of :: "kmem \<Rightarrow> ptr list \<Rightarrow> ptr list" where
  "srbs_of m es = map (\<lambda>e. ElemSrb (Elems m e)) es"

lemmas queue_defs = queues_ok_def linked_def queued_def submitted_ok_def in_hand_def

lemma submitted_ok_cong:
  assumes "\<And>e. e \<in> set (SubmittedReqListHead d) \<Longrightarrow> Tag (Elems m' e) = Tag (Elems m e)"
    and "SubmittedReqListHead d' = SubmittedReqListHead d"
    and "SubmittedReqHashBuckets d' = SubmittedReqHashBuckets d"
  shows "submitted_ok m' d' = submitted_ok m d"
proof -
  have "indexed (\<lambda>e. WnbdSubmittedReqBucket (Tag (Elems m' e))) 256 (SubmittedReqListHead d) b
      = indexed (\<lambda>e. WnbdSubmittedReqBucket (Tag (Elems m e))) 256 (SubmittedReqListHead d) b" for b
    by (rule indexed_cong) (simp add: assms(1))
  moreover have "inj_on (\<lambda>e. Tag (Elems m' e)) (set (SubmittedReqListHead d))
      = inj_on (\<lambda>e. Tag (Elems m e)) (set (SubmittedReqListHead d))"
    by (rule inj_on_cong) (simp add: assms(1))
  ultimately show ?thesis by (simp add: submitted_ok_def assms(2,3))
qed

text \<open>
  A change of memory that leaves the listed elements alone, together with a change of the
  device that leaves its lists alone, keeps the invariant.
\<close>

lemma queues_ok_frame:
  assumes "queues_ok m d"
    and "\<And>e. e \<in> set (linked d) \<Longrightarrow> Elems m' e = Elems m e \<and> e \<in> Allocated m'"
    and "RequestHandleCounter m \<le> RequestHandleCounter m'"
    and "PendingReqListHead d' = PendingReqListHead d" "SubmittedReqListHead d' = SubmittedReqListHead d"
    and "SubmittedReqHashBuckets d' = SubmittedReqHashBuckets d"
    and "SrbElementPool d' = SrbElementPool d" "DeviceEvent d \<le> DeviceEvent d'"
  shows "queues_ok m' d'"
proof -
  have el: "\<And>e. e \<in> set (linked d) \<Longrightarrow> Elems m' e = Elems m e" using assms(2) by blast
  have "submitted_ok m' d' = submitted_ok m d"
    by (rule submitted_ok_cong) (simp_all add: el linked_def assms)
  moreover have "linked d' = linked d" "queued d' = queued d"
    by (simp_all add: linked_def queued_def assms)
  ultimately show ?thesis
    using assms(1,8) el assms(2)
    unfolding queues_ok_def
    by (auto simp: assms(4,5,7) linked_def queued_def subset_iff intro: order_trans [OF _ assms(3)])
qed

lemma queues_ok_subset:
  "queues_ok m d \<Longrightarrow> e \<in> set (queued d) \<Longrightarrow> e \<in> Allocated m"
  by (auto simp: queue_defs)

section \<open>Elements in hand\<close>

text \<open>Taking an element from the pool or from the kernel.\<close>

lemma WnbdAllocSrbElement_ok:
  assumes "queues_ok m d" "WnbdAllocSrbElement a (m, d) = (Some e, m', d')"
    and "\<And>p. a = Some p \<Longrightarrow> p \<notin> Allocated m"
  shows "queues_ok m' d' \<and> in_hand e (m', d') \<and>
    \<not> Aborted (Elems m' e) \<and> \<not> Completed (Elems m' e) \<and> queued d' = queued d \<and>
    (\<forall>x \<in> set (linked d'). Elems m' x = Elems m x)"
proof (cases "SrbElementPool d")
  case (Cons x xs)
  with assms have eqs: "e = x" "m' = elem_upd x (\<lambda>_. zero_element\<lparr>Pooled := True\<rparr>) m"
    "d' = d\<lparr>SrbElementPool := xs\<rparr>"
    by (auto simp: WnbdAllocSrbElement_def)
  have sub: "\<forall>y \<in> set (linked d'). y \<noteq> x \<and> y \<in> set (linked d)"
    using assms(1) Cons by (auto simp: queue_defs eqs)
  have "queues_ok m d'" using assms(1) Cons by (auto simp: queue_defs eqs indexed_def)
  then have "queues_ok m' d'"
    by (rule queues_ok_frame) (use sub assms(1) Cons in \<open>auto simp: eqs queue_defs\<close>)
  then show ?thesis using sub assms(1) Cons
    by (auto simp: eqs queue_defs zero_element_def)
next
  case Nil
  with assms have eqs: "a = Some e" "d' = d"
    "m' = m\<lparr>Elems := (Elems m)(e := zero_element), Allocated := insert e (Allocated m)\<rparr>"
    by (cases a; auto simp: WnbdAllocSrbElement_def)+
  with assms(3) have new: "e \<notin> Allocated m" by simp
  have sub: "\<forall>y \<in> set (linked d). y \<noteq> e \<and> y \<in> Allocated m"
    using assms(1) new by (auto simp: queue_defs)
  have "queues_ok m' d'"
    by (rule queues_ok_frame [OF assms(1)]) (use sub in \<open>auto simp: eqs\<close>)
  then show ?thesis using sub by (auto simp: eqs in_hand_def zero_element_def)
qed

lemma WnbdAllocSrbElement_None:
  "WnbdAllocSrbElement a (m, d) = (None, s') \<Longrightarrow> s' = (m, d)"
  by (cases a) (auto simp: WnbdAllocSrbElement_def split: list.splits)

text \<open>Giving it back.\<close>

lemma WnbdFreeSrbElement_ok:
  assumes "queues_ok m d" "in_hand e (m, d)" "WnbdFreeSrbElement e (m, d) = (m', d')"
  shows "queues_ok m' d' \<and> queued d' = queued d \<and> Elems m' = Elems m"
proof (cases "Pooled (Elems m e)")
  case True
  with assms(3) have eqs: "m' = m" "d' = d\<lparr>SrbElementPool := e # SrbElementPool d\<rparr>"
    by (simp_all add: WnbdFreeSrbElement_def)
  show ?thesis using assms(1,2) True by (auto simp: eqs queue_defs)
next
  case False
  with assms(3) have eqs: "m' = ExFreePool e m" "d' = d" by (simp_all add: WnbdFreeSrbElement_def)
  have "queues_ok m' d'"
    by (rule queues_ok_frame [OF assms(1)])
       (use assms(1,2) in \<open>auto simp: eqs ExFreePool_def in_hand_def queues_ok_def\<close>)
  then show ?thesis by (simp add: eqs ExFreePool_def)
qed

lemma in_hand_update [simp]:
  "in_hand e (elem_upd x f m, d) = in_hand e (m, d)"
  "in_hand e (srb_upd p g m, d) = in_hand e (m, d)"
  "in_hand e (m, stat_upd h d) = in_hand e (m, d)"
  by (simp_all add: in_hand_def linked_def)

lemma queues_ok_update [simp]:
  "queues_ok (srb_upd p g m) d = queues_ok m d"
  "queues_ok m (stat_upd h d) = queues_ok m d"
  by (simp_all add: queues_ok_def linked_def queued_def submitted_ok_def)

lemma queues_ok_elem_upd:
  assumes "queues_ok m d" "e \<notin> set (linked d)" shows "queues_ok (elem_upd e f m) d"
  by (rule queues_ok_frame [OF assms(1)]) (use assms in \<open>auto simp: queues_ok_def\<close>)


lemma CompleteRequest_ok:
  assumes "queues_ok m d" "in_hand e (m, d)" "\<not> Completed (Elems m e)"
    and "CompleteRequest e True (m, d) = (m', d')"
  shows "queues_ok m' d'" "queued d' = queued d"
    "Notified m' = Notified m @ [ElemSrb (Elems m e)]"
    "\<And>x. x \<noteq> e \<Longrightarrow> Elems m' x = Elems m x" "Srbs m' = Srbs m"
    "Stats d' = (Stats d)\<lparr>OutstandingIOCount := OutstandingIOCount (Stats d) - 1\<rparr>"
    "RequestHandleCounter m' = RequestHandleCounter m"
    "Mdls m' = Mdls m" "LockedMdls m' = LockedMdls m"
proof -
  define m1 where "m1 = (elem_upd e (\<lambda>x. x\<lparr>Completed := True\<rparr>) m)
    \<lparr>Notified := Notified m @ [ElemSrb (Elems m e)]\<rparr>"
  define d1 where "d1 = stat_upd (\<lambda>st. st\<lparr>OutstandingIOCount := OutstandingIOCount st - 1\<rparr>) d"
  have fr: "WnbdFreeSrbElement e (m1, d1) = (m', d')"
    using assms(3,4) by (simp add: CompleteRequest_def m1_def d1_def Let_def)
  have "queues_ok m1 d1"
    by (rule queues_ok_frame [OF assms(1)])
       (use assms(1,2) in \<open>auto simp: m1_def d1_def in_hand_def queues_ok_def\<close>)
  moreover have hand: "in_hand e (m1, d1)"
    using assms(2) by (simp add: m1_def d1_def in_hand_def linked_def)
  ultimately have *: "queues_ok m' d' \<and> queued d' = queued d1 \<and> Elems m' = Elems m1"
    using WnbdFreeSrbElement_ok fr by blast
  then show "queues_ok m' d'" "queued d' = queued d" by (auto simp: d1_def queued_def)
  show "\<And>x. x \<noteq> e \<Longrightarrow> Elems m' x = Elems m x" using * by (simp add: m1_def)
  show "Notified m' = Notified m @ [ElemSrb (Elems m e)]" "Srbs m' = Srbs m"
    "Stats d' = (Stats d)\<lparr>OutstandingIOCount := OutstandingIOCount (Stats d) - 1\<rparr>"
    "RequestHandleCounter m' = RequestHandleCounter m"
    "Mdls m' = Mdls m" "LockedMdls m' = LockedMdls m"
    using fr by (auto simp: WnbdFreeSrbElement_def ExFreePool_def m1_def d1_def split: if_splits)
qed

text \<open>A second completion of the same element does not notify the port driver again.\<close>

lemma CompleteRequest_twice:
  assumes "CompleteRequest e False s = (m', d')"
  shows "Notified (fst (CompleteRequest e False (m', d'))) = Notified m'"
  using assms by (cases s) (auto simp: CompleteRequest_def Let_def split: if_splits)

section \<open>Draining\<close>

lemma drain_remove_ok:
  assumes "queues_ok m d" "drain_remove b d = (Some e, d')"
  shows "queues_ok m d'" "in_hand e (m, d')" "queue_of b d = e # queue_of b d'"
    "queue_of (\<not> b) d' = queue_of (\<not> b) d" "Stats d' = Stats d"
    "\<not> Aborted (Elems m e)" "\<not> Completed (Elems m e)"
    "SrbElementPool d' = SrbElementPool d"
proof -
  show q: "queue_of b d = e # queue_of b d'" using assms(2) by (rule drain_remove_Some)
  have e: "e \<in> set (queued d)" using q by (auto simp: queued_def split: if_splits)
  then show "\<not> Aborted (Elems m e)" "\<not> Completed (Elems m e)"
    using assms(1) by (auto simp: queues_ok_def)
  show "Stats d' = Stats d" "SrbElementPool d' = SrbElementPool d"
    "queue_of (\<not> b) d' = queue_of (\<not> b) d"
    using assms(2) by (auto simp: drain_remove_def WnbdSubmittedReqRemoveHead_def
        submitted_unlink_def split: if_splits list.splits)
  show "queues_ok m d'"
  proof (cases b)
    case True
    with assms(2) q have d': "d' = submitted_unlink e d"
      by (auto simp: drain_remove_def WnbdSubmittedReqRemoveHead_def split: list.splits)
    then have "submitted_ok m d'" using assms(1) submitted_unlink_ok by (simp add: queues_ok_def)
    then show ?thesis using assms(1) q True
      by (auto simp: queues_ok_def linked_def queued_def d' submitted_unlink_def)
  next
    case False
    with assms(2) q have "d' = d\<lparr>PendingReqListHead := PendingReqListHead d'\<rparr>"
      by (auto simp: drain_remove_def split: list.splits)
    with assms(1) q False show ?thesis
      by (cases d') (auto simp: queue_defs)
  qed
  then show "in_hand e (m, d')"
    using assms(1) q e \<open>queue_of (\<not> b) d' = _\<close> \<open>SrbElementPool d' = _\<close>
    by (cases b) (auto simp: queue_defs)
qed


definition aborted_srb :: "SRB \<Rightarrow> SRB" where
  "aborted_srb srb = srb\<lparr>DataTransferLength := 0, SrbStatus := SRB_STATUS_ABORTED\<rparr>"

definition drained_stats :: "bool \<Rightarrow> nat \<Rightarrow> WNBD_DRV_STATS \<Rightarrow> WNBD_DRV_STATS" where
  "drained_stats b n st =
     (if b then st\<lparr>AbortedSubmittedIORequests := AbortedSubmittedIORequests st + of_nat n,
                   OutstandingIOCount := OutstandingIOCount st - of_nat n\<rparr>
      else st\<lparr>AbortedUnsubmittedIORequests := AbortedUnsubmittedIORequests st + of_nat n,
              OutstandingIOCount := OutstandingIOCount st - of_nat n\<rparr>)"

lemma aborted_srb_idem [simp]: "aborted_srb (aborted_srb srb) = aborted_srb srb"
  by (simp add: aborted_srb_def)

lemma drained_stats_Suc:
  "drained_stats b n (drained_stats b (Suc 0) st) = drained_stats b (Suc n) st"
  by (simp add: drained_stats_def)

lemma drain_step:
  assumes "queues_ok m d" "drain_remove b d = (Some e, d1)"
    and "CompleteRequest e True (abort_element b e (m, d1)) = (m', d')"
  shows "queues_ok m' d'" "queue_of b d = e # queue_of b d'"
    "queue_of (\<not> b) d' = queue_of (\<not> b) d"
    "Notified m' = Notified m @ [ElemSrb (Elems m e)]"
    "\<And>x. x \<noteq> e \<Longrightarrow> Elems m' x = Elems m x" "Stats d' = drained_stats b 1 (Stats d)"
    "Srbs m' = (Srbs m)(ElemSrb (Elems m e) := aborted_srb (srb_of m e))"
proof -
  note rm = drain_remove_ok [OF assms(1,2)]
  define m2 where "m2 = elem_upd e (\<lambda>x. x\<lparr>Aborted := True\<rparr>)
    (srb_upd (ElemSrb (Elems m e)) aborted_srb m)"
  define d2 where "d2 = stat_upd (\<lambda>st. if b
     then st\<lparr>AbortedSubmittedIORequests := AbortedSubmittedIORequests st + 1\<rparr>
     else st\<lparr>AbortedUnsubmittedIORequests := AbortedUnsubmittedIORequests st + 1\<rparr>) d1"
  have ab: "abort_element b e (m, d1) = (m2, d2)"
    using rm(6) by (simp add: abort_element_def m2_def d2_def Let_def aborted_srb_def)
  have ok2: "queues_ok m2 d2" "in_hand e (m2, d2)" "\<not> Completed (Elems m2 e)"
    using rm(1,2,7) by (simp_all add: m2_def d2_def queues_ok_elem_upd in_hand_def)
  note cp = CompleteRequest_ok [OF ok2 assms(3) [unfolded ab]]
  have ls: "PendingReqListHead d' = PendingReqListHead d1"
    "SubmittedReqListHead d' = SubmittedReqListHead d1"
    using arg_cong [OF assms(3), of "\<lambda>s. PendingReqListHead (snd s)"]
      arg_cong [OF assms(3), of "\<lambda>s. SubmittedReqListHead (snd s)"]
    by (simp_all add: ab d2_def)
  show "queues_ok m' d'" using cp(1) .
  show "queue_of b d = e # queue_of b d'" "queue_of (\<not> b) d' = queue_of (\<not> b) d"
    using rm(3,4) ls by auto
  show "Notified m' = Notified m @ [ElemSrb (Elems m e)]" using cp(3) by (simp add: m2_def)
  show "\<And>x. x \<noteq> e \<Longrightarrow> Elems m' x = Elems m x" using cp(4) by (simp add: m2_def)
  show "Stats d' = drained_stats b 1 (Stats d)"
    using cp(6) rm(5) by (simp add: d2_def drained_stats_def)
  show "Srbs m' = (Srbs m)(ElemSrb (Elems m e) := aborted_srb (srb_of m e))"
    using cp(5) by (simp add: m2_def)
qed

lemma srbs_of_cong:
  "(\<And>e. e \<in> set es \<Longrightarrow> ElemSrb (Elems m e) = ElemSrb (Elems m' e)) \<Longrightarrow> srbs_of m es = srbs_of m' es"
  by (simp add: srbs_of_def)

lemma drain_remove_None: "drain_remove b d = (None, d') \<Longrightarrow> d' = d \<and> queue_of b d = []"
  by (auto simp: drain_remove_def WnbdSubmittedReqRemoveHead_def split: if_splits list.splits)

lemma queue_of_distinct: "queues_ok m d \<Longrightarrow> distinct (queue_of b d)"
  by (auto simp: queue_defs)

lemma drain_loop_ok:
  assumes "queues_ok m d" "drain_loop opts now b c st (m, d) = (st', m', d')"
  shows "queues_ok m' d' \<and> queue_of b d' = [] \<and> queue_of (\<not> b) d' = queue_of (\<not> b) d \<and>
    Notified m' = Notified m @ srbs_of m (queue_of b d) \<and>
    Stats d' = drained_stats b (length (queue_of b d)) (Stats d) \<and>
    (\<forall>e. e \<notin> set (queue_of b d) \<longrightarrow> Elems m' e = Elems m e) \<and>
    (\<forall>p. Srbs m' p = (if p \<in> set (srbs_of m (queue_of b d)) then aborted_srb (Srbs m p) else Srbs m p))"
  using assms
proof (induction opts now b c st "(m, d)" arbitrary: m d rule: drain_loop.induct)
  case (1 opts now b c st m d)
  obtain r d1 where rm: "drain_remove b d = (r, d1)" by (cases "drain_remove b d")
  show ?case
  proof (cases r)
    case None
    with rm drain_remove_None [of b d d1] 1(2,3) show ?thesis
      by (auto simp: drain_loop.simps [of opts now b c st m d] srbs_of_def drained_stats_def
          split: if_splits)
  next
    case (Some e)
    obtain m2 d2 where ab: "abort_element b e (m, d1) = (m2, d2)"
      by (cases "abort_element b e (m, d1)")
    obtain m3 d3 where cp: "CompleteRequest e True (m2, d2) = (m3, d3)"
      by (cases "CompleteRequest e True (m2, d2)")
    note st = drain_step [OF 1(2) rm [unfolded Some], unfolded ab, OF cp]
    define st2 where "st2 = (st \<or> c \<and> stale_request opts now (Elems m2 e) (Stats d2))"
    have lp: "drain_loop opts now b c st2 (m3, d3) = (st', m', d')"
      using 1(3) by (simp add: drain_loop.simps [of opts now b c st m d] rm Some ab cp Let_def st2_def)
    have IH: "queues_ok m' d' \<and> queue_of b d' = [] \<and> queue_of (\<not> b) d' = queue_of (\<not> b) d3 \<and>
        Notified m' = Notified m3 @ srbs_of m3 (queue_of b d3) \<and>
        Stats d' = drained_stats b (length (queue_of b d3)) (Stats d3) \<and>
        (\<forall>e. e \<notin> set (queue_of b d3) \<longrightarrow> Elems m' e = Elems m3 e) \<and>
        (\<forall>p. Srbs m' p = (if p \<in> set (srbs_of m3 (queue_of b d3)) then aborted_srb (Srbs m3 p) else Srbs m3 p))"
      using 1(1) [OF rm [symmetric] Some ab [symmetric] _ cp st(1), of st2] lp
      by (simp add: st2_def)
    have "e \<notin> set (queue_of b d3)" using queue_of_distinct [OF 1(2), of b] st(2) by simp
    then have sr: "srbs_of m3 (queue_of b d3) = srbs_of m (queue_of b d3)"
      by (intro srbs_of_cong) (metis st(5))
    have q: "srbs_of m (queue_of b d) = ElemSrb (Elems m e) # srbs_of m (queue_of b d3)"
      by (simp add: st(2) srbs_of_def)
    have "Stats d' = drained_stats b (length (queue_of b d)) (Stats d)"
      using IH st(6) by (simp add: st(2) drained_stats_Suc)
    moreover have "\<forall>p. Srbs m' p = (if p \<in> set (srbs_of m (queue_of b d))
        then aborted_srb (Srbs m p) else Srbs m p)"
      using IH by (auto simp: q sr st(7))
    moreover have "\<forall>x. x \<notin> set (queue_of b d) \<longrightarrow> Elems m' x = Elems m x"
      unfolding st(2) using IH st(5) by simp
    moreover have "Notified m' = Notified m @ srbs_of m (queue_of b d)"
      using IH st(4) by (simp add: q sr)
    ultimately show ?thesis using IH st(3) by simp
  qed
qed


lemma WnbdDisconnectAsync_lists [simp]:
  "PendingReqListHead (WnbdDisconnectAsync d) = PendingReqListHead d"
  "SubmittedReqListHead (WnbdDisconnectAsync d) = SubmittedReqListHead d"
  "SubmittedReqHashBuckets (WnbdDisconnectAsync d) = SubmittedReqHashBuckets d"
  "SrbElementPool (WnbdDisconnectAsync d) = SrbElementPool d"
  "DeviceEvent (WnbdDisconnectAsync d) = DeviceEvent d"
  "Stats (WnbdDisconnectAsync d) = Stats d"
  "Properties (WnbdDisconnectAsync d) = Properties d"
  by (simp_all add: WnbdDisconnectAsync_def)

lemma queues_ok_disconnect [simp]: "queues_ok m (WnbdDisconnectAsync d) = queues_ok m d"
  by (simp add: queue_defs)

lemma DrainDeviceQueue_ok:
  assumes "queues_ok m d" "DrainDeviceQueue opts now b c (m, d) = (m', d')"
  shows "queues_ok m' d'" "queue_of b d' = []" "queue_of (\<not> b) d' = queue_of (\<not> b) d"
    "Notified m' = Notified m @ srbs_of m (queue_of b d)"
    "Stats d' = drained_stats b (length (queue_of b d)) (Stats d)"
    "e \<notin> set (queue_of b d) \<Longrightarrow> Elems m' e = Elems m e"
    "Srbs m' p = (if p \<in> set (srbs_of m (queue_of b d)) then aborted_srb (Srbs m p) else Srbs m p)"
proof -
  obtain st m1 d1 where lp: "drain_loop opts now b c False (m, d) = (st, m1, d1)"
    by (cases "drain_loop opts now b c False (m, d)") auto
  have r: "m' = m1" "d' = d1 \<or> d' = WnbdDisconnectAsync d1"
    using assms(2) lp by (auto simp: DrainDeviceQueue_def split: if_splits)
  note ok = drain_loop_ok [OF assms(1) lp]
  show "queues_ok m' d'" using ok r by auto
  show "queue_of b d' = []" "queue_of (\<not> b) d' = queue_of (\<not> b) d" using ok r by auto
  show "Notified m' = Notified m @ srbs_of m (queue_of b d)" using ok r by simp
  show "Stats d' = drained_stats b (length (queue_of b d)) (Stats d)" using ok r by auto
  show "Elems m' e = Elems m e" if "e \<notin> set (queue_of b d)" using ok r that by simp
  show "Srbs m' p = (if p \<in> set (srbs_of m (queue_of b d)) then aborted_srb (Srbs m p) else Srbs m p)"
    using ok r by simp
qed

section \<open>Accounting\<close>

text \<open>
  The gauges read as the code documents them: the outstanding count is the number of
  queued requests; a request that is drained leaves its gauge and is counted as aborted
  instead, so the gauges minus the abort counters are the queue lengths. All of it is
  arithmetic modulo \<open>2 ^ 64\<close>, as the counters are.
\<close>

definition stats_ok :: "WNBD_DISK_DEVICE \<Rightarrow> bool" where
  "stats_ok d \<longleftrightarrow>
     OutstandingIOCount (Stats d) = of_nat (length (queued d)) \<and>
     UnsubmittedIORequests (Stats d) =
       of_nat (length (PendingReqListHead d)) + AbortedUnsubmittedIORequests (Stats d) \<and>
     PendingSubmittedIORequests (Stats d) =
       of_nat (length (SubmittedReqListHead d)) + AbortedSubmittedIORequests (Stats d)"

lemma DrainDeviceQueue_stats_ok:
  assumes "queues_ok m d" "stats_ok d" "DrainDeviceQueue opts now b c (m, d) = (m', d')"
  shows "stats_ok d'"
  using DrainDeviceQueue_ok(2,3,5) [OF assms(1,3)] assms(2)
  by (cases b) (simp_all add: stats_ok_def queued_def drained_stats_def)

text \<open>The pool: what populating leaves and what draining frees.\<close>

lemma populate_ok:
  assumes "queues_ok m d" "distinct as" "\<forall>p. Some p \<in> set as \<longrightarrow> p \<notin> Allocated m"
    and "populate n as (m, d) = (m', d')"
  shows "queues_ok m' d' \<and> queued d' = queued d \<and>
    length (SrbElementPool d') \<le> length (SrbElementPool d) + n"
  using assms
proof (induction n arbitrary: as m d)
  case (Suc n)
  show ?case
  proof (cases "\<exists>p bs. as = Some p # bs")
    case False
    then have "populate (Suc n) as (m, d) = (m, d)"
      by (cases as; cases "hd as") auto
    with Suc.prems show ?thesis by simp
  next
    case True
    then obtain p bs where as: "as = Some p # bs" by blast
    let ?m = "elem_upd p (\<lambda>e. e\<lparr>Pooled := True\<rparr>)
      (m\<lparr>Elems := (Elems m)(p := zero_element), Allocated := insert p (Allocated m)\<rparr>)"
    let ?d = "d\<lparr>SrbElementPool := p # SrbElementPool d\<rparr>"
    have new: "p \<notin> set (linked d)" "p \<notin> Allocated m"
      using Suc.prems(1,3) as by (auto simp: queues_ok_def)
    have "queues_ok ?m d"
      by (rule queues_ok_frame [OF Suc.prems(1)]) (use new Suc.prems(1) in \<open>auto simp: queues_ok_def\<close>)
    then have "queues_ok ?m ?d" using new by (auto simp: queue_defs)
    moreover have "\<forall>q. Some q \<in> set bs \<longrightarrow> q \<notin> Allocated ?m" using Suc.prems(2,3) as by auto
    moreover have "populate n bs (?m, ?d) = (m', d')" using Suc.prems(4) as by (simp add: Let_def)
    ultimately have "queues_ok m' d' \<and> queued d' = queued ?d \<and>
        length (SrbElementPool d') \<le> length (SrbElementPool ?d) + n"
      using Suc.prems(2) as by (intro Suc.IH) simp_all
    then show ?thesis by (simp add: queued_def)
  qed
qed simp

lemma WnbdDrainSrbElementPool_ok:
  assumes "WnbdDrainSrbElementPool (m, d) = (m', d')"
  shows "SrbElementPool d' = [] \<and> Allocated m' = Allocated m - set (SrbElementPool d) \<and>
    queued d' = queued d"
  using assms
proof (induction "(m, d)" arbitrary: m d rule: WnbdDrainSrbElementPool.induct)
  case (1 m d)
  show ?case
  proof (cases "SrbElementPool d")
    case Nil
    with 1(2) show ?thesis by (simp add: WnbdDrainSrbElementPool.simps [of m d])
  next
    case (Cons e es)
    with 1(2) have "WnbdDrainSrbElementPool (ExFreePool e m, d\<lparr>SrbElementPool := es\<rparr>) = (m', d')"
      by (simp add: WnbdDrainSrbElementPool.simps [of m d])
    from 1(1) [OF Cons this] show ?thesis by (auto simp: ExFreePool_def queued_def Cons)
  qed
qed

end
