(* ===== verification/Samples.thy ===== *)
theory Samples
  imports Device
begin

text \<open>
  A small concrete driver state: one disk of 1000 blocks of 512 bytes served by process 42,
  and three read requests of one block. The witnesses of the properties evaluate the
  operations on it.
\<close>

definition sample_flags :: WNBD_FLAGS where
  "sample_flags = \<lparr>ReadOnly = False, FlushSupported = True, FUASupported = True, UnmapSupported = True,
     UnmapAnchorSupported = False, UseKernelNbd = False, PersistResSupported = False,
     NaaIdSpecified = False, UseUserspaceNbd = False\<rparr>"

definition sample_props :: WNBD_PROPERTIES where
  "sample_props = \<lparr>InstanceName = [100, 0], SerialNumber = [115, 0], Owner = [111, 0],
     Flags = sample_flags, BlockCount = 1000, BlockSize = 512, MaxUnmapDescCount = 1, Pid = 42,
     NbdProperties = \<lparr>Hostname = [], PortNumber = 0, ExportName = [], SkipNegotiation = False\<rparr>,
     NaaIdentifier = []\<rparr>"

definition sample_device :: "ptr list \<Rightarrow> WNBD_DISK_DEVICE" where
  "sample_device pending = \<lparr>Connected = True, Properties = sample_props, ConnectionId = 2, Bus = 0,
     Target = 0, Lun = 0, DiskNumber = 1, PNPDeviceID = [], PDO = None, InquiryData = None,
     PendingReqListHead = pending, SubmittedReqListHead = [],
     SubmittedReqHashBuckets = replicate 256 [], SrbElementPool = [],
     DeviceEvent = length pending, DeviceMonitorThread = None, HardRemoveDevice = False,
     DeviceRemovalEvent = False, RundownProtection = rundown_init,
     Stats = zero_stats\<lparr>OutstandingIOCount := of_nat (length pending),
       UnsubmittedIORequests := of_nat (length pending)\<rparr>\<rparr>"

text \<open>\<^verbatim>\<open>READ(10)\<close> of one block at address 1.\<close>

definition sample_srb :: SRB where
  "sample_srb = \<lparr>SrbFunction = 0, SrbStatus = SRB_STATUS_PENDING, SrbScsiStatus = 0, SrbPathId = 0,
     SrbTargetId = 0, SrbLun = 0, SrbFlags = 0, DataTransferLength = 512,
     DataBuffer = Some (replicate 512 7), SrbCdb = Some [0x28, 0, 0, 0, 0, 1, 0, 0, 1, 0],
     SenseInfoBuffer = None, SenseInfoBufferLength = 0\<rparr>"

definition sample_element :: "ptr \<Rightarrow> SRB_QUEUE_ELEMENT" where
  "sample_element p = zero_element\<lparr>ElemSrb := 100 + p, StartingLbn := 512, DataLength := 512,
     Tag := of_nat p, ReqTimestamp := 5\<rparr>"

definition sample_mem :: kmem where
  "sample_mem = \<lparr>Elems = sample_element, Allocated = {1, 2, 3}, Srbs = (\<lambda>_. sample_srb), Notified = [],
     RequestHandleCounter = 10, Mdls = 0, LockedMdls = 0\<rparr>"

lemmas sample_defs = sample_device_def sample_mem_def sample_element_def sample_srb_def
  sample_props_def sample_flags_def zero_element_def zero_stats_def

lemma sample_sel [simp]:
  "PendingReqListHead (sample_device ps) = ps" "SubmittedReqListHead (sample_device ps) = []"
  "Properties (sample_device ps) = sample_props" "\<not> HardRemoveDevice (sample_device ps)"
  "Pid sample_props = 42" "\<not> UseKernelNbd (Flags sample_props)" "BlockSize sample_props = 512"
  "BlockCount sample_props = 1000"
  "Notified sample_mem = []" "RequestHandleCounter sample_mem = 10" "Mdls sample_mem = 0"
  "LockedMdls sample_mem = 0"
  by (simp_all add: sample_device_def sample_props_def sample_flags_def sample_mem_def)

lemma sample_queues_ok:
  assumes "distinct pending" "set pending \<subseteq> {1, 2, 3}"
  shows "queues_ok sample_mem (sample_device pending)"
  using assms
  by (auto simp: queues_ok_def submitted_ok_def linked_def queued_def)
     (auto simp: sample_mem_def sample_device_def sample_element_def zero_element_def indexed_init)

lemma sample_stats_ok: "stats_ok (sample_device pending)"
  by (simp add: stats_ok_def queued_def sample_device_def zero_stats_def)

lemma sample_validate [simp]: "ValidateScsiRequest (sample_device ps) (srb_of sample_mem e)"
  by (simp add: ValidateScsiRequest_def sample_defs cdb_byte_def ScsiOpToWnbdReqType_def)

text \<open>The device with request 3 submitted under tag 3.\<close>

definition sample_submitted :: WNBD_DISK_DEVICE where
  "sample_submitted = stat_upd (\<lambda>st. st\<lparr>PendingSubmittedIORequests := 1, OutstandingIOCount := 1\<rparr>)
     (WnbdSubmittedReqInsert sample_mem 3 (sample_device []))"

lemma sample_submitted_list [simp]:
  "SubmittedReqListHead sample_submitted = [3]" "PendingReqListHead sample_submitted = []"
  "Properties sample_submitted = sample_props" "SrbElementPool sample_submitted = []"
  "DeviceEvent sample_submitted = 0"
  by (simp_all add: sample_submitted_def WnbdSubmittedReqInsert_def sample_device_def)

lemma sample_submitted_ok: "queues_ok sample_mem sample_submitted"
proof -
  have "submitted_ok sample_mem (sample_device [])"
    using sample_queues_ok [of "[]"] by (simp add: queues_ok_def)
  then have "submitted_ok sample_mem (WnbdSubmittedReqInsert sample_mem 3 (sample_device []))"
    by (rule sq.inv_ins) (simp add: sample_device_def)
  then have "submitted_ok sample_mem sample_submitted"
    by (simp add: sample_submitted_def submitted_ok_def)
  then show ?thesis
    by (simp add: queues_ok_def linked_def queued_def)
       (simp add: sample_mem_def sample_element_def zero_element_def)
qed

lemma sample_submitted_stats: "stats_ok sample_submitted"
  by (simp add: stats_ok_def queued_def)
     (simp add: sample_submitted_def WnbdSubmittedReqInsert_def sample_device_def zero_stats_def)

end
