(* ===== verification/DeviceProps.thy ===== *)
theory DeviceProps
  imports Samples
begin

text \<open>
  Properties of the request queues of a device: the tag index against a search of the
  list, the drain of a queue, the stale connection check, the element pool.
\<close>

text \<open>
  C29: the hash index is only an optimisation. Taking a request by tag gives the result of
  a search of the whole submitted list, removes nothing else, keeps the index consistent,
  and a tag is found at most once.
\<close>

theorem remove_by_tag_is_search:
  assumes "submitted_ok m d" "WnbdSubmittedReqRemoveByTag m t d = (r, d')"
  shows "r = find (\<lambda>e. Tag (Elems m e) = t) (SubmittedReqListHead d) \<and>
    SubmittedReqListHead d' = filter (\<lambda>e. Tag (Elems m e) \<noteq> t) (SubmittedReqListHead d) \<and>
    submitted_ok m d' \<and> WnbdSubmittedReqRemoveByTag m t d' = (None, d')"
proof -
  have r: "r = find (\<lambda>e. Tag (Elems m e) = t) (SubmittedReqListHead d)"
    using sq.rem_tag_search [OF assms(1), of t] assms(2) by simp
  have ok: "submitted_ok m d'"
    using assms by (auto simp: WnbdSubmittedReqRemoveByTag_def submitted_unlink_ok split: option.splits)
  have f: "SubmittedReqListHead d' = filter (\<lambda>e. Tag (Elems m e) \<noteq> t) (SubmittedReqListHead d)"
    by (rule sq.rem_tag_others [OF assms])
  then have "t \<notin> (\<lambda>e. Tag (Elems m e)) ` set (SubmittedReqListHead d')" by auto
  with sq.rem_tag_miss [OF ok] r f ok show ?thesis by blast
qed

theorem remove_by_tag_is_search_witness:
  "fst (WnbdSubmittedReqRemoveByTag sample_mem 3 sample_submitted) = Some 3"
proof -
  obtain r d' where rm: "WnbdSubmittedReqRemoveByTag sample_mem 3 sample_submitted = (r, d')"
    by (cases "WnbdSubmittedReqRemoveByTag sample_mem 3 sample_submitted")
  have "submitted_ok sample_mem sample_submitted" using sample_submitted_ok by (simp add: queues_ok_def)
  from remove_by_tag_is_search [OF this rm]
  have "r = find (\<lambda>e. Tag (Elems sample_mem e) = 3) [3]" by simp
  then show ?thesis by (simp add: rm) (simp add: sample_mem_def sample_element_def)
qed

text \<open>
  C13: draining a queue empties it and hands every request of it back to the port driver
  exactly once, oldest first, aborted and with no data; the other queue is not touched,
  and both the queue invariant and the accounting hold afterwards.
\<close>

theorem drain_completes_all:
  assumes "queues_ok m d" "stats_ok d" "DrainDeviceQueue opts now b stale (m, d) = (m', d')"
  shows "queue_of b d' = [] \<and> queue_of (\<not> b) d' = queue_of (\<not> b) d \<and>
    Notified m' = Notified m @ srbs_of m (queue_of b d) \<and>
    (\<forall>p \<in> set (srbs_of m (queue_of b d)).
       SrbStatus (Srbs m' p) = SRB_STATUS_ABORTED \<and> DataTransferLength (Srbs m' p) = 0) \<and>
    queues_ok m' d' \<and> stats_ok d'"
  using DrainDeviceQueue_ok [OF assms(1,3)] DrainDeviceQueue_stats_ok [OF assms]
  by (simp add: aborted_srb_def)

theorem drain_completes_all_witness:
  "Notified (fst (DrainDeviceQueue WnbdDriverOptions 9 False True (sample_mem, sample_device [1, 2])))
     = [101, 102]"
proof -
  obtain m' d' where "DrainDeviceQueue WnbdDriverOptions 9 False True (sample_mem, sample_device [1, 2]) = (m', d')"
    by (cases "DrainDeviceQueue WnbdDriverOptions 9 False True (sample_mem, sample_device [1, 2])")
  with drain_completes_all [OF sample_queues_ok [of "[1, 2]"] sample_stats_ok this] show ?thesis
    by (simp add: srbs_of_def) (simp add: sample_mem_def sample_element_def)
qed

text \<open>The stale check only ever looks at the queue that is drained.\<close>

lemma drain_loop_stale:
  assumes "queues_ok m d" "drain_loop opts now b c st (m, d) = (st', m', d')"
  shows "st' \<longleftrightarrow> st \<or> c \<and> (\<exists>e \<in> set (queue_of b d). stale_request opts now (Elems m e) (Stats d))"
  using assms
proof (induction opts now b c st "(m, d)" arbitrary: m d rule: drain_loop.induct)
  case (1 opts now b c st m d)
  obtain r d1 where rm: "drain_remove b d = (r, d1)" by (cases "drain_remove b d")
  show ?case
  proof (cases r)
    case None
    with rm drain_remove_None [of b d d1] 1(3) show ?thesis
      by (auto simp: drain_loop.simps [of opts now b c st m d] split: if_splits)
  next
    case (Some e)
    obtain m2 d2 where ab: "abort_element b e (m, d1) = (m2, d2)"
      by (cases "abort_element b e (m, d1)")
    obtain m3 d3 where cp: "CompleteRequest e True (m2, d2) = (m3, d3)"
      by (cases "CompleteRequest e True (m2, d2)")
    note st = drain_step [OF 1(2) rm [unfolded Some], unfolded ab, OF cp]
    note rm_ok = drain_remove_ok [OF 1(2) rm [unfolded Some]]
    have same: "stale_request opts now (Elems m2 e) (Stats d2) = stale_request opts now (Elems m e) (Stats d)"
      using ab rm_ok(5,6) by (auto simp: abort_element_def stale_request_def Let_def split: if_splits)
    have st3: "stale_request opts now x (Stats d3) = stale_request opts now x (Stats d)" for x
      by (simp add: st(6) stale_request_def drained_stats_def)
    define st2 where "st2 = (st \<or> c \<and> stale_request opts now (Elems m2 e) (Stats d2))"
    have lp: "drain_loop opts now b c st2 (m3, d3) = (st', m', d')"
      using 1(3) by (simp add: drain_loop.simps [of opts now b c st m d] rm Some ab cp Let_def st2_def)
    have IH: "st' = (st2 \<or> c \<and> (\<exists>e \<in> set (queue_of b d3). stale_request opts now (Elems m3 e) (Stats d3)))"
      using 1(1) [OF rm [symmetric] Some ab [symmetric] _ cp st(1), of st2] lp by (simp add: st2_def)
    have "e \<notin> set (queue_of b d3)" using queue_of_distinct [OF 1(2), of b] st(2) by simp
    then have "(\<exists>x \<in> set (queue_of b d3). stale_request opts now (Elems m3 x) (Stats d3)) =
        (\<exists>x \<in> set (queue_of b d3). stale_request opts now (Elems m x) (Stats d))"
      using st(5) st3 by metis
    then show ?thesis using IH same unfolding st2_def st(2) by auto
  qed
qed

text \<open>
  A drain removes the device exactly when asked to check for a stale connection, the
  option to remove stale connections is set, and one of the drained requests and the last
  reply are both older than their limits; otherwise the removal flag is left alone.
\<close>

lemma drain_removes_stale_connection:
  assumes "queues_ok m d" "DrainDeviceQueue opts now b c (m, d) = (m', d')" "\<not> HardRemoveDevice d"
  shows "HardRemoveDevice d' \<longleftrightarrow>
    c \<and> opt_bool opts OptRemoveStaleConnections \<and>
    (\<exists>e \<in> set (queue_of b d). stale_request opts now (Elems m e) (Stats d))"
proof -
  obtain st m1 d1 where lp: "drain_loop opts now b c False (m, d) = (st, m1, d1)"
    by (cases "drain_loop opts now b c False (m, d)") auto
  have "HardRemoveDevice d1 = HardRemoveDevice d" by (rule drain_loop_hard [OF lp])
  then show ?thesis
    using assms(2,3) lp drain_loop_stale [OF assms(1) lp]
    by (auto simp: DrainDeviceQueue_def WnbdDisconnectAsync_def split: if_splits)
qed

end
