(* ===== verification/ScsiOperation.thy ===== *)
theory ScsiOperation
  imports Samples
begin

text \<open>
  SCSI commands, \<^verbatim>\<open>driver/scsi_operation.c\<close>, and the inquiry data of
  \<^verbatim>\<open>driver/userspace.c\<close>. A handler takes the request block and returns the status
  with the block it leaves, or \<open>None\<close> when it would write outside the block's data
  buffer. Structure layouts are those of the SCSI standards: a page is written as byte
  stores at the field offsets.
\<close>

section \<open>Helpers\<close>

abbreviation (input) VPD_SUPPORTED_PAGES :: u8 where "VPD_SUPPORTED_PAGES \<equiv> 0x00"
abbreviation (input) VPD_SERIAL_NUMBER :: u8 where "VPD_SERIAL_NUMBER \<equiv> 0x80"
abbreviation (input) VPD_DEVICE_IDENTIFIERS :: u8 where "VPD_DEVICE_IDENTIFIERS \<equiv> 0x83"
abbreviation (input) VPD_BLOCK_LIMITS :: u8 where "VPD_BLOCK_LIMITS \<equiv> 0xB0"
abbreviation (input) VPD_BLOCK_DEVICE_CHARACTERISTICS :: u8 where
  "VPD_BLOCK_DEVICE_CHARACTERISTICS \<equiv> 0xB1"
abbreviation (input) VPD_LOGICAL_BLOCK_PROVISIONING :: u8 where
  "VPD_LOGICAL_BLOCK_PROVISIONING \<equiv> 0xB2"
abbreviation (input) MODE_PAGE_CACHING :: u8 where "MODE_PAGE_CACHING \<equiv> 0x08"
abbreviation (input) MODE_SENSE_RETURN_ALL :: u8 where "MODE_SENSE_RETURN_ALL \<equiv> 0x3F"
abbreviation (input) MODE_SENSE_CHANGEABLE_VALUES :: u8 where "MODE_SENSE_CHANGEABLE_VALUES \<equiv> 0x40"
abbreviation (input) MODE_DSP_WRITE_PROTECT :: u8 where "MODE_DSP_WRITE_PROTECT \<equiv> 0x80"
abbreviation (input) MODE_DSP_FUA_SUPPORTED :: u8 where "MODE_DSP_FUA_SUPPORTED \<equiv> 0x10"
abbreviation (input) SERVICE_ACTION_READ_CAPACITY16 :: u8 where
  "SERVICE_ACTION_READ_CAPACITY16 \<equiv> 0x10"
abbreviation (input) INQUIRYDATABUFFERSIZE :: nat where "INQUIRYDATABUFFERSIZE \<equiv> 36"

text \<open>Store fields into the data buffer.\<close>

definition put :: "(nat \<times> bytes) list \<Rightarrow> SRB \<Rightarrow> SRB option" where
  "put ws Srb =
     do { b \<leftarrow> DataBuffer Srb; b \<leftarrow> stores ws b; Some (Srb\<lparr>DataBuffer := Some b\<rparr>) }"

text \<open>\<^verbatim>\<open>RtlZeroMemory(DataBuffer, DataTransferLength)\<close>.\<close>

definition zero_data :: "SRB \<Rightarrow> SRB option" where
  "zero_data Srb = put [(0, replicate (unat (DataTransferLength Srb)) 0)] Srb"

definition set_length :: "nat \<Rightarrow> SRB \<Rightarrow> SRB" where
  "set_length n Srb = Srb\<lparr>DataTransferLength := of_nat n\<rparr>"

section \<open>Read capacity\<close>

definition WnbdReadCapacity ::
  "WNBD_DISK_DEVICE \<Rightarrow> bytes \<Rightarrow> u32 \<Rightarrow> u64 \<Rightarrow> SRB \<Rightarrow> (u8 \<times> SRB) option" where
  "WnbdReadCapacity d Cdb bsize bcount Srb =
     (if DataBuffer Srb = None \<or> bcount = 0 then Some (SRB_STATUS_INTERNAL_ERROR, Srb)
      else do {
        let len = DataTransferLength Srb;
        let maxLba = bcount - 1;
        Srb \<leftarrow> zero_data Srb;
        if cdb_byte Cdb 0 = SCSIOP_READ_CAPACITY then
          if len < 8 then Some (SRB_STATUS_INVALID_REQUEST, Srb)
          else do {
            let lba = (if 0xFFFFFFFF \<le> maxLba then 0xFFFFFFFF else ucast maxLba :: u32);
            Srb \<leftarrow> put [(0, be_bytes 4 lba), (4, be_bytes 4 bsize)] Srb;
            Some (SRB_STATUS_SUCCESS, set_length 8 Srb)
          }
        else if cdb_byte Cdb 0 = SCSIOP_READ_CAPACITY16 then
          if cdb_byte Cdb 1 AND 0x1F \<noteq> SERVICE_ACTION_READ_CAPACITY16 then
            Some (SRB_STATUS_INVALID_REQUEST, Srb)
          else if len < 12 then Some (SRB_STATUS_INVALID_REQUEST, Srb)
          else do {
            Srb \<leftarrow> put [(0, be_bytes 8 maxLba), (8, be_bytes 4 bsize)] Srb;
            if 16 \<le> len then do {
              Srb \<leftarrow> (if UnmapSupported (Flags (Properties d)) then put [(14, [0x80])] Srb else Some Srb);
              Some (SRB_STATUS_SUCCESS, set_length (if 32 \<le> len then 32 else 16) Srb)
            } else Some (SRB_STATUS_SUCCESS, set_length 12 Srb)
          }
        else Some (SRB_STATUS_INVALID_REQUEST, Srb)
      })"

section \<open>Inquiry\<close>

definition WnbdSetVpdSupportedPages :: "nat \<Rightarrow> WNBD_DISK_DEVICE \<Rightarrow> SRB \<Rightarrow> (u8 \<times> SRB) option" where
  "WnbdSetVpdSupportedPages n d Srb =
     do {
       let pages = [VPD_SUPPORTED_PAGES, VPD_SERIAL_NUMBER, VPD_BLOCK_LIMITS,
                    VPD_BLOCK_DEVICE_CHARACTERISTICS, VPD_LOGICAL_BLOCK_PROVISIONING] @
                   (if NaaIdSpecified (Flags (Properties d)) then [VPD_DEVICE_IDENTIFIERS] else []);
       Srb \<leftarrow> put [(0, [0]), (1, [VPD_SUPPORTED_PAGES]), (3, [of_nat n]), (4, pages)] Srb;
       Some (SRB_STATUS_SUCCESS, set_length (4 + n) Srb)
     }"

definition WnbdSetVpdDeviceIdentifier :: "WNBD_DISK_DEVICE \<Rightarrow> SRB \<Rightarrow> (u8 \<times> SRB) option" where
  "WnbdSetVpdDeviceIdentifier d Srb =
     (let naa = NaaIdentifier (Properties d);
          NaaType = drop_bit 4 (cdb_byte naa 0) AND 0xF;
          NaaIdSize = (if NaaType = 0x2 \<or> NaaType = 0x5 then 8 else 16 :: nat)
      in if \<not> NaaIdSpecified (Flags (Properties d)) then Some (SRB_STATUS_INVALID_REQUEST, Srb)
         else if unat (DataTransferLength Srb) < 4 + 4 + NaaIdSize
         then Some (SRB_STATUS_DATA_OVERRUN, Srb)
         else do {
           Srb \<leftarrow> put [(0, [0]), (1, [VPD_DEVICE_IDENTIFIERS]), (3, [of_nat (4 + NaaIdSize)]),
                       (4, [1, 3]), (7, [of_nat NaaIdSize]), (8, cdb_field naa 0 NaaIdSize)] Srb;
           Some (SRB_STATUS_SUCCESS, set_length (8 + NaaIdSize) Srb)
         })"

text \<open>
  \<^verbatim>\<open>Size\<close> is an eight bit value: the length of the serial plus one, modulo 256.
\<close>

definition WnbdSetVpdSerialNumber :: "bytes \<Rightarrow> SRB \<Rightarrow> (u8 \<times> SRB) option" where
  "WnbdSetVpdSerialNumber serial Srb =
     (let sz = (of_nat (strlen serial) + 1 :: u8)
      in if unat (DataTransferLength Srb) < 4 + unat sz then Some (SRB_STATUS_DATA_OVERRUN, Srb)
         else do {
           Srb \<leftarrow> put [(0, [0]), (1, [VPD_SERIAL_NUMBER]), (3, [sz]), (4, cdb_field serial 0 (unat sz))] Srb;
           Some (SRB_STATUS_SUCCESS, set_length (4 + unat sz) Srb)
         })"

definition WnbdSetVpdBlockLimits :: "WNBD_DISK_DEVICE \<Rightarrow> u32 \<Rightarrow> SRB \<Rightarrow> SRB option" where
  "WnbdSetVpdBlockLimits d maxlen Srb =
     (if BlockSize (Properties d) = 0 then None
      else do {
        Srb \<leftarrow> put [(0, [0]), (1, [VPD_BLOCK_LIMITS]), (3, [0x3C]),
                    (8, be_bytes 4 (maxlen div BlockSize (Properties d)))] Srb;
        Srb \<leftarrow> (if UnmapSupported (Flags (Properties d))
                then put [(20, be_bytes 4 (0xFFFFFFFF :: u32)), (24, be_bytes 4 (1 :: u32))] Srb
                else Some Srb);
        Some (set_length 64 Srb)
      })"

definition WnbdSetVpdLogicalBlockProvisioning :: "WNBD_DISK_DEVICE \<Rightarrow> SRB \<Rightarrow> SRB option" where
  "WnbdSetVpdLogicalBlockProvisioning d Srb =
     do {
       Srb \<leftarrow> put [(0, [0]), (1, [VPD_LOGICAL_BLOCK_PROVISIONING]), (3, [4])] Srb;
       Srb \<leftarrow> (if UnmapSupported (Flags (Properties d)) then put [(5, [0x80]), (6, [2])] Srb
               else Some Srb);
       Some (set_length 8 Srb)
     }"

definition WnbdSetVpdBlockDeviceCharacteristics :: "WNBD_DISK_DEVICE \<Rightarrow> SRB \<Rightarrow> SRB option" where
  "WnbdSetVpdBlockDeviceCharacteristics d Srb =
     do {
       Srb \<leftarrow> put [(0, [0]), (1, [VPD_BLOCK_DEVICE_CHARACTERISTICS]), (3, [0x3C]), (4, [0, 0]),
                   (7, [0]), (8, [if FUASupported (Flags (Properties d)) then 2 else 0])] Srb;
       Some (set_length 64 Srb)
     }"

definition WnbdProcessExtendedInquiry ::
  "u32 \<Rightarrow> bytes \<Rightarrow> WNBD_DISK_DEVICE \<Rightarrow> SRB \<Rightarrow> (u8 \<times> SRB) option" where
  "WnbdProcessExtendedInquiry len Cdb d Srb =
     (let n = (if NaaIdSpecified (Flags (Properties d)) then 6 else 5 :: nat);
          page = cdb_byte Cdb 2; ok = map_option (\<lambda>Srb. (SRB_STATUS_SUCCESS, Srb))
      in if page = VPD_SUPPORTED_PAGES then
           (if unat len < 4 + n then Some (SRB_STATUS_DATA_OVERRUN, Srb)
            else WnbdSetVpdSupportedPages n d Srb)
         else if page = VPD_SERIAL_NUMBER then WnbdSetVpdSerialNumber (SerialNumber (Properties d)) Srb
         else if page = VPD_BLOCK_LIMITS then
           (if len < 64 then Some (SRB_STATUS_DATA_OVERRUN, Srb)
            else ok (WnbdSetVpdBlockLimits d WNBD_DEFAULT_MAX_TRANSFER_LENGTH Srb))
         else if page = VPD_LOGICAL_BLOCK_PROVISIONING then
           (if len < 8 then Some (SRB_STATUS_DATA_OVERRUN, Srb)
            else ok (WnbdSetVpdLogicalBlockProvisioning d Srb))
         else if page = VPD_BLOCK_DEVICE_CHARACTERISTICS then
           (if len < 64 then Some (SRB_STATUS_DATA_OVERRUN, Srb)
            else ok (WnbdSetVpdBlockDeviceCharacteristics d Srb))
         else if page = VPD_DEVICE_IDENTIFIERS then WnbdSetVpdDeviceIdentifier d Srb
         else Some (SRB_STATUS_SUCCESS, Srb))"

text \<open>The 96 byte inquiry structure; the revision string is built from the driver
  version.\<close>

definition char_array :: "nat \<Rightarrow> bytes \<Rightarrow> bytes" where
  "char_array n s = take n s @ replicate (n - length s) 0"

definition WnbdSetInquiryData :: "bytes \<Rightarrow> bytes" where
  "WnbdSetInquiryData revision =
     [0, 0, 5, 2, 31, 0, 0, 0x42] @ char_array 8 (map of_char ''WNBD'') @
     char_array 16 (map of_char ''WNBD_DISK'') @ char_array 4 revision @ replicate 60 0"

definition WnbdInquiry :: "WNBD_DISK_DEVICE \<Rightarrow> bytes \<Rightarrow> SRB \<Rightarrow> (u8 \<times> SRB) option" where
  "WnbdInquiry d Cdb Srb =
     (if DataBuffer Srb = None then Some (SRB_STATUS_INTERNAL_ERROR, Srb)
      else do {
        let len = DataTransferLength Srb;
        Srb \<leftarrow> zero_data Srb;
        if cdb_byte Cdb 1 AND 1 = 0 then
          if cdb_byte Cdb 2 \<noteq> 0 then Some (SRB_STATUS_INTERNAL_ERROR, Srb)
          else do {
            inq \<leftarrow> InquiryData d;
            Srb \<leftarrow> put [(0, take INQUIRYDATABUFFERSIZE inq)] Srb;
            Some (SRB_STATUS_SUCCESS, set_length INQUIRYDATABUFFERSIZE Srb)
          }
        else WnbdProcessExtendedInquiry len Cdb d Srb
      })"

section \<open>Mode sense\<close>

text \<open>
  \<^verbatim>\<open>CHECK_MODE_SENSE\<close> and its ten byte variant read the same byte: page control in
  the top two bits, page code in the low six. The result is the status, the request
  block, the offset of the page (\<open>None\<close> for NULL) and the length.
\<close>

definition CHECK_MODE_SENSE :: "bytes \<Rightarrow> u8 \<Rightarrow> bool" where
  "CHECK_MODE_SENSE Cdb page \<longleftrightarrow>
     MODE_SENSE_CHANGEABLE_VALUES = drop_bit 6 (cdb_byte Cdb 2) \<or>
     (page \<noteq> cdb_byte Cdb 2 AND 0x3F \<and> MODE_SENSE_RETURN_ALL \<noteq> cdb_byte Cdb 2 AND 0x3F)"

definition WnbdSetModeSense ::
  "bytes \<Rightarrow> u32 \<Rightarrow> bool \<Rightarrow> bool \<Rightarrow> SRB \<Rightarrow> (u8 \<times> SRB \<times> nat option \<times> nat) option" where
  "WnbdSetModeSense Cdb maxlen ro fua Srb =
     (let dsp = (if ro then MODE_DSP_WRITE_PROTECT else 0) OR (if fua then MODE_DSP_FUA_SUPPORTED else 0)
      in if cdb_byte Cdb 0 = SCSIOP_MODE_SENSE then
           (if CHECK_MODE_SENSE Cdb MODE_PAGE_CACHING
            then Some (SRB_STATUS_INVALID_REQUEST, Srb, None, 16)
            else if unat maxlen < 16 then Some (SRB_STATUS_DATA_OVERRUN, Srb, None, 16)
            else do { Srb \<leftarrow> put [(0, [15, 0, dsp, 0])] Srb; Some (SRB_STATUS_SUCCESS, Srb, Some 4, 16) })
         else if cdb_byte Cdb 0 = SCSIOP_MODE_SENSE10 then
           (if CHECK_MODE_SENSE Cdb MODE_PAGE_CACHING
            then Some (SRB_STATUS_INVALID_REQUEST, Srb, None, 20)
            else if unat maxlen < 20 then Some (SRB_STATUS_DATA_OVERRUN, Srb, None, 20)
            else do { Srb \<leftarrow> put [(0, [0, 18, 0, dsp]), (6, [0, 0])] Srb;
                      Some (SRB_STATUS_SUCCESS, Srb, Some 8, 20) })
         else Some (SRB_STATUS_INVALID_REQUEST, Srb, None, 0))"

text \<open>Writes to the bit fields of the caching page keep the bits around them.\<close>

definition caching_page :: "bool \<Rightarrow> u8 \<Rightarrow> u8 \<Rightarrow> bytes" where
  "caching_page flush b0 b2 =
     [MODE_PAGE_CACHING OR (b0 AND 0x40), 10,
      (b2 AND 0xFA) OR (if flush then 0x04 else 0x01)]"

definition WnbdModeSense :: "WNBD_DISK_DEVICE \<Rightarrow> bytes \<Rightarrow> SRB \<Rightarrow> (u8 \<times> SRB) option" where
  "WnbdModeSense d Cdb Srb =
     (if DataBuffer Srb = None then Some (SRB_STATUS_INTERNAL_ERROR, Srb)
      else do {
        let fl = Flags (Properties d);
        (st, Srb, page, len) \<leftarrow>
          WnbdSetModeSense Cdb (DataTransferLength Srb) (ReadOnly fl) (FUASupported fl) Srb;
        case page of
          None \<Rightarrow> Some (st, Srb)
        | Some off \<Rightarrow>
            if st \<noteq> SRB_STATUS_SUCCESS then Some (st, Srb)
            else do {
              b \<leftarrow> DataBuffer Srb;
              Srb \<leftarrow> put [(off, caching_page (FlushSupported fl) (cdb_byte b off) (cdb_byte b (off + 2)))] Srb;
              Some (st, set_length len Srb)
            }
      })"

section \<open>Report LUNs\<close>

definition WnbdReportLuns :: "SRB \<Rightarrow> (u8 \<times> SRB) option" where
  "WnbdReportLuns Srb =
     (if DataBuffer Srb = None then Some (SRB_STATUS_INTERNAL_ERROR, Srb)
      else do {
        Srb \<leftarrow> zero_data Srb;
        Srb \<leftarrow> put [(3, [8])] Srb;
        Some (SRB_STATUS_SUCCESS, set_length 16 Srb)
      })"

section \<open>Queueing\<close>

text \<open>
  \<open>a\<close> is the answer of the pool allocator and \<open>now\<close> the time. The result has the status,
  the memory and the device.
\<close>

definition WnbdPendElement ::
  "ptr \<Rightarrow> ptr \<Rightarrow> u64 \<Rightarrow> u64 \<Rightarrow> bool \<Rightarrow> ptr option \<Rightarrow> u64 \<Rightarrow> dstate \<Rightarrow> u32 \<times> dstate" where
  "WnbdPendElement ext Srb lbn len fua a now s =
     (let (m, d) = s;
          d = stat_upd (\<lambda>st. st\<lparr>LastReceivedReqTimestamp := now,
                 TotalReceivedIORequests := TotalReceivedIORequests st + 1,
                 UnsubmittedIORequests := UnsubmittedIORequests st + 1\<rparr>) d
      in case WnbdAllocSrbElement a (m, d) of
           (None, m, d) \<Rightarrow>
             (STATUS_INSUFFICIENT_RESOURCES,
              srb_upd Srb (\<lambda>s. s\<lparr>SrbStatus := SRB_STATUS_ABORTED\<rparr>) m,
              stat_upd (\<lambda>st. st\<lparr>UnsubmittedIORequests := UnsubmittedIORequests st - 1\<rparr>) d)
         | (Some e, m, d) \<Rightarrow>
             (STATUS_PENDING,
              elem_upd e (\<lambda>el. el\<lparr>ReqTimestamp := now, ElemExtension := ext, ElemSrb := Srb,
                 StartingLbn := lbn, DataLength := ucast len, Aborted := False, Completed := False,
                 FUA := fua\<rparr>) m,
              d\<lparr>PendingReqListHead := PendingReqListHead d @ [e], DeviceEvent := DeviceEvent d + 1\<rparr>))"

abbreviation (input) block_ops :: "u8 set" where
  "block_ops \<equiv> {SCSIOP_READ6, SCSIOP_READ, SCSIOP_READ12, SCSIOP_READ16,
     SCSIOP_WRITE6, SCSIOP_WRITE, SCSIOP_WRITE12, SCSIOP_WRITE16,
     SCSIOP_SYNCHRONIZE_CACHE, SCSIOP_SYNCHRONIZE_CACHE16}"

definition out_of_range :: "WNBD_DISK_DEVICE \<Rightarrow> u64 \<Rightarrow> u32 \<Rightarrow> bool" where
  "out_of_range d addr cnt \<longleftrightarrow>
     addr + ucast cnt < addr \<or> addr + ucast cnt > BlockCount (Properties d)"

definition set_status :: "ptr \<Rightarrow> u8 \<Rightarrow> kmem \<Rightarrow> kmem" where
  "set_status Srb st m = srb_upd Srb (\<lambda>s. s\<lparr>SrbStatus := st\<rparr>) m"

definition pend_block ::
  "ptr \<Rightarrow> ptr \<Rightarrow> bytes \<Rightarrow> ptr option \<Rightarrow> u64 \<Rightarrow> dstate \<Rightarrow> u32 \<times> dstate" where
  "pend_block ext Srb Cdb a now s =
     (let (m, d) = s;
          (addr, cnt, fua) = SrbCdbGetRange Cdb;
          len = cnt * BlockSize (Properties d)
      in if len < DataTransferLength (Srbs m Srb) \<and>
            (cdb_byte Cdb 0 \<noteq> SCSIOP_SYNCHRONIZE_CACHE \<or> cdb_byte Cdb 0 \<noteq> SCSIOP_SYNCHRONIZE_CACHE16)
         then (STATUS_BUFFER_TOO_SMALL, set_status Srb SRB_STATUS_ABORTED m, d)
         else if out_of_range d addr cnt
         then (STATUS_INVALID_PARAMETER,
               srb_upd Srb (\<lambda>s. SetSrbStatus s (zero_status\<lparr>ScsiStatus := SCSISTAT_CHECK_CONDITION,
                 SenseKey := SCSI_SENSE_ILLEGAL_REQUEST, ASC := SCSI_ADSENSE_ILLEGAL_BLOCK\<rparr>)) m, d)
         else WnbdPendElement ext Srb (addr * ucast (BlockSize (Properties d))) (ucast len)
                (fua \<noteq> 0) a now (m, d))"

text \<open>The unmap parameter list: header of 8 bytes, descriptors of 16 bytes.\<close>

definition pend_unmap ::
  "ptr \<Rightarrow> ptr \<Rightarrow> bytes \<Rightarrow> ptr option \<Rightarrow> u64 \<Rightarrow> dstate \<Rightarrow> u32 \<times> dstate" where
  "pend_unmap ext Srb Cdb a now s =
     (let (m, d) = s; len = DataTransferLength (Srbs m Srb);
          short = (STATUS_BUFFER_TOO_SMALL, set_status Srb SRB_STATUS_ABORTED m, d);
          invalid = (STATUS_INVALID_PARAMETER, set_status Srb SRB_STATUS_INVALID_REQUEST m, d)
      in case DataBuffer (Srbs m Srb) of
           None \<Rightarrow> short
         | Some buf \<Rightarrow>
             (let desc = be_word (cdb_field buf 2 2) :: u16
              in if len < 8 then short
                 else if unat len < 8 + unat desc \<or> unat WNBD_DEFAULT_MAX_TRANSFER_LENGTH < unat desc
                 then short
                 else if cdb_byte Cdb 1 AND 1 \<noteq> 0 then invalid
                 else if desc = 0
                 then (STATUS_SUCCESS,
                       srb_upd Srb (\<lambda>s. s\<lparr>DataTransferLength := 0, SrbStatus := SRB_STATUS_SUCCESS\<rparr>) m, d)
                 else if unat desc div 16 \<noteq> 1 then invalid
                 else (let addr = be_word (cdb_field buf 8 8); cnt = be_word (cdb_field buf 16 4)
                       in if out_of_range d addr cnt then invalid
                          else WnbdPendElement ext Srb (addr * ucast (BlockSize (Properties d)))
                                 (ucast cnt * ucast (BlockSize (Properties d))) False a now (m, d))))"

definition WnbdPendOperation ::
  "ptr \<Rightarrow> ptr \<Rightarrow> ptr option \<Rightarrow> u64 \<Rightarrow> dstate \<Rightarrow> u32 \<times> dstate" where
  "WnbdPendOperation ext Srb a now s =
     (let (m, d) = s in
      case SrbCdb (Srbs m Srb) of
        None \<Rightarrow> (STATUS_INVALID_PARAMETER, set_status Srb SRB_STATUS_INVALID_REQUEST m, d)
      | Some Cdb \<Rightarrow>
          (let op = cdb_byte Cdb 0; len = DataTransferLength (Srbs m Srb)
           in if op \<in> block_ops then pend_block ext Srb Cdb a now (m, d)
              else if op = SCSIOP_UNMAP then pend_unmap ext Srb Cdb a now (m, d)
              else if op \<in> {SCSIOP_PERSISTENT_RESERVE_IN, SCSIOP_PERSISTENT_RESERVE_OUT} then
                (if WNBD_DEFAULT_MAX_TRANSFER_LENGTH < len
                 then (STATUS_BUFFER_TOO_SMALL, set_status Srb SRB_STATUS_ABORTED m, d)
                 else WnbdPendElement ext Srb 0 (ucast len) False a now (m, d))
              else (STATUS_INVALID_PARAMETER, set_status Srb SRB_STATUS_INVALID_REQUEST m, d)))"

section \<open>The command switch\<close>

text \<open>A handler's status is stored in the block it leaves.\<close>

definition answer :: "ptr \<Rightarrow> (SRB \<Rightarrow> (u8 \<times> SRB) option) \<Rightarrow> dstate \<Rightarrow> (u32 \<times> dstate) option" where
  "answer Srb h s =
     (let (m, d) = s in
      do { (st, r) \<leftarrow> h (Srbs m Srb);
           Some (STATUS_SUCCESS, srb_upd Srb (\<lambda>_. r\<lparr>SrbStatus := st\<rparr>) m, d) })"

definition WnbdHandleSrbOperation ::
  "ptr \<Rightarrow> ptr \<Rightarrow> ptr option \<Rightarrow> u64 \<Rightarrow> dstate \<Rightarrow> (u32 \<times> dstate) option" where
  "WnbdHandleSrbOperation ext Srb a now s =
     (let (m, d) = s in
      case SrbCdb (Srbs m Srb) of
        None \<Rightarrow> Some (STATUS_INVALID_PARAMETER, set_status Srb SRB_STATUS_INVALID_REQUEST m, d)
      | Some Cdb \<Rightarrow>
          (let op = cdb_byte Cdb 0; bs = BlockSize (Properties d); bc = BlockCount (Properties d);
               const = (\<lambda>st. answer Srb (\<lambda>r. Some (st, r)) (m, d))
           in if HardRemoveDevice d
              then Some (STATUS_INVALID_PARAMETER, set_status Srb SRB_STATUS_INVALID_REQUEST m, d)
              else if op \<in> block_ops \<union> {SCSIOP_PERSISTENT_RESERVE_IN, SCSIOP_PERSISTENT_RESERVE_OUT, SCSIOP_UNMAP}
              then Some (WnbdPendOperation ext Srb a now (set_status Srb SRB_STATUS_ABORTED m, d))
              else if op = SCSIOP_INQUIRY then answer Srb (WnbdInquiry d Cdb) (m, d)
              else if op \<in> {SCSIOP_MODE_SENSE, SCSIOP_MODE_SENSE10} then answer Srb (WnbdModeSense d Cdb) (m, d)
              else if op = SCSIOP_READ_CAPACITY then answer Srb (WnbdReadCapacity d Cdb bs bc) (m, d)
              else if op = SCSIOP_READ_CAPACITY16 then
                (if cdb_byte Cdb 1 AND 0x1F = SERVICE_ACTION_READ_CAPACITY16
                 then answer Srb (WnbdReadCapacity d Cdb bs bc) (m, d)
                 else const SRB_STATUS_INVALID_REQUEST)
              else if op \<in> {SCSIOP_VERIFY, SCSIOP_TEST_UNIT_READY} then const SRB_STATUS_SUCCESS
              else if op = SCSIOP_REPORT_LUNS then answer Srb WnbdReportLuns (m, d)
              else const SRB_STATUS_INVALID_REQUEST))"


section \<open>Stores stay in the buffer\<close>

definition roomy :: "nat \<Rightarrow> SRB \<Rightarrow> bool" where
  "roomy n Srb \<longleftrightarrow> (case DataBuffer Srb of None \<Rightarrow> False | Some b \<Rightarrow> n \<le> length b)"

lemma put_roomy:
  assumes "roomy n Srb" "\<forall>(off, bs) \<in> set ws. off + length bs \<le> n"
  shows "\<exists>Srb'. put ws Srb = Some Srb' \<and> roomy n Srb' \<and> DataTransferLength Srb' = DataTransferLength Srb"
proof -
  obtain b where b: "DataBuffer Srb = Some b" "n \<le> length b"
    using assms(1) by (auto simp: roomy_def split: option.splits)
  then have "\<forall>(off, bs) \<in> set ws. off + length bs \<le> length b" using assms(2) by fastforce
  then obtain b' where "stores ws b = Some b'" using stores_total by blast
  then show ?thesis using b stores_length [of ws b b'] by (simp add: put_def roomy_def)
qed

lemma zero_data_roomy:
  "roomy (unat (DataTransferLength Srb)) Srb \<Longrightarrow>
     \<exists>Srb'. zero_data Srb = Some Srb' \<and> roomy (unat (DataTransferLength Srb)) Srb' \<and>
       DataTransferLength Srb' = DataTransferLength Srb"
  unfolding zero_data_def by (rule put_roomy) simp_all

lemma roomy_mono: "roomy n Srb \<Longrightarrow> k \<le> n \<Longrightarrow> roomy k Srb"
  by (auto simp: roomy_def split: option.splits)

text \<open>A computation that does not leave a buffer.\<close>

definition safe :: "'a option \<Rightarrow> bool" where
  "safe x \<longleftrightarrow> x \<noteq> None"

lemma safe_Some [simp]: "safe (Some x)"
  by (simp add: safe_def)

lemma safe_map: "safe x \<Longrightarrow> safe (map_option f x)"
  by (simp add: safe_def)

lemma safe_bind:
  "safe x \<Longrightarrow> (\<And>y. x = Some y \<Longrightarrow> safe (f y)) \<Longrightarrow> safe (Option.bind x f)"
  by (cases x) (auto simp: safe_def)

lemma safe_put:
  "roomy n Srb \<Longrightarrow> \<forall>(off, bs) \<in> set ws. off + length bs \<le> n \<Longrightarrow> safe (put ws Srb)"
  using put_roomy [of n Srb ws] by (auto simp: safe_def)

lemma put_keeps:
  "put ws Srb = Some S \<Longrightarrow> roomy n S = roomy n Srb \<and> DataTransferLength S = DataTransferLength Srb"
  by (auto simp: put_def roomy_def bind_eq_Some_conv dest: stores_length)

lemma zero_data_keeps:
  "zero_data Srb = Some S \<Longrightarrow> roomy n S = roomy n Srb \<and> DataTransferLength S = DataTransferLength Srb"
  by (simp add: zero_data_def put_keeps)

lemma safe_zero_data: "roomy (unat (DataTransferLength Srb)) Srb \<Longrightarrow> safe (zero_data Srb)"
  using zero_data_roomy by (auto simp: safe_def)

lemma safe_if:
  "(b \<Longrightarrow> safe x) \<Longrightarrow> (\<not> b \<Longrightarrow> safe y) \<Longrightarrow> safe (if b then x else y)"
  by simp

lemma WnbdReadCapacity_safe:
  assumes "roomy (unat (DataTransferLength Srb)) Srb"
  shows "safe (WnbdReadCapacity d Cdb bsize bcount Srb)"
  unfolding WnbdReadCapacity_def Let_def
  by (intro safe_if safe_bind safe_zero_data assms safe_Some
        safe_put [of "unat (DataTransferLength Srb)"])
     (auto simp: word_less_nat_alt word_le_nat_alt assms
       dest!: put_keeps [where n = "unat (DataTransferLength Srb)"]
         zero_data_keeps [where n = "unat (DataTransferLength Srb)"])

lemma WnbdProcessExtendedInquiry_safe:
  assumes "roomy (unat len) Srb" "len = DataTransferLength Srb" "BlockSize (Properties d) \<noteq> 0"
  shows "safe (WnbdProcessExtendedInquiry len Cdb d Srb)"
  unfolding WnbdProcessExtendedInquiry_def Let_def WnbdSetVpdSupportedPages_def
    WnbdSetVpdSerialNumber_def WnbdSetVpdBlockLimits_def WnbdSetVpdLogicalBlockProvisioning_def
    WnbdSetVpdBlockDeviceCharacteristics_def WnbdSetVpdDeviceIdentifier_def
  by (intro safe_if safe_map safe_bind safe_Some safe_put [of "unat len"])
     (auto simp: word_less_nat_alt assms(1,3) assms(2) [symmetric] split: if_splits
       dest!: put_keeps [where n = "unat len"])

lemma WnbdInquiry_safe:
  assumes "roomy (unat (DataTransferLength Srb)) Srb" "BlockSize (Properties d) \<noteq> 0"
    and "cdb_byte Cdb 1 AND 1 = 0 \<Longrightarrow> cdb_byte Cdb 2 = 0 \<Longrightarrow>
           InquiryData d \<noteq> None \<and> 36 \<le> unat (DataTransferLength Srb)"
  shows "safe (WnbdInquiry d Cdb Srb)"
  unfolding WnbdInquiry_def Let_def
  by (intro safe_if safe_bind safe_zero_data assms(1,2) safe_Some safe_put [of "unat (DataTransferLength Srb)"]
        WnbdProcessExtendedInquiry_safe)
     (use assms in \<open>auto simp: safe_def
       dest!: zero_data_keeps [where n = "unat (DataTransferLength Srb)"]\<close>)

lemma WnbdSetModeSense_safe:
  assumes "roomy (unat len) Srb" shows "safe (WnbdSetModeSense Cdb len ro fua Srb)"
  unfolding WnbdSetModeSense_def Let_def
  by (intro safe_if safe_bind safe_Some safe_put [OF assms]) auto

lemma WnbdSetModeSense_page:
  "WnbdSetModeSense Cdb len ro fua Srb = Some (st, S, Some off, n) \<Longrightarrow>
     off + 12 \<le> unat len \<and> n = off + 12 \<and> roomy k S = roomy k Srb"
  by (auto simp: WnbdSetModeSense_def Let_def bind_eq_Some_conv split: if_splits dest: put_keeps)

lemma WnbdModeSense_safe:
  assumes "roomy (unat (DataTransferLength Srb)) Srb"
  shows "safe (WnbdModeSense d Cdb Srb)"
  unfolding WnbdModeSense_def Let_def
proof (intro safe_if safe_Some safe_bind WnbdSetModeSense_safe assms, clarify)
  fix st S page n
  assume r: "WnbdSetModeSense Cdb (DataTransferLength Srb) (ReadOnly (Flags (Properties d)))
    (FUASupported (Flags (Properties d))) Srb = Some (st, S, page, n)"
  show "safe (case page of None \<Rightarrow> Some (st, S)
      | Some off \<Rightarrow> if st \<noteq> SRB_STATUS_SUCCESS then Some (st, S)
          else DataBuffer S \<bind> (\<lambda>b. put [(off, caching_page (FlushSupported (Flags (Properties d)))
                 (cdb_byte b off) (cdb_byte b (off + 2)))] S \<bind> (\<lambda>Srb. Some (st, set_length n Srb))))"
  proof (cases page)
    case (Some off)
    from WnbdSetModeSense_page [OF r [unfolded Some], of "unat (DataTransferLength Srb)"] assms
    have rs: "roomy (unat (DataTransferLength Srb)) S" "off + 12 \<le> unat (DataTransferLength Srb)" by simp_all
    then have "safe (DataBuffer S)" by (auto simp: roomy_def safe_def split: option.splits)
    then have "safe (if st \<noteq> SRB_STATUS_SUCCESS then Some (st, S)
          else DataBuffer S \<bind> (\<lambda>b. put [(off, caching_page (FlushSupported (Flags (Properties d)))
                 (cdb_byte b off) (cdb_byte b (off + 2)))] S \<bind> (\<lambda>Srb. Some (st, set_length n Srb))))"
      by (intro safe_if safe_bind safe_put [OF rs(1)] safe_Some) (use rs(2) in \<open>auto simp: caching_page_def\<close>)
    with Some show ?thesis by simp
  qed simp
qed

lemma WnbdReportLuns_safe:
  assumes "roomy (unat (DataTransferLength Srb)) Srb" "4 \<le> unat (DataTransferLength Srb)"
  shows "safe (WnbdReportLuns Srb)"
  unfolding WnbdReportLuns_def
  by (intro safe_if safe_bind safe_zero_data assms(1) safe_Some safe_put [of "unat (DataTransferLength Srb)"])
     (use assms in \<open>auto dest!: zero_data_keeps [where n = "unat (DataTransferLength Srb)"]\<close>)


section \<open>Queueing keeps the invariant\<close>

text \<open>The allocator does not hand out memory that is in use.\<close>

definition fresh :: "ptr option \<Rightarrow> kmem \<Rightarrow> bool" where
  "fresh a m \<longleftrightarrow> (case a of None \<Rightarrow> True | Some p \<Rightarrow> p \<notin> Allocated m)"

lemma fresh_Some: "fresh a m \<Longrightarrow> a = Some p \<Longrightarrow> p \<notin> Allocated m"
  by (simp add: fresh_def)

text \<open>What a queueing attempt does: the request is appended, or nothing but its status changes.\<close>

definition pended :: "ptr \<Rightarrow> ptr \<Rightarrow> u64 \<Rightarrow> u32 \<Rightarrow> dstate \<Rightarrow> dstate \<Rightarrow> bool" where
  "pended e Srb lbn len s s' \<longleftrightarrow>
     (let (m, d) = s; (m', d') = s' in
      queues_ok m' d' \<and> PendingReqListHead d' = PendingReqListHead d @ [e] \<and>
      SubmittedReqListHead d' = SubmittedReqListHead d \<and> Notified m' = Notified m \<and> Srbs m' = Srbs m \<and>
      Properties d' = Properties d \<and> DeviceEvent d' = DeviceEvent d + 1 \<and>
      HardRemoveDevice d' = HardRemoveDevice d \<and>
      ElemSrb (Elems m' e) = Srb \<and> StartingLbn (Elems m' e) = lbn \<and> DataLength (Elems m' e) = len \<and>
      (\<forall>x \<in> set (queued d). Elems m' x = Elems m x) \<and>
      UnsubmittedIORequests (Stats d') = UnsubmittedIORequests (Stats d) + 1 \<and>
      Stats d' = (Stats d)\<lparr>LastReceivedReqTimestamp := LastReceivedReqTimestamp (Stats d'),
        TotalReceivedIORequests := TotalReceivedIORequests (Stats d') ,
        UnsubmittedIORequests := UnsubmittedIORequests (Stats d')\<rparr>)"

definition refused :: "ptr \<Rightarrow> dstate \<Rightarrow> dstate \<Rightarrow> bool" where
  "refused Srb s s' \<longleftrightarrow>
     (let (m, d) = s; (m', d') = s' in
      queues_ok m' d' \<and> queued d' = queued d \<and> PendingReqListHead d' = PendingReqListHead d \<and>
      SubmittedReqListHead d' = SubmittedReqListHead d \<and> Notified m' = Notified m \<and>
      (\<forall>p. p \<noteq> Srb \<longrightarrow> Srbs m' p = Srbs m p) \<and> Elems m' = Elems m \<and>
      Properties d' = Properties d \<and> HardRemoveDevice d' = HardRemoveDevice d \<and>
      SrbStatus (Srbs m' Srb) \<noteq> SRB_STATUS_PENDING \<and>
      Stats d' = (Stats d)\<lparr>LastReceivedReqTimestamp := LastReceivedReqTimestamp (Stats d'),
        TotalReceivedIORequests := TotalReceivedIORequests (Stats d')\<rparr>)"

lemma queues_ok_enqueue:
  assumes "queues_ok m d" "in_hand e (m, d)" "\<not> Aborted (Elems m e)" "\<not> Completed (Elems m e)"
  shows "queues_ok m (d\<lparr>PendingReqListHead := PendingReqListHead d @ [e], DeviceEvent := DeviceEvent d + 1\<rparr>)"
  using assms by (auto simp: queue_defs)

lemma WnbdAllocSrbElement_frame:
  "WnbdAllocSrbElement a (m, d) = (Some e, m', d') \<Longrightarrow>
     d' = d\<lparr>SrbElementPool := SrbElementPool d'\<rparr> \<and> Srbs m' = Srbs m \<and> Notified m' = Notified m"
  by (cases a) (auto simp: WnbdAllocSrbElement_def split: list.splits)

lemma WnbdPendElement_ok:
  assumes "queues_ok m d" "fresh a m"
    and "WnbdPendElement ext Srb lbn len fua a now (m, d) = (St, s')"
  shows "St = STATUS_PENDING \<and> (\<exists>e. pended e Srb lbn (ucast len) (m, d) s') \<or>
    St = STATUS_INSUFFICIENT_RESOURCES \<and> refused Srb (m, d) s'"
proof -
  define d0 where "d0 = stat_upd (\<lambda>st. st\<lparr>LastReceivedReqTimestamp := now,
     TotalReceivedIORequests := TotalReceivedIORequests st + 1,
     UnsubmittedIORequests := UnsubmittedIORequests st + 1\<rparr>) d"
  have q0: "queues_ok m d0" using assms(1) by (simp add: d0_def)
  obtain r m1 d1 where al: "WnbdAllocSrbElement a (m, d0) = (r, m1, d1)"
    by (cases "WnbdAllocSrbElement a (m, d0)") auto
  show ?thesis
  proof (cases r)
    case None
    then have "m1 = m" "d1 = d0" using WnbdAllocSrbElement_None [of a m d0 "(m1, d1)"] al by simp_all
    with None al assms(3) have s': "St = STATUS_INSUFFICIENT_RESOURCES"
      "s' = (srb_upd Srb (\<lambda>s. s\<lparr>SrbStatus := SRB_STATUS_ABORTED\<rparr>) m,
         stat_upd (\<lambda>st. st\<lparr>UnsubmittedIORequests := UnsubmittedIORequests st - 1\<rparr>) d0)"
      by (simp_all add: WnbdPendElement_def d0_def [symmetric] Let_def)
    have "refused Srb (m, d) s'" using assms(1) by (simp add: refused_def s'(2) d0_def)
    with s'(1) show ?thesis by simp
  next
    case (Some e)
    let ?f = "\<lambda>el. el\<lparr>ReqTimestamp := now, ElemExtension := ext, ElemSrb := Srb,
       StartingLbn := lbn, DataLength := ucast len, Aborted := False, Completed := False, FUA := fua\<rparr>"
    let ?m = "elem_upd e ?f m1"
    let ?d = "d1\<lparr>PendingReqListHead := PendingReqListHead d1 @ [e], DeviceEvent := DeviceEvent d1 + 1\<rparr>"
    have s': "St = STATUS_PENDING" "s' = (?m, ?d)"
      using assms(3) al Some by (simp_all add: WnbdPendElement_def d0_def [symmetric] Let_def)
    note a_ok = WnbdAllocSrbElement_ok [OF q0 al [unfolded Some] fresh_Some [OF assms(2)]]
    note fr = WnbdAllocSrbElement_frame [OF al [unfolded Some]]
    have hand: "in_hand e (m1, d1)" "queues_ok m1 d1" using a_ok by simp_all
    then have "queues_ok ?m d1" by (simp add: queues_ok_elem_upd in_hand_def)
    then have "queues_ok ?m ?d" by (rule queues_ok_enqueue) (use hand in simp_all)
    moreover have d1: "PendingReqListHead d1 = PendingReqListHead d" "SubmittedReqListHead d1 = SubmittedReqListHead d"
      "DeviceEvent d1 = DeviceEvent d" "Properties d1 = Properties d" "HardRemoveDevice d1 = HardRemoveDevice d"
      "Stats d1 = Stats d0"
      by (subst fr [THEN conjunct1], simp add: d0_def)+
    moreover have "\<forall>x \<in> set (queued d). Elems ?m x = Elems m x"
    proof
      fix x assume "x \<in> set (queued d)"
      then have x: "x \<in> set (linked d1)" using d1 by (auto simp: linked_def queued_def)
      then have "x \<noteq> e" using hand(1) by (auto simp: in_hand_def)
      with x a_ok show "Elems ?m x = Elems m x" by simp
    qed
    ultimately have "pended e Srb lbn (ucast len) (m, d) s'"
      using fr by (simp add: pended_def s') (simp add: d0_def)
    with s' show ?thesis by blast
  qed
qed


lemma SetSrbStatus_error [simp]: "SrbStatus (SetSrbStatus s st) \<noteq> 0"
  by (simp add: SetSrbStatus_def Let_def)

lemma refused_status:
  assumes "queues_ok m d" "\<And>s. SrbStatus (f s) \<noteq> SRB_STATUS_PENDING"
  shows "refused Srb (m, d) (srb_upd Srb f m, d)"
  using assms by (simp add: refused_def)

lemma refused_set_status:
  "queues_ok m d \<Longrightarrow> st \<noteq> SRB_STATUS_PENDING \<Longrightarrow> refused Srb (m, d) (set_status Srb st m, d)"
  unfolding set_status_def by (rule refused_status) simp_all

lemma out_of_range_iff:
  "\<not> out_of_range d addr cnt \<longleftrightarrow> unat addr + unat cnt \<le> unat (BlockCount (Properties d))"
proof -
  have cnt: "unat (ucast cnt :: u64) = unat cnt" by simp
  show ?thesis
  proof (cases "unat addr + unat cnt < 2 ^ 64")
    case True
    then have s: "unat (addr + ucast cnt) = unat addr + unat cnt"
      using unat_add_lem [of addr "ucast cnt"] cnt by simp
    then show ?thesis by (auto simp: out_of_range_def word_less_nat_alt not_less)
  next
    case False
    then have "addr + ucast cnt < addr"
      using no_olen_add_nat [of addr "ucast cnt"] cnt by (simp add: not_less [symmetric])
    moreover have "unat (BlockCount (Properties d)) < 2 ^ LENGTH(64)" by (rule unsigned_less)
    ultimately show ?thesis using False by (auto simp: out_of_range_def)
  qed
qed

lemma pend_block_ok:
  assumes "queues_ok m d" "fresh a m"
    and "SrbCdbGetRange Cdb = (addr, cnt, fua)" "pend_block ext Srb Cdb a now (m, d) = (St, s')"
  shows "St = STATUS_PENDING \<and> \<not> out_of_range d addr cnt \<and>
      DataTransferLength (Srbs m Srb) \<le> cnt * BlockSize (Properties d) \<and>
      (\<exists>e. pended e Srb (addr * ucast (BlockSize (Properties d))) (cnt * BlockSize (Properties d)) (m, d) s') \<or>
    St \<noteq> STATUS_PENDING \<and> refused Srb (m, d) s'"
proof -
  let ?len = "cnt * BlockSize (Properties d)"
  have nsync: "cdb_byte Cdb 0 \<noteq> SCSIOP_SYNCHRONIZE_CACHE \<or> cdb_byte Cdb 0 \<noteq> SCSIOP_SYNCHRONIZE_CACHE16" by auto
  consider (short) "?len < DataTransferLength (Srbs m Srb)"
    | (range) "\<not> ?len < DataTransferLength (Srbs m Srb)" "out_of_range d addr cnt"
    | (ok) "\<not> ?len < DataTransferLength (Srbs m Srb)" "\<not> out_of_range d addr cnt" by blast
  then show ?thesis
  proof cases
    case short
    with nsync assms(1,3,4) show ?thesis by (auto simp: pend_block_def intro!: refused_set_status)
  next
    case range
    with assms(1,3,4) show ?thesis by (auto simp: pend_block_def intro!: refused_status)
  next
    case ok
    then have "WnbdPendElement ext Srb (addr * ucast (BlockSize (Properties d))) (ucast ?len) (fua \<noteq> 0) a now (m, d) = (St, s')"
      using assms(3,4) by (simp add: pend_block_def)
    from WnbdPendElement_ok [OF assms(1,2) this] ok show ?thesis by (auto simp: not_less)
  qed
qed

lemma WnbdPendElement_cases:
  assumes "queues_ok m d" "fresh a m"
    and "WnbdPendElement ext Srb lbn len fua a now (m, d) = (St, s')"
  shows "St = STATUS_PENDING \<and> (\<exists>e lbn len. pended e Srb lbn len (m, d) s') \<or>
    St \<noteq> STATUS_PENDING \<and> refused Srb (m, d) s'"
  using WnbdPendElement_ok [OF assms] by (elim disjE conjE exE) auto

lemma pend_unmap_ok:
  assumes "queues_ok m d" "fresh a m" "pend_unmap ext Srb Cdb a now (m, d) = (St, s')"
  shows "St = STATUS_PENDING \<and> (\<exists>e lbn len. pended e Srb lbn len (m, d) s') \<or>
    St \<noteq> STATUS_PENDING \<and> refused Srb (m, d) s'"
proof -
  note pe = WnbdPendElement_cases [OF assms(1,2)]
  show ?thesis
    using assms(1,3)
    by (auto simp: pend_unmap_def Let_def intro!: refused_set_status refused_status dest!: pe
        split: option.splits if_splits)
qed

lemma WnbdPendOperation_ok:
  assumes "queues_ok m d" "fresh a m"
    and "WnbdPendOperation ext Srb a now (m, d) = (St, s')"
  shows "St = STATUS_PENDING \<and> (\<exists>e lbn len. pended e Srb lbn len (m, d) s') \<or>
    St \<noteq> STATUS_PENDING \<and> refused Srb (m, d) s'"
proof (cases "SrbCdb (Srbs m Srb)")
  case None
  with assms(1,3) show ?thesis by (auto simp: WnbdPendOperation_def intro!: refused_set_status)
next
  case (Some Cdb)
  note pe = WnbdPendElement_cases [OF assms(1,2)]
  have bl: "?thesis" if h: "pend_block ext Srb Cdb a now (m, d) = (St, s')"
  proof -
    obtain addr cnt fua where "SrbCdbGetRange Cdb = (addr, cnt, fua)" by (cases "SrbCdbGetRange Cdb") auto
    from pend_block_ok [OF assms(1,2) this h] show ?thesis by (elim disjE conjE) auto
  qed
  note un = pend_unmap_ok [OF assms(1,2)]
  let ?op = "cdb_byte Cdb 0"
  consider "?op \<in> block_ops" | "?op \<notin> block_ops" "?op = SCSIOP_UNMAP"
    | "?op \<notin> block_ops" "?op \<in> {SCSIOP_PERSISTENT_RESERVE_IN, SCSIOP_PERSISTENT_RESERVE_OUT}"
    | "?op \<notin> block_ops" "?op \<noteq> SCSIOP_UNMAP" "?op \<notin> {SCSIOP_PERSISTENT_RESERVE_IN, SCSIOP_PERSISTENT_RESERVE_OUT}"
    by blast
  then show ?thesis
  proof cases
    case 1
    with Some assms(3) bl show ?thesis by (simp add: WnbdPendOperation_def)
  next
    case 2
    with Some assms(3) un show ?thesis by (simp add: WnbdPendOperation_def)
  next
    case 3
    with Some assms(1,3) show ?thesis
      by (auto simp: WnbdPendOperation_def Let_def intro!: refused_set_status dest!: pe split: if_splits)
  next
    case 4
    with Some assms(1,3) show ?thesis
      by (auto simp: WnbdPendOperation_def intro!: refused_set_status)
  qed
qed


section \<open>Properties\<close>

text \<open>
  C31: a command never writes outside its data buffer, provided the buffer holds the
  announced transfer length, the device has a block size and its inquiry data, and the two
  commands that do not check the length get what they need: 36 bytes for a standard
  inquiry, 4 for the LUN report.
\<close>

theorem srb_operation_in_bounds:
  assumes "SrbCdb (Srbs m Srb) = Some Cdb"
    and "roomy (unat (DataTransferLength (Srbs m Srb))) (Srbs m Srb)"
    and "BlockSize (Properties d) \<noteq> 0" "InquiryData d \<noteq> None"
    and "cdb_byte Cdb 0 = SCSIOP_INQUIRY \<longrightarrow> cdb_byte Cdb 1 AND 1 = 0 \<longrightarrow>
           36 \<le> unat (DataTransferLength (Srbs m Srb))"
    and "cdb_byte Cdb 0 = SCSIOP_REPORT_LUNS \<longrightarrow> 4 \<le> unat (DataTransferLength (Srbs m Srb))"
  shows "WnbdHandleSrbOperation ext Srb a now (m, d) \<noteq> None"
proof -
  have ans: "safe (h (Srbs m Srb)) \<Longrightarrow> safe (answer Srb h (m, d))" for h
    by (auto simp: answer_def safe_def bind_eq_Some_conv)
  have inq: "cdb_byte Cdb 0 = SCSIOP_INQUIRY \<Longrightarrow> safe (WnbdInquiry d Cdb (Srbs m Srb))"
    by (rule WnbdInquiry_safe) (use assms in auto)
  have luns: "cdb_byte Cdb 0 = SCSIOP_REPORT_LUNS \<Longrightarrow> safe (WnbdReportLuns (Srbs m Srb))"
    by (rule WnbdReportLuns_safe) (use assms in auto)
  have "safe (WnbdHandleSrbOperation ext Srb a now (m, d))"
    unfolding WnbdHandleSrbOperation_def Let_def prod.case assms(1) option.case
    by (intro safe_if safe_Some ans inq luns WnbdModeSense_safe WnbdReadCapacity_safe assms(2)) auto
  then show ?thesis by (simp add: safe_def)
qed

theorem srb_operation_in_bounds_witness:
  "WnbdHandleSrbOperation 0 103 None 9
     (sample_mem\<lparr>Srbs := (\<lambda>_. sample_srb\<lparr>SrbCdb := Some [0x12, 0, 0, 0, 36, 0]\<rparr>)\<rparr>,
      (sample_device [])\<lparr>InquiryData := Some (replicate 96 0)\<rparr>) \<noteq> None"
  by (rule srb_operation_in_bounds [where Cdb = "[0x12, 0, 0, 0, 36, 0]"])
     (simp_all add: roomy_def sample_srb_def cdb_byte_def)

text \<open>
  The standard inquiry copies 36 bytes whatever the announced length, so a shorter
  buffer is overrun.
\<close>

lemma inquiry_overruns_short_buffer:
  assumes "DataBuffer Srb = Some b" "length b = unat (DataTransferLength Srb)" "length b < 36"
    and "InquiryData d = Some inq" "36 \<le> length inq"
    and "cdb_byte Cdb 1 AND 1 = 0" "cdb_byte Cdb 2 = 0"
  shows "WnbdInquiry d Cdb Srb = None"
  using assms by (simp add: WnbdInquiry_def zero_data_def put_def store_def Let_def)

text \<open>Reading back a field that was just stored.\<close>

lemma put_one:
  "put ws Srb = Some S \<Longrightarrow> DataBuffer Srb = Some b \<Longrightarrow>
     \<exists>b'. stores ws b = Some b' \<and> S = Srb\<lparr>DataBuffer := Some b'\<rparr> \<and> length b' = length b"
  by (auto simp: put_def bind_eq_Some_conv stores_length)

lemma stores_two:
  assumes "stores [(0, x), (length x, y)] b = Some b'"
  shows "take (length x) b' = x \<and> take (length y) (drop (length x) b') = y"
  using assms by (auto simp: store_def bind_eq_Some_conv split: if_splits)

text \<open>
  The ten byte capacity command reports the last block address, saturated at the
  largest 32-bit value, and the block size, both big-endian.
\<close>

lemma read_capacity_reports_geometry:
  assumes "cdb_byte Cdb 0 = SCSIOP_READ_CAPACITY" "bcount \<noteq> 0"
    and "roomy (unat (DataTransferLength Srb)) Srb" "8 \<le> DataTransferLength Srb"
  shows "\<exists>S b. WnbdReadCapacity d Cdb bsize bcount Srb = Some (SRB_STATUS_SUCCESS, S) \<and>
    DataTransferLength S = 8 \<and> DataBuffer S = Some b \<and>
    unat (be_word (take 4 b) :: u32) = min (unat bcount - 1) (2 ^ 32 - 1) \<and>
    be_word (take 4 (drop 4 b)) = bsize"
proof -
  let ?lba = "if 0xFFFFFFFF \<le> bcount - 1 then 0xFFFFFFFF else ucast (bcount - 1) :: u32"
  have nn: "DataBuffer Srb \<noteq> None" using assms(3) by (auto simp: roomy_def split: option.splits)
  obtain S1 where z: "zero_data Srb = Some S1" "roomy (unat (DataTransferLength Srb)) S1"
    using zero_data_roomy [OF assms(3)] by blast
  have n8: "8 \<le> unat (DataTransferLength Srb)" using assms(4) by (simp add: word_le_nat_alt)
  let ?ws = "[(0, be_bytes 4 ?lba), (4, be_bytes 4 bsize)]"
  obtain S2 where p: "put ?ws S1 = Some S2"
    using put_roomy [OF z(2), of ?ws] n8 by auto
  obtain b1 where "DataBuffer S1 = Some b1" using z(2) by (auto simp: roomy_def split: option.splits)
  from put_one [OF p this] obtain b where b: "stores ?ws b1 = Some b" "DataBuffer S2 = Some b" by auto
  have f: "take 4 b = be_bytes 4 ?lba" "take 4 (drop 4 b) = be_bytes 4 bsize"
    using stores_two [of "be_bytes 4 ?lba" "be_bytes 4 bsize" b1 b] b(1) by simp_all
  have u: "unat (bcount - 1) = unat bcount - 1" using assms(2) by (simp add: unat_minus_one)
  have "unat ?lba = min (unat bcount - 1) (2 ^ 32 - 1)"
    by (auto simp: word_le_nat_alt u unsigned_ucast_eq take_bit_nat_eq_self not_le)
  moreover have "be_word (take 4 b) = ?lba" "be_word (take 4 (drop 4 b)) = bsize"
    unfolding f by (rule be_roundtrip; simp)+
  ultimately show ?thesis
    using nn assms(1,2,4) z(1) p b(2)
    by (simp add: WnbdReadCapacity_def Let_def set_length_def not_less [symmetric])
qed


text \<open>
  C30: a read, write or flush is queued only if its block range lies on the disk, without
  wrap-around; otherwise nothing is queued. The queue element belongs to that request block, and
  its two fields are the range's byte offset and byte length as far as they fit in 64 and 32 bits:
  the offset exactly on every disk whose size in bytes is below two to the 64, which creation
  checks, the length only modulo two to the 32. The length the request block announces is at most
  the stored one, so a range whose length wraps is queued only for a request that announces no
  more than the wrapped length.
\<close>

theorem queued_range_is_on_disk:
  assumes "queues_ok m d" "fresh a m" "SrbCdb (Srbs m Srb) = Some Cdb" "cdb_byte Cdb 0 \<in> block_ops"
    and "SrbCdbGetRange Cdb = (addr, cnt, fua)"
    and "WnbdPendOperation ext Srb a now (m, d) = (St, m', d')"
  shows "if St = STATUS_PENDING
    then unat addr + unat cnt \<le> unat (BlockCount (Properties d)) \<and> queues_ok m' d' \<and>
         (\<exists>e. PendingReqListHead d' = PendingReqListHead d @ [e] \<and> ElemSrb (Elems m' e) = Srb \<and>
              StartingLbn (Elems m' e) = addr * ucast (BlockSize (Properties d)) \<and>
              (unat (BlockCount (Properties d)) * unat (BlockSize (Properties d)) < 2 ^ 64 \<longrightarrow>
                 unat (StartingLbn (Elems m' e)) = unat addr * unat (BlockSize (Properties d))) \<and>
              unat (DataLength (Elems m' e)) = unat cnt * unat (BlockSize (Properties d)) mod 2 ^ 32 \<and>
              DataTransferLength (Srbs m Srb) \<le> DataLength (Elems m' e))
    else queues_ok m' d' \<and> queued d' = queued d \<and> SrbStatus (Srbs m' Srb) \<noteq> SRB_STATUS_PENDING"
proof -
  let ?bs = "BlockSize (Properties d)"
  have "pend_block ext Srb Cdb a now (m, d) = (St, m', d')"
    using assms(3,4,6) by (simp add: WnbdPendOperation_def)
  note ok = pend_block_ok [OF assms(1,2,5) this] out_of_range_iff [of d addr cnt]
  show ?thesis
  proof (cases "St = STATUS_PENDING")
    case True
    then obtain e where e: "pended e Srb (addr * ucast ?bs) (cnt * ?bs) (m, d) (m', d')"
      and r: "unat addr + unat cnt \<le> unat (BlockCount (Properties d))" "DataTransferLength (Srbs m Srb) \<le> cnt * ?bs"
      using ok by auto
    have "unat addr * unat ?bs \<le> unat (BlockCount (Properties d)) * unat ?bs" using r(1) by simp
    then have lt: "unat addr * unat ?bs < 2 ^ 64" if "unat (BlockCount (Properties d)) * unat ?bs < 2 ^ 64"
      using that by linarith
    have "unat (addr * ucast ?bs) = unat addr * unat ?bs" if "unat (BlockCount (Properties d)) * unat ?bs < 2 ^ 64"
      using lt [OF that] by (simp add: unat_word_ariths)
    moreover have "unat (cnt * ?bs) = unat cnt * unat ?bs mod 2 ^ 32" by (simp add: unat_word_ariths)
    ultimately show ?thesis using True e r by (auto simp: pended_def simp del: unat_mult_lem)
  next
    case False
    then show ?thesis using ok by (auto simp: refused_def)
  qed
qed

theorem queued_range_is_on_disk_witness:
  "\<exists>e. PendingReqListHead (snd (snd (WnbdPendOperation 0 101 (Some 9) 7 (sample_mem, sample_device [])))) = [e]"
proof -
  obtain St m' d' where r: "WnbdPendOperation 0 101 (Some 9) 7 (sample_mem, sample_device []) = (St, m', d')"
    by (cases "WnbdPendOperation 0 101 (Some 9) 7 (sample_mem, sample_device [])") auto
  have cdb: "SrbCdb (Srbs sample_mem 101) = Some [0x28, 0, 0, 0, 0, 1, 0, 0, 1, 0]"
    by (simp add: sample_mem_def sample_srb_def)
  have rg: "SrbCdbGetRange [0x28, 0, 0, 0, 0, 1, 0, 0, 1, 0] = (1, 1, 0)"
    by (simp add: SrbCdbGetRange_def cdb_byte_def cdb_field_def be_word_def)
  have orr: "\<not> out_of_range (sample_device []) 1 1" by (simp add: out_of_range_def)
  have pool: "SrbElementPool (sample_device []) = []" "DataTransferLength (Srbs sample_mem 101) = 512"
    by (simp_all add: sample_device_def sample_mem_def sample_srb_def)
  have "St = STATUS_PENDING"
    using r by (simp add: WnbdPendOperation_def cdb pend_block_def rg cdb_byte_def orr pool
        WnbdPendElement_def WnbdAllocSrbElement_def Let_def)
  with queued_range_is_on_disk [OF sample_queues_ok [of "[]"] _ cdb _ rg r] r show ?thesis
    by (auto simp: fresh_def sample_mem_def cdb_byte_def)
qed

text \<open>
  The length check is one-sided: a read of more blocks than the request block's
  buffer holds is queued with the longer length. The request of this witness announces 512
  bytes and reads two blocks of 512 bytes.
\<close>

definition long_read :: kmem where
  "long_read = sample_mem\<lparr>Srbs := (\<lambda>_. sample_srb\<lparr>SrbCdb := Some [0x28, 0, 0, 0, 0, 1, 0, 0, 2, 0]\<rparr>)\<rparr>"

lemma read_longer_than_buffer_is_queued:
  "\<exists>m' d'. WnbdPendOperation 0 101 (Some 9) 7 (long_read, sample_device []) = (STATUS_PENDING, m', d') \<and>
     PendingReqListHead d' = [9] \<and> DataLength (Elems m' 9) = 1024 \<and>
     DataTransferLength (Srbs m' 101) = 512 \<and> DataBuffer (Srbs m' 101) = Some (replicate 512 7)"
proof -
  have rg: "SrbCdbGetRange [0x28, 0, 0, 0, 0, 1, 0, 0, 2, 0] = (1, 2, 0)"
    by (simp add: SrbCdbGetRange_def cdb_byte_def cdb_field_def be_word_def)
  have orr: "\<not> out_of_range (sample_device []) 1 2" by (simp add: out_of_range_def)
  have pool: "SrbElementPool (sample_device []) = []" by (simp add: sample_device_def)
  show ?thesis
    by (simp add: WnbdPendOperation_def long_read_def pend_block_def rg cdb_byte_def orr pool
        WnbdPendElement_def WnbdAllocSrbElement_def Let_def sample_srb_def)
qed

text \<open>
  The length of the range wraps: a sixteen byte read of 2 to the 23 blocks of 512 bytes, four
  gigabytes on a disk that has them, by a request block that announces no data. It is queued with
  length zero.
\<close>

definition huge_read :: kmem where
  "huge_read = sample_mem\<lparr>Srbs := (\<lambda>_. sample_srb\<lparr>DataTransferLength := 0,
     SrbCdb := Some [0x88, 0, 0, 0, 0, 0, 0, 0, 0, 0, 0x00, 0x80, 0x00, 0x00, 0, 0]\<rparr>)\<rparr>"

definition huge_disk :: WNBD_DISK_DEVICE where
  "huge_disk = (sample_device [])\<lparr>Properties := (Properties (sample_device []))\<lparr>BlockCount := 0x800000\<rparr>\<rparr>"

lemma wrapped_length_is_queued:
  "\<exists>m' d'. WnbdPendOperation 0 101 (Some 9) 7 (huge_read, huge_disk) = (STATUS_PENDING, m', d') \<and>
     PendingReqListHead d' = [9] \<and> BlockSize (Properties huge_disk) = 512 \<and>
     SrbCdbGetRange (the (SrbCdb (Srbs huge_read 101))) = (0, 0x800000, 0) \<and> DataLength (Elems m' 9) = 0"
proof -
  have rg: "SrbCdbGetRange [0x88, 0, 0, 0, 0, 0, 0, 0, 0, 0, 0x00, 0x80, 0x00, 0x00, 0, 0] = (0, 0x800000, 0)"
    by (simp add: SrbCdbGetRange_def cdb_byte_def cdb_field_def be_word_def)
  have orr: "\<not> out_of_range huge_disk 0 0x800000" by (simp add: out_of_range_def huge_disk_def)
  have pool: "SrbElementPool huge_disk = []" "PendingReqListHead huge_disk = []" "BlockSize (Properties huge_disk) = 512"
    by (simp_all add: sample_device_def huge_disk_def)
  show ?thesis
    by (simp add: WnbdPendOperation_def huge_read_def pend_block_def rg cdb_byte_def orr pool
        WnbdPendElement_def WnbdAllocSrbElement_def Let_def sample_srb_def)
qed

text \<open>
  A serial number of 255 characters, the longest the fixed field allows, is reported
  with page length 0: the length is computed in eight bits.
\<close>

lemma long_serial_is_lost:
  assumes "strlen serial = 255" "roomy (unat (DataTransferLength Srb)) Srb" "4 \<le> DataTransferLength Srb"
  shows "\<exists>S. WnbdSetVpdSerialNumber serial Srb = Some (SRB_STATUS_SUCCESS, S) \<and> DataTransferLength S = 4"
proof -
  have n: "4 \<le> unat (DataTransferLength Srb)" using assms(3) by (simp add: word_le_nat_alt)
  have "\<exists>S. put [(0, [0]), (1, [VPD_SERIAL_NUMBER]), (3, [0]), (4, [])] Srb = Some S \<and>
      roomy (unat (DataTransferLength Srb)) S \<and> DataTransferLength S = DataTransferLength Srb"
    by (rule put_roomy [OF assms(2)]) (use n in simp)
  moreover have "(256 :: u8) = 0"
  proof -
    have "(256 :: u8) = of_nat 256" by simp
    also have "\<dots> = 0" by (simp only: word_of_nat_eq_0_iff) simp
    finally show ?thesis .
  qed
  then have sz: "(of_nat (strlen serial) + 1 :: u8) = 0" by (simp add: assms(1))
  ultimately show ?thesis
    using n unfolding WnbdSetVpdSerialNumber_def sz Let_def
    by (auto simp: cdb_field_def set_length_def not_less)
qed

end
