(* ===== verification/Adapter.thy ===== *)
theory Adapter
  imports ScsiOperation
begin

text \<open>
  The adapter: the device list with its connection id index and its SCSI address bitmap
  (\<^verbatim>\<open>WNBD_EXTENSION\<close> of \<^verbatim>\<open>driver/scsi_driver_extensions.h\<close>), the device
  finders of \<^verbatim>\<open>driver/util.c\<close>, and the creation, teardown and enumeration of
  devices in \<^verbatim>\<open>driver/userspace.c\<close>. Device structures live in a heap indexed by
  pointer. What the kernel answers (allocations, thread creation, the bit chosen by
  \<^verbatim>\<open>RtlFindClearBitsAndSet\<close>) is an argument.
\<close>

section \<open>State\<close>

abbreviation (input) WNBD_CONN_ID_HASH_BUCKETS :: nat where "WNBD_CONN_ID_HASH_BUCKETS \<equiv> 64"
abbreviation (input) WNBD_MAX_TARGETS_PER_BUS :: nat where "WNBD_MAX_TARGETS_PER_BUS \<equiv> 128"
abbreviation (input) WNBD_MAX_LUNS_PER_TARGET :: nat where "WNBD_MAX_LUNS_PER_TARGET \<equiv> 1"
abbreviation (input) WNBD_MAX_NUMBER_OF_DISKS :: nat where "WNBD_MAX_NUMBER_OF_DISKS \<equiv> 128"

text \<open>
  The extension, with the module's own statics: the SCSI bitmap, the connection id
  counter, and ghost fields for what the kernel holds on its behalf (live device
  structures, running monitor threads, inquiry buffers, bus change notifications).
\<close>

record WNBD_EXTENSION =
  Devices :: "ptr \<Rightarrow> WNBD_DISK_DEVICE"
  DeviceList :: "ptr list"
  ConnIdHashBuckets :: "ptr list list"
  DeviceCount :: u32
  ExtRundownProtection :: EX_RUNDOWN_REF
  GlobalDeviceRemovalEvent :: bool
  ScsiBitMap :: "bool list"
  ConnectionIdCounter :: u64
  LiveDevices :: "ptr set"
  MonitorThreads :: "ptr set"
  InquiryBuffers :: nat
  BusChanges :: "u16 list"

type_synonym astate = "kmem \<times> WNBD_EXTENSION"

definition dev_upd :: "ptr \<Rightarrow> (WNBD_DISK_DEVICE \<Rightarrow> WNBD_DISK_DEVICE) \<Rightarrow> WNBD_EXTENSION \<Rightarrow> WNBD_EXTENSION" where
  "dev_upd p f x = x\<lparr>Devices := (Devices x)(p := f (Devices x p))\<rparr>"

lemma dev_upd_sel [simp]:
  "Devices (dev_upd p f x) = (Devices x)(p := f (Devices x p))"
  "DeviceList (dev_upd p f x) = DeviceList x"
  "ConnIdHashBuckets (dev_upd p f x) = ConnIdHashBuckets x"
  "DeviceCount (dev_upd p f x) = DeviceCount x"
  "ExtRundownProtection (dev_upd p f x) = ExtRundownProtection x"
  "GlobalDeviceRemovalEvent (dev_upd p f x) = GlobalDeviceRemovalEvent x"
  "ScsiBitMap (dev_upd p f x) = ScsiBitMap x"
  "ConnectionIdCounter (dev_upd p f x) = ConnectionIdCounter x"
  "LiveDevices (dev_upd p f x) = LiveDevices x"
  "MonitorThreads (dev_upd p f x) = MonitorThreads x"
  "InquiryBuffers (dev_upd p f x) = InquiryBuffers x"
  "BusChanges (dev_upd p f x) = BusChanges x"
  by (simp_all add: dev_upd_def)

section \<open>Finding devices\<close>

definition WNBD_CONN_ID_BUCKET :: "u64 \<Rightarrow> nat" where
  "WNBD_CONN_ID_BUCKET i = unat (i AND 0x3F)"

text \<open>
  The loop the three finders share: the first match is taken; a match whose reference
  cannot be acquired is not returned, and the search does not go on.
\<close>

definition find_device ::
  "(WNBD_DISK_DEVICE \<Rightarrow> bool) \<Rightarrow> bool \<Rightarrow> ptr list \<Rightarrow> WNBD_EXTENSION \<Rightarrow> ptr option \<times> WNBD_EXTENSION" where
  "find_device P Acquire ps x =
     (case find (\<lambda>p. P (Devices x p)) ps of
        None \<Rightarrow> (None, x)
      | Some p \<Rightarrow>
          if Acquire
          then (let (ok, d) = WnbdAcquireDevice (Devices x p)
                in if ok then (Some p, dev_upd p (\<lambda>_. d) x) else (None, x))
          else (Some p, x))"

definition WnbdFindDeviceByAddr ::
  "u8 \<Rightarrow> u8 \<Rightarrow> u8 \<Rightarrow> bool \<Rightarrow> WNBD_EXTENSION \<Rightarrow> ptr option \<times> WNBD_EXTENSION" where
  "WnbdFindDeviceByAddr PathId TargetId LunId Acquire x =
     find_device (\<lambda>d. Bus d = ucast PathId \<and> Target d = ucast TargetId \<and> Lun d = ucast LunId)
       Acquire (DeviceList x) x"

definition WnbdFindDeviceByConnId ::
  "u64 \<Rightarrow> bool \<Rightarrow> WNBD_EXTENSION \<Rightarrow> ptr option \<times> WNBD_EXTENSION" where
  "WnbdFindDeviceByConnId i Acquire x =
     find_device (\<lambda>d. ConnectionId d = i) Acquire (ConnIdHashBuckets x ! WNBD_CONN_ID_BUCKET i) x"

definition WnbdFindDeviceByInstanceName ::
  "bytes \<Rightarrow> bool \<Rightarrow> WNBD_EXTENSION \<Rightarrow> ptr option \<times> WNBD_EXTENSION" where
  "WnbdFindDeviceByInstanceName name Acquire x =
     find_device (\<lambda>d. streq (InstanceName (Properties d)) name) Acquire (DeviceList x) x"

section \<open>SCSI addresses\<close>

definition WnbdInitScsiIds :: "WNBD_EXTENSION \<Rightarrow> WNBD_EXTENSION" where
  "WnbdInitScsiIds x = x\<lparr>ScsiBitMap := replicate WNBD_MAX_NUMBER_OF_DISKS False\<rparr>"

definition GetNumberOfUsedScsiIds :: "WNBD_EXTENSION \<Rightarrow> u32" where
  "GetNumberOfUsedScsiIds x = of_nat (length (filter id (ScsiBitMap x)))"

text \<open>The bit of an address, as the teardown computes it.\<close>

definition scsi_bit :: "WNBD_DISK_DEVICE \<Rightarrow> nat" where
  "scsi_bit d = unat (Lun d) + unat (Target d) * WNBD_MAX_LUNS_PER_TARGET +
     unat (Bus d) * WNBD_MAX_LUNS_PER_TARGET * WNBD_MAX_TARGETS_PER_BUS"

definition clear_bit :: "nat \<Rightarrow> WNBD_EXTENSION \<Rightarrow> WNBD_EXTENSION" where
  "clear_bit i x = x\<lparr>ScsiBitMap := (ScsiBitMap x)[i := False]\<rparr>"

section \<open>Creating a device\<close>

definition zero_device :: WNBD_DISK_DEVICE where
  "zero_device = \<lparr>Connected = False,
     Properties = \<lparr>InstanceName = [], SerialNumber = [], Owner = [],
       Flags = \<lparr>ReadOnly = False, FlushSupported = False, FUASupported = False,
         UnmapSupported = False, UnmapAnchorSupported = False, UseKernelNbd = False,
         PersistResSupported = False, NaaIdSpecified = False, UseUserspaceNbd = False\<rparr>,
       BlockCount = 0, BlockSize = 0, MaxUnmapDescCount = 0, Pid = 0,
       NbdProperties = \<lparr>Hostname = [], PortNumber = 0, ExportName = [], SkipNegotiation = False\<rparr>,
       NaaIdentifier = []\<rparr>,
     ConnectionId = 0, Bus = 0, Target = 0, Lun = 0, DiskNumber = 0, PNPDeviceID = [], PDO = None,
     InquiryData = None, PendingReqListHead = [], SubmittedReqListHead = [],
     SubmittedReqHashBuckets = [], SrbElementPool = [], DeviceEvent = 0,
     DeviceMonitorThread = None, HardRemoveDevice = False, DeviceRemovalEvent = False,
     RundownProtection = rundown_init, Stats = zero_stats\<rparr>"

text \<open>
  The kernel's answers during one creation: the device allocation, whether the inquiry
  buffer could be allocated, the bit chosen in the bitmap, the status of
  \<^verbatim>\<open>PsCreateSystemThread\<close>, the status and object of
  \<^verbatim>\<open>ObReferenceObjectByHandle\<close>, and the pool allocations.
\<close>

record create_env =
  CeDevice :: "ptr option"
  CeInquiry :: bool
  CePickBit :: "bool list \<Rightarrow> nat option"
  CeThread :: u32
  CeThreadObject :: "u32 \<times> ptr"
  CePool :: "ptr option list"
  CeRevision :: bytes

definition WnbdInitializeDevice ::
  "create_env \<Rightarrow> dstate \<Rightarrow> u32 \<times> dstate" where
  "WnbdInitializeDevice env s =
     (let (m, d) = s;
          d = WnbdInitSubmittedReqHash (d\<lparr>PendingReqListHead := [], SubmittedReqListHead := []\<rparr>);
          d = d\<lparr>SrbElementPool := [], RundownProtection := rundown_init, DeviceEvent := 0,
                DeviceRemovalEvent := False\<rparr>;
          (Status, obj) = CeThreadObject env
      in if \<not> NT_SUCCESS (CeThread env) then (STATUS_INSUFFICIENT_RESOURCES, m, d)
         else if \<not> NT_SUCCESS Status
         then (STATUS_INSUFFICIENT_RESOURCES, m, d\<lparr>DeviceMonitorThread := None\<rparr>)
         else (Status, WnbdPopulateSrbElementPool (CePool env) (m, d\<lparr>DeviceMonitorThread := Some obj\<rparr>)))"

text \<open>The cleanup at the \<^verbatim>\<open>Exit\<close> label once the device is allocated.\<close>

definition create_exit :: "u32 \<Rightarrow> ptr \<Rightarrow> nat option \<Rightarrow> bool \<Rightarrow> WNBD_EXTENSION \<Rightarrow> WNBD_EXTENSION" where
  "create_exit Status p slot inq x =
     (if DeviceMonitorThread (Devices x p) = None
      then (let x = x\<lparr>LiveDevices := LiveDevices x - {p}\<rparr>;
                x = (case slot of None \<Rightarrow> x | Some i \<Rightarrow> clear_bit i x);
                x = (if Status \<noteq> STATUS_SUCCESS
                     then x\<lparr>ExtRundownProtection := ExReleaseRundownProtection (ExtRundownProtection x)\<rparr>
                     else x)
            in if inq then x\<lparr>InquiryBuffers := InquiryBuffers x - 1\<rparr> else x)
      else x)"

definition device_address :: "nat \<Rightarrow> WNBD_DISK_DEVICE \<Rightarrow> WNBD_DISK_DEVICE" where
  "device_address n d =
     d\<lparr>Bus := of_nat (n div WNBD_MAX_LUNS_PER_TARGET div WNBD_MAX_TARGETS_PER_BUS),
       Target := of_nat ((n div WNBD_MAX_LUNS_PER_TARGET) mod WNBD_MAX_TARGETS_PER_BUS),
       Lun := of_nat (n mod WNBD_MAX_LUNS_PER_TARGET),
       DiskNumber := - 1\<rparr>"

text \<open>Publishing the initialised device: the output structure, the lists, the counters.\<close>

definition device_info :: "WNBD_DISK_DEVICE \<Rightarrow> WNBD_CONNECTION_INFO \<Rightarrow> WNBD_CONNECTION_INFO" where
  "device_info d info =
     info\<lparr>CiProperties := Properties d, BusNumber := Bus d, CiTargetId := Target d, CiLun := Lun d,
          CiConnectionId := ConnectionId d\<rparr>"

definition create_publish :: "ptr \<Rightarrow> WNBD_EXTENSION \<Rightarrow> WNBD_EXTENSION" where
  "create_publish p x =
     (let d = Devices x p;
          x = x\<lparr>DeviceList := DeviceList x @ [p],
                ConnIdHashBuckets :=
                  bucket_insert (WNBD_CONN_ID_BUCKET (ConnectionId d)) p (ConnIdHashBuckets x),
                DeviceCount := DeviceCount x + 1, BusChanges := BusChanges x @ [Bus d]\<rparr>
      in dev_upd p (\<lambda>d. d\<lparr>Connected := True\<rparr>) x)"

definition geometry_ok :: "WNBD_PROPERTIES \<Rightarrow> bool" where
  "geometry_ok P \<longleftrightarrow> BlockSize P = 512 \<and> BlockCount P \<noteq> 0 \<and>
     \<not> BlockCount P > (- 1) div ucast (BlockSize P)"

text \<open>From the assigned address to the end.\<close>

definition create_addressed ::
  "create_env \<Rightarrow> ptr \<Rightarrow> nat \<Rightarrow> WNBD_CONNECTION_INFO \<Rightarrow> astate \<Rightarrow>
     u32 \<times> WNBD_CONNECTION_INFO \<times> astate" where
  "create_addressed env p n info s =
     (let (m, x) = s;
          i = ConnectionIdCounter x + 1;
          x = x\<lparr>ConnectionIdCounter := i\<rparr>;
          x = dev_upd p (\<lambda>d. (device_address n d)\<lparr>ConnectionId := i\<rparr>) x
      in if \<not> geometry_ok (Properties (Devices x p))
         then (STATUS_INVALID_PARAMETER, info, m, create_exit STATUS_INVALID_PARAMETER p (Some n) True x)
         else (let (Status, m, d) = WnbdInitializeDevice env (m, Devices x p);
                   x = dev_upd p (\<lambda>_. d) x;
                   x = (if NT_SUCCESS (CeThread env)
                        then x\<lparr>MonitorThreads := insert p (MonitorThreads x)\<rparr> else x)
               in if \<not> NT_SUCCESS Status
                  then (Status, info, m, create_exit Status p (Some n) True x)
                  else (STATUS_SUCCESS, device_info d info, m, create_publish p x)))"

text \<open>The device structure, its inquiry data and its address.\<close>

definition create_device ::
  "create_env \<Rightarrow> WNBD_PROPERTIES \<Rightarrow> ptr \<Rightarrow> WNBD_CONNECTION_INFO \<Rightarrow> astate \<Rightarrow>
     u32 \<times> WNBD_CONNECTION_INFO \<times> astate" where
  "create_device env Props p info s =
     (let (m, x) = s;
          x = x\<lparr>LiveDevices := insert p (LiveDevices x)\<rparr>;
          x = dev_upd p (\<lambda>_. zero_device\<lparr>Properties := Props\<rparr>) x
      in if \<not> CeInquiry env
         then (STATUS_INSUFFICIENT_RESOURCES, info, m,
               create_exit STATUS_INSUFFICIENT_RESOURCES p None False x)
         else (let x = x\<lparr>InquiryBuffers := InquiryBuffers x + 1\<rparr>;
                   x = dev_upd p (\<lambda>d. d\<lparr>InquiryData := Some (WnbdSetInquiryData (CeRevision env))\<rparr>) x
               in case CePickBit env (ScsiBitMap x) of
                    None \<Rightarrow> (STATUS_TOO_MANY_ADDRESSES, info, m,
                             create_exit STATUS_TOO_MANY_ADDRESSES p None True x)
                  | Some n \<Rightarrow> create_addressed env p n info (m, x\<lparr>ScsiBitMap := (ScsiBitMap x)[n := True]\<rparr>)))"

definition WnbdCreateConnection ::
  "create_env \<Rightarrow> WNBD_OPTION list \<Rightarrow> WNBD_PROPERTIES \<Rightarrow> WNBD_CONNECTION_INFO \<Rightarrow> astate \<Rightarrow>
     u32 \<times> WNBD_CONNECTION_INFO \<times> astate" where
  "WnbdCreateConnection env opts Props info s =
     (let (m, x) = s;
          (RPAcquired, r) = ExAcquireRundownProtection (ExtRundownProtection x);
          x = x\<lparr>ExtRundownProtection := r\<rparr>
      in if \<not> opt_bool opts OptNewMappingsAllowed then (STATUS_SHUTDOWN_IN_PROGRESS, info, m, x)
         else if \<not> RPAcquired then (STATUS_SHUTDOWN_IN_PROGRESS, info, m, x)
         else case WnbdFindDeviceByInstanceName (InstanceName Props) False x of
                (Some _, x) \<Rightarrow> (STATUS_OBJECT_NAME_COLLISION, info, m, x)
              | (None, x) \<Rightarrow>
                  (case CeDevice env of
                     None \<Rightarrow> (STATUS_INSUFFICIENT_RESOURCES, info, m, x)
                   | Some p \<Rightarrow> create_device env Props p info (m, x)))"

section \<open>Removing a device\<close>

text \<open>
  The monitor thread waits for the global event, which resets itself when it satisfies a
  wait, or for the device's own event, which stays set; the lower index wins when both are
  set. Then it announces the removal and starts waiting for the references to go.
\<close>

definition monitor_woken :: "ptr \<Rightarrow> WNBD_EXTENSION \<Rightarrow> bool" where
  "monitor_woken p x \<longleftrightarrow> GlobalDeviceRemovalEvent x \<or> DeviceRemovalEvent (Devices x p)"

definition monitor_wake :: "ptr \<Rightarrow> WNBD_EXTENSION \<Rightarrow> WNBD_EXTENSION" where
  "monitor_wake p x =
     dev_upd p (\<lambda>d. d\<lparr>HardRemoveDevice := True, DeviceRemovalEvent := True,
                    RundownProtection := ExRundownWait (RundownProtection d)\<rparr>)
       (x\<lparr>GlobalDeviceRemovalEvent := False\<rparr>)"

text \<open>What follows the wait for the references.\<close>

definition monitor_teardown :: "WNBD_OPTION list \<Rightarrow> u64 \<Rightarrow> ptr \<Rightarrow> astate \<Rightarrow> astate" where
  "monitor_teardown opts now p s =
     (let (m, x) = s;
          (m, d) = DrainDeviceQueue opts now False False (m, Devices x p);
          (m, d) = DrainDeviceQueue opts now True False (m, d);
          x = dev_upd p (\<lambda>_. d) x;
          x = x\<lparr>DeviceList := remove1 p (DeviceList x),
                ConnIdHashBuckets := unlink p (ConnIdHashBuckets x)\<rparr>;
          x = clear_bit (scsi_bit d) x;
          x = x\<lparr>BusChanges := BusChanges x @ [Bus d], DeviceCount := DeviceCount x - 1\<rparr>;
          (x, d) = (if InquiryData d \<noteq> None
                    then (x\<lparr>InquiryBuffers := InquiryBuffers x - 1\<rparr>, d\<lparr>InquiryData := None\<rparr>) else (x, d));
          (m, d) = WnbdDrainSrbElementPool (m, d);
          x = dev_upd p (\<lambda>_. d) x;
          x = x\<lparr>MonitorThreads := MonitorThreads x - {p}, LiveDevices := LiveDevices x - {p}\<rparr>
      in (m, x\<lparr>ExtRundownProtection := ExReleaseRundownProtection (ExtRundownProtection x)\<rparr>))"

text \<open>The whole thread on a state in which nobody else runs; \<open>None\<close> while it has to wait.\<close>

definition WnbdDeviceMonitorThread :: "WNBD_OPTION list \<Rightarrow> u64 \<Rightarrow> ptr \<Rightarrow> astate \<Rightarrow> astate option" where
  "WnbdDeviceMonitorThread opts now p s =
     (let (m, x) = s in
      if \<not> monitor_woken p x then None
      else (let x = monitor_wake p x
            in if ExRundownDone (RundownProtection (Devices x p))
               then Some (monitor_teardown opts now p (m, x)) else None))"

definition WnbdDeleteConnection ::
  "WNBD_OPTION list \<Rightarrow> u64 \<Rightarrow> bytes \<Rightarrow> astate \<Rightarrow> (u32 \<times> astate) option" where
  "WnbdDeleteConnection opts now name s =
     (let (m, x) = s in
      case WnbdFindDeviceByInstanceName name True x of
        (None, x) \<Rightarrow> Some (STATUS_OBJECT_NAME_NOT_FOUND, m, x)
      | (Some p, x) \<Rightarrow>
          map_option (\<lambda>s. (STATUS_SUCCESS, s))
            (WnbdDeviceMonitorThread opts now p (m, dev_upd p WnbdDisconnectSync x)))"

text \<open>\<^verbatim>\<open>WnbdCleanupAllDevices\<close> up to its wait, and the condition the wait ends on.\<close>

definition WnbdCleanupAllDevices :: "WNBD_EXTENSION \<Rightarrow> WNBD_EXTENSION" where
  "WnbdCleanupAllDevices x =
     x\<lparr>GlobalDeviceRemovalEvent := True,
       ExtRundownProtection := ExRundownWait (ExtRundownProtection x)\<rparr>"

definition cleanup_returns :: "WNBD_EXTENSION \<Rightarrow> bool" where
  "cleanup_returns x \<longleftrightarrow> ExRundownDone (ExtRundownProtection x)"

section \<open>Resizing and enumeration\<close>

definition WnbdSetDiskSize :: "u64 \<Rightarrow> u64 \<Rightarrow> WNBD_EXTENSION \<Rightarrow> u32 \<times> WNBD_EXTENSION" where
  "WnbdSetDiskSize i count x =
     (case WnbdFindDeviceByConnId i True x of
        (None, x) \<Rightarrow> (STATUS_OBJECT_NAME_NOT_FOUND, x)
      | (Some p, x) \<Rightarrow>
          (STATUS_SUCCESS,
           dev_upd p (\<lambda>d. WnbdReleaseDevice (d\<lparr>Properties := (Properties d)\<lparr>BlockCount := count\<rparr>\<rparr>)) x))"

definition zero_info :: WNBD_CONNECTION_INFO where
  "zero_info = \<lparr>CiProperties = Properties zero_device, BusNumber = 0, CiTargetId = 0, CiLun = 0,
     CiConnectionId = 0, CiDiskNumber = 0, CiPNPDeviceID = []\<rparr>"

text \<open>The entry written for a device by the list and show commands.\<close>

definition connection_entry :: "WNBD_DISK_DEVICE \<Rightarrow> WNBD_CONNECTION_INFO" where
  "connection_entry d =
     zero_info\<lparr>CiProperties := Properties d, BusNumber := Bus d, CiTargetId := Target d, CiLun := Lun d,
       CiDiskNumber := DiskNumber d, CiPNPDeviceID := PNPDeviceID d\<rparr>"

fun enumerate_from ::
  "WNBD_EXTENSION \<Rightarrow> nat \<Rightarrow> ptr list \<Rightarrow> WNBD_CONNECTION_INFO list \<times> ptr list" where
  "enumerate_from x (Suc n) (p # ps) =
     (let (es, rest) = enumerate_from x n ps in (connection_entry (Devices x p) # es, rest))"
| "enumerate_from x _ ps = ([], ps)"

text \<open>
  The list header has 8 bytes and an entry 2032. \<^verbatim>\<open>Remaining\<close> is computed from the
  buffer length in unsigned arithmetic. The result is the status, the entries and the
  number of bytes returned.
\<close>

definition WnbdEnumerateActiveConnections ::
  "u32 \<Rightarrow> WNBD_EXTENSION \<Rightarrow> u32 \<times> WNBD_CONNECTION_INFO list \<times> u32" where
  "WnbdEnumerateActiveConnections OutputBufferLength x =
     (let Remaining = (ucast ((ucast OutputBufferLength - 8 :: u64) div 2032) :: u32);
          (es, rest) = enumerate_from x (unat Remaining) (DeviceList x)
      in (if rest = [] then STATUS_SUCCESS else STATUS_BUFFER_OVERFLOW, es,
          of_nat (length es * 2032 + 8)))"

end
