(* ===== verification/AdapterProps.thy ===== *)
theory AdapterProps
  imports Adapter
begin

text \<open>
  The adapter invariant and what the operations of \<open>Adapter\<close> do to it: lookups through the
  connection id index, creation with its error paths, teardown by the monitor thread, and
  the reference counts that decide when the adapter can go.
\<close>

section \<open>Invariant\<close>

lemma conn_bucket_lt [simp]: "WNBD_CONN_ID_BUCKET i < 64"
proof -
  have "i AND 0x3F \<le> 0x3F" by (rule word_and_le1)
  then have "unat (i AND 0x3F) \<le> 63" by (simp add: word_le_nat_alt)
  then show ?thesis by (simp add: WNBD_CONN_ID_BUCKET_def)
qed

interpretation conn_index: hash_index "\<lambda>p. ConnectionId (Devices x p)" WNBD_CONN_ID_BUCKET
  WNBD_CONN_ID_HASH_BUCKETS for x
  by unfold_locales simp

abbreviation devs :: "WNBD_EXTENSION \<Rightarrow> ptr set" where
  "devs x \<equiv> set (DeviceList x)"

text \<open>The connection id index agrees with the device list and ids are unique and used up.\<close>

definition index_ok :: "WNBD_EXTENSION \<Rightarrow> bool" where
  "index_ok x \<longleftrightarrow>
     indexed (\<lambda>p. WNBD_CONN_ID_BUCKET (ConnectionId (Devices x p))) WNBD_CONN_ID_HASH_BUCKETS
       (DeviceList x) (ConnIdHashBuckets x) \<and>
     inj_on (\<lambda>p. ConnectionId (Devices x p)) (devs x) \<and>
     (\<forall>p \<in> devs x. ConnectionId (Devices x p) \<le> ConnectionIdCounter x)"

text \<open>The bitmap holds exactly the addresses in use, and no two devices share one.\<close>

definition slots_ok :: "WNBD_EXTENSION \<Rightarrow> bool" where
  "slots_ok x \<longleftrightarrow>
     length (ScsiBitMap x) = WNBD_MAX_NUMBER_OF_DISKS \<and>
     (\<forall>p \<in> devs x. Bus (Devices x p) = 0 \<and> Lun (Devices x p) = 0 \<and> unat (Target (Devices x p)) < 128) \<and>
     inj_on (\<lambda>p. scsi_bit (Devices x p)) (devs x) \<and>
     (\<forall>i < 128. ScsiBitMap x ! i \<longleftrightarrow> i \<in> (\<lambda>p. scsi_bit (Devices x p)) ` devs x)"

text \<open>
  Every listed device is live, has its monitor thread and its inquiry buffer, and holds a
  reference to the extension; nothing else is allocated.
\<close>

definition resources_ok :: "WNBD_EXTENSION \<Rightarrow> bool" where
  "resources_ok x \<longleftrightarrow>
     LiveDevices x = devs x \<and> MonitorThreads x = devs x \<and>
     InquiryBuffers x = length (DeviceList x) \<and> DeviceCount x = of_nat (length (DeviceList x)) \<and>
     length (DeviceList x) \<le> RdCount (ExtRundownProtection x) \<and>
     (\<forall>p \<in> devs x. DeviceMonitorThread (Devices x p) \<noteq> None \<and> InquiryData (Devices x p) \<noteq> None)"

definition adapter_ok :: "WNBD_EXTENSION \<Rightarrow> bool" where
  "adapter_ok x \<longleftrightarrow> index_ok x \<and> slots_ok x \<and> resources_ok x"

lemmas adapter_defs = adapter_ok_def index_ok_def slots_ok_def resources_ok_def

lemma adapter_ok_distinct [dest]: "adapter_ok x \<Longrightarrow> distinct (DeviceList x)"
  by (auto simp: adapter_defs)

text \<open>The fields of a device the invariant speaks of.\<close>

definition same_identity :: "WNBD_DISK_DEVICE \<Rightarrow> WNBD_DISK_DEVICE \<Rightarrow> bool" where
  "same_identity d d' \<longleftrightarrow>
     ConnectionId d' = ConnectionId d \<and> Bus d' = Bus d \<and> Target d' = Target d \<and> Lun d' = Lun d \<and>
     DeviceMonitorThread d' = DeviceMonitorThread d \<and> InquiryData d' = InquiryData d"

lemma same_identity_refl [simp]: "same_identity d d"
  by (simp add: same_identity_def)

lemma same_identity_trans [trans]:
  "same_identity a b \<Longrightarrow> same_identity b c \<Longrightarrow> same_identity a c"
  by (simp add: same_identity_def)

lemma adapter_ok_frame:
  assumes "adapter_ok x" "DeviceList x' = DeviceList x" "ConnIdHashBuckets x' = ConnIdHashBuckets x"
    "DeviceCount x' = DeviceCount x" "ScsiBitMap x' = ScsiBitMap x"
    "ConnectionIdCounter x \<le> ConnectionIdCounter x'" "LiveDevices x' = LiveDevices x"
    "MonitorThreads x' = MonitorThreads x" "InquiryBuffers x' = InquiryBuffers x"
    "length (DeviceList x) \<le> RdCount (ExtRundownProtection x')"
    "\<And>p. p \<in> devs x \<Longrightarrow> same_identity (Devices x p) (Devices x' p)"
  shows "adapter_ok x'"
proof -
  have id: "ConnectionId (Devices x' p) = ConnectionId (Devices x p)"
    "scsi_bit (Devices x' p) = scsi_bit (Devices x p)" "Bus (Devices x' p) = Bus (Devices x p)"
    "Lun (Devices x' p) = Lun (Devices x p)" "Target (Devices x' p) = Target (Devices x p)"
    "DeviceMonitorThread (Devices x' p) = DeviceMonitorThread (Devices x p)"
    "InquiryData (Devices x' p) = InquiryData (Devices x p)" if "p \<in> devs x" for p
    using assms(11) [OF that] by (simp_all add: same_identity_def scsi_bit_def)
  have "index_ok x'"
    using assms(1) id assms(2,3,6)
    unfolding adapter_ok_def index_ok_def
    by (auto simp: inj_on_def
        cong: indexed_cong [of "DeviceList x" "\<lambda>p. WNBD_CONN_ID_BUCKET (ConnectionId (Devices x' p))"
          "\<lambda>p. WNBD_CONN_ID_BUCKET (ConnectionId (Devices x p))"])
  moreover have "slots_ok x'"
    using assms(1,2,5) id by (simp add: adapter_ok_def slots_ok_def inj_on_def image_def)
  moreover have "resources_ok x'"
    using assms(1,2,4,7,8,9,10) id by (auto simp: adapter_ok_def resources_ok_def)
  ultimately show ?thesis by (simp add: adapter_ok_def)
qed

lemma adapter_ok_dev_upd:
  assumes "adapter_ok x" "same_identity (Devices x p) (f (Devices x p))"
  shows "adapter_ok (dev_upd p f x)"
  by (rule adapter_ok_frame [OF assms(1)]) (use assms in \<open>auto simp: adapter_defs\<close>)

section \<open>Finders\<close>

lemma acquire_device_identity:
  "WnbdAcquireDevice d = (b, d') \<Longrightarrow> same_identity d d'"
  by (auto simp: WnbdAcquireDevice_def same_identity_def split: prod.splits)

lemma find_device_Some:
  assumes "find_device P a ps x = (Some p, x')"
  shows "p \<in> set ps \<and> P (Devices x p) \<and>
    (if a then \<not> RdStarted (RundownProtection (Devices x p)) \<and>
       x' = dev_upd p (\<lambda>d. d\<lparr>RundownProtection := (RundownProtection d)
              \<lparr>RdCount := RdCount (RundownProtection d) + 1\<rparr>\<rparr>) x
     else x' = x)"
  using assms
  by (auto simp: find_device_def WnbdAcquireDevice_def ExAcquireRundownProtection_def find_Some_iff
      dev_upd_def split: option.splits if_splits prod.splits)

lemma find_device_None: "find_device P a ps x = (None, x') \<Longrightarrow> x' = x"
  by (auto simp: find_device_def split: option.splits if_splits prod.splits)

lemma find_device_adapter_ok:
  assumes "adapter_ok x" "find_device P a ps x = (r, x')"
  shows "adapter_ok x'"
proof (cases r)
  case None
  with find_device_None [of P a ps x x'] assms show ?thesis by simp
next
  case (Some p)
  have "adapter_ok (dev_upd p (\<lambda>d. d\<lparr>RundownProtection := (RundownProtection d)
              \<lparr>RdCount := RdCount (RundownProtection d) + 1\<rparr>\<rparr>) x)"
    by (rule adapter_ok_dev_upd [OF assms(1)]) (simp add: same_identity_def)
  with find_device_Some [of P a ps x p x'] assms Some show ?thesis by (auto split: if_splits)
qed

text \<open>Taking a reference and giving it back restores the device.\<close>

lemma find_device_release:
  assumes "find_device P True ps x = (Some p, x')"
  shows "dev_upd p WnbdReleaseDevice x' = x"
  using find_device_Some [OF assms]
  by (simp add: dev_upd_def WnbdReleaseDevice_def ExReleaseRundownProtection_def)


section \<open>Creation\<close>

lemma populate_frame:
  "populate n as (m, d) = (m', d') \<Longrightarrow> d' = d\<lparr>SrbElementPool := SrbElementPool d'\<rparr>"
proof (induction n arbitrary: as m d)
  case (Suc n)
  show ?case
  proof (cases "\<exists>p bs. as = Some p # bs")
    case False
    then have "populate (Suc n) as (m, d) = (m, d)" by (cases as; cases "hd as") auto
    with Suc.prems show ?thesis by simp
  next
    case True
    then obtain p bs where as: "as = Some p # bs" by blast
    from Suc.prems have "populate n bs (elem_upd p (\<lambda>e. e\<lparr>Pooled := True\<rparr>)
      (m\<lparr>Elems := (Elems m)(p := zero_element), Allocated := insert p (Allocated m)\<rparr>),
      d\<lparr>SrbElementPool := p # SrbElementPool d\<rparr>) = (m', d')" by (simp add: as Let_def)
    from Suc.IH [OF this] show ?thesis by simp
  qed
qed simp

text \<open>A freshly initialised device: empty queues, the pool filled from fresh memory.\<close>

definition pool_ok :: "create_env \<Rightarrow> kmem \<Rightarrow> bool" where
  "pool_ok env m \<longleftrightarrow> distinct (CePool env) \<and> (\<forall>p. Some p \<in> set (CePool env) \<longrightarrow> p \<notin> Allocated m)"

lemma queues_ok_empty:
  assumes "PendingReqListHead d = []" "SubmittedReqListHead d = []" "SrbElementPool d = []"
    "SubmittedReqHashBuckets d = replicate 256 []"
  shows "queues_ok m d"
  using assms by (simp add: queues_ok_def submitted_ok_def linked_def queued_def indexed_init)

lemma WnbdInitializeDevice_ok:
  assumes "WnbdInitializeDevice env (m, d) = (St, m', d')"
  shows "Properties d' = Properties d" "ConnectionId d' = ConnectionId d" "Bus d' = Bus d"
    "Target d' = Target d" "Lun d' = Lun d" "InquiryData d' = InquiryData d"
    "Stats d' = Stats d" "DiskNumber d' = DiskNumber d" "HardRemoveDevice d' = HardRemoveDevice d"
    "queued d' = []" "RundownProtection d' = rundown_init" "\<not> DeviceRemovalEvent d'"
    "NT_SUCCESS St \<Longrightarrow> NT_SUCCESS (CeThread env) \<and> DeviceMonitorThread d' \<noteq> None"
    "\<not> NT_SUCCESS St \<Longrightarrow> DeviceMonitorThread d = None \<Longrightarrow> DeviceMonitorThread d' = None"
    "pool_ok env m \<Longrightarrow> queues_ok m' d'" "\<not> NT_SUCCESS St \<Longrightarrow> m' = m"
proof -
  define d1 where "d1 = (WnbdInitSubmittedReqHash (d\<lparr>PendingReqListHead := [], SubmittedReqListHead := []\<rparr>))
     \<lparr>SrbElementPool := [], RundownProtection := rundown_init, DeviceEvent := 0, DeviceRemovalEvent := False\<rparr>"
  have d1: "queues_ok m d1"
    by (rule queues_ok_empty) (simp_all add: d1_def WnbdInitSubmittedReqHash_def)
  have ins: "\<not> NT_SUCCESS STATUS_INSUFFICIENT_RESOURCES" by (simp add: NT_SUCCESS_def bit_iff_odd drop_bit_eq_div)
  obtain St0 obj where ob: "CeThreadObject env = (St0, obj)" by (cases "CeThreadObject env")
  define q where "q = populate 256 (CePool env) (m, d1\<lparr>DeviceMonitorThread := Some obj\<rparr>)"
  have e: "WnbdInitializeDevice env (m, d) =
      (if \<not> NT_SUCCESS (CeThread env) then (STATUS_INSUFFICIENT_RESOURCES, m, d1)
       else if \<not> NT_SUCCESS St0 then (STATUS_INSUFFICIENT_RESOURCES, m, d1\<lparr>DeviceMonitorThread := None\<rparr>)
       else (St0, q))"
    unfolding WnbdInitializeDevice_def q_def d1_def WnbdPopulateSrbElementPool_def ob Let_def prod.case ..
  define d2 where "d2 = d1\<lparr>DeviceMonitorThread := None\<rparr>"
  consider (fail) "St = STATUS_INSUFFICIENT_RESOURCES" "m' = m" "d' = d1 \<or> d' = d2"
    | (ok) "NT_SUCCESS (CeThread env)" "NT_SUCCESS St" "(m', d') = q"
    using assms [unfolded e, folded d2_def] by (auto split: if_splits)
  note c = this
  have ok_fr: "DeviceMonitorThread d' = Some obj \<and>
      d' = d1\<lparr>DeviceMonitorThread := Some obj, SrbElementPool := SrbElementPool d'\<rparr>"
    if "(m', d') = q"
  proof -
    note e = populate_frame [OF that [symmetric, unfolded q_def]]
    have "DeviceMonitorThread d' = Some obj" using arg_cong [OF e, of DeviceMonitorThread] by simp
    with e show ?thesis by simp
  qed
  have fr: "d' = d1\<lparr>DeviceMonitorThread := DeviceMonitorThread d', SrbElementPool := SrbElementPool d'\<rparr>"
    using c
  proof cases
    case ok
    from ok_fr [OF ok(3)] show ?thesis by simp
  qed (auto simp: d2_def)
  show "Properties d' = Properties d" "ConnectionId d' = ConnectionId d" "Bus d' = Bus d"
    "Target d' = Target d" "Lun d' = Lun d" "InquiryData d' = InquiryData d"
    "Stats d' = Stats d" "DiskNumber d' = DiskNumber d" "HardRemoveDevice d' = HardRemoveDevice d"
    "queued d' = []" "RundownProtection d' = rundown_init" "\<not> DeviceRemovalEvent d'"
    by (subst fr, simp add: d1_def WnbdInitSubmittedReqHash_def queued_def)+
  show "NT_SUCCESS (CeThread env) \<and> DeviceMonitorThread d' \<noteq> None" if "NT_SUCCESS St"
    using c
  proof cases
    case ok
    with ok_fr show ?thesis by simp
  qed (use that ins in auto)
  show "DeviceMonitorThread d' = None" if "\<not> NT_SUCCESS St" "DeviceMonitorThread d = None"
    using c by cases (use that in \<open>auto simp: d2_def d1_def WnbdInitSubmittedReqHash_def\<close>)
  show "m' = m" if "\<not> NT_SUCCESS St" using c by cases (use that in auto)
  show "queues_ok m' d'" if "pool_ok env m"
    using c
  proof cases
    case fail
    with d1 show ?thesis by (auto simp: d2_def queue_defs)
  next
    case ok
    have "queues_ok m (d1\<lparr>DeviceMonitorThread := Some obj\<rparr>)" using d1 by (simp add: queue_defs)
    from populate_ok [OF this _ _ ok(3) [symmetric, unfolded q_def]] that show ?thesis by (simp add: pool_ok_def)
  qed
qed


text \<open>What the kernel documents of the services a creation uses.\<close>

definition picks_clear_bit :: "(bool list \<Rightarrow> nat option) \<Rightarrow> bool" where
  "picks_clear_bit f \<longleftrightarrow>
     (\<forall>bm. case f bm of None \<Rightarrow> False \<notin> set bm | Some n \<Rightarrow> n < length bm \<and> \<not> bm ! n)"

definition env_ok :: "create_env \<Rightarrow> kmem \<Rightarrow> WNBD_EXTENSION \<Rightarrow> bool" where
  "env_ok env m x \<longleftrightarrow>
     picks_clear_bit (CePickBit env) \<and> pool_ok env m \<and>
     (case CeDevice env of None \<Rightarrow> True | Some p \<Rightarrow> p \<notin> LiveDevices x) \<and>
     (NT_SUCCESS (CeThread env) \<longrightarrow> NT_SUCCESS (fst (CeThreadObject env)))"

text \<open>A creation that failed after its allocation: everything is given back.\<close>

definition rolled_back :: "ptr \<Rightarrow> WNBD_EXTENSION \<Rightarrow> WNBD_EXTENSION \<Rightarrow> bool" where
  "rolled_back p x x' \<longleftrightarrow>
     DeviceList x' = DeviceList x \<and> ConnIdHashBuckets x' = ConnIdHashBuckets x \<and>
     DeviceCount x' = DeviceCount x \<and> ScsiBitMap x' = ScsiBitMap x \<and>
     GlobalDeviceRemovalEvent x' = GlobalDeviceRemovalEvent x \<and> BusChanges x' = BusChanges x \<and>
     LiveDevices x' = LiveDevices x \<and> MonitorThreads x' = MonitorThreads x \<and>
     InquiryBuffers x' = InquiryBuffers x \<and>
     ExtRundownProtection x' = ExReleaseRundownProtection (ExtRundownProtection x) \<and>
     (ConnectionIdCounter x' = ConnectionIdCounter x \<or> ConnectionIdCounter x' = ConnectionIdCounter x + 1) \<and>
     (\<forall>q. q \<noteq> p \<longrightarrow> Devices x' q = Devices x q)"

text \<open>A creation that succeeded.\<close>

definition created :: "WNBD_PROPERTIES \<Rightarrow> ptr \<Rightarrow> WNBD_EXTENSION \<Rightarrow> WNBD_EXTENSION \<Rightarrow> bool" where
  "created Props p x x' \<longleftrightarrow>
     (let d = Devices x' p in
      Properties d = Props \<and> geometry_ok Props \<and> Connected d \<and> ConnectionId d = ConnectionIdCounter x + 1 \<and>
      Bus d = 0 \<and> Lun d = 0 \<and> scsi_bit d < length (ScsiBitMap x) \<and> \<not> ScsiBitMap x ! scsi_bit d \<and>
      DeviceMonitorThread d \<noteq> None \<and> InquiryData d \<noteq> None \<and> \<not> HardRemoveDevice d \<and>
      \<not> DeviceRemovalEvent d \<and> RundownProtection d = rundown_init \<and> queued d = [] \<and> Stats d = zero_stats \<and>
      DeviceList x' = DeviceList x @ [p] \<and>
      ConnIdHashBuckets x' = bucket_insert (WNBD_CONN_ID_BUCKET (ConnectionId d)) p (ConnIdHashBuckets x) \<and>
      DeviceCount x' = DeviceCount x + 1 \<and> ScsiBitMap x' = (ScsiBitMap x)[scsi_bit d := True] \<and>
      GlobalDeviceRemovalEvent x' = GlobalDeviceRemovalEvent x \<and> BusChanges x' = BusChanges x @ [0] \<and>
      LiveDevices x' = insert p (LiveDevices x) \<and> MonitorThreads x' = insert p (MonitorThreads x) \<and>
      InquiryBuffers x' = InquiryBuffers x + 1 \<and> ExtRundownProtection x' = ExtRundownProtection x \<and>
      ConnectionIdCounter x' = ConnectionIdCounter x + 1 \<and>
      (\<forall>q. q \<noteq> p \<longrightarrow> Devices x' q = Devices x q))"

lemma address_slot:
  assumes "n < 128"
  shows "Bus (device_address n d) = 0" "Lun (device_address n d) = 0" "scsi_bit (device_address n d) = n"
  using assms by (simp_all add: device_address_def scsi_bit_def unsigned_of_nat take_bit_nat_eq_self)

lemma device_address_properties [simp]: "Properties (device_address n d) = Properties d"
  by (simp add: device_address_def)

lemma list_update_undo: "\<not> bm ! n \<Longrightarrow> bm[n := False] = bm"
  by (cases "n < length bm") (auto intro!: nth_equalityI simp: nth_list_update split: if_splits)

lemma NT_SUCCESS_0 [simp]: "NT_SUCCESS 0"
  by (simp add: NT_SUCCESS_def)

lemma create_exit_sel:
  assumes "DeviceMonitorThread (Devices x p) = None" "St \<noteq> 0"
  shows "create_exit St p slot inq x =
    x\<lparr>LiveDevices := LiveDevices x - {p},
      ScsiBitMap := (case slot of None \<Rightarrow> ScsiBitMap x | Some i \<Rightarrow> (ScsiBitMap x)[i := False]),
      ExtRundownProtection := ExReleaseRundownProtection (ExtRundownProtection x),
      InquiryBuffers := InquiryBuffers x - (if inq then 1 else 0)\<rparr>"
  using assms by (cases slot) (simp_all add: create_exit_def clear_bit_def Let_def)

text \<open>The state in which the address is taken.\<close>

definition allocated_device :: "create_env \<Rightarrow> WNBD_PROPERTIES \<Rightarrow> ptr \<Rightarrow> WNBD_EXTENSION \<Rightarrow> WNBD_EXTENSION" where
  "allocated_device env Props p x =
     x\<lparr>LiveDevices := insert p (LiveDevices x), InquiryBuffers := InquiryBuffers x + 1,
       Devices := (Devices x)(p := zero_device\<lparr>Properties := Props,
         InquiryData := Some (WnbdSetInquiryData (CeRevision env))\<rparr>)\<rparr>"

text \<open>What can stop a creation once its device structure is allocated.\<close>

definition create_blocked :: "create_env \<Rightarrow> WNBD_PROPERTIES \<Rightarrow> WNBD_EXTENSION \<Rightarrow> bool" where
  "create_blocked env Props x \<longleftrightarrow>
     \<not> CeInquiry env \<or> False \<notin> set (ScsiBitMap x) \<or> \<not> geometry_ok Props \<or> \<not> NT_SUCCESS (CeThread env)"

lemma create_addressed_ok:
  assumes "p \<notin> LiveDevices x" "length (ScsiBitMap x) = 128" "n < 128" "\<not> ScsiBitMap x ! n"
    and "NT_SUCCESS (CeThread env) \<longrightarrow> NT_SUCCESS (fst (CeThreadObject env))"
    and "create_addressed env p n info
      (m, (allocated_device env Props p x)\<lparr>ScsiBitMap := (ScsiBitMap x)[n := True]\<rparr>) = (St, info', m', x')"
  shows "St = STATUS_SUCCESS \<and> created Props p x x' \<and> info' = device_info (Devices x' p) info \<and>
      (pool_ok env m \<longrightarrow> queues_ok m' (Devices x' p)) \<or>
    St \<noteq> STATUS_SUCCESS \<and> info' = info \<and> m' = m \<and> rolled_back p x x' \<and> create_blocked env Props x"
proof -
  define d0 where "d0 = (device_address n (zero_device\<lparr>Properties := Props,
         InquiryData := Some (WnbdSetInquiryData (CeRevision env))\<rparr>))\<lparr>ConnectionId := ConnectionIdCounter x + 1\<rparr>"
  define y where "y = x\<lparr>LiveDevices := insert p (LiveDevices x), InquiryBuffers := InquiryBuffers x + 1,
     ScsiBitMap := (ScsiBitMap x)[n := True], ConnectionIdCounter := ConnectionIdCounter x + 1,
     Devices := (Devices x)(p := d0)\<rparr>"
  obtain St1 m1 d1 where init: "WnbdInitializeDevice env (m, d0) = (St1, m1, d1)"
    by (cases "WnbdInitializeDevice env (m, d0)") auto
  note i = WnbdInitializeDevice_ok [OF init]
  have d0: "Properties d0 = Props" "DeviceMonitorThread d0 = None" "Bus d0 = 0" "Lun d0 = 0"
    "scsi_bit d0 = n" "InquiryData d0 \<noteq> None" "Stats d0 = zero_stats" "\<not> HardRemoveDevice d0"
    "ConnectionId d0 = ConnectionIdCounter x + 1"
    using address_slot [OF assms(3)] by (simp_all add: d0_def device_address_def zero_device_def scsi_bit_def)
  have undo: "(ScsiBitMap x)[n := False] = ScsiBitMap x" by (rule list_update_undo [OF assms(4)])
  have live: "insert p (LiveDevices x) - {p} = LiveDevices x" using assms(1) by auto
  define z where "z = (let z = dev_upd p (\<lambda>_. d1) y in
       if NT_SUCCESS (CeThread env) then z\<lparr>MonitorThreads := insert p (MonitorThreads z)\<rparr> else z)"
  have run: "create_addressed env p n info
      (m, (allocated_device env Props p x)\<lparr>ScsiBitMap := (ScsiBitMap x)[n := True]\<rparr>) =
     (if \<not> geometry_ok Props
      then (STATUS_INVALID_PARAMETER, info, m, create_exit STATUS_INVALID_PARAMETER p (Some n) True y)
      else if \<not> NT_SUCCESS St1 then (St1, info, m1, create_exit St1 p (Some n) True z)
      else (STATUS_SUCCESS, device_info d1 info, m1, create_publish p z))"
    using d0(1) init
    by (simp add: create_addressed_def allocated_device_def d0_def [symmetric] y_def z_def dev_upd_def Let_def)
  show ?thesis
  proof (cases "geometry_ok Props")
    case False
    then have r: "St = STATUS_INVALID_PARAMETER" "info' = info" "m' = m"
      "x' = create_exit STATUS_INVALID_PARAMETER p (Some n) True y"
      using assms(6) by (simp_all add: run)
    have "rolled_back p x x'"
      unfolding r by (subst create_exit_sel) (simp_all add: y_def d0 rolled_back_def undo live)
    with r False show ?thesis by (simp add: create_blocked_def)
  next
    case geo: True
    show ?thesis
    proof (cases "NT_SUCCESS St1")
      case False
      then have r: "St = St1" "info' = info" "m' = m1" "x' = create_exit St1 p (Some n) True z"
        using assms(6) geo by (auto simp: run)
      have "St1 \<noteq> 0" using False by auto
      moreover have thr: "\<not> NT_SUCCESS (CeThread env)"
        using False assms(5) init
        by (auto simp: WnbdInitializeDevice_def Let_def split: prod.splits if_splits)
      then have "z = dev_upd p (\<lambda>_. d1) y" by (simp add: z_def)
      moreover have "DeviceMonitorThread d1 = None" "m1 = m" using i(14,16) False d0(2) by simp_all
      ultimately have "rolled_back p x x'"
        unfolding r by (subst create_exit_sel) (simp_all add: y_def rolled_back_def undo live)
      with r thr \<open>St1 \<noteq> 0\<close> \<open>m1 = m\<close> show ?thesis by (simp add: create_blocked_def)
    next
      case True
      then have r: "St = STATUS_SUCCESS" "info' = device_info d1 info" "m' = m1" "x' = create_publish p z"
        using assms(6) geo by (simp_all add: run)
      have z: "z = (dev_upd p (\<lambda>_. d1) y)\<lparr>MonitorThreads := insert p (MonitorThreads x)\<rparr>"
        using i(13) True by (simp add: z_def y_def)
      have sb: "scsi_bit d1 = n" using i(3,4,5) d0(5) by (simp add: scsi_bit_def)
      then have sb': "scsi_bit (d1\<lparr>Connected := True\<rparr>) = n" by (simp add: scsi_bit_def)
      have x': "Devices x' = (Devices x)(p := d1\<lparr>Connected := True\<rparr>)"
        unfolding r by (simp add: create_publish_def z y_def Let_def)
      have "created Props p x x'"
        unfolding created_def Let_def x' using True geo i d0 sb' assms(2,3,4)
        by (simp add: r create_publish_def z y_def Let_def queued_def)
      moreover have "queues_ok m' (Devices x' p)" if "pool_ok env m"
        using i(15) [OF that] by (simp add: x' r(3) queue_defs)
      moreover have "info' = device_info (Devices x' p) info" by (simp add: x' r(2) device_info_def)
      ultimately show ?thesis using r by simp
    qed
  qed
qed


lemma rolled_back_ok:
  assumes "adapter_ok x" "p \<notin> LiveDevices x" "length (DeviceList x) < RdCount (ExtRundownProtection x)"
    and "rolled_back p x x'" "ConnectionIdCounter x \<noteq> - 1"
  shows "adapter_ok x'"
proof (rule adapter_ok_frame [OF assms(1)])
  show "ConnectionIdCounter x \<le> ConnectionIdCounter x'"
    using assms(4) word_less_inc [OF assms(5)] by (auto simp: rolled_back_def)
  show "same_identity (Devices x q) (Devices x' q)" if "q \<in> devs x" for q
    using assms(1,2,4) that by (auto simp: rolled_back_def adapter_defs)
  show "length (DeviceList x) \<le> RdCount (ExtRundownProtection x')"
    using assms(3,4) by (simp add: rolled_back_def ExReleaseRundownProtection_def)
qed (use assms(4) in \<open>simp_all add: rolled_back_def\<close>)

lemma created_ok:
  assumes "adapter_ok x" "p \<notin> LiveDevices x" "length (DeviceList x) < RdCount (ExtRundownProtection x)"
    and "created Props p x x'" "ConnectionIdCounter x \<noteq> - 1"
  shows "adapter_ok x'"
proof -
  let ?d = "Devices x' p"
  have c: "ConnectionId ?d = ConnectionIdCounter x + 1" "DeviceList x' = DeviceList x @ [p]"
    "ConnIdHashBuckets x' = bucket_insert (WNBD_CONN_ID_BUCKET (ConnectionId ?d)) p (ConnIdHashBuckets x)"
    "ConnectionIdCounter x' = ConnectionIdCounter x + 1" "ScsiBitMap x' = (ScsiBitMap x)[scsi_bit ?d := True]"
    "Bus ?d = 0" "Lun ?d = 0" "scsi_bit ?d < length (ScsiBitMap x)" "\<not> ScsiBitMap x ! scsi_bit ?d"
    using assms(4) by (simp_all add: created_def Let_def)
  have old: "Devices x' q = Devices x q" if "q \<in> devs x" for q
    using assms(1,2,4) that by (auto simp: created_def Let_def adapter_defs)
  have new: "p \<notin> devs x" using assms(1,2) by (auto simp: adapter_defs)
  have lt: "ConnectionIdCounter x < ConnectionIdCounter x + 1" by (rule word_less_inc [OF assms(5)])
  have fresh_id: "ConnectionId (Devices x q) \<noteq> ConnectionIdCounter x + 1"
    "ConnectionId (Devices x q) \<le> ConnectionIdCounter x + 1" if "q \<in> devs x" for q
    using assms(1) that lt by (auto simp: adapter_defs dest: leD order_trans less_imp_le)
  have "indexed (\<lambda>p. WNBD_CONN_ID_BUCKET (ConnectionId (Devices x' p))) 64 (DeviceList x) (ConnIdHashBuckets x)"
    using assms(1) old indexed_cong [of "DeviceList x" "\<lambda>p. WNBD_CONN_ID_BUCKET (ConnectionId (Devices x' p))"
          "\<lambda>p. WNBD_CONN_ID_BUCKET (ConnectionId (Devices x p))"] by (simp add: adapter_defs)
  from conn_index.insert_index [OF this new] c
  have "indexed (\<lambda>p. WNBD_CONN_ID_BUCKET (ConnectionId (Devices x' p))) 64 (DeviceList x') (ConnIdHashBuckets x')"
    by simp
  moreover have "inj_on (\<lambda>p. ConnectionId (Devices x' p)) (devs x')"
  proof -
    have "inj_on (\<lambda>p. ConnectionId (Devices x' p)) (devs x)"
      using assms(1) old by (simp add: adapter_defs inj_on_def)
    moreover have "ConnectionId ?d \<notin> (\<lambda>p. ConnectionId (Devices x' p)) ` devs x"
      using fresh_id(1) old c(1) by (auto simp: image_iff dest: sym)
    ultimately show ?thesis using new by (simp add: c(2))
  qed
  ultimately have ix: "index_ok x'"
    using c fresh_id(2) old by (auto simp: index_ok_def)
  have len: "length (ScsiBitMap x) = 128" using assms(1) by (simp add: adapter_defs)
  have used: "ScsiBitMap x ! scsi_bit (Devices x q)" if "q \<in> devs x" for q
    using assms(1) that by (auto simp: adapter_defs scsi_bit_def)
  have "inj_on (\<lambda>p. scsi_bit (Devices x' p)) (devs x')"
  proof -
    have "inj_on (\<lambda>p. scsi_bit (Devices x' p)) (devs x)"
      using assms(1) old by (simp add: adapter_defs inj_on_def)
    moreover have "scsi_bit ?d \<notin> (\<lambda>p. scsi_bit (Devices x' p)) ` devs x"
      using used old c(9) by (auto simp: image_iff)
    ultimately show ?thesis using new by (simp add: c(2))
  qed
  moreover have "\<forall>i < 128. ScsiBitMap x' ! i \<longleftrightarrow> i \<in> (\<lambda>p. scsi_bit (Devices x' p)) ` devs x'"
    using assms(1) c old len by (auto simp: adapter_defs nth_list_update image_iff)
  moreover have "unat (Target ?d) < 128" using c(6,7,8) len by (simp add: scsi_bit_def)
  ultimately have sl: "slots_ok x'"
    using assms(1) c old len by (auto simp: adapter_defs)
  have "resources_ok x'"
    using assms(1,3,4) old by (auto simp: created_def Let_def adapter_defs)
  with ix sl show ?thesis by (simp add: adapter_ok_def)
qed


text \<open>The reference to the extension a creation takes, and the early exits that keep it.\<close>

definition referenced :: "WNBD_EXTENSION \<Rightarrow> WNBD_EXTENSION" where
  "referenced x = x\<lparr>ExtRundownProtection := (ExtRundownProtection x)
     \<lparr>RdCount := RdCount (ExtRundownProtection x) + 1\<rparr>\<rparr>"

lemma referenced_sel [simp]:
  "Devices (referenced x) = Devices x" "DeviceList (referenced x) = DeviceList x"
  "ConnIdHashBuckets (referenced x) = ConnIdHashBuckets x" "DeviceCount (referenced x) = DeviceCount x"
  "GlobalDeviceRemovalEvent (referenced x) = GlobalDeviceRemovalEvent x"
  "ScsiBitMap (referenced x) = ScsiBitMap x" "ConnectionIdCounter (referenced x) = ConnectionIdCounter x"
  "LiveDevices (referenced x) = LiveDevices x" "MonitorThreads (referenced x) = MonitorThreads x"
  "InquiryBuffers (referenced x) = InquiryBuffers x" "BusChanges (referenced x) = BusChanges x"
  "RdCount (ExtRundownProtection (referenced x)) = RdCount (ExtRundownProtection x) + 1"
  "RdStarted (ExtRundownProtection (referenced x)) = RdStarted (ExtRundownProtection x)"
  by (simp_all add: referenced_def)

lemma adapter_ok_referenced: "adapter_ok x \<Longrightarrow> adapter_ok (referenced x)"
  by (rule adapter_ok_frame) (auto simp: adapter_defs)

lemma by_name_unacquired:
  "WnbdFindDeviceByInstanceName name False x = (find (\<lambda>p. streq (InstanceName (Properties (Devices x p))) name) (DeviceList x), x)"
  by (simp add: WnbdFindDeviceByInstanceName_def find_device_def split: option.splits)

lemma create_device_ok:
  assumes "p \<notin> LiveDevices x" "length (ScsiBitMap x) = 128" "picks_clear_bit (CePickBit env)"
    and "NT_SUCCESS (CeThread env) \<longrightarrow> NT_SUCCESS (fst (CeThreadObject env))"
    and "create_device env Props p info (m, x) = (St, info', m', x')"
  shows "St = STATUS_SUCCESS \<and> created Props p x x' \<and> info' = device_info (Devices x' p) info \<and>
      (pool_ok env m \<longrightarrow> queues_ok m' (Devices x' p)) \<or>
    St \<noteq> STATUS_SUCCESS \<and> info' = info \<and> m' = m \<and> rolled_back p x x' \<and> create_blocked env Props x"
proof (cases "CeInquiry env")
  case False
  let ?y = "dev_upd p (\<lambda>_. zero_device\<lparr>Properties := Props\<rparr>) (x\<lparr>LiveDevices := insert p (LiveDevices x)\<rparr>)"
  have mt: "DeviceMonitorThread (Devices ?y p) = None" by (simp add: zero_device_def)
  have live: "insert p (LiveDevices x) - {p} = LiveDevices x" using assms(1) by auto
  have "x' = create_exit STATUS_INSUFFICIENT_RESOURCES p None False ?y" "St = STATUS_INSUFFICIENT_RESOURCES"
    "m' = m" "info' = info" using False assms(5) by (simp_all add: create_device_def Let_def)
  moreover from this have "rolled_back p x x'" by (simp add: create_exit_sel [OF mt] rolled_back_def live)
  ultimately show ?thesis using False by (simp add: create_blocked_def)
next
  case inq: True
  have bm: "case CePickBit env (ScsiBitMap x) of None \<Rightarrow> False \<notin> set (ScsiBitMap x)
      | Some n \<Rightarrow> n < length (ScsiBitMap x) \<and> \<not> ScsiBitMap x ! n"
    using assms(3) by (simp add: picks_clear_bit_def)
  let ?y = "allocated_device env Props p x"
  have run: "create_device env Props p info (m, x) =
     (case CePickBit env (ScsiBitMap x) of
        None \<Rightarrow> (STATUS_TOO_MANY_ADDRESSES, info, m, create_exit STATUS_TOO_MANY_ADDRESSES p None True ?y)
      | Some n \<Rightarrow> create_addressed env p n info (m, ?y\<lparr>ScsiBitMap := (ScsiBitMap x)[n := True]\<rparr>))"
    using inq by (simp add: create_device_def allocated_device_def dev_upd_def Let_def cong: option.case_cong)
  show ?thesis
  proof (cases "CePickBit env (ScsiBitMap x)")
    case None
    have mt: "DeviceMonitorThread (Devices ?y p) = None" by (simp add: allocated_device_def zero_device_def)
    have live: "insert p (LiveDevices x) - {p} = LiveDevices x" using assms(1) by auto
    have "x' = create_exit STATUS_TOO_MANY_ADDRESSES p None True ?y" "St = STATUS_TOO_MANY_ADDRESSES"
      "m' = m" "info' = info" using assms(5) None by (simp_all add: run)
    moreover from this have "rolled_back p x x'"
      by (simp add: create_exit_sel [OF mt]) (simp add: allocated_device_def rolled_back_def live)
    ultimately show ?thesis using bm None by (simp add: create_blocked_def)
  next
    case (Some n)
    with bm assms(2) have n: "n < 128" "\<not> ScsiBitMap x ! n" by simp_all
    from create_addressed_ok [OF assms(1,2) n assms(4)] assms(5) Some show ?thesis by (simp add: run)
  qed
qed

lemma rolled_back_referenced:
  "rolled_back p (referenced x) x' \<Longrightarrow>
     ExtRundownProtection x' = ExtRundownProtection x \<and> rolled_back p (referenced x) x'"
  by (simp add: rolled_back_def referenced_def ExReleaseRundownProtection_def)

text \<open>The four outcomes of a creation.\<close>

lemma WnbdCreateConnection_cases:
  assumes "adapter_ok x" "env_ok env m x" "ConnectionIdCounter x \<noteq> - 1"
    and "WnbdCreateConnection env opts Props info (m, x) = (St, info', m', x')"
  obtains (shutdown) "RdStarted (ExtRundownProtection x)" "St = STATUS_SHUTDOWN_IN_PROGRESS" "info' = info" "m' = m" "x' = x"
  | (refused) "\<not> RdStarted (ExtRundownProtection x)" "info' = info" "m' = m" "x' = referenced x"
      "St = STATUS_SHUTDOWN_IN_PROGRESS \<and> \<not> opt_bool opts OptNewMappingsAllowed \<or>
       St = STATUS_OBJECT_NAME_COLLISION \<and>
         (\<exists>q \<in> devs x. streq (InstanceName (Properties (Devices x q))) (InstanceName Props)) \<or>
       St = STATUS_INSUFFICIENT_RESOURCES \<and> CeDevice env = None"
  | (failed) p where "CeDevice env = Some p" "St \<noteq> STATUS_SUCCESS" "info' = info" "m' = m"
      "rolled_back p (referenced x) x'" "ExtRundownProtection x' = ExtRundownProtection x" "adapter_ok x'"
      "create_blocked env Props x" "opt_bool opts OptNewMappingsAllowed"
      "\<forall>q \<in> devs x. \<not> streq (InstanceName (Properties (Devices x q))) (InstanceName Props)"
      "\<not> RdStarted (ExtRundownProtection x)"
  | (success) p where "CeDevice env = Some p" "St = STATUS_SUCCESS" "created Props p (referenced x) x'"
      "info' = device_info (Devices x' p) info" "queues_ok m' (Devices x' p)" "adapter_ok x'"
      "\<forall>q \<in> devs x. \<not> streq (InstanceName (Properties (Devices x q))) (InstanceName Props)"
      "opt_bool opts OptNewMappingsAllowed" "\<not> RdStarted (ExtRundownProtection x)"
proof (cases "RdStarted (ExtRundownProtection x)")
  case True
  with assms(4) show ?thesis
    by (intro shutdown) (auto simp: WnbdCreateConnection_def ExAcquireRundownProtection_def split: if_splits)
next
  case False
  then have acq: "ExAcquireRundownProtection (ExtRundownProtection x) = (True, ExtRundownProtection (referenced x))"
    "x\<lparr>ExtRundownProtection := ExtRundownProtection (referenced x)\<rparr> = referenced x"
    by (simp_all add: ExAcquireRundownProtection_def referenced_def)
  let ?hit = "find (\<lambda>p. streq (InstanceName (Properties (Devices x p))) (InstanceName Props)) (DeviceList x)"
  have run: "WnbdCreateConnection env opts Props info (m, x) =
     (if \<not> opt_bool opts OptNewMappingsAllowed then (STATUS_SHUTDOWN_IN_PROGRESS, info, m, referenced x)
      else case ?hit of Some _ \<Rightarrow> (STATUS_OBJECT_NAME_COLLISION, info, m, referenced x)
        | None \<Rightarrow> (case CeDevice env of None \<Rightarrow> (STATUS_INSUFFICIENT_RESOURCES, info, m, referenced x)
                   | Some p \<Rightarrow> create_device env Props p info (m, referenced x)))"
    unfolding WnbdCreateConnection_def by (simp add: acq by_name_unacquired Let_def cong: option.case_cong)
  show ?thesis
  proof (cases "opt_bool opts OptNewMappingsAllowed \<and> ?hit = None \<and> CeDevice env \<noteq> None")
    case False
    have hit: "?hit = Some q \<Longrightarrow> \<exists>q \<in> devs x. streq (InstanceName (Properties (Devices x q))) (InstanceName Props)" for q
      by (auto simp: find_Some_iff)
    show ?thesis
      by (rule refused) (use False assms(4) hit \<open>\<not> RdStarted _\<close> in \<open>auto simp: run split: if_splits option.splits\<close>)
  next
    case True
    then obtain p where p: "CeDevice env = Some p" by blast
    have new: "p \<notin> LiveDevices (referenced x)" "picks_clear_bit (CePickBit env)" "pool_ok env m"
      "NT_SUCCESS (CeThread env) \<longrightarrow> NT_SUCCESS (fst (CeThreadObject env))"
      using assms(2) p by (simp_all add: env_ok_def)
    have len: "length (ScsiBitMap (referenced x)) = 128" using assms(1) by (simp add: adapter_defs)
    have rok: "adapter_ok (referenced x)" "length (DeviceList (referenced x)) < RdCount (ExtRundownProtection (referenced x))"
      "ConnectionIdCounter (referenced x) \<noteq> - 1"
      using assms(1,3) adapter_ok_referenced by (auto simp: adapter_defs)
    have "create_device env Props p info (m, referenced x) = (St, info', m', x')"
      using assms(4) True p by (simp add: run)
    from create_device_ok [OF new(1) len new(2,4) this] show ?thesis
    proof (elim disjE conjE)
      assume h: "St = STATUS_SUCCESS" "created Props p (referenced x) x'" "info' = device_info (Devices x' p) info"
        "pool_ok env m \<longrightarrow> queues_ok m' (Devices x' p)"
      show ?thesis
        by (rule success [OF p h(1-3)])
           (use h new True False created_ok [OF rok(1) new(1) rok(2) h(2) rok(3)] in \<open>auto simp: find_None_iff\<close>)
    next
      assume h: "St \<noteq> STATUS_SUCCESS" "info' = info" "m' = m" "rolled_back p (referenced x) x'"
        "create_blocked env Props (referenced x)"
      have "create_blocked env Props x" using h(5) by (simp add: create_blocked_def)
      then show ?thesis
        by (intro failed [OF p h(1-4)])
           (use rolled_back_referenced [OF h(4)] rolled_back_ok [OF rok(1) new(1) rok(2) h(4) rok(3)] True False in \<open>auto simp: find_None_iff\<close>)
    qed
  qed
qed


lemma bitmap_full:
  assumes "adapter_ok x" "False \<notin> set (ScsiBitMap x)" shows "length (DeviceList x) = 128"
proof -
  have bm: "length (ScsiBitMap x) = 128" "\<forall>i < 128. ScsiBitMap x ! i \<longleftrightarrow> i \<in> (\<lambda>p. scsi_bit (Devices x p)) ` devs x"
    and slot: "\<forall>p \<in> devs x. scsi_bit (Devices x p) < 128" and inj: "inj_on (\<lambda>p. scsi_bit (Devices x p)) (devs x)"
    using assms(1) by (auto simp: adapter_defs scsi_bit_def)
  have "ScsiBitMap x ! i" if "i < 128" for i
    using assms(2) bm(1) that nth_mem [of i "ScsiBitMap x"] by (cases "ScsiBitMap x ! i") auto
  then have "(\<lambda>p. scsi_bit (Devices x p)) ` devs x = {..<128}" using bm(2) slot by auto
  then have "card (devs x) = 128" using card_image [OF inj] by simp
  then show ?thesis using distinct_card [OF adapter_ok_distinct [OF assms(1)]] by simp
qed

lemma create_succeeds:
  assumes "adapter_ok x" "env_ok env m x" "ConnectionIdCounter x \<noteq> - 1"
    and "\<not> RdStarted (ExtRundownProtection x)" "opt_bool opts OptNewMappingsAllowed"
    and "\<forall>q \<in> devs x. \<not> streq (InstanceName (Properties (Devices x q))) (InstanceName Props)"
    and "CeDevice env \<noteq> None" "CeInquiry env" "NT_SUCCESS (CeThread env)"
    and "length (DeviceList x) < 128" "geometry_ok Props"
    and "WnbdCreateConnection env opts Props info (m, x) = (St, info', m', x')"
  shows "St = STATUS_SUCCESS"
proof -
  have nb: "\<not> create_blocked env Props x"
    using assms(8-11) bitmap_full [OF assms(1)] by (auto simp: create_blocked_def)
  from assms(12) show ?thesis
    by (rule WnbdCreateConnection_cases [OF assms(1-3)]) (use assms(4-7) nb in auto)
qed

section \<open>Teardown\<close>

lemma complete_identity: "same_identity (snd s) (snd (CompleteRequest e f s))"
  by (cases s) (simp add: CompleteRequest_def WnbdFreeSrbElement_def same_identity_def stat_upd_def Let_def)

lemma abort_identity: "same_identity (snd s) (snd (abort_element b e s))"
  by (cases s) (simp add: abort_element_def same_identity_def stat_upd_def Let_def)

lemma drain_rundown [simp]:
  "RundownProtection (snd (CompleteRequest e f s)) = RundownProtection (snd s)"
  "RundownProtection (snd (abort_element b e s)) = RundownProtection (snd s)"
  by (cases s; simp add: CompleteRequest_def WnbdFreeSrbElement_def abort_element_def stat_upd_def Let_def)+

lemma drain_remove_identity:
  "drain_remove b d = (r, d1) \<Longrightarrow>
     same_identity d d1 \<and> Properties d1 = Properties d \<and> RundownProtection d1 = RundownProtection d"
  by (auto simp: drain_remove_def WnbdSubmittedReqRemoveHead_def submitted_unlink_def same_identity_def
      split: if_splits list.splits)

lemma drain_loop_identity:
  "drain_loop opts now b c st (m, d) = (st', m', d') \<Longrightarrow>
     same_identity d d' \<and> Properties d' = Properties d \<and> RundownProtection d' = RundownProtection d"
proof (induction opts now b c st "(m, d)" arbitrary: m d rule: drain_loop.induct)
  case (1 opts now b c st m d)
  obtain r d1 where r: "drain_remove b d = (r, d1)" by (cases "drain_remove b d")
  show ?case
  proof (cases r)
    case None
    with r 1(2) drain_remove_identity [OF r] show ?thesis
      by (simp add: drain_loop.simps [of opts now b c st m d])
  next
    case (Some e)
    obtain m3 d3 where cp: "CompleteRequest e True (abort_element b e (m, d1)) = (m3, d3)"
      by (cases "CompleteRequest e True (abort_element b e (m, d1))")
    have "same_identity d1 d3"
      using same_identity_trans [OF abort_identity [of "(m, d1)" b e]
          complete_identity [of "abort_element b e (m, d1)" e True]] cp by simp
    moreover have "Properties d3 = Properties d1"
      using arg_cong [OF cp, of "\<lambda>s. Properties (snd s)"] by simp
    moreover have "RundownProtection d3 = RundownProtection d1"
      using arg_cong [OF cp, of "\<lambda>s. RundownProtection (snd s)"] by simp
    moreover have "same_identity d3 d' \<and> Properties d' = Properties d3 \<and> RundownProtection d' = RundownProtection d3"
      using 1(1) [OF r [symmetric] Some refl refl cp] 1(2)
      by (simp add: drain_loop.simps [of opts now b c st m d] r Some cp Let_def)
    ultimately show ?thesis using drain_remove_identity [OF r] by (auto intro: same_identity_trans)
  qed
qed

lemma drain_identity:
  assumes "DrainDeviceQueue opts now b c (m, d) = (m', d')"
  shows "same_identity d d'" "Properties d' = Properties d" "RundownProtection d' = RundownProtection d"
proof -
  obtain st m1 d1 where l: "drain_loop opts now b c False (m, d) = (st, m1, d1)"
    by (cases "drain_loop opts now b c False (m, d)") auto
  have "d' = d1 \<or> d' = WnbdDisconnectAsync d1"
    using assms l by (auto simp: DrainDeviceQueue_def split: if_splits)
  with drain_loop_identity [OF l] show "same_identity d d'" "Properties d' = Properties d"
    "RundownProtection d' = RundownProtection d"
    by (auto simp: WnbdDisconnectAsync_def same_identity_def)
qed

text \<open>A device that is gone: unlinked everywhere, its address and its reference given back.\<close>

definition removed :: "ptr \<Rightarrow> WNBD_EXTENSION \<Rightarrow> WNBD_EXTENSION \<Rightarrow> bool" where
  "removed p x x' \<longleftrightarrow>
     DeviceList x' = remove1 p (DeviceList x) \<and> ConnIdHashBuckets x' = unlink p (ConnIdHashBuckets x) \<and>
     DeviceCount x' = DeviceCount x - 1 \<and> ScsiBitMap x' = (ScsiBitMap x)[scsi_bit (Devices x p) := False] \<and>
     GlobalDeviceRemovalEvent x' = GlobalDeviceRemovalEvent x \<and>
     BusChanges x' = BusChanges x @ [Bus (Devices x p)] \<and> LiveDevices x' = LiveDevices x - {p} \<and>
     MonitorThreads x' = MonitorThreads x - {p} \<and> InquiryBuffers x' = InquiryBuffers x - 1 \<and>
     ConnectionIdCounter x' = ConnectionIdCounter x \<and>
     ExtRundownProtection x' = ExReleaseRundownProtection (ExtRundownProtection x) \<and>
     (\<forall>q. q \<noteq> p \<longrightarrow> Devices x' q = Devices x q)"

lemma removed_ok:
  assumes "adapter_ok x" "p \<in> devs x" "removed p x x'"
  shows "adapter_ok x'"
proof -
  have dist: "distinct (DeviceList x)" using assms(1) by auto
  have ds: "devs x' = devs x - {p}" using assms(3) dist by (simp add: removed_def)
  have old: "Devices x' q = Devices x q" if "q \<in> devs x'" for q
    using assms(3) that ds by (simp add: removed_def)
  have len: "length (DeviceList x') = length (DeviceList x) - 1" "0 < length (DeviceList x)"
    using assms(2,3) by (auto simp: removed_def length_remove1 intro: length_pos_if_in_set)
  have "indexed (\<lambda>q. WNBD_CONN_ID_BUCKET (ConnectionId (Devices x q))) 64 (DeviceList x') (ConnIdHashBuckets x')"
    using assms(1,3) by (simp add: adapter_defs removed_def indexed_unlink)
  then have "index_ok x'"
    using assms(1,3) old ds indexed_cong [of "DeviceList x'" "\<lambda>q. WNBD_CONN_ID_BUCKET (ConnectionId (Devices x' q))"
          "\<lambda>q. WNBD_CONN_ID_BUCKET (ConnectionId (Devices x q))"]
    by (simp add: adapter_defs inj_on_def removed_def)
  moreover have "slots_ok x'"
  proof -
    have bm: "length (ScsiBitMap x) = 128" "scsi_bit (Devices x p) < 128"
      using assms(1,2) by (auto simp: adapter_defs scsi_bit_def)
    have inj: "scsi_bit (Devices x q) \<noteq> scsi_bit (Devices x p)" if "q \<in> devs x" "q \<noteq> p" for q
      using assms(1,2) that by (auto simp: adapter_defs inj_on_def)
    have "ScsiBitMap x' ! i \<longleftrightarrow> i \<in> (\<lambda>q. scsi_bit (Devices x' q)) ` devs x'" if "i < 128" for i
    proof -
      have "ScsiBitMap x' ! i \<longleftrightarrow> i \<noteq> scsi_bit (Devices x p) \<and> ScsiBitMap x ! i"
        using assms(3) bm that by (auto simp: removed_def nth_list_update)
      also have "\<dots> \<longleftrightarrow> i \<in> (\<lambda>q. scsi_bit (Devices x q)) ` (devs x - {p})"
        using assms(1) that inj by (auto simp: adapter_defs)
      also have "\<dots> \<longleftrightarrow> i \<in> (\<lambda>q. scsi_bit (Devices x' q)) ` devs x'"
        using old ds by auto
      finally show ?thesis .
    qed
    moreover have "inj_on (\<lambda>q. scsi_bit (Devices x' q)) (devs x')"
      using assms(1) old ds by (simp add: adapter_defs inj_on_def)
    ultimately show ?thesis
      using assms(1,3) bm old ds by (auto simp: adapter_defs removed_def)
  qed
  moreover have "resources_ok x'"
  proof -
    obtain n where n: "length (DeviceList x) = Suc n" using len(2) by (cases "length (DeviceList x)") auto
    have mt: "\<forall>q \<in> devs x'. DeviceMonitorThread (Devices x' q) \<noteq> None \<and> InquiryData (Devices x' q) \<noteq> None"
      using assms(1) old ds by (simp add: adapter_defs)
    have "LiveDevices x = devs x" "MonitorThreads x = devs x" "InquiryBuffers x = Suc n"
      "DeviceCount x = of_nat (Suc n)" "Suc n \<le> RdCount (ExtRundownProtection x)"
      using assms(1) n by (simp_all add: adapter_defs)
    then show ?thesis
      unfolding resources_ok_def ds using mt len(1) n assms(3)
      by (simp add: ds removed_def ExReleaseRundownProtection_def)
  qed
  ultimately show ?thesis by (simp add: adapter_ok_def)
qed


lemma pool_drain_frame:
  "WnbdDrainSrbElementPool (m, d) = (m', d') \<Longrightarrow>
     m' = m\<lparr>Allocated := Allocated m'\<rparr> \<and> d' = d\<lparr>SrbElementPool := []\<rparr>"
proof (induction "(m, d)" arbitrary: m d rule: WnbdDrainSrbElementPool.induct)
  case (1 m d)
  show ?case
  proof (cases "SrbElementPool d")
    case Nil
    with 1(2) show ?thesis by (simp add: WnbdDrainSrbElementPool.simps [of m d])
  next
    case (Cons e es)
    with 1(2) have "WnbdDrainSrbElementPool (ExFreePool e m, d\<lparr>SrbElementPool := es\<rparr>) = (m', d')"
      by (simp add: WnbdDrainSrbElementPool.simps [of m d])
    from 1(1) [OF Cons this] show ?thesis by (simp add: ExFreePool_def)
  qed
qed

text \<open>A drained element is back in the pool or freed.\<close>

lemma drain_step_linked:
  assumes "drain_remove b d = (Some e, d1)" "CompleteRequest e True (abort_element b e (m, d1)) = (m3, d3)"
  shows "set (linked d) \<inter> Allocated m3 \<subseteq> set (linked d3) \<and> Allocated m3 \<subseteq> Allocated m"
proof -
  have sub: "set (linked d) \<subseteq> insert e (set (linked d1))"
    using assms(1) by (auto simp: drain_remove_def WnbdSubmittedReqRemoveHead_def submitted_unlink_def linked_def
        split: if_splits list.splits)
  have "set (linked d1) \<subseteq> set (linked d3) \<and> (e \<in> set (linked d3) \<or> e \<notin> Allocated m3) \<and> Allocated m3 \<subseteq> Allocated m"
    using assms(2)
    by (auto simp: CompleteRequest_def abort_element_def WnbdFreeSrbElement_def ExFreePool_def linked_def
        Let_def split: if_splits)
  with sub show ?thesis by auto
qed

lemma drain_loop_linked:
  "drain_loop opts now b c st (m, d) = (st', m', d') \<Longrightarrow>
     set (linked d) \<inter> Allocated m' \<subseteq> set (linked d') \<and> Allocated m' \<subseteq> Allocated m"
proof (induction opts now b c st "(m, d)" arbitrary: m d rule: drain_loop.induct)
  case (1 opts now b c st m d)
  obtain r d1 where r: "drain_remove b d = (r, d1)" by (cases "drain_remove b d")
  show ?case
  proof (cases r)
    case None
    with r 1(2) drain_remove_None [of b d d1] show ?thesis
      by (simp add: drain_loop.simps [of opts now b c st m d])
  next
    case (Some e)
    obtain m3 d3 where cp: "CompleteRequest e True (abort_element b e (m, d1)) = (m3, d3)"
      by (cases "CompleteRequest e True (abort_element b e (m, d1))")
    have "set (linked d3) \<inter> Allocated m' \<subseteq> set (linked d') \<and> Allocated m' \<subseteq> Allocated m3"
      using 1(1) [OF r [symmetric] Some refl refl cp] 1(2)
      by (simp add: drain_loop.simps [of opts now b c st m d] r Some cp Let_def)
    with drain_step_linked [OF r [unfolded Some] cp] show ?thesis by blast
  qed
qed

lemma drain_linked:
  assumes "DrainDeviceQueue opts now b c (m, d) = (m', d')"
  shows "set (linked d) \<inter> Allocated m' \<subseteq> set (linked d') \<and> Allocated m' \<subseteq> Allocated m"
proof -
  obtain st m1 d1 where l: "drain_loop opts now b c False (m, d) = (st, m1, d1)"
    by (cases "drain_loop opts now b c False (m, d)") auto
  have "m' = m1" "d' = d1 \<or> d' = WnbdDisconnectAsync d1"
    using assms l by (auto simp: DrainDeviceQueue_def split: if_splits)
  with drain_loop_linked [OF l] show ?thesis by (auto simp: linked_def)
qed

lemma monitor_teardown_run:
  assumes "InquiryData (Devices x p) \<noteq> None" "monitor_teardown opts now p (m, x) = (m', x')"
    and "DrainDeviceQueue opts now False False (m, Devices x p) = (m1, d1)"
    and "DrainDeviceQueue opts now True False (m1, d1) = (m2, d2)"
  shows "removed p x x'" "\<exists>d3. WnbdDrainSrbElementPool (m2, d2\<lparr>InquiryData := None\<rparr>) = (m', d3)"
proof -
  let ?d = "Devices x p"
  obtain m3 d3 where D3: "WnbdDrainSrbElementPool (m2, d2\<lparr>InquiryData := None\<rparr>) = (m3, d3)"
    by (cases "WnbdDrainSrbElementPool (m2, d2\<lparr>InquiryData := None\<rparr>)")
  have id: "same_identity ?d d2"
    using drain_identity(1) [OF assms(3)] drain_identity(1) [OF assms(4)] by (rule same_identity_trans)
  have inq: "InquiryData d2 \<noteq> None" using id assms(1) by (simp add: same_identity_def)
  have sb: "scsi_bit d2 = scsi_bit ?d" "Bus d2 = Bus ?d" using id by (simp_all add: same_identity_def scsi_bit_def)
  have run: "m' = m3" "x' = x\<lparr>Devices := (Devices x)(p := d3), DeviceList := remove1 p (DeviceList x),
      ConnIdHashBuckets := unlink p (ConnIdHashBuckets x), ScsiBitMap := (ScsiBitMap x)[scsi_bit ?d := False],
      BusChanges := BusChanges x @ [Bus ?d], DeviceCount := DeviceCount x - 1,
      InquiryBuffers := InquiryBuffers x - 1, MonitorThreads := MonitorThreads x - {p},
      LiveDevices := LiveDevices x - {p},
      ExtRundownProtection := ExReleaseRundownProtection (ExtRundownProtection x)\<rparr>"
    using assms inq by (auto simp: monitor_teardown_def D3 Let_def clear_bit_def dev_upd_def sb)
  show "removed p x x'" by (simp add: run removed_def)
  show "\<exists>d3. WnbdDrainSrbElementPool (m2, d2\<lparr>InquiryData := None\<rparr>) = (m', d3)" using D3 run by blast
qed

lemma monitor_teardown_removed:
  assumes "InquiryData (Devices x p) \<noteq> None" "monitor_teardown opts now p (m, x) = (m', x')"
  shows "removed p x x'"
proof -
  obtain m1 d1 where D1: "DrainDeviceQueue opts now False False (m, Devices x p) = (m1, d1)"
    by (cases "DrainDeviceQueue opts now False False (m, Devices x p)")
  obtain m2 d2 where D2: "DrainDeviceQueue opts now True False (m1, d1) = (m2, d2)"
    by (cases "DrainDeviceQueue opts now True False (m1, d1)")
  from monitor_teardown_run(1) [OF assms D1 D2] show ?thesis .
qed

lemma monitor_teardown_ok:
  assumes "queues_ok m (Devices x p)" "InquiryData (Devices x p) \<noteq> None"
    and "monitor_teardown opts now p (m, x) = (m', x')"
  shows "Notified m' = Notified m @ srbs_of m (queued (Devices x p))"
    "Srbs m' s = (if s \<in> set (srbs_of m (queued (Devices x p))) then aborted_srb (Srbs m s) else Srbs m s)"
    "set (linked (Devices x p)) \<inter> Allocated m' = {}"
proof -
  let ?d = "Devices x p"
  obtain m1 d1 where D1: "DrainDeviceQueue opts now False False (m, ?d) = (m1, d1)"
    by (cases "DrainDeviceQueue opts now False False (m, ?d)")
  obtain m2 d2 where D2: "DrainDeviceQueue opts now True False (m1, d1) = (m2, d2)"
    by (cases "DrainDeviceQueue opts now True False (m1, d1)")
  obtain d3 where D3: "WnbdDrainSrbElementPool (m2, d2\<lparr>InquiryData := None\<rparr>) = (m', d3)"
    using monitor_teardown_run(2) [OF assms(2,3) D1 D2] by blast
  note k1 = DrainDeviceQueue_ok [OF assms(1) D1]
  note k2 = DrainDeviceQueue_ok [OF k1(1) D2]
  note k3 = pool_drain_frame [OF D3] WnbdDrainSrbElementPool_ok [OF D3]
  have q: "queued ?d = PendingReqListHead ?d @ SubmittedReqListHead ?d" by (simp add: queued_def)
  have sub: "SubmittedReqListHead d1 = SubmittedReqListHead ?d" using k1(3) by simp
  have "srbs_of m1 (SubmittedReqListHead ?d) = srbs_of m (SubmittedReqListHead ?d)"
    using assms(1) by (intro srbs_of_cong) (subst k1(6), auto simp: queue_defs)
  then have sr: "srbs_of m (queued ?d) = srbs_of m (PendingReqListHead ?d) @ srbs_of m1 (SubmittedReqListHead d1)"
    by (simp add: q sub srbs_of_def)
  have m3: "Notified m' = Notified m2" "Srbs m' = Srbs m2" by (subst k3(1) [THEN conjunct1], simp)+
  show "Notified m' = Notified m @ srbs_of m (queued ?d)"
    using k1(4) k2(4) by (simp add: m3 sr)
  show "Srbs m' s = (if s \<in> set (srbs_of m (queued ?d)) then aborted_srb (Srbs m s) else Srbs m s)"
    using k1(7) [of s] k2(7) [of s] by (auto simp: m3 sr)
  have "linked d2 = SrbElementPool d2"
    using k2(2) k2(3) k1(2) by (simp add: linked_def)
  with drain_linked [OF D1] drain_linked [OF D2] k3(2)
  show "set (linked ?d) \<inter> Allocated m' = {}" by simp blast
qed

end
