(* ===== verification/Lifecycle.thy ===== *)
theory Lifecycle
  imports AdapterProps
begin

text \<open>
  The life of the adapter as a step relation: mappings are created, devices are looked up
  and released, resized and disconnected, and the monitor threads wake up and tear their
  devices down, in any order. The invariant of \<open>AdapterProps\<close> holds in every reachable
  state; the properties below are read off it.
\<close>

section \<open>Steps\<close>

text \<open>A monitor thread leaves its first wait, or its second one.\<close>

inductive monitor_step :: "astate \<Rightarrow> astate \<Rightarrow> bool" where
  wake: "p \<in> MonitorThreads x \<Longrightarrow> \<not> RdStarted (RundownProtection (Devices x p)) \<Longrightarrow> monitor_woken p x \<Longrightarrow>
    monitor_step (m, x) (m, monitor_wake p x)"
| teardown: "p \<in> MonitorThreads x \<Longrightarrow> ExRundownDone (RundownProtection (Devices x p)) \<Longrightarrow>
    monitor_step (m, x) (monitor_teardown opts now p (m, x))"

inductive_cases monitor_stepE: "monitor_step (m, x) (m', x')"

inductive adapter_step :: "astate \<Rightarrow> astate \<Rightarrow> bool" where
  monitor: "monitor_step s s' \<Longrightarrow> adapter_step s s'"
| create: "env_ok env m x \<Longrightarrow> ConnectionIdCounter x \<noteq> - 1 \<Longrightarrow>
    WnbdCreateConnection env opts Props info (m, x) = (St, info', m', x') \<Longrightarrow>
    adapter_step (m, x) (m', x')"
| find_addr: "WnbdFindDeviceByAddr b t l a x = (r, x') \<Longrightarrow> adapter_step (m, x) (m, x')"
| find_id: "WnbdFindDeviceByConnId i a x = (r, x') \<Longrightarrow> adapter_step (m, x) (m, x')"
| find_name: "WnbdFindDeviceByInstanceName n a x = (r, x') \<Longrightarrow> adapter_step (m, x) (m, x')"
| release: "p \<in> devs x \<Longrightarrow> adapter_step (m, x) (m, dev_upd p WnbdReleaseDevice x)"
| disconnect: "p \<in> devs x \<Longrightarrow> adapter_step (m, x) (m, dev_upd p WnbdDisconnectSync x)"
| disconnect_async: "p \<in> devs x \<Longrightarrow> adapter_step (m, x) (m, dev_upd p WnbdDisconnectAsync x)"
| resize: "WnbdSetDiskSize i n x = (St, x') \<Longrightarrow> adapter_step (m, x) (m, x')"
| cleanup: "adapter_step (m, x) (m, WnbdCleanupAllDevices x)"

text \<open>The extension as \<^verbatim>\<open>WnbdHwFindAdapter\<close> leaves it; the heap and the connection id
  counter are what they were.\<close>

definition extension_init :: "(ptr \<Rightarrow> WNBD_DISK_DEVICE) \<Rightarrow> u64 \<Rightarrow> WNBD_EXTENSION" where
  "extension_init h c = WnbdInitScsiIds
     \<lparr>Devices = h, DeviceList = [], ConnIdHashBuckets = replicate WNBD_CONN_ID_HASH_BUCKETS [],
      DeviceCount = 0, ExtRundownProtection = rundown_init, GlobalDeviceRemovalEvent = False,
      ScsiBitMap = [], ConnectionIdCounter = c, LiveDevices = {}, MonitorThreads = {},
      InquiryBuffers = 0, BusChanges = []\<rparr>"

lemma adapter_ok_init: "adapter_ok (extension_init h c)"
  by (simp add: adapter_defs extension_init_def WnbdInitScsiIds_def indexed_init rundown_init_def)

section \<open>The invariant is kept\<close>

lemma monitor_wake_ok: "adapter_ok x \<Longrightarrow> adapter_ok (monitor_wake p x)"
  unfolding monitor_wake_def
  by (rule adapter_ok_dev_upd, rule adapter_ok_frame) (auto simp: same_identity_def adapter_defs)

lemma monitor_step_ok:
  assumes "monitor_step s s'" "adapter_ok (snd s)" shows "adapter_ok (snd s')"
  using assms
proof cases
  case (wake p x m)
  with assms(2) show ?thesis by (simp add: monitor_wake_ok)
next
  case (teardown p x m opts now)
  obtain m' x' where r: "monitor_teardown opts now p (m, x) = (m', x')"
    by (cases "monitor_teardown opts now p (m, x)")
  have p: "p \<in> devs x" "InquiryData (Devices x p) \<noteq> None"
    using teardown assms(2) by (auto simp: adapter_defs)
  from removed_ok [OF _ p(1) monitor_teardown_removed [OF p(2) r]] assms(2) teardown r show ?thesis by simp
qed

lemma create_step_ok:
  assumes "adapter_ok x" "env_ok env m x" "ConnectionIdCounter x \<noteq> - 1"
    and "WnbdCreateConnection env opts Props info (m, x) = (St, info', m', x')"
  shows "adapter_ok x'"
  using assms(4)
  by (rule WnbdCreateConnection_cases [OF assms(1-3)]) (use assms(1) adapter_ok_referenced in auto)

lemma resize_ok:
  assumes "adapter_ok x" "WnbdSetDiskSize i n x = (St, x')" shows "adapter_ok x'"
proof -
  obtain r y where f: "WnbdFindDeviceByConnId i True x = (r, y)" by (cases "WnbdFindDeviceByConnId i True x")
  then have y: "adapter_ok y"
    using assms(1) find_device_adapter_ok unfolding WnbdFindDeviceByConnId_def by blast
  show ?thesis
    using assms(2) f y
    by (auto simp: WnbdSetDiskSize_def split: option.splits
        intro!: adapter_ok_dev_upd simp: same_identity_def WnbdReleaseDevice_def)
qed

lemma cleanup_ok: "adapter_ok x \<Longrightarrow> adapter_ok (WnbdCleanupAllDevices x)"
  by (rule adapter_ok_frame) (auto simp: WnbdCleanupAllDevices_def ExRundownWait_def adapter_defs)

lemma adapter_step_ok:
  assumes "adapter_step s s'" "adapter_ok (snd s)" shows "adapter_ok (snd s')"
  using assms
proof (induction rule: adapter_step.induct)
  case (monitor s s')
  then show ?case by (rule monitor_step_ok)
next
  case (create env m x opts Props info St info' m' x')
  then show ?case using create_step_ok by simp
next
  case (release p x m)
  then show ?case by (auto intro!: adapter_ok_dev_upd simp: same_identity_def WnbdReleaseDevice_def)
next
  case (disconnect p x m)
  then show ?case
    by (auto intro!: adapter_ok_dev_upd simp: same_identity_def WnbdDisconnectSync_def WnbdReleaseDevice_def)
next
  case (disconnect_async p x m)
  then show ?case by (auto intro!: adapter_ok_dev_upd simp: same_identity_def WnbdDisconnectAsync_def)
next
  case (resize i n x St x' m)
  then show ?case using resize_ok by simp
next
  case (cleanup m x)
  then show ?case by (simp add: cleanup_ok)
qed (auto simp: WnbdFindDeviceByAddr_def WnbdFindDeviceByConnId_def WnbdFindDeviceByInstanceName_def
      intro: find_device_adapter_ok)

lemma reachable_ok:
  "adapter_step\<^sup>*\<^sup>* s s' \<Longrightarrow> adapter_ok (snd s) \<Longrightarrow> adapter_ok (snd s')"
  by (induction rule: rtranclp_induct) (auto intro: adapter_step_ok)


section \<open>Sample adapters\<close>

text \<open>The first clear bit, which is what the kernel's search from hint 0 returns.\<close>

definition first_clear :: "bool list \<Rightarrow> nat option" where
  "first_clear bm = find (\<lambda>i. \<not> bm ! i) [0..<length bm]"

lemma first_clear_ok: "picks_clear_bit first_clear"
  by (auto simp: picks_clear_bit_def first_clear_def find_Some_iff find_None_iff in_set_conv_nth
      split: option.splits)

definition sample_env :: "ptr \<Rightarrow> create_env" where
  "sample_env p = \<lparr>CeDevice = Some p, CeInquiry = True, CePickBit = first_clear, CeThread = 0,
     CeThreadObject = (0, 50), CePool = [], CeRevision = [48, 46, 53]\<rparr>"

definition named_props :: "u8 \<Rightarrow> WNBD_PROPERTIES" where
  "named_props n = sample_props\<lparr>InstanceName := [n, 0]\<rparr>"

abbreviation empty_adapter :: WNBD_EXTENSION where
  "empty_adapter \<equiv> extension_init (\<lambda>_. zero_device) 1"

lemma sample_env_ok: "p \<notin> LiveDevices x \<Longrightarrow> env_ok (sample_env p) m x"
  by (simp add: env_ok_def sample_env_def first_clear_ok pool_ok_def)

lemma new_mappings_allowed: "opt_bool WnbdDriverOptions OptNewMappingsAllowed"
  by (simp add: opt_bool_def WnbdDriverOptions_def bool_opt_def bool_data_def AsBool_def)

lemma named_geometry: "geometry_ok (named_props n)"
  by (simp add: geometry_ok_def named_props_def)

text \<open>Mapping a disk with a new name on an adapter that has room.\<close>

lemma sample_create:
  assumes "adapter_ok x" "p \<notin> LiveDevices x" "ConnectionIdCounter x \<noteq> - 1"
    "\<not> RdStarted (ExtRundownProtection x)" "length (DeviceList x) < 128"
    "\<forall>q \<in> devs x. \<not> streq (InstanceName (Properties (Devices x q))) [n, 0]"
  obtains info m' x' where "WnbdCreateConnection (sample_env p) WnbdDriverOptions (named_props n) zero_info (m, x) =
      (STATUS_SUCCESS, info, m', x')" "created (named_props n) p (referenced x) x'" "adapter_ok x'"
    "queues_ok m' (Devices x' p)" "adapter_step (m, x) (m', x')"
proof -
  obtain St info m' x' where r: "WnbdCreateConnection (sample_env p) WnbdDriverOptions (named_props n) zero_info (m, x) =
      (St, info, m', x')" by (cases "WnbdCreateConnection (sample_env p) WnbdDriverOptions (named_props n) zero_info (m, x)")
  have nm: "InstanceName (named_props n) = [n, 0]" by (simp add: named_props_def)
  have St: "St = STATUS_SUCCESS"
    by (rule create_succeeds [OF assms(1) sample_env_ok assms(3,4) new_mappings_allowed _ _ _ _ assms(5) named_geometry r])
       (use assms(2,6) nm in \<open>simp_all add: sample_env_def\<close>)
  from r show ?thesis
  proof (rule WnbdCreateConnection_cases [OF assms(1) sample_env_ok [OF assms(2)] assms(3)], goal_cases)
    case (4 q)
    then have "q = p" by (simp add: sample_env_def)
    with 4 r St show ?thesis
      by (intro that [of info m' x'])
         (auto intro: adapter_step.create [OF sample_env_ok [OF assms(2)] assms(3)])
  qed (use St assms(4) in auto)
qed

lemma empty_adapter_sel [simp]:
  "DeviceList (extension_init h c) = []" "LiveDevices (extension_init h c) = {}"
  "ConnectionIdCounter (extension_init h c) = c" "ExtRundownProtection (extension_init h c) = rundown_init"
  "\<not> GlobalDeviceRemovalEvent (extension_init h c)"
  by (simp_all add: extension_init_def WnbdInitScsiIds_def)

lemma rundown_init_sel [simp]: "RdCount rundown_init = 0" "\<not> RdStarted rundown_init"
  by (simp_all add: rundown_init_def)

text \<open>One mapped disk, and two.\<close>

lemma one_disk:
  obtains info m x where
    "WnbdCreateConnection (sample_env 1) WnbdDriverOptions (named_props 100) zero_info (sample_mem, empty_adapter) =
       (STATUS_SUCCESS, info, m, x)"
    "created (named_props 100) 1 (referenced empty_adapter) x" "adapter_ok x" "queues_ok m (Devices x 1)"
    "adapter_step\<^sup>*\<^sup>* (sample_mem, empty_adapter) (m, x)" "DeviceList x = [1]" "LiveDevices x = {1}"
    "ConnectionIdCounter x = 2" "RdCount (ExtRundownProtection x) = 1" "\<not> RdStarted (ExtRundownProtection x)"
    "RundownProtection (Devices x 1) = rundown_init" "\<not> DeviceRemovalEvent (Devices x 1)"
    "InstanceName (Properties (Devices x 1)) = [100, 0]" "\<not> GlobalDeviceRemovalEvent x"
proof (rule sample_create [OF adapter_ok_init, of 1 "\<lambda>_. zero_device" 1 100 sample_mem], goal_cases)
  case (6 info m x)
  then show ?case
    by (intro that [of info m x]) (auto simp: created_def Let_def named_props_def)
qed auto

lemma two_disks:
  obtains m x where "adapter_ok x" "adapter_step\<^sup>*\<^sup>* (sample_mem, empty_adapter) (m, x)" "DeviceList x = [1, 2]"
    "\<not> DeviceRemovalEvent (Devices x 1)" "\<not> DeviceRemovalEvent (Devices x 2)"
    "RundownProtection (Devices x 1) = rundown_init" "RundownProtection (Devices x 2) = rundown_init"
proof (rule one_disk)
  fix info m x
  assume h: "adapter_ok x" "adapter_step\<^sup>*\<^sup>* (sample_mem, empty_adapter) (m, x)" "DeviceList x = [1]"
    "LiveDevices x = {1}" "ConnectionIdCounter x = 2" "\<not> RdStarted (ExtRundownProtection x)"
    "RundownProtection (Devices x 1) = rundown_init" "\<not> DeviceRemovalEvent (Devices x 1)"
    "InstanceName (Properties (Devices x 1)) = [100, 0]"
  show ?thesis
  proof (rule sample_create [OF h(1), of 2 101 m], goal_cases)
    case (6 info' m' x')
    have "Devices x' 1 = Devices x 1" "DeviceList x' = [1, 2]" "\<not> DeviceRemovalEvent (Devices x' 2)"
      "RundownProtection (Devices x' 2) = rundown_init"
      using 6(2) h(3) by (simp_all add: created_def Let_def)
    with 6(3) rtranclp.rtrancl_into_rtrancl [OF h(2) 6(5)] h(7,8) show ?case
      by (intro that [of x' m']) simp_all
  qed (use h in \<open>auto simp: streq_def cstr_def\<close>)
qed

section \<open>What holds in every reachable state\<close>

text \<open>
  Looking a device up through the connection id buckets is a search of the whole device
  list, in every state the adapter can reach, and at most one device has the id.
\<close>

lemma conn_id_lookup_is_search:
  assumes "adapter_step\<^sup>*\<^sup>* (m0, extension_init h c) (m, x)"
  shows "fst (WnbdFindDeviceByConnId i False x) = find (\<lambda>p. ConnectionId (Devices x p) = i) (DeviceList x) \<and>
    (\<forall>p \<in> devs x. fst (WnbdFindDeviceByConnId (ConnectionId (Devices x p)) False x) = Some p)"
proof -
  have ok: "adapter_ok x" using reachable_ok [OF assms] adapter_ok_init by simp
  have un: "fst (WnbdFindDeviceByConnId i False x) =
      find (\<lambda>p. ConnectionId (Devices x p) = i) (ConnIdHashBuckets x ! WNBD_CONN_ID_BUCKET i)" for i
    by (simp add: WnbdFindDeviceByConnId_def find_device_def split: option.splits)
  have inj: "inj_on (\<lambda>p. ConnectionId (Devices x p)) (devs x)" using ok by (simp add: adapter_defs)
  have scan: "fst (WnbdFindDeviceByConnId i False x) = find (\<lambda>p. ConnectionId (Devices x p) = i) (DeviceList x)" for i
    unfolding un by (rule conn_index.lookup_scan) (use ok in \<open>simp_all add: adapter_defs\<close>)
  show ?thesis
    using inj by (auto simp: scan find_Some_iff_distinct)
qed

text \<open>
  C32: in every reachable state the address bitmap has exactly one bit per device, no two
  devices share a SCSI address, the address of a device finds that device, and the counts
  of devices, structures and monitor threads agree.
\<close>

theorem scsi_addresses_are_unique:
  assumes "adapter_step\<^sup>*\<^sup>* (m0, extension_init h c) (m, x)" "p \<in> devs x"
  shows "fst (WnbdFindDeviceByAddr (ucast (Bus (Devices x p))) (ucast (Target (Devices x p)))
           (ucast (Lun (Devices x p))) False x) = Some p \<and>
    ScsiBitMap x ! scsi_bit (Devices x p) \<and>
    GetNumberOfUsedScsiIds x = of_nat (length (DeviceList x)) \<and>
    card (LiveDevices x) = length (DeviceList x) \<and> DeviceCount x = of_nat (length (DeviceList x))"
proof (intro conjI)
  have ok: "adapter_ok x" using reachable_ok [OF assms(1)] adapter_ok_init by simp
  have addr: "Bus (Devices x q) = 0" "Lun (Devices x q) = 0" "unat (Target (Devices x q)) < 128" if "q \<in> devs x" for q
    using ok that by (simp_all add: adapter_defs)
  have tgt: "(ucast (ucast (Target (Devices x p)) :: u8) :: u16) = Target (Devices x p)"
    using addr(3) [OF assms(2)]
    by (simp add: word_unat_eq_iff unsigned_ucast_eq unsigned_take_bit_eq take_bit_nat_eq_self)
  have key: "Bus (Devices x q) = 0 \<and> Target (Devices x q) = Target (Devices x p) \<and> Lun (Devices x q) = 0 \<longleftrightarrow>
      scsi_bit (Devices x q) = scsi_bit (Devices x p)" if "q \<in> devs x" for q
    using addr [OF that] addr [OF assms(2)] by (simp add: scsi_bit_def word_unat_eq_iff)
  have inj: "inj_on (\<lambda>q. scsi_bit (Devices x q)) (devs x)" using ok by (simp add: adapter_defs)
  have "find (\<lambda>q. Bus (Devices x q) = 0 \<and> Target (Devices x q) = Target (Devices x p) \<and> Lun (Devices x q) = 0)
      (DeviceList x) = find (\<lambda>q. scsi_bit (Devices x q) = scsi_bit (Devices x p)) (DeviceList x)"
    using key by (intro find_cong) auto
  also have "\<dots> = Some p" using inj assms(2) by (simp add: find_Some_iff_distinct)
  finally show "fst (WnbdFindDeviceByAddr (ucast (Bus (Devices x p))) (ucast (Target (Devices x p)))
      (ucast (Lun (Devices x p))) False x) = Some p"
    using addr [OF assms(2)] by (simp add: WnbdFindDeviceByAddr_def find_device_def tgt)
  show "ScsiBitMap x ! scsi_bit (Devices x p)" using ok assms(2) addr by (auto simp: adapter_defs scsi_bit_def)
  have bits: "{i. i < length (ScsiBitMap x) \<and> ScsiBitMap x ! i} = (\<lambda>q. scsi_bit (Devices x q)) ` devs x"
    using ok addr by (auto simp: adapter_defs scsi_bit_def)
  have "length (filter id (ScsiBitMap x)) = card ((\<lambda>q. scsi_bit (Devices x q)) ` devs x)"
    using bits by (simp add: length_filter_conv_card)
  also have "\<dots> = length (DeviceList x)"
    using inj ok by (simp add: card_image distinct_card adapter_ok_distinct)
  finally show "GetNumberOfUsedScsiIds x = of_nat (length (DeviceList x))" by (simp add: GetNumberOfUsedScsiIds_def)
  show "card (LiveDevices x) = length (DeviceList x)" "DeviceCount x = of_nat (length (DeviceList x))"
    using ok distinct_card [OF adapter_ok_distinct [OF ok]] by (simp_all add: adapter_defs)
qed


theorem scsi_addresses_are_unique_witness:
  "\<exists>m x. DeviceList x = [1, 2] \<and> GetNumberOfUsedScsiIds x = 2 \<and> DeviceCount x = 2"
proof (rule two_disks)
  fix m x
  assume h: "adapter_step\<^sup>*\<^sup>* (sample_mem, empty_adapter) (m, x)" "DeviceList x = [1, 2]"
  from scsi_addresses_are_unique [OF h(1), of 2] h(2) show ?thesis by auto
qed

section \<open>Creation\<close>

text \<open>
  C33: on an adapter with room, a mapping with a new name, 512 byte blocks and a size that
  does not overflow succeeds when the kernel grants its resources; the new device is found
  by the connection id that user space receives and by its name, its queues are empty, and
  no other device changes.
\<close>

theorem create_maps_device:
  assumes "adapter_ok x" "env_ok env m x" "ConnectionIdCounter x \<noteq> - 1"
    and "\<not> RdStarted (ExtRundownProtection x)" "opt_bool opts OptNewMappingsAllowed"
    and "\<forall>q \<in> devs x. \<not> streq (InstanceName (Properties (Devices x q))) (InstanceName Props)"
    and "CeDevice env = Some p" "CeInquiry env" "NT_SUCCESS (CeThread env)"
    and "length (DeviceList x) < WNBD_MAX_NUMBER_OF_DISKS" "geometry_ok Props"
    and "WnbdCreateConnection env opts Props info (m, x) = (St, info', m', x')"
  shows "St = STATUS_SUCCESS \<and> adapter_ok x' \<and> DeviceList x' = DeviceList x @ [p] \<and>
    Properties (Devices x' p) = Props \<and> queues_ok m' (Devices x' p) \<and> stats_ok (Devices x' p) \<and>
    fst (WnbdFindDeviceByConnId (CiConnectionId info') False x') = Some p \<and>
    fst (WnbdFindDeviceByInstanceName (InstanceName Props) False x') = Some p \<and>
    (\<forall>q \<in> devs x. Devices x' q = Devices x q)"
proof -
  have St: "St = STATUS_SUCCESS"
    by (rule create_succeeds [OF assms(1-6) _ assms(8-12)]) (simp add: assms(7))
  from assms(12) show ?thesis
  proof (rule WnbdCreateConnection_cases [OF assms(1-3)], goal_cases)
    case (4 q)
    with assms(7) have q: "q = p" by simp
    have new: "p \<notin> devs x" using assms(1,2,7) by (simp add: env_ok_def adapter_defs)
    note c = 4(3) [unfolded created_def Let_def q referenced_sel]
    have l: "DeviceList x' = DeviceList x @ [p]" "Properties (Devices x' p) = Props"
      "queued (Devices x' p) = []" "Stats (Devices x' p) = zero_stats" "\<forall>q. q \<noteq> p \<longrightarrow> Devices x' q = Devices x q"
      using c by blast+
    have "inj_on (\<lambda>p. ConnectionId (Devices x' p)) (devs x')" using 4(6) by (simp add: adapter_defs)
    moreover have "fst (WnbdFindDeviceByConnId i False x') =
        find (\<lambda>p. ConnectionId (Devices x' p) = i) (ConnIdHashBuckets x' ! WNBD_CONN_ID_BUCKET i)" for i
      by (simp add: WnbdFindDeviceByConnId_def find_device_def split: option.splits)
    ultimately have "fst (WnbdFindDeviceByConnId (ConnectionId (Devices x' p)) False x') = Some p"
      using 4(6) l(1) conn_index.lookup_scan [of x' "DeviceList x'" "ConnIdHashBuckets x'"]
      by (simp add: adapter_defs find_Some_iff_distinct)
    moreover have "\<forall>q \<in> devs x. Devices x' q = Devices x q" using l(5) new by auto
    moreover from this have "fst (WnbdFindDeviceByInstanceName (InstanceName Props) False x') = Some p"
      using assms(6) l(1,2) by (simp add: by_name_unacquired find_snoc)
    moreover have "CiConnectionId info' = ConnectionId (Devices x' p)" using 4(4) by (simp add: q device_info_def)
    moreover have "stats_ok (Devices x' p)" using l(3,4) by (simp add: stats_ok_def zero_stats_def queued_def)
    ultimately show ?thesis using St 4(5,6) l(1,2) by (simp add: q)
  qed (use St assms(4) in auto)
qed


theorem create_maps_device_witness:
  "\<exists>info m x. WnbdCreateConnection (sample_env 1) WnbdDriverOptions (named_props 100) zero_info (sample_mem, empty_adapter) =
       (STATUS_SUCCESS, info, m, x) \<and> fst (WnbdFindDeviceByConnId (CiConnectionId info) False x) = Some 1"
proof -
  obtain St info m x where r: "WnbdCreateConnection (sample_env 1) WnbdDriverOptions (named_props 100) zero_info
      (sample_mem, empty_adapter) = (St, info, m, x)"
    by (cases "WnbdCreateConnection (sample_env 1) WnbdDriverOptions (named_props 100) zero_info (sample_mem, empty_adapter)")
  from create_maps_device [OF adapter_ok_init sample_env_ok _ _ new_mappings_allowed _ _ _ _ _ named_geometry r, of 1] r
  show ?thesis by (simp add: sample_env_def)
qed

text \<open>
  C34: a creation that fails leaves the device list, the index, the address bitmap, the
  memory and every resource count as they were. The reference to the extension is given back
  too, except on the three early exits (mappings disabled, name taken, no memory for the
  device), which keep it.
\<close>

theorem failed_create_gives_back:
  assumes "adapter_ok x" "env_ok env m x" "ConnectionIdCounter x \<noteq> - 1"
    and "WnbdCreateConnection env opts Props info (m, x) = (St, info', m', x')" "St \<noteq> STATUS_SUCCESS"
  shows "DeviceList x' = DeviceList x \<and> ConnIdHashBuckets x' = ConnIdHashBuckets x \<and>
    ScsiBitMap x' = ScsiBitMap x \<and> DeviceCount x' = DeviceCount x \<and> LiveDevices x' = LiveDevices x \<and>
    MonitorThreads x' = MonitorThreads x \<and> InquiryBuffers x' = InquiryBuffers x \<and> info' = info \<and> m' = m \<and>
    (\<forall>q \<in> devs x. Devices x' q = Devices x q) \<and>
    RdCount (ExtRundownProtection x') = RdCount (ExtRundownProtection x) +
      (if \<not> RdStarted (ExtRundownProtection x) \<and>
          (\<not> opt_bool opts OptNewMappingsAllowed \<or> CeDevice env = None \<or>
           (\<exists>q \<in> devs x. streq (InstanceName (Properties (Devices x q))) (InstanceName Props)))
       then 1 else 0)"
  using assms(4)
proof (rule WnbdCreateConnection_cases [OF assms(1-3)], goal_cases)
  case (3 p)
  have "p \<notin> devs x" using assms(1,2) 3(1) by (simp add: env_ok_def adapter_defs)
  then show ?thesis using 3 by (auto simp: rolled_back_def)
qed (use assms(5) in auto)


theorem failed_create_gives_back_witness:
  "\<exists>info m x. WnbdCreateConnection ((sample_env 1)\<lparr>CeInquiry := False\<rparr>) WnbdDriverOptions (named_props 100) zero_info
       (sample_mem, empty_adapter) = (STATUS_INSUFFICIENT_RESOURCES, info, m, x) \<and> LiveDevices x = {} \<and>
       RdCount (ExtRundownProtection x) = 0"
proof -
  let ?e = "(sample_env 1)\<lparr>CeInquiry := False\<rparr>"
  obtain St info m x where r: "WnbdCreateConnection ?e WnbdDriverOptions (named_props 100) zero_info
      (sample_mem, empty_adapter) = (St, info, m, x)"
    by (cases "WnbdCreateConnection ?e WnbdDriverOptions (named_props 100) zero_info (sample_mem, empty_adapter)")
  have St: "St = STATUS_INSUFFICIENT_RESOURCES"
    using r by (simp add: WnbdCreateConnection_def ExAcquireRundownProtection_def new_mappings_allowed
        by_name_unacquired sample_env_def create_device_def Let_def)
  have "env_ok ?e sample_mem empty_adapter"
    by (simp add: env_ok_def sample_env_def first_clear_ok pool_ok_def)
  from failed_create_gives_back [OF adapter_ok_init this _ r] St r new_mappings_allowed show ?thesis
    by (simp add: sample_env_def)
qed

end
