(* ===== verification/Removal.thy ===== *)
theory Removal
  imports Lifecycle
begin

text \<open>
  The end of a device and of the adapter: what a removal gives back, when it finishes, and
  what decides whether the cleanup of all devices returns.
\<close>

section \<open>One device\<close>

lemma unlink_insert:
  assumes "\<forall>b \<in> set bs. p \<notin> set b" shows "unlink p (bucket_insert i p bs) = bs"
proof -
  have "map (remove1 p) bs = bs" by (rule map_idI) (use assms in \<open>auto simp: remove1_idem\<close>)
  then show ?thesis
    using assms by (cases "i < length bs") (auto simp: unlink_def bucket_insert_def map_update)
qed

lemma not_in_buckets:
  assumes "adapter_ok x" "p \<notin> devs x" shows "\<forall>b \<in> set (ConnIdHashBuckets x). p \<notin> set b"
proof
  fix b assume "b \<in> set (ConnIdHashBuckets x)"
  then obtain i where i: "i < length (ConnIdHashBuckets x)" "b = ConnIdHashBuckets x ! i"
    by (auto simp: in_set_conv_nth)
  have "indexed (\<lambda>p. WNBD_CONN_ID_BUCKET (ConnectionId (Devices x p))) 64 (DeviceList x) (ConnIdHashBuckets x)"
    using assms(1) by (simp add: adapter_defs)
  with i have "set b \<subseteq> devs x" by (auto simp: indexed_def)
  with assms(2) show "p \<notin> set b" by blast
qed

text \<open>
  C35: tearing down a device that was just created restores the adapter: the device list, the
  connection id buckets, the address bitmap, the counts and the reference to the extension
  are what they were before the mapping.
\<close>

theorem create_then_remove_restores:
  assumes "adapter_ok x" "env_ok env m x" "ConnectionIdCounter x \<noteq> - 1"
    and "WnbdCreateConnection env opts Props info (m, x) = (STATUS_SUCCESS, info', m', x')"
    and "CeDevice env = Some p" "monitor_teardown opts' now p (m', x') = (m'', x'')"
  shows "DeviceList x'' = DeviceList x \<and> ConnIdHashBuckets x'' = ConnIdHashBuckets x \<and>
    ScsiBitMap x'' = ScsiBitMap x \<and> DeviceCount x'' = DeviceCount x \<and> LiveDevices x'' = LiveDevices x \<and>
    MonitorThreads x'' = MonitorThreads x \<and> InquiryBuffers x'' = InquiryBuffers x \<and>
    ExtRundownProtection x'' = ExtRundownProtection x \<and> (\<forall>q \<in> devs x. Devices x'' q = Devices x q)"
  using assms(4)
proof (rule WnbdCreateConnection_cases [OF assms(1-3)], goal_cases)
  case (4 q)
  with assms(5) have q: "q = p" by simp
  have new: "p \<notin> devs x" "p \<notin> LiveDevices x" "p \<notin> MonitorThreads x"
    using assms(1,2,5) by (auto simp: env_ok_def adapter_defs)
  note c = 4(3) [unfolded created_def Let_def q referenced_sel]
  have inq: "InquiryData (Devices x' p) \<noteq> None" using c by blast
  note rm = monitor_teardown_removed [OF inq assms(6), unfolded removed_def]
  have "\<not> ScsiBitMap x ! scsi_bit (Devices x' p)" using c by blast
  moreover have "ExReleaseRundownProtection (ExtRundownProtection (referenced x)) = ExtRundownProtection x"
    by (simp add: ExReleaseRundownProtection_def referenced_def)
  moreover have "\<forall>q \<in> devs x. Devices x'' q = Devices x q"
    using c rm new(1) by (metis (no_types, lifting))
  ultimately show ?thesis
    using c rm new unlink_insert [OF not_in_buckets [OF assms(1) new(1)]]
    by (simp add: remove1_append remove1_idem list_update_undo)
qed auto

theorem create_then_remove_restores_witness:
  "\<exists>info m x m' x'. WnbdCreateConnection (sample_env 1) WnbdDriverOptions (named_props 100) zero_info
       (sample_mem, empty_adapter) = (STATUS_SUCCESS, info, m, x) \<and>
     monitor_teardown WnbdDriverOptions 9 1 (m, x) = (m', x') \<and> ScsiBitMap x' = replicate 128 False"
proof (rule one_disk)
  fix info m x
  assume h: "WnbdCreateConnection (sample_env 1) WnbdDriverOptions (named_props 100) zero_info
       (sample_mem, empty_adapter) = (STATUS_SUCCESS, info, m, x)"
  obtain m' x' where t: "monitor_teardown WnbdDriverOptions 9 1 (m, x) = (m', x')"
    by (cases "monitor_teardown WnbdDriverOptions 9 1 (m, x)")
  have "ScsiBitMap empty_adapter = replicate 128 False" by (simp add: extension_init_def WnbdInitScsiIds_def)
  with create_then_remove_restores [OF adapter_ok_init sample_env_ok _ h _ t] h t show ?thesis
    by (simp add: sample_env_def)
qed

lemma delete_runs:
  assumes "adapter_ok x" "find (\<lambda>p. streq (InstanceName (Properties (Devices x p))) name) (DeviceList x) = Some p"
    and "queues_ok m (Devices x p)" "RundownProtection (Devices x p) = rundown_init"
    and "\<forall>q \<in> devs x. streq (InstanceName (Properties (Devices x q))) name \<longrightarrow> q = p"
  obtains m' x' where "WnbdDeleteConnection opts now name (m, x) = Some (STATUS_SUCCESS, m', x')" "adapter_ok x'"
    "Notified m' = Notified m @ srbs_of m (queued (Devices x p))"
    "\<forall>s. Srbs m' s = (if s \<in> set (srbs_of m (queued (Devices x p))) then aborted_srb (Srbs m s) else Srbs m s)"
    "set (linked (Devices x p)) \<inter> Allocated m' = {}" "fst (WnbdFindDeviceByInstanceName name False x') = None"
    "DeviceList x' = remove1 p (DeviceList x)" "\<forall>q. q \<noteq> p \<longrightarrow> Devices x' q = Devices x q"
proof -
  let ?d = "Devices x p"
  have p: "p \<in> devs x" "streq (InstanceName (Properties ?d)) name" using assms(2) by (auto simp: find_Some_iff)
  define d1 where "d1 = ?d\<lparr>HardRemoveDevice := True, DeviceRemovalEvent := True,
     RundownProtection := ExRundownWait rundown_init\<rparr>"
  define y where "y = dev_upd p (\<lambda>_. d1) (x\<lparr>GlobalDeviceRemovalEvent := False\<rparr>)"
  obtain m' x' where t: "monitor_teardown opts now p (m, y) = (m', x')"
    by (cases "monitor_teardown opts now p (m, y)")
  have y: "Devices y p = d1" "DeviceList y = DeviceList x" by (simp_all add: y_def)
  have id: "same_identity ?d d1" by (simp add: same_identity_def d1_def)
  have aok: "adapter_ok y"
    unfolding y_def by (rule adapter_ok_dev_upd, rule adapter_ok_frame [OF assms(1)])
      (use assms(1) id in \<open>auto simp: adapter_defs\<close>)
  have lk: "queued d1 = queued ?d" "linked d1 = linked ?d" by (simp_all add: d1_def queued_def linked_def)
  have qok: "queues_ok m (Devices y p)" using assms(3) by (simp add: y d1_def queue_defs)
  have "InquiryData ?d \<noteq> None" using assms(1) p(1) by (simp add: adapter_defs)
  then have inq: "InquiryData (Devices y p) \<noteq> None" using id by (simp add: y same_identity_def)
  note td = monitor_teardown_ok [OF qok inq t, unfolded y lk]
  note rm = monitor_teardown_removed [OF inq t]
  have r0: "ExAcquireRundownProtection rundown_init = (True, rundown_init\<lparr>RdCount := Suc 0\<rparr>)"
    by (simp add: ExAcquireRundownProtection_def rundown_init_def)
  have fd: "WnbdFindDeviceByInstanceName name True x = (Some p, dev_upd p (\<lambda>_. ?d\<lparr>RundownProtection := rundown_init\<lparr>RdCount := Suc 0\<rparr>\<rparr>) x)"
    using assms(2,4) by (simp add: WnbdFindDeviceByInstanceName_def find_device_def WnbdAcquireDevice_def r0)
  have bk: "ExReleaseRundownProtection (rundown_init\<lparr>RdCount := Suc 0\<rparr>) = rundown_init"
    by (simp add: ExReleaseRundownProtection_def rundown_init_def)
  have wk: "monitor_wake p (dev_upd p WnbdDisconnectSync (dev_upd p (\<lambda>_. ?d\<lparr>RundownProtection := rundown_init\<lparr>RdCount := Suc 0\<rparr>\<rparr>) x)) = y"
    by (simp add: y_def monitor_wake_def dev_upd_def WnbdDisconnectSync_def WnbdReleaseDevice_def bk d1_def)
  have "WnbdDeleteConnection opts now name (m, x) = Some (STATUS_SUCCESS, m', x')"
    by (simp add: WnbdDeleteConnection_def fd WnbdDeviceMonitorThread_def wk t y)
       (simp add: d1_def ExRundownDone_def ExRundownWait_def rundown_init_def monitor_woken_def
          WnbdDisconnectSync_def WnbdReleaseDevice_def)
  moreover have "adapter_ok x'" using removed_ok [OF aok _ rm] p(1) y by simp
  moreover have lst: "DeviceList x' = remove1 p (DeviceList x)" "\<forall>q. q \<noteq> p \<longrightarrow> Devices x' q = Devices x q"
    using rm by (simp_all add: removed_def y_def)
  moreover have "fst (WnbdFindDeviceByInstanceName name False x') = None"
    using assms(5) lst adapter_ok_distinct [OF assms(1)] by (auto simp: by_name_unacquired find_None_iff)
  ultimately show ?thesis using that td by blast
qed

text \<open>
  Removing a mapped disk that nobody else references succeeds: every queued request of
  the device is handed back exactly once, aborted, in queue order; no other request changes;
  its queue elements are freed; the name is no longer found; other devices are untouched.
\<close>

lemma delete_completes_requests:
  assumes "adapter_ok x" "find (\<lambda>p. streq (InstanceName (Properties (Devices x p))) name) (DeviceList x) = Some p"
    and "queues_ok m (Devices x p)" "RundownProtection (Devices x p) = rundown_init"
    and "\<forall>q \<in> devs x. streq (InstanceName (Properties (Devices x q))) name \<longrightarrow> q = p"
  shows "\<exists>m' x'. WnbdDeleteConnection opts now name (m, x) = Some (STATUS_SUCCESS, m', x') \<and> adapter_ok x' \<and>
    Notified m' = Notified m @ srbs_of m (queued (Devices x p)) \<and>
    (\<forall>s. Srbs m' s = (if s \<in> set (srbs_of m (queued (Devices x p))) then aborted_srb (Srbs m s) else Srbs m s)) \<and>
    set (linked (Devices x p)) \<inter> Allocated m' = {} \<and>
    fst (WnbdFindDeviceByInstanceName name False x') = None \<and>
    DeviceList x' = remove1 p (DeviceList x) \<and> (\<forall>q. q \<noteq> p \<longrightarrow> Devices x' q = Devices x q)"
  by (rule delete_runs [OF assms, of opts now]) blast


section \<open>References to the extension\<close>

text \<open>More references than devices: the surplus never goes away.\<close>

lemma removed_surplus:
  assumes "removed p x x'" "p \<in> devs x" "length (DeviceList x) < RdCount (ExtRundownProtection x)"
  shows "length (DeviceList x') < RdCount (ExtRundownProtection x')"
  using assms length_pos_if_in_set [OF assms(2)]
  by (simp add: removed_def ExReleaseRundownProtection_def length_remove1 diff_less_mono Suc_leI)

definition surplus :: "WNBD_EXTENSION \<Rightarrow> bool" where
  "surplus x \<longleftrightarrow> adapter_ok x \<and> length (DeviceList x) < RdCount (ExtRundownProtection x)"

text \<open>Steps that change neither the list nor the reference count of the extension.\<close>

lemma find_device_list:
  "find_device P a ps x = (r, x') \<Longrightarrow>
     DeviceList x' = DeviceList x \<and> ExtRundownProtection x' = ExtRundownProtection x"
  by (cases r) (auto dest: find_device_None find_device_Some split: if_splits)

lemma resize_list:
  "WnbdSetDiskSize i n x = (St, x') \<Longrightarrow>
     DeviceList x' = DeviceList x \<and> ExtRundownProtection x' = ExtRundownProtection x"
  by (auto simp: WnbdSetDiskSize_def WnbdFindDeviceByConnId_def split: prod.splits option.splits
      dest: find_device_list)

lemma adapter_step_surplus:
  assumes "adapter_step s s'" "surplus (snd s)" shows "surplus (snd s')"
proof -
  have ok: "adapter_ok (snd s')" using adapter_step_ok [OF assms(1)] assms(2) by (simp add: surplus_def)
  have "length (DeviceList (snd s')) < RdCount (ExtRundownProtection (snd s'))"
    using assms
  proof (induction rule: adapter_step.induct)
    case (monitor s s')
    from monitor(1) show ?case
    proof cases
      case (wake p x m)
      with monitor(2) show ?thesis by (simp add: surplus_def monitor_wake_def)
    next
      case (teardown p x m opts now)
      obtain m' x' where r: "monitor_teardown opts now p (m, x) = (m', x')"
        by (cases "monitor_teardown opts now p (m, x)")
      have p: "p \<in> devs x" "InquiryData (Devices x p) \<noteq> None"
        using teardown monitor(2) by (auto simp: surplus_def adapter_defs)
      from removed_surplus [OF monitor_teardown_removed [OF p(2) r] p(1)] monitor(2) teardown r
      show ?thesis by (simp add: surplus_def)
    qed
  next
    case (create env m x opts Props info St info' m' x')
    have ok: "adapter_ok x" and lt: "length (DeviceList x) < RdCount (ExtRundownProtection x)"
      using create(4) by (simp_all add: surplus_def)
    from create(3) show ?case
      by (rule WnbdCreateConnection_cases [OF ok create(1,2)])
         (use lt in \<open>auto simp: created_def rolled_back_def Let_def\<close>)
  next
    case (resize i n x St x' m)
    then show ?case using resize_list [OF resize(1)] by (simp add: surplus_def)
  next
    case (cleanup m x)
    then show ?case by (simp add: surplus_def WnbdCleanupAllDevices_def ExRundownWait_def)
  qed (auto simp: surplus_def WnbdFindDeviceByAddr_def WnbdFindDeviceByConnId_def
        WnbdFindDeviceByInstanceName_def dest: find_device_list)
  with ok show ?thesis by (simp add: surplus_def)
qed

lemma reachable_surplus:
  "adapter_step\<^sup>*\<^sup>* s s' \<Longrightarrow> surplus (snd s) \<Longrightarrow> surplus (snd s')"
  by (induction rule: rtranclp_induct) (auto intro: adapter_step_surplus)

text \<open>
  A mapping refused because its name is in use keeps its reference to the extension;
  from then on the cleanup of the adapter never returns, whatever happens to the devices.
\<close>

lemma name_collision_blocks_cleanup:
  assumes "adapter_ok x" "env_ok env m x" "ConnectionIdCounter x \<noteq> - 1"
    and "\<not> RdStarted (ExtRundownProtection x)" "opt_bool opts OptNewMappingsAllowed"
    and "q \<in> devs x" "streq (InstanceName (Properties (Devices x q))) (InstanceName Props)"
    and "WnbdCreateConnection env opts Props info (m, x) = (St, info', m', x')"
    and "adapter_step\<^sup>*\<^sup>* (m', x') (m'', x'')"
  shows "St = STATUS_OBJECT_NAME_COLLISION \<and> \<not> cleanup_returns x''"
proof -
  have St: "St = STATUS_OBJECT_NAME_COLLISION \<and> surplus x'"
    using assms(8)
  proof (rule WnbdCreateConnection_cases [OF assms(1-3)], goal_cases)
    case 2
    have hit: "find (\<lambda>p. streq (InstanceName (Properties (Devices x p))) (InstanceName Props)) (DeviceList x) \<noteq> None"
      using assms(6,7) by (auto simp: find_None_iff)
    have "St \<noteq> STATUS_INSUFFICIENT_RESOURCES"
      using assms(4,5,8) hit
      by (auto simp: WnbdCreateConnection_def ExAcquireRundownProtection_def by_name_unacquired split: option.splits)
    with 2 assms(1,5) adapter_ok_referenced [OF assms(1)] show ?thesis
      by (auto simp: surplus_def adapter_defs)
  qed (use assms(4,6,7) in auto)
  with reachable_surplus [OF assms(9)] show ?thesis
    by (auto simp: surplus_def cleanup_returns_def ExRundownDone_def)
qed

section \<open>Cleaning up the adapter\<close>

text \<open>A device nobody has told to go yet.\<close>

definition idle :: "ptr \<Rightarrow> WNBD_EXTENSION \<Rightarrow> bool" where
  "idle p x \<longleftrightarrow> p \<in> devs x \<and> \<not> DeviceRemovalEvent (Devices x p) \<and> \<not> RdStarted (RundownProtection (Devices x p))"

text \<open>One signal of the global event, and more than one idle device.\<close>

definition stuck :: "WNBD_EXTENSION \<Rightarrow> bool" where
  "stuck x \<longleftrightarrow> adapter_ok x \<and>
     (if GlobalDeviceRemovalEvent x then \<exists>p q. p \<noteq> q \<and> idle p x \<and> idle q x else \<exists>p. idle p x)"

lemma idle_wake: "idle q x \<Longrightarrow> q \<noteq> p \<Longrightarrow> idle q (monitor_wake p x)"
  by (simp add: idle_def monitor_wake_def)

lemma idle_teardown: "removed p x x' \<Longrightarrow> adapter_ok x \<Longrightarrow> idle q x \<Longrightarrow> q \<noteq> p \<Longrightarrow> idle q x'"
  by (auto simp: idle_def removed_def)

lemma monitor_step_stuck:
  assumes "monitor_step s s'" "stuck (snd s)" shows "stuck (snd s')"
  using assms(1)
proof cases
  case (wake p x m)
  have ok: "adapter_ok (snd s')" using monitor_step_ok [OF assms(1)] assms(2) by (simp add: stuck_def)
  have ev: "\<not> GlobalDeviceRemovalEvent (monitor_wake p x)" by (simp add: monitor_wake_def)
  have "\<exists>q. idle q x \<and> q \<noteq> p"
    using assms(2) wake by (auto simp: stuck_def idle_def monitor_woken_def split: if_splits)
  with idle_wake ok ev wake show ?thesis by (auto simp: stuck_def)
next
  case (teardown p x m opts now)
  obtain m' x' where r: "monitor_teardown opts now p (m, x) = (m', x')"
    by (cases "monitor_teardown opts now p (m, x)")
  have ok: "adapter_ok (snd s')" "adapter_ok x"
    using monitor_step_ok [OF assms(1)] assms(2) teardown by (simp_all add: stuck_def)
  have p: "p \<in> devs x" "InquiryData (Devices x p) \<noteq> None" using teardown ok(2) by (auto simp: adapter_defs)
  note rm = monitor_teardown_removed [OF p(2) r]
  have ni: "\<not> idle p x" using teardown by (simp add: idle_def ExRundownDone_def)
  have ev: "GlobalDeviceRemovalEvent x' = GlobalDeviceRemovalEvent x" using rm by (simp add: removed_def)
  have keep: "idle q x \<Longrightarrow> idle q x'" for q using idle_teardown [OF rm ok(2)] ni by blast
  show ?thesis
    using assms(2) teardown r ok(1) ev keep by (auto simp: stuck_def split: if_splits)
qed

text \<open>
  C37: the global removal event releases a single waiting thread. When two mapped devices have
  not been told to go individually, the monitor threads alone never bring the cleanup of the
  adapter to its end.
\<close>

theorem cleanup_hangs_with_two_devices:
  assumes "adapter_ok x" "idle p x" "idle q x" "p \<noteq> q"
    and "monitor_step\<^sup>*\<^sup>* (m, WnbdCleanupAllDevices x) (m', x')"
  shows "\<not> cleanup_returns x'"
proof -
  have st: "stuck (WnbdCleanupAllDevices x)"
    using cleanup_ok [OF assms(1)] assms(2-4)
    by (auto simp: stuck_def idle_def WnbdCleanupAllDevices_def)
  have "stuck (snd (m', x'))"
    using assms(5)
  proof (induction rule: rtranclp_induct)
    case base
    from st show ?case by simp
  qed (rule monitor_step_stuck)
  then have ok: "adapter_ok x'" and "\<exists>p. p \<in> devs x'"
    by (auto simp: stuck_def idle_def split: if_splits)
  then have "0 < length (DeviceList x')" by (auto intro: length_pos_if_in_set)
  moreover have "length (DeviceList x') \<le> RdCount (ExtRundownProtection x')" using ok by (simp add: adapter_defs)
  ultimately have "0 < RdCount (ExtRundownProtection x')" by linarith
  then show ?thesis by (simp add: cleanup_returns_def ExRundownDone_def)
qed

theorem cleanup_hangs_with_two_devices_witness:
  "\<exists>m x. DeviceList x = [1, 2] \<and> idle 1 x \<and> idle 2 x \<and>
     (\<forall>m' x'. monitor_step\<^sup>*\<^sup>* (m, WnbdCleanupAllDevices x) (m', x') \<longrightarrow> \<not> cleanup_returns x')"
proof (rule two_disks)
  fix m x
  assume h: "adapter_ok x" "DeviceList x = [1, 2]" "\<not> DeviceRemovalEvent (Devices x 1)" "\<not> DeviceRemovalEvent (Devices x 2)"
    "RundownProtection (Devices x 1) = rundown_init" "RundownProtection (Devices x 2) = rundown_init"
  have i: "idle 1 x" "idle 2 x" using h by (simp_all add: idle_def)
  from cleanup_hangs_with_two_devices [OF h(1) i] h(2) i show ?thesis by (intro exI [of _ m] exI [of _ x]) auto
qed

text \<open>A monitor thread that has been told to go and is not held up runs to its end.\<close>

lemma monitor_runs:
  assumes "adapter_ok x" "p \<in> devs x" "RdCount (RundownProtection (Devices x p)) = 0" "monitor_woken p x"
  shows "\<exists>m' x'. monitor_step\<^sup>*\<^sup>* (m, x) (m', x') \<and> adapter_ok x' \<and> DeviceList x' = remove1 p (DeviceList x) \<and>
    ExtRundownProtection x' = ExReleaseRundownProtection (ExtRundownProtection x) \<and>
    (\<forall>q. q \<noteq> p \<longrightarrow> Devices x' q = Devices x q)"
proof -
  define y where "y = (if RdStarted (RundownProtection (Devices x p)) then x else monitor_wake p x)"
  have mt: "p \<in> MonitorThreads x" using assms(1,2) by (simp add: adapter_defs)
  have st: "monitor_step\<^sup>*\<^sup>* (m, x) (m, y)"
    using monitor_step.wake [OF mt _ assms(4)] by (auto simp: y_def)
  have y: "adapter_ok y" "DeviceList y = DeviceList x" "MonitorThreads y = MonitorThreads x"
    "ExtRundownProtection y = ExtRundownProtection x" "\<forall>q. q \<noteq> p \<longrightarrow> Devices y q = Devices x q"
    "ExRundownDone (RundownProtection (Devices y p))"
    using assms(1,3) monitor_wake_ok [OF assms(1)]
    by (auto simp: y_def monitor_wake_def ExRundownDone_def ExRundownWait_def)
  obtain m' x' where t: "monitor_teardown [] 0 p (m, y) = (m', x')" by (cases "monitor_teardown [] 0 p (m, y)")
  have inq: "InquiryData (Devices y p) \<noteq> None" using y(1,2) assms(2) by (simp add: adapter_defs)
  note rm = monitor_teardown_removed [OF inq t]
  have "monitor_step (m, y) (m', x')" using monitor_step.teardown [of p y m "[]" 0] mt y t by simp
  with st have "monitor_step\<^sup>*\<^sup>* (m, x) (m', x')" by simp
  moreover have "adapter_ok x'" using removed_ok [OF y(1) _ rm] assms(2) y(2) by simp
  ultimately show ?thesis using rm y by (auto simp: removed_def intro!: exI [of _ m'] exI [of _ x'])
qed

lemma cleanup_rest:
  assumes "adapter_ok x" "RdStarted (ExtRundownProtection x)"
    "RdCount (ExtRundownProtection x) = length (DeviceList x)"
    "\<forall>p \<in> devs x. RdCount (RundownProtection (Devices x p)) = 0 \<and> DeviceRemovalEvent (Devices x p)"
  shows "\<exists>m' x'. monitor_step\<^sup>*\<^sup>* (m, x) (m', x') \<and> cleanup_returns x' \<and> DeviceList x' = []"
  using assms
proof (induction "DeviceList x" arbitrary: m x)
  case Nil
  then show ?case by (auto simp: cleanup_returns_def ExRundownDone_def intro!: exI [of _ m] exI [of _ x])
next
  case (Cons p ps)
  have p: "p \<in> devs x" using Cons.hyps(2) [symmetric] by simp
  obtain m1 x1 where s: "monitor_step\<^sup>*\<^sup>* (m, x) (m1, x1)" "adapter_ok x1" "DeviceList x1 = remove1 p (DeviceList x)"
    "ExtRundownProtection x1 = ExReleaseRundownProtection (ExtRundownProtection x)" "\<forall>q. q \<noteq> p \<longrightarrow> Devices x1 q = Devices x q"
    using monitor_runs [OF Cons.prems(1) p, of m] Cons.prems(4) p by (auto simp: monitor_woken_def)
  have l: "DeviceList x1 = ps" "distinct (p # ps)"
    using s(3) Cons.hyps(2) [symmetric] adapter_ok_distinct [OF Cons.prems(1)] by simp_all
  have "\<exists>m' x'. monitor_step\<^sup>*\<^sup>* (m1, x1) (m', x') \<and> cleanup_returns x' \<and> DeviceList x' = []"
  proof (rule Cons.hyps(1) [OF l(1) [symmetric] s(2)])
    show "\<forall>q \<in> devs x1. RdCount (RundownProtection (Devices x1 q)) = 0 \<and> DeviceRemovalEvent (Devices x1 q)"
      using Cons.prems(4) s(5) l Cons.hyps(2) [symmetric] by auto
  qed (use Cons.prems(2,3) Cons.hyps(2) [symmetric] s(4) l(1) in \<open>simp_all add: ExReleaseRundownProtection_def\<close>)
  with s(1) show ?case by (meson rtranclp_trans)
qed

text \<open>
  C36: when at most one device has not been told to go individually, no device is referenced
  and no reference to the extension was lost, the monitor threads can bring the cleanup of
  the adapter to its end, and then no device is left.
\<close>

theorem cleanup_completes:
  assumes "adapter_ok x" "RdCount (ExtRundownProtection x) = length (DeviceList x)"
    and "\<forall>p \<in> devs x. RdCount (RundownProtection (Devices x p)) = 0"
    and "\<forall>p \<in> devs x. \<forall>q \<in> devs x. p \<noteq> q \<longrightarrow> DeviceRemovalEvent (Devices x p) \<or> DeviceRemovalEvent (Devices x q)"
  shows "\<exists>m' x'. monitor_step\<^sup>*\<^sup>* (m, WnbdCleanupAllDevices x) (m', x') \<and> cleanup_returns x' \<and> DeviceList x' = []"
proof -
  let ?y = "WnbdCleanupAllDevices x"
  have y: "adapter_ok ?y" "Devices ?y = Devices x" "DeviceList ?y = DeviceList x" "GlobalDeviceRemovalEvent ?y"
    "RdStarted (ExtRundownProtection ?y)" "RdCount (ExtRundownProtection ?y) = length (DeviceList x)"
    using assms(1,2) cleanup_ok by (simp_all add: WnbdCleanupAllDevices_def ExRundownWait_def)
  show ?thesis
  proof (cases "\<forall>p \<in> devs x. DeviceRemovalEvent (Devices x p)")
    case True
    show ?thesis by (rule cleanup_rest) (use y True assms(3) in simp_all)
  next
    case False
    then obtain p where p: "p \<in> devs x" "\<not> DeviceRemovalEvent (Devices x p)" by blast
    have pr: "p \<in> devs ?y" "RdCount (RundownProtection (Devices ?y p)) = 0" "monitor_woken p ?y"
      using p y assms(3) by (auto simp: monitor_woken_def)
    obtain m1 x1 where s: "monitor_step\<^sup>*\<^sup>* (m, ?y) (m1, x1)" "adapter_ok x1" "DeviceList x1 = remove1 p (DeviceList x)"
      "ExtRundownProtection x1 = ExReleaseRundownProtection (ExtRundownProtection ?y)" "\<forall>q. q \<noteq> p \<longrightarrow> Devices x1 q = Devices x q"
      using monitor_runs [OF y(1) pr, of m] unfolding y by blast
    have "devs x1 = devs x - {p}" using s(3) adapter_ok_distinct [OF assms(1)] by simp
    then have "\<forall>q \<in> devs x1. RdCount (RundownProtection (Devices x1 q)) = 0 \<and> DeviceRemovalEvent (Devices x1 q)"
      using assms(3,4) p s(5) by auto
    then have "\<exists>m' x'. monitor_step\<^sup>*\<^sup>* (m1, x1) (m', x') \<and> cleanup_returns x' \<and> DeviceList x' = []"
      by (intro cleanup_rest [OF s(2)])
         (use s(3,4) y(5,6) p(1) in \<open>simp_all add: ExReleaseRundownProtection_def length_remove1\<close>)
    with s(1) show ?thesis by (meson rtranclp_trans)
  qed
qed

theorem cleanup_completes_witness:
  "\<exists>m x m' x'. DeviceList x = [1] \<and> monitor_step\<^sup>*\<^sup>* (m, WnbdCleanupAllDevices x) (m', x') \<and> cleanup_returns x'"
proof (rule one_disk)
  fix info m x
  assume h: "adapter_ok x" "DeviceList x = [1]" "RdCount (ExtRundownProtection x) = 1"
    "RundownProtection (Devices x 1) = rundown_init"
  have "\<exists>m' x'. monitor_step\<^sup>*\<^sup>* (m, WnbdCleanupAllDevices x) (m', x') \<and> cleanup_returns x' \<and> DeviceList x' = []"
    by (rule cleanup_completes [OF h(1)]) (use h(2-4) in auto)
  with h(2) show ?thesis by blast
qed

section \<open>After the cleanup\<close>

lemma started_stable:
  assumes "adapter_step s s'" "adapter_ok (snd s)" "RdStarted (ExtRundownProtection (snd s))"
  shows "RdStarted (ExtRundownProtection (snd s'))"
  using assms
proof (induction rule: adapter_step.induct)
  case (monitor s s')
  from monitor(1) show ?case
  proof cases
    case (wake p x m)
    with monitor(3) show ?thesis by (simp add: monitor_wake_def)
  next
    case (teardown p x m opts now)
    obtain m' x' where r: "monitor_teardown opts now p (m, x) = (m', x')"
      by (cases "monitor_teardown opts now p (m, x)")
    have "InquiryData (Devices x p) \<noteq> None" using teardown monitor(2) by (auto simp: adapter_defs)
    from monitor_teardown_removed [OF this r] monitor(3) teardown r show ?thesis
      by (simp add: removed_def ExReleaseRundownProtection_def)
  qed
next
  case (create env m x opts Props info St info' m' x')
  have ok: "adapter_ok x" using create(4) by simp
  from create(3) show ?case
    by (rule WnbdCreateConnection_cases [OF ok create(1,2)]) (use create(5) in auto)
next
  case (resize i n x St x' m)
  then show ?case using resize_list [OF resize(1)] by simp
next
  case (cleanup m x)
  then show ?case by (simp add: WnbdCleanupAllDevices_def ExRundownWait_def)
qed (auto simp: WnbdFindDeviceByAddr_def WnbdFindDeviceByConnId_def WnbdFindDeviceByInstanceName_def
      dest: find_device_list)

text \<open>
  Once the cleanup of the adapter has begun, for example when the adapter is stopped for
  a power transition, no mapping can be created any more, in any later state.
\<close>

lemma cleanup_is_final:
  assumes "adapter_ok x" "adapter_step\<^sup>*\<^sup>* (m, WnbdCleanupAllDevices x) (m', x')"
  shows "fst (WnbdCreateConnection env opts Props info (m', x')) = STATUS_SHUTDOWN_IN_PROGRESS"
proof -
  have "adapter_ok (snd (m', x')) \<and> RdStarted (ExtRundownProtection (snd (m', x')))"
    using assms(2)
  proof (induction rule: rtranclp_induct)
    case base
    then show ?case using cleanup_ok [OF assms(1)] by (simp add: WnbdCleanupAllDevices_def ExRundownWait_def)
  qed (auto intro: adapter_step_ok started_stable)
  then show ?thesis by (simp add: WnbdCreateConnection_def ExAcquireRundownProtection_def)
qed

end
