(* ===== verification/HwExtension.thy ===== *)
theory HwExtension
  imports Lifecycle
begin

text \<open>
  The entry points of the miniport: request block functions (\<^verbatim>\<open>driver/scsi_function.c\<close>)
  and the adapter callbacks (\<^verbatim>\<open>driver/scsi_driver_extensions.c\<close>), except the service
  request callback, which is in \<open>Ioctl\<close>. Structure layouts and constants are those of
  \<^verbatim>\<open>srb.h\<close>, \<^verbatim>\<open>storport.h\<close> and \<^verbatim>\<open>ntddscsi.h\<close>.
\<close>

section \<open>Request block functions\<close>

text \<open>Calls to the port driver other than the completion of one request.\<close>

datatype port_call = StorPortCompleteRequest (PcPath: u8) (PcTarget: u8) (PcLun: u8) (PcStatus: u8)

definition DrainDeviceQueues ::
  "WNBD_OPTION list \<Rightarrow> u64 \<Rightarrow> bool \<Rightarrow> ptr \<Rightarrow> astate \<Rightarrow> u8 \<times> astate" where
  "DrainDeviceQueues opts now CheckStaleConn Srb s =
     (let (m, x) = s; b = Srbs m Srb in
      case WnbdFindDeviceByAddr (SrbPathId b) (SrbTargetId b) (SrbLun b) True x of
        (None, x) \<Rightarrow> (SRB_STATUS_NO_DEVICE, m, x)
      | (Some p, x) \<Rightarrow>
          (let (m, d) = DrainDeviceQueue opts now False CheckStaleConn (m, Devices x p);
               (m, d) = DrainDeviceQueue opts now True CheckStaleConn (m, d)
           in (SRB_STATUS_SUCCESS, m, dev_upd p (\<lambda>_. WnbdReleaseDevice d) x)))"

definition WnbdAbortFunction :: "WNBD_OPTION list \<Rightarrow> u64 \<Rightarrow> ptr \<Rightarrow> astate \<Rightarrow> u8 \<times> astate" where
  "WnbdAbortFunction opts now Srb s = DrainDeviceQueues opts now True Srb s"

definition WnbdResetLogicalUnitFunction :: "WNBD_OPTION list \<Rightarrow> u64 \<Rightarrow> ptr \<Rightarrow> astate \<Rightarrow> u8 \<times> astate" where
  "WnbdResetLogicalUnitFunction opts now Srb s = DrainDeviceQueues opts now True Srb s"

definition WnbdResetDeviceFunction :: "SRB \<Rightarrow> u8 \<times> port_call" where
  "WnbdResetDeviceFunction b =
     (SRB_STATUS_SUCCESS, StorPortCompleteRequest (SrbPathId b) (SrbTargetId b) (SrbLun b) SRB_STATUS_TIMEOUT)"

text \<open>
  The result has the status, the \<^verbatim>\<open>Complete\<close> flag and the state; \<open>None\<close> is a store
  outside the data buffer. \<open>a\<close> and \<open>now\<close> are the pool's answer and the time.
\<close>

definition WnbdExecuteScsiFunction ::
  "ptr \<Rightarrow> ptr option \<Rightarrow> u64 \<Rightarrow> ptr \<Rightarrow> astate \<Rightarrow> (u8 \<times> bool \<times> astate) option" where
  "WnbdExecuteScsiFunction ext a now Srb s =
     (let (m, x) = s; b = Srbs m Srb in
      case WnbdFindDeviceByAddr (SrbPathId b) (SrbTargetId b) (SrbLun b) True x of
        (None, x) \<Rightarrow> Some (SRB_STATUS_NO_DEVICE, True, m, x)
      | (Some p, x) \<Rightarrow>
          (if HardRemoveDevice (Devices x p)
           then Some (SRB_STATUS_NO_DEVICE, True, m, dev_upd p WnbdReleaseDevice x)
           else do {
             let d = stat_upd (\<lambda>st. st\<lparr>OutstandingIOCount := OutstandingIOCount st + 1\<rparr>) (Devices x p);
             (Status, m, d) \<leftarrow> WnbdHandleSrbOperation ext Srb a now (m, d);
             if Status = STATUS_PENDING
             then Some (SRB_STATUS_PENDING, False, m, dev_upd p (\<lambda>_. WnbdReleaseDevice d) x)
             else do {
               let d = stat_upd (\<lambda>st. st\<lparr>OutstandingIOCount := OutstandingIOCount st - 1\<rparr>) d;
               Some (SrbStatus (Srbs m Srb), True, m, dev_upd p (\<lambda>_. WnbdReleaseDevice d) x)
             }
           }))"

text \<open>
  The action and flags come from the extended block if there is one. \<open>caps\<close> is the encoding
  of \<^verbatim>\<open>STOR_DEVICE_CAPABILITIES_EX\<close> with the write cache, silent install, removable
  and eject bits set.
\<close>

abbreviation (input) StorQueryCapabilities :: u32 where "StorQueryCapabilities \<equiv> 1"
abbreviation (input) SRB_PNP_FLAGS_ADAPTER_REQUEST :: u32 where "SRB_PNP_FLAGS_ADAPTER_REQUEST \<equiv> 1"

definition WnbdPNPFunction ::
  "bytes \<Rightarrow> (u32 \<times> u32) option \<Rightarrow> u32 \<times> u32 \<Rightarrow> SRB \<Rightarrow> (u8 \<times> SRB) option" where
  "WnbdPNPFunction caps SrbExPnp SrbPnp Srb =
     (let (PnPAction, SrbPnPFlags) = (case SrbExPnp of Some e \<Rightarrow> e | None \<Rightarrow> SrbPnp)
      in if PnPAction = StorQueryCapabilities \<and> SrbPnPFlags AND SRB_PNP_FLAGS_ADAPTER_REQUEST = 0 \<and>
            length caps \<le> unat (DataTransferLength Srb)
         then do { Srb \<leftarrow> put [(0, caps)] Srb; Some (SRB_STATUS_SUCCESS, Srb) }
         else Some (SRB_STATUS_INVALID_REQUEST, Srb))"

section \<open>Firmware requests\<close>

text \<open>
  \<^verbatim>\<open>SRB_IO_CONTROL\<close> has 28 bytes (control code at 16, return code at 20), the
  \<^verbatim>\<open>FIRMWARE_REQUEST_BLOCK\<close> behind it 24 (version, size, function, flags, offset
  and length of the data, four bytes each), \<^verbatim>\<open>STORAGE_FIRMWARE_INFO_V2\<close> and a slot
  24 bytes each.
\<close>

abbreviation (input) IOCTL_SCSI_MINIPORT_FIRMWARE :: u32 where "IOCTL_SCSI_MINIPORT_FIRMWARE \<equiv> 0x1B0780"
abbreviation (input) FIRMWARE_FUNCTION_GET_INFO :: u32 where "FIRMWARE_FUNCTION_GET_INFO \<equiv> 1"
abbreviation (input) FIRMWARE_STATUS_SUCCESS :: u32 where "FIRMWARE_STATUS_SUCCESS \<equiv> 0"
abbreviation (input) FIRMWARE_STATUS_INVALID_PARAMETER :: u32 where "FIRMWARE_STATUS_INVALID_PARAMETER \<equiv> 3"
abbreviation (input) FIRMWARE_STATUS_OUTPUT_BUFFER_TOO_SMALL :: u32 where
  "FIRMWARE_STATUS_OUTPUT_BUFFER_TOO_SMALL \<equiv> 5"

definition ulong_at :: "bytes \<Rightarrow> nat \<Rightarrow> u32" where
  "ulong_at b off = le_word (cdb_field b off 4)"

definition return_code :: "u32 \<Rightarrow> nat \<times> bytes" where
  "return_code c = (20, le_bytes 4 c)"

text \<open>The status is stored in the block.\<close>

definition fw_done :: "u8 \<Rightarrow> SRB \<Rightarrow> SRB" where
  "fw_done st Srb = Srb\<lparr>SrbStatus := st\<rparr>"

definition WnbdFirmwareInfo :: "SRB \<Rightarrow> SRB option" where
  "WnbdFirmwareInfo Srb =
     do {
       b \<leftarrow> DataBuffer Srb;
       let len = unat (ulong_at b 48);
       let off = unat (ulong_at b 44);
       if len < 24 \<or> ulong_at b off \<noteq> 2 \<or> ulong_at b (off + 4) < 24
       then do { Srb \<leftarrow> put [return_code FIRMWARE_STATUS_INVALID_PARAMETER] Srb;
                 Some (fw_done SRB_STATUS_BAD_SRB_BLOCK_LENGTH Srb) }
       else do {
         Srb \<leftarrow> put [(off, replicate len 0),
                     (off, le_bytes 4 (2 :: u32) @ le_bytes 4 (24 :: u32) @ [1, 1, 0, 0xFF, 0]),
                     (off + 16, le_bytes 4 (4096 :: u32) @ le_bytes 4 (8096 :: u32))] Srb;
         if 48 \<le> len
         then do { Srb \<leftarrow> put [(off + 24, [0, 0]), (off + 32, map of_char ''01234567''),
                               return_code FIRMWARE_STATUS_SUCCESS] Srb;
                   Some (fw_done SRB_STATUS_SUCCESS Srb) }
         else do { Srb \<leftarrow> put [(48, le_bytes 4 (48 :: u32)),
                               return_code FIRMWARE_STATUS_OUTPUT_BUFFER_TOO_SMALL] Srb;
                   Some (fw_done SRB_STATUS_SUCCESS Srb) }
       }
     }"

definition WnbdFirmareIOCTL :: "SRB \<Rightarrow> SRB option" where
  "WnbdFirmareIOCTL Srb =
     do {
       b \<leftarrow> DataBuffer Srb;
       let BufferLength = unat (DataTransferLength Srb);
       let off = unat (ulong_at b 44);
       let len = unat (ulong_at b 48);
       if BufferLength < 52 then Some (fw_done SRB_STATUS_BAD_SRB_BLOCK_LENGTH Srb)
       else if BufferLength < off + len \<or> ulong_at b 28 < 1 \<or> off < 56
       then do { Srb \<leftarrow> put [return_code FIRMWARE_STATUS_INVALID_PARAMETER] Srb;
                 Some (fw_done SRB_STATUS_BAD_SRB_BLOCK_LENGTH Srb) }
       else if ulong_at b 36 = FIRMWARE_FUNCTION_GET_INFO then WnbdFirmwareInfo Srb
       else do { Srb \<leftarrow> put [return_code FIRMWARE_STATUS_SUCCESS] Srb;
                 Some (fw_done SRB_STATUS_SUCCESS Srb) }
     }"

definition WnbdProcessSrbIOCTL :: "SRB \<Rightarrow> (u8 \<times> SRB) option" where
  "WnbdProcessSrbIOCTL Srb =
     do {
       b \<leftarrow> DataBuffer Srb;
       Srb \<leftarrow> (if ulong_at b 16 = IOCTL_SCSI_MINIPORT_FIRMWARE then WnbdFirmareIOCTL Srb
               else do { Srb \<leftarrow> put [return_code FIRMWARE_STATUS_INVALID_PARAMETER] Srb;
                         Some (fw_done SRB_STATUS_BAD_SRB_BLOCK_LENGTH Srb) });
       Some (SrbStatus Srb, Srb)
     }"


section \<open>Starting a request\<close>

abbreviation (input) SRB_FUNCTION_EXECUTE_SCSI :: u8 where "SRB_FUNCTION_EXECUTE_SCSI \<equiv> 0x00"
abbreviation (input) SRB_FUNCTION_IO_CONTROL :: u8 where "SRB_FUNCTION_IO_CONTROL \<equiv> 0x02"
abbreviation (input) SRB_FUNCTION_SHUTDOWN :: u8 where "SRB_FUNCTION_SHUTDOWN \<equiv> 0x07"
abbreviation (input) SRB_FUNCTION_FLUSH :: u8 where "SRB_FUNCTION_FLUSH \<equiv> 0x08"
abbreviation (input) SRB_FUNCTION_ABORT_COMMAND :: u8 where "SRB_FUNCTION_ABORT_COMMAND \<equiv> 0x10"
abbreviation (input) SRB_FUNCTION_RESET_DEVICE :: u8 where "SRB_FUNCTION_RESET_DEVICE \<equiv> 0x13"
abbreviation (input) SRB_FUNCTION_RESET_LOGICAL_UNIT :: u8 where "SRB_FUNCTION_RESET_LOGICAL_UNIT \<equiv> 0x20"
abbreviation (input) SRB_FUNCTION_PNP :: u8 where "SRB_FUNCTION_PNP \<equiv> 0x25"

text \<open>What a request finds in its environment: the pool's answer, the time, the plug and play
  data of the block.\<close>

record io_env =
  IoPool :: "ptr option"
  IoTime :: u64
  IoCaps :: bytes
  IoPnpEx :: "(u32 \<times> u32) option"
  IoPnp :: "u32 \<times> u32"

text \<open>A handler that only looks at the block.\<close>

definition srb_only :: "ptr \<Rightarrow> (SRB \<Rightarrow> (u8 \<times> SRB) option) \<Rightarrow> astate \<Rightarrow> (u8 \<times> astate) option" where
  "srb_only Srb h s =
     (let (m, x) = s in do { (st, b) \<leftarrow> h (Srbs m Srb); Some (st, srb_upd Srb (\<lambda>_. b) m, x) })"

text \<open>
  The completion at the end of the callback: the status is stored and the request handed
  back. The result of the callback has the calls to the port driver and the state.
\<close>

definition start_complete :: "ptr \<Rightarrow> u8 \<times> astate \<Rightarrow> astate" where
  "start_complete Srb r =
     (let (st, m, x) = r; m = set_status Srb st m in (m\<lparr>Notified := Notified m @ [Srb]\<rparr>, x))"

definition WnbdHwStartIo ::
  "io_env \<Rightarrow> WNBD_OPTION list \<Rightarrow> ptr \<Rightarrow> ptr \<Rightarrow> astate \<Rightarrow> (port_call list \<times> astate) option" where
  "WnbdHwStartIo env opts ext Srb s =
     (let f = SrbFunction (Srbs (fst s) Srb);
          fin = map_option (\<lambda>r. ([], start_complete Srb r))
      in if f = SRB_FUNCTION_EXECUTE_SCSI then
           do { (st, Complete, s) \<leftarrow> WnbdExecuteScsiFunction ext (IoPool env) (IoTime env) Srb s;
                Some ([], if Complete then start_complete Srb (st, s) else s) }
         else if f = SRB_FUNCTION_RESET_LOGICAL_UNIT then
           fin (Some (WnbdResetLogicalUnitFunction opts (IoTime env) Srb s))
         else if f = SRB_FUNCTION_RESET_DEVICE then
           (let (st, c) = WnbdResetDeviceFunction (Srbs (fst s) Srb) in Some ([c], start_complete Srb (st, s)))
         else if f = SRB_FUNCTION_ABORT_COMMAND then fin (Some (WnbdAbortFunction opts (IoTime env) Srb s))
         else if f = SRB_FUNCTION_PNP then
           fin (srb_only Srb (WnbdPNPFunction (IoCaps env) (IoPnpEx env) (IoPnp env)) s)
         else if f = SRB_FUNCTION_IO_CONTROL then fin (srb_only Srb WnbdProcessSrbIOCTL s)
         else if f \<in> {SRB_FUNCTION_FLUSH, SRB_FUNCTION_SHUTDOWN} then fin (Some (SRB_STATUS_SUCCESS, s))
         else fin (Some (SRB_STATUS_INVALID_REQUEST, s)))"

section \<open>Adapter callbacks\<close>

abbreviation (input) ScsiQuerySupportedControlTypes :: nat where "ScsiQuerySupportedControlTypes \<equiv> 0"
abbreviation (input) ScsiStopAdapter :: nat where "ScsiStopAdapter \<equiv> 1"
abbreviation (input) ScsiRestartAdapter :: nat where "ScsiRestartAdapter \<equiv> 2"
abbreviation (input) ScsiSetBootConfig :: nat where "ScsiSetBootConfig \<equiv> 3"
abbreviation (input) ScsiSetRunningConfig :: nat where "ScsiSetRunningConfig \<equiv> 4"

text \<open>\<^verbatim>\<open>SupportedTypeList\<close> has \<^verbatim>\<open>MaxControlType\<close> entries.\<close>

fun support_from :: "nat \<Rightarrow> bool list \<Rightarrow> bool list" where
  "support_from i [] = []"
| "support_from i (b # bs) =
     (if i \<in> {ScsiQuerySupportedControlTypes, ScsiStopAdapter, ScsiRestartAdapter, ScsiSetBootConfig,
              ScsiSetRunningConfig} then True else b) # support_from (Suc i) bs"

definition WnbdScsiAdapterSupportControlTypes :: "bool list \<Rightarrow> bool list" where
  "WnbdScsiAdapterSupportControlTypes l = support_from 0 l"

text \<open>Up to the wait of the cleanup; the parameters are the support list.\<close>

definition WnbdHwAdapterControl ::
  "nat \<Rightarrow> bool list \<Rightarrow> WNBD_EXTENSION \<Rightarrow> bool list \<times> WNBD_EXTENSION" where
  "WnbdHwAdapterControl ControlType Parameters x =
     (if ControlType = ScsiQuerySupportedControlTypes
      then (WnbdScsiAdapterSupportControlTypes Parameters, x)
      else if ControlType = ScsiStopAdapter then (Parameters, WnbdCleanupAllDevices x)
      else (Parameters, x))"

record port_configuration =
  MaximumTransferLength :: u32
  MaxNumberOfIO :: u32
  MaxIOsPerLun :: u32
  InitialLunQueueDepth :: u32
  NumberOfBuses :: nat
  MaximumNumberOfTargets :: nat
  MaximumNumberOfLogicalUnits :: nat

definition io_limit :: "u64 \<Rightarrow> u32 \<Rightarrow> u64 \<Rightarrow> u32" where
  "io_limit v absmax dflt =
     (let n = (ucast v :: u32) in if 0 < n \<and> n \<le> absmax then n else ucast dflt)"

definition adapter_configuration :: "WNBD_OPTION list \<Rightarrow> port_configuration" where
  "adapter_configuration opts =
     (let perLun = io_limit (opt_int64 opts OptMaxIOReqPerLun) WNBD_ABS_MAX_IO_REQ_PER_LUN
                     WNBD_DEFAULT_MAX_IO_REQ_PER_LUN
      in \<lparr>MaximumTransferLength = WNBD_DEFAULT_MAX_TRANSFER_LENGTH,
          MaxNumberOfIO = io_limit (opt_int64 opts OptMaxIOReqPerAdapter) WNBD_ABS_MAX_IO_REQ_PER_ADAPTER
            WNBD_DEFAULT_MAX_IO_REQ_PER_ADAPTER,
          MaxIOsPerLun = perLun, InitialLunQueueDepth = perLun, NumberOfBuses = 1,
          MaximumNumberOfTargets = WNBD_MAX_TARGETS_PER_BUS,
          MaximumNumberOfLogicalUnits = WNBD_MAX_LUNS_PER_TARGET\<rparr>)"

text \<open>
  The statuses of \<^verbatim>\<open>ExInitializeResourceLite\<close> and
  \<^verbatim>\<open>IoRegisterDeviceInterface\<close> are arguments; the result is whether the adapter was
  found, its configuration and the extension.
\<close>

definition WnbdHwFindAdapter ::
  "u32 \<Rightarrow> u32 \<Rightarrow> WNBD_OPTION list \<Rightarrow> WNBD_EXTENSION \<Rightarrow> bool \<times> port_configuration \<times> WNBD_EXTENSION" where
  "WnbdHwFindAdapter lockStatus regStatus opts x =
     (let cfg = adapter_configuration opts in
      if \<not> NT_SUCCESS lockStatus then (False, cfg, x)
      else (let x = x\<lparr>DeviceList := [], ConnIdHashBuckets := replicate WNBD_CONN_ID_HASH_BUCKETS [],
                      GlobalDeviceRemovalEvent := False, ExtRundownProtection := rundown_init\<rparr>
            in if \<not> NT_SUCCESS regStatus then (False, cfg, x) else (True, cfg, WnbdInitScsiIds x)))"

definition WnbdHwFreeAdapterResources :: "WNBD_EXTENSION \<Rightarrow> WNBD_EXTENSION" where
  "WnbdHwFreeAdapterResources x = WnbdCleanupAllDevices x"

definition WnbdHwInitialize :: "u32 \<Rightarrow> bool" where
  "WnbdHwInitialize Status = NT_SUCCESS Status"

definition WnbdHwResetBus :: "u32 \<Rightarrow> bool \<times> port_call" where
  "WnbdHwResetBus PathId = (True, StorPortCompleteRequest (ucast PathId) 0xFF 0xFF SRB_STATUS_BUS_RESET)"

end
