(* ===== verification/HwProps.thy ===== *)
theory HwProps
  imports HwExtension
begin

text \<open>
  Properties of the miniport entry points: every request block is completed or queued exactly
  once, references are balanced, firmware requests stay in their buffer, and the adapter
  limits are in range whatever the options say.
\<close>

section \<open>Commands\<close>

text \<open>A command that was answered or refused: the queues are as before.\<close>

definition quiet :: "ptr \<Rightarrow> dstate \<Rightarrow> dstate \<Rightarrow> bool" where
  "quiet Srb s s' \<longleftrightarrow>
     (let (m, d) = s; (m', d') = s' in
      queues_ok m' d' \<and> PendingReqListHead d' = PendingReqListHead d \<and>
      SubmittedReqListHead d' = SubmittedReqListHead d \<and> Notified m' = Notified m \<and>
      (\<forall>p. p \<noteq> Srb \<longrightarrow> Srbs m' p = Srbs m p) \<and> Elems m' = Elems m \<and>
      Stats d' = (Stats d)\<lparr>LastReceivedReqTimestamp := LastReceivedReqTimestamp (Stats d'),
        TotalReceivedIORequests := TotalReceivedIORequests (Stats d')\<rparr>)"

lemma refused_quiet: "refused Srb (m, d) s' \<Longrightarrow> quiet Srb (m, d) s'"
  by (cases s') (simp add: refused_def quiet_def)

lemma quiet_srb: "queues_ok m d \<Longrightarrow> quiet Srb (m, d) (srb_upd Srb f m, d)"
  by (simp add: quiet_def)

lemma quiet_set_status: "queues_ok m d \<Longrightarrow> quiet Srb (m, d) (set_status Srb st m, d)"
  by (simp add: set_status_def quiet_srb)

lemma quiet_answer:
  assumes "queues_ok m d" "answer Srb h (m, d) = Some (St, s')"
  shows "St = STATUS_SUCCESS \<and> quiet Srb (m, d) s'"
  using assms by (auto simp: answer_def bind_eq_Some_conv intro!: quiet_srb)

lemma quiet_after_status:
  "quiet Srb (set_status Srb st m, d) s' \<Longrightarrow> quiet Srb (m, d) s'"
  by (cases s') (simp add: quiet_def set_status_def)

lemma queues_ok_set_status [simp]: "queues_ok (set_status Srb st m) d = queues_ok m d"
  by (simp add: set_status_def)

lemma WnbdHandleSrbOperation_ok:
  assumes "queues_ok m d" "fresh a m"
    and "WnbdHandleSrbOperation ext Srb a now (m, d) = Some (St, s')"
  shows "St = STATUS_PENDING \<and> (\<exists>e lbn len. pended e Srb lbn len (set_status Srb SRB_STATUS_ABORTED m, d) s') \<or>
    St \<noteq> STATUS_PENDING \<and> quiet Srb (m, d) s'"
proof (cases "SrbCdb (Srbs m Srb)")
  case None
  with assms(1,3) show ?thesis by (auto simp: WnbdHandleSrbOperation_def intro!: quiet_set_status)
next
  case (Some Cdb)
  let ?op = "cdb_byte Cdb 0" and ?m = "set_status Srb SRB_STATUS_ABORTED m"
  let ?pend = "?op \<in> block_ops \<union> {SCSIOP_PERSISTENT_RESERVE_IN, SCSIOP_PERSISTENT_RESERVE_OUT, SCSIOP_UNMAP}"
  have q: "queues_ok ?m d" "fresh a ?m" using assms(1,2) by (simp_all add: fresh_def set_status_def split: option.splits)
  note ans = quiet_answer [OF assms(1)]
  consider (gone) "HardRemoveDevice d" | (pend) "\<not> HardRemoveDevice d" ?pend | (other) "\<not> HardRemoveDevice d" "\<not> ?pend"
    by blast
  then show ?thesis
  proof cases
    case gone
    with Some assms(1,3) show ?thesis by (auto simp: WnbdHandleSrbOperation_def intro!: quiet_set_status)
  next
    case pend
    then have "WnbdPendOperation ext Srb a now (?m, d) = (St, s')"
      using Some assms(3) by (simp add: WnbdHandleSrbOperation_def)
    from WnbdPendOperation_ok [OF q this] show ?thesis
      by (auto dest!: refused_quiet quiet_after_status)
  next
    case other
    then have "\<exists>h. answer Srb h (m, d) = Some (St, s')"
      using Some assms(3) by (auto simp: WnbdHandleSrbOperation_def Let_def split: if_splits)
    with ans show ?thesis by fastforce
  qed
qed

text \<open>A command does not touch the identity or the references of its device.\<close>

lemma pend_element_frame:
  "WnbdPendElement ext Srb lbn len fua a now (m, d) = (St, m', d') \<Longrightarrow>
     same_identity d d' \<and> RundownProtection d' = RundownProtection d"
  by (cases a) (auto simp: WnbdPendElement_def WnbdAllocSrbElement_def Let_def same_identity_def stat_upd_def
      split: list.splits)

lemma pend_operation_frame:
  "WnbdPendOperation ext Srb a now (m, d) = (St, m', d') \<Longrightarrow>
     same_identity d d' \<and> RundownProtection d' = RundownProtection d"
  unfolding WnbdPendOperation_def pend_block_def pend_unmap_def Let_def prod.case
  by (auto dest: pend_element_frame split: option.splits if_splits prod.splits)

lemma handle_frame:
  assumes "WnbdHandleSrbOperation ext Srb a now (m, d) = Some (St, m', d')"
  shows "same_identity d d' \<and> RundownProtection d' = RundownProtection d"
proof -
  have ans: "answer Srb h (m, d) = Some (St, m', d') \<Longrightarrow> d' = d" for h
    by (auto simp: answer_def bind_eq_Some_conv)
  show ?thesis
    using assms unfolding WnbdHandleSrbOperation_def Let_def prod.case
    by (auto dest: ans pend_operation_frame split: option.splits if_splits)
qed


text \<open>The device an address names, with a reference taken and given back.\<close>

definition mapped_at :: "SRB \<Rightarrow> ptr \<Rightarrow> WNBD_EXTENSION \<Rightarrow> bool" where
  "mapped_at b p x \<longleftrightarrow>
     fst (WnbdFindDeviceByAddr (SrbPathId b) (SrbTargetId b) (SrbLun b) False x) = Some p \<and>
     \<not> RdStarted (RundownProtection (Devices x p))"

definition acquired :: "WNBD_DISK_DEVICE \<Rightarrow> WNBD_DISK_DEVICE" where
  "acquired d = d\<lparr>RundownProtection := (RundownProtection d)\<lparr>RdCount := RdCount (RundownProtection d) + 1\<rparr>\<rparr>"

lemma acquired_sel [simp]:
  "PendingReqListHead (acquired d) = PendingReqListHead d" "SubmittedReqListHead (acquired d) = SubmittedReqListHead d"
  "SubmittedReqHashBuckets (acquired d) = SubmittedReqHashBuckets d" "SrbElementPool (acquired d) = SrbElementPool d"
  "DeviceEvent (acquired d) = DeviceEvent d" "Stats (acquired d) = Stats d"
  "HardRemoveDevice (acquired d) = HardRemoveDevice d" "Properties (acquired d) = Properties d"
  by (simp_all add: acquired_def)

lemma queues_ok_acquired [simp]: "queues_ok m (acquired d) = queues_ok m d"
  by (simp add: queue_defs)

lemma released_sel [simp]:
  "PendingReqListHead (WnbdReleaseDevice d) = PendingReqListHead d"
  "SubmittedReqListHead (WnbdReleaseDevice d) = SubmittedReqListHead d"
  "SubmittedReqHashBuckets (WnbdReleaseDevice d) = SubmittedReqHashBuckets d"
  "SrbElementPool (WnbdReleaseDevice d) = SrbElementPool d" "DeviceEvent (WnbdReleaseDevice d) = DeviceEvent d"
  "Stats (WnbdReleaseDevice d) = Stats d" "Properties (WnbdReleaseDevice d) = Properties d"
  by (simp_all add: WnbdReleaseDevice_def)

lemma queues_ok_released [simp]: "queues_ok m (WnbdReleaseDevice d) = queues_ok m d"
  by (simp add: queue_defs)

lemma release_acquired:
  "RundownProtection d' = RundownProtection (acquired d) \<Longrightarrow>
     RundownProtection (WnbdReleaseDevice d') = RundownProtection d"
  by (simp add: WnbdReleaseDevice_def acquired_def ExReleaseRundownProtection_def)

lemma mapped_at_found:
  assumes "mapped_at b p x"
  shows "WnbdFindDeviceByAddr (SrbPathId b) (SrbTargetId b) (SrbLun b) True x =
    (Some p, dev_upd p acquired x)"
  using assms
  by (auto simp: mapped_at_def WnbdFindDeviceByAddr_def find_device_def WnbdAcquireDevice_def
      ExAcquireRundownProtection_def acquired_def dev_upd_def split: option.splits)

section \<open>Aborts and resets\<close>

lemma DrainDeviceQueues_ok:
  assumes "mapped_at (Srbs m Srb) p x" "queues_ok m (Devices x p)"
    and "DrainDeviceQueues opts now stale Srb (m, x) = (st, m', x')"
  shows "st = SRB_STATUS_SUCCESS \<and> queued (Devices x' p) = [] \<and> queues_ok m' (Devices x' p) \<and>
    (stats_ok (Devices x p) \<longrightarrow> stats_ok (Devices x' p)) \<and> Notified m' = Notified m @ srbs_of m (queued (Devices x p)) \<and>
    (\<forall>s. Srbs m' s = (if s \<in> set (srbs_of m (queued (Devices x p))) then aborted_srb (Srbs m s) else Srbs m s)) \<and>
    RundownProtection (Devices x' p) = RundownProtection (Devices x p) \<and>
    (\<forall>q. q \<noteq> p \<longrightarrow> Devices x' q = Devices x q) \<and> DeviceList x' = DeviceList x"
proof -
  let ?d = "acquired (Devices x p)"
  have q0: "queues_ok m ?d" "stats_ok (Devices x p) \<longrightarrow> stats_ok ?d"
    using assms(2) by (simp_all add: stats_ok_def queued_def)
  obtain m1 d1 where D1: "DrainDeviceQueue opts now False stale (m, ?d) = (m1, d1)"
    by (cases "DrainDeviceQueue opts now False stale (m, ?d)")
  obtain m2 d2 where D2: "DrainDeviceQueue opts now True stale (m1, d1) = (m2, d2)"
    by (cases "DrainDeviceQueue opts now True stale (m1, d1)")
  note k1 = DrainDeviceQueue_ok [OF q0(1) D1]
  note k2 = DrainDeviceQueue_ok [OF k1(1) D2]
  have r: "st = SRB_STATUS_SUCCESS" "m' = m2" "x' = dev_upd p (\<lambda>_. WnbdReleaseDevice d2) (dev_upd p acquired x)"
    using assms(3) mapped_at_found [OF assms(1)] D1 D2 by (auto simp: DrainDeviceQueues_def Let_def)
  have d': "Devices x' p = WnbdReleaseDevice d2" by (simp add: r)
  have st: "stats_ok (Devices x p) \<longrightarrow> stats_ok d2"
    using DrainDeviceQueue_stats_ok [OF k1(1) DrainDeviceQueue_stats_ok [OF q0(1) _ D1] D2] q0(2) by simp
  have rd: "RundownProtection d2 = RundownProtection ?d"
    using drain_identity(3) [OF D1] drain_identity(3) [OF D2] by simp
  have sub: "SubmittedReqListHead d1 = SubmittedReqListHead (Devices x p)" using k1(3) by simp
  have "srbs_of m1 (SubmittedReqListHead (Devices x p)) = srbs_of m (SubmittedReqListHead (Devices x p))"
    using q0(1) by (intro srbs_of_cong) (subst k1(6), auto simp: queue_defs)
  then have sr: "srbs_of m (queued (Devices x p)) =
      srbs_of m (PendingReqListHead (Devices x p)) @ srbs_of m1 (SubmittedReqListHead d1)"
    by (simp add: queued_def sub srbs_of_def)
  have e: "PendingReqListHead d2 = []" "SubmittedReqListHead d2 = []" using k1(2) k2(2,3) by simp_all
  have "Notified m' = Notified m @ srbs_of m (queued (Devices x p))"
    using k1(4) k2(4) by (simp add: r(2) sr)
  moreover have "\<forall>s. Srbs m' s = (if s \<in> set (srbs_of m (queued (Devices x p))) then aborted_srb (Srbs m s) else Srbs m s)"
    using k1(7) k2(7) by (auto simp: r(2) sr)
  moreover have "queued (Devices x' p) = []" "queues_ok m' (Devices x' p)"
    "stats_ok (Devices x p) \<longrightarrow> stats_ok (Devices x' p)"
    using e k2(1) st by (simp_all add: d' r(2) queued_def stats_ok_def)
  moreover have "RundownProtection (Devices x' p) = RundownProtection (Devices x p)"
    using release_acquired [OF rd] by (simp add: d')
  ultimately show ?thesis using r(1) by (simp add: r(3))
qed

text \<open>
  An abort or a reset of a logical unit hands back every pending and submitted request of
  the addressed device exactly once, aborted, leaves its queues empty and consistent, gives
  its reference back and touches no other device.
\<close>

lemma abort_hands_back_all:
  assumes "mapped_at (Srbs m Srb) p x" "queues_ok m (Devices x p)" "stats_ok (Devices x p)"
    and "WnbdAbortFunction opts now Srb (m, x) = (st, m', x') \<or>
      WnbdResetLogicalUnitFunction opts now Srb (m, x) = (st, m', x')"
  shows "st = SRB_STATUS_SUCCESS \<and> queued (Devices x' p) = [] \<and> queues_ok m' (Devices x' p) \<and>
    stats_ok (Devices x' p) \<and> Notified m' = Notified m @ srbs_of m (queued (Devices x p)) \<and>
    (\<forall>s. Srbs m' s = (if s \<in> set (srbs_of m (queued (Devices x p))) then aborted_srb (Srbs m s) else Srbs m s)) \<and>
    RundownProtection (Devices x' p) = RundownProtection (Devices x p) \<and>
    (\<forall>q. q \<noteq> p \<longrightarrow> Devices x' q = Devices x q) \<and> DeviceList x' = DeviceList x"
  using DrainDeviceQueues_ok [OF assms(1,2)] assms(3,4)
  unfolding WnbdAbortFunction_def WnbdResetLogicalUnitFunction_def by blast

section \<open>Starting requests\<close>

text \<open>What queueing and answering do to the counters the accounting is about.\<close>

lemma pended_gauges:
  assumes "pended e Srb lbn len (m, d) (m', d')"
  shows "OutstandingIOCount (Stats d') = OutstandingIOCount (Stats d)"
    "UnsubmittedIORequests (Stats d') = UnsubmittedIORequests (Stats d) + 1"
    "AbortedUnsubmittedIORequests (Stats d') = AbortedUnsubmittedIORequests (Stats d)"
    "PendingSubmittedIORequests (Stats d') = PendingSubmittedIORequests (Stats d)"
    "AbortedSubmittedIORequests (Stats d') = AbortedSubmittedIORequests (Stats d)"
proof -
  have u: "UnsubmittedIORequests (Stats d') = UnsubmittedIORequests (Stats d) + 1"
    and e: "Stats d' = (Stats d)\<lparr>LastReceivedReqTimestamp := LastReceivedReqTimestamp (Stats d'),
      TotalReceivedIORequests := TotalReceivedIORequests (Stats d'),
      UnsubmittedIORequests := UnsubmittedIORequests (Stats d')\<rparr>"
    using assms unfolding pended_def Let_def prod.case by blast+
  show "UnsubmittedIORequests (Stats d') = UnsubmittedIORequests (Stats d) + 1" by (rule u)
  show "OutstandingIOCount (Stats d') = OutstandingIOCount (Stats d)"
    "AbortedUnsubmittedIORequests (Stats d') = AbortedUnsubmittedIORequests (Stats d)"
    "PendingSubmittedIORequests (Stats d') = PendingSubmittedIORequests (Stats d)"
    "AbortedSubmittedIORequests (Stats d') = AbortedSubmittedIORequests (Stats d)"
    by (subst e, simp)+
qed

lemma quiet_gauges:
  assumes "quiet Srb (m, d) (m', d')"
  shows "OutstandingIOCount (Stats d') = OutstandingIOCount (Stats d)"
    "UnsubmittedIORequests (Stats d') = UnsubmittedIORequests (Stats d)"
    "AbortedUnsubmittedIORequests (Stats d') = AbortedUnsubmittedIORequests (Stats d)"
    "PendingSubmittedIORequests (Stats d') = PendingSubmittedIORequests (Stats d)"
    "AbortedSubmittedIORequests (Stats d') = AbortedSubmittedIORequests (Stats d)"
proof -
  have e: "Stats d' = (Stats d)\<lparr>LastReceivedReqTimestamp := LastReceivedReqTimestamp (Stats d'),
      TotalReceivedIORequests := TotalReceivedIORequests (Stats d')\<rparr>"
    using assms unfolding quiet_def Let_def prod.case by blast
  show "OutstandingIOCount (Stats d') = OutstandingIOCount (Stats d)"
    "UnsubmittedIORequests (Stats d') = UnsubmittedIORequests (Stats d)"
    "AbortedUnsubmittedIORequests (Stats d') = AbortedUnsubmittedIORequests (Stats d)"
    "PendingSubmittedIORequests (Stats d') = PendingSubmittedIORequests (Stats d)"
    "AbortedSubmittedIORequests (Stats d') = AbortedSubmittedIORequests (Stats d)"
    by (subst e, simp)+
qed

text \<open>The outcome of a command on its device.\<close>

definition executed :: "ptr \<Rightarrow> bool \<Rightarrow> dstate \<Rightarrow> dstate \<Rightarrow> bool" where
  "executed Srb Complete s s' \<longleftrightarrow>
     (let (m, d) = s; (m', d') = s' in
      queues_ok m' d' \<and> (stats_ok d \<longrightarrow> stats_ok d') \<and> Notified m' = Notified m \<and>
      RundownProtection d' = RundownProtection d \<and> (\<forall>e \<in> set (queued d). Elems m' e = Elems m e) \<and>
      (if Complete then queued d' = queued d
       else \<exists>e. PendingReqListHead d' = PendingReqListHead d @ [e] \<and>
                SubmittedReqListHead d' = SubmittedReqListHead d \<and> ElemSrb (Elems m' e) = Srb))"

definition count_io :: "u64 \<Rightarrow> WNBD_DISK_DEVICE \<Rightarrow> WNBD_DISK_DEVICE" where
  "count_io n d = stat_upd (\<lambda>st. st\<lparr>OutstandingIOCount := OutstandingIOCount st + n\<rparr>) d"

lemma handled_executed:
  assumes "queues_ok m d" "fresh a m"
    and "WnbdHandleSrbOperation ext Srb a now (m, count_io 1 (acquired d)) = Some (St, m', d2)"
  shows "executed Srb (St \<noteq> STATUS_PENDING) (m, d)
    (m', WnbdReleaseDevice (if St = STATUS_PENDING then d2 else count_io (- 1) d2))"
proof -
  let ?d = "count_io 1 (acquired d)"
  have q: "queues_ok m ?d" using assms(1) by (simp add: count_io_def)
  have rd: "RundownProtection d2 = RundownProtection (acquired d)"
    using handle_frame [OF assms(3)] by (simp add: count_io_def)
  have rel: "RundownProtection (WnbdReleaseDevice (if St = STATUS_PENDING then d2 else count_io (- 1) d2)) = RundownProtection d"
    by (rule release_acquired) (simp add: rd count_io_def)
  from WnbdHandleSrbOperation_ok [OF q assms(2,3)] show ?thesis
  proof (elim disjE conjE exE)
    fix e lbn len
    assume h: "St = STATUS_PENDING" "pended e Srb lbn len (set_status Srb SRB_STATUS_ABORTED m, ?d) (m', d2)"
    have c: "queues_ok m' d2" "PendingReqListHead d2 = PendingReqListHead d @ [e]"
      "SubmittedReqListHead d2 = SubmittedReqListHead d" "Notified m' = Notified m" "ElemSrb (Elems m' e) = Srb"
      "\<forall>e \<in> set (queued d). Elems m' e = Elems m e"
      using h(2) by (simp_all add: pended_def Let_def count_io_def set_status_def queued_def)
    have "stats_ok d \<longrightarrow> stats_ok d2" using pended_gauges [OF h(2)] c
      by (simp add: stats_ok_def queued_def count_io_def)
    with c h(1) rel show ?thesis by (simp add: executed_def stats_ok_def queued_def)
  next
    assume h: "St \<noteq> STATUS_PENDING" "quiet Srb (m, ?d) (m', d2)"
    have c: "queues_ok m' d2" "PendingReqListHead d2 = PendingReqListHead d"
      "SubmittedReqListHead d2 = SubmittedReqListHead d" "Notified m' = Notified m" "Elems m' = Elems m"
      using h(2) by (simp_all add: quiet_def Let_def count_io_def)
    have "stats_ok d \<longrightarrow> stats_ok (count_io (- 1) d2)" using quiet_gauges [OF h(2)] c
      by (simp add: stats_ok_def queued_def count_io_def)
    with c h(1) rel show ?thesis by (simp add: executed_def stats_ok_def queued_def count_io_def)
  qed
qed

lemma execute_scsi_ok:
  assumes "mapped_at (Srbs m Srb) p x" "queues_ok m (Devices x p)" "fresh a m"
    and "WnbdExecuteScsiFunction ext a now Srb (m, x) = Some (st, Complete, m', x')"
  shows "executed Srb Complete (m, Devices x p) (m', Devices x' p) \<and> (\<forall>q. q \<noteq> p \<longrightarrow> Devices x' q = Devices x q)"
proof (cases "HardRemoveDevice (Devices x p)")
  case True
  then have "Complete" "m' = m" "x' = dev_upd p WnbdReleaseDevice (dev_upd p acquired x)"
    using assms(4) mapped_at_found [OF assms(1)] by (simp_all add: WnbdExecuteScsiFunction_def)
  with assms(2) release_acquired [of "acquired (Devices x p)" "Devices x p"] show ?thesis
    by (simp add: executed_def stats_ok_def queued_def)
next
  case False
  obtain St d2 where h: "WnbdHandleSrbOperation ext Srb a now (m, count_io 1 (acquired (Devices x p))) = Some (St, m', d2)"
    "Complete = (St \<noteq> STATUS_PENDING)"
    "x' = dev_upd p (\<lambda>_. WnbdReleaseDevice (if St = STATUS_PENDING then d2 else count_io (- 1) d2)) (dev_upd p acquired x)"
    using assms(4) mapped_at_found [OF assms(1)] False
    by (auto simp: WnbdExecuteScsiFunction_def bind_eq_Some_conv Let_def count_io_def split: if_splits)
  from handled_executed [OF assms(2,3) h(1)] h(2,3) show ?thesis by (simp split: if_splits)
qed

text \<open>
  C5: a request block handed to the driver for a mapped disk is settled: it is completed
  exactly once before the callback returns, after the requests it aborted if it is an abort
  or a unit reset, or it is queued as the last pending request of the device and not
  completed yet. Queues, accounting and references of the device stay consistent and other
  devices are untouched.
\<close>

theorem start_io_completes_or_queues:
  assumes "mapped_at (Srbs m Srb) p x" "queues_ok m (Devices x p)" "stats_ok (Devices x p)" "fresh (IoPool env) m"
    and "WnbdHwStartIo env opts ext Srb (m, x) = Some (calls, m', x')"
  shows "queues_ok m' (Devices x' p) \<and> stats_ok (Devices x' p) \<and>
    RundownProtection (Devices x' p) = RundownProtection (Devices x p) \<and> (\<forall>q. q \<noteq> p \<longrightarrow> Devices x' q = Devices x q) \<and>
    (Notified m' = Notified m @ [Srb] \<and> queued (Devices x' p) = queued (Devices x p) \<or>
     SrbFunction (Srbs m Srb) \<in> {SRB_FUNCTION_ABORT_COMMAND, SRB_FUNCTION_RESET_LOGICAL_UNIT} \<and>
       Notified m' = Notified m @ srbs_of m (queued (Devices x p)) @ [Srb] \<and> queued (Devices x' p) = [] \<or>
     SrbFunction (Srbs m Srb) = SRB_FUNCTION_EXECUTE_SCSI \<and> Notified m' = Notified m \<and>
       (\<exists>e. PendingReqListHead (Devices x' p) = PendingReqListHead (Devices x p) @ [e] \<and>
            SubmittedReqListHead (Devices x' p) = SubmittedReqListHead (Devices x p) \<and> ElemSrb (Elems m' e) = Srb))"
    (is "?ok \<and> ?outcome")
proof -
  let ?f = "SrbFunction (Srbs m Srb)"
  have note_upd: "queues_ok (m\<lparr>Notified := n\<rparr>) d = queues_ok m d" for m n d by (simp add: queue_defs)
  have fin: "?ok \<and> ?outcome" if "(m', x') = start_complete Srb (st, m1, x)" "Notified m1 = Notified m"
    "queues_ok m1 (Devices x p)" for st m1
    using that assms(3) by (simp add: start_complete_def Let_def note_upd) (simp add: set_status_def)
  have drains: "?ok \<and> ?outcome" if d: "DrainDeviceQueues opts (IoTime env) True Srb (m, x) = (st, m1, x1)"
    "(m', x') = start_complete Srb (st, m1, x1)" "?f \<in> {SRB_FUNCTION_ABORT_COMMAND, SRB_FUNCTION_RESET_LOGICAL_UNIT}" for st m1 x1
    using DrainDeviceQueues_ok [OF assms(1,2) d(1)] assms(3) d(2,3)
    by (simp add: start_complete_def Let_def note_upd) (simp add: set_status_def)
  consider (exec) "?f = SRB_FUNCTION_EXECUTE_SCSI" | (drain) "?f \<in> {SRB_FUNCTION_ABORT_COMMAND, SRB_FUNCTION_RESET_LOGICAL_UNIT}"
    | (srb) h where "map_option (\<lambda>r. ([], start_complete Srb r)) (srb_only Srb h (m, x)) = Some (calls, m', x')"
    | (direct) st where "start_complete Srb (st, m, x) = (m', x')"
    using assms(5) by (auto simp: WnbdHwStartIo_def WnbdResetDeviceFunction_def Let_def split: if_splits)
  then show ?thesis
  proof cases
    case exec
    then obtain st Complete m1 x1 where e: "WnbdExecuteScsiFunction ext (IoPool env) (IoTime env) Srb (m, x) = Some (st, Complete, m1, x1)"
      "(m', x') = (if Complete then start_complete Srb (st, m1, x1) else (m1, x1))"
      using assms(5) by (auto simp: WnbdHwStartIo_def bind_eq_Some_conv)
    from execute_scsi_ok [OF assms(1,2,4) e(1)] assms(3) e(2) exec show ?thesis
      by (cases Complete) (auto simp: executed_def start_complete_def Let_def note_upd set_status_def)
  next
    case drain
    obtain st m1 x1 where d: "DrainDeviceQueues opts (IoTime env) True Srb (m, x) = (st, m1, x1)"
      by (cases "DrainDeviceQueues opts (IoTime env) True Srb (m, x)")
    have "(m', x') = start_complete Srb (st, m1, x1)"
      using assms(5) drain d by (auto simp: WnbdHwStartIo_def WnbdAbortFunction_def WnbdResetLogicalUnitFunction_def)
    from drains [OF d this drain] show ?thesis .
  next
    case (srb h)
    then obtain st b where "start_complete Srb (st, srb_upd Srb (\<lambda>_. b) m, x) = (m', x')"
      by (auto simp: srb_only_def bind_eq_Some_conv)
    from fin [OF this [symmetric]] assms(2) show ?thesis by simp
  next
    case (direct st)
    from fin [OF direct [symmetric]] assms(2) show ?thesis by simp
  qed
qed


text \<open>The sample disk of \<open>Samples\<close> as the only device of an adapter.\<close>

definition sample_adapter :: "ptr list \<Rightarrow> WNBD_EXTENSION" where
  "sample_adapter ps = empty_adapter\<lparr>Devices := (\<lambda>_. sample_device ps), DeviceList := [1]\<rparr>"

lemma sample_adapter_sel [simp]: "Devices (sample_adapter ps) = (\<lambda>_. sample_device ps)" "DeviceList (sample_adapter ps) = [1]"
  by (simp_all add: sample_adapter_def)

lemma sample_mapped: "mapped_at sample_srb 1 (sample_adapter ps)"
  by (simp add: mapped_at_def WnbdFindDeviceByAddr_def find_device_def sample_srb_def)
     (simp add: sample_device_def)

lemma sample_mem_srb [simp]: "Srbs sample_mem p = sample_srb"
  by (simp add: sample_mem_def)

definition sample_io :: io_env where
  "sample_io = \<lparr>IoPool = Some 9, IoTime = 7, IoCaps = replicate 16 0, IoPnpEx = None, IoPnp = (0, 0)\<rparr>"

theorem start_io_completes_or_queues_witness:
  "\<exists>calls m' x'. WnbdHwStartIo sample_io WnbdDriverOptions 0 200
       (sample_mem\<lparr>Srbs := (\<lambda>_. sample_srb\<lparr>SrbFunction := SRB_FUNCTION_SHUTDOWN\<rparr>)\<rparr>, sample_adapter [1]) =
     Some (calls, m', x') \<and> Notified m' = [200] \<and> queued (Devices x' 1) = [1]"
proof -
  let ?b = "sample_srb\<lparr>SrbFunction := SRB_FUNCTION_SHUTDOWN\<rparr>"
  let ?m = "sample_mem\<lparr>Srbs := (\<lambda>_. ?b)\<rparr>"
  obtain calls m' x' where r: "WnbdHwStartIo sample_io WnbdDriverOptions 0 200 (?m, sample_adapter [1]) = Some (calls, m', x')"
    by (simp add: WnbdHwStartIo_def start_complete_def Let_def)
  have mp: "mapped_at (Srbs ?m 200) 1 (sample_adapter [1])"
    using sample_mapped [of "[1]"] by (simp add: mapped_at_def)
  have q: "queues_ok ?m (Devices (sample_adapter [1]) 1)" "fresh (IoPool sample_io) ?m"
    using sample_queues_ok [of "[1]"] by (simp_all add: queue_defs) (simp add: fresh_def sample_io_def sample_mem_def)
  from start_io_completes_or_queues [OF mp q(1) _ q(2) r] sample_stats_ok [of "[1]"] r show ?thesis
    by (auto simp: queued_def)
qed

section \<open>Firmware requests\<close>

text \<open>
  A request of the control function never writes outside its data buffer, provided the
  buffer holds the announced length and at least the code fields of its header.
\<close>

lemma control_request_in_bounds:
  assumes "roomy (unat (DataTransferLength Srb)) Srb" "24 \<le> unat (DataTransferLength Srb)"
  shows "WnbdProcessSrbIOCTL Srb \<noteq> None"
proof -
  let ?n = "unat (DataTransferLength Srb)"
  obtain b where b: "DataBuffer Srb = Some b" using assms(1) by (auto simp: roomy_def split: option.splits)
  have rc: "safe (put [return_code c] S)" if "roomy ?n S" for c S
    by (rule safe_put [OF that]) (use assms(2) in \<open>simp add: return_code_def\<close>)
  have info: "safe (WnbdFirmwareInfo Srb)"
    if "unat (ulong_at b 44) + unat (ulong_at b 48) \<le> ?n" "52 \<le> ?n"
    unfolding WnbdFirmwareInfo_def b bind.bind_lunit Let_def
    by (intro safe_if safe_bind safe_Some rc assms(1) safe_put [of ?n])
       (use that assms in \<open>auto simp: return_code_def dest!: put_keeps [where n = ?n]\<close>)
  have fw: "safe (WnbdFirmareIOCTL Srb)"
    unfolding WnbdFirmareIOCTL_def b bind.bind_lunit Let_def
    by (intro safe_if safe_bind safe_Some rc assms(1) info) auto
  have "safe (WnbdProcessSrbIOCTL Srb)"
    unfolding WnbdProcessSrbIOCTL_def b bind.bind_lunit
    by (intro safe_if safe_bind safe_Some rc assms(1) fw)
  then show ?thesis by (simp add: safe_def)
qed

section \<open>Adapter limits\<close>

text \<open>
  Whatever the options hold, the adapter announces at least one and at most the absolute
  maximum of requests, per adapter and per disk, and the queue depth of a disk is its limit.
\<close>

lemma adapter_limits_in_range:
  "let c = adapter_configuration opts in
   0 < MaxNumberOfIO c \<and> MaxNumberOfIO c \<le> WNBD_ABS_MAX_IO_REQ_PER_ADAPTER \<and>
   0 < MaxIOsPerLun c \<and> MaxIOsPerLun c \<le> WNBD_ABS_MAX_IO_REQ_PER_LUN \<and>
   InitialLunQueueDepth c = MaxIOsPerLun c"
  by (simp add: adapter_configuration_def io_limit_def Let_def)

text \<open>
  \<^verbatim>\<open>WnbdHwFindAdapter\<close> on the zeroed extension succeeds when its two services do, and
  leaves an adapter without devices that satisfies the invariant.
\<close>

lemma find_adapter_initialises:
  assumes "NT_SUCCESS lock" "NT_SUCCESS reg" "DeviceCount x = 0" "LiveDevices x = {}" "MonitorThreads x = {}"
    "InquiryBuffers x = 0" "WnbdHwFindAdapter lock reg opts x = (found, cfg, x')"
  shows "found \<and> adapter_ok x' \<and> DeviceList x' = [] \<and> \<not> RdStarted (ExtRundownProtection x')"
  using assms by (auto simp: WnbdHwFindAdapter_def WnbdInitScsiIds_def adapter_defs indexed_init Let_def)

end
