(* ===== verification/Dispatch.thy ===== *)
theory Dispatch
  imports Samples
begin

text \<open>
  Request dispatching, \<^verbatim>\<open>WnbdDispatchRequest\<close> and the buffer locking of
  \<^verbatim>\<open>driver/wnbd_dispatch.c\<close>. The kernel's
  part in an iteration of the dispatch loop (how the wait ends, whether another thread
  removed the device meanwhile, whether buffers can be mapped, the time) is an entry of an
  explicit environment list; a list that ends while the thread waits gives \<open>Waiting\<close>. A
  copy that would leave a buffer gives \<open>Fault\<close>.
\<close>

section \<open>Locking user buffers\<close>

text \<open>
  How \<^verbatim>\<open>LockUsermodeBuffer\<close> ends: the probe raises an exception with a code, no
  descriptor list is left, locking the pages raises, the pages cannot be mapped, success.
\<close>

datatype lock_outcome = ProbeFault u32 | NoMdl | LockFault u32 | NoMapping | LockOk

text \<open>The caller's variables \<^verbatim>\<open>Buffer\<close>, \<^verbatim>\<open>Mdl\<close> (not NULL) and \<^verbatim>\<open>BufferLocked\<close>.\<close>

record mdl_vars =
  Buffer :: bool
  Mdl :: bool
  BufferLocked :: bool

definition no_mdl :: mdl_vars where
  "no_mdl = \<lparr>Buffer = False, Mdl = False, BufferLocked = False\<rparr>"

fun LockUsermodeBuffer :: "lock_outcome \<Rightarrow> mdl_vars \<Rightarrow> kmem \<Rightarrow> u32 \<times> mdl_vars \<times> kmem" where
  "LockUsermodeBuffer (ProbeFault code) v m = (code, v, m)"
| "LockUsermodeBuffer NoMdl v m = (STATUS_INSUFFICIENT_RESOURCES, v, m)"
| "LockUsermodeBuffer (LockFault code) v m =
     (code, v\<lparr>Mdl := True\<rparr>, m\<lparr>Mdls := Mdls m + 1\<rparr>)"
| "LockUsermodeBuffer NoMapping v m =
     (STATUS_INSUFFICIENT_RESOURCES, \<lparr>Buffer = False, Mdl = True, BufferLocked = True\<rparr>,
      m\<lparr>Mdls := Mdls m + 1, LockedMdls := LockedMdls m + 1\<rparr>)"
| "LockUsermodeBuffer LockOk v m =
     (STATUS_SUCCESS, \<lparr>Buffer = True, Mdl = True, BufferLocked = True\<rparr>,
      m\<lparr>Mdls := Mdls m + 1, LockedMdls := LockedMdls m + 1\<rparr>)"

text \<open>\<^verbatim>\<open>if (BufferLocked) MmUnlockPages(Mdl); IoFreeMdl(Mdl);\<close>\<close>

definition release_mdl :: "mdl_vars \<Rightarrow> kmem \<Rightarrow> kmem" where
  "release_mdl v m =
     (let m = (if BufferLocked v then m\<lparr>LockedMdls := LockedMdls m - 1\<rparr> else m)
      in m\<lparr>Mdls := Mdls m - 1\<rparr>)"

definition LockFetchBuffer :: "lock_outcome \<Rightarrow> mdl_vars \<Rightarrow> kmem \<Rightarrow> u32 \<times> mdl_vars \<times> kmem" where
  "LockFetchBuffer lk v m =
     (let (Status, v, m) = LockUsermodeBuffer lk v m
      in if Status \<noteq> 0 \<and> Mdl v
         then (Status, v\<lparr>Mdl := False, BufferLocked := False\<rparr>, release_mdl v m)
         else (Status, v, m))"

text \<open>Exceptions carry an error code.\<close>

fun lock_code_ok :: "lock_outcome \<Rightarrow> bool" where
  "lock_code_ok (ProbeFault code) = (code \<noteq> 0)"
| "lock_code_ok (LockFault code) = (code \<noteq> 0)"
| "lock_code_ok _ = True"

section \<open>The dispatch loop\<close>

datatype wait_result = WAIT_0 | WAIT_1 | ALERTED

record dispatch_env =
  EnvWait :: wait_result
  EnvHard :: bool
  EnvLock :: lock_outcome
  EnvStor :: u32
  EnvTime :: u64

text \<open>
  The variables of \<^verbatim>\<open>WnbdDispatchRequest\<close>: \<^verbatim>\<open>Status\<close>, the descriptor list
  variables, the caller's \<^verbatim>\<open>Command->Request\<close> and data buffer, memory and device.
\<close>

record disp =
  DStatus :: u32
  DVars :: mdl_vars
  DRequest :: WNBD_IO_REQUEST
  DUser :: bytes
  DMem :: kmem
  DDev :: WNBD_DISK_DEVICE

definition unsubmitted_dec :: "WNBD_DISK_DEVICE \<Rightarrow> WNBD_DISK_DEVICE" where
  "unsubmitted_dec d =
     stat_upd (\<lambda>st. st\<lparr>UnsubmittedIORequests := UnsubmittedIORequests st - 1\<rparr>) d"

text \<open>Set the status, complete and free, take the request off the gauge.\<close>

definition fail_element :: "u8 \<Rightarrow> ptr \<Rightarrow> dstate \<Rightarrow> dstate" where
  "fail_element status e s =
     (let (m, d) = s;
          m = srb_upd (ElemSrb (Elems m e)) (\<lambda>srb. srb\<lparr>SrbStatus := status\<rparr>) m;
          (m, d) = CompleteRequest e True (m, d)
      in (m, unsubmitted_dec d))"

definition with_state :: "dstate \<Rightarrow> disp \<Rightarrow> disp" where
  "with_state s x = x\<lparr>DMem := fst s, DDev := snd s\<rparr>"

text \<open>
  The command part of the request. The division by the block size is the processor's, so
  a zero block size faults (\<open>None\<close>).
\<close>

definition dispatch_cmd ::
  "WNBD_PROPERTIES \<Rightarrow> SRB_QUEUE_ELEMENT \<Rightarrow> bytes \<Rightarrow> WnbdRequestType \<Rightarrow> WNBD_CMD option" where
  "dispatch_cmd props el Cdb t =
     (let bs = BlockSize props; addr = StartingLbn el div ucast bs; cnt = DataLength el div bs;
          fua = FUA el \<and> FUASupported (Flags props)
      in case t of
           WnbdReqTypeRead \<Rightarrow> if bs = 0 then None else Some (CmdRead addr cnt fua)
         | WnbdReqTypeWrite \<Rightarrow> if bs = 0 then None else Some (CmdWrite addr cnt fua)
         | WnbdReqTypeFlush \<Rightarrow> if bs = 0 then None else Some (CmdFlush addr cnt)
         | WnbdReqTypeUnmap \<Rightarrow> Some (CmdUnmap 1 False)
         | WnbdReqTypePersistResIn \<Rightarrow>
             Some (CmdPersistResIn (cdb_byte Cdb 1 AND 0x1F) (be_word (cdb_field Cdb 7 2)))
         | WnbdReqTypePersistResOut \<Rightarrow>
             Some (CmdPersistResOut (cdb_byte Cdb 1 AND 0x1F) (drop_bit 4 (cdb_byte Cdb 2))
                     (cdb_byte Cdb 2 AND 0x0F) (be_word (cdb_field Cdb 7 2)))
         | _ \<Rightarrow> Some CmdNone)"

definition unmap_descriptor :: "WNBD_PROPERTIES \<Rightarrow> SRB_QUEUE_ELEMENT \<Rightarrow> bytes" where
  "unmap_descriptor props el =
     le_bytes 8 (StartingLbn el div ucast (BlockSize props)) @
     le_bytes 4 (DataLength el div BlockSize props) @ replicate 4 0"

text \<open>
  The outcome of one element: \<open>Retry\<close> is the \<^verbatim>\<open>continue\<close> of the loop, \<open>Leave\<close> the
  \<^verbatim>\<open>goto Exit\<close>, \<open>Proceed\<close> falls through to the submission.
\<close>

datatype flow = Retry | Leave | Proceed

definition dispatch_unmap ::
  "u32 \<Rightarrow> dispatch_env \<Rightarrow> ptr \<Rightarrow> disp \<Rightarrow> (flow \<times> disp) option" where
  "dispatch_unmap bsz env e x =
     (if bsz < 16
      then Some (Leave, (with_state (fail_element SRB_STATUS_INTERNAL_ERROR e (DMem x, DDev x)) x)
                          \<lparr>DStatus := STATUS_BUFFER_TOO_SMALL\<rparr>)
      else (let (Status, v, m) = LockFetchBuffer (EnvLock env) (DVars x) (DMem x);
                x = x\<lparr>DStatus := Status, DVars := v, DMem := m\<rparr>
            in if Status \<noteq> 0
               then Some (Retry, with_state (fail_element SRB_STATUS_INTERNAL_ERROR e (m, DDev x)) x)
               else if BlockSize (Properties (DDev x)) = 0 then None
               else do {
                 u \<leftarrow> store 0 (unmap_descriptor (Properties (DDev x)) (Elems m e)) (DUser x);
                 Some (Proceed, x\<lparr>DUser := u\<rparr>)
               }))"

text \<open>\<^verbatim>\<open>RtlCopyMemory\<close> of \<open>n\<close> bytes from a buffer; a missing buffer is a NULL address.\<close>

definition fetch :: "nat \<Rightarrow> bytes option \<Rightarrow> bytes option" where
  "fetch n b = (case b of None \<Rightarrow> None | Some bs \<Rightarrow> if n \<le> length bs then Some (take n bs) else None)"

definition dispatch_copy ::
  "u32 \<Rightarrow> dispatch_env \<Rightarrow> ptr \<Rightarrow> disp \<Rightarrow> (flow \<times> disp) option" where
  "dispatch_copy bsz env e x =
     (let n = DataLength (Elems (DMem x) e) in
      if bsz < n
      then Some (Leave, (with_state (fail_element SRB_STATUS_INTERNAL_ERROR e (DMem x, DDev x)) x)
                          \<lparr>DStatus := STATUS_BUFFER_TOO_SMALL\<rparr>)
      else if n = 0 then Some (Proceed, x)
      else (let (Status, v, m) = LockFetchBuffer (EnvLock env) (DVars x) (DMem x);
                x = x\<lparr>DStatus := Status, DVars := v, DMem := m\<rparr>
            in if Status \<noteq> 0
               then Some (Retry, with_state (fail_element SRB_STATUS_INTERNAL_ERROR e (m, DDev x)) x)
               else if EnvStor env \<noteq> 0
               then (let (m, d) = fail_element SRB_STATUS_INTERNAL_ERROR e (m, DDev x)
                     in Some (Retry, x\<lparr>DMem := release_mdl v m, DDev := d,
                                       DVars := v\<lparr>Mdl := False, BufferLocked := False\<rparr>\<rparr>))
               else do {
                 bs \<leftarrow> fetch (unat n) (DataBuffer (srb_of m e));
                 u \<leftarrow> store 0 bs (DUser x);
                 Some (Proceed, x\<lparr>DUser := u\<rparr>)
               }))"

definition dispatch_transfer ::
  "u32 \<Rightarrow> dispatch_env \<Rightarrow> WnbdRequestType \<Rightarrow> ptr \<Rightarrow> disp \<Rightarrow> (flow \<times> disp) option" where
  "dispatch_transfer bsz env t e x =
     (if t = WnbdReqTypeUnmap then dispatch_unmap bsz env e x
      else if t \<in> {WnbdReqTypeWrite, WnbdReqTypePersistResOut} then dispatch_copy bsz env e x
      else Some (Proceed, x))"

definition dispatch_submit :: "dispatch_env \<Rightarrow> ptr \<Rightarrow> disp \<Rightarrow> disp" where
  "dispatch_submit env e x =
     (let d = WnbdSubmittedReqInsert (DMem x) e (DDev x)
      in x\<lparr>DDev := unsubmitted_dec (stat_upd (\<lambda>st. st\<lparr>
              LastSubmittedReqTimestamp := EnvTime env,
              TotalSubmittedIORequests := TotalSubmittedIORequests st + 1,
              PendingSubmittedIORequests := PendingSubmittedIORequests st + 1\<rparr>) d)\<rparr>)"

text \<open>From the handle assignment to the end of the loop body; \<open>True\<close> leaves the loop.\<close>

definition tag_element :: "ptr \<Rightarrow> kmem \<Rightarrow> kmem" where
  "tag_element e m =
     (let t = RequestHandleCounter m + 1;
          m = elem_upd e (\<lambda>el. el\<lparr>Tag := t\<rparr>) (m\<lparr>RequestHandleCounter := t\<rparr>)
      in srb_upd (ElemSrb (Elems m e)) (\<lambda>srb. srb\<lparr>DataTransferLength := 0\<rparr>) m)"

definition srb_type :: "SRB \<Rightarrow> WnbdRequestType" where
  "srb_type srb = (case SrbCdb srb of None \<Rightarrow> WnbdReqTypeUnknown
                   | Some Cdb \<Rightarrow> ScsiOpToWnbdReqType (cdb_byte Cdb 0))"

definition dispatch_element ::
  "u32 \<Rightarrow> dispatch_env \<Rightarrow> ptr \<Rightarrow> disp \<Rightarrow> (bool \<times> disp) option" where
  "dispatch_element bsz env e x =
     (let m = tag_element e (DMem x); srb = srb_of m e; t = srb_type srb;
          x = x\<lparr>DMem := m, DRequest := zero_request\<rparr>
      in if \<not> ValidateScsiRequest (DDev x) srb
         then Some (False, with_state (fail_element SRB_STATUS_INVALID_REQUEST e (m, DDev x)) x)
         else do {
           cmd \<leftarrow> dispatch_cmd (Properties (DDev x)) (Elems m e) (the (SrbCdb srb)) t;
           let x = x\<lparr>DRequest := \<lparr>RequestHandle = Tag (Elems m e), RequestType = t, Cmd = cmd\<rparr>\<rparr>;
           (n, x) \<leftarrow> dispatch_transfer bsz env t e x;
           case n of
             Retry \<Rightarrow> Some (False, x)
           | Leave \<Rightarrow> Some (True, x)
           | Proceed \<Rightarrow> Some (True, dispatch_submit env e x)
         })"

text \<open>One iteration: wait, take the head of the pending list, handle it.\<close>

definition dispatch_iter :: "u32 \<Rightarrow> dispatch_env \<Rightarrow> disp \<Rightarrow> (bool \<times> disp) option" where
  "dispatch_iter bsz env x =
     (let d = (if EnvHard env then WnbdDisconnectAsync (DDev x) else DDev x)
      in case EnvWait env of
           WAIT_1 \<Rightarrow> Some (True, x\<lparr>DDev := d\<rparr>)
         | ALERTED \<Rightarrow> Some (True, x\<lparr>DDev := d\<lparr>DeviceRemovalEvent := True\<rparr>\<rparr>)
         | WAIT_0 \<Rightarrow>
             (let d = d\<lparr>DeviceEvent := DeviceEvent d - 1\<rparr>
              in case PendingReqListHead d of
                   [] \<Rightarrow> Some (HardRemoveDevice d, x\<lparr>DDev := d\<rparr>)
                 | e # es \<Rightarrow>
                     (let d = d\<lparr>PendingReqListHead := es\<rparr>
                      in if HardRemoveDevice d then Some (True, x\<lparr>DDev := d\<rparr>)
                         else dispatch_element bsz env e (x\<lparr>DDev := d\<rparr>))))"

datatype 'a run = Returned 'a | Waiting 'a | Fault

fun dispatch_loop :: "u32 \<Rightarrow> dispatch_env list \<Rightarrow> disp \<Rightarrow> disp run" where
  "dispatch_loop bsz envs x =
     (if HardRemoveDevice (DDev x) then Returned x
      else case envs of
             [] \<Rightarrow> Waiting x
           | env # envs \<Rightarrow>
               (case dispatch_iter bsz env x of
                  None \<Rightarrow> Fault
                | Some (True, x) \<Rightarrow> Returned x
                | Some (False, x) \<Rightarrow> dispatch_loop bsz envs x))"

declare dispatch_loop.simps [simp del]

definition dispatch_exit :: "disp \<Rightarrow> disp" where
  "dispatch_exit x =
     (let x = (if Mdl (DVars x) then x\<lparr>DMem := release_mdl (DVars x) (DMem x)\<rparr> else x)
      in if HardRemoveDevice (DDev x)
         then x\<lparr>DRequest := (DRequest x)\<lparr>RequestType := WnbdReqTypeDisconnect\<rparr>, DStatus := 0\<rparr>
         else x)"

definition WnbdDispatchRequest ::
  "u32 \<Rightarrow> WNBD_IO_REQUEST \<Rightarrow> bytes \<Rightarrow> u32 \<Rightarrow> dispatch_env list \<Rightarrow> dstate \<Rightarrow> disp run" where
  "WnbdDispatchRequest pid req user bsz envs s =
     (let x = \<lparr>DStatus = 0, DVars = no_mdl, DRequest = req, DUser = user,
               DMem = fst s, DDev = snd s\<rparr>
      in if Pid (Properties (DDev x)) \<noteq> pid then Returned (x\<lparr>DStatus := STATUS_ACCESS_DENIED\<rparr>)
         else if UseKernelNbd (Flags (Properties (DDev x)))
         then Returned (x\<lparr>DStatus := STATUS_ACCESS_DENIED\<rparr>)
         else case dispatch_loop bsz envs x of
                Returned x \<Rightarrow> Returned (dispatch_exit x)
              | r \<Rightarrow> r)"

text \<open>
  Whether a run reads the buffer fields of the command, \<^verbatim>\<open>Command->DataBufferSize\<close> and
  \<^verbatim>\<open>Command->DataBuffer\<close>. They stand behind the connection id, and only a request that
  passed validation and writes to the caller's buffer gets to them. A run that ended in a division
  by zero before it read them faults either way.
\<close>

definition iter_reads_buffer :: "dispatch_env \<Rightarrow> disp \<Rightarrow> bool" where
  "iter_reads_buffer env x \<longleftrightarrow>
     EnvWait env = WAIT_0 \<and> \<not> EnvHard env \<and>
     (case PendingReqListHead (DDev x) of
        [] \<Rightarrow> False
      | e # _ \<Rightarrow>
          (let m = tag_element e (DMem x); srb = srb_of m e
           in ValidateScsiRequest (DDev x) srb \<and>
              srb_type srb \<in> {WnbdReqTypeUnmap, WnbdReqTypeWrite, WnbdReqTypePersistResOut}))"

fun loop_reads_buffer :: "u32 \<Rightarrow> dispatch_env list \<Rightarrow> disp \<Rightarrow> bool" where
  "loop_reads_buffer bsz [] x = False"
| "loop_reads_buffer bsz (env # envs) x =
     (\<not> HardRemoveDevice (DDev x) \<and>
      (iter_reads_buffer env x \<or>
       (case dispatch_iter bsz env x of
          Some (False, x) \<Rightarrow> loop_reads_buffer bsz envs x
        | _ \<Rightarrow> False)))"

definition fetch_reads_buffer ::
  "u32 \<Rightarrow> WNBD_IO_REQUEST \<Rightarrow> bytes \<Rightarrow> u32 \<Rightarrow> dispatch_env list \<Rightarrow> dstate \<Rightarrow> bool" where
  "fetch_reads_buffer pid req user bsz envs s \<longleftrightarrow>
     Pid (Properties (snd s)) = pid \<and> \<not> UseKernelNbd (Flags (Properties (snd s))) \<and>
     loop_reads_buffer bsz envs \<lparr>DStatus = 0, DVars = no_mdl, DRequest = req, DUser = user,
                                 DMem = fst s, DDev = snd s\<rparr>"

section \<open>Descriptor lists are balanced\<close>

lemma LockFetchBuffer_cases:
  assumes "lock_code_ok lk" "\<not> Mdl v" "\<not> BufferLocked v" "LockFetchBuffer lk v m = (Status, v', m')"
  shows "Status \<noteq> 0 \<and> \<not> Mdl v' \<and> \<not> BufferLocked v' \<and> m' = m \<or>
    Status = 0 \<and> Mdl v' \<and> BufferLocked v' \<and> m' = m\<lparr>Mdls := Mdls m + 1, LockedMdls := LockedMdls m + 1\<rparr>"
  using assms by (cases lk) (auto simp: LockFetchBuffer_def release_mdl_def split: if_splits)

text \<open>The invariant at the head of the loop: no descriptor list is held.\<close>

definition balanced :: "mdl_vars \<Rightarrow> kmem \<Rightarrow> kmem \<Rightarrow> bool" where
  "balanced v m m0 \<longleftrightarrow> Mdls m = Mdls m0 + of_bool (Mdl v) \<and>
     LockedMdls m = LockedMdls m0 + of_bool (BufferLocked v) \<and> (BufferLocked v \<longrightarrow> Mdl v)"

lemma release_balanced:
  "balanced v m m0 \<Longrightarrow> Mdl v \<Longrightarrow>
     Mdls (release_mdl v m) = Mdls m0 \<and> LockedMdls (release_mdl v m) = LockedMdls m0"
  by (auto simp: balanced_def release_mdl_def Let_def)

lemma release_mdl_sel [simp]:
  "Elems (release_mdl v m) = Elems m" "Allocated (release_mdl v m) = Allocated m"
  "Srbs (release_mdl v m) = Srbs m" "Notified (release_mdl v m) = Notified m"
  "RequestHandleCounter (release_mdl v m) = RequestHandleCounter m"
  by (simp_all add: release_mdl_def Let_def)

lemma queues_ok_mdl [simp]:
  "queues_ok (release_mdl v m) d = queues_ok m d"
  "queues_ok (m\<lparr>Mdls := k, LockedMdls := l\<rparr>) d = queues_ok m d"
  "in_hand e (release_mdl v m, d) = in_hand e (m, d)"
  "in_hand e (m\<lparr>Mdls := k, LockedMdls := l\<rparr>, d) = in_hand e (m, d)"
  by (simp_all add: queue_defs)

section \<open>Handling one element\<close>

lemma fail_element_ok:
  assumes "queues_ok m d" "in_hand e (m, d)" "\<not> Completed (Elems m e)"
    and "fail_element st e (m, d) = (m', d')"
  shows "queues_ok m' d'" "queued d' = queued d" "PendingReqListHead d' = PendingReqListHead d"
    "SubmittedReqListHead d' = SubmittedReqListHead d"
    "HardRemoveDevice d' = HardRemoveDevice d" "Properties d' = Properties d"
    "Notified m' = Notified m @ [ElemSrb (Elems m e)]"
    "\<And>x. x \<noteq> e \<Longrightarrow> Elems m' x = Elems m x"
    "Srbs m' = (Srbs m)(ElemSrb (Elems m e) := (srb_of m e)\<lparr>SrbStatus := st\<rparr>)"
    "Stats d' = (Stats d)\<lparr>OutstandingIOCount := OutstandingIOCount (Stats d) - 1,
                          UnsubmittedIORequests := UnsubmittedIORequests (Stats d) - 1\<rparr>"
    "RequestHandleCounter m' = RequestHandleCounter m" "Mdls m' = Mdls m" "LockedMdls m' = LockedMdls m"
proof -
  let ?m = "srb_upd (ElemSrb (Elems m e)) (\<lambda>srb. srb\<lparr>SrbStatus := st\<rparr>) m"
  obtain d1 where cp: "CompleteRequest e True (?m, d) = (m', d1)" and d': "d' = unsubmitted_dec d1"
    using assms(4) by (auto simp: fail_element_def Let_def split: prod.splits)
  have "queues_ok ?m d" "in_hand e (?m, d)" "\<not> Completed (Elems ?m e)" using assms(1-3) by simp_all
  note ok = CompleteRequest_ok [OF this cp]
  note ls = arg_cong [OF cp, of "\<lambda>s. PendingReqListHead (snd s)"]
    arg_cong [OF cp, of "\<lambda>s. SubmittedReqListHead (snd s)"]
    arg_cong [OF cp, of "\<lambda>s. HardRemoveDevice (snd s)"]
    arg_cong [OF cp, of "\<lambda>s. Properties (snd s)"]
  show "PendingReqListHead d' = PendingReqListHead d"
    "SubmittedReqListHead d' = SubmittedReqListHead d"
    "HardRemoveDevice d' = HardRemoveDevice d" "Properties d' = Properties d"
    using ls by (simp_all add: d' unsubmitted_dec_def)
  show "queues_ok m' d'" "queued d' = queued d"
    using ok(1,2) by (simp_all add: d' unsubmitted_dec_def)
  show "Notified m' = Notified m @ [ElemSrb (Elems m e)]"
    "\<And>x. x \<noteq> e \<Longrightarrow> Elems m' x = Elems m x"
    "Srbs m' = (Srbs m)(ElemSrb (Elems m e) := (srb_of m e)\<lparr>SrbStatus := st\<rparr>)"
    "RequestHandleCounter m' = RequestHandleCounter m" "Mdls m' = Mdls m" "LockedMdls m' = LockedMdls m"
    "Stats d' = (Stats d)\<lparr>OutstandingIOCount := OutstandingIOCount (Stats d) - 1,
                          UnsubmittedIORequests := UnsubmittedIORequests (Stats d) - 1\<rparr>"
    using ok(3-9) by (simp_all add: d' unsubmitted_dec_def)
qed

lemma tag_element_sel:
  "Elems (tag_element e m) = (Elems m)(e := (Elems m e)\<lparr>Tag := RequestHandleCounter m + 1\<rparr>)"
  "Allocated (tag_element e m) = Allocated m" "Notified (tag_element e m) = Notified m"
  "RequestHandleCounter (tag_element e m) = RequestHandleCounter m + 1"
  "Mdls (tag_element e m) = Mdls m" "LockedMdls (tag_element e m) = LockedMdls m"
  "Srbs (tag_element e m) = (Srbs m)(ElemSrb (Elems m e) := (srb_of m e)\<lparr>DataTransferLength := 0\<rparr>)"
  by (simp_all add: tag_element_def Let_def)

lemma tag_element_ok:
  assumes "queues_ok m d" "in_hand e (m, d)" "RequestHandleCounter m \<noteq> - 1"
  shows "queues_ok (tag_element e m) d" "in_hand e (tag_element e m, d)"
    "Tag (Elems (tag_element e m) e) \<notin> (\<lambda>x. Tag (Elems (tag_element e m) x)) ` set (SubmittedReqListHead d)"
proof -
  have lt: "RequestHandleCounter m < RequestHandleCounter m + 1"
    using assms(3) by (rule word_less_inc)
  have e: "e \<notin> set (linked d)" using assms(2) by (simp add: in_hand_def)
  show "queues_ok (tag_element e m) d"
    by (rule queues_ok_frame [OF assms(1)])
       (use assms(1) e lt in \<open>auto simp: tag_element_sel queues_ok_def\<close>)
  show "in_hand e (tag_element e m, d)" using assms(2) by (simp add: in_hand_def tag_element_sel)
  have "\<forall>x \<in> set (SubmittedReqListHead d). Tag (Elems m x) \<le> RequestHandleCounter m"
    using assms(1) by (simp add: queues_ok_def)
  then show "Tag (Elems (tag_element e m) e) \<notin>
      (\<lambda>x. Tag (Elems (tag_element e m) x)) ` set (SubmittedReqListHead d)"
    using e lt by (auto simp: tag_element_sel linked_def split: if_splits dest: leD)
qed


definition no_lock :: "disp \<Rightarrow> bool" where
  "no_lock x \<longleftrightarrow> \<not> Mdl (DVars x) \<and> \<not> BufferLocked (DVars x)"

text \<open>The dispatcher never changes a command descriptor or the data of a request block.\<close>

definition same_cdbs :: "kmem \<Rightarrow> kmem \<Rightarrow> bool" where
  "same_cdbs m m' \<longleftrightarrow>
     (\<forall>p. SrbCdb (Srbs m' p) = SrbCdb (Srbs m p) \<and> DataBuffer (Srbs m' p) = DataBuffer (Srbs m p))"

text \<open>
  The element in hand was completed with an error after \<open>k\<close> handles were used; everything
  else is as before.
\<close>

definition failed :: "u64 \<Rightarrow> ptr \<Rightarrow> disp \<Rightarrow> disp \<Rightarrow> bool" where
  "failed k e x x' \<longleftrightarrow>
     queues_ok (DMem x') (DDev x') \<and> no_lock x' \<and>
     Mdls (DMem x') = Mdls (DMem x) \<and> LockedMdls (DMem x') = LockedMdls (DMem x) \<and>
     PendingReqListHead (DDev x') = PendingReqListHead (DDev x) \<and>
     SubmittedReqListHead (DDev x') = SubmittedReqListHead (DDev x) \<and>
     HardRemoveDevice (DDev x') = HardRemoveDevice (DDev x) \<and>
     Properties (DDev x') = Properties (DDev x) \<and>
     Notified (DMem x') = Notified (DMem x) @ [ElemSrb (Elems (DMem x) e)] \<and>
     (\<forall>y. y \<noteq> e \<longrightarrow> Elems (DMem x') y = Elems (DMem x) y) \<and>
     same_cdbs (DMem x) (DMem x') \<and>
     RequestHandleCounter (DMem x') = RequestHandleCounter (DMem x) + k \<and>
     Stats (DDev x') = (Stats (DDev x))
       \<lparr>OutstandingIOCount := OutstandingIOCount (Stats (DDev x)) - 1,
        UnsubmittedIORequests := UnsubmittedIORequests (Stats (DDev x)) - 1\<rparr>"

lemma failedI:
  assumes "queues_ok (DMem x) (DDev x)" "in_hand e (DMem x, DDev x)" "\<not> Completed (Elems (DMem x) e)"
    and "fail_element st e ((DMem x)\<lparr>Mdls := k, LockedMdls := l\<rparr>, DDev x) = (m', DDev x')"
    and "DMem x' = m'\<lparr>Mdls := Mdls (DMem x), LockedMdls := LockedMdls (DMem x)\<rparr>" "no_lock x'"
  shows "failed 0 e x x'"
proof -
  note ok = fail_element_ok [of "(DMem x)\<lparr>Mdls := k, LockedMdls := l\<rparr>" "DDev x" e st m' "DDev x'"]
  have pre: "queues_ok ((DMem x)\<lparr>Mdls := k, LockedMdls := l\<rparr>) (DDev x)"
    "in_hand e ((DMem x)\<lparr>Mdls := k, LockedMdls := l\<rparr>, DDev x)"
    "\<not> Completed (Elems ((DMem x)\<lparr>Mdls := k, LockedMdls := l\<rparr>) e)"
    using assms(1-3) by simp_all
  note ok = ok [OF pre assms(4)]
  show ?thesis unfolding failed_def same_cdbs_def using ok assms(5,6) by simp
qed

lemma record_self [simp]: "(m::kmem)\<lparr>Mdls := Mdls m, LockedMdls := LockedMdls m\<rparr> = m"
  by simp

lemma fail_element_mdls:
  "fail_element st e (m, d) = (m', d') \<Longrightarrow> Mdls m' = Mdls m \<and> LockedMdls m' = LockedMdls m"
  by (auto simp: fail_element_def CompleteRequest_def WnbdFreeSrbElement_def ExFreePool_def Let_def
      split: if_splits prod.splits)

text \<open>The two transfers: an error completes the element, success leaves memory alone.\<close>

definition transferred :: "flow \<Rightarrow> ptr \<Rightarrow> disp \<Rightarrow> disp \<Rightarrow> bool" where
  "transferred n e x x' \<longleftrightarrow>
     DRequest x' = DRequest x \<and>
     (if n = Proceed
      then DDev x' = DDev x \<and> balanced (DVars x') (DMem x') (DMem x) \<and>
           DMem x' = (DMem x)\<lparr>Mdls := Mdls (DMem x'), LockedMdls := LockedMdls (DMem x')\<rparr>
      else failed 0 e x x')"

lemma transferred_fail:
  assumes "queues_ok (DMem x) (DDev x)" "in_hand e (DMem x, DDev x)" "\<not> Completed (Elems (DMem x) e)"
    and "n \<noteq> Proceed" "no_lock y" "DRequest y = DRequest x" "DMem y = DMem x" "DDev y = DDev x"
  shows "transferred n e x ((with_state (fail_element st e (DMem y, DDev y)) y)\<lparr>DStatus := s\<rparr>)"
    "transferred n e x (with_state (fail_element st e (DMem y, DDev y)) y)"
proof -
  obtain m' d' where f: "fail_element st e (DMem x, DDev x) = (m', d')"
    by (cases "fail_element st e (DMem x, DDev x)")
  have "failed 0 e x (y\<lparr>DMem := m', DDev := d', DStatus := s\<rparr>)"
    by (rule failedI [OF assms(1-3), where st = st and m' = m' and k = "Mdls (DMem x)"
            and l = "LockedMdls (DMem x)"])
       (use f fail_element_mdls [OF f] assms(5) in \<open>simp_all add: no_lock_def\<close>)
  moreover have "failed 0 e x (y\<lparr>DMem := m', DDev := d'\<rparr>)"
    by (rule failedI [OF assms(1-3), where st = st and m' = m' and k = "Mdls (DMem x)"
            and l = "LockedMdls (DMem x)"])
       (use f fail_element_mdls [OF f] assms(5) in \<open>simp_all add: no_lock_def\<close>)
  ultimately show "transferred n e x ((with_state (fail_element st e (DMem y, DDev y)) y)\<lparr>DStatus := s\<rparr>)"
    "transferred n e x (with_state (fail_element st e (DMem y, DDev y)) y)"
    using assms(4,6-8) f by (simp_all add: transferred_def with_state_def)
qed

lemma dispatch_unmap_ok:
  assumes "queues_ok (DMem x) (DDev x)" "in_hand e (DMem x, DDev x)" "\<not> Completed (Elems (DMem x) e)"
    and "no_lock x" "lock_code_ok (EnvLock env)" "dispatch_unmap bsz env e x = Some (n, x')"
  shows "transferred n e x x'"
proof (cases "bsz < 16")
  case True
  with assms show ?thesis
    using transferred_fail(1) [OF assms(1-3), of n x] by (auto simp: dispatch_unmap_def)
next
  case False
  obtain Status v m where lk: "LockFetchBuffer (EnvLock env) (DVars x) (DMem x) = (Status, v, m)"
    by (cases "LockFetchBuffer (EnvLock env) (DVars x) (DMem x)") auto
  note c = LockFetchBuffer_cases [OF assms(5) _ _ lk]
  show ?thesis
  proof (cases "Status = 0")
    case True
    then have "n = Proceed \<and> (\<exists>u. x' = x\<lparr>DStatus := Status, DVars := v, DMem := m, DUser := u\<rparr>)"
      using False lk assms(6)
      by (auto simp: dispatch_unmap_def Let_def bind_eq_Some_conv split: if_splits)
    moreover have "Mdl v" "BufferLocked v"
      "m = (DMem x)\<lparr>Mdls := Mdls (DMem x) + 1, LockedMdls := LockedMdls (DMem x) + 1\<rparr>"
      using c True assms(4) by (auto simp: no_lock_def)
    ultimately show ?thesis by (auto simp: transferred_def balanced_def)
  next
    case st: False
    then have "m = DMem x" "\<not> Mdl v" "\<not> BufferLocked v" using c assms(4) by (auto simp: no_lock_def)
    then show ?thesis
      using transferred_fail(2) [OF assms(1-3), of n "x\<lparr>DStatus := Status, DVars := v, DMem := m\<rparr>"]
        False st lk assms(6) by (auto simp: dispatch_unmap_def no_lock_def)
  qed
qed

lemma dispatch_copy_ok:
  assumes "queues_ok (DMem x) (DDev x)" "in_hand e (DMem x, DDev x)" "\<not> Completed (Elems (DMem x) e)"
    and "no_lock x" "lock_code_ok (EnvLock env)" "dispatch_copy bsz env e x = Some (n, x')"
  shows "transferred n e x x'"
proof -
  let ?len = "DataLength (Elems (DMem x) e)"
  obtain Status v m where lk: "LockFetchBuffer (EnvLock env) (DVars x) (DMem x) = (Status, v, m)"
    by (cases "LockFetchBuffer (EnvLock env) (DVars x) (DMem x)") auto
  note c = LockFetchBuffer_cases [OF assms(5) _ _ lk]
  consider (small) "bsz < ?len" | (empty) "\<not> bsz < ?len" "?len = 0"
    | (lock) "\<not> bsz < ?len" "?len \<noteq> 0" "Status \<noteq> 0"
    | (stor) "\<not> bsz < ?len" "?len \<noteq> 0" "Status = 0" "EnvStor env \<noteq> 0"
    | (ok) "\<not> bsz < ?len" "?len \<noteq> 0" "Status = 0" "EnvStor env = 0" by blast
  then show ?thesis
  proof cases
    case small
    with assms show ?thesis
      using transferred_fail(1) [OF assms(1-3), of n x] by (auto simp: dispatch_copy_def)
  next
    case empty
    with assms(4,6) show ?thesis
      by (auto simp: dispatch_copy_def transferred_def balanced_def no_lock_def)
  next
    case lock
    then have "m = DMem x" "\<not> Mdl v" "\<not> BufferLocked v" using c assms(4) by (auto simp: no_lock_def)
    then show ?thesis
      using transferred_fail(2) [OF assms(1-3), of n "x\<lparr>DStatus := Status, DVars := v, DMem := m\<rparr>"]
        lock lk assms(6) by (auto simp: dispatch_copy_def no_lock_def)
  next
    case stor
    then have v: "BufferLocked v" and m: "m = (DMem x)\<lparr>Mdls := Mdls (DMem x) + 1, LockedMdls := LockedMdls (DMem x) + 1\<rparr>"
      using c assms(4) by (auto simp: no_lock_def)
    obtain m' d' where f: "fail_element SRB_STATUS_INTERNAL_ERROR e (m, DDev x) = (m', d')"
      by (cases "fail_element SRB_STATUS_INTERNAL_ERROR e (m, DDev x)")
    have x': "n = Retry" "x' = x\<lparr>DStatus := Status, DVars := v\<lparr>Mdl := False, BufferLocked := False\<rparr>,
        DMem := release_mdl v m', DDev := d'\<rparr>"
      using stor lk assms(6) f by (auto simp: dispatch_copy_def)
    have f': "fail_element SRB_STATUS_INTERNAL_ERROR e (m, DDev x) = (m', DDev x')"
      using f x' by simp
    have "failed 0 e x x'"
      by (rule failedI [OF assms(1-3) f' [unfolded m]])
         (use x' v fail_element_mdls [OF f] in \<open>simp_all add: m release_mdl_def no_lock_def\<close>)
    then show ?thesis by (simp add: transferred_def x')
  next
    case ok
    then have "n = Proceed \<and> (\<exists>u. x' = x\<lparr>DStatus := Status, DVars := v, DMem := m, DUser := u\<rparr>)"
      using lk assms(6) by (auto simp: dispatch_copy_def Let_def bind_eq_Some_conv split: if_splits)
    moreover have "Mdl v" "BufferLocked v"
      "m = (DMem x)\<lparr>Mdls := Mdls (DMem x) + 1, LockedMdls := LockedMdls (DMem x) + 1\<rparr>"
      using c ok assms(4) by (auto simp: no_lock_def)
    ultimately show ?thesis by (auto simp: transferred_def balanced_def)
  qed
qed


text \<open>The element in hand was submitted and described to the caller.\<close>

definition submitted :: "ptr \<Rightarrow> disp \<Rightarrow> disp \<Rightarrow> bool" where
  "submitted e x x' \<longleftrightarrow>
     queues_ok (DMem x') (DDev x') \<and> balanced (DVars x') (DMem x') (DMem x) \<and>
     PendingReqListHead (DDev x') = PendingReqListHead (DDev x) \<and>
     SubmittedReqListHead (DDev x') = SubmittedReqListHead (DDev x) @ [e] \<and>
     HardRemoveDevice (DDev x') = HardRemoveDevice (DDev x) \<and>
     Properties (DDev x') = Properties (DDev x) \<and>
     Notified (DMem x') = Notified (DMem x) \<and> same_cdbs (DMem x) (DMem x') \<and>
     Elems (DMem x') = (Elems (DMem x))
       (e := (Elems (DMem x) e)\<lparr>Tag := RequestHandleCounter (DMem x) + 1\<rparr>) \<and>
     RequestHandleCounter (DMem x') = RequestHandleCounter (DMem x) + 1 \<and>
     RequestHandle (DRequest x') = RequestHandleCounter (DMem x) + 1 \<and>
     RequestType (DRequest x') = srb_type (srb_of (DMem x) e) \<and>
     ValidateScsiRequest (DDev x) (srb_of (DMem x) e) \<and>
     dispatch_cmd (Properties (DDev x)) (Elems (DMem x) e) (the (SrbCdb (srb_of (DMem x) e)))
       (srb_type (srb_of (DMem x) e)) = Some (Cmd (DRequest x')) \<and>
     OutstandingIOCount (Stats (DDev x')) = OutstandingIOCount (Stats (DDev x)) \<and>
     UnsubmittedIORequests (Stats (DDev x')) = UnsubmittedIORequests (Stats (DDev x)) - 1 \<and>
     PendingSubmittedIORequests (Stats (DDev x')) = PendingSubmittedIORequests (Stats (DDev x)) + 1 \<and>
     AbortedSubmittedIORequests (Stats (DDev x')) = AbortedSubmittedIORequests (Stats (DDev x)) \<and>
     AbortedUnsubmittedIORequests (Stats (DDev x')) = AbortedUnsubmittedIORequests (Stats (DDev x))"

lemma dispatch_transfer_ok:
  assumes "queues_ok (DMem x) (DDev x)" "in_hand e (DMem x, DDev x)" "\<not> Completed (Elems (DMem x) e)"
    and "no_lock x" "lock_code_ok (EnvLock env)" "dispatch_transfer bsz env t e x = Some (n, x')"
  shows "transferred n e x x'"
proof -
  have "transferred Proceed e x x"
    using assms(4) by (simp add: transferred_def balanced_def no_lock_def)
  then show ?thesis
    using dispatch_unmap_ok [OF assms(1-5)] dispatch_copy_ok [OF assms(1-5)] assms(6)
    unfolding dispatch_transfer_def by (simp split: if_splits)
qed

lemma queues_ok_submit:
  assumes "queues_ok m d" "in_hand e (m, d)" "\<not> Completed (Elems m e)" "\<not> Aborted (Elems m e)"
    and "Tag (Elems m e) \<notin> (\<lambda>x. Tag (Elems m x)) ` set (SubmittedReqListHead d)"
    and "Tag (Elems m e) \<le> RequestHandleCounter m"
  shows "queues_ok m (WnbdSubmittedReqInsert m e d)"
proof -
  have "submitted_ok m (WnbdSubmittedReqInsert m e d)"
    using sq.inv_ins [of m d e] assms(1,5) by (simp add: queues_ok_def)
  then show ?thesis using assms
    by (auto simp: queues_ok_def in_hand_def linked_def queued_def WnbdSubmittedReqInsert_def)
qed

lemma tagged_validate [simp]:
  "srb_type (srb_of (tag_element e m) e) = srb_type (srb_of m e)"
  "ValidateScsiRequest d (srb_of (tag_element e m) e) = ValidateScsiRequest d (srb_of m e)"
  "SrbCdb (srb_of (tag_element e m) e) = SrbCdb (srb_of m e)"
  "DataBuffer (srb_of (tag_element e m) e) = DataBuffer (srb_of m e)"
  "DataLength (Elems (tag_element e m) e) = DataLength (Elems m e)"
  by (simp_all add: tag_element_sel srb_type_def ValidateScsiRequest_def)

lemma dispatch_cmd_tag [simp]:
  "dispatch_cmd props (el\<lparr>Tag := t\<rparr>) Cdb ty = dispatch_cmd props el Cdb ty"
  by (simp add: dispatch_cmd_def)

lemma dispatch_cmd_tagged [simp]:
  "dispatch_cmd props (Elems (tag_element e m) e) Cdb ty = dispatch_cmd props (Elems m e) Cdb ty"
  by (simp add: tag_element_sel)

lemma failed_tag:
  "failed 0 e (x\<lparr>DMem := tag_element e (DMem x), DRequest := r\<rparr>) x' \<Longrightarrow> failed 1 e x x'"
  by (auto simp: failed_def tag_element_sel same_cdbs_def)

lemma submittedI:
  assumes "queues_ok (DMem x) (DDev x)" "in_hand e (DMem x, DDev x)"
    and "\<not> Completed (Elems (DMem x) e)" "\<not> Aborted (Elems (DMem x) e)"
    and "RequestHandleCounter (DMem x) \<noteq> - 1"
    and "DDev z = DDev x" "balanced (DVars z) (DMem z) (tag_element e (DMem x))"
    and z: "DMem z = (tag_element e (DMem x))\<lparr>Mdls := Mdls (DMem z), LockedMdls := LockedMdls (DMem z)\<rparr>"
    and "ValidateScsiRequest (DDev x) (srb_of (DMem x) e)"
    and "RequestHandle (DRequest z) = Tag (Elems (tag_element e (DMem x)) e)"
    and "RequestType (DRequest z) = srb_type (srb_of (DMem x) e)"
    and "dispatch_cmd (Properties (DDev x)) (Elems (DMem x) e) (the (SrbCdb (srb_of (DMem x) e)))
           (srb_type (srb_of (DMem x) e)) = Some (Cmd (DRequest z))"
  shows "submitted e x (dispatch_submit env e z)"
proof -
  let ?m = "tag_element e (DMem x)"
  have sel: "Elems (DMem z) = Elems ?m" "Notified (DMem z) = Notified ?m"
    "RequestHandleCounter (DMem z) = RequestHandleCounter ?m" "Srbs (DMem z) = Srbs ?m"
    by (subst z, simp)+
  note tg = tag_element_ok [OF assms(1,2,5)]
  have "queues_ok ?m (WnbdSubmittedReqInsert ?m e (DDev x))"
    using tg assms(3,4) by (intro queues_ok_submit) (simp_all add: tag_element_sel)
  then have q: "queues_ok (DMem z) (WnbdSubmittedReqInsert ?m e (DDev x))"
    by (subst z) simp
  have ins: "WnbdSubmittedReqInsert (DMem z) e (DDev x) = WnbdSubmittedReqInsert ?m e (DDev x)"
    by (simp add: WnbdSubmittedReqInsert_def sel)
  have "queues_ok (DMem z) (DDev (dispatch_submit env e z))"
    using q by (simp add: dispatch_submit_def unsubmitted_dec_def ins assms(6))
  moreover have "SubmittedReqListHead (WnbdSubmittedReqInsert ?m e (DDev x)) = SubmittedReqListHead (DDev x) @ [e]"
    "PendingReqListHead (WnbdSubmittedReqInsert ?m e (DDev x)) = PendingReqListHead (DDev x)"
    "Stats (WnbdSubmittedReqInsert ?m e (DDev x)) = Stats (DDev x)"
    "HardRemoveDevice (WnbdSubmittedReqInsert ?m e (DDev x)) = HardRemoveDevice (DDev x)"
    "Properties (WnbdSubmittedReqInsert ?m e (DDev x)) = Properties (DDev x)"
    by (simp_all add: WnbdSubmittedReqInsert_def)
  ultimately show ?thesis
    using assms(7,9-12) unfolding submitted_def
    by (simp add: dispatch_submit_def unsubmitted_dec_def ins assms(6) sel tag_element_sel balanced_def
        same_cdbs_def)
qed

lemma flow_cases:
  assumes "(case n of Retry \<Rightarrow> Some (False, x) | Leave \<Rightarrow> Some (True, x) | Proceed \<Rightarrow> Some (True, f x))
      = Some (stop, x')"
  obtains "stop = (n \<noteq> Retry)" "x' = (if n = Proceed then f x else x)"
  using assms by (cases n) auto

lemma dispatch_element_ok:
  assumes "queues_ok (DMem x) (DDev x)" "in_hand e (DMem x, DDev x)"
    and "\<not> Completed (Elems (DMem x) e)" "\<not> Aborted (Elems (DMem x) e)" "no_lock x"
    and "lock_code_ok (EnvLock env)" "RequestHandleCounter (DMem x) \<noteq> - 1"
    and "dispatch_element bsz env e x = Some (stop, x')"
  shows "failed 1 e x x' \<or> stop \<and> submitted e x x'"
proof -
  let ?m = "tag_element e (DMem x)"
  let ?srb = "srb_of ?m e"
  let ?y = "x\<lparr>DMem := ?m, DRequest := zero_request\<rparr>"
  have ok: "queues_ok ?m (DDev x)" "in_hand e (?m, DDev x)" "\<not> Completed (Elems ?m e)" "\<not> Aborted (Elems ?m e)"
    using tag_element_ok(1,2) [OF assms(1,2,7)] assms(3,4) by (simp_all add: tag_element_sel)
  show ?thesis
  proof (cases "ValidateScsiRequest (DDev x) ?srb")
    case False
    have "transferred Retry e ?y
        (with_state (fail_element SRB_STATUS_INVALID_REQUEST e (DMem ?y, DDev ?y)) ?y)"
      by (rule transferred_fail(2)) (use ok assms(5) in \<open>simp_all add: no_lock_def\<close>)
    then have "failed 1 e x (with_state (fail_element SRB_STATUS_INVALID_REQUEST e (?m, DDev x)) ?y)"
      by (intro failed_tag [where r = zero_request]) (simp add: transferred_def)
    with False assms(8) show ?thesis by (auto simp: dispatch_element_def Let_def)
  next
    case True
    then obtain cmd where
      cmd: "dispatch_cmd (Properties (DDev x)) (Elems ?m e) (the (SrbCdb ?srb)) (srb_type ?srb) = Some cmd"
      and rest: "dispatch_transfer bsz env (srb_type ?srb) e (?y\<lparr>DRequest := \<lparr>RequestHandle = Tag (Elems ?m e),
                 RequestType = srb_type ?srb, Cmd = cmd\<rparr>\<rparr>) \<bind>
          (\<lambda>(n, x). case n of Retry \<Rightarrow> Some (False, x) | Leave \<Rightarrow> Some (True, x)
             | Proceed \<Rightarrow> Some (True, dispatch_submit env e x)) = Some (stop, x')"
      using assms(8) by (auto simp: dispatch_element_def Let_def bind_eq_Some_conv)
    from rest obtain n z where
      tr: "dispatch_transfer bsz env (srb_type ?srb) e (?y\<lparr>DRequest := \<lparr>RequestHandle = Tag (Elems ?m e),
                 RequestType = srb_type ?srb, Cmd = cmd\<rparr>\<rparr>) = Some (n, z)"
      and res: "stop = (n \<noteq> Retry)" "x' = (if n = Proceed then dispatch_submit env e z else z)"
      by (auto simp: bind_eq_Some_conv elim!: flow_cases)
    let ?z = "?y\<lparr>DRequest := \<lparr>RequestHandle = Tag (Elems ?m e), RequestType = srb_type ?srb, Cmd = cmd\<rparr>\<rparr>"
    have t: "transferred n e ?z z"
      by (rule dispatch_transfer_ok [OF _ _ _ _ assms(6) tr])
         (use ok assms(5) in \<open>simp_all add: no_lock_def\<close>)
    show ?thesis
    proof (cases "n = Proceed")
      case False
      with t have "failed 0 e ?z z" by (simp add: transferred_def)
      then have "failed 1 e x z" using failed_tag [where r = "DRequest ?z" and x = x] by simp
      with False res show ?thesis by simp
    next
      case Proceed: True
      have "submitted e x (dispatch_submit env e z)"
        using t Proceed True cmd by (intro submittedI [OF assms(1-4,7)]) (simp_all add: transferred_def)
      with Proceed res show ?thesis by simp
    qed
  qed
qed


section \<open>The loop\<close>

text \<open>
  What a run of the loop did with the pending list: a prefix was completed with errors, at
  most one element was submitted and described to the caller, at most one was dropped,
  which only happens when the device is being removed.
\<close>

definition describes :: "ptr \<Rightarrow> disp \<Rightarrow> bool" where
  "describes e x \<longleftrightarrow>
     RequestHandle (DRequest x) = Tag (Elems (DMem x) e) \<and>
     RequestType (DRequest x) = srb_type (srb_of (DMem x) e) \<and>
     ValidateScsiRequest (DDev x) (srb_of (DMem x) e) \<and>
     dispatch_cmd (Properties (DDev x)) (Elems (DMem x) e) (the (SrbCdb (srb_of (DMem x) e)))
       (srb_type (srb_of (DMem x) e)) = Some (Cmd (DRequest x))"

definition consumed :: "ptr list \<Rightarrow> ptr list \<Rightarrow> ptr list \<Rightarrow> disp \<Rightarrow> disp \<Rightarrow> bool" where
  "consumed fin sub lost x x' \<longleftrightarrow>
     queues_ok (DMem x') (DDev x') \<and> balanced (DVars x') (DMem x') (DMem x) \<and>
     PendingReqListHead (DDev x) = fin @ sub @ lost @ PendingReqListHead (DDev x') \<and>
     SubmittedReqListHead (DDev x') = SubmittedReqListHead (DDev x) @ sub \<and>
     Notified (DMem x') = Notified (DMem x) @ srbs_of (DMem x) fin \<and>
     length sub + length lost \<le> 1 \<and> (lost \<noteq> [] \<longrightarrow> HardRemoveDevice (DDev x')) \<and>
     (sub \<noteq> [] \<longrightarrow> \<not> HardRemoveDevice (DDev x')) \<and>
     (\<forall>e \<in> set sub. describes e x') \<and>
     (\<forall>y. y \<notin> set fin \<longrightarrow> Elems (DMem x') y = (Elems (DMem x) y)\<lparr>Tag := Tag (Elems (DMem x') y)\<rparr>) \<and>
     same_cdbs (DMem x) (DMem x') \<and> Properties (DDev x') = Properties (DDev x) \<and>
     OutstandingIOCount (Stats (DDev x')) = OutstandingIOCount (Stats (DDev x)) - of_nat (length fin) \<and>
     UnsubmittedIORequests (Stats (DDev x')) =
       UnsubmittedIORequests (Stats (DDev x)) - of_nat (length fin + length sub) \<and>
     PendingSubmittedIORequests (Stats (DDev x')) =
       PendingSubmittedIORequests (Stats (DDev x)) + of_nat (length sub) \<and>
     AbortedSubmittedIORequests (Stats (DDev x')) = AbortedSubmittedIORequests (Stats (DDev x)) \<and>
     AbortedUnsubmittedIORequests (Stats (DDev x')) = AbortedUnsubmittedIORequests (Stats (DDev x))"

lemma consumed_failed:
  assumes "failed k e y x'" "DMem y = DMem x" "DVars y = DVars x" "no_lock x"
    and "PendingReqListHead (DDev x) = e # PendingReqListHead (DDev y)"
    and "SubmittedReqListHead (DDev y) = SubmittedReqListHead (DDev x)"
    and "Stats (DDev y) = Stats (DDev x)" "Properties (DDev y) = Properties (DDev x)"
  shows "consumed [e] [] [] x x' \<and> no_lock x'"
  using assms unfolding failed_def consumed_def balanced_def no_lock_def
  by (auto simp: srbs_of_def same_cdbs_def)

lemma srb_type_cong: "SrbCdb s' = SrbCdb s \<Longrightarrow> srb_type s' = srb_type s"
  by (simp add: srb_type_def)

lemma ValidateScsiRequest_cong:
  "SrbCdb s' = SrbCdb s \<Longrightarrow> Properties d' = Properties d \<Longrightarrow>
     ValidateScsiRequest d' s' = ValidateScsiRequest d s"
  by (simp only: ValidateScsiRequest_def)

lemma consumed_submitted:
  assumes "submitted e y x'" "\<not> HardRemoveDevice (DDev y)" "DMem y = DMem x" "DVars y = DVars x"
    and "PendingReqListHead (DDev x) = e # PendingReqListHead (DDev y)"
    and "SubmittedReqListHead (DDev y) = SubmittedReqListHead (DDev x)"
    and "Stats (DDev y) = Stats (DDev x)" "Properties (DDev y) = Properties (DDev x)"
  shows "consumed [] [e] [] x x'"
proof -
  have cdb: "SrbCdb (srb_of (DMem x') e) = SrbCdb (srb_of (DMem x) e)"
    using assms(1,3) by (simp add: submitted_def same_cdbs_def)
  have st: "srb_type (srb_of (DMem x') e) = srb_type (srb_of (DMem x) e)"
    "ValidateScsiRequest (DDev x') (srb_of (DMem x') e) = ValidateScsiRequest (DDev y) (srb_of (DMem x) e)"
    using srb_type_cong [OF cdb] ValidateScsiRequest_cong [OF cdb] assms(1)
    by (simp_all add: submitted_def)
  have "describes e x'"
    using assms(1,3) cdb st by (simp add: describes_def submitted_def)
  with assms show ?thesis
    unfolding consumed_def submitted_def by (auto simp: srbs_of_def)
qed

lemma consumed_idle:
  assumes "queues_ok (DMem x') (DDev x')" "DMem x' = DMem x" "DVars x' = DVars x" "no_lock x"
    and "PendingReqListHead (DDev x) = lost @ PendingReqListHead (DDev x')"
    and "SubmittedReqListHead (DDev x') = SubmittedReqListHead (DDev x)"
    and "Stats (DDev x') = Stats (DDev x)" "Properties (DDev x') = Properties (DDev x)"
    and "length lost \<le> 1" "lost \<noteq> [] \<longrightarrow> HardRemoveDevice (DDev x')"
  shows "consumed [] [] lost x x' \<and> no_lock x'"
  using assms unfolding consumed_def balanced_def no_lock_def
  by (auto simp: srbs_of_def same_cdbs_def)

lemma consumed_trans:
  assumes "consumed d1 [] [] x y" "no_lock y" "consumed d2 sub lost y z"
    and "distinct (PendingReqListHead (DDev x))"
  shows "consumed (d1 @ d2) sub lost x z"
proof -
  have el: "\<And>e. e \<notin> set d1 \<Longrightarrow> Elems (DMem y) e = (Elems (DMem x) e)\<lparr>Tag := Tag (Elems (DMem y) e)\<rparr>"
    using assms(1) by (simp add: consumed_def)
  have pend: "PendingReqListHead (DDev x) = d1 @ d2 @ sub @ lost @ PendingReqListHead (DDev z)"
    using assms(1,3) by (simp add: consumed_def)
  have "srbs_of (DMem y) d2 = srbs_of (DMem x) d2"
  proof (rule srbs_of_cong)
    fix e assume "e \<in> set d2"
    then have "e \<notin> set d1" using assms(4) pend by auto
    from el [OF this] show "ElemSrb (Elems (DMem y) e) = ElemSrb (Elems (DMem x) e)"
      by (metis SRB_QUEUE_ELEMENT.select_convs(1) SRB_QUEUE_ELEMENT.surjective
          SRB_QUEUE_ELEMENT.update_convs(6))
  qed
  then have "Notified (DMem z) = Notified (DMem x) @ srbs_of (DMem x) (d1 @ d2)"
    using assms(1,3) by (simp add: consumed_def srbs_of_def)
  moreover have "balanced (DVars z) (DMem z) (DMem x)"
    using assms(1-3) by (simp add: consumed_def balanced_def no_lock_def)
  moreover have "Elems (DMem z) e = (Elems (DMem x) e)\<lparr>Tag := Tag (Elems (DMem z) e)\<rparr>"
    if "e \<notin> set (d1 @ d2)" for e
  proof -
    have "Elems (DMem z) e = (Elems (DMem y) e)\<lparr>Tag := Tag (Elems (DMem z) e)\<rparr>"
      using assms(3) that unfolding consumed_def by simp
    also have "\<dots> = (Elems (DMem x) e)\<lparr>Tag := Tag (Elems (DMem z) e)\<rparr>"
      by (subst el) (use that in simp_all)
    finally show ?thesis .
  qed
  moreover have "same_cdbs (DMem x) (DMem z)"
    using assms(1,3) by (simp add: consumed_def same_cdbs_def)
  moreover have "SubmittedReqListHead (DDev z) = SubmittedReqListHead (DDev x) @ sub"
    "Properties (DDev z) = Properties (DDev x)"
    "OutstandingIOCount (Stats (DDev z)) = OutstandingIOCount (Stats (DDev x)) - of_nat (length (d1 @ d2))"
    "UnsubmittedIORequests (Stats (DDev z)) =
       UnsubmittedIORequests (Stats (DDev x)) - of_nat (length (d1 @ d2) + length sub)"
    using assms(1,3) by (simp_all add: consumed_def)
  ultimately show ?thesis
    using pend assms(1,3) unfolding consumed_def by simp
qed


lemma pop_ok:
  assumes "queues_ok m d" "PendingReqListHead d = e # es"
  shows "queues_ok m (d\<lparr>DeviceEvent := DeviceEvent d - 1, PendingReqListHead := es\<rparr>)"
    "in_hand e (m, d\<lparr>DeviceEvent := DeviceEvent d - 1, PendingReqListHead := es\<rparr>)"
    "\<not> Aborted (Elems m e)" "\<not> Completed (Elems m e)"
  using assms by (auto simp: queue_defs)

lemma dispatch_iter_ok:
  assumes "queues_ok (DMem x) (DDev x)" "no_lock x" "lock_code_ok (EnvLock env)"
    and "RequestHandleCounter (DMem x) \<noteq> - 1" "dispatch_iter bsz env x = Some (stop, x')"
  shows "(\<exists>fin sub lost. consumed fin sub lost x x' \<and> (stop \<or> sub = [] \<and> lost = [] \<and> no_lock x'))"
proof -
  define d where "d = (if EnvHard env then WnbdDisconnectAsync (DDev x) else DDev x)"
  have d: "queues_ok (DMem x) d" "PendingReqListHead d = PendingReqListHead (DDev x)"
    "SubmittedReqListHead d = SubmittedReqListHead (DDev x)" "Stats d = Stats (DDev x)"
    "Properties d = Properties (DDev x)"
    using assms(1) by (simp_all add: d_def)
  show ?thesis
  proof (cases "EnvWait env = WAIT_0 \<and> PendingReqListHead (DDev x) \<noteq> []")
    case False
    let ?d1 = "d\<lparr>DeviceRemovalEvent := True\<rparr>" and ?d2 = "d\<lparr>DeviceEvent := DeviceEvent d - 1\<rparr>"
    obtain d' where x': "x' = x\<lparr>DDev := d'\<rparr>"
      and d': "d' = d \<or> d' = ?d1 \<or> PendingReqListHead d = [] \<and> d' = ?d2"
    proof (cases "EnvWait env")
      case WAIT_0
      then have "PendingReqListHead d = []" using False d(2) by simp
      with WAIT_0 assms(5) show ?thesis
        by (intro that [of ?d2]) (auto simp: dispatch_iter_def d_def [symmetric] Let_def)
    next
      case WAIT_1
      with assms(5) show ?thesis
        by (intro that [of d]) (auto simp: dispatch_iter_def d_def [symmetric] Let_def)
    next
      case ALERTED
      with assms(5) show ?thesis
        by (intro that [of ?d1]) (auto simp: dispatch_iter_def d_def [symmetric] Let_def)
    qed
    have "queues_ok (DMem x) d'" using d' d(1) by (auto simp: queue_defs)
    then have "consumed [] [] [] x x' \<and> no_lock x'"
      by (intro consumed_idle) (use d d' assms(2) in \<open>auto simp: x'\<close>)
    then show ?thesis by blast
  next
    case True
    then obtain e es where p: "PendingReqListHead d = e # es" by (cases "PendingReqListHead d") (auto simp: d)
    let ?d = "d\<lparr>DeviceEvent := DeviceEvent d - 1, PendingReqListHead := es\<rparr>"
    let ?y = "x\<lparr>DDev := ?d\<rparr>"
    note pop = pop_ok [OF d(1) p]
    have run: "(if HardRemoveDevice d then Some (True, ?y) else dispatch_element bsz env e ?y) = Some (stop, x')"
      using assms(5) True p
      by (simp add: dispatch_iter_def d_def [symmetric] Let_def split: if_splits)
    show ?thesis
    proof (cases "HardRemoveDevice d")
      case h: True
      with run have x': "stop" "x' = ?y" by simp_all
      have "consumed [] [] [e] x x' \<and> no_lock x'"
        by (intro consumed_idle) (use d p pop assms(2) h x' in auto)
      with x'(1) show ?thesis by blast
    next
      case h: False
      then have "failed 1 e ?y x' \<or> stop \<and> submitted e ?y x'"
        by (intro dispatch_element_ok) (use pop assms(2-4) run in \<open>auto simp: no_lock_def\<close>)
      then show ?thesis
      proof
        assume "failed 1 e ?y x'"
        then have "consumed [e] [] [] x x' \<and> no_lock x'"
          by (rule consumed_failed) (use d p assms(2) in auto)
        then show ?thesis by blast
      next
        assume s: "stop \<and> submitted e ?y x'"
        then have "consumed [] [e] [] x x'"
          by (intro consumed_submitted [of e ?y]) (use d p h in auto)
        with s show ?thesis by blast
      qed
    qed
  qed
qed

text \<open>The handle counter moves by at most one per iteration.\<close>

lemma dispatch_iter_counter:
  assumes "queues_ok (DMem x) (DDev x)" "no_lock x" "lock_code_ok (EnvLock env)"
    and "RequestHandleCounter (DMem x) \<noteq> - 1" "dispatch_iter bsz env x = Some (stop, x')"
  shows "RequestHandleCounter (DMem x') \<in> {RequestHandleCounter (DMem x), RequestHandleCounter (DMem x) + 1}"
proof -
  define d where "d = (if EnvHard env then WnbdDisconnectAsync (DDev x) else DDev x)"
  have d: "queues_ok (DMem x) d" using assms(1) by (auto simp: d_def)
  show ?thesis
  proof (cases "EnvWait env = WAIT_0 \<and> PendingReqListHead d \<noteq> [] \<and> \<not> HardRemoveDevice d")
    case False
    then have "DMem x' = DMem x" using assms(5)
      by (cases "EnvWait env")
         (auto simp: dispatch_iter_def d_def [symmetric] Let_def split: list.splits if_splits)
    then show ?thesis by simp
  next
    case True
    then obtain e es where p: "PendingReqListHead d = e # es" by (cases "PendingReqListHead d") auto
    let ?y = "x\<lparr>DDev := d\<lparr>DeviceEvent := DeviceEvent d - 1, PendingReqListHead := es\<rparr>\<rparr>"
    have run: "dispatch_element bsz env e ?y = Some (stop, x')"
      using assms(5) True p by (simp add: dispatch_iter_def d_def [symmetric] Let_def)
    have "failed 1 e ?y x' \<or> stop \<and> submitted e ?y x'"
      by (intro dispatch_element_ok) (use pop_ok [OF d p] assms(2-4) run in \<open>auto simp: no_lock_def\<close>)
    then show ?thesis by (auto simp: failed_def submitted_def)
  qed
qed


definition results :: "'a run \<Rightarrow> 'a set" where
  "results r = (case r of Returned x \<Rightarrow> {x} | Waiting x \<Rightarrow> {x} | Fault \<Rightarrow> {})"

lemma results_simps [simp]:
  "results (Returned x) = {x}" "results (Waiting x) = {x}" "results Fault = {}"
  by (simp_all add: results_def)

lemma counter_step:
  fixes c c' :: u64
  assumes "unat c + Suc n < 2 ^ 64" "c' \<in> {c, c + 1}"
  shows "c \<noteq> - 1" "unat c' + n < 2 ^ 64"
proof -
  show "c \<noteq> - 1"
  proof
    assume "c = - 1"
    then have "unat c = 2 ^ 64 - 1" by (simp add: unsigned_minus_1_eq_mask mask_eq_exp_minus_1)
    with assms(1) show False by simp
  qed
  have "unat c + 1 < 2 ^ LENGTH(64)" using assms(1) by simp
  then have "unat (c + 1) = unat c + 1" by (subst unat_add_lem [THEN iffD1]) simp_all
  then show "unat c' + n < 2 ^ 64" using assms by auto
qed

lemma dispatch_loop_ok:
  assumes "queues_ok (DMem x) (DDev x)" "no_lock x" "\<forall>env \<in> set envs. lock_code_ok (EnvLock env)"
    and "unat (RequestHandleCounter (DMem x)) + length envs < 2 ^ 64"
    and "x' \<in> results (dispatch_loop bsz envs x)"
  shows "\<exists>fin sub lost. consumed fin sub lost x x' \<and>
    (dispatch_loop bsz envs x = Waiting x' \<longrightarrow> sub = [] \<and> lost = [] \<and> no_lock x')"
  using assms
proof (induction envs arbitrary: x)
  case Nil
  then have "x' = x" by (auto simp: dispatch_loop.simps split: if_splits)
  with Nil.prems consumed_idle [of x x "[]"] show ?case by auto
next
  case (Cons env envs)
  show ?case
  proof (cases "HardRemoveDevice (DDev x)")
    case True
    with Cons.prems consumed_idle [of x x "[]"] show ?thesis
      by (auto simp: dispatch_loop.simps [of bsz "env # envs"])
  next
    case False
    then obtain stop y where it: "dispatch_iter bsz env x = Some (stop, y)"
      using Cons.prems(5) by (cases "dispatch_iter bsz env x")
        (auto simp: dispatch_loop.simps [of bsz "env # envs"])
    have lp: "dispatch_loop bsz (env # envs) x = (if stop then Returned y else dispatch_loop bsz envs y)"
      using False it by (simp add: dispatch_loop.simps [of bsz "env # envs"] split: bool.splits)
    have c0: "unat (RequestHandleCounter (DMem x)) + Suc (length envs) < 2 ^ 64"
      using Cons.prems(4) by simp
    have ne: "RequestHandleCounter (DMem x) \<noteq> - 1" by (rule counter_step(1) [OF c0, of "RequestHandleCounter (DMem x)"]) simp
    have lk: "lock_code_ok (EnvLock env)" using Cons.prems(3) by simp
    obtain fin sub lost where c: "consumed fin sub lost x y"
      "stop \<or> sub = [] \<and> lost = [] \<and> no_lock y"
      using dispatch_iter_ok [OF Cons.prems(1,2) lk ne it] by blast
    show ?thesis
    proof (cases stop)
      case True
      with lp c Cons.prems(5) show ?thesis by auto
    next
      case ns: False
      have q: "queues_ok (DMem y) (DDev y)" using c(1) by (simp add: consumed_def)
      have n: "unat (RequestHandleCounter (DMem y)) + length envs < 2 ^ 64"
        using counter_step(2) [OF c0 dispatch_iter_counter [OF Cons.prems(1,2) lk ne it]] .
      obtain d2 s2 l2 where r: "consumed d2 s2 l2 y x'"
        "dispatch_loop bsz envs y = Waiting x' \<longrightarrow> s2 = [] \<and> l2 = [] \<and> no_lock x'"
        using Cons.IH [OF q _ _ n] c ns lp Cons.prems(3,5) by auto
      have "distinct (PendingReqListHead (DDev x))" using Cons.prems(1) by (simp add: queue_defs)
      then have "consumed (fin @ d2) s2 l2 x x'"
        using consumed_trans [OF _ _ r(1)] c ns by simp
      with r(2) ns lp show ?thesis by auto
    qed
  qed
qed


section \<open>Dispatching a request\<close>

lemma dispatch_exit_sel [simp]:
  "DDev (dispatch_exit x) = DDev x" "Elems (DMem (dispatch_exit x)) = Elems (DMem x)"
  "Notified (DMem (dispatch_exit x)) = Notified (DMem x)"
  "queues_ok (DMem (dispatch_exit x)) d = queues_ok (DMem x) d"
  "Srbs (DMem (dispatch_exit x)) = Srbs (DMem x)"
  by (simp_all add: dispatch_exit_def Let_def)

lemma dispatch_exit_balanced:
  "balanced (DVars x) (DMem x) m \<Longrightarrow>
     Mdls (DMem (dispatch_exit x)) = Mdls m \<and> LockedMdls (DMem (dispatch_exit x)) = LockedMdls m"
  using release_balanced [of "DVars x" "DMem x" m]
  by (cases "Mdl (DVars x)") (auto simp: dispatch_exit_def Let_def balanced_def)

definition start_disp :: "WNBD_IO_REQUEST \<Rightarrow> bytes \<Rightarrow> dstate \<Rightarrow> disp" where
  "start_disp req user s = \<lparr>DStatus = 0, DVars = no_mdl, DRequest = req, DUser = user,
     DMem = fst s, DDev = snd s\<rparr>"

lemma start_disp_sel [simp]:
  "DMem (start_disp req user s) = fst s" "DDev (start_disp req user s) = snd s"
  "no_lock (start_disp req user s)" "DStatus (start_disp req user s) = 0"
  "DUser (start_disp req user s) = user"
  by (simp_all add: start_disp_def no_lock_def no_mdl_def)

lemma WnbdDispatchRequest_cases:
  assumes "WnbdDispatchRequest pid req user bsz envs s = Returned x"
  obtains (denied) "x = (start_disp req user s)\<lparr>DStatus := STATUS_ACCESS_DENIED\<rparr>"
  | (ran) y where "dispatch_loop bsz envs (start_disp req user s) = Returned y" "x = dispatch_exit y"
  using assms
  by (auto simp: WnbdDispatchRequest_def start_disp_def Let_def split: if_splits run.splits)

lemma consumed_start:
  "queues_ok (fst s) (snd s) \<Longrightarrow>
     consumed [] [] [] (start_disp req user s) ((start_disp req user s)\<lparr>DStatus := st\<rparr>)"
  using consumed_idle [of "(start_disp req user s)\<lparr>DStatus := st\<rparr>" "start_disp req user s" "[]"]
  by (auto simp: no_lock_def start_disp_def no_mdl_def)

lemma WnbdDispatchRequest_ok:
  assumes "queues_ok (fst s) (snd s)" "\<forall>env \<in> set envs. lock_code_ok (EnvLock env)"
    and "unat (RequestHandleCounter (fst s)) + length envs < 2 ^ 64"
    and "WnbdDispatchRequest pid req user bsz envs s = Returned x"
  shows "\<exists>y fin sub lost. consumed fin sub lost (start_disp req user s) y \<and> DDev x = DDev y \<and>
    Elems (DMem x) = Elems (DMem y) \<and> Notified (DMem x) = Notified (DMem y) \<and>
    Srbs (DMem x) = Srbs (DMem y) \<and> queues_ok (DMem x) (DDev x) \<and> Mdls (DMem x) = Mdls (fst s) \<and>
    LockedMdls (DMem x) = LockedMdls (fst s) \<and> (sub \<noteq> [] \<longrightarrow> DRequest x = DRequest y)"
    (is "\<exists>y fin sub lost. ?P y fin sub lost")
  using assms(4)
proof (cases rule: WnbdDispatchRequest_cases)
  case denied
  with assms(1) consumed_start [OF assms(1), of req user STATUS_ACCESS_DENIED]
  have "?P x [] [] []" by simp
  then show ?thesis by blast
next
  case (ran y)
  then obtain fin sub lost where c: "consumed fin sub lost (start_disp req user s) y"
    using dispatch_loop_ok [of "start_disp req user s" envs y bsz] assms(1-3) by auto
  then have b: "balanced (DVars y) (DMem y) (fst s)" "queues_ok (DMem y) (DDev y)"
    "sub \<noteq> [] \<longrightarrow> \<not> HardRemoveDevice (DDev y)"
    by (simp_all add: consumed_def)
  have "?P y fin sub lost"
    using c dispatch_exit_balanced [OF b(1)] b(2,3) ran(2) by (auto simp: dispatch_exit_def Let_def)
  then show ?thesis by blast
qed

text \<open>
  C8: a fetch that returns has accounted for every request it took from the pending list:
  a prefix was handed back to the port driver with an error, at most one request was
  submitted, and at most one was dropped, only while the device is being removed. The
  queue invariant holds again, and every descriptor list that was allocated or locked was
  released.
\<close>

theorem dispatch_accounts:
  assumes "queues_ok m d" "\<forall>env \<in> set envs. lock_code_ok (EnvLock env)"
    and "unat (RequestHandleCounter m) + length envs < 2 ^ 64"
    and "WnbdDispatchRequest pid req user bsz envs (m, d) = Returned x"
  shows "queues_ok (DMem x) (DDev x) \<and> Mdls (DMem x) = Mdls m \<and> LockedMdls (DMem x) = LockedMdls m \<and>
    (\<exists>fin sub lost.
       PendingReqListHead d = fin @ sub @ lost @ PendingReqListHead (DDev x) \<and>
       SubmittedReqListHead (DDev x) = SubmittedReqListHead d @ sub \<and>
       Notified (DMem x) = Notified m @ srbs_of m fin \<and>
       length sub + length lost \<le> 1 \<and> (lost \<noteq> [] \<longrightarrow> HardRemoveDevice (DDev x)))"
proof -
  from assms obtain y fin sub lost where c: "consumed fin sub lost (start_disp req user (m, d)) y"
    and x: "DDev x = DDev y" "Notified (DMem x) = Notified (DMem y)" "queues_ok (DMem x) (DDev x)"
    "Mdls (DMem x) = Mdls m" "LockedMdls (DMem x) = LockedMdls m"
    using WnbdDispatchRequest_ok [of "(m, d)" envs pid req user bsz x] unfolding fst_conv snd_conv by blast
  from c have "PendingReqListHead d = fin @ sub @ lost @ PendingReqListHead (DDev x)"
    "SubmittedReqListHead (DDev x) = SubmittedReqListHead d @ sub"
    "Notified (DMem x) = Notified m @ srbs_of m fin" "length sub + length lost \<le> 1"
    "lost \<noteq> [] \<longrightarrow> HardRemoveDevice (DDev x)"
    by (simp_all add: consumed_def x)
  with x show ?thesis by blast
qed

text \<open>
  The request handed to user space describes the request that was submitted: its
  handle is the tag under which the reply will be looked up, its type and its command
  are those of the command descriptor, and the device's capabilities allow it.
\<close>

lemma dispatch_describes_submitted:
  assumes "queues_ok m d" "\<forall>env \<in> set envs. lock_code_ok (EnvLock env)"
    and "unat (RequestHandleCounter m) + length envs < 2 ^ 64"
    and "WnbdDispatchRequest pid req user bsz envs (m, d) = Returned x"
    and "SubmittedReqListHead (DDev x) = SubmittedReqListHead d @ [e]"
  shows "RequestHandle (DRequest x) = Tag (Elems (DMem x) e) \<and>
    RequestType (DRequest x) = srb_type (srb_of m e) \<and> ValidateScsiRequest d (srb_of m e) \<and>
    dispatch_cmd (Properties d) (Elems m e) (the (SrbCdb (srb_of m e))) (srb_type (srb_of m e))
      = Some (Cmd (DRequest x))"
proof -
  from assms(1-4) obtain y fin sub lost where c: "consumed fin sub lost (start_disp req user (m, d)) y"
    and x: "DDev x = DDev y" "Elems (DMem x) = Elems (DMem y)" "Srbs (DMem x) = Srbs (DMem y)"
    "sub \<noteq> [] \<longrightarrow> DRequest x = DRequest y"
    using WnbdDispatchRequest_ok [of "(m, d)" envs pid req user bsz x] unfolding fst_conv snd_conv by blast
  from c x assms(5) have sub: "sub = [e]" by (simp add: consumed_def)
  have el: "Elems (DMem y) e = (Elems m e)\<lparr>Tag := Tag (Elems (DMem y) e)\<rparr>"
  proof -
    have "distinct (fin @ sub @ lost @ PendingReqListHead (DDev y))"
      using c assms(1) by (auto simp: consumed_def queue_defs)
    then have "e \<notin> set fin" using sub by simp
    with c show ?thesis by (simp add: consumed_def)
  qed
  have srb: "ElemSrb (Elems (DMem y) e) = ElemSrb (Elems m e)" by (subst el) simp
  have cdb: "SrbCdb (srb_of (DMem y) e) = SrbCdb (srb_of m e)"
    using c srb by (simp add: consumed_def same_cdbs_def)
  have ds: "describes e y" "Properties (DDev y) = Properties d"
    using c sub by (simp_all add: consumed_def)
  have cmd: "dispatch_cmd props (Elems (DMem y) e) Cdb ty = dispatch_cmd props (Elems m e) Cdb ty"
    for props Cdb ty by (subst el) simp
  show ?thesis
    using ds x sub srb_type_cong [OF cdb] ValidateScsiRequest_cong [OF cdb ds(2)] cdb cmd
    by (simp add: describes_def)
qed


section \<open>Progress\<close>

text \<open>The kernel grants what an iteration asks for.\<close>

definition granting :: "dispatch_env \<Rightarrow> bool" where
  "granting env \<longleftrightarrow> EnvWait env = WAIT_0 \<and> \<not> EnvHard env \<and> EnvLock env = LockOk \<and> EnvStor env = 0"

text \<open>A request the caller's buffer has room for, with the data its block announces.\<close>

definition deliverable :: "WNBD_DISK_DEVICE \<Rightarrow> u32 \<Rightarrow> nat \<Rightarrow> SRB \<Rightarrow> u32 \<Rightarrow> bool" where
  "deliverable d bsz avail srb len \<longleftrightarrow>
     ValidateScsiRequest d srb \<and> BlockSize (Properties d) \<noteq> 0 \<and>
     16 \<le> bsz \<and> len \<le> bsz \<and> unat bsz \<le> avail \<and>
     (case DataBuffer srb of None \<Rightarrow> len = 0 | Some b \<Rightarrow> unat len \<le> length b)"

lemma dispatch_transfer_proceeds:
  assumes "deliverable (DDev x) bsz (length (DUser x)) (srb_of (DMem x) e) (DataLength (Elems (DMem x) e))"
    and "granting env" "DStatus x = 0"
  shows "\<exists>z. dispatch_transfer bsz env t e x = Some (Proceed, z) \<and> DStatus z = 0 \<and> DDev z = DDev x"
proof -
  let ?len = "DataLength (Elems (DMem x) e)"
  have fits: "16 \<le> bsz" "?len \<le> bsz" "unat bsz \<le> length (DUser x)"
    and bs: "BlockSize (Properties (DDev x)) \<noteq> 0"
    using assms(1) by (simp_all add: deliverable_def)
  have le: "16 \<le> length (DUser x)" "unat ?len \<le> length (DUser x)"
    using fits by (simp_all add: word_le_nat_alt)
  have lk: "LockFetchBuffer (EnvLock env) (DVars x) (DMem x) =
      (0, \<lparr>Buffer = True, Mdl = True, BufferLocked = True\<rparr>,
       (DMem x)\<lparr>Mdls := Mdls (DMem x) + 1, LockedMdls := LockedMdls (DMem x) + 1\<rparr>)"
    using assms(2) by (simp add: LockFetchBuffer_def granting_def)
  have st: "EnvStor env = 0" using assms(2) by (simp add: granting_def)
  have un: "\<exists>z. dispatch_unmap bsz env e x = Some (Proceed, z) \<and> DStatus z = 0 \<and> DDev z = DDev x"
    using fits(1) bs le lk by (simp add: dispatch_unmap_def unmap_descriptor_def store_def not_less)
  have "\<exists>z. dispatch_copy bsz env e x = Some (Proceed, z) \<and> DStatus z = 0 \<and> DDev z = DDev x"
  proof (cases "?len = 0")
    case True
    then show ?thesis using assms(3) by (simp add: dispatch_copy_def)
  next
    case False
    then obtain b where "DataBuffer (srb_of (DMem x) e) = Some b" "unat ?len \<le> length b"
      using assms(1) by (auto simp: deliverable_def split: option.splits)
    then show ?thesis using False fits(2) le lk st
      by (simp add: dispatch_copy_def Let_def fetch_def store_def leD)
  qed
  with un assms(3) show ?thesis by (simp add: dispatch_transfer_def)
qed

lemma dispatch_cmd_total: "BlockSize props \<noteq> 0 \<Longrightarrow> \<exists>c. dispatch_cmd props el Cdb t = Some c"
  by (cases t) (simp_all add: dispatch_cmd_def Let_def)

lemma dispatch_element_delivers:
  assumes "deliverable (DDev x) bsz (length (DUser x)) (srb_of (DMem x) e) (DataLength (Elems (DMem x) e))"
    and "granting env" "DStatus x = 0"
  shows "\<exists>z. dispatch_element bsz env e x = Some (True, dispatch_submit env e z) \<and> DStatus z = 0 \<and>
    DDev z = DDev x"
proof -
  let ?m = "tag_element e (DMem x)"
  have v: "ValidateScsiRequest (DDev x) (srb_of (DMem x) e)" "BlockSize (Properties (DDev x)) \<noteq> 0"
    using assms(1) by (simp_all add: deliverable_def)
  obtain c where c: "dispatch_cmd (Properties (DDev x)) (Elems (DMem x) e) (the (SrbCdb (srb_of (DMem x) e)))
      (srb_type (srb_of (DMem x) e)) = Some c"
    using dispatch_cmd_total [OF v(2)] by blast
  let ?y = "x\<lparr>DMem := ?m, DRequest := \<lparr>RequestHandle = Tag (Elems ?m e),
      RequestType = srb_type (srb_of (DMem x) e), Cmd = c\<rparr>\<rparr>"
  have "deliverable (DDev ?y) bsz (length (DUser ?y)) (srb_of (DMem ?y) e) (DataLength (Elems (DMem ?y) e))"
    using assms(1) by (simp add: deliverable_def)
  from dispatch_transfer_proceeds [OF this assms(2), of "srb_type (srb_of (DMem x) e)"] assms(3)
  obtain z where "dispatch_transfer bsz env (srb_type (srb_of (DMem x) e)) e ?y = Some (Proceed, z)"
    "DStatus z = 0" "DDev z = DDev x" by auto
  with v c show ?thesis by (intro exI [of _ z]) (simp add: dispatch_element_def Let_def)
qed

text \<open>An unsupported request at the head of the list is completed and skipped.\<close>

lemma dispatch_iter_skips:
  assumes "queues_ok (DMem x) (DDev x)" "no_lock x" "RequestHandleCounter (DMem x) \<noteq> - 1"
    and "granting env" "\<not> HardRemoveDevice (DDev x)" "PendingReqListHead (DDev x) = e # es"
    and "\<not> ValidateScsiRequest (DDev x) (srb_of (DMem x) e)"
  shows "\<exists>y. dispatch_iter bsz env x = Some (False, y) \<and> consumed [e] [] [] x y \<and> no_lock y \<and>
    \<not> HardRemoveDevice (DDev y) \<and> DUser y = DUser x \<and> DStatus y = DStatus x \<and>
    RequestHandleCounter (DMem y) = RequestHandleCounter (DMem x) + 1"
proof -
  let ?d = "(DDev x)\<lparr>DeviceEvent := DeviceEvent (DDev x) - 1, PendingReqListHead := es\<rparr>"
  let ?x = "x\<lparr>DDev := ?d\<rparr>"
  let ?m = "tag_element e (DMem x)"
  let ?y = "with_state (fail_element SRB_STATUS_INVALID_REQUEST e (?m, ?d))
     (?x\<lparr>DMem := ?m, DRequest := zero_request\<rparr>)"
  have nv: "\<not> ValidateScsiRequest ?d (srb_of (DMem x) e)"
    using assms(7) ValidateScsiRequest_cong [of "srb_of (DMem x) e" _ ?d "DDev x"] by simp
  have el: "dispatch_element bsz env e ?x = Some (False, ?y)"
    using nv by (simp add: dispatch_element_def Let_def)
  have it: "dispatch_iter bsz env x = Some (False, ?y)"
    using assms(4,5,6) el by (simp add: dispatch_iter_def granting_def Let_def)
  note pop = pop_ok [OF assms(1,6)]
  have f: "failed 1 e ?x ?y"
    using dispatch_element_ok [OF _ _ _ _ _ _ _ el] pop assms(2-4)
    by (simp add: no_lock_def granting_def)
  then have "consumed [e] [] [] x ?y \<and> no_lock ?y"
    by (rule consumed_failed) (use assms(2,6) in auto)
  with f it assms(5) show ?thesis by (simp add: failed_def with_state_def)
qed


lemma consumed_keeps:
  assumes "consumed [b] [] [] x y" "e \<noteq> b"
  shows "SrbCdb (srb_of (DMem y) e) = SrbCdb (srb_of (DMem x) e)"
    "DataBuffer (srb_of (DMem y) e) = DataBuffer (srb_of (DMem x) e)"
    "DataLength (Elems (DMem y) e) = DataLength (Elems (DMem x) e)"
    "Properties (DDev y) = Properties (DDev x)"
proof -
  have el: "Elems (DMem y) e = (Elems (DMem x) e)\<lparr>Tag := Tag (Elems (DMem y) e)\<rparr>"
    using assms by (simp add: consumed_def)
  show "DataLength (Elems (DMem y) e) = DataLength (Elems (DMem x) e)" by (subst el) simp
  have "ElemSrb (Elems (DMem y) e) = ElemSrb (Elems (DMem x) e)" by (subst el) simp
  then show "SrbCdb (srb_of (DMem y) e) = SrbCdb (srb_of (DMem x) e)"
    "DataBuffer (srb_of (DMem y) e) = DataBuffer (srb_of (DMem x) e)"
    "Properties (DDev y) = Properties (DDev x)"
    using assms(1) by (simp_all add: consumed_def same_cdbs_def)
qed

lemma deliverable_cong:
  assumes "SrbCdb s' = SrbCdb s" "DataBuffer s' = DataBuffer s" "Properties d' = Properties d"
  shows "deliverable d' bsz n s' len = deliverable d bsz n s len"
  using assms ValidateScsiRequest_cong [OF assms(1,3)] by (simp add: deliverable_def)

lemma dispatch_loop_delivers:
  assumes "queues_ok (DMem x) (DDev x)" "no_lock x" "\<not> HardRemoveDevice (DDev x)" "DStatus x = 0"
    and "PendingReqListHead (DDev x) = bad @ e # rest"
    and "\<forall>b \<in> set bad. \<not> ValidateScsiRequest (DDev x) (srb_of (DMem x) b)"
    and "deliverable (DDev x) bsz (length (DUser x)) (srb_of (DMem x) e) (DataLength (Elems (DMem x) e))"
    and "\<forall>env \<in> set envs. granting env" "length bad < length envs"
    and "unat (RequestHandleCounter (DMem x)) + length envs < 2 ^ 64"
  shows "\<exists>y. dispatch_loop bsz envs x = Returned y \<and> DStatus y = 0 \<and> consumed bad [e] [] x y"
  using assms
proof (induction bad arbitrary: x envs)
  case Nil
  then obtain env envs' where envs: "envs = env # envs'" by (cases envs) auto
  let ?d = "(DDev x)\<lparr>DeviceEvent := DeviceEvent (DDev x) - 1, PendingReqListHead := rest\<rparr>"
  let ?x = "x\<lparr>DDev := ?d\<rparr>"
  have g: "granting env" "RequestHandleCounter (DMem x) \<noteq> - 1"
    using Nil.prems(8,10) counter_step(1) [of "RequestHandleCounter (DMem x)" "length envs'"
        "RequestHandleCounter (DMem x)"] by (simp_all add: envs)
  have "deliverable ?d bsz (length (DUser x)) (srb_of (DMem x) e) (DataLength (Elems (DMem x) e))"
    using Nil.prems(7) deliverable_cong [of "srb_of (DMem x) e" _ ?d "DDev x"] by simp
  then obtain z where z: "dispatch_element bsz env e ?x = Some (True, dispatch_submit env e z)" "DStatus z = 0"
    "DDev z = ?d"
    using dispatch_element_delivers [of ?x bsz e env] g Nil.prems(4) by auto
  let ?y = "dispatch_submit env e z"
  have it: "dispatch_iter bsz env x = Some (True, ?y)"
    using z(1) g(1) Nil.prems(3,5) by (simp add: dispatch_iter_def granting_def Let_def)
  note pop = pop_ok [OF Nil.prems(1) Nil.prems(5) [simplified]]
  have "failed 1 e ?x ?y \<or> True \<and> submitted e ?x ?y"
    by (rule dispatch_element_ok [OF _ _ _ _ _ _ _ z(1)])
       (use pop g Nil.prems(2) in \<open>simp_all add: no_lock_def granting_def\<close>)
  moreover have "\<not> failed 1 e ?x ?y"
    using z(3) by (simp add: failed_def dispatch_submit_def unsubmitted_dec_def Let_def
        WnbdSubmittedReqInsert_def)
  ultimately have "consumed [] [e] [] x ?y"
    by (intro consumed_submitted [of e ?x]) (use Nil.prems(3,5) in auto)
  moreover have "dispatch_loop bsz envs x = Returned ?y"
    using it Nil.prems(3) by (simp add: envs dispatch_loop.simps [of bsz "env # envs'"])
  moreover have "DStatus ?y = 0" using z(2) by (simp add: dispatch_submit_def Let_def)
  ultimately show ?case by blast
next
  case (Cons b bad)
  then obtain env envs' where envs: "envs = env # envs'" by (cases envs) auto
  have g: "granting env" "RequestHandleCounter (DMem x) \<noteq> - 1"
    using Cons.prems(8,10) counter_step(1) [of "RequestHandleCounter (DMem x)" "length envs'"
        "RequestHandleCounter (DMem x)"] by (simp_all add: envs)
  obtain y where it: "dispatch_iter bsz env x = Some (False, y)" and y: "consumed [b] [] [] x y" "no_lock y"
    "\<not> HardRemoveDevice (DDev y)" "DUser y = DUser x" "DStatus y = DStatus x"
    "RequestHandleCounter (DMem y) = RequestHandleCounter (DMem x) + 1"
    using dispatch_iter_skips [OF Cons.prems(1,2) g(2,1) Cons.prems(3), of b "bad @ e # rest" bsz]
      Cons.prems(5,6) by auto
  have dist: "distinct (b # bad @ e # rest)" using Cons.prems(1,5) by (auto simp: queue_defs)
  have q: "queues_ok (DMem y) (DDev y)" "PendingReqListHead (DDev y) = bad @ e # rest"
    using y(1) Cons.prems(5) by (simp_all add: consumed_def)
  have bad: "\<forall>c \<in> set bad. \<not> ValidateScsiRequest (DDev y) (srb_of (DMem y) c)"
  proof
    fix c assume c: "c \<in> set bad"
    then have "c \<noteq> b" using dist by auto
    note ValidateScsiRequest_cong [OF consumed_keeps(1) [OF y(1) this] consumed_keeps(4) [OF y(1) this]]
    with c Cons.prems(6) show "\<not> ValidateScsiRequest (DDev y) (srb_of (DMem y) c)" by simp
  qed
  have ne: "e \<noteq> b" using dist by auto
  have del: "deliverable (DDev y) bsz (length (DUser y)) (srb_of (DMem y) e) (DataLength (Elems (DMem y) e))"
    using Cons.prems(7) consumed_keeps(3) [OF y(1) ne] y(4)
      deliverable_cong [OF consumed_keeps(1,2,4) [OF y(1) ne]] by simp
  have cnt: "unat (RequestHandleCounter (DMem y)) + length envs' < 2 ^ 64"
    using counter_step(2) [of "RequestHandleCounter (DMem x)" "length envs'"] Cons.prems(10) y(6)
    by (simp add: envs)
  obtain z where z: "dispatch_loop bsz envs' y = Returned z" "DStatus z = 0" "consumed bad [e] [] y z"
    using Cons.IH [OF q(1) y(2,3) _ q(2) bad del _ _ cnt] Cons.prems(4,8,9) y(5) by (auto simp: envs)
  have "consumed ([b] @ bad) [e] [] x z"
    by (rule consumed_trans [OF y(1,2) z(3)]) (use Cons.prems(5) dist in simp)
  moreover have "dispatch_loop bsz envs x = Returned z"
    using it z(1) Cons.prems(3) by (simp add: envs dispatch_loop.simps [of bsz "env # envs'"])
  ultimately show ?case using z(2) by auto
qed


lemma WnbdDispatchRequest_delivers:
  assumes "queues_ok m d" "\<not> HardRemoveDevice d" "Pid (Properties d) = pid"
    and "\<not> UseKernelNbd (Flags (Properties d))" "PendingReqListHead d = bad @ e # rest"
    and "\<forall>b \<in> set bad. \<not> ValidateScsiRequest d (srb_of m b)"
    and "deliverable d bsz (length user) (srb_of m e) (DataLength (Elems m e))"
    and "\<forall>env \<in> set envs. granting env" "length bad < length envs"
    and "unat (RequestHandleCounter m) + length envs < 2 ^ 64"
  obtains y where "WnbdDispatchRequest pid req user bsz envs (m, d) = Returned (dispatch_exit y)"
    "DStatus (dispatch_exit y) = 0" "DRequest (dispatch_exit y) = DRequest y"
    "consumed bad [e] [] (start_disp req user (m, d)) y"
proof -
  obtain y where y: "dispatch_loop bsz envs (start_disp req user (m, d)) = Returned y" "DStatus y = 0"
    "consumed bad [e] [] (start_disp req user (m, d)) y"
    using dispatch_loop_delivers [of "start_disp req user (m, d)" bad e rest bsz envs] assms by auto
  have run: "WnbdDispatchRequest pid req user bsz envs (m, d) = Returned (dispatch_exit y)"
    using y(1) assms(3,4) by (simp add: WnbdDispatchRequest_def start_disp_def)
  have "\<not> HardRemoveDevice (DDev y)" using y(3) by (simp add: consumed_def)
  then show ?thesis
    using y run by (intro that [of y]) (simp_all add: dispatch_exit_def Let_def)
qed

text \<open>
  C9: a waiting fetch makes progress. When the kernel grants the waits and mappings, a
  fetch completes the unsupported requests at the front of the pending list and returns
  successfully with the first supported one, which is then the youngest submitted request.
\<close>

theorem dispatch_delivers_first:
  assumes "queues_ok m d" "\<not> HardRemoveDevice d" "Pid (Properties d) = pid"
    and "\<not> UseKernelNbd (Flags (Properties d))" "PendingReqListHead d = bad @ e # rest"
    and "\<forall>b \<in> set bad. \<not> ValidateScsiRequest d (srb_of m b)"
    and "deliverable d bsz (length user) (srb_of m e) (DataLength (Elems m e))"
    and "\<forall>env \<in> set envs. granting env" "length bad < length envs"
    and "unat (RequestHandleCounter m) + length envs < 2 ^ 64"
  shows "\<exists>x. WnbdDispatchRequest pid req user bsz envs (m, d) = Returned x \<and> DStatus x = 0 \<and>
    SubmittedReqListHead (DDev x) = SubmittedReqListHead d @ [e] \<and>
    PendingReqListHead (DDev x) = rest \<and> Notified (DMem x) = Notified m @ srbs_of m bad \<and>
    RequestHandle (DRequest x) = Tag (Elems (DMem x) e)"
proof -
  obtain y where "WnbdDispatchRequest pid req user bsz envs (m, d) = Returned (dispatch_exit y)"
    "DStatus (dispatch_exit y) = 0" "DRequest (dispatch_exit y) = DRequest y"
    "consumed bad [e] [] (start_disp req user (m, d)) y"
    by (rule WnbdDispatchRequest_delivers [OF assms])
  with assms(5) show ?thesis
    by (intro exI [of _ "dispatch_exit y"]) (simp add: consumed_def describes_def)
qed

text \<open>
  A request can be lost. If the device is being removed while the fetch waits, the
  loop takes the head of the pending list and leaves: the request is in no queue any more
  and was not completed, so the drain of the removal path cannot return it to the port
  driver.
\<close>

lemma dispatch_loses_request_on_removal:
  assumes "\<not> HardRemoveDevice d" "Pid (Properties d) = pid" "\<not> UseKernelNbd (Flags (Properties d))"
    and "PendingReqListHead d = e # es" "EnvWait env = WAIT_0" "EnvHard env"
  shows "\<exists>x. WnbdDispatchRequest pid req user bsz (env # envs) (m, d) = Returned x \<and>
    PendingReqListHead (DDev x) = es \<and> SubmittedReqListHead (DDev x) = SubmittedReqListHead d \<and>
    Notified (DMem x) = Notified m \<and> RequestType (DRequest x) = WnbdReqTypeDisconnect"
  using assms
  by (simp add: WnbdDispatchRequest_def dispatch_loop.simps [of bsz "env # envs"] dispatch_iter_def
      WnbdDisconnectAsync_def Let_def dispatch_exit_def no_mdl_def)

text \<open>
  Once a buffer could not be locked, the error stays in \<^verbatim>\<open>Status\<close> while the loop
  goes on: requests without payload do not overwrite it.
\<close>

lemma dispatch_element_status:
  assumes "srb_type (srb_of (DMem x) e) \<in> {WnbdReqTypeRead, WnbdReqTypeFlush, WnbdReqTypePersistResIn}"
    and "dispatch_element bsz env e x = Some (stop, x')"
  shows "DStatus x' = DStatus x"
  using assms
  by (auto simp: dispatch_element_def dispatch_transfer_def Let_def with_state_def dispatch_submit_def
      bind_eq_Some_conv split: if_splits)

section \<open>Witnesses\<close>

definition sample_env :: dispatch_env where
  "sample_env = \<lparr>EnvWait = WAIT_0, EnvHard = False, EnvLock = LockOk, EnvStor = 0, EnvTime = 9\<rparr>"

definition sample_fetch :: "disp run" where
  "sample_fetch = WnbdDispatchRequest 42 zero_request (replicate 512 0) 512 [sample_env]
     (sample_mem, sample_device [1, 2])"

lemma sample_deliverable:
  "deliverable (sample_device ps) 512 512 (srb_of sample_mem e) (DataLength (Elems sample_mem e))"
  by (simp add: deliverable_def) (simp add: sample_defs)

lemma sample_fetch_returns:
  "\<exists>x. sample_fetch = Returned x \<and> SubmittedReqListHead (DDev x) = [1]"
proof -
  let ?x = "start_disp zero_request (replicate 512 0) (sample_mem, sample_device [1, 2])"
  have "\<exists>y. dispatch_loop 512 [sample_env] ?x = Returned y \<and> DStatus y = 0 \<and> consumed [] [1] [] ?x y"
    by (rule dispatch_loop_delivers [where rest = "[2]"])
       (use sample_deliverable sample_queues_ok [of "[1, 2]"] in
         \<open>simp_all add: granting_def sample_env_def\<close>)
  then obtain y where "dispatch_loop 512 [sample_env] ?x = Returned y"
    "SubmittedReqListHead (DDev y) = [1]"
    by (auto simp: consumed_def)
  then show ?thesis
    by (simp add: sample_fetch_def WnbdDispatchRequest_def start_disp_def)
qed

theorem dispatch_accounts_witness:
  "\<exists>x. sample_fetch = Returned x \<and> queues_ok (DMem x) (DDev x) \<and> Mdls (DMem x) = 0"
proof -
  obtain x where x: "sample_fetch = Returned x" using sample_fetch_returns by blast
  from x dispatch_accounts [of sample_mem "sample_device [1, 2]" "[sample_env]" 42 zero_request
      "replicate 512 0" 512 x] sample_queues_ok [of "[1, 2]"]
  show ?thesis by (simp add: sample_fetch_def sample_env_def)
qed

theorem dispatch_delivers_first_witness:
  "\<exists>x. sample_fetch = Returned x \<and> DStatus x = 0 \<and> PendingReqListHead (DDev x) = [2]"
proof -
  have "\<exists>x. sample_fetch = Returned x \<and> DStatus x = 0 \<and>
    SubmittedReqListHead (DDev x) = SubmittedReqListHead (sample_device [1, 2]) @ [1] \<and>
    PendingReqListHead (DDev x) = [2] \<and> Notified (DMem x) = Notified sample_mem @ srbs_of sample_mem [] \<and>
    RequestHandle (DRequest x) = Tag (Elems (DMem x) 1)"
    unfolding sample_fetch_def
    by (rule dispatch_delivers_first)
       (use sample_deliverable sample_queues_ok [of "[1, 2]"] in
         \<open>simp_all add: granting_def sample_env_def\<close>)
  then show ?thesis by blast
qed

end
