(* ===== verification/Reply.thy ===== *)
theory Reply
  imports Dispatch
begin

text \<open>
  Reply handling, \<^verbatim>\<open>WnbdHandleResponse\<close> of \<^verbatim>\<open>driver/wnbd_dispatch.c\<close>. The
  outcome of mapping the caller's buffer, the result of
  \<^verbatim>\<open>StorPortGetSystemAddress\<close> and the time are arguments; \<open>None\<close> is a copy that
  leaves a buffer.
\<close>

section \<open>Operations\<close>

record SEND_RSP_COMMAND =
  Response :: WNBD_IO_RESPONSE
  RspBuffer :: "bytes option"
  RspBufferSize :: u32

text \<open>
  The copy of a successful read: \<^verbatim>\<open>min(DataLength, DataBufferSize)\<close> bytes from the
  user buffer, zeroes for the rest of the requested length.
\<close>

definition copy_reply :: "u32 \<Rightarrow> SEND_RSP_COMMAND \<Rightarrow> bytes \<Rightarrow> bytes option" where
  "copy_reply len cmd SrbBuff =
     do {
       b \<leftarrow> (if RspBuffer cmd \<noteq> None \<and> 0 < RspBufferSize cmd
             then do { u \<leftarrow> fetch (unat (min len (RspBufferSize cmd))) (RspBuffer cmd);
                       store 0 u SrbBuff }
             else Some SrbBuff);
       if RspBufferSize cmd < len
       then store (unat (RspBufferSize cmd)) (replicate (unat (len - RspBufferSize cmd)) 0) b
       else Some b
     }"

definition has_reply_data :: "SRB \<Rightarrow> bool" where
  "has_reply_data srb \<longleftrightarrow> IsReadSrb srb \<or> IsPerResInSrb srb"

text \<open>The body between the tag lookup and the \<^verbatim>\<open>Exit\<close> label.\<close>

definition reply_status :: "SEND_RSP_COMMAND \<Rightarrow> u32 \<Rightarrow> SRB \<Rightarrow> SRB" where
  "reply_status cmd len srb =
     (if ScsiStatus (RspStatus (Response cmd)) \<noteq> 0
      then SetSrbStatus (srb\<lparr>DataTransferLength := 0\<rparr>) (RspStatus (Response cmd))
      else srb\<lparr>DataTransferLength := len, SrbStatus := SRB_STATUS_SUCCESS\<rparr>)"

definition reply_data ::
  "SEND_RSP_COMMAND \<Rightarrow> lock_outcome \<Rightarrow> ptr \<Rightarrow> bytes option \<Rightarrow> kmem \<Rightarrow> (u32 \<times> mdl_vars \<times> kmem) option" where
  "reply_data cmd lk e SrbBuff m =
     (let el = Elems m e; srb = srb_of m e;
          internal = srb_upd (ElemSrb el) (\<lambda>s. s\<lparr>SrbStatus := SRB_STATUS_INTERNAL_ERROR\<rparr>);
          finish = (\<lambda>m. srb_upd (ElemSrb el) (reply_status cmd (DataLength el)) m)
      in if ScsiStatus (RspStatus (Response cmd)) = 0 \<and> has_reply_data srb
         then (if RspBuffer cmd = None \<and> 0 < RspBufferSize cmd
               then Some (STATUS_INVALID_PARAMETER, no_mdl, internal m)
               else (let (Status, v, m) =
                           (if RspBuffer cmd = None then (STATUS_SUCCESS, no_mdl, m)
                            else LockUsermodeBuffer lk no_mdl m)
                     in if Status \<noteq> 0 then Some (Status, v, internal m)
                        else (case (Aborted el, SrbBuff) of
                                (False, Some b) \<Rightarrow>
                                  do { b \<leftarrow> copy_reply (DataLength el) cmd b;
                                       Some (STATUS_SUCCESS, v, finish
                                         (srb_upd (ElemSrb el) (\<lambda>s. s\<lparr>DataBuffer := Some b\<rparr>) m)) }
                              | _ \<Rightarrow> Some (STATUS_SUCCESS, v, finish m))))
         else Some (STATUS_SUCCESS, no_mdl, finish m))"

definition reply_body ::
  "SEND_RSP_COMMAND \<Rightarrow> lock_outcome \<Rightarrow> u32 \<Rightarrow> ptr \<Rightarrow> kmem \<Rightarrow> (u32 \<times> mdl_vars \<times> kmem) option" where
  "reply_body cmd lk stor e m =
     (let el = Elems m e; srb = srb_of m e in
      if Aborted el then reply_data cmd lk e None m
      else if SrbCdb srb = None then Some (STATUS_INTERNAL_ERROR, no_mdl, m)
      else if has_reply_data srb
      then (if stor \<noteq> 0
            then Some (STATUS_INTERNAL_ERROR, no_mdl,
                       srb_upd (ElemSrb el) (\<lambda>s. s\<lparr>SrbStatus := SRB_STATUS_INTERNAL_ERROR\<rparr>) m)
            else reply_data cmd lk e (DataBuffer srb) m)
      else reply_data cmd lk e None m)"

definition reply_stats :: "u64 \<Rightarrow> WNBD_DRV_STATS \<Rightarrow> WNBD_DRV_STATS" where
  "reply_stats now st = st\<lparr>LastReplyTimestamp := now,
     TotalReceivedIOReplies := TotalReceivedIOReplies st + 1,
     PendingSubmittedIORequests := PendingSubmittedIORequests st - 1\<rparr>"

definition reply_exit :: "u64 \<Rightarrow> mdl_vars \<Rightarrow> ptr \<Rightarrow> dstate \<Rightarrow> dstate" where
  "reply_exit now v e s =
     (let (m, d) = s;
          d = stat_upd (reply_stats now) d;
          d = (if Aborted (Elems m e)
               then stat_upd (\<lambda>st. st\<lparr>CompletedAbortedIORequests :=
                                        CompletedAbortedIORequests st + 1\<rparr>) d
               else d);
          m = (if Mdl v then release_mdl v m else m);
          (m, d) = (if Aborted (Elems m e) then (m, d) else CompleteRequest e False (m, d))
      in WnbdFreeSrbElement e (m, d))"

definition WnbdHandleResponse ::
  "u32 \<Rightarrow> SEND_RSP_COMMAND \<Rightarrow> lock_outcome \<Rightarrow> u32 \<Rightarrow> u64 \<Rightarrow> dstate \<Rightarrow> (u32 \<times> dstate) option" where
  "WnbdHandleResponse pid cmd lk stor now s =
     (let (m, d) = s in
      if Pid (Properties d) \<noteq> pid then Some (STATUS_ACCESS_DENIED, m, d)
      else if UseKernelNbd (Flags (Properties d)) then Some (STATUS_ACCESS_DENIED, m, d)
      else case WnbdSubmittedReqRemoveByTag m (RspRequestHandle (Response cmd)) d of
             (None, d) \<Rightarrow> Some (STATUS_NOT_FOUND, m, d)
           | (Some e, d) \<Rightarrow>
               do { (Status, v, m) \<leftarrow> reply_body cmd lk stor e m;
                    Some (Status, reply_exit now v e (m, d)) })"

text \<open>
  Whether the handler reads the buffer fields of the command: for a matched reply without a SCSI
  error to a request that returns data, unless the data has no address to go to. An aborted
  request is not asked for its address.
\<close>

definition reply_reads_buffer :: "u32 \<Rightarrow> SEND_RSP_COMMAND \<Rightarrow> u32 \<Rightarrow> dstate \<Rightarrow> bool" where
  "reply_reads_buffer pid cmd stor s \<longleftrightarrow>
     (let (m, d) = s in
      Pid (Properties d) = pid \<and> \<not> UseKernelNbd (Flags (Properties d)) \<and>
      (case fst (WnbdSubmittedReqRemoveByTag m (RspRequestHandle (Response cmd)) d) of
         None \<Rightarrow> False
       | Some e \<Rightarrow>
           (let srb = srb_of m e in
            has_reply_data srb \<and> ScsiStatus (RspStatus (Response cmd)) = 0 \<and>
            (Aborted (Elems m e) \<or> SrbCdb srb \<noteq> None \<and> stor = 0))))"


section \<open>Completion by a reply\<close>

lemma CompleteRequest_then_free:
  "WnbdFreeSrbElement e (CompleteRequest e False s) = CompleteRequest e True s"
  by (cases s) (simp add: CompleteRequest_def Let_def)

lemma lock_reply_balanced:
  "LockUsermodeBuffer lk no_mdl m = (Status, v, m') \<Longrightarrow>
     balanced v m' m \<and> Elems m' = Elems m \<and> Allocated m' = Allocated m \<and> Srbs m' = Srbs m \<and>
     Notified m' = Notified m \<and> RequestHandleCounter m' = RequestHandleCounter m"
  by (cases lk) (auto simp: balanced_def no_mdl_def)

text \<open>What the body of the reply handler leaves alone.\<close>

definition reply_frame :: "mdl_vars \<Rightarrow> ptr \<Rightarrow> kmem \<Rightarrow> kmem \<Rightarrow> bool" where
  "reply_frame v p m m' \<longleftrightarrow>
     balanced v m' m \<and> Elems m' = Elems m \<and> Allocated m' = Allocated m \<and>
     (\<forall>q. q \<noteq> p \<longrightarrow> Srbs m' q = Srbs m q) \<and> Notified m' = Notified m \<and>
     RequestHandleCounter m' = RequestHandleCounter m"

lemma reply_frame_upd:
  "reply_frame v p m m1 \<Longrightarrow> reply_frame v p m (srb_upd p f m1)"
  by (simp add: reply_frame_def balanced_def)

lemma reply_frame_lock:
  "LockUsermodeBuffer lk no_mdl m = (Status, v, m') \<Longrightarrow> reply_frame v p m m'"
  using lock_reply_balanced [of lk m Status v m'] by (simp add: reply_frame_def)

lemma reply_frame_refl: "reply_frame no_mdl p m m"
  by (simp add: reply_frame_def balanced_def no_mdl_def)

lemmas reply_frames = reply_frame_upd reply_frame_refl

lemma reply_data_frame:
  assumes "reply_data cmd lk e b m = Some (Status, v, m')"
  shows "reply_frame v (ElemSrb (Elems m e)) m m'"
  using assms
  by (auto simp: reply_data_def Let_def bind_eq_Some_conv intro!: reply_frames
      dest: reply_frame_lock [where p = "ElemSrb (Elems m e)"]
      split: if_splits prod.splits bool.splits option.splits)

lemma reply_body_frame:
  assumes "reply_body cmd lk stor e m = Some (Status, v, m')"
  shows "reply_frame v (ElemSrb (Elems m e)) m m'"
  using assms reply_data_frame
  by (auto simp: reply_body_def Let_def intro!: reply_frames split: if_splits)


lemma remove_by_tag_ok:
  assumes "queues_ok m d" "WnbdSubmittedReqRemoveByTag m t d = (Some e, d')"
  shows "e \<in> set (SubmittedReqListHead d)" "Tag (Elems m e) = t"
    "SubmittedReqListHead d' = remove1 e (SubmittedReqListHead d)" "queues_ok m d'"
    "in_hand e (m, d')" "\<not> Aborted (Elems m e)" "\<not> Completed (Elems m e)"
    "PendingReqListHead d' = PendingReqListHead d" "Stats d' = Stats d"
proof -
  have sub: "submitted_ok m d" using assms(1) by (simp add: queues_ok_def)
  have "find (\<lambda>e. Tag (Elems m e) = t) (SubmittedReqListHead d) = Some e"
    using sq.rem_tag_search [OF sub, of t] assms(2) by simp
  then show e: "e \<in> set (SubmittedReqListHead d)" "Tag (Elems m e) = t"
    by (auto simp: find_Some_iff)
  have d': "d' = submitted_unlink e d"
    using assms(2) by (auto simp: WnbdSubmittedReqRemoveByTag_def split: option.splits)
  then show ls: "SubmittedReqListHead d' = remove1 e (SubmittedReqListHead d)"
    "PendingReqListHead d' = PendingReqListHead d" "Stats d' = Stats d"
    by (simp_all add: submitted_unlink_def)
  have pool: "SrbElementPool d' = SrbElementPool d" "DeviceEvent d' = DeviceEvent d"
    by (simp_all add: d' submitted_unlink_def)
  have "submitted_ok m d'" using submitted_unlink_ok [OF sub] d' by simp
  then show "queues_ok m d'" using assms(1) ls pool
    by (auto simp: queues_ok_def linked_def queued_def dest: in_set_remove1 [THEN iffD1, rotated]
        notin_set_remove1 set_remove1_subset [THEN subsetD])
  show "in_hand e (m, d')" "\<not> Aborted (Elems m e)" "\<not> Completed (Elems m e)"
    using assms(1) e ls pool by (auto simp: queue_defs)
qed

lemma reply_exit_ok:
  assumes "queues_ok m d" "in_hand e (m, d)" "\<not> Aborted (Elems m e)" "\<not> Completed (Elems m e)"
    and "balanced v m m0" "reply_exit now v e (m, d) = (m', d')"
  shows "queues_ok m' d'" "queued d' = queued d" "PendingReqListHead d' = PendingReqListHead d"
    "SubmittedReqListHead d' = SubmittedReqListHead d"
    "Notified m' = Notified m @ [ElemSrb (Elems m e)]" "Srbs m' = Srbs m"
    "Mdls m' = Mdls m0" "LockedMdls m' = LockedMdls m0"
    "Stats d' = (reply_stats now (Stats d))\<lparr>OutstandingIOCount := OutstandingIOCount (Stats d) - 1\<rparr>"
    "\<And>x. x \<noteq> e \<Longrightarrow> Elems m' x = Elems m x"
proof -
  let ?m = "if Mdl v then release_mdl v m else m" and ?d = "stat_upd (reply_stats now) d"
  have cp: "CompleteRequest e True (?m, ?d) = (m', d')"
    using assms(3,6) by (simp add: reply_exit_def Let_def CompleteRequest_then_free split: if_splits)
  have pre: "queues_ok ?m ?d" "in_hand e (?m, ?d)" "\<not> Completed (Elems ?m e)"
    using assms(1,2,4) by auto
  note ok = CompleteRequest_ok [OF pre cp]
  show "PendingReqListHead d' = PendingReqListHead d" "SubmittedReqListHead d' = SubmittedReqListHead d"
    using arg_cong [OF cp, of "\<lambda>s. PendingReqListHead (snd s)"]
      arg_cong [OF cp, of "\<lambda>s. SubmittedReqListHead (snd s)"] by simp_all
  show "queues_ok m' d'" "queued d' = queued d" using ok(1,2) by simp_all
  show "Notified m' = Notified m @ [ElemSrb (Elems m e)]" "Srbs m' = Srbs m" using ok(3,5) by auto
  show "Mdls m' = Mdls m0" "LockedMdls m' = LockedMdls m0"
    using ok(8,9) release_balanced [OF assms(5)] assms(5) by (auto simp: balanced_def)
  show "Stats d' = (reply_stats now (Stats d))\<lparr>OutstandingIOCount := OutstandingIOCount (Stats d) - 1\<rparr>"
    using ok(6) by (simp add: reply_stats_def)
  show "\<And>x. x \<noteq> e \<Longrightarrow> Elems m' x = Elems m x" using ok(4) by auto
qed


text \<open>The owner of a device is the process that created it, on a device it serves itself.\<close>

definition owner :: "u32 \<Rightarrow> WNBD_DISK_DEVICE \<Rightarrow> bool" where
  "owner pid d \<longleftrightarrow> Pid (Properties d) = pid \<and> \<not> UseKernelNbd (Flags (Properties d))"

lemma WnbdHandleResponse_hit:
  assumes "queues_ok m d" "owner pid d" "e \<in> set (SubmittedReqListHead d)"
    and "Tag (Elems m e) = RspRequestHandle (Response cmd)"
  shows "\<exists>d1. WnbdSubmittedReqRemoveByTag m (Tag (Elems m e)) d = (Some e, d1) \<and>
    WnbdHandleResponse pid cmd lk stor now (m, d) =
      Option.bind (reply_body cmd lk stor e m) (\<lambda>(Status, v, m1). Some (Status, reply_exit now v e (m1, d1)))"
proof -
  have "submitted_ok m d" using assms(1) by (simp add: queues_ok_def)
  from sq.rem_tag_hit [OF this assms(3)] obtain d1 where
    "WnbdSubmittedReqRemoveByTag m (Tag (Elems m e)) d = (Some e, d1)" by blast
  then show ?thesis using assms(2,4) by (simp add: WnbdHandleResponse_def owner_def)
qed

lemma reply_frame_queues:
  assumes "reply_frame v p m m'" shows "queues_ok m' d = queues_ok m d" "in_hand e (m', d) = in_hand e (m, d)"
  using assms by (simp_all add: reply_frame_def queue_defs)

lemma WnbdHandleResponse_ok:
  assumes "queues_ok m d" "owner pid d" "e \<in> set (SubmittedReqListHead d)"
    and "Tag (Elems m e) = RspRequestHandle (Response cmd)"
    and "WnbdHandleResponse pid cmd lk stor now (m, d) = Some (Status, m', d')"
  shows "queues_ok m' d'" "PendingReqListHead d' = PendingReqListHead d"
    "SubmittedReqListHead d' = remove1 e (SubmittedReqListHead d)"
    "Notified m' = Notified m @ [ElemSrb (Elems m e)]" "Mdls m' = Mdls m" "LockedMdls m' = LockedMdls m"
    "Stats d' = (reply_stats now (Stats d))\<lparr>OutstandingIOCount := OutstandingIOCount (Stats d) - 1\<rparr>"
    "\<exists>v m1. reply_body cmd lk stor e m = Some (Status, v, m1) \<and> Srbs m' = Srbs m1"
    "\<And>x. x \<noteq> e \<Longrightarrow> Elems m' x = Elems m x"
proof -
  obtain d1 where rm: "WnbdSubmittedReqRemoveByTag m (Tag (Elems m e)) d = (Some e, d1)"
    and run: "Option.bind (reply_body cmd lk stor e m) (\<lambda>(Status, v, m1). Some (Status, reply_exit now v e (m1, d1)))
      = Some (Status, m', d')"
    using WnbdHandleResponse_hit [OF assms(1-4), of lk stor now] assms(5) by auto
  then obtain v m1 where b: "reply_body cmd lk stor e m = Some (Status, v, m1)"
    and ex: "reply_exit now v e (m1, d1) = (m', d')"
    by (auto simp: bind_eq_Some_conv)
  note fr = reply_body_frame [OF b]
  note rt = remove_by_tag_ok [OF assms(1) rm]
  have el: "Elems m1 = Elems m" "Notified m1 = Notified m" "balanced v m1 m"
    using fr by (simp_all add: reply_frame_def)
  have pre: "queues_ok m1 d1" "in_hand e (m1, d1)" "\<not> Aborted (Elems m1 e)" "\<not> Completed (Elems m1 e)"
    using rt reply_frame_queues [OF fr] el by simp_all
  note ok = reply_exit_ok [OF pre el(3) ex]
  show "queues_ok m' d'" "PendingReqListHead d' = PendingReqListHead d"
    "SubmittedReqListHead d' = remove1 e (SubmittedReqListHead d)"
    "Notified m' = Notified m @ [ElemSrb (Elems m e)]" "Mdls m' = Mdls m" "LockedMdls m' = LockedMdls m"
    "Stats d' = (reply_stats now (Stats d))\<lparr>OutstandingIOCount := OutstandingIOCount (Stats d) - 1\<rparr>"
    "\<And>x. x \<noteq> e \<Longrightarrow> Elems m' x = Elems m x"
    using ok rt el by simp_all
  show "\<exists>v m1. reply_body cmd lk stor e m = Some (Status, v, m1) \<and> Srbs m' = Srbs m1"
    using b ok(6) by blast
qed

text \<open>
  C10: a reply for a submitted request, whatever it says and however the buffer mapping
  ends, completes exactly that request, once: it leaves the submitted queue, the port
  driver is notified of its request block, the other queues and the accounting stay
  consistent, and no descriptor list is leaked.
\<close>

theorem reply_completes_request:
  assumes "queues_ok m d" "stats_ok d" "owner pid d" "e \<in> set (SubmittedReqListHead d)"
    and "Tag (Elems m e) = RspRequestHandle (Response cmd)"
    and "WnbdHandleResponse pid cmd lk stor now (m, d) = Some (Status, m', d')"
  shows "queues_ok m' d' \<and> stats_ok d' \<and> SubmittedReqListHead d' = remove1 e (SubmittedReqListHead d) \<and>
    PendingReqListHead d' = PendingReqListHead d \<and> Notified m' = Notified m @ [ElemSrb (Elems m e)] \<and>
    Mdls m' = Mdls m \<and> LockedMdls m' = LockedMdls m"
proof -
  note ok = WnbdHandleResponse_ok [OF assms(1,3,4,5,6)]
  have len: "Suc (length (remove1 e (SubmittedReqListHead d))) = length (SubmittedReqListHead d)"
    using assms(4) by (simp add: length_remove1) (metis Suc_pred length_pos_if_in_set)
  then have "of_nat (length (SubmittedReqListHead d)) =
      (of_nat (length (remove1 e (SubmittedReqListHead d))) + 1 :: u64)"
    by (metis of_nat_Suc add.commute)
  then have "stats_ok d'"
    using ok(2,3,7) assms(2) by (simp add: stats_ok_def queued_def reply_stats_def)
  with ok show ?thesis by simp
qed

text \<open>
  A reply whose handle matches no submitted request, such as a second reply to the
  same request, is refused and changes nothing.
\<close>

lemma reply_without_request:
  assumes "queues_ok m d" "owner pid d"
    and "RspRequestHandle (Response cmd) \<notin> (\<lambda>e. Tag (Elems m e)) ` set (SubmittedReqListHead d)"
  shows "WnbdHandleResponse pid cmd lk stor now (m, d) = Some (STATUS_NOT_FOUND, m, d)"
proof -
  have "submitted_ok m d" using assms(1) by (simp add: queues_ok_def)
  from sq.rem_tag_miss [OF this assms(3)] show ?thesis
    using assms(2) by (simp add: WnbdHandleResponse_def owner_def)
qed

text \<open>The copy: the data of the reply, padded with zeroes to the requested length.\<close>

definition padded :: "nat \<Rightarrow> bytes \<Rightarrow> bytes" where
  "padded n u = take n u @ replicate (n - length u) 0"

lemma padded_length [simp]: "length (padded n u) = n"
  by (simp add: padded_def)

lemma copy_reply_pads:
  assumes "RspBuffer cmd = Some u" "length u = unat (RspBufferSize cmd)" "unat len \<le> length b"
  shows "copy_reply len cmd b = Some (padded (unat len) u @ drop (unat len) b)"
proof -
  let ?s = "RspBufferSize cmd"
  have mn: "unat (min len ?s) = min (unat len) (unat ?s)"
    by (simp add: min_def word_le_nat_alt)
  have sub: "?s < len \<Longrightarrow> unat (len - ?s) = unat len - unat ?s"
    by (simp add: unat_sub order.strict_implies_order)
  show ?thesis
  proof (cases "?s < len")
    case True
    then have lt: "unat ?s < unat len" by (simp add: word_less_nat_alt)
    show ?thesis
    proof (cases "?s = 0")
      case z: True
      with assms True show ?thesis
        by (simp add: copy_reply_def store_def padded_def)
    next
      case False
      then have pos: "0 < ?s" by (simp add: word_neq_0_conv)
      have "fetch (unat (min len ?s)) (RspBuffer cmd) = Some u"
        using assms(1,2) lt by (simp add: mn fetch_def)
      with pos True lt assms sub show ?thesis
        by (simp add: copy_reply_def store_def padded_def)
    qed
  next
    case False
    then have ge: "unat len \<le> unat ?s" by (simp add: word_less_nat_alt)
    show ?thesis
    proof (cases "?s = 0")
      case True
      with False have "len = 0" by (simp add: word_gt_0)
      with True assms show ?thesis by (simp add: copy_reply_def padded_def)
    next
      case nz: False
      then have pos: "0 < ?s" by (simp add: word_neq_0_conv)
      have "fetch (unat (min len ?s)) (RspBuffer cmd) = Some (take (unat len) u)"
        using assms(1,2) ge by (simp add: mn fetch_def)
      with pos False ge assms show ?thesis
        by (simp add: copy_reply_def store_def padded_def)
    qed
  qed
qed


lemma has_reply_data_cdb: "has_reply_data srb \<Longrightarrow> \<exists>c. SrbCdb srb = Some c"
  by (auto simp: has_reply_data_def IsReadSrb_def IsPerResInSrb_def split: option.splits)

lemma reply_body_read:
  assumes "\<not> Aborted (Elems m e)" "has_reply_data (srb_of m e)" "DataBuffer (srb_of m e) = Some b"
    and "ScsiStatus (RspStatus (Response cmd)) = 0" "RspBuffer cmd = Some u"
  shows "reply_body cmd LockOk 0 e m =
    Option.bind (copy_reply (DataLength (Elems m e)) cmd b)
      (\<lambda>b. Some (STATUS_SUCCESS, \<lparr>Buffer = True, Mdl = True, BufferLocked = True\<rparr>,
         srb_upd (ElemSrb (Elems m e)) (reply_status cmd (DataLength (Elems m e)))
           (srb_upd (ElemSrb (Elems m e)) (\<lambda>s. s\<lparr>DataBuffer := Some b\<rparr>)
             (m\<lparr>Mdls := Mdls m + 1, LockedMdls := LockedMdls m + 1\<rparr>))))"
  using assms has_reply_data_cdb [OF assms(2)]
  by (auto simp: reply_body_def reply_data_def Let_def)

lemma WnbdHandleResponse_read:
  assumes "queues_ok m d" "owner pid d" "e \<in> set (SubmittedReqListHead d)"
    and "Tag (Elems m e) = RspRequestHandle (Response cmd)"
    and "IsReadSrb (srb_of m e)" "DataBuffer (srb_of m e) = Some b"
    and "unat (DataLength (Elems m e)) \<le> length b"
    and "ScsiStatus (RspStatus (Response cmd)) = 0" "RspBuffer cmd = Some u"
    and "length u = unat (RspBufferSize cmd)"
  obtains m' d' where "WnbdHandleResponse pid cmd LockOk 0 now (m, d) = Some (STATUS_SUCCESS, m', d')"
    "Srbs m' (ElemSrb (Elems m e)) = (srb_of m e)
      \<lparr>DataBuffer := Some (padded (unat (DataLength (Elems m e))) u @ drop (unat (DataLength (Elems m e))) b),
       DataTransferLength := DataLength (Elems m e), SrbStatus := SRB_STATUS_SUCCESS\<rparr>"
proof -
  have na: "\<not> Aborted (Elems m e)" using assms(1,3) by (auto simp: queue_defs)
  have rd: "has_reply_data (srb_of m e)" using assms(5) by (simp add: has_reply_data_def)
  note body = reply_body_read [OF na rd assms(6,8,9), unfolded copy_reply_pads [OF assms(9,10,7)], simplified]
  obtain Status m' d' where run: "WnbdHandleResponse pid cmd LockOk 0 now (m, d) = Some (Status, m', d')"
    using WnbdHandleResponse_hit [OF assms(1-4), of LockOk 0 now] body
    by (cases "WnbdHandleResponse pid cmd LockOk 0 now (m, d)") auto
  from WnbdHandleResponse_ok(8) [OF assms(1-4) run] body
  have "Status = 0" and srbs: "Srbs m' = (Srbs m)(ElemSrb (Elems m e) :=
      reply_status cmd (DataLength (Elems m e)) ((srb_of m e)\<lparr>DataBuffer :=
        Some (padded (unat (DataLength (Elems m e))) u @ drop (unat (DataLength (Elems m e))) b)\<rparr>))"
    by auto
  with run that [of m' d'] show ?thesis using assms(8) by (simp add: reply_status_def)
qed

text \<open>
  A successful reply to a read delivers its data: the request block's buffer holds the
  bytes of the reply, zeroes up to the requested length when the reply is shorter, and what
  it held before beyond that length; the block reports success and the requested length.
  The requested length must not exceed the block's buffer.
\<close>

lemma read_reply_delivers_data:
  assumes "queues_ok m d" "owner pid d" "e \<in> set (SubmittedReqListHead d)"
    and "Tag (Elems m e) = RspRequestHandle (Response cmd)"
    and "IsReadSrb (srb_of m e)" "DataBuffer (srb_of m e) = Some b"
    and "unat (DataLength (Elems m e)) \<le> length b"
    and "ScsiStatus (RspStatus (Response cmd)) = 0" "RspBuffer cmd = Some u"
    and "length u = unat (RspBufferSize cmd)"
  shows "\<exists>m' d'. WnbdHandleResponse pid cmd LockOk 0 now (m, d) = Some (STATUS_SUCCESS, m', d') \<and>
    Srbs m' (ElemSrb (Elems m e)) = (srb_of m e)
      \<lparr>DataBuffer := Some (padded (unat (DataLength (Elems m e))) u @ drop (unat (DataLength (Elems m e))) b),
       DataTransferLength := DataLength (Elems m e), SrbStatus := SRB_STATUS_SUCCESS\<rparr>"
  by (rule WnbdHandleResponse_read [OF assms, of now]) blast

text \<open>
  The copy of a reply is not bounded by the request block's buffer: when the requested
  length and the reply are longer than the buffer, the copy leaves it.
\<close>

lemma read_reply_overruns_short_buffer:
  assumes "queues_ok m d" "owner pid d" "e \<in> set (SubmittedReqListHead d)"
    and "Tag (Elems m e) = RspRequestHandle (Response cmd)"
    and "IsReadSrb (srb_of m e)" "DataBuffer (srb_of m e) = Some b"
    and "length b < unat (DataLength (Elems m e))"
    and "ScsiStatus (RspStatus (Response cmd)) = 0" "RspBuffer cmd = Some u"
    and "length u = unat (RspBufferSize cmd)" "DataLength (Elems m e) \<le> RspBufferSize cmd"
  shows "WnbdHandleResponse pid cmd LockOk 0 now (m, d) = None"
proof -
  let ?len = "DataLength (Elems m e)"
  have na: "\<not> Aborted (Elems m e)" using assms(1,3) by (auto simp: queue_defs)
  have rd: "has_reply_data (srb_of m e)" using assms(5) by (simp add: has_reply_data_def)
  have "0 < ?len" using assms(7) by (auto simp: word_less_nat_alt)
  then have pos: "0 < RspBufferSize cmd" using assms(11) by (rule less_le_trans)
  have mn: "min ?len (RspBufferSize cmd) = ?len" using assms(11) by (simp add: min_absorb1)
  have "unat ?len \<le> length u" using assms(10,11) by (simp add: word_le_nat_alt)
  then have "copy_reply ?len cmd b = None"
    using pos assms(7,9) by (simp add: copy_reply_def mn fetch_def store_def)
  then have "reply_body cmd LockOk 0 e m = None"
    using reply_body_read [OF na rd assms(6,8,9)] by simp
  with WnbdHandleResponse_hit [OF assms(1-4), of LockOk 0 now] show ?thesis by auto
qed

section \<open>Witnesses\<close>

definition sample_reply :: "u64 \<Rightarrow> bytes \<Rightarrow> SEND_RSP_COMMAND" where
  "sample_reply h u = \<lparr>Response = \<lparr>RspRequestHandle = h, RspRequestType = WnbdReqTypeRead,
     RspStatus = zero_status\<rparr>, RspBuffer = Some u, RspBufferSize = of_nat (length u)\<rparr>"

lemma sample_owner: "owner 42 sample_submitted"
  by (simp add: owner_def)

lemma sample_read: "IsReadSrb (Srbs sample_mem p)" "DataBuffer (Srbs sample_mem p) = Some (replicate 512 7)"
  "Tag (Elems sample_mem 3) = 3" "DataLength (Elems sample_mem e) = 512" "ElemSrb (Elems sample_mem 3) = 103"
  by (simp_all add: IsReadSrb_def sample_defs cdb_byte_def)

lemma sample_reply_sel [simp]:
  "RspRequestHandle (Response (sample_reply h u)) = h" "RspBuffer (sample_reply h u) = Some u"
  "RspBufferSize (sample_reply h u) = of_nat (length u)"
  "ScsiStatus (RspStatus (Response (sample_reply h u))) = 0"
  by (simp_all add: sample_reply_def zero_status_def)

theorem reply_completes_request_witness:
  "\<exists>St m' d'. WnbdHandleResponse 42 (sample_reply 3 [1, 2, 3]) LockOk 0 9 (sample_mem, sample_submitted)
       = Some (St, m', d') \<and> SubmittedReqListHead d' = [] \<and> Notified m' = [103] \<and> stats_ok d'"
proof -
  have "reply_body (sample_reply 3 [1, 2, 3]) LockOk 0 3 sample_mem \<noteq> None"
  proof -
    have "has_reply_data (srb_of sample_mem 3)" using sample_read by (simp add: has_reply_data_def)
    moreover have "\<not> Aborted (Elems sample_mem 3)" by (simp add: sample_defs)
    ultimately show ?thesis
      using reply_body_read [of sample_mem 3 "replicate 512 7" "sample_reply 3 [1, 2, 3]"]
        copy_reply_pads [of "sample_reply 3 [1, 2, 3]" "[1, 2, 3]" 512 "replicate 512 7"]
      by (simp add: sample_read)
  qed
  with WnbdHandleResponse_hit [OF sample_submitted_ok sample_owner, of 3 "sample_reply 3 [1, 2, 3]" LockOk 0 9]
  obtain St m' d' where run: "WnbdHandleResponse 42 (sample_reply 3 [1, 2, 3]) LockOk 0 9
      (sample_mem, sample_submitted) = Some (St, m', d')"
    by (cases "WnbdHandleResponse 42 (sample_reply 3 [1, 2, 3]) LockOk 0 9 (sample_mem, sample_submitted)")
       (auto simp: sample_read)
  from reply_completes_request [OF sample_submitted_ok sample_submitted_stats sample_owner _ _ this, of 3]
  show ?thesis using run by (auto simp: sample_read)
qed

end
