(* ===== verification/Ioctl.thy ===== *)
theory Ioctl
  imports Lifecycle Reply
begin

text \<open>
  The commands user space sends to the driver: \<^verbatim>\<open>WnbdParseUserIOCTL\<close> of
  \<^verbatim>\<open>driver/userspace.c\<close> and the service request callback of
  \<^verbatim>\<open>driver/scsi_driver_extensions.c\<close>. The system buffer is the decoded command
  structure; the two buffer lengths are what the checks of the code look at, and their maximum
  is what the I/O manager allocates: an access behind it gives \<open>Fault\<close>. The get command
  answers into the buffer that holds its input, so that the buffer read as an option value
  is part of the request. Sizes are the ones \<^verbatim>\<open>wnbd_ioctl.h\<close> asserts. Version numbers come from a generated header and
  are an argument.
\<close>

section \<open>Commands\<close>

datatype command =
    IOCTL_WNBD_PING
  | IOCTL_WNBD_LIST
  | IOCTL_WNBD_SHOW bytes
  | IOCTL_WNBD_CREATE WNBD_PROPERTIES
  | IOCTL_WNBD_REMOVE bytes
  | IOCTL_WNBD_FETCH_REQ u64 WNBD_IO_REQUEST bytes u32
  | IOCTL_WNBD_SEND_RSP u64 SEND_RSP_COMMAND
  | IOCTL_WNBD_STATS bytes
  | IOCTL_WNBD_RELOAD_CONFIG
  | IOCTL_WNBD_VERSION
  | IOCTL_WNBD_GET_DRV_OPT wstr bool
  | IOCTL_WNBD_SET_DRV_OPT wstr WNBD_OPTION_VALUE bool
  | IOCTL_WNBD_RESET_DRV_OPT wstr bool
  | IOCTL_WNBD_LIST_DRV_OPT bool
  | IOCTL_WNBD_SET_DISK_SIZE u64 u64
  | IOCTL_UNKNOWN u32

record IRP =
  ServiceIrp :: bool
  SystemBuffer :: "command option"
  InputBufferLength :: u32
  OutputBufferLength :: u32
  RequestorProcessId :: u32
  SystemBufferAsValue :: WNBD_OPTION_VALUE

record WNBD_VERSION =
  Major :: u32
  Minor :: u32
  Patch :: u32
  Description :: bytes

datatype out_data =
    OutNone
  | OutInfo WNBD_CONNECTION_INFO
  | OutList "WNBD_CONNECTION_INFO list"
  | OutStats WNBD_DRV_STATS
  | OutRequest WNBD_IO_REQUEST bytes
  | OutVersion WNBD_VERSION
  | OutOption WNBD_OPTION_VALUE
  | OutOptions "WNBD_OPTION list"

text \<open>The driver: memory, extension, options and the registry behind them.\<close>

record 'r driver =
  DrvMem :: kmem
  DrvExt :: WNBD_EXTENSION
  DrvOptions :: "WNBD_OPTION list"
  DrvRegistry :: 'r

text \<open>What the kernel answers while one command runs.\<close>

record 'r ioctl_env =
  IeCreate :: create_env
  IeWaits :: "dispatch_env list"
  IeLock :: lock_outcome
  IeStor :: u32
  IeTime :: u64
  IeRegistry :: "'r registry"
  IeToInt64 :: "nat \<Rightarrow> wstr \<Rightarrow> u32 \<times> u64"
  IeVersion :: WNBD_VERSION

text \<open>The status, \<^verbatim>\<open>IoStatus.Information\<close> if it is written, the data written to the
  system buffer, and the driver.\<close>

record 'r result =
  RStatus :: u32
  RInformation :: "nat option"
  ROutput :: out_data
  RDriver :: "'r driver"

definition reply :: "u32 \<Rightarrow> 'r driver \<Rightarrow> 'r result run" where
  "reply St D = Returned \<lparr>RStatus = St, RInformation = None, ROutput = OutNone, RDriver = D\<rparr>"

definition reply_with :: "u32 \<Rightarrow> nat \<Rightarrow> out_data \<Rightarrow> 'r driver \<Rightarrow> 'r result run" where
  "reply_with St n out D = Returned \<lparr>RStatus = St, RInformation = Some n, ROutput = out, RDriver = D\<rparr>"

text \<open>\<^verbatim>\<open>CHECK_I_LOCATION\<close> and \<^verbatim>\<open>CHECK_O_LOCATION\<close>: true is too short.\<close>

definition CHECK_I_LOCATION :: "IRP \<Rightarrow> nat \<Rightarrow> bool" where
  "CHECK_I_LOCATION irp n \<longleftrightarrow> unat (InputBufferLength irp) < n"

definition CHECK_O_LOCATION :: "IRP \<Rightarrow> nat \<Rightarrow> bool" where
  "CHECK_O_LOCATION irp n \<longleftrightarrow> unat (OutputBufferLength irp) < n"

text \<open>An access to the first bytes of the system buffer.\<close>

definition system_buffer :: "IRP \<Rightarrow> nat" where
  "system_buffer irp = max (unat (InputBufferLength irp)) (unat (OutputBufferLength irp))"

definition within :: "IRP \<Rightarrow> nat \<Rightarrow> 'a run \<Rightarrow> 'a run" where
  "within irp n r = (if system_buffer irp < n then Fault else r)"

section \<open>Handlers\<close>

definition terminate_at :: "nat \<Rightarrow> 'a::zero list \<Rightarrow> 'a list" where
  "terminate_at n s = s[n - 1 := 0]"

text \<open>
  The properties as the create command stores them: every string terminated, an empty serial
  number replaced by the bytes of the name (what follows in the field stays), the process
  defaulting to the caller.
\<close>

definition create_properties :: "u32 \<Rightarrow> WNBD_PROPERTIES \<Rightarrow> WNBD_PROPERTIES" where
  "create_properties pid P =
     (let name = terminate_at WNBD_MAX_NAME_LENGTH (InstanceName P);
          serial = terminate_at WNBD_MAX_NAME_LENGTH (SerialNumber P);
          nbd = NbdProperties P
      in P\<lparr>InstanceName := name,
           SerialNumber := (if strlen serial = 0 then cstr name @ drop (strlen name) serial else serial),
           Owner := terminate_at WNBD_MAX_OWNER_LENGTH (Owner P),
           NbdProperties := nbd\<lparr>Hostname := terminate_at WNBD_MAX_NAME_LENGTH (Hostname nbd),
             ExportName := terminate_at WNBD_MAX_NAME_LENGTH (ExportName nbd)\<rparr>,
           Pid := (if Pid P = 0 then pid else Pid P)\<rparr>)"

definition create_rejected :: "WNBD_PROPERTIES \<Rightarrow> bool" where
  "create_rejected P \<longleftrightarrow> UseKernelNbd (Flags P) \<or> strlen (InstanceName P) = 0 \<or>
     BlockCount P = 0 \<or> BlockSize P = 0 \<or> BlockCount P > (- 1) div ucast (BlockSize P)"

definition ioctl_create :: "'r ioctl_env \<Rightarrow> IRP \<Rightarrow> WNBD_PROPERTIES \<Rightarrow> 'r driver \<Rightarrow> 'r result run" where
  "ioctl_create env irp P D =
     (let Props = create_properties (RequestorProcessId irp) P in
      if CHECK_I_LOCATION irp 1408 \<or> CHECK_O_LOCATION irp 2032 then reply STATUS_INVALID_PARAMETER D
      else if create_rejected Props then reply STATUS_INVALID_PARAMETER D
      else (let (St, info, m, x) =
              WnbdCreateConnection (IeCreate env) (DrvOptions D) Props zero_info (DrvMem D, DrvExt D);
                D = D\<lparr>DrvMem := m, DrvExt := x\<rparr>
            in if St = STATUS_SUCCESS then reply_with St 2032 (OutInfo info) D else reply St D))"

text \<open>The extension while the removal waits for the monitor thread.\<close>

definition delete_started :: "bytes \<Rightarrow> WNBD_EXTENSION \<Rightarrow> WNBD_EXTENSION" where
  "delete_started name x =
     (case WnbdFindDeviceByInstanceName name True x of
        (None, x) \<Rightarrow> x
      | (Some p, x) \<Rightarrow> dev_upd p WnbdDisconnectSync x)"

definition ioctl_remove :: "'r ioctl_env \<Rightarrow> IRP \<Rightarrow> bytes \<Rightarrow> 'r driver \<Rightarrow> 'r result run" where
  "ioctl_remove env irp n D =
     (let name = terminate_at WNBD_MAX_NAME_LENGTH n in
      if CHECK_I_LOCATION irp 376 \<or> strlen name = 0 then reply STATUS_INVALID_PARAMETER D
      else case WnbdDeleteConnection (DrvOptions D) (IeTime env) name (DrvMem D, DrvExt D) of
             None \<Rightarrow> Waiting \<lparr>RStatus = STATUS_SUCCESS, RInformation = None, ROutput = OutNone,
                       RDriver = D\<lparr>DrvExt := delete_started name (DrvExt D)\<rparr>\<rparr>
           | Some (St, m, x) \<Rightarrow> reply St (D\<lparr>DrvMem := m, DrvExt := x\<rparr>))"

definition ioctl_list :: "IRP \<Rightarrow> 'r driver \<Rightarrow> 'r result run" where
  "ioctl_list irp D =
     (let RequiredBuffSize = (DeviceCount (DrvExt D) * 2032 + 2040 :: u32) in
      if OutputBufferLength irp < RequiredBuffSize
      then reply_with STATUS_SUCCESS (unat RequiredBuffSize) OutNone D
      else (let (St, es, n) = WnbdEnumerateActiveConnections (OutputBufferLength irp) (DrvExt D)
            in reply_with St (unat n) (OutList es) D))"

text \<open>
  Show and statistics: terminate the name, which is stored at offset 4, find the device by
  name, copy, release.
\<close>

definition ioctl_query ::
  "nat \<Rightarrow> nat \<Rightarrow> (WNBD_DISK_DEVICE \<Rightarrow> out_data) \<Rightarrow> IRP \<Rightarrow> bytes \<Rightarrow> 'r driver \<Rightarrow> 'r result run" where
  "ioctl_query isz osz f irp n D =
     (let name = terminate_at WNBD_MAX_NAME_LENGTH n in
      if CHECK_I_LOCATION irp isz then reply STATUS_INVALID_PARAMETER D
      else within irp 260
       (if strlen name = 0 then reply STATUS_INVALID_PARAMETER D
        else if CHECK_O_LOCATION irp osz then reply STATUS_BUFFER_OVERFLOW D
        else case WnbdFindDeviceByInstanceName name True (DrvExt D) of
             (None, x) \<Rightarrow> reply STATUS_OBJECT_NAME_NOT_FOUND (D\<lparr>DrvExt := x\<rparr>)
           | (Some p, x) \<Rightarrow>
               reply_with STATUS_SUCCESS osz (f (Devices x p)) (D\<lparr>DrvExt := dev_upd p WnbdReleaseDevice x\<rparr>)))"

text \<open>
  The pointer type stands in the size checks of the two hot commands: eight bytes. Every run
  of them reads the connection id, which ends at offset 80 and 96; the buffer fields behind it,
  which end at 92 and 108, are read only by a run that needs them.
\<close>

definition ioctl_fetch ::
  "'r ioctl_env \<Rightarrow> IRP \<Rightarrow> u64 \<Rightarrow> WNBD_IO_REQUEST \<Rightarrow> bytes \<Rightarrow> u32 \<Rightarrow> 'r driver \<Rightarrow> 'r result run" where
  "ioctl_fetch env irp i req user bsz D =
     (if CHECK_I_LOCATION irp 8 \<or> CHECK_O_LOCATION irp 8 then reply STATUS_INVALID_PARAMETER D
      else within irp 80 (case WnbdFindDeviceByConnId i True (DrvExt D) of
             (None, x) \<Rightarrow> reply STATUS_INVALID_HANDLE (D\<lparr>DrvExt := x\<rparr>)
           | (Some p, x) \<Rightarrow>
               within irp (if fetch_reads_buffer (RequestorProcessId irp) req user bsz (IeWaits env)
                                (DrvMem D, Devices x p) then 92 else 80)
               (case WnbdDispatchRequest (RequestorProcessId irp) req user bsz (IeWaits env)
                       (DrvMem D, Devices x p) of
                  Returned r \<Rightarrow>
                    reply_with (DStatus r) 128 (OutRequest (DRequest r) (DUser r))
                      (D\<lparr>DrvMem := DMem r, DrvExt := dev_upd p (\<lambda>_. WnbdReleaseDevice (DDev r)) x\<rparr>)
                | Waiting r \<Rightarrow>
                    Waiting \<lparr>RStatus = DStatus r, RInformation = None, ROutput = OutNone,
                      RDriver = D\<lparr>DrvMem := DMem r, DrvExt := dev_upd p (\<lambda>_. DDev r) x\<rparr>\<rparr>
                | Fault \<Rightarrow> Fault)))"

definition ioctl_send :: "'r ioctl_env \<Rightarrow> IRP \<Rightarrow> u64 \<Rightarrow> SEND_RSP_COMMAND \<Rightarrow> 'r driver \<Rightarrow> 'r result run" where
  "ioctl_send env irp i rsp D =
     (if CHECK_I_LOCATION irp 8 then reply STATUS_INVALID_PARAMETER D
      else within irp 96 (case WnbdFindDeviceByConnId i True (DrvExt D) of
             (None, x) \<Rightarrow> reply STATUS_INVALID_HANDLE (D\<lparr>DrvExt := x\<rparr>)
           | (Some p, x) \<Rightarrow>
               within irp (if reply_reads_buffer (RequestorProcessId irp) rsp (IeStor env)
                                (DrvMem D, Devices x p) then 108 else 96)
               (case WnbdHandleResponse (RequestorProcessId irp) rsp (IeLock env) (IeStor env) (IeTime env)
                       (DrvMem D, Devices x p) of
                  None \<Rightarrow> Fault
                | Some (St, m, d) \<Rightarrow>
                    reply St (D\<lparr>DrvMem := m, DrvExt := dev_upd p (\<lambda>_. WnbdReleaseDevice d) x\<rparr>))))"

definition ioctl_get_opt :: "'r ioctl_env \<Rightarrow> IRP \<Rightarrow> wstr \<Rightarrow> bool \<Rightarrow> 'r driver \<Rightarrow> 'r result run" where
  "ioctl_get_opt env irp n persistent D =
     (if CHECK_I_LOCATION irp 552 then reply STATUS_INVALID_PARAMETER D
      else if CHECK_O_LOCATION irp 584 then reply STATUS_BUFFER_OVERFLOW D
      else (let (St, v) = WnbdGetDrvOpt (IeRegistry env) (DrvRegistry D) (DrvOptions D)
                            (terminate_at WNBD_MAX_OPT_NAME_LENGTH n)
                            (SystemBufferAsValue irp) persistent
            in reply_with St 584 (OutOption v) D))"

text \<open>After new mappings were forbidden the creation lock is taken and released, shared.\<close>

definition ioctl_set_opt ::
  "'r ioctl_env \<Rightarrow> IRP \<Rightarrow> wstr \<Rightarrow> WNBD_OPTION_VALUE \<Rightarrow> bool \<Rightarrow> 'r driver \<Rightarrow> 'r result run" where
  "ioctl_set_opt env irp n v persistent D =
     (if CHECK_I_LOCATION irp 1144 then reply STATUS_INVALID_PARAMETER D
      else (let (St, r, opts, v) = WnbdSetDrvOpt (IeRegistry env) (IeToInt64 env) (DrvRegistry D) (DrvOptions D)
                                     (terminate_at WNBD_MAX_OPT_NAME_LENGTH n) v persistent
            in reply St (D\<lparr>DrvRegistry := r, DrvOptions := opts\<rparr>)))"

definition ioctl_reset_opt :: "'r ioctl_env \<Rightarrow> IRP \<Rightarrow> wstr \<Rightarrow> bool \<Rightarrow> 'r driver \<Rightarrow> 'r result run" where
  "ioctl_reset_opt env irp n persistent D =
     (if CHECK_I_LOCATION irp 552 then reply STATUS_INVALID_PARAMETER D
      else (let (St, r, opts) = WnbdResetDrvOpt (IeRegistry env) (DrvRegistry D) (DrvOptions D)
                                  (terminate_at WNBD_MAX_OPT_NAME_LENGTH n) persistent
            in reply St (D\<lparr>DrvRegistry := r, DrvOptions := opts\<rparr>)))"

definition ioctl_list_opt :: "'r ioctl_env \<Rightarrow> IRP \<Rightarrow> bool \<Rightarrow> 'r driver \<Rightarrow> 'r result run" where
  "ioctl_list_opt env irp persistent D =
     (if CHECK_I_LOCATION irp 4 then reply STATUS_INVALID_PARAMETER D
      else within irp 5 (let (St, n, l) = WnbdListDrvOpt (IeRegistry env) (DrvRegistry D) (DrvOptions D)
                               (unat (OutputBufferLength irp)) persistent
            in if St = STATUS_SUCCESS \<or> St = STATUS_BUFFER_TOO_SMALL
               then reply_with STATUS_SUCCESS n (OutOptions l) D else reply St D))"

definition ioctl_version :: "'r ioctl_env \<Rightarrow> IRP \<Rightarrow> 'r driver \<Rightarrow> 'r result run" where
  "ioctl_version env irp D =
     (if CHECK_I_LOCATION irp 4 then reply STATUS_INVALID_PARAMETER D
      else if CHECK_O_LOCATION irp 396 then reply STATUS_BUFFER_OVERFLOW D
      else (let v = IeVersion env
            in reply_with STATUS_SUCCESS 396 (OutVersion (v\<lparr>Description := take 127 (cstr (Description v))\<rparr>)) D))"

text \<open>
  The switch. A null system buffer or one without a command code is rejected before it.
\<close>

fun ioctl_command :: "'r ioctl_env \<Rightarrow> IRP \<Rightarrow> command \<Rightarrow> 'r driver \<Rightarrow> 'r result run" where
  "ioctl_command env irp IOCTL_WNBD_PING D = reply STATUS_SUCCESS D"
| "ioctl_command env irp (IOCTL_WNBD_CREATE P) D = ioctl_create env irp P D"
| "ioctl_command env irp (IOCTL_WNBD_REMOVE n) D = ioctl_remove env irp n D"
| "ioctl_command env irp (IOCTL_WNBD_SET_DISK_SIZE i n) D =
     within irp 24 (let (St, x) = WnbdSetDiskSize i n (DrvExt D) in reply St (D\<lparr>DrvExt := x\<rparr>))"
| "ioctl_command env irp IOCTL_WNBD_LIST D = ioctl_list irp D"
| "ioctl_command env irp (IOCTL_WNBD_SHOW n) D =
     ioctl_query 8 2032 (\<lambda>d. OutInfo (connection_entry d)) irp n D"
| "ioctl_command env irp IOCTL_WNBD_RELOAD_CONFIG D =
     (let (_, opts) = WnbdReloadPersistentOptions (IeRegistry env) (IeToInt64 env) (DrvRegistry D) (DrvOptions D)
      in reply STATUS_SUCCESS (D\<lparr>DrvOptions := opts\<rparr>))"
| "ioctl_command env irp (IOCTL_WNBD_STATS n) D = ioctl_query 292 192 (\<lambda>d. OutStats (Stats d)) irp n D"
| "ioctl_command env irp (IOCTL_WNBD_FETCH_REQ i req user bsz) D = ioctl_fetch env irp i req user bsz D"
| "ioctl_command env irp (IOCTL_WNBD_SEND_RSP i rsp) D = ioctl_send env irp i rsp D"
| "ioctl_command env irp IOCTL_WNBD_VERSION D = ioctl_version env irp D"
| "ioctl_command env irp (IOCTL_WNBD_GET_DRV_OPT n p) D = ioctl_get_opt env irp n p D"
| "ioctl_command env irp (IOCTL_WNBD_SET_DRV_OPT n v p) D = ioctl_set_opt env irp n v p D"
| "ioctl_command env irp (IOCTL_WNBD_RESET_DRV_OPT n p) D = ioctl_reset_opt env irp n p D"
| "ioctl_command env irp (IOCTL_WNBD_LIST_DRV_OPT p) D = ioctl_list_opt env irp p D"
| "ioctl_command env irp (IOCTL_UNKNOWN c) D = reply STATUS_INVALID_DEVICE_REQUEST D"

definition WnbdParseUserIOCTL :: "'r ioctl_env \<Rightarrow> IRP \<Rightarrow> 'r driver \<Rightarrow> 'r result run" where
  "WnbdParseUserIOCTL env irp D =
     (if \<not> ServiceIrp irp then reply STATUS_INVALID_DEVICE_REQUEST D
      else case SystemBuffer irp of
             None \<Rightarrow> reply STATUS_INVALID_PARAMETER D
           | Some c \<Rightarrow> if CHECK_I_LOCATION irp 4 then reply STATUS_INVALID_PARAMETER D
                       else ioctl_command env irp c D)"

text \<open>
  The callback: a request that is not a device control is refused; the request is completed
  unless the status is pending. The flag says whether it was completed.
\<close>

definition WnbdHwProcessServiceRequest ::
  "bool \<Rightarrow> 'r ioctl_env \<Rightarrow> IRP \<Rightarrow> 'r driver \<Rightarrow> (bool \<times> 'r result) run" where
  "WnbdHwProcessServiceRequest isDeviceControl env irp D =
     (let r = (if isDeviceControl then WnbdParseUserIOCTL env irp D
               else reply STATUS_INVALID_DEVICE_REQUEST D)
      in case r of
           Returned r \<Rightarrow> Returned (RStatus r \<noteq> STATUS_PENDING, r)
         | Waiting r \<Rightarrow> Waiting (False, r)
         | Fault \<Rightarrow> Fault)"

end
