(* ===== verification/EndToEnd.thy ===== *)
theory EndToEnd
  imports HwProps IoctlProps
begin

text \<open>
  A read across all components: the port driver hands a request block to the miniport, the
  process that serves the disk fetches the request, and its reply completes the block.
\<close>

section \<open>Queueing a block command\<close>

lemma pend_element_granted:
  assumes "queues_ok m d" "a \<notin> Allocated m"
  obtains e m' d' where "WnbdPendElement ext Srb lbn len fua (Some a) now (m, d) = (STATUS_PENDING, m', d')"
    "pended e Srb lbn (ucast len) (m, d) (m', d')" "FUA (Elems m' e) = fua"
    "RequestHandleCounter m' = RequestHandleCounter m"
proof -
  obtain St m' d' where r: "WnbdPendElement ext Srb lbn len fua (Some a) now (m, d) = (St, m', d')"
    by (cases "WnbdPendElement ext Srb lbn len fua (Some a) now (m, d)")
  have St: "St = STATUS_PENDING" "RequestHandleCounter m' = RequestHandleCounter m"
    using r by (auto simp: WnbdPendElement_def WnbdAllocSrbElement_def Let_def split: list.splits)
  have fr: "fresh (Some a) m" using assms(2) by (simp add: fresh_def)
  from WnbdPendElement_ok [OF assms(1) fr r] St obtain e where e: "pended e Srb lbn (ucast len) (m, d) (m', d')" by auto
  then have "PendingReqListHead d' = PendingReqListHead d @ [e]" by (simp add: pended_def)
  then have "FUA (Elems m' e) = fua"
    using r by (auto simp: WnbdPendElement_def WnbdAllocSrbElement_def Let_def split: list.splits)
  with that r e St show ?thesis by blast
qed

text \<open>The device of a queued block command, before and after.\<close>

lemma start_io_queues:
  assumes "mapped_at (Srbs m Srb) p x" "queues_ok m (Devices x p)" "\<not> HardRemoveDevice (Devices x p)"
    and "SrbFunction (Srbs m Srb) = SRB_FUNCTION_EXECUTE_SCSI" "SrbCdb (Srbs m Srb) = Some Cdb" "cdb_byte Cdb 0 \<in> block_ops"
    and "SrbCdbGetRange Cdb = (addr, cnt, fua)" "bs = BlockSize (Properties (Devices x p))"
    and "unat addr + unat cnt \<le> unat (BlockCount (Properties (Devices x p)))"
    and "DataTransferLength (Srbs m Srb) \<le> cnt * bs" "IoPool env = Some a" "a \<notin> Allocated m"
  obtains e m' d' where "WnbdHwStartIo env opts ext Srb (m, x) = Some ([], m', dev_upd p (\<lambda>_. d') x)"
    "queues_ok m' d'" "steady (Devices x p) d'" "HardRemoveDevice d' = HardRemoveDevice (Devices x p)"
    "PendingReqListHead d' = PendingReqListHead (Devices x p) @ [e]"
    "SubmittedReqListHead d' = SubmittedReqListHead (Devices x p)"
    "Notified m' = Notified m" "Srbs m' = (Srbs m)(Srb := (Srbs m Srb)\<lparr>SrbStatus := SRB_STATUS_ABORTED\<rparr>)"
    "ElemSrb (Elems m' e) = Srb" "StartingLbn (Elems m' e) = addr * ucast bs" "DataLength (Elems m' e) = cnt * bs"
    "FUA (Elems m' e) = (fua \<noteq> 0)" "RequestHandleCounter m' = RequestHandleCounter m"
proof -
  let ?d = "count_io 1 (acquired (Devices x p))" and ?m = "set_status Srb SRB_STATUS_ABORTED m"
  have q: "queues_ok ?m ?d" "a \<notin> Allocated ?m"
    using assms(2,12) by (simp_all add: count_io_def set_status_def)
  obtain e m' d2 where r: "WnbdPendElement ext Srb (addr * ucast bs) (ucast (cnt * bs)) (fua \<noteq> 0) (Some a) (IoTime env) (?m, ?d) =
      (STATUS_PENDING, m', d2)" "pended e Srb (addr * ucast bs) (ucast (ucast (cnt * bs) :: u64)) (?m, ?d) (m', d2)"
    "FUA (Elems m' e) = (fua \<noteq> 0)" "RequestHandleCounter m' = RequestHandleCounter ?m"
    by (rule pend_element_granted [OF q])
  have orr: "\<not> out_of_range ?d addr cnt" using assms(9) by (simp add: out_of_range_iff count_io_def)
  have props: "Properties ?d = Properties (Devices x p)" by (simp add: count_io_def)
  have cdb: "SrbCdb (Srbs ?m Srb) = Some Cdb" "DataTransferLength (Srbs ?m Srb) = DataTransferLength (Srbs m Srb)"
    using assms(5) by (simp_all add: set_status_def)
  have pb: "WnbdPendOperation ext Srb (Some a) (IoTime env) (?m, ?d) = (STATUS_PENDING, m', d2)"
    using cdb assms(6,7,10) r(1) orr props
    by (simp add: WnbdPendOperation_def pend_block_def assms(8) not_less [symmetric])
  have op: "cdb_byte Cdb 0 \<in> block_ops \<union> {SCSIOP_PERSISTENT_RESERVE_IN, SCSIOP_PERSISTENT_RESERVE_OUT, SCSIOP_UNMAP}"
    using assms(6) by blast
  have h: "WnbdHandleSrbOperation ext Srb (Some a) (IoTime env) (m, ?d) = Some (STATUS_PENDING, m', d2)"
    using pb assms(3,5) op by (simp only: WnbdHandleSrbOperation_def Let_def prod.case option.case)
      (simp add: count_io_def)
  let ?d' = "WnbdReleaseDevice d2"
  have run: "WnbdHwStartIo env opts ext Srb (m, x) = Some ([], m', dev_upd p (\<lambda>_. ?d') x)"
    using mapped_at_found [OF assms(1)] h assms(3,4,11)
    by (simp add: WnbdHwStartIo_def WnbdExecuteScsiFunction_def Let_def) (simp add: count_io_def)
  note pd = r(2) [unfolded pended_def Let_def prod.case]
  have "Properties d2 = Properties ?d" using pd by blast
  then have "steady (acquired (Devices x p)) d2"
    using handle_frame [OF h]
    by (simp add: steady_def count_io_def stat_upd_def same_identity_def)
  then have st: "steady (Devices x p) ?d'" unfolding acquired_def by (rule held_steady) simp
  show ?thesis
    by (rule that [OF run _ st]) (use pd r(3,4) in \<open>simp_all add: count_io_def set_status_def\<close>)
qed

section \<open>Replying to a read\<close>

lemma ioctl_send_read:
  assumes "serves (RequestorProcessId irp) p D" "Devices (DrvExt D) p = d" "e \<in> set (SubmittedReqListHead d)"
    and "RspRequestHandle (Response rsp) = Tag (Elems (DrvMem D) e)" "ScsiStatus (RspStatus (Response rsp)) = 0"
    and "RspBuffer rsp = Some u" "length u = unat (RspBufferSize rsp)"
    and "IsReadSrb (srb_of (DrvMem D) e)" "DataBuffer (srb_of (DrvMem D) e) = Some b"
    and "unat (DataLength (Elems (DrvMem D) e)) \<le> length b" "IeLock env = LockOk" "IeStor env = 0"
    and "8 \<le> unat (InputBufferLength irp)" "108 \<le> system_buffer irp"
  obtains D' where "ioctl_send env irp (ConnectionId d) rsp D = reply STATUS_SUCCESS D'"
    "Notified (DrvMem D') = Notified (DrvMem D) @ [ElemSrb (Elems (DrvMem D) e)]"
    "Srbs (DrvMem D') (ElemSrb (Elems (DrvMem D) e)) = (srb_of (DrvMem D) e)
      \<lparr>DataBuffer := Some (padded (unat (DataLength (Elems (DrvMem D) e))) u @ drop (unat (DataLength (Elems (DrvMem D) e))) b),
       DataTransferLength := DataLength (Elems (DrvMem D) e), SrbStatus := SRB_STATUS_SUCCESS\<rparr>"
    "SubmittedReqListHead (Devices (DrvExt D') p) = remove1 e (SubmittedReqListHead d)"
proof -
  let ?x = "DrvExt D" and ?m = "DrvMem D" and ?pid = "RequestorProcessId irp"
  let ?d = "d\<lparr>RundownProtection := (RundownProtection d)\<lparr>RdCount := RdCount (RundownProtection d) + 1\<rparr>\<rparr>"
  have s: "adapter_ok ?x" "p \<in> devs ?x" "\<not> RdStarted (RundownProtection d)" "queues_ok ?m ?d" "owner ?pid ?d"
    using assms(1,2) by (simp_all add: serves_def Let_def)
  have sub: "e \<in> set (SubmittedReqListHead ?d)" using assms(3) by simp
  obtain m' d' where r: "WnbdHandleResponse ?pid rsp LockOk 0 (IeTime env) (?m, ?d) = Some (STATUS_SUCCESS, m', d')"
    "Srbs m' (ElemSrb (Elems ?m e)) = (srb_of ?m e)
      \<lparr>DataBuffer := Some (padded (unat (DataLength (Elems ?m e))) u @ drop (unat (DataLength (Elems ?m e))) b),
       DataTransferLength := DataLength (Elems ?m e), SrbStatus := SRB_STATUS_SUCCESS\<rparr>"
    by (rule WnbdHandleResponse_read [OF s(4,5) sub assms(4) [symmetric] assms(8-10) assms(5-7)])
  note ok = WnbdHandleResponse_ok [OF s(4,5) sub assms(4) [symmetric] r(1)]
  have run: "ioctl_send env irp (ConnectionId d) rsp D =
      reply STATUS_SUCCESS (D\<lparr>DrvMem := m', DrvExt := dev_upd p (\<lambda>_. WnbdReleaseDevice d') ?x\<rparr>)"
    using by_id_acquires [OF s(1,2)] s(3) r(1) assms(11-14)
    by (simp add: ioctl_send_def CHECK_I_LOCATION_def within_def assms(2))
  show ?thesis by (rule that [OF run]) (use ok(3,4) r(2) in simp_all)
qed

section \<open>A read, end to end\<close>

text \<open>Bytes and blocks: the command counts blocks again.\<close>

lemma read_command:
  assumes "StartingLbn el = addr * ucast bs" "DataLength el = cnt * bs" "BlockSize props = bs" "bs \<noteq> 0"
    and "unat addr * unat bs < 2 ^ 64" "unat cnt * unat bs < 2 ^ 32"
  shows "dispatch_cmd props el Cdb WnbdReqTypeRead = Some (CmdRead addr cnt (FUA el \<and> FUASupported (Flags props)))"
proof -
  have nz: "(ucast bs :: u64) \<noteq> 0" using assms(4) by (metis ucast_up_down unsigned_0)
  have "addr * ucast bs div ucast bs = addr" by (rule word_mult_div [OF nz]) (use assms(5) in simp)
  moreover have "cnt * bs div bs = cnt" by (rule word_mult_div [OF assms(4)]) (use assms(6) in simp)
  ultimately show ?thesis using assms(1-4) by (simp add: dispatch_cmd_def)
qed

lemma fetch_read:
  fixes D :: "'r driver"
  assumes "serves (RequestorProcessId irp) p D" "Devices (DrvExt D) p = d" "PendingReqListHead d = [e]" "\<not> HardRemoveDevice d"
    and "deliverable d bsz (length user) (srb_of (DrvMem D) e) (DataLength (Elems (DrvMem D) e))"
    and "\<forall>w \<in> set (IeWaits env). granting w" "IeWaits env \<noteq> []"
    and "unat (RequestHandleCounter (DrvMem D)) + length (IeWaits env) < 2 ^ 64"
    and "8 \<le> unat (InputBufferLength irp)" "8 \<le> unat (OutputBufferLength irp)" "92 \<le> system_buffer irp"
    and "srb_type (srb_of (DrvMem D) e) = WnbdReqTypeRead"
  obtains D2 req' user' where
    "ioctl_fetch env irp (ConnectionId d) req user bsz D = reply_with STATUS_SUCCESS 128 (OutRequest req' user') D2"
    "RequestType req' = WnbdReqTypeRead"
    "dispatch_cmd (Properties d) (Elems (DrvMem D) e) (the (SrbCdb (srb_of (DrvMem D) e))) WnbdReqTypeRead = Some (Cmd req')"
    "serves (RequestorProcessId irp) p D2" "ConnectionId (Devices (DrvExt D2) p) = ConnectionId d"
    "e \<in> set (SubmittedReqListHead (Devices (DrvExt D2) p))" "Tag (Elems (DrvMem D2) e) = RequestHandle req'"
    "Notified (DrvMem D2) = Notified (DrvMem D)" "ElemSrb (Elems (DrvMem D2) e) = ElemSrb (Elems (DrvMem D) e)"
    "DataLength (Elems (DrvMem D2) e) = DataLength (Elems (DrvMem D) e)"
    "SrbCdb (srb_of (DrvMem D2) e) = SrbCdb (srb_of (DrvMem D) e)"
    "DataBuffer (srb_of (DrvMem D2) e) = DataBuffer (srb_of (DrvMem D) e)"
proof -
  let ?m = "DrvMem D"
  obtain y d' where f: "ioctl_fetch env irp (ConnectionId d) req user bsz D =
       Returned \<lparr>RStatus = STATUS_SUCCESS, RInformation = Some 128, ROutput = OutRequest (DRequest y) (DUser y),
         RDriver = D\<lparr>DrvMem := DMem (dispatch_exit y), DrvExt := dev_upd p (\<lambda>_. d') (DrvExt D)\<rparr>\<rparr>"
    "consumed [] [e] [] (start_disp req user (?m, d)) y" "steady d d'"
    "SubmittedReqListHead d' = SubmittedReqListHead d @ [e]"
    "serves (RequestorProcessId irp) p (D\<lparr>DrvMem := DMem (dispatch_exit y), DrvExt := dev_upd p (\<lambda>_. d') (DrvExt D)\<rparr>)"
    by (rule ioctl_fetch_delivers [OF assms(1-11)])
  have ds: "describes e y" "Properties (DDev y) = Properties d" "Notified (DMem y) = Notified ?m"
    using f(2) by (simp_all add: consumed_def srbs_of_def)
  have el: "Elems (DMem y) e = (Elems ?m e)\<lparr>Tag := Tag (Elems (DMem y) e)\<rparr>"
    using f(2) by (simp add: consumed_def)
  have srb: "ElemSrb (Elems (DMem y) e) = ElemSrb (Elems ?m e)" "DataLength (Elems (DMem y) e) = DataLength (Elems ?m e)"
    by (subst el, simp)+
  have same: "SrbCdb (srb_of (DMem y) e) = SrbCdb (srb_of ?m e)" "DataBuffer (srb_of (DMem y) e) = DataBuffer (srb_of ?m e)"
    using f(2) srb(1) by (simp_all add: consumed_def same_cdbs_def)
  have ty: "srb_type (srb_of (DMem y) e) = WnbdReqTypeRead" using srb_type_cong [OF same(1)] assms(12) by simp
  have "dispatch_cmd (Properties d) (Elems (DMem y) e) (the (SrbCdb (srb_of (DMem y) e))) WnbdReqTypeRead = Some (Cmd (DRequest y))"
    using ds(1,2) ty by (simp add: describes_def)
  then have cmd: "dispatch_cmd (Properties d) (Elems ?m e) (the (SrbCdb (srb_of ?m e))) WnbdReqTypeRead = Some (Cmd (DRequest y))"
    unfolding same(1) by (subst (asm) el) simp
  show ?thesis
    by (rule that [OF f(1) [folded reply_with_def] _ cmd f(5)])
       (use ds f(3,4) ty srb same in \<open>simp_all add: describes_def steady_defs\<close>)
qed

text \<open>A fetch and a reply from the serving process, in buffers of the size of the smaller structure.\<close>

definition fetch_irp :: "u32 \<Rightarrow> command \<Rightarrow> IRP \<Rightarrow> bool" where
  "fetch_irp pid c irp \<longleftrightarrow> ServiceIrp irp \<and> SystemBuffer irp = Some c \<and> RequestorProcessId irp = pid \<and>
     128 \<le> unat (InputBufferLength irp) \<and>
     (case c of IOCTL_WNBD_FETCH_REQ _ _ _ _ \<Rightarrow> 128 \<le> unat (OutputBufferLength irp) | _ \<Rightarrow> True)"

text \<open>
  What is left to do for a fetched read: a successful reply from the process, with the
  handle of the request and as many bytes as it asks for, completes the request block, once,
  with these bytes at the start of its buffer.
\<close>

definition awaits_reply :: "u32 \<Rightarrow> u64 \<Rightarrow> u64 \<Rightarrow> nat \<Rightarrow> ptr \<Rightarrow> bytes \<Rightarrow> ptr list \<Rightarrow> 'r driver \<Rightarrow> bool" where
  "awaits_reply pid i h n Srb b notified D \<longleftrightarrow>
     (\<forall>env irp rsp u. IeLock env = LockOk \<and> IeStor env = 0 \<and> fetch_irp pid (IOCTL_WNBD_SEND_RSP i rsp) irp \<and>
        RspRequestHandle (Response rsp) = h \<and> ScsiStatus (RspStatus (Response rsp)) = 0 \<and>
        RspBuffer rsp = Some u \<and> length u = unat (RspBufferSize rsp) \<and> length u = n \<longrightarrow>
        (\<exists>D'. WnbdParseUserIOCTL env irp D = reply STATUS_SUCCESS D' \<and> Notified (DrvMem D') = notified @ [Srb] \<and>
           SrbStatus (Srbs (DrvMem D') Srb) = SRB_STATUS_SUCCESS \<and>
           unat (DataTransferLength (Srbs (DrvMem D') Srb)) = n \<and>
           DataBuffer (Srbs (DrvMem D') Srb) = Some (u @ drop n b)))"

lemma read_flow:
  fixes D :: "'r driver"
  assumes "serves pid p D" "Devices (DrvExt D) p = d" "PendingReqListHead d = []" "\<not> HardRemoveDevice d"
    and "mapped_at (Srbs (DrvMem D) Srb) p (DrvExt D)"
    and "Srbs (DrvMem D) Srb = srb" "SrbFunction srb = SRB_FUNCTION_EXECUTE_SCSI" "SrbCdb srb = Some Cdb"
    and "ScsiOpToWnbdReqType (cdb_byte Cdb 0) = WnbdReqTypeRead" "SrbCdbGetRange Cdb = (addr, cnt, fua)"
    and "BlockSize (Properties d) = bs" "bs \<noteq> 0" "unat (BlockCount (Properties d)) * unat bs < 2 ^ 64"
    and "unat addr + unat cnt \<le> unat (BlockCount (Properties d))" "unat cnt * unat bs < 2 ^ 32"
    and "DataBuffer srb = Some b" "unat (DataTransferLength srb) \<le> unat cnt * unat bs" "unat cnt * unat bs \<le> length b"
    and "IoPool io = Some a" "a \<notin> Allocated (DrvMem D)"
    and "unat cnt * unat bs \<le> unat bsz" "16 \<le> bsz" "unat bsz \<le> length user"
    and "\<forall>w \<in> set (IeWaits env). granting w" "IeWaits env \<noteq> []"
    and "unat (RequestHandleCounter (DrvMem D)) + length (IeWaits env) < 2 ^ 64"
    and "fetch_irp pid (IOCTL_WNBD_FETCH_REQ (ConnectionId d) req user bsz) irp"
  obtains m1 x1 D2 req' user' where
    "WnbdHwStartIo io opts ext Srb (DrvMem D, DrvExt D) = Some ([], m1, x1)" "Notified m1 = Notified (DrvMem D)"
    "WnbdParseUserIOCTL env irp (D\<lparr>DrvMem := m1, DrvExt := x1\<rparr>) = reply_with STATUS_SUCCESS 128 (OutRequest req' user') D2"
    "RequestType req' = WnbdReqTypeRead" "Cmd req' = CmdRead addr cnt (fua \<noteq> 0 \<and> FUASupported (Flags (Properties d)))"
    "awaits_reply pid (ConnectionId d) (RequestHandle req') (unat cnt * unat bs) Srb b (Notified (DrvMem D)) D2"
proof -
  let ?m = "DrvMem D" and ?x = "DrvExt D"
  have op: "cdb_byte Cdb 0 \<in> {SCSIOP_READ6, SCSIOP_READ, SCSIOP_READ12, SCSIOP_READ16}"
    using assms(9) by (simp add: ScsiOpToWnbdReqType_def split: if_splits)
  have len: "unat (cnt * bs) = unat cnt * unat bs" using assms(15) by (simp add: unat_mult_lem [THEN iffD1])
  have sv: "adapter_ok ?x" "p \<in> devs ?x" "queues_ok ?m d" "owner pid d" "\<not> RdStarted (RundownProtection d)"
    using assms(1,2) by (simp_all add: serves_def Let_def)
  have opb: "cdb_byte Cdb 0 \<in> block_ops" using op by blast
  have dtl: "DataTransferLength (Srbs ?m Srb) \<le> cnt * bs" using assms(6,17) len by (simp add: word_le_nat_alt)
  obtain e m1 d1 where st: "WnbdHwStartIo io opts ext Srb (?m, ?x) = Some ([], m1, dev_upd p (\<lambda>_. d1) ?x)"
    and q1: "queues_ok m1 d1" "steady d d1" "\<not> HardRemoveDevice d1" "PendingReqListHead d1 = [e]"
    and n1: "Notified m1 = Notified ?m" and s1: "Srbs m1 = (Srbs ?m)(Srb := srb\<lparr>SrbStatus := SRB_STATUS_ABORTED\<rparr>)"
    and e1: "ElemSrb (Elems m1 e) = Srb" "StartingLbn (Elems m1 e) = addr * ucast bs" "DataLength (Elems m1 e) = cnt * bs"
      "FUA (Elems m1 e) = (fua \<noteq> 0)" and c1: "RequestHandleCounter m1 = RequestHandleCounter ?m"
    by (rule start_io_queues [OF assms(5) _ _ _ _ opb assms(10) _ _ dtl assms(19,20), of opts ext])
       (use assms(2-4,6-8,11,14) sv in auto)
  let ?D1 = "D\<lparr>DrvMem := m1, DrvExt := dev_upd p (\<lambda>_. d1) ?x\<rparr>"
  have sv1: "serves pid p ?D1" by (rule serves_dev_upd [OF assms(1)]) (use assms(2) q1 in simp_all)
  have pid: "RequestorProcessId irp = pid" using assms(27) by (simp add: fetch_irp_def)
  have id: "ConnectionId d1 = ConnectionId d" "Properties d1 = Properties d" using q1(2) by (simp_all add: steady_defs)
  have srb1: "srb_of m1 e = srb\<lparr>SrbStatus := SRB_STATUS_ABORTED\<rparr>" by (simp add: e1(1) s1)
  have val: "ValidateScsiRequest d1 (srb_of m1 e)"
    using op assms(8) by (auto simp: srb1 ValidateScsiRequest_def ScsiOpToWnbdReqType_def)
  have del: "deliverable d1 bsz (length user) (srb_of m1 e) (DataLength (Elems m1 e))"
    using val assms(11,12,16,18,21,22,23) len
    by (simp add: deliverable_def id e1(3) srb1 word_le_nat_alt)
  have ty: "srb_type (srb_of m1 e) = WnbdReqTypeRead" using assms(8,9) by (simp add: srb1 srb_type_def)
  have io: "ServiceIrp irp" "SystemBuffer irp = Some (IOCTL_WNBD_FETCH_REQ (ConnectionId d) req user bsz)"
    "128 \<le> unat (InputBufferLength irp)" "128 \<le> unat (OutputBufferLength irp)" "128 \<le> system_buffer irp"
    using assms(27) by (simp_all add: fetch_irp_def system_buffer_def le_max_iff_disj)
  obtain D2 req' user' where f: "ioctl_fetch env irp (ConnectionId d) req user bsz ?D1 = reply_with STATUS_SUCCESS 128 (OutRequest req' user') D2"
    "RequestType req' = WnbdReqTypeRead"
    "dispatch_cmd (Properties d1) (Elems m1 e) (the (SrbCdb (srb_of m1 e))) WnbdReqTypeRead = Some (Cmd req')"
    "serves pid p D2" "ConnectionId (Devices (DrvExt D2) p) = ConnectionId d"
    "e \<in> set (SubmittedReqListHead (Devices (DrvExt D2) p))" "Tag (Elems (DrvMem D2) e) = RequestHandle req'"
    "Notified (DrvMem D2) = Notified ?m" "ElemSrb (Elems (DrvMem D2) e) = Srb" "DataLength (Elems (DrvMem D2) e) = cnt * bs"
    "SrbCdb (srb_of (DrvMem D2) e) = Some Cdb" "DataBuffer (srb_of (DrvMem D2) e) = Some b"
  proof (rule fetch_read [of irp p ?D1 d1 e bsz user env req], goal_cases)
    case (13 D2 req' user')
    from 13(2-) [unfolded pid id] show ?case
      by (intro that [of req' user' D2]) (use assms(8,16) n1 in \<open>simp_all add: e1 s1 id\<close>)
  qed (use sv1 q1 del assms(24-26) io ty in \<open>simp_all add: pid c1\<close>)
  have "unat addr * unat bs \<le> unat (BlockCount (Properties d)) * unat bs"
    using assms(14) by (intro mult_right_mono) simp_all
  then have "unat addr * unat bs < 2 ^ 64" using assms(13) by (rule order.strict_trans1)
  then have "Cmd req' = CmdRead addr cnt (fua \<noteq> 0 \<and> FUASupported (Flags (Properties d)))"
    using f(3) read_command [OF e1(2,3) assms(11,12) _ assms(15)] by (simp add: id e1(4))
  moreover have "awaits_reply pid (ConnectionId d) (RequestHandle req') (unat cnt * unat bs) Srb b (Notified ?m) D2"
    unfolding awaits_reply_def
  proof (intro allI impI)
    fix env' :: "'r ioctl_env" and irp' rsp u
    assume h: "IeLock env' = LockOk \<and> IeStor env' = 0 \<and> fetch_irp pid (IOCTL_WNBD_SEND_RSP (ConnectionId d) rsp) irp' \<and>
       RspRequestHandle (Response rsp) = RequestHandle req' \<and> ScsiStatus (RspStatus (Response rsp)) = 0 \<and>
       RspBuffer rsp = Some u \<and> length u = unat (RspBufferSize rsp) \<and> length u = unat cnt * unat bs"
    show "\<exists>D'. WnbdParseUserIOCTL env' irp' D2 = reply STATUS_SUCCESS D' \<and> Notified (DrvMem D') = Notified ?m @ [Srb] \<and>
        SrbStatus (Srbs (DrvMem D') Srb) = SRB_STATUS_SUCCESS \<and>
        unat (DataTransferLength (Srbs (DrvMem D') Srb)) = unat cnt * unat bs \<and>
        DataBuffer (Srbs (DrvMem D') Srb) = Some (u @ drop (unat cnt * unat bs) b)"
    proof (rule ioctl_send_read [of irp' p D2 "Devices (DrvExt D2) p" e rsp u b env'], goal_cases)
      case (15 D3)
      with h f(5,9,10) len show ?case
        by (intro exI [of _ D3])
           (simp add: fetch_irp_def WnbdParseUserIOCTL_def CHECK_I_LOCATION_def f(8) padded_def)
    qed (use h f op len assms(18) in \<open>auto simp: fetch_irp_def system_buffer_def IsReadSrb_def\<close>)
  qed
  moreover have "WnbdParseUserIOCTL env irp ?D1 = reply_with STATUS_SUCCESS 128 (OutRequest req' user') D2"
    using f(1) io by (simp add: WnbdParseUserIOCTL_def CHECK_I_LOCATION_def)
  ultimately show ?thesis
    using that [OF st n1 _ f(2)] by blast
qed

text \<open>
  C2: a read of blocks on the disk, given to an idle disk by the port driver, reaches the
  process that serves the disk with the block address and the block count of its command
  descriptor; a successful reply with the data of these blocks completes the request block,
  exactly once, with that data in its buffer.
\<close>

theorem read_is_served:
  fixes D :: "'r driver"
  assumes "serves pid p D" "Devices (DrvExt D) p = d" "PendingReqListHead d = []" "\<not> HardRemoveDevice d"
    and "mapped_at (Srbs (DrvMem D) Srb) p (DrvExt D)"
    and "Srbs (DrvMem D) Srb = srb" "SrbFunction srb = SRB_FUNCTION_EXECUTE_SCSI" "SrbCdb srb = Some Cdb"
    and "ScsiOpToWnbdReqType (cdb_byte Cdb 0) = WnbdReqTypeRead" "SrbCdbGetRange Cdb = (addr, cnt, fua)"
    and "BlockSize (Properties d) = bs" "bs \<noteq> 0" "unat (BlockCount (Properties d)) * unat bs < 2 ^ 64"
    and "unat addr + unat cnt \<le> unat (BlockCount (Properties d))" "unat cnt * unat bs < 2 ^ 32"
    and "DataBuffer srb = Some b" "unat (DataTransferLength srb) \<le> unat cnt * unat bs" "unat cnt * unat bs \<le> length b"
    and "IoPool io = Some a" "a \<notin> Allocated (DrvMem D)"
    and "unat cnt * unat bs \<le> unat bsz" "16 \<le> bsz" "unat bsz \<le> length user"
    and "\<forall>w \<in> set (IeWaits env). granting w" "IeWaits env \<noteq> []"
    and "unat (RequestHandleCounter (DrvMem D)) + length (IeWaits env) < 2 ^ 64"
    and "fetch_irp pid (IOCTL_WNBD_FETCH_REQ (ConnectionId d) req user bsz) irp"
  shows "\<exists>m1 x1 D2 req' user'.
    WnbdHwStartIo io opts ext Srb (DrvMem D, DrvExt D) = Some ([], m1, x1) \<and> Notified m1 = Notified (DrvMem D) \<and>
    WnbdParseUserIOCTL env irp (D\<lparr>DrvMem := m1, DrvExt := x1\<rparr>) = reply_with STATUS_SUCCESS 128 (OutRequest req' user') D2 \<and>
    RequestType req' = WnbdReqTypeRead \<and> Cmd req' = CmdRead addr cnt (fua \<noteq> 0 \<and> FUASupported (Flags (Properties d))) \<and>
    awaits_reply pid (ConnectionId d) (RequestHandle req') (unat cnt * unat bs) Srb b (Notified (DrvMem D)) D2"
  by (rule read_flow [OF assms, of opts ext]) blast

text \<open>The disk of \<open>one_disk\<close>, with a read addressed to it.\<close>

definition read_srb :: "u16 \<Rightarrow> SRB" where
  "read_srb t = sample_srb\<lparr>SrbTargetId := ucast t\<rparr>"

lemma sample_create_mem:
  assumes "WnbdCreateConnection (Lifecycle.sample_env p) opts P info (m, x) = (St, info', m', x')"
  shows "m' = m"
proof -
  have "populate n [] s = s" for n s by (cases n; cases s) simp_all
  then show ?thesis
    using assms
    by (auto simp: WnbdCreateConnection_def create_device_def create_addressed_def WnbdInitializeDevice_def
        WnbdPopulateSrbElementPool_def Lifecycle.sample_env_def Let_def split: if_splits option.splits prod.splits)
qed

lemma sample_read_disk:
  obtains D :: "unit driver" where "serves 42 1 D" "mapped_at (Srbs (DrvMem D) 100) 1 (DrvExt D)"
    "Srbs (DrvMem D) 100 = read_srb (Target (Devices (DrvExt D) 1))" "Notified (DrvMem D) = []"
    "PendingReqListHead (Devices (DrvExt D) 1) = []" "\<not> HardRemoveDevice (Devices (DrvExt D) 1)"
    "Properties (Devices (DrvExt D) 1) = named_props 100" "9 \<notin> Allocated (DrvMem D)" "RequestHandleCounter (DrvMem D) = 10"
proof (rule one_disk)
  fix info m x
  assume h: "WnbdCreateConnection (Lifecycle.sample_env 1) WnbdDriverOptions (named_props 100) zero_info
      (sample_mem, empty_adapter) = (STATUS_SUCCESS, info, m, x)"
    "created (named_props 100) 1 (referenced empty_adapter) x" "adapter_ok x" "queues_ok m (Devices x 1)" "DeviceList x = [1]"
    "RundownProtection (Devices x 1) = rundown_init"
  let ?d = "Devices x 1"
  have m: "m = sample_mem" by (rule sample_create_mem [OF h(1)])
  have d: "Bus ?d = 0" "Lun ?d = 0" "queued ?d = []" "\<not> HardRemoveDevice ?d" "Properties ?d = named_props 100"
    using h(2) by (simp_all add: created_def Let_def)
  have "unat (Target ?d) < 128" using h(3,5) by (simp add: adapter_defs)
  then have t: "(ucast (ucast (Target ?d) :: u8) :: u16) = Target ?d"
    by (simp add: word_unat_eq_iff unsigned_ucast_eq unsigned_take_bit_eq take_bit_nat_eq_self)
  let ?D = "sample_driver (m\<lparr>Srbs := (\<lambda>_. read_srb (Target ?d))\<rparr>) x"
  have "mapped_at (read_srb (Target ?d)) 1 x"
    using h(5,6) d t by (simp add: mapped_at_def WnbdFindDeviceByAddr_def find_device_def read_srb_def sample_srb_def)
  moreover have "serves 42 1 ?D"
    using h(3-6) d(5) by (simp add: serves_def owner_def sample_driver_def named_props_def queue_defs)
  ultimately show ?thesis
    using d m by (intro that [of ?D]) (simp_all add: sample_driver_def queued_def, simp add: sample_mem_def)
qed

definition sample_rsp :: "u64 \<Rightarrow> SEND_RSP_COMMAND" where
  "sample_rsp h = \<lparr>Response = \<lparr>RspRequestHandle = h, RspRequestType = WnbdReqTypeRead, RspStatus = zero_status\<rparr>,
     RspBuffer = Some (replicate 512 3), RspBufferSize = 512\<rparr>"

theorem read_is_served_witness:
  "\<exists>(D :: unit driver) m1 x1 D2 req' user'.
    WnbdHwStartIo sample_io WnbdDriverOptions 0 100 (DrvMem D, DrvExt D) = Some ([], m1, x1) \<and>
    WnbdParseUserIOCTL (sample_ioctl_env [Dispatch.sample_env])
      ((sample_irp (IOCTL_WNBD_FETCH_REQ (ConnectionId (Devices (DrvExt D) 1)) zero_request (replicate 512 0) 512))\<lparr>RequestorProcessId := 42\<rparr>)
      (D\<lparr>DrvMem := m1, DrvExt := x1\<rparr>) = reply_with STATUS_SUCCESS 128 (OutRequest req' user') D2 \<and>
    Cmd req' = CmdRead 1 1 False \<and>
    (\<exists>D3. WnbdParseUserIOCTL (sample_ioctl_env [])
       ((sample_irp (IOCTL_WNBD_SEND_RSP (ConnectionId (Devices (DrvExt D) 1)) (sample_rsp (RequestHandle req'))))\<lparr>RequestorProcessId := 42\<rparr>)
       D2 = reply STATUS_SUCCESS D3 \<and> Notified (DrvMem D3) = [100] \<and>
       DataBuffer (Srbs (DrvMem D3) 100) = Some (replicate 512 3))"
proof (rule sample_read_disk)
  fix D :: "unit driver"
  assume h: "serves 42 1 D" "mapped_at (Srbs (DrvMem D) 100) 1 (DrvExt D)"
    "Srbs (DrvMem D) 100 = read_srb (Target (Devices (DrvExt D) 1))" "Notified (DrvMem D) = []"
    "PendingReqListHead (Devices (DrvExt D) 1) = []" "\<not> HardRemoveDevice (Devices (DrvExt D) 1)"
    "Properties (Devices (DrvExt D) 1) = named_props 100" "9 \<notin> Allocated (DrvMem D)" "RequestHandleCounter (DrvMem D) = 10"
  let ?d = "Devices (DrvExt D) 1" and ?Cdb = "[0x28, 0, 0, 0, 0, 1, 0, 0, 1, 0] :: u8 list"
  let ?irp = "\<lambda>c. (sample_irp c)\<lparr>RequestorProcessId := 42\<rparr>"
  have rg: "SrbCdbGetRange ?Cdb = (1, 1, 0)"
    by (simp add: SrbCdbGetRange_def cdb_byte_def cdb_field_def be_word_def)
  have srb: "SrbFunction (read_srb t) = SRB_FUNCTION_EXECUTE_SCSI" "SrbCdb (read_srb t) = Some ?Cdb"
    "DataBuffer (read_srb t) = Some (replicate 512 7)" "DataTransferLength (read_srb t) = 512" for t
    by (simp_all add: read_srb_def sample_srb_def)
  have io: "fetch_irp 42 c (?irp c)" for c by (simp add: fetch_irp_def sample_irp_def split: command.split)
  have rsp: "RspRequestHandle (Response (sample_rsp k)) = k" "ScsiStatus (RspStatus (Response (sample_rsp k))) = 0"
    "RspBuffer (sample_rsp k) = Some (replicate 512 3)" "RspBufferSize (sample_rsp k) = 512" for k
    by (simp_all add: sample_rsp_def zero_status_def)
  have op: "ScsiOpToWnbdReqType (cdb_byte ?Cdb 0) = WnbdReqTypeRead"
    by (simp add: cdb_byte_def ScsiOpToWnbdReqType_def)
  have wt: "\<forall>w \<in> set (IeWaits (sample_ioctl_env [Dispatch.sample_env])). granting w" "IeWaits (sample_ioctl_env [Dispatch.sample_env]) \<noteq> []"
    by (simp_all add: sample_ioctl_env_def granting_def Dispatch.sample_env_def)
  have "\<exists>m1 x1 D2 req' user'.
    WnbdHwStartIo sample_io WnbdDriverOptions 0 100 (DrvMem D, DrvExt D) = Some ([], m1, x1) \<and> Notified m1 = Notified (DrvMem D) \<and>
    WnbdParseUserIOCTL (sample_ioctl_env [Dispatch.sample_env]) (?irp (IOCTL_WNBD_FETCH_REQ (ConnectionId ?d) zero_request (replicate 512 0) 512))
      (D\<lparr>DrvMem := m1, DrvExt := x1\<rparr>) = reply_with STATUS_SUCCESS 128 (OutRequest req' user') D2 \<and>
    RequestType req' = WnbdReqTypeRead \<and> Cmd req' = CmdRead 1 1 (0 \<noteq> (0 :: u32) \<and> FUASupported (Flags (Properties ?d))) \<and>
    awaits_reply 42 (ConnectionId ?d) (RequestHandle req') (unat (1 :: u32) * unat (512 :: u32)) 100 (replicate 512 7) (Notified (DrvMem D)) D2"
    by (rule read_is_served [OF h(1) refl h(5,6,2,3) srb(1,2) op rg _ _ _ _ _ srb(3) _ _ _ h(8) _ _ _ wt _ io])
       (use h(7,9) in \<open>simp_all add: named_props_def srb sample_io_def sample_ioctl_env_def\<close>)
  then obtain m1 x1 D2 req' user' where r:
    "WnbdHwStartIo sample_io WnbdDriverOptions 0 100 (DrvMem D, DrvExt D) = Some ([], m1, x1)"
    "WnbdParseUserIOCTL (sample_ioctl_env [Dispatch.sample_env]) (?irp (IOCTL_WNBD_FETCH_REQ (ConnectionId ?d) zero_request (replicate 512 0) 512))
      (D\<lparr>DrvMem := m1, DrvExt := x1\<rparr>) = reply_with STATUS_SUCCESS 128 (OutRequest req' user') D2" "Cmd req' = CmdRead 1 1 False"
    "awaits_reply 42 (ConnectionId ?d) (RequestHandle req') 512 100 (replicate 512 7) [] D2"
    using h(4) by auto
  obtain D3 where "WnbdParseUserIOCTL (sample_ioctl_env [])
      (?irp (IOCTL_WNBD_SEND_RSP (ConnectionId ?d) (sample_rsp (RequestHandle req')))) D2 = reply STATUS_SUCCESS D3"
    "Notified (DrvMem D3) = [100]" "DataBuffer (Srbs (DrvMem D3) 100) = Some (replicate 512 3)"
    using r(4) [unfolded awaits_reply_def, rule_format, of "sample_ioctl_env []" "sample_rsp (RequestHandle req')"
        "?irp (IOCTL_WNBD_SEND_RSP (ConnectionId ?d) (sample_rsp (RequestHandle req')))" "replicate 512 3"]
    by (auto simp: rsp io sample_ioctl_env_def)
  with r(1-3) show ?thesis by blast
qed

end
