(* ===== verification/NbdProtocol.thy ===== *)
theory NbdProtocol
  imports Types
begin

text \<open>
  The NBD client protocol of user space: \<^verbatim>\<open>libwnbd/nbd_protocol.h\<close> and
  \<^verbatim>\<open>libwnbd/nbd_protocol.cpp\<close>. A socket is what the two stream calls can
  observe of it: the bytes the peer will send and how it ends, the sizes in which the network
  delivers and accepts them, and the bytes accepted so far. A call that blocks forever gives
  \<open>None\<close>. Whether an allocation is granted is part of the environment.
\<close>

section \<open>Windows error codes\<close>

abbreviation (input) ERROR_FILE_NOT_FOUND :: u32 where "ERROR_FILE_NOT_FOUND \<equiv> 2"
abbreviation (input) ERROR_ACCESS_DENIED :: u32 where "ERROR_ACCESS_DENIED \<equiv> 5"
abbreviation (input) ERROR_INVALID_HANDLE :: u32 where "ERROR_INVALID_HANDLE \<equiv> 6"
abbreviation (input) ERROR_NOT_ENOUGH_MEMORY :: u32 where "ERROR_NOT_ENOUGH_MEMORY \<equiv> 8"
abbreviation (input) ERROR_BAD_FORMAT :: u32 where "ERROR_BAD_FORMAT \<equiv> 11"
abbreviation (input) ERROR_GEN_FAILURE :: u32 where "ERROR_GEN_FAILURE \<equiv> 31"
abbreviation (input) ERROR_NOT_SUPPORTED :: u32 where "ERROR_NOT_SUPPORTED \<equiv> 50"
abbreviation (input) ERROR_INVALID_PARAMETER :: u32 where "ERROR_INVALID_PARAMETER \<equiv> 87"
abbreviation (input) ERROR_FILE_TOO_LARGE :: u32 where "ERROR_FILE_TOO_LARGE \<equiv> 223"
abbreviation (input) ERROR_IO_PENDING :: u32 where "ERROR_IO_PENDING \<equiv> 997"
abbreviation (input) ERROR_CANCELLED :: u32 where "ERROR_CANCELLED \<equiv> 1223"
abbreviation (input) ERROR_GRACEFUL_DISCONNECT :: u32 where "ERROR_GRACEFUL_DISCONNECT \<equiv> 1226"
abbreviation (input) ERROR_NOT_CONNECTED :: u32 where "ERROR_NOT_CONNECTED \<equiv> 2250"
abbreviation (input) SOCKET_ERROR :: u32 where "SOCKET_ERROR \<equiv> - 1"
abbreviation (input) WSAEINTR :: u32 where "WSAEINTR \<equiv> 10004"
abbreviation (input) WSAECONNRESET :: u32 where "WSAECONNRESET \<equiv> 10054"
abbreviation (input) WSAESHUTDOWN :: u32 where "WSAESHUTDOWN \<equiv> 10058"
abbreviation (input) WSAEDISCON :: u32 where "WSAEDISCON \<equiv> 10101"

section \<open>Sockets\<close>

datatype rx_end = RxClosed | RxFailed u32 | RxSilent
datatype send_result = Accepted nat | SendFailed u32 | SendZero u32 | SendBlocks
datatype recv_result = Got bytes | PeerClosed | RecvFailed u32

record sock =
  SockOpen :: bool
  RxBytes :: bytes
  RxChunks :: "nat list"
  RxEnd :: rx_end
  BadLength :: u32
  TxBytes :: bytes
  TxResults :: "send_result list"
  Grants :: "nat \<Rightarrow> bool"

text \<open>A length as the signed 32-bit argument of the two stream calls.\<close>

definition int_cast :: "nat \<Rightarrow> int" where
  "int_cast n = (let m = n mod 2 ^ 32 in if m < 2 ^ 31 then int m else int m - 2 ^ 32)"

lemma int_cast_small [simp]: "n < 2147483648 \<Longrightarrow> int_cast n = int n"
  by (simp add: int_cast_def)

lemma int_cast_le: "nat (int_cast n) \<le> n"
proof (cases "n mod 2 ^ 32 < (2 ^ 31 :: nat)")
  case True
  then show ?thesis by (simp add: int_cast_def)
next
  case False
  moreover have "n mod 2 ^ 32 < (2 ^ 32 :: nat)" by (rule mod_less_divisor) simp
  ultimately have "int_cast n < 0" by (simp add: int_cast_def)
  then show ?thesis by simp
qed

text \<open>
  \<^verbatim>\<open>recv(Fd, buf, (int) n, 0)\<close>: at least one byte, at most the requested number and
  what has arrived. A negative length is refused with some error.
\<close>

definition recv :: "nat \<Rightarrow> sock \<Rightarrow> (recv_result \<times> sock) option" where
  "recv n s =
     (let len = int_cast n in
      if len < 0 then Some (RecvFailed (BadLength s), s)
      else if len = 0 then Some (PeerClosed, s)
      else if RxBytes s = [] then
        (case RxEnd s of RxClosed \<Rightarrow> Some (PeerClosed, s) | RxFailed e \<Rightarrow> Some (RecvFailed e, s) | RxSilent \<Rightarrow> None)
      else (let (c, cs) = (case RxChunks s of [] \<Rightarrow> (nat len, []) | c # cs \<Rightarrow> (c, cs));
                k = min (max 1 c) (nat len)
            in Some (Got (take k (RxBytes s)), s\<lparr>RxBytes := drop k (RxBytes s), RxChunks := cs\<rparr>)))"

text \<open>
  \<^verbatim>\<open>send(Fd, buf, (int) n, 0)\<close>: the number of bytes accepted, or what
  \<^verbatim>\<open>WSAGetLastError\<close> says when it is not positive.
\<close>

definition send :: "bytes \<Rightarrow> sock \<Rightarrow> (send_result \<times> sock) option" where
  "send bs s =
     (let len = int_cast (length bs);
          (r, rs) = (case TxResults s of [] \<Rightarrow> (Accepted (nat len), []) | r # rs \<Rightarrow> (r, rs));
          s = s\<lparr>TxResults := rs\<rparr>
      in if len \<le> 0 then Some (SendFailed (BadLength s), s)
         else case r of
                Accepted c \<Rightarrow>
                  (let k = min (max 1 c) (nat len) in Some (Accepted k, s\<lparr>TxBytes := TxBytes s @ take k bs\<rparr>))
              | SendBlocks \<Rightarrow> None
              | r \<Rightarrow> Some (r, s))"

text \<open>The translation of socket errors, the same on both sides; \<open>r\<close> is the failed result.\<close>

definition socket_error :: "u32 \<Rightarrow> u32 \<Rightarrow> u32" where
  "socket_error r Err =
     (if Err = WSAEINTR then ERROR_CANCELLED
      else if Err \<in> {WSAESHUTDOWN, WSAECONNRESET, WSAEDISCON} then ERROR_GRACEFUL_DISCONNECT
      else r)"

lemma recv_Got:
  assumes "recv n s = Some (Got bs, s')"
  shows "0 < length bs" "length bs \<le> n" "RxBytes s = bs @ RxBytes s'"
proof -
  note le = int_cast_le [of n]
  show "0 < length bs" "length bs \<le> n" "RxBytes s = bs @ RxBytes s'"
    using assms le by (auto simp: recv_def Let_def split: if_splits rx_end.splits list.splits)
qed

lemma send_Accepted:
  assumes "send bs s = Some (Accepted k, s')"
  shows "0 < k" "k \<le> length bs" "TxBytes s' = TxBytes s @ take k bs"
proof -
  note le = int_cast_le [of "length bs"]
  show "0 < k" "k \<le> length bs" "TxBytes s' = TxBytes s @ take k bs"
    using assms le by (auto simp: send_def Let_def split: if_splits send_result.splits list.splits)
qed

section \<open>Exact transfers\<close>

text \<open>
  Operations return a value or a nonzero error code with the socket; a sequence stops at the
  first error.
\<close>

type_synonym 'a net = "sock \<Rightarrow> ((u32 + 'a) \<times> sock) option"

definition after :: "'a net \<Rightarrow> ('a \<Rightarrow> 'b net) \<Rightarrow> 'b net" where
  "after m f s =
     (case m s of
        None \<Rightarrow> None
      | Some (Inl e, s') \<Rightarrow> Some (Inl e, s')
      | Some (Inr a, s') \<Rightarrow> f a s')"

definition ret :: "'a \<Rightarrow> 'a net" where
  "ret a s = Some (Inr a, s)"

definition failed :: "u32 \<Rightarrow> 'a net" where
  "failed e s = Some (Inl e, s)"

definition check :: "u32 \<Rightarrow> unit net" where
  "check r = (if r = 0 then ret () else failed r)"

lemmas net_defs = after_def ret_def failed_def check_def

function RecvLoop :: "nat \<Rightarrow> bytes \<Rightarrow> bytes net" where
  "RecvLoop n acc s =
     (if n = 0 then Some (Inr acc, s)
      else case recv n s of
             None \<Rightarrow> None
           | Some (Got bs, s') \<Rightarrow> RecvLoop (n - length bs) (acc @ bs) s'
           | Some (PeerClosed, s') \<Rightarrow> Some (Inl ERROR_GRACEFUL_DISCONNECT, s')
           | Some (RecvFailed e, s') \<Rightarrow> Some (Inl (socket_error SOCKET_ERROR e), s'))"
  by pat_completeness auto

termination
  by (relation "measure fst") (auto dest: recv_Got(1))

declare RecvLoop.simps [simp del]

definition RecvExact :: "nat \<Rightarrow> bytes net" where
  "RecvExact Length s = (if \<not> SockOpen s then Some (Inl ERROR_INVALID_HANDLE, s) else RecvLoop Length [] s)"

text \<open>A send that returns zero with an error that is not translated ends the loop with the
  value zero, which the callers read as success.\<close>

function SendLoop :: "bytes \<Rightarrow> unit net" where
  "SendLoop bs s =
     (if bs = [] then Some (Inr (), s)
      else case send bs s of
             None \<Rightarrow> None
           | Some (Accepted k, s') \<Rightarrow> SendLoop (drop k bs) s'
           | Some (SendFailed e, s') \<Rightarrow> check (socket_error SOCKET_ERROR e) s'
           | Some (SendZero e, s') \<Rightarrow> check (socket_error 0 e) s'
           | Some (SendBlocks, s') \<Rightarrow> None)"
  by pat_completeness auto

termination
  by (relation "measure (length \<circ> fst)") (auto dest: send_Accepted(1))

declare SendLoop.simps [simp del]

definition SendExact :: "bytes \<Rightarrow> unit net" where
  "SendExact Data s = (if \<not> SockOpen s then Some (Inl ERROR_INVALID_HANDLE, s) else SendLoop Data s)"

section \<open>Option haggling\<close>

abbreviation (input) OPTION_MAGIC :: u64 where "OPTION_MAGIC \<equiv> 0x49484156454F5054"
abbreviation (input) CLIENT_MAGIC :: u64 where "CLIENT_MAGIC \<equiv> 0x00420281861253"
abbreviation (input) REPLY_MAGIC :: u64 where "REPLY_MAGIC \<equiv> 0x3e889045565a9"
abbreviation (input) NBD_OPT_EXPORT_NAME :: u32 where "NBD_OPT_EXPORT_NAME \<equiv> 1"
abbreviation (input) NBD_OPT_GO :: u32 where "NBD_OPT_GO \<equiv> 7"
abbreviation (input) NBD_REP_ACK :: u32 where "NBD_REP_ACK \<equiv> 1"
abbreviation (input) NBD_REP_INFO :: u32 where "NBD_REP_INFO \<equiv> 3"
abbreviation (input) NBD_REP_FLAG_ERROR :: u32 where "NBD_REP_FLAG_ERROR \<equiv> 0x80000000"
abbreviation (input) NBD_REP_ERR_UNSUP :: u32 where "NBD_REP_ERR_UNSUP \<equiv> 0x80000001"
abbreviation (input) NBD_REP_ERR_POLICY :: u32 where "NBD_REP_ERR_POLICY \<equiv> 0x80000002"
abbreviation (input) NBD_REP_ERR_BLOCK_SIZE_REQD :: u32 where "NBD_REP_ERR_BLOCK_SIZE_REQD \<equiv> 0x80000008"
abbreviation (input) NBD_FLAG_FIXED_NEWSTYLE :: u32 where "NBD_FLAG_FIXED_NEWSTYLE \<equiv> 1"
abbreviation (input) NBD_FLAG_NO_ZEROES :: u16 where "NBD_FLAG_NO_ZEROES \<equiv> 2"
abbreviation (input) NBD_INFO_EXPORT :: u16 where "NBD_INFO_EXPORT \<equiv> 0"
abbreviation (input) NBD_INFO_BLOCK_SIZE :: u16 where "NBD_INFO_BLOCK_SIZE \<equiv> 3"

definition INIT_PASSWD :: bytes where
  "INIT_PASSWD = [0x4e, 0x42, 0x44, 0x4d, 0x41, 0x47, 0x49, 0x43]"

record NBD_BLOCK_SIZE_INFO =
  Minimum :: u32
  Preferred :: u32
  Maximum :: u32
  Received :: bool

record NBD_HANDSHAKE_RPL =
  HsOption :: u32
  ReplyType :: u32
  HsData :: bytes

text \<open>The header of an option request; the data follows when there is any.\<close>

definition NBD_HANDSHAKE_REQ :: "u32 \<Rightarrow> nat \<Rightarrow> bytes" where
  "NBD_HANDSHAKE_REQ Opt Datasize =
     be_bytes 8 OPTION_MAGIC @ be_bytes 4 Opt @ be_bytes 4 (of_nat Datasize :: u32)"

definition NbdSendHandshakeRequest :: "u32 \<Rightarrow> nat \<Rightarrow> bytes option \<Rightarrow> unit net" where
  "NbdSendHandshakeRequest Opt Datasize D =
     after (SendExact (NBD_HANDSHAKE_REQ Opt Datasize)) (\<lambda>_.
       case D of None \<Rightarrow> ret () | Some bs \<Rightarrow> SendExact (take Datasize bs))"

text \<open>The request identifiers are the memory of the array they are in.\<close>

definition NbdSendInfoRequest :: "u32 \<Rightarrow> u16 \<Rightarrow> bytes option \<Rightarrow> bytes \<Rightarrow> unit net" where
  "NbdSendInfoRequest Opt NumberOfRequests Requests Name =
     (let TotalLen = 4 + length Name + 2 + unat NumberOfRequests * 2 in
      after (NbdSendHandshakeRequest Opt TotalLen None) (\<lambda>_.
      after (SendExact (be_bytes 4 (of_nat (length Name) :: u32))) (\<lambda>_.
      after (SendExact Name) (\<lambda>_.
      after (SendExact (be_bytes 2 NumberOfRequests)) (\<lambda>_.
        if 0 < NumberOfRequests
        then (case Requests of None \<Rightarrow> ret () | Some bs \<Rightarrow> SendExact (take (unat NumberOfRequests * 2) bs))
        else ret ())))))"

text \<open>
  A reply to an option request; the receive routine is an argument of the code. The null pointer
  is an error whose code nobody reads.
\<close>

definition grant :: "nat \<Rightarrow> unit net" where
  "grant n s = (if Grants s n then ret () s else failed ERROR_NOT_ENOUGH_MEMORY s)"

definition handshake_body :: "(nat \<Rightarrow> bytes net) \<Rightarrow> bytes \<Rightarrow> NBD_HANDSHAKE_RPL net" where
  "handshake_body RecvFn h =
     (let Magic = be_word (take 8 h); Opt = be_word (take 4 (drop 8 h));
          Type = be_word (take 4 (drop 12 h)); Datasize = be_word (take 4 (drop 16 h)) :: u32
      in if REPLY_MAGIC \<noteq> Magic then failed ERROR_BAD_FORMAT
         else if Datasize > 0 then
           after (grant (20 + unat Datasize)) (\<lambda>_.
           after (RecvFn (unat Datasize)) (\<lambda>d.
             ret \<lparr>HsOption = Opt, ReplyType = Type, HsData = d\<rparr>))
         else ret \<lparr>HsOption = Opt, ReplyType = Type, HsData = []\<rparr>)"

definition NbdReadHandshakeReplyWithRecv :: "(nat \<Rightarrow> bytes net) \<Rightarrow> NBD_HANDSHAKE_RPL net" where
  "NbdReadHandshakeReplyWithRecv RecvFn =
     after (grant 20) (\<lambda>_. after (RecvFn 20) (handshake_body RecvFn))"

definition NbdReadHandshakeReply :: "NBD_HANDSHAKE_RPL net" where
  "NbdReadHandshakeReply = NbdReadHandshakeReplyWithRecv RecvExact"

definition NbdParseSizes :: "bytes \<Rightarrow> u64 \<times> u16" where
  "NbdParseSizes D = (be_word (take 8 D), be_word (take 2 (drop 8 D)))"

definition NbdValidateInitialMagic :: "bytes option \<Rightarrow> u32" where
  "NbdValidateInitialMagic Magic =
     (case Magic of None \<Rightarrow> ERROR_BAD_FORMAT
      | Some m \<Rightarrow> if length m \<noteq> 8 \<or> m \<noteq> INIT_PASSWD then ERROR_BAD_FORMAT else 0)"

definition NbdValidateOptionMagic :: "u64 \<Rightarrow> u32 \<times> bool" where
  "NbdValidateOptionMagic Magic =
     (if OPTION_MAGIC = Magic then (0, False)
      else if CLIENT_MAGIC = Magic then (ERROR_NOT_SUPPORTED, True)
      else (ERROR_BAD_FORMAT, False))"

text \<open>What the negotiation writes through its pointer arguments.\<close>

record export =
  ExSize :: u64
  ExFlags :: u16
  SeenExport :: bool
  BlockInfo :: "NBD_BLOCK_SIZE_INFO option"

definition NbdParseOptGoReply :: "u32 \<Rightarrow> bytes \<Rightarrow> export \<Rightarrow> u32 \<times> export" where
  "NbdParseOptGoReply Type D X =
     (if Type = NBD_REP_ACK then
        (if length D \<noteq> 0 then ERROR_BAD_FORMAT else if SeenExport X then 0 else ERROR_BAD_FORMAT, X)
      else if Type \<noteq> NBD_REP_INFO then (0, X)
      else if length D < 2 then (ERROR_BAD_FORMAT, X)
      else if be_word (take 2 D) \<noteq> NBD_INFO_EXPORT then (0, X)
      else if length D \<noteq> 12 then (ERROR_BAD_FORMAT, X)
      else (let (Sz, Fl) = NbdParseSizes (drop 2 D)
            in (0, X\<lparr>ExSize := Sz, ExFlags := Fl, SeenExport := True\<rparr>)))"

definition NbdParseInfoBlockSize :: "u32 \<Rightarrow> bytes \<Rightarrow> NBD_BLOCK_SIZE_INFO \<Rightarrow> u32 \<times> NBD_BLOCK_SIZE_INFO" where
  "NbdParseInfoBlockSize Type D B =
     (if Type \<noteq> NBD_REP_INFO then (0, B)
      else if length D < 2 then (ERROR_BAD_FORMAT, B)
      else if be_word (take 2 D) \<noteq> NBD_INFO_BLOCK_SIZE then (0, B)
      else if length D \<noteq> 14 then (ERROR_BAD_FORMAT, B)
      else (0, \<lparr>Minimum = be_word (take 4 (drop 2 D)), Preferred = be_word (take 4 (drop 6 D)),
                Maximum = be_word (take 4 (drop 10 D)), Received = True\<rparr>))"

definition NbdMaskClientFlags :: "u32 \<Rightarrow> u16 \<Rightarrow> u32" where
  "NbdMaskClientFlags ClientFlags ServerFlags = ClientFlags AND ucast ServerFlags"

definition NbdRequireFixedNewstyle :: "u32 \<Rightarrow> u32" where
  "NbdRequireFixedNewstyle ClientFlags =
     (if ClientFlags AND NBD_FLAG_FIXED_NEWSTYLE \<noteq> 0 then 0 else ERROR_NOT_SUPPORTED)"

definition NbdGetReadResponseBufferSize :: "u32 \<Rightarrow> u32 \<Rightarrow> u32 \<Rightarrow> u32 \<times> u32" where
  "NbdGetReadResponseBufferSize RequestLength PreallocatedBufferSize DataBufferSize =
     (if RequestLength > PreallocatedBufferSize then (ERROR_FILE_TOO_LARGE, DataBufferSize)
      else (0, RequestLength))"

definition NbdSendOptExportName :: "bytes \<Rightarrow> u16 \<Rightarrow> export \<Rightarrow> export net" where
  "NbdSendOptExportName Name GFlags X =
     after (NbdSendHandshakeRequest NBD_OPT_EXPORT_NAME (length Name) (Some Name)) (\<lambda>_.
     after (RecvExact 10) (\<lambda>Buf.
       (let (Sz, Fl) = NbdParseSizes Buf; X = X\<lparr>ExSize := Sz, ExFlags := Fl\<rparr>
        in if GFlags AND NBD_FLAG_NO_ZEROES = 0
           then after (RecvExact 124) (\<lambda>_. ret X)
           else ret X)))"

section \<open>Receiving consumes the stream\<close>

lemmas grant_net = grant_def net_defs

text \<open>The contract of a receive routine: a success is exactly the next bytes of the stream.\<close>

locale exact_receiver =
  fixes RecvFn :: "nat \<Rightarrow> bytes net"
  assumes received: "RecvFn n s = Some (Inr bs, s') \<Longrightarrow> length bs = n \<and> RxBytes s = bs @ RxBytes s'"
begin

lemma reply_consumes:
  assumes "NbdReadHandshakeReplyWithRecv RecvFn s = Some (Inr r, s')"
  shows "\<exists>h. length h = 20 \<and> RxBytes s = h @ HsData r @ RxBytes s'"
proof -
  from assms obtain h s1 where 1: "RecvFn 20 s = Some (Inr h, s1)"
    and m: "be_word (take 8 h) = REPLY_MAGIC"
    by (auto simp: NbdReadHandshakeReplyWithRecv_def handshake_body_def Let_def grant_net split: if_splits option.splits sum.splits)
  let ?n = "be_word (take 4 (drop 16 h)) :: u32"
  note c1 = received [OF 1]
  show ?thesis
  proof (cases "?n > 0")
    case False
    then show ?thesis using assms 1 c1 m
      by (auto simp: NbdReadHandshakeReplyWithRecv_def handshake_body_def Let_def grant_net split: if_splits)
  next
    case True
    with assms 1 m obtain d s2 where 2: "RecvFn (unat ?n) s1 = Some (Inr d, s2)"
      by (auto simp: NbdReadHandshakeReplyWithRecv_def handshake_body_def Let_def grant_net split: if_splits option.splits sum.splits)
    note c2 = received [OF 2]
    show ?thesis using assms 1 2 True c1 c2 m
      by (auto simp: NbdReadHandshakeReplyWithRecv_def handshake_body_def Let_def grant_net split: if_splits)
  qed
qed

end

lemma RecvLoop_stream:
  "RecvLoop n acc s = Some (Inr bs, s') \<Longrightarrow>
     \<exists>d. bs = acc @ d \<and> length d = n \<and> RxBytes s = d @ RxBytes s'"
proof (induction n acc s arbitrary: bs s' rule: RecvLoop.induct)
  case (1 n acc s)
  show ?case
  proof (cases "n = 0")
    case True
    then show ?thesis using "1.prems" by (simp add: RecvLoop.simps [of 0])
  next
    case False
    with "1.prems" obtain c s1 where r: "recv n s = Some (Got c, s1)"
      and l: "RecvLoop (n - length c) (acc @ c) s1 = Some (Inr bs, s')"
      by (auto simp: RecvLoop.simps [of n] split: option.splits recv_result.splits)
    from "1.IH" [OF False r refl refl l] obtain d
      where d: "bs = (acc @ c) @ d" "length d = n - length c" "RxBytes s1 = d @ RxBytes s'"
      by blast
    then show ?thesis using recv_Got [OF r] by (intro exI [of _ "c @ d"]) simp
  qed
qed

interpretation nr: exact_receiver RecvExact
proof
  fix n s bs s'
  assume "RecvExact n s = Some (Inr bs, s')"
  then have "RecvLoop n [] s = Some (Inr bs, s')" by (auto simp: RecvExact_def split: if_splits)
  from RecvLoop_stream [OF this] show "length bs = n \<and> RxBytes s = bs @ RxBytes s'" by auto
qed

lemma NbdReadHandshakeReply_consumes:
  "NbdReadHandshakeReply s = Some (Inr r, s') \<Longrightarrow> length (RxBytes s') < length (RxBytes s)"
  unfolding NbdReadHandshakeReply_def by (drule nr.reply_consumes) auto

section \<open>Negotiation\<close>

text \<open>The error replies; the message they may carry is only logged.\<close>

definition error_reply :: "u32 \<Rightarrow> bytes \<Rightarrow> u16 \<Rightarrow> export \<Rightarrow> export net" where
  "error_reply Type Name GFlags X =
     (if Type = NBD_REP_ERR_UNSUP then NbdSendOptExportName Name GFlags X
      else if Type = NBD_REP_ERR_POLICY then failed ERROR_ACCESS_DENIED
      else if Type = NBD_REP_ERR_BLOCK_SIZE_REQD then failed ERROR_NOT_SUPPORTED
      else failed ERROR_ACCESS_DENIED)"

text \<open>One reply, after the error replies: what it adds, or why it is malformed.\<close>

definition take_reply :: "NBD_HANDSHAKE_RPL \<Rightarrow> export \<Rightarrow> u32 \<times> export" where
  "take_reply Reply X =
     (let (Retval, X) = NbdParseOptGoReply (ReplyType Reply) (HsData Reply) X in
      if Retval \<noteq> 0 then (Retval, X)
      else case BlockInfo X of
             None \<Rightarrow> (0, X)
           | Some B \<Rightarrow> (let (Retval, B) = NbdParseInfoBlockSize (ReplyType Reply) (HsData Reply) B
                        in (Retval, X\<lparr>BlockInfo := Some B\<rparr>)))"

function NegotiateLoop :: "bytes \<Rightarrow> u16 \<Rightarrow> export \<Rightarrow> export net" where
  "NegotiateLoop Name GFlags X s =
     (case NbdReadHandshakeReply s of
        None \<Rightarrow> None
      | Some (Inl e, s') \<Rightarrow> Some (Inl ERROR_GEN_FAILURE, s')
      | Some (Inr Reply, s') \<Rightarrow>
          (if ReplyType Reply AND NBD_REP_FLAG_ERROR \<noteq> 0
           then error_reply (ReplyType Reply) Name GFlags X s'
           else if fst (take_reply Reply X) \<noteq> 0 then Some (Inl (fst (take_reply Reply X)), s')
           else if ReplyType Reply \<noteq> NBD_REP_ACK
           then NegotiateLoop Name GFlags (snd (take_reply Reply X)) s'
           else Some (Inr (snd (take_reply Reply X)), s')))"
  by pat_completeness auto

termination
  by (relation "measure (\<lambda>(Name, G, X, s). length (RxBytes s))")
     (auto dest: NbdReadHandshakeReply_consumes)

declare NegotiateLoop.simps [simp del]

text \<open>The part after the server's greeting, with the flags it carried.\<close>

definition negotiate_go :: "bytes \<Rightarrow> u32 \<Rightarrow> u16 \<Rightarrow> export \<Rightarrow> export net" where
  "negotiate_go Name ClientFlags GFlags X =
     (let ClientFlags = (if GFlags AND NBD_FLAG_NO_ZEROES \<noteq> 0
                         then ClientFlags OR ucast NBD_FLAG_NO_ZEROES else ClientFlags);
          ClientFlags = NbdMaskClientFlags ClientFlags GFlags
      in after (check (NbdRequireFixedNewstyle ClientFlags)) (\<lambda>_.
         after (SendExact (be_bytes 4 ClientFlags)) (\<lambda>_.
         after (NbdSendInfoRequest NBD_OPT_GO 2
                  (Some (be_bytes 2 NBD_INFO_EXPORT @ be_bytes 2 NBD_INFO_BLOCK_SIZE)) Name) (\<lambda>_.
           NegotiateLoop Name GFlags (X\<lparr>SeenExport := False\<rparr>)))))"

definition NbdNegotiate :: "bytes \<Rightarrow> u32 \<Rightarrow> export \<Rightarrow> export net" where
  "NbdNegotiate Name ClientFlags X =
     after (RecvExact 8) (\<lambda>Buf.
     after (check (NbdValidateInitialMagic (Some Buf))) (\<lambda>_.
     after (RecvExact 8) (\<lambda>Magic.
     after (check (fst (NbdValidateOptionMagic (be_word Magic)))) (\<lambda>_.
     after (RecvExact 2) (\<lambda>G. negotiate_go Name ClientFlags (be_word G) X)))))"

section \<open>Transmission\<close>

abbreviation (input) NBD_REQUEST_MAGIC :: u32 where "NBD_REQUEST_MAGIC \<equiv> 0x25609513"
abbreviation (input) NBD_REPLY_MAGIC :: u32 where "NBD_REPLY_MAGIC \<equiv> 0x67446698"
abbreviation (input) NBD_CMD_FLAG_FUA :: u32 where "NBD_CMD_FLAG_FUA \<equiv> 0x10000"
abbreviation (input) NBD_CMD_READ :: u32 where "NBD_CMD_READ \<equiv> 0"
abbreviation (input) NBD_CMD_WRITE :: u32 where "NBD_CMD_WRITE \<equiv> 1"
abbreviation (input) NBD_CMD_DISC :: u32 where "NBD_CMD_DISC \<equiv> 2"
abbreviation (input) NBD_CMD_FLUSH :: u32 where "NBD_CMD_FLUSH \<equiv> 3"
abbreviation (input) NBD_CMD_TRIM :: u32 where "NBD_CMD_TRIM \<equiv> 4"

text \<open>The packed header: magic, type, handle in the machine's order, offset, length.\<close>

definition NbdEncodeRequest :: "u64 \<Rightarrow> u32 \<Rightarrow> u64 \<Rightarrow> u32 \<Rightarrow> bytes" where
  "NbdEncodeRequest Offset Len Handle Type =
     be_bytes 4 NBD_REQUEST_MAGIC @ be_bytes 4 Type @ le_bytes 8 Handle @ be_bytes 8 Offset @ be_bytes 4 Len"

definition NbdRequest :: "u64 \<Rightarrow> u32 \<Rightarrow> u64 \<Rightarrow> u32 \<Rightarrow> unit net" where
  "NbdRequest Offset Len Handle Type s =
     (if \<not> SockOpen s then Some (Inl ERROR_INVALID_HANDLE, s)
      else SendExact (NbdEncodeRequest Offset Len Handle Type) s)"

definition NbdSendWrite :: "u64 \<Rightarrow> u32 \<Rightarrow> bytes option \<Rightarrow> u64 \<Rightarrow> u32 \<Rightarrow> unit net" where
  "NbdSendWrite Offset Len D Handle NbdTransmissionFlags s =
     (case D of
        None \<Rightarrow> Some (Inl ERROR_INVALID_PARAMETER, s)
      | Some bs \<Rightarrow>
          (if \<not> SockOpen s then Some (Inl ERROR_INVALID_HANDLE, s)
           else after (SendExact (NbdEncodeRequest Offset Len Handle (NBD_CMD_WRITE OR NbdTransmissionFlags)))
                  (\<lambda>_. if Len \<noteq> 0 then SendExact (take (unat Len) bs) else ret ()) s))"

record NBD_REPLY =
  NrError :: u32
  NrHandle :: u64

text \<open>The error field stays in network order.\<close>

definition NbdReadReply :: "NBD_REPLY net" where
  "NbdReadReply =
     after (RecvExact 16) (\<lambda>b.
       if be_word (take 4 b) \<noteq> NBD_REPLY_MAGIC then failed ERROR_BAD_FORMAT
       else ret \<lparr>NrError = le_word (take 4 (drop 4 b)), NrHandle = le_word (drop 8 b)\<rparr>)"

end
