(* ===== verification/LibWnbd.thy ===== *)
theory LibWnbd
  imports NbdProtocol
begin

text \<open>
  The core of the user-space library, \<^verbatim>\<open>libwnbd/libwnbd.cpp\<close>: the disk object, the
  dispatcher that hands requests to the callbacks of the consumer, responses, removal with its
  retries. The consumer's object is an argument type, and so is the driver: the library reaches
  it through the calls of \<^verbatim>\<open>libwnbd/wnbd_ioctl.cpp\<close>, collected in a record. A loop
  that waits for the operating system runs over the list of what it answers and gives \<open>None\<close>
  when the list is used up.
\<close>

section \<open>Codes\<close>

abbreviation (input) ERROR_OUTOFMEMORY :: u32 where "ERROR_OUTOFMEMORY \<equiv> 14"
abbreviation (input) ERROR_NOT_READY :: u32 where "ERROR_NOT_READY \<equiv> 21"
abbreviation (input) ERROR_OPEN_FAILED :: u32 where "ERROR_OPEN_FAILED \<equiv> 110"
abbreviation (input) ERROR_BUSY :: u32 where "ERROR_BUSY \<equiv> 170"
abbreviation (input) ERROR_PIPE_NOT_CONNECTED :: u32 where "ERROR_PIPE_NOT_CONNECTED \<equiv> 233"
abbreviation (input) ERROR_NO_SUCH_DEVICE :: u32 where "ERROR_NO_SUCH_DEVICE \<equiv> 433"
abbreviation (input) ERROR_NOT_FOUND :: u32 where "ERROR_NOT_FOUND \<equiv> 1168"
abbreviation (input) ERROR_TIMEOUT :: u32 where "ERROR_TIMEOUT \<equiv> 1460"
abbreviation (input) ERROR_REMOVE_FAILED :: u32 where "ERROR_REMOVE_FAILED \<equiv> 15105"
abbreviation (input) WAIT_TIMEOUT :: u32 where "WAIT_TIMEOUT \<equiv> 258"
abbreviation (input) CR_REMOVE_VETOED :: u32 where "CR_REMOVE_VETOED \<equiv> 0x17"
abbreviation (input) WNBD_MIN_DISPATCHER_THREAD_COUNT :: u32 where "WNBD_MIN_DISPATCHER_THREAD_COUNT \<equiv> 1"
abbreviation (input) WNBD_MAX_DISPATCHER_THREAD_COUNT :: u32 where "WNBD_MAX_DISPATCHER_THREAD_COUNT \<equiv> 255"
abbreviation (input) WNBD_DEFAULT_RM_TIMEOUT_MS :: u32 where "WNBD_DEFAULT_RM_TIMEOUT_MS \<equiv> 30000"
abbreviation (input) WNBD_DEFAULT_RM_RETRY_INTERVAL_MS :: u32 where "WNBD_DEFAULT_RM_RETRY_INTERVAL_MS \<equiv> 2000"

section \<open>The disk object\<close>

record WNBD_USR_STATS =
  TotalReceivedRequests :: u64
  TotalSubmittedRequests :: u64
  TotalReceivedReplies :: u64
  UnsubmittedRequests :: u64
  PendingSubmittedRequests :: u64
  PendingReplies :: u64
  ReadErrors :: u64
  WriteErrors :: u64
  FlushErrors :: u64
  UnmapErrors :: u64
  InvalidRequests :: u64
  TotalRWRequests :: u64
  TotalReadBlocks :: u64
  TotalWrittenBlocks :: u64
  PersistResInErrors :: u64
  PersistResOutErrors :: u64

record WNBD_REMOVE_OPTIONS =
  HardRemove :: bool
  HardRemoveFallback :: bool
  SoftRemoveTimeoutMs :: u32
  SoftRemoveRetryIntervalMs :: u32

record WNBD_DISK =
  DkHandle :: bool
  DkProperties :: WNBD_PROPERTIES
  DkConnectionInfo :: WNBD_CONNECTION_INFO
  Stopping :: bool
  Stopped :: bool
  Started :: bool
  DispatcherThreads :: bool
  DispatcherThreadsCount :: u32
  DkStats :: WNBD_USR_STATS

text \<open>The disk, the consumer's object behind its context pointer, and the driver.\<close>

record ('c, 'd) user =
  UDisk :: WNBD_DISK
  UContext :: 'c
  UDriver :: 'd

text \<open>
  The calls into the driver; a fetch gives the status, the request and the data buffer, the flag
  of a response says whether it is overlapped. A call that does not return gives \<open>None\<close>.
\<close>

record 'd driver_calls =
  OpenAdapter :: "'d \<Rightarrow> u32"
  IoctlCreate :: "WNBD_PROPERTIES \<Rightarrow> 'd \<Rightarrow> (u32 \<times> WNBD_CONNECTION_INFO \<times> 'd) option"
  IoctlRemove :: "bytes \<Rightarrow> 'd \<Rightarrow> (u32 \<times> 'd) option"
  IoctlShow :: "bytes \<Rightarrow> 'd \<Rightarrow> (u32 \<times> WNBD_CONNECTION_INFO \<times> 'd) option"
  IoctlFetchRequest :: "u64 \<Rightarrow> bytes \<Rightarrow> 'd \<Rightarrow> (u32 \<times> WNBD_IO_REQUEST \<times> bytes \<times> 'd) option"
  IoctlSendResponse :: "bool \<Rightarrow> u64 \<Rightarrow> WNBD_IO_RESPONSE \<Rightarrow> bytes option \<Rightarrow> u32 \<Rightarrow> 'd \<Rightarrow> (u32 \<times> 'd) option"
  OverlappedResult :: "'d \<Rightarrow> u32"

text \<open>The callbacks; a null pointer is \<open>None\<close>.\<close>

record 's WNBD_INTERFACE =
  IfRead :: "(u64 \<Rightarrow> u64 \<Rightarrow> u32 \<Rightarrow> bool \<Rightarrow> 's \<Rightarrow> 's option) option"
  IfWrite :: "(u64 \<Rightarrow> bytes \<Rightarrow> u64 \<Rightarrow> u32 \<Rightarrow> bool \<Rightarrow> 's \<Rightarrow> 's option) option"
  IfFlush :: "(u64 \<Rightarrow> u64 \<Rightarrow> u32 \<Rightarrow> 's \<Rightarrow> 's option) option"
  IfUnmap :: "(u64 \<Rightarrow> bytes \<Rightarrow> u32 \<Rightarrow> 's \<Rightarrow> 's option) option"
  IfPersistResIn :: "(u64 \<Rightarrow> u8 \<Rightarrow> 's \<Rightarrow> 's option) option"
  IfPersistResOut :: "(u64 \<Rightarrow> u8 \<Rightarrow> u8 \<Rightarrow> u8 \<Rightarrow> bytes \<Rightarrow> u16 \<Rightarrow> 's \<Rightarrow> 's option) option"

abbreviation disk_upd :: "(WNBD_DISK \<Rightarrow> WNBD_DISK) \<Rightarrow> ('c, 'd) user \<Rightarrow> ('c, 'd) user" where
  "disk_upd f u \<equiv> u\<lparr>UDisk := f (UDisk u)\<rparr>"

abbreviation count :: "(WNBD_USR_STATS \<Rightarrow> WNBD_USR_STATS) \<Rightarrow> ('c, 'd) user \<Rightarrow> ('c, 'd) user" where
  "count f u \<equiv> disk_upd (\<lambda>d. d\<lparr>DkStats := f (DkStats d)\<rparr>) u"

definition zero_usr_stats :: WNBD_USR_STATS where
  "zero_usr_stats = \<lparr>TotalReceivedRequests = 0, TotalSubmittedRequests = 0, TotalReceivedReplies = 0,
     UnsubmittedRequests = 0, PendingSubmittedRequests = 0, PendingReplies = 0, ReadErrors = 0,
     WriteErrors = 0, FlushErrors = 0, UnmapErrors = 0, InvalidRequests = 0, TotalRWRequests = 0,
     TotalReadBlocks = 0, TotalWrittenBlocks = 0, PersistResInErrors = 0, PersistResOutErrors = 0\<rparr>"

text \<open>\<^verbatim>\<open>WnbdCreate\<close>; \<open>granted\<close> says whether the object could be allocated.\<close>

definition new_disk :: "WNBD_PROPERTIES \<Rightarrow> WNBD_CONNECTION_INFO \<Rightarrow> WNBD_DISK" where
  "new_disk P info = \<lparr>DkHandle = True, DkProperties = P, DkConnectionInfo = info, Stopping = False,
     Stopped = False, Started = False, DispatcherThreads = False, DispatcherThreadsCount = 0,
     DkStats = zero_usr_stats\<rparr>"

definition WnbdCreate ::
    "'d driver_calls \<Rightarrow> bool \<Rightarrow> WNBD_PROPERTIES \<Rightarrow> 'd \<Rightarrow> (u32 \<times> WNBD_DISK option \<times> 'd) option" where
  "WnbdCreate drv granted P D =
     (if \<not> granted then Some (ERROR_OUTOFMEMORY, None, D)
      else if OpenAdapter drv D \<noteq> 0 then Some (OpenAdapter drv D, None, D)
      else (case IoctlCreate drv P D of
              None \<Rightarrow> None
            | Some (Err, info, D) \<Rightarrow>
                if Err \<noteq> 0 then Some (Err, None, D) else Some (0, Some (new_disk P info), D)))"

text \<open>The object is gone afterwards; what is left says that its handle and array were given back.\<close>

definition WnbdClose :: "WNBD_DISK \<Rightarrow> WNBD_DISK" where
  "WnbdClose d = d\<lparr>DkHandle := False, DispatcherThreads := False\<rparr>"

definition WnbdSignalStopped :: "WNBD_DISK \<Rightarrow> WNBD_DISK" where
  "WnbdSignalStopped d = d\<lparr>Stopped := True\<rparr>"

definition WnbdIsStopped :: "WNBD_DISK \<Rightarrow> bool" where
  "WnbdIsStopped d = Stopped d"

definition WnbdIsRunning :: "WNBD_DISK \<Rightarrow> bool" where
  "WnbdIsRunning d \<longleftrightarrow> Started d \<and> \<not> WnbdIsStopped d"

section \<open>Removal\<close>

text \<open>
  \<^verbatim>\<open>PnpRemoveDevice\<close>: every attempt gives the configuration manager's status and the
  milliseconds since the start.
\<close>

fun PnpRemoveDevice :: "u32 \<Rightarrow> (u32 \<times> nat) list \<Rightarrow> u32 \<Rightarrow> u32 option" where
  "PnpRemoveDevice TimeoutMs [] Status = None"
| "PnpRemoveDevice TimeoutMs ((CMStatus, ElapsedMs) # as) Status =
     (let RemoveVetoed = (CMStatus = CR_REMOVE_VETOED);
          TimeLeft = (TimeoutMs = 0 \<or> unat TimeoutMs > ElapsedMs);
          Status = (if CMStatus = 0 then Status
                    else if \<not> RemoveVetoed then ERROR_REMOVE_FAILED
                    else if \<not> TimeLeft then ERROR_TIMEOUT else Status)
      in if RemoveVetoed \<and> TimeLeft then PnpRemoveDevice TimeoutMs as Status else Some Status)"

record pnp_env =
  LocateStatus :: u32
  RemoveAttempts :: "(u32 \<times> nat) list"

definition WnbdPnpRemoveDevice :: "pnp_env \<Rightarrow> u32 \<Rightarrow> u32 option" where
  "WnbdPnpRemoveDevice env TimeoutMs =
     (if LocateStatus env \<noteq> 0 then Some ERROR_OPEN_FAILED
      else PnpRemoveDevice TimeoutMs (RemoveAttempts env) 0)"

definition default_remove_options :: WNBD_REMOVE_OPTIONS where
  "default_remove_options = \<lparr>HardRemove = False, HardRemoveFallback = True,
     SoftRemoveTimeoutMs = WNBD_DEFAULT_RM_TIMEOUT_MS,
     SoftRemoveRetryIntervalMs = WNBD_DEFAULT_RM_RETRY_INTERVAL_MS\<rparr>"

text \<open>The hard removal at the end, which hides a disk that the soft removal took away.\<close>

definition remove_hard :: "'d driver_calls \<Rightarrow> bytes \<Rightarrow> bool \<Rightarrow> 'd \<Rightarrow> (u32 \<times> 'd) option" where
  "remove_hard drv name DiskFound D =
     map_option (\<lambda>(Status, D). (if DiskFound \<and> Status = ERROR_FILE_NOT_FOUND then 0 else Status, D))
       (IoctlRemove drv name D)"

definition WnbdShow ::
    "'d driver_calls \<Rightarrow> bytes \<Rightarrow> 'd \<Rightarrow> (u32 \<times> WNBD_CONNECTION_INFO option \<times> 'd) option" where
  "WnbdShow drv name D =
     (if OpenAdapter drv D \<noteq> 0 then Some (ERROR_OPEN_FAILED, None, D)
      else map_option (\<lambda>(Status, info, D). (Status, Some info, D)) (IoctlShow drv name D))"

definition WnbdRemoveEx ::
    "'d driver_calls \<Rightarrow> pnp_env \<Rightarrow> bytes \<Rightarrow> WNBD_REMOVE_OPTIONS option \<Rightarrow> 'd \<Rightarrow> (u32 \<times> 'd) option" where
  "WnbdRemoveEx drv env name RemoveOptions D =
     (let opt = (case RemoveOptions of None \<Rightarrow> default_remove_options | Some r \<Rightarrow> r) in
      if OpenAdapter drv D \<noteq> 0 then Some (ERROR_OPEN_FAILED, D)
      else if HardRemove opt then remove_hard drv name False D
      else (case WnbdShow drv name D of
            None \<Rightarrow> None
          | Some (Status, _, D) \<Rightarrow>
            if Status \<noteq> 0 then Some (Status, D)
            else (case WnbdPnpRemoveDevice env (SoftRemoveTimeoutMs opt) of
                    None \<Rightarrow> None
                  | Some Status \<Rightarrow>
                      if Status \<noteq> 0 \<and> Status \<noteq> ERROR_FILE_NOT_FOUND \<and> \<not> HardRemoveFallback opt
                      then Some (Status, D)
                      else remove_hard drv name True D)))"

definition WnbdRemove ::
    "'d driver_calls \<Rightarrow> pnp_env \<Rightarrow> WNBD_REMOVE_OPTIONS option \<Rightarrow> ('c, 'd) user \<Rightarrow> (u32 \<times> ('c, 'd) user) option" where
  "WnbdRemove drv env opt u =
     (if \<not> DkHandle (UDisk u) then Some (0, u)
      else (case WnbdRemoveEx drv env (InstanceName (DkProperties (UDisk u))) opt (UDriver u) of
              None \<Rightarrow> None
            | Some (Status, D) \<Rightarrow> Some (Status, u\<lparr>UDriver := D\<rparr>)))"

section \<open>Responses\<close>

definition WnbdSetSenseEx :: "u8 \<Rightarrow> u8 \<Rightarrow> u64 \<Rightarrow> WNBD_STATUS \<Rightarrow> WNBD_STATUS" where
  "WnbdSetSenseEx key asc info St = St\<lparr>ScsiStatus := SCSISTAT_CHECK_CONDITION, SenseKey := key, ASC := asc,
     Information := info, InformationValid := True\<rparr>"

definition WnbdSetSense :: "u8 \<Rightarrow> u8 \<Rightarrow> WNBD_STATUS \<Rightarrow> WNBD_STATUS" where
  "WnbdSetSense key asc St = St\<lparr>ScsiStatus := SCSISTAT_CHECK_CONDITION, SenseKey := key, ASC := asc,
     Information := 0, InformationValid := False\<rparr>"

definition count_error :: "WnbdRequestType \<Rightarrow> WNBD_USR_STATS \<Rightarrow> WNBD_USR_STATS" where
  "count_error t st =
     (case t of
        WnbdReqTypeRead \<Rightarrow> st\<lparr>ReadErrors := ReadErrors st + 1\<rparr>
      | WnbdReqTypeWrite \<Rightarrow> st\<lparr>WriteErrors := WriteErrors st + 1\<rparr>
      | WnbdReqTypeFlush \<Rightarrow> st\<lparr>FlushErrors := FlushErrors st + 1\<rparr>
      | WnbdReqTypeUnmap \<Rightarrow> st\<lparr>UnmapErrors := UnmapErrors st + 1\<rparr>
      | WnbdReqTypePersistResIn \<Rightarrow> st\<lparr>PersistResInErrors := PersistResInErrors st + 1\<rparr>
      | WnbdReqTypePersistResOut \<Rightarrow> st\<lparr>PersistResOutErrors := PersistResOutErrors st + 1\<rparr>
      | _ \<Rightarrow> st)"

text \<open>The gauge of replies in transit is raised and lowered around the call.\<close>

definition WnbdSendResponseEx ::
    "'d driver_calls \<Rightarrow> WNBD_IO_RESPONSE \<Rightarrow> bytes option \<Rightarrow> u32 \<Rightarrow> bool \<Rightarrow> ('c, 'd) user \<Rightarrow>
     (u32 \<times> ('c, 'd) user) option" where
  "WnbdSendResponseEx drv Response Buf BufSize Overlapped u =
     (let u = count (\<lambda>st. st\<lparr>TotalReceivedReplies := TotalReceivedReplies st + 1,
                              PendingSubmittedRequests := PendingSubmittedRequests st - 1\<rparr>) u;
          u = (if ScsiStatus (RspStatus Response) \<noteq> 0 then count (count_error (RspRequestType Response)) u else u)
      in if \<not> WnbdIsRunning (UDisk u) then Some (ERROR_PIPE_NOT_CONNECTED, u)
         else (let u = count (\<lambda>st. st\<lparr>PendingReplies := PendingReplies st + 1\<rparr>) u
               in case IoctlSendResponse drv Overlapped (CiConnectionId (DkConnectionInfo (UDisk u)))
                         Response Buf BufSize (UDriver u) of
                    None \<Rightarrow> None
                  | Some (Status, D) \<Rightarrow>
                      Some (Status, count (\<lambda>st. st\<lparr>PendingReplies := PendingReplies st - 1\<rparr>) (u\<lparr>UDriver := D\<rparr>))))"

definition WnbdSendResponse ::
    "'d driver_calls \<Rightarrow> WNBD_IO_RESPONSE \<Rightarrow> bytes option \<Rightarrow> u32 \<Rightarrow> ('c, 'd) user \<Rightarrow>
     (u32 \<times> ('c, 'd) user) option" where
  "WnbdSendResponse drv Response Buf BufSize = WnbdSendResponseEx drv Response Buf BufSize False"

section \<open>The dispatcher\<close>

text \<open>
  Which callback serves a request: \<open>Inl\<close> is the additional sense code of a refusal (0 where
  the code leaves the default). A callback that blocks gives \<open>None\<close>.
\<close>

definition serve ::
    "('c, 'd) user WNBD_INTERFACE \<Rightarrow> WNBD_IO_REQUEST \<Rightarrow> bytes \<Rightarrow> WNBD_PROPERTIES \<Rightarrow>
     u8 + (('c, 'd) user \<Rightarrow> ('c, 'd) user option)" where
  "serve Ifc Rq Buf P =
     (case RequestType Rq of
        WnbdReqTypeDisconnect \<Rightarrow> Inr (\<lambda>u. Some (disk_upd WnbdSignalStopped u))
      | WnbdReqTypeRead \<Rightarrow>
          (case IfRead Ifc of None \<Rightarrow> Inl 0
           | Some f \<Rightarrow> Inr (\<lambda>u. map_option (count (\<lambda>st. st\<lparr>TotalRWRequests := TotalRWRequests st + 1,
                TotalReadBlocks := TotalReadBlocks st + ucast (RdBlockCount (Cmd Rq))\<rparr>))
                (f (RequestHandle Rq) (RdBlockAddress (Cmd Rq)) (RdBlockCount (Cmd Rq)) (RdForceUnitAccess (Cmd Rq)) u)))
      | WnbdReqTypeWrite \<Rightarrow>
          (case IfWrite Ifc of None \<Rightarrow> Inl 0
           | Some f \<Rightarrow> Inr (\<lambda>u. map_option (count (\<lambda>st. st\<lparr>TotalRWRequests := TotalRWRequests st + 1,
                TotalWrittenBlocks := TotalWrittenBlocks st + ucast (WrBlockCount (Cmd Rq))\<rparr>))
                (f (RequestHandle Rq) Buf (WrBlockAddress (Cmd Rq)) (WrBlockCount (Cmd Rq)) (WrForceUnitAccess (Cmd Rq)) u)))
      | WnbdReqTypeFlush \<Rightarrow>
          (case IfFlush Ifc of None \<Rightarrow> Inl 0
           | Some f \<Rightarrow> if \<not> FlushSupported (Flags P) then Inl 0
               else Inr (f (RequestHandle Rq) (FlBlockAddress (Cmd Rq)) (FlBlockCount (Cmd Rq))))
      | WnbdReqTypeUnmap \<Rightarrow>
          (case IfUnmap Ifc of None \<Rightarrow> Inl 0
           | Some f \<Rightarrow>
               if \<not> UnmapSupported (Flags P) then Inl 0
               else if \<not> UnmapAnchorSupported (Flags P) \<and> UnAnchor (Cmd Rq) then Inl SCSI_ADSENSE_INVALID_CDB
               else if MaxUnmapDescCount P < UnCount (Cmd Rq) then Inl SCSI_ADSENSE_INVALID_FIELD_PARAMETER_LIST
               else Inr (f (RequestHandle Rq) Buf (UnCount (Cmd Rq))))
      | WnbdReqTypePersistResIn \<Rightarrow>
          (case IfPersistResIn Ifc of None \<Rightarrow> Inl 0
           | Some f \<Rightarrow> if \<not> PersistResSupported (Flags P) then Inl 0
               else Inr (f (RequestHandle Rq) (PiServiceAction (Cmd Rq))))
      | WnbdReqTypePersistResOut \<Rightarrow>
          (case IfPersistResOut Ifc of None \<Rightarrow> Inl 0
           | Some f \<Rightarrow> if \<not> PersistResSupported (Flags P) then Inl 0
               else Inr (f (RequestHandle Rq) (PoServiceAction (Cmd Rq)) (PoScope (Cmd Rq)) (PoType (Cmd Rq))
                           Buf (PoParameterListLength (Cmd Rq))))
      | WnbdReqTypeUnknown \<Rightarrow> Inl 0)"

text \<open>The refusal: an error response, with the gauge raised first so that it does not wrap.\<close>

definition refuse :: "'d driver_calls \<Rightarrow> u8 \<Rightarrow> WNBD_IO_REQUEST \<Rightarrow> ('c, 'd) user \<Rightarrow> ('c, 'd) user option" where
  "refuse drv asc Rq u =
     (let asc = (if asc = 0 then SCSI_ADSENSE_ILLEGAL_COMMAND else asc);
          Response = \<lparr>RspRequestHandle = RequestHandle Rq, RspRequestType = RequestType Rq,
                      RspStatus = WnbdSetSense SCSI_SENSE_ILLEGAL_REQUEST asc zero_status\<rparr>;
          u = count (\<lambda>st. st\<lparr>PendingSubmittedRequests := PendingSubmittedRequests st + 1\<rparr>) u
      in map_option (\<lambda>(Status, u). if Status = ERROR_NOT_FOUND then disk_upd WnbdSignalStopped u else u)
           (WnbdSendResponse drv Response None 0 u))"

definition WnbdHandleRequest ::
    "'d driver_calls \<Rightarrow> ('c, 'd) user WNBD_INTERFACE \<Rightarrow> WNBD_IO_REQUEST \<Rightarrow> bytes \<Rightarrow> ('c, 'd) user \<Rightarrow>
     ('c, 'd) user option" where
  "WnbdHandleRequest drv Ifc Rq Buf u =
     (let u = count (\<lambda>st. st\<lparr>TotalReceivedRequests := TotalReceivedRequests st + 1,
                              UnsubmittedRequests := UnsubmittedRequests st + 1\<rparr>) u
      in case serve Ifc Rq Buf (DkProperties (UDisk u)) of
           Inl asc \<Rightarrow>
             map_option (count (\<lambda>st. st\<lparr>UnsubmittedRequests := UnsubmittedRequests st - 1,
                                   InvalidRequests := InvalidRequests st + 1\<rparr>)) (refuse drv asc Rq u)
         | Inr f \<Rightarrow>
             map_option (count (\<lambda>st. st\<lparr>UnsubmittedRequests := UnsubmittedRequests st - 1,
                           TotalSubmittedRequests := TotalSubmittedRequests st + 1,
                           PendingSubmittedRequests := PendingSubmittedRequests st + 1\<rparr>)) (f u))"

definition WnbdStopDispatcher ::
    "'d driver_calls \<Rightarrow> pnp_env \<Rightarrow> WNBD_REMOVE_OPTIONS option \<Rightarrow> ('c, 'd) user \<Rightarrow> (u32 \<times> ('c, 'd) user) option" where
  "WnbdStopDispatcher drv env opt u =
     (let u' = disk_upd (\<lambda>d. d\<lparr>Stopping := True\<rparr>) u
      in if Stopping (UDisk u) then Some (0, u') else WnbdRemove drv env opt u')"

definition hard_remove :: WNBD_REMOVE_OPTIONS where
  "hard_remove = \<lparr>HardRemove = True, HardRemoveFallback = False, SoftRemoveTimeoutMs = 0, SoftRemoveRetryIntervalMs = 0\<rparr>"

text \<open>
  One pass of the dispatcher loop with the data buffer, whose bytes stay from pass to pass:
  \<open>Inl\<close> the error that ends it. The list says, for every pass, whether the event could be reset
  (an error code otherwise).
\<close>

definition dispatcher_pass ::
    "'d driver_calls \<Rightarrow> ('c, 'd) user WNBD_INTERFACE \<Rightarrow> u32 \<Rightarrow> bytes \<Rightarrow> ('c, 'd) user \<Rightarrow>
     ((u32 + bytes) \<times> ('c, 'd) user) option" where
  "dispatcher_pass drv Ifc reset Buf u =
     (if reset \<noteq> 0 then Some (Inl reset, u)
      else (case IoctlFetchRequest drv (CiConnectionId (DkConnectionInfo (UDisk u))) Buf (UDriver u) of
              None \<Rightarrow> None
            | Some (Err, Rq, Buf, D) \<Rightarrow>
                (let u = u\<lparr>UDriver := D\<rparr>;
                     Err = (if Err = ERROR_IO_PENDING then OverlappedResult drv D else Err)
                 in if Err \<noteq> 0 then Some (Inl Err, u)
                    else map_option (\<lambda>u. (Inr Buf, u)) (WnbdHandleRequest drv Ifc Rq Buf u))))"

fun dispatcher_loop ::
    "'d driver_calls \<Rightarrow> ('c, 'd) user WNBD_INTERFACE \<Rightarrow> u32 list \<Rightarrow> bytes \<Rightarrow> ('c, 'd) user \<Rightarrow>
     (u32 \<times> ('c, 'd) user) option" where
  "dispatcher_loop drv Ifc resets Buf u =
     (if \<not> WnbdIsRunning (UDisk u) then Some (0, u)
      else case resets of
             [] \<Rightarrow> None
           | r # rs \<Rightarrow>
               (case dispatcher_pass drv Ifc r Buf u of
                  None \<Rightarrow> None
                | Some (Inl e, u) \<Rightarrow> Some (e, u)
                | Some (Inr Buf, u) \<Rightarrow> dispatcher_loop drv Ifc rs Buf u))"

declare dispatcher_loop.simps [simp del]

text \<open>
  The thread: the event (an error code if it cannot be created), the buffer as it was allocated,
  the loop, the exit.
\<close>

definition WnbdDispatcherLoop ::
    "'d driver_calls \<Rightarrow> pnp_env \<Rightarrow> ('c, 'd) user WNBD_INTERFACE \<Rightarrow> u32 \<Rightarrow> bool \<Rightarrow> u32 list \<Rightarrow>
     bytes \<Rightarrow> ('c, 'd) user \<Rightarrow> (u32 \<times> ('c, 'd) user) option" where
  "WnbdDispatcherLoop drv env Ifc event granted resets Buf u =
     (case (if event \<noteq> 0 then Some (event, u)
            else if \<not> granted then Some (ERROR_OUTOFMEMORY, u)
            else dispatcher_loop drv Ifc resets Buf u) of
        None \<Rightarrow> None
      | Some (Err, u) \<Rightarrow>
          (case WnbdStopDispatcher drv env (Some hard_remove) u of
             None \<Rightarrow> None | Some (_, u) \<Rightarrow> Some (Err, u)))"

text \<open>Waiting for the threads; \<open>wait\<close> is the error of a failed wait, \<open>None\<close> a wait that does not end.\<close>

definition WnbdWaitDispatcher :: "u32 option \<Rightarrow> WNBD_DISK \<Rightarrow> u32 option" where
  "WnbdWaitDispatcher wait d =
     (if \<not> Started d then Some ERROR_PIPE_NOT_CONNECTED
      else if \<not> DispatcherThreads d \<or> DispatcherThreadsCount d = 0 then Some 0
      else wait)"

text \<open>
  Starting the threads: the list gives the result of every thread creation, an error code or 0.
  After a failure the disk is removed and the threads already started are waited for.
\<close>

fun start_threads ::
    "'d driver_calls \<Rightarrow> pnp_env \<Rightarrow> u32 option \<Rightarrow> u32 list \<Rightarrow> ('c, 'd) user \<Rightarrow> (u32 \<times> ('c, 'd) user) option" where
  "start_threads drv env wait [] u = Some (0, u)"
| "start_threads drv env wait (e # es) u =
     (if e \<noteq> 0 then
        (case WnbdStopDispatcher drv env (Some hard_remove) u of
           None \<Rightarrow> None
         | Some (_, u) \<Rightarrow> map_option (\<lambda>_. (e, u)) (WnbdWaitDispatcher wait (UDisk u)))
      else start_threads drv env wait es
             (disk_upd (\<lambda>d. d\<lparr>DispatcherThreadsCount := DispatcherThreadsCount d + 1\<rparr>) u))"

definition WnbdStartDispatcher ::
    "'d driver_calls \<Rightarrow> pnp_env \<Rightarrow> bool \<Rightarrow> (nat \<Rightarrow> u32) \<Rightarrow> u32 option \<Rightarrow> u32 \<Rightarrow>
     ('c, 'd) user \<Rightarrow> (u32 \<times> ('c, 'd) user) option" where
  "WnbdStartDispatcher drv env granted created wait ThreadCount u =
     (if ThreadCount < WNBD_MIN_DISPATCHER_THREAD_COUNT \<or> ThreadCount > WNBD_MAX_DISPATCHER_THREAD_COUNT
      then Some (ERROR_INVALID_PARAMETER, u)
      else if \<not> granted then Some (ERROR_OUTOFMEMORY, u)
      else start_threads drv env wait (map created [0..<unat ThreadCount])
             (disk_upd (\<lambda>d. d\<lparr>DispatcherThreads := True, Started := True, DispatcherThreadsCount := 0\<rparr>) u))"

section \<open>Retries\<close>

text \<open>\<^verbatim>\<open>WnbdResetAdapter\<close>: the adapter's instance, disabling, enabling.\<close>

definition WnbdResetAdapter :: "u32 \<Rightarrow> u32 \<Rightarrow> u32 \<Rightarrow> u32" where
  "WnbdResetAdapter DevInst Disable Enable =
     (if DevInst \<noteq> 0 then DevInst
      else if Disable \<noteq> 0 then (if Disable = CR_REMOVE_VETOED then ERROR_BUSY else ERROR_REMOVE_FAILED)
      else if Enable \<noteq> 0 then ERROR_NOT_READY else 0)"

text \<open>The attempts: the status of the reset and the milliseconds since the start.\<close>

fun WnbdResetAdapterEx :: "u32 \<Rightarrow> (u32 \<times> nat) list \<Rightarrow> u32 option" where
  "WnbdResetAdapterEx TimeoutMs [] = None"
| "WnbdResetAdapterEx TimeoutMs ((Status, ElapsedMs) # as) =
     (if Status = ERROR_BUSY \<and> (TimeoutMs = 0 \<or> unat TimeoutMs > ElapsedMs)
      then WnbdResetAdapterEx TimeoutMs as else Some Status)"

text \<open>
  \<^verbatim>\<open>WnbdPollDiskNumber\<close>: in every round the elapsed time, the answer to the show command
  (its status and the disk number) and the error of opening the physical drive, 0 if it opens.
\<close>

record poll_round =
  PollElapsedMs :: nat
  PollShow :: u32
  PollDiskNumber :: u32
  PollOpen :: u32

fun WnbdPollDiskNumber :: "bool \<Rightarrow> u32 \<Rightarrow> poll_round list \<Rightarrow> (u32 \<times> u32 option) option" where
  "WnbdPollDiskNumber ExpectMapped TimeoutMs [] = None"
| "WnbdPollDiskNumber ExpectMapped TimeoutMs (r # rs) =
     (let again = (if unat TimeoutMs > PollElapsedMs r then WnbdPollDiskNumber ExpectMapped TimeoutMs rs
                   else Some (WAIT_TIMEOUT, None))
      in if PollShow r \<noteq> 0 then
           (if ExpectMapped \<or> (PollShow r \<noteq> ERROR_NO_SUCH_DEVICE \<and> PollShow r \<noteq> ERROR_FILE_NOT_FOUND)
            then Some (PollShow r, None) else again)
         else if PollDiskNumber r = - 1 then again
         else if PollOpen r = 0 then Some (0, Some (PollDiskNumber r))
         else if PollOpen r \<noteq> ERROR_NO_SUCH_DEVICE \<and> PollOpen r \<noteq> ERROR_FILE_NOT_FOUND
         then Some (PollOpen r, None)
         else again)"

section \<open>What the library guarantees\<close>

text \<open>A retry loop with a timeout ends at the latest with the first attempt after it.\<close>

lemma PnpRemoveDevice_ends:
  assumes "TimeoutMs \<noteq> 0" "\<exists>(cm, el) \<in> set attempts. unat TimeoutMs \<le> el"
  shows "\<exists>St. PnpRemoveDevice TimeoutMs attempts Status = Some St"
  using assms(2)
proof (induction attempts arbitrary: Status)
  case (Cons a attempts)
  obtain cm el where a: "a = (cm, el)" by (cases a)
  show ?case
  proof (cases "cm = CR_REMOVE_VETOED \<and> unat TimeoutMs > el")
    case True
    then have "\<exists>(cm, el) \<in> set attempts. unat TimeoutMs \<le> el" using Cons.prems a by auto
    from Cons.IH [OF this] show ?thesis using True a by (simp add: Let_def)
  next
    case False
    then show ?thesis using assms(1) a by (auto simp: Let_def)
  qed
qed simp

lemma PnpRemoveDevice_result:
  "PnpRemoveDevice T attempts 0 = Some St \<Longrightarrow>
     \<exists>cm el. (cm, el) \<in> set attempts \<and>
       St = (if cm = 0 then 0 else if cm = CR_REMOVE_VETOED then ERROR_TIMEOUT else ERROR_REMOVE_FAILED)"
proof (induction attempts)
  case (Cons a attempts)
  obtain cm el where a: "a = (cm, el)" by (cases a)
  show ?case
  proof (cases "cm = CR_REMOVE_VETOED \<and> (T = 0 \<or> unat T > el)")
    case True
    then show ?thesis using Cons a by (auto simp: Let_def split: if_splits)
  next
    case False
    then show ?thesis using Cons.prems a
      by (intro exI [of _ cm] exI [of _ el]) (auto simp: Let_def split: if_splits)
  qed
qed simp

end
