(* ===== verification/NbdDaemon.thy ===== *)
theory NbdDaemon
  imports LibWnbd
begin

text \<open>
  The NBD daemon, \<^verbatim>\<open>libwnbd/nbd_daemon.cpp\<close>: it connects to an NBD server, creates the
  disk, forwards the requests of the library's dispatcher as NBD frames and sends the server's
  replies back to the driver. The daemon is the consumer object of the library. Results of the
  operating system are arguments. A call that blocks gives \<open>None\<close>. Assertions are left out.
\<close>

section \<open>The daemon\<close>

record PendingRequestInfo =
  PrRequestHandle :: u64
  PrRequestType :: WnbdRequestType
  PrLength :: u32

record NbdDaemon =
  WnbdProps :: WNBD_PROPERTIES
  Socket :: sock
  NbdTransmissionStarted :: bool
  Terminated :: bool
  TerminateInProgress :: bool
  WnbdDisk :: bool
  PreallocatedRBuff :: bool
  PreallocatedRBuffSz :: u32
  PendingRequests :: "u64 \<rightharpoonup> PendingRequestInfo"
  ReplyDispatcher :: bool

type_synonym 'd nbd = "(NbdDaemon, 'd) user"

abbreviation dm_upd :: "(NbdDaemon \<Rightarrow> NbdDaemon) \<Rightarrow> 'd nbd \<Rightarrow> 'd nbd" where
  "dm_upd f u \<equiv> u\<lparr>UContext := f (UContext u)\<rparr>"

definition on_socket :: "'a net \<Rightarrow> 'd nbd \<Rightarrow> ((u32 + 'a) \<times> 'd nbd) option" where
  "on_socket m u =
     (case m (Socket (UContext u)) of
        None \<Rightarrow> None
      | Some (r, s) \<Rightarrow> Some (r, dm_upd (\<lambda>d. d\<lparr>Socket := s\<rparr>) u))"

section \<open>Connection\<close>

text \<open>\<^verbatim>\<open>setsockopt\<close>'s result.\<close>

definition SetTcpFlags :: "u32 \<Rightarrow> u32" where
  "SetTcpFlags Ret = Ret"

text \<open>An address of the list: no socket, a refused connection or a connected socket.\<close>

datatype attempt = NoSocket | Refused | Connected sock

fun connect_first :: "attempt list \<Rightarrow> sock option" where
  "connect_first [] = None"
| "connect_first (Connected s # as) = Some s"
| "connect_first (_ # as) = connect_first as"

text \<open>\<open>Inl\<close> is the error of the name resolution. Without a connection the socket stays invalid.\<close>

definition ConnectNbdServer :: "u32 + attempt list \<Rightarrow> 'd nbd \<Rightarrow> u32 \<times> 'd nbd" where
  "ConnectNbdServer resolved u =
     (case resolved of
        Inl Ret \<Rightarrow> (Ret, u)
      | Inr as \<Rightarrow>
          (case connect_first as of
             None \<Rightarrow> (ERROR_NOT_CONNECTED, if as = [] then u else dm_upd (\<lambda>d. d\<lparr>Socket := (Socket d)\<lparr>SockOpen := False\<rparr>\<rparr>) u)
           | Some s \<Rightarrow> (0, dm_upd (\<lambda>d. d\<lparr>Socket := s\<lparr>SockOpen := True\<rparr>\<rparr>) u)))"

record close_env =
  ShutdownFails :: bool
  CloseFails :: bool
  ClosePnp :: pnp_env

definition DisconnectNbd :: "close_env \<Rightarrow> 'd nbd \<Rightarrow> (u32 \<times> 'd nbd) option" where
  "DisconnectNbd ce u =
     (if \<not> SockOpen (Socket (UContext u)) then Some (0, u)
      else (case (if NbdTransmissionStarted (UContext u)
                  then on_socket (NbdRequest 0 0 0 NBD_CMD_DISC) u else Some (Inr (), u)) of
              None \<Rightarrow> None
            | Some (r, u) \<Rightarrow>
                (let Retval = (case r of Inl e \<Rightarrow> e | Inr _ \<Rightarrow> 0);
                     Retval = (if ShutdownFails ce then SOCKET_ERROR else Retval);
                     Retval = (if CloseFails ce then SOCKET_ERROR else Retval)
                 in Some (Retval, dm_upd (\<lambda>d. d\<lparr>Socket := (Socket d)\<lparr>SockOpen := False\<rparr>,
                                                NbdTransmissionStarted := False\<rparr>) u))))"

definition remove_options :: "bool \<Rightarrow> WNBD_REMOVE_OPTIONS" where
  "remove_options hard = \<lparr>HardRemove = hard, HardRemoveFallback = True,
     SoftRemoveTimeoutMs = WNBD_DEFAULT_RM_TIMEOUT_MS,
     SoftRemoveRetryIntervalMs = WNBD_DEFAULT_RM_RETRY_INTERVAL_MS\<rparr>"

definition Shutdown :: "'d driver_calls \<Rightarrow> close_env \<Rightarrow> bool \<Rightarrow> 'd nbd \<Rightarrow> (u32 \<times> 'd nbd) option" where
  "Shutdown drv ce hard u =
     (if Terminated (UContext u) then Some (0, u)
      else (let u = dm_upd (\<lambda>d. d\<lparr>TerminateInProgress := True\<rparr>) u in
            case (if WnbdDisk (UContext u) then WnbdRemove drv (ClosePnp ce) (Some (remove_options hard)) u
                  else Some (0, u)) of
              None \<Rightarrow> None
            | Some (Err, u) \<Rightarrow>
                (if Err \<noteq> 0 \<and> Err \<noteq> ERROR_FILE_NOT_FOUND then Some (Err, u)
                 else (case DisconnectNbd ce (dm_upd (\<lambda>d. d\<lparr>Terminated := True\<rparr>) u) of
                         None \<Rightarrow> None
                       | Some (_, u) \<Rightarrow> Some (0, u)))))"

section \<open>Forwarding requests\<close>

text \<open>\<^verbatim>\<open>emplace\<close> keeps an entry that is already there.\<close>

definition pend_request :: "PendingRequestInfo \<Rightarrow> 'd nbd \<Rightarrow> 'd nbd" where
  "pend_request info u =
     (if PendingRequests (UContext u) (PrRequestHandle info) = None
      then dm_upd (\<lambda>d. d\<lparr>PendingRequests := (PendingRequests d)(PrRequestHandle info \<mapsto> info)\<rparr>) u else u)"

text \<open>The send under the send lock; a failure closes the connection.\<close>

definition transmit :: "'d driver_calls \<Rightarrow> close_env \<Rightarrow> unit net \<Rightarrow> 'd nbd \<Rightarrow> 'd nbd option" where
  "transmit drv ce m u =
     (case on_socket m u of
        None \<Rightarrow> None
      | Some (Inr _, u) \<Rightarrow> Some u
      | Some (Inl _, u) \<Rightarrow> map_option snd (Shutdown drv ce True u))"

text \<open>The two critical sections of each entry point, in their order: the entry and the frame.\<close>

definition read_info :: "u32 \<Rightarrow> u64 \<Rightarrow> u32 \<Rightarrow> PendingRequestInfo" where
  "read_info bs h cnt = \<lparr>PrRequestHandle = h, PrRequestType = WnbdReqTypeRead, PrLength = cnt * bs\<rparr>"

definition Read :: "'d driver_calls \<Rightarrow> close_env \<Rightarrow> u64 \<Rightarrow> u64 \<Rightarrow> u32 \<Rightarrow> bool \<Rightarrow> 'd nbd \<Rightarrow> 'd nbd option" where
  "Read drv ce h addr cnt fua u =
     (let bs = BlockSize (WnbdProps (UContext u))
      in transmit drv ce (NbdRequest (addr * ucast bs) (cnt * bs) h NBD_CMD_READ)
           (pend_request (read_info bs h cnt) u))"

definition Write :: "'d driver_calls \<Rightarrow> close_env \<Rightarrow> u64 \<Rightarrow> bytes \<Rightarrow> u64 \<Rightarrow> u32 \<Rightarrow> bool \<Rightarrow> 'd nbd \<Rightarrow> 'd nbd option" where
  "Write drv ce h Buf addr cnt fua u =
     (let bs = BlockSize (WnbdProps (UContext u));
          fl = (if fua then NBD_CMD_FLAG_FUA else 0)
      in transmit drv ce (NbdSendWrite (addr * ucast bs) (cnt * bs) (Some Buf) h fl)
           (pend_request \<lparr>PrRequestHandle = h, PrRequestType = WnbdReqTypeWrite, PrLength = cnt * bs\<rparr> u))"

definition Flush :: "'d driver_calls \<Rightarrow> close_env \<Rightarrow> u64 \<Rightarrow> u64 \<Rightarrow> u32 \<Rightarrow> 'd nbd \<Rightarrow> 'd nbd option" where
  "Flush drv ce h addr cnt u =
     (let bs = BlockSize (WnbdProps (UContext u))
      in transmit drv ce (NbdRequest 0 0 h NBD_CMD_FLUSH)
           (pend_request \<lparr>PrRequestHandle = h, PrRequestType = WnbdReqTypeFlush, PrLength = cnt * bs\<rparr> u))"

text \<open>The first unmap descriptor of the data buffer: address and count in the machine's order.\<close>

definition first_descriptor :: "bytes \<Rightarrow> WNBD_UNMAP_DESCRIPTOR" where
  "first_descriptor Buf = \<lparr>UdBlockAddress = le_word (take 8 Buf), UdBlockCount = le_word (take 4 (drop 8 Buf))\<rparr>"

definition Unmap :: "'d driver_calls \<Rightarrow> close_env \<Rightarrow> u64 \<Rightarrow> bytes \<Rightarrow> u32 \<Rightarrow> 'd nbd \<Rightarrow> 'd nbd option" where
  "Unmap drv ce h Buf n u =
     (let bs = BlockSize (WnbdProps (UContext u)); ds = first_descriptor Buf
      in transmit drv ce (NbdRequest (UdBlockAddress ds * ucast bs) (UdBlockCount ds * bs) h NBD_CMD_TRIM)
           (pend_request \<lparr>PrRequestHandle = h, PrRequestType = WnbdReqTypeUnmap, PrLength = UdBlockCount ds * bs\<rparr> u))"

definition WnbdInterface :: "'d driver_calls \<Rightarrow> close_env \<Rightarrow> 'd nbd WNBD_INTERFACE" where
  "WnbdInterface drv ce = \<lparr>IfRead = Some (Read drv ce), IfWrite = Some (Write drv ce),
     IfFlush = Some (Flush drv ce), IfUnmap = Some (Unmap drv ce),
     IfPersistResIn = None, IfPersistResOut = None\<rparr>"

section \<open>Replies\<close>

text \<open>The answer handed to the driver, after a reply and its data were read.\<close>

definition nbd_response :: "NBD_REPLY \<Rightarrow> PendingRequestInfo \<Rightarrow> WNBD_IO_RESPONSE" where
  "nbd_response R info =
     \<lparr>RspRequestHandle = NrHandle R, RspRequestType = PrRequestType info,
      RspStatus = (if NrError R \<noteq> 0
                   then WnbdSetSense SCSI_SENSE_MEDIUM_ERROR SCSI_ADSENSE_UNRECOVERED_ERROR zero_status
                   else zero_status)\<rparr>"

definition send_reply ::
    "'d driver_calls \<Rightarrow> NBD_REPLY \<Rightarrow> PendingRequestInfo \<Rightarrow> bytes option \<Rightarrow> u32 \<Rightarrow> 'd nbd \<Rightarrow> (u32 \<times> 'd nbd) option" where
  "send_reply drv R info Buf BufSize u =
     map_option (\<lambda>(Err, u).
        (let Err = (if Err \<noteq> 0 \<and> TerminateInProgress (UContext u) then 0 else Err);
             Err = (if Err = ERROR_IO_PENDING then OverlappedResult drv (UDriver u) else Err)
         in (Err, u)))
       (WnbdSendResponseEx drv (nbd_response R info) Buf BufSize True u)"

definition ProcessNbdReply :: "'d driver_calls \<Rightarrow> 'd nbd \<Rightarrow> (u32 \<times> 'd nbd) option" where
  "ProcessNbdReply drv u =
     (case on_socket NbdReadReply u of
        None \<Rightarrow> None
      | Some (Inl e, u) \<Rightarrow> Some (e, u)
      | Some (Inr R, u) \<Rightarrow>
          (case PendingRequests (UContext u) (NrHandle R) of
             None \<Rightarrow> Some (ERROR_INVALID_PARAMETER, u)
           | Some info \<Rightarrow>
               (let u = dm_upd (\<lambda>d. d\<lparr>PendingRequests := (PendingRequests d)(NrHandle R := None)\<rparr>) u in
                if NrError R = 0 \<and> PrRequestType info = WnbdReqTypeRead then
                  (let (Err, BufSize) = NbdGetReadResponseBufferSize (PrLength info) (PreallocatedRBuffSz (UContext u)) 0
                   in if Err \<noteq> 0 then Some (Err, u)
                      else (case on_socket (RecvExact (unat (PrLength info))) u of
                              None \<Rightarrow> None
                            | Some (Inl e, u) \<Rightarrow> Some (e, u)
                            | Some (Inr Buf, u) \<Rightarrow> send_reply drv R info (Some Buf) BufSize u))
                else send_reply drv R info None 0 u)))"

text \<open>
  The worker thread: the error of creating its event, then one result of resetting the event per
  pass.
\<close>

fun worker_loop :: "'d driver_calls \<Rightarrow> close_env \<Rightarrow> u32 list \<Rightarrow> 'd nbd \<Rightarrow> 'd nbd option" where
  "worker_loop drv ce resets u =
     (if Terminated (UContext u) then Some u
      else case resets of
             [] \<Rightarrow> None
           | r # rs \<Rightarrow>
               (if r \<noteq> 0 then map_option snd (Shutdown drv ce True u)
                else case ProcessNbdReply drv u of
                       None \<Rightarrow> None
                     | Some (Err, u) \<Rightarrow>
                         if Err \<noteq> 0 then map_option snd (Shutdown drv ce True u)
                         else worker_loop drv ce rs u))"

declare worker_loop.simps [simp del]

definition NbdReplyWorker :: "'d driver_calls \<Rightarrow> close_env \<Rightarrow> u32 \<Rightarrow> u32 list \<Rightarrow> 'd nbd \<Rightarrow> 'd nbd option" where
  "NbdReplyWorker drv ce event resets u =
     (if event \<noteq> 0 then map_option snd (Shutdown drv ce True u) else worker_loop drv ce resets u)"

section \<open>Start and end\<close>

abbreviation (input) NBD_FLAG_HAS_FLAGS :: u16 where "NBD_FLAG_HAS_FLAGS \<equiv> 1"
abbreviation (input) NBD_FLAG_READ_ONLY :: u16 where "NBD_FLAG_READ_ONLY \<equiv> 2"
abbreviation (input) NBD_FLAG_SEND_FLUSH :: u16 where "NBD_FLAG_SEND_FLUSH \<equiv> 4"
abbreviation (input) NBD_FLAG_SEND_FUA :: u16 where "NBD_FLAG_SEND_FUA \<equiv> 8"
abbreviation (input) NBD_FLAG_SEND_TRIM :: u16 where "NBD_FLAG_SEND_TRIM \<equiv> 32"
abbreviation (input) WNBD_DEFAULT_BLOCK_SIZE :: u32 where "WNBD_DEFAULT_BLOCK_SIZE \<equiv> 512"

definition CHECK_NBD_FLAG :: "u16 \<Rightarrow> u16 \<Rightarrow> bool" where
  "CHECK_NBD_FLAG fl f \<longleftrightarrow> fl AND NBD_FLAG_HAS_FLAGS \<noteq> 0 \<and> fl AND f \<noteq> 0"

record start_env =
  StAlloc :: bool
  StResolved :: "u32 + attempt list"
  StTcp :: u32
  StDisk :: bool
  StThreadsEnv :: "u32 option"
  StThreadArray :: bool
  StThreads :: "nat \<Rightarrow> u32"
  StWait :: "u32 option"

text \<open>The block-size constraints of the server against the fixed block size.\<close>

definition block_size_ok :: "NBD_BLOCK_SIZE_INFO \<Rightarrow> u32 \<Rightarrow> bool" where
  "block_size_ok B bs \<longleftrightarrow>
     \<not> Received B \<or>
     (Minimum B \<le> bs \<and> (Minimum B = 0 \<or> bs mod Minimum B = 0) \<and>
      (Maximum B = 0 \<or> WNBD_DEFAULT_MAX_TRANSFER_LENGTH \<le> Maximum B))"

definition zero_export :: export where
  "zero_export = \<lparr>ExSize = 0, ExFlags = 0, SeenExport = False,
     BlockInfo = Some \<lparr>Minimum = 0, Preferred = 0, Maximum = 0, Received = False\<rparr>\<rparr>"

text \<open>The negotiation: the flags, and the block count that follows from the size.\<close>

definition start_negotiate :: "'d nbd \<Rightarrow> ((u32 + u16) \<times> 'd nbd) option" where
  "start_negotiate u =
     (let P = WnbdProps (UContext u) in
      if SkipNegotiation (NbdProperties P) then Some (Inr 0, u)
      else (case on_socket (NbdNegotiate (cstr (ExportName (NbdProperties P))) NBD_FLAG_FIXED_NEWSTYLE zero_export) u of
              None \<Rightarrow> None
            | Some (Inl e, u) \<Rightarrow> Some (Inl e, u)
            | Some (Inr X, u) \<Rightarrow>
                (case BlockInfo X of
                   Some B \<Rightarrow>
                     if \<not> block_size_ok B (BlockSize P) then Some (Inl ERROR_NOT_SUPPORTED, u)
                     else Some (Inr (ExFlags X), dm_upd (\<lambda>d. d\<lparr>WnbdProps := (WnbdProps d)\<lparr>
                            BlockCount := ExSize X div ucast (BlockSize P)\<rparr>\<rparr>) u)
                 | None \<Rightarrow> Some (Inr (ExFlags X), dm_upd (\<lambda>d. d\<lparr>WnbdProps := (WnbdProps d)\<lparr>
                            BlockCount := ExSize X div ucast (BlockSize P)\<rparr>\<rparr>) u))))"

definition nbd_flags :: "u16 \<Rightarrow> WNBD_FLAGS \<Rightarrow> WNBD_FLAGS" where
  "nbd_flags fl F = F\<lparr>ReadOnly := ReadOnly F \<or> CHECK_NBD_FLAG fl NBD_FLAG_READ_ONLY,
     UnmapSupported := UnmapSupported F \<or> CHECK_NBD_FLAG fl NBD_FLAG_SEND_TRIM,
     FlushSupported := FlushSupported F \<or> CHECK_NBD_FLAG fl NBD_FLAG_SEND_FLUSH,
     FUASupported := FUASupported F \<or> CHECK_NBD_FLAG fl NBD_FLAG_SEND_FUA\<rparr>"

definition invalid_geometry :: "WNBD_PROPERTIES \<Rightarrow> bool" where
  "invalid_geometry P \<longleftrightarrow> BlockCount P = 0 \<or> BlockCount P > (- 1) div ucast (BlockSize P)"

definition dispatcher_threads :: "u32 option \<Rightarrow> u32" where
  "dispatcher_threads env =
     (case env of None \<Rightarrow> 1
      | Some n \<Rightarrow> if WNBD_MIN_DISPATCHER_THREAD_COUNT \<le> n \<and> n \<le> WNBD_MAX_DISPATCHER_THREAD_COUNT then n else 1)"

text \<open>From the negotiated flags to the running dispatcher.\<close>

definition start_disk ::
    "'d driver_calls \<Rightarrow> close_env \<Rightarrow> start_env \<Rightarrow> u16 \<Rightarrow> 'd nbd \<Rightarrow> (u32 \<times> 'd nbd) option" where
  "start_disk drv ce env fl u =
     (let u = dm_upd (\<lambda>d. d\<lparr>NbdTransmissionStarted := True,
                WnbdProps := (WnbdProps d)\<lparr>Flags := nbd_flags fl (Flags (WnbdProps d))\<rparr>\<rparr>) u
      in if invalid_geometry (WnbdProps (UContext u)) then Some (ERROR_INVALID_PARAMETER, u)
         else (let u = dm_upd (\<lambda>d. d\<lparr>ReplyDispatcher := True\<rparr>) u
               in case WnbdCreate drv (StDisk env) (WnbdProps (UContext u)) (UDriver u) of
                    None \<Rightarrow> None
                  | Some (Err, None, D) \<Rightarrow> Some (Err, u\<lparr>UDriver := D\<rparr>)
                  | Some (_, Some dk, D) \<Rightarrow>
                      WnbdStartDispatcher drv (ClosePnp ce) (StThreadArray env) (StThreads env) (StWait env)
                        (dispatcher_threads (StThreadsEnv env))
                        (dm_upd (\<lambda>d. d\<lparr>WnbdDisk := True\<rparr>) (u\<lparr>UDriver := D, UDisk := dk\<rparr>))))"

definition start_props :: "WNBD_PROPERTIES \<Rightarrow> WNBD_PROPERTIES" where
  "start_props P = P\<lparr>MaxUnmapDescCount := 1, Flags := (Flags P)\<lparr>PersistResSupported := False\<rparr>,
     BlockSize := (if BlockSize P = 0 then WNBD_DEFAULT_BLOCK_SIZE else BlockSize P)\<rparr>"

definition TryStart :: "'d driver_calls \<Rightarrow> close_env \<Rightarrow> start_env \<Rightarrow> 'd nbd \<Rightarrow> (u32 \<times> 'd nbd) option" where
  "TryStart drv ce env u =
     (let u = dm_upd (\<lambda>d. d\<lparr>WnbdProps := start_props (WnbdProps d)\<rparr>) u in
      if BlockSize (WnbdProps (UContext u)) \<noteq> 512 then Some (ERROR_INVALID_PARAMETER, u)
      else (let u = dm_upd (\<lambda>d. d\<lparr>PreallocatedRBuffSz := WNBD_DEFAULT_MAX_TRANSFER_LENGTH,
                                    PreallocatedRBuff := StAlloc env\<rparr>) u in
            if \<not> StAlloc env then Some (ERROR_NOT_ENOUGH_MEMORY, u)
            else (let (Err, u) = ConnectNbdServer (StResolved env) u in
                  if Err \<noteq> 0 then Some (Err, u)
                  else if SetTcpFlags (StTcp env) \<noteq> 0 then Some (SetTcpFlags (StTcp env), u)
                  else (case start_negotiate u of
                          None \<Rightarrow> None
                        | Some (Inl e, u) \<Rightarrow> Some (e, u)
                        | Some (Inr fl, u) \<Rightarrow> start_disk drv ce env fl u))))"

definition Wait :: "u32 option \<Rightarrow> 'd nbd \<Rightarrow> u32 option" where
  "Wait wait u = (if WnbdDisk (UContext u) then WnbdWaitDispatcher wait (UDisk u) else Some 0)"

definition Start :: "'d driver_calls \<Rightarrow> close_env \<Rightarrow> start_env \<Rightarrow> 'd nbd \<Rightarrow> (u32 \<times> 'd nbd) option" where
  "Start drv ce env u =
     (case TryStart drv ce env u of
        None \<Rightarrow> None
      | Some (Retval, u) \<Rightarrow>
          if Retval = 0 then Some (0, u)
          else (case Shutdown drv ce True u of
                  None \<Rightarrow> None
                | Some (_, u) \<Rightarrow> map_option (\<lambda>_. (Retval, u)) (Wait (StWait env) u)))"

text \<open>
  The destructor; \<open>joined\<close> says whether the reply worker ends, without which the join blocks.
\<close>

definition destroy_daemon :: "'d driver_calls \<Rightarrow> close_env \<Rightarrow> u32 option \<Rightarrow> bool \<Rightarrow> 'd nbd \<Rightarrow> 'd nbd option" where
  "destroy_daemon drv ce wait joined u =
     (case Shutdown drv ce False u of
        None \<Rightarrow> None
      | Some (_, u) \<Rightarrow>
          (case Wait wait u of
             None \<Rightarrow> None
           | Some _ \<Rightarrow>
               if ReplyDispatcher (UContext u) \<and> \<not> joined then None
               else (let u = (if WnbdDisk (UContext u) then disk_upd WnbdClose u else u)
                     in Some (dm_upd (\<lambda>d. d\<lparr>ReplyDispatcher := False, PreallocatedRBuff := False\<rparr>) u))))"

definition WnbdRunNbdDaemon ::
    "'d driver_calls \<Rightarrow> close_env \<Rightarrow> start_env \<Rightarrow> u32 option \<Rightarrow> bool \<Rightarrow> 'd nbd \<Rightarrow> (u32 \<times> 'd nbd) option" where
  "WnbdRunNbdDaemon drv ce env wait joined u =
     (case Start drv ce env u of
        None \<Rightarrow> None
      | Some (Status, u) \<Rightarrow>
          (case (if Status \<noteq> 0 then Some Status else Wait wait u) of
             None \<Rightarrow> None
           | Some Status \<Rightarrow> map_option (Pair Status) (destroy_daemon drv ce wait joined u)))"

end
