(* ===== verification/NbdProps.thy ===== *)
theory NbdProps
  imports NbdProtocol
begin

text \<open>
  What the protocol code of \<^verbatim>\<open>libwnbd/nbd_protocol.cpp\<close> guarantees over a byte
  stream: it always returns unless the peer stays silent, its result does not depend on how the
  network cuts the stream, the size it reports was sent by the server, and a well-formed exchange
  ends as the protocol says.
\<close>

section \<open>Returning\<close>

text \<open>A socket whose calls never block forever.\<close>

definition live :: "sock \<Rightarrow> bool" where
  "live s \<longleftrightarrow> RxEnd s \<noteq> RxSilent \<and> SendBlocks \<notin> set (TxResults s)"

definition returns :: "'a net \<Rightarrow> bool" where
  "returns m \<longleftrightarrow> (\<forall>s. live s \<longrightarrow> (\<exists>r s'. m s = Some (r, s') \<and> live s'))"

named_theorems returns_intros \<open>operations that return\<close>

lemma returns_D: "returns m \<Longrightarrow> live s \<Longrightarrow> \<exists>r s'. m s = Some (r, s') \<and> live s'"
  by (simp add: returns_def)

lemma returns_ret [returns_intros]: "returns (ret a)"
  by (simp add: returns_def ret_def)

lemma returns_failed [returns_intros]: "returns (failed e)"
  by (simp add: returns_def failed_def)

lemma returns_check [returns_intros]: "returns (check r)"
  by (simp add: check_def returns_ret returns_failed)

lemma returns_after [returns_intros]:
  assumes "returns m" "\<And>a. returns (f a)" shows "returns (after m f)"
  unfolding returns_def
proof (intro allI impI)
  fix s assume "live s"
  then obtain r s1 where "m s = Some (r, s1)" "live s1" using assms(1) by (auto simp: returns_def)
  then show "\<exists>r s'. after m f s = Some (r, s') \<and> live s'"
    using assms(2) by (cases r) (auto simp: after_def returns_def)
qed

lemma recv_returns: "live s \<Longrightarrow> \<exists>r s'. recv n s = Some (r, s') \<and> live s'"
  by (auto simp: recv_def live_def Let_def split: rx_end.splits list.splits)

lemma RecvLoop_returns: "live s \<Longrightarrow> \<exists>r s'. RecvLoop n acc s = Some (r, s') \<and> live s'"
proof (induction n acc s rule: RecvLoop.induct)
  case (1 n acc s)
  obtain r s1 where r: "recv n s = Some (r, s1)" "live s1" using recv_returns "1.prems" by blast
  show ?case
  proof (cases r)
    case (Got bs)
    then show ?thesis using "1.IH" r "1.prems" by (subst RecvLoop.simps) auto
  qed (use r "1.prems" in \<open>subst RecvLoop.simps, auto\<close>)+
qed

lemma returns_RecvExact [returns_intros]: "returns (RecvExact n)"
  by (simp add: returns_def RecvExact_def RecvLoop_returns)

lemma send_returns: "live s \<Longrightarrow> \<exists>r s'. send bs s = Some (r, s') \<and> r \<noteq> SendBlocks \<and> live s'"
  by (auto simp: send_def live_def Let_def split: send_result.splits list.splits)

lemma SendLoop_returns: "live s \<Longrightarrow> \<exists>r s'. SendLoop bs s = Some (r, s') \<and> live s'"
proof (induction bs s rule: SendLoop.induct)
  case (1 bs s)
  obtain r s1 where r: "send bs s = Some (r, s1)" "r \<noteq> SendBlocks" "live s1"
    using send_returns "1.prems" by blast
  show ?case
  proof (cases r)
    case (Accepted k)
    then show ?thesis using "1.IH" r "1.prems" by (subst SendLoop.simps) auto
  qed (use r "1.prems" returns_D [OF returns_check] in \<open>subst SendLoop.simps, auto\<close>)+
qed

lemma returns_SendExact [returns_intros]: "returns (SendExact bs)"
  by (simp add: returns_def SendExact_def SendLoop_returns)

lemma returns_requests [returns_intros]:
  "returns (NbdSendHandshakeRequest opt n d)" "returns (NbdSendInfoRequest opt k q nm)"
  "returns (NbdSendOptExportName nm G X)"
  unfolding NbdSendHandshakeRequest_def NbdSendInfoRequest_def NbdSendOptExportName_def Let_def
  by (auto intro!: returns_intros split: option.split prod.split)

lemma returns_error_reply [returns_intros]: "returns (error_reply t nm G X)"
  unfolding error_reply_def by (auto intro!: returns_intros)

lemma returns_grant [returns_intros]: "returns (grant n)"
  by (simp add: returns_def grant_def ret_def failed_def)

lemma returns_reply [returns_intros]: "returns NbdReadHandshakeReply"
  unfolding NbdReadHandshakeReply_def NbdReadHandshakeReplyWithRecv_def handshake_body_def Let_def
  by (auto intro!: returns_intros)

lemma NegotiateLoop_returns:
  "live s \<Longrightarrow> \<exists>r s'. NegotiateLoop nm G X s = Some (r, s') \<and> live s'"
proof (induction nm G X s rule: NegotiateLoop.induct)
  case (1 nm G X s)
  obtain r s1 where r: "NbdReadHandshakeReply s = Some (r, s1)" "live s1"
    using returns_D [OF returns_reply "1.prems"] by blast
  show ?case
  proof (cases r)
    case (Inl e)
    then show ?thesis using r by (simp add: NegotiateLoop.simps [of nm])
  next
    case (Inr R)
    note IH = "1.IH" [OF r(1) refl Inr]
    show ?thesis
      using r Inr IH returns_D [OF returns_error_reply r(2)]
      by (subst NegotiateLoop.simps) auto
  qed
qed

text \<open>
  C16: the negotiation returns, with the export or an error, for every byte stream, every way the
  network delivers it and every option, unless the peer keeps the connection open without sending
  or accepting anything.
\<close>

theorem negotiation_returns:
  assumes "RxEnd s \<noteq> RxSilent" "SendBlocks \<notin> set (TxResults s)"
  shows "\<exists>r s'. NbdNegotiate Name ClientFlags X s = Some (r, s')"
proof -
  have "returns (NbdNegotiate Name ClientFlags X)"
    unfolding NbdNegotiate_def negotiate_go_def Let_def
    by (intro returns_intros) (simp add: returns_def NegotiateLoop_returns)
  then show ?thesis using assms by (auto simp: returns_def live_def)
qed

text \<open>A connection that ends after the first greeting bytes.\<close>

definition short_server :: "nat list \<Rightarrow> sock" where
  "short_server chunks =
     \<lparr>SockOpen = True, RxBytes = INIT_PASSWD @ [0x49, 0x48], RxChunks = chunks, RxEnd = RxClosed,
      BadLength = 10014, TxBytes = [], TxResults = [], Grants = (\<lambda>_. True)\<rparr>"

definition blank_export :: export where
  "blank_export = \<lparr>ExSize = 0, ExFlags = 0, SeenExport = False, BlockInfo = None\<rparr>"

theorem negotiation_returns_witness:
  "\<exists>r s'. NbdNegotiate [] 1 blank_export (short_server [3]) = Some (r, s')"
  by (rule negotiation_returns) (simp_all add: short_server_def)

section \<open>The stream behind the calls\<close>

text \<open>What two peers exchange, without the sizes of the individual calls.\<close>

record stream =
  In :: bytes
  End :: rx_end
  Out :: bytes
  Memory :: "nat \<Rightarrow> bool"
  Refusal :: u32

definition view :: "sock \<Rightarrow> stream" where
  "view s = \<lparr>In = RxBytes s, End = RxEnd s, Out = TxBytes s, Memory = Grants s, Refusal = BadLength s\<rparr>"

definition calm :: "sock \<Rightarrow> bool" where
  "calm s \<longleftrightarrow> SockOpen s \<and> (\<forall>r \<in> set (TxResults s). \<exists>k. r = Accepted k)"

text \<open>The stream transfers the calls implement.\<close>

definition stream_recv :: "nat \<Rightarrow> stream \<Rightarrow> ((u32 + bytes) \<times> stream) option" where
  "stream_recv n v =
     (if n \<le> length (In v) then Some (Inr (take n (In v)), v\<lparr>In := drop n (In v)\<rparr>)
      else case End v of
             RxSilent \<Rightarrow> None
           | RxClosed \<Rightarrow> Some (Inl ERROR_GRACEFUL_DISCONNECT, v\<lparr>In := []\<rparr>)
           | RxFailed e \<Rightarrow> Some (Inl (socket_error SOCKET_ERROR e), v\<lparr>In := []\<rparr>))"

definition stream_send :: "bytes \<Rightarrow> stream \<Rightarrow> stream" where
  "stream_send bs v = v\<lparr>Out := Out v @ bs\<rparr>"

definition outcome :: "((u32 + 'a) \<times> sock) option \<Rightarrow> ((u32 + 'a) \<times> stream) option" where
  "outcome = map_option (map_prod id view)"

lemma view_simps [simp]:
  "In (view s) = RxBytes s" "End (view s) = RxEnd s" "Out (view s) = TxBytes s"
  "Memory (view s) = Grants s" "Refusal (view s) = BadLength s"
  "view (s\<lparr>RxBytes := b, RxChunks := c\<rparr>) = (view s)\<lparr>In := b\<rparr>"
  "view (s\<lparr>TxResults := q, TxBytes := t\<rparr>) = (view s)\<lparr>Out := t\<rparr>"
  by (simp_all add: view_def)

definition same_tx :: "sock \<Rightarrow> sock \<Rightarrow> bool" where
  "same_tx s s' \<longleftrightarrow> SockOpen s' = SockOpen s \<and> TxResults s' = TxResults s"

lemma take_then_take: "k \<le> n \<Longrightarrow> take k xs @ take (n - k) (drop k xs) = take n xs"
  using take_add [of k "n - k" xs] by simp

lemma recv_calm:
  assumes "0 < n" "n < 2147483648" "RxBytes s \<noteq> []"
  shows "\<exists>k s'. recv n s = Some (Got (take k (RxBytes s)), s') \<and> 0 < k \<and> k \<le> n \<and> same_tx s s' \<and>
           view s' = (view s)\<lparr>In := drop k (RxBytes s)\<rparr>"
proof (cases "RxChunks s")
  case Nil
  then show ?thesis using assms by (auto simp: recv_def same_tx_def)
next
  case (Cons c cs)
  then show ?thesis using assms
    by (auto simp: recv_def same_tx_def Let_def intro!: exI [of _ "min (max 1 c) n"])
qed

lemma RecvLoop_calm:
  "n < 2147483648 \<Longrightarrow>
     outcome (RecvLoop n acc s) = map_option (map_prod (map_sum id ((@) acc)) id) (stream_recv n (view s)) \<and>
     (\<forall>r s'. RecvLoop n acc s = Some (r, s') \<longrightarrow> same_tx s s')"
proof (induction n acc s rule: RecvLoop.induct)
  case (1 n acc s)
  consider "n = 0" | "0 < n" "RxBytes s = []" | "0 < n" "RxBytes s \<noteq> []" by blast
  then show ?case
  proof cases
    case 1
    then show ?thesis using "1.prems" by (simp add: RecvLoop.simps [of 0] outcome_def stream_recv_def same_tx_def view_def)
  next
    case 2
    have "recv n s = (case RxEnd s of RxClosed \<Rightarrow> Some (PeerClosed, s) | RxFailed e \<Rightarrow> Some (RecvFailed e, s) | RxSilent \<Rightarrow> None)"
      using 2 "1.prems" by (simp add: recv_def)
    then show ?thesis using 2 "1.prems"
      by (subst (1 2) RecvLoop.simps) (simp add: outcome_def stream_recv_def same_tx_def view_def split: rx_end.splits)
  next
    case 3
    then obtain k s1 where r: "recv n s = Some (Got (take k (RxBytes s)), s1)" and k: "0 < k" "k \<le> n"
      and s1: "same_tx s s1" "view s1 = (view s)\<lparr>In := drop k (RxBytes s)\<rparr>"
      using recv_calm "1.prems" by blast
    let ?g = "take k (RxBytes s)"
    have le: "n - length ?g < 2147483648" using "1.prems" by simp
    note IH = "1.IH" [OF _ r refl refl le]
    have A: "RecvLoop n acc s = RecvLoop (n - length ?g) (acc @ ?g) s1"
      using r 3 by (subst RecvLoop.simps) simp
    have B: "map_option (map_prod (map_sum id ((@) (acc @ ?g))) id) (stream_recv (n - length ?g) (view s1)) =
        map_option (map_prod (map_sum id ((@) acc)) id) (stream_recv n (view s))"
      using k 3 s1(2) by (auto simp: stream_recv_def min_def take_then_take split: rx_end.splits)
    from IH have C: "outcome (RecvLoop n acc s) = map_option (map_prod (map_sum id ((@) acc)) id) (stream_recv n (view s))"
      "\<And>r s'. RecvLoop n acc s = Some (r, s') \<Longrightarrow> same_tx s1 s'"
      using 3(1) unfolding A B by blast+
    have "same_tx s s'" if "RecvLoop n acc s = Some (r, s')" for r s'
      using C(2) [OF that] s1(1) by (simp add: same_tx_def)
    then show ?thesis using C(1) by blast
  qed
qed

text \<open>An exact receive is the transfer of the next bytes of the stream.\<close>

lemma receive_is_stream_transfer:
  assumes "Length < 2147483648" "SockOpen s"
  shows "outcome (RecvExact Length s) = stream_recv Length (view s)"
proof -
  from RecvLoop_calm [OF assms(1), of "[]" s] have
    "outcome (RecvLoop Length [] s) = map_option (map_prod (map_sum id ((@) [])) id) (stream_recv Length (view s))" by blast
  moreover have "(@) [] = (id :: bytes \<Rightarrow> bytes)" by auto
  ultimately show ?thesis using assms
    by (simp add: RecvExact_def map_sum.id map_prod.id option.map_id)
qed

lemma send_calm:
  assumes "bs \<noteq> []" "length bs < 2147483648" "calm s"
  shows "\<exists>k s'. send bs s = Some (Accepted k, s') \<and> 0 < k \<and> calm s' \<and>
           view s' = stream_send (take k bs) (view s)"
proof (cases "TxResults s")
  case Nil
  then show ?thesis using assms by (auto simp: send_def calm_def stream_send_def)
next
  case (Cons r rs)
  with assms(3) obtain c where "r = Accepted c" by (auto simp: calm_def)
  then show ?thesis using Cons assms
    by (auto simp: send_def calm_def stream_send_def Let_def intro!: exI [of _ "min (max 1 c) (length bs)"])
qed

lemma SendLoop_calm:
  "length bs < 2147483648 \<Longrightarrow> calm s \<Longrightarrow>
     \<exists>s'. SendLoop bs s = Some (Inr (), s') \<and> calm s' \<and> view s' = stream_send bs (view s)"
proof (induction bs s rule: SendLoop.induct)
  case (1 bs s)
  show ?case
  proof (cases "bs = []")
    case True
    then show ?thesis using "1.prems" by (simp add: SendLoop.simps stream_send_def)
  next
    case False
    then obtain k s1 where r: "send bs s = Some (Accepted k, s1)" "0 < k" "calm s1"
      "view s1 = stream_send (take k bs) (view s)" using send_calm "1.prems" by blast
    have "length (drop k bs) < 2147483648" using "1.prems"(1) by simp
    from "1.IH" [OF False r(1) refl refl this r(3)] obtain s2
      where s2: "SendLoop (drop k bs) s1 = Some (Inr (), s2)" "calm s2"
        "view s2 = stream_send (drop k bs) (view s1)" by blast
    have "SendLoop bs s = SendLoop (drop k bs) s1" using False r(1) by (subst SendLoop.simps) simp
    then show ?thesis using s2 r(4) by (simp add: stream_send_def)
  qed
qed

lemma SendExact_calm:
  "length bs < 2147483648 \<Longrightarrow> calm s \<Longrightarrow>
     \<exists>s'. SendExact bs s = Some (Inr (), s') \<and> calm s' \<and> view s' = stream_send bs (view s)"
  using SendLoop_calm [of bs s] by (simp add: SendExact_def calm_def)

section \<open>The cut of the stream does not matter\<close>

definition stable :: "'a net \<Rightarrow> bool" where
  "stable m \<longleftrightarrow>
     (\<forall>s t. calm s \<and> calm t \<and> view s = view t \<longrightarrow>
        outcome (m s) = outcome (m t) \<and> (\<forall>r s'. m s = Some (r, s') \<longrightarrow> calm s'))"

named_theorems stable_intros \<open>operations that depend on the stream only\<close>

lemma stableI:
  assumes "\<And>s t. calm s \<Longrightarrow> calm t \<Longrightarrow> view s = view t \<Longrightarrow> outcome (m s) = outcome (m t)"
    "\<And>s r s'. calm s \<Longrightarrow> m s = Some (r, s') \<Longrightarrow> calm s'"
  shows "stable m"
  using assms unfolding stable_def by blast

lemma stableD:
  assumes "stable m" "calm s" "calm t" "view s = view t"
  shows "outcome (m s) = outcome (m t)" "m s = Some (r, s') \<Longrightarrow> calm s'"
  using assms unfolding stable_def by blast+

lemma stable_ret [stable_intros]: "stable (ret a)"
  by (rule stableI) (auto simp: ret_def outcome_def)

lemma stable_failed [stable_intros]: "stable (failed e)"
  by (rule stableI) (auto simp: failed_def outcome_def)

lemma stable_check [stable_intros]: "stable (check r)"
  by (simp add: check_def stable_ret stable_failed)

lemma stable_cases:
  assumes "stable m" "calm s" "calm t" "view s = view t"
  obtains "m s = None" "m t = None"
  | r s' t' where "m s = Some (r, s')" "m t = Some (r, t')" "calm s'" "calm t'" "view s' = view t'"
  using stableD [OF assms] stableD [OF assms(1,3,2) assms(4) [symmetric]]
  by (cases "m s"; cases "m t") (auto simp: outcome_def)

lemma stable_after [stable_intros]:
  assumes "stable m" "\<And>a. stable (f a)" shows "stable (after m f)"
proof (rule stableI)
  fix s t assume st: "calm s" "calm t" "view s = view t"
  from assms(1) st show "outcome (after m f s) = outcome (after m f t)"
  proof (cases rule: stable_cases)
    case (2 r s' t')
    show ?thesis
    proof (cases r)
      case (Inr a)
      then show ?thesis using 2 stableD(1) [OF assms(2) 2(3-5), of a] by (simp add: after_def)
    qed (use 2 in \<open>simp add: after_def outcome_def\<close>)
  qed (simp add: after_def)
next
  fix s r s' assume s: "calm s" "after m f s = Some (r, s')"
  from assms(1) s(1,1) refl show "calm s'"
  proof (cases rule: stable_cases)
    case (2 q s1 t1)
    show ?thesis
    proof (cases q)
      case (Inr a)
      then show ?thesis using 2(1) s(2) stableD(2) [OF assms(2) 2(3,3) refl, of a r s'] by (simp add: after_def)
    qed (use 2(1,3) s(2) in \<open>simp add: after_def\<close>)
  qed (use s in \<open>simp add: after_def\<close>)
qed

lemma stable_SendExact [stable_intros]: "length bs < 2147483648 \<Longrightarrow> stable (SendExact bs)"
proof (rule stableI)
  fix s t :: sock assume l: "length bs < 2147483648" and st: "calm s" "calm t" "view s = view t"
  show "outcome (SendExact bs s) = outcome (SendExact bs t)"
    using SendExact_calm [OF l st(1)] SendExact_calm [OF l st(2)] st(3) by (auto simp: outcome_def)
next
  fix s r s' assume l: "length bs < 2147483648" and s: "calm s" "SendExact bs s = Some (r, s')"
  then show "calm s'" using SendExact_calm [OF l s(1)] by auto
qed

lemma RecvLoop_refused:
  assumes "2147483648 \<le> n" "n < 4294967296"
  shows "RecvLoop n acc s = Some (Inl (socket_error SOCKET_ERROR (BadLength s)), s)"
  using assms by (subst RecvLoop.simps) (simp add: recv_def int_cast_def)

lemma stable_RecvExact [stable_intros]:
  assumes "n < 4294967296" shows "stable (RecvExact n)"
proof (cases "n < 2147483648")
  case True
  show ?thesis
  proof (rule stableI)
    fix s r s' assume "calm s" "RecvExact n s = Some (r, s')"
    then show "calm s'"
      using RecvLoop_calm [OF True, of "[]" s] by (auto simp: RecvExact_def calm_def same_tx_def split: if_splits)
  qed (simp add: receive_is_stream_transfer True calm_def)
next
  case False
  show ?thesis
  proof (rule stableI)
    fix s t :: sock assume "calm s" "calm t" "view s = view t"
    moreover from this have "BadLength s = BadLength t" by (metis view_simps(5))
    ultimately show "outcome (RecvExact n s) = outcome (RecvExact n t)"
      using False assms by (simp add: RecvExact_def calm_def RecvLoop_refused outcome_def)
  qed (use False assms in \<open>auto simp: RecvExact_def calm_def RecvLoop_refused split: if_splits\<close>)
qed

lemma stable_requests [stable_intros]:
  "d = None \<or> length (the d) < 2147483648 \<Longrightarrow> stable (NbdSendHandshakeRequest opt n d)"
  "length nm < 2147483648 \<Longrightarrow> stable (NbdSendInfoRequest opt k q nm)"
  "length nm < 2147483648 \<Longrightarrow> stable (NbdSendOptExportName nm G X)"
proof -
  show h: "d = None \<or> length (the d) < 2147483648 \<Longrightarrow> stable (NbdSendHandshakeRequest opt n d)" for opt n d
    unfolding NbdSendHandshakeRequest_def
    by (intro stable_intros) (auto simp: NBD_HANDSHAKE_REQ_def intro!: stable_intros split: option.split)
  have "unat k < 2 ^ LENGTH(16)" by (rule unsigned_less)
  then have "unat k * 2 < 2147483648" by simp
  then show "length nm < 2147483648 \<Longrightarrow> stable (NbdSendInfoRequest opt k q nm)"
    unfolding NbdSendInfoRequest_def Let_def
    by (intro stable_intros h) (auto intro!: stable_intros split: option.split)
  show "length nm < 2147483648 \<Longrightarrow> stable (NbdSendOptExportName nm G X)"
    unfolding NbdSendOptExportName_def Let_def
    by (intro stable_intros h) (auto intro!: stable_intros split: prod.split)
qed

lemma stable_error_reply [stable_intros]:
  "length nm < 2147483648 \<Longrightarrow> stable (error_reply t nm G X)"
  unfolding error_reply_def by (auto intro!: stable_intros)

lemma unat_u32_less: "unat (x :: u32) < 4294967296"
  using unsigned_less [of x] by simp

lemma stable_grant [stable_intros]: "stable (grant n)"
proof (rule stableI)
  fix s t :: sock assume "view s = view t"
  moreover from this have "Grants s = Grants t" by (metis view_simps(4))
  ultimately show "outcome (grant n s) = outcome (grant n t)"
    by (simp add: grant_net outcome_def)
qed (auto simp: grant_net split: if_splits)

lemma stable_reply [stable_intros]: "stable NbdReadHandshakeReply"
  unfolding NbdReadHandshakeReply_def NbdReadHandshakeReplyWithRecv_def handshake_body_def Let_def
  by (auto intro!: stable_intros unat_u32_less)

text \<open>The loop after a reply has been read.\<close>

definition loop_body :: "bytes \<Rightarrow> u16 \<Rightarrow> export \<Rightarrow> NBD_HANDSHAKE_RPL \<Rightarrow> export net" where
  "loop_body nm G X R s =
     (if ReplyType R AND NBD_REP_FLAG_ERROR \<noteq> 0 then error_reply (ReplyType R) nm G X s
      else if fst (take_reply R X) \<noteq> 0 then Some (Inl (fst (take_reply R X)), s)
      else if ReplyType R \<noteq> NBD_REP_ACK then NegotiateLoop nm G (snd (take_reply R X)) s
      else Some (Inr (snd (take_reply R X)), s))"

lemma NegotiateLoop_step:
  "NbdReadHandshakeReply s = Some (Inr R, s') \<Longrightarrow> NegotiateLoop nm G X s = loop_body nm G X R s'"
  by (simp add: NegotiateLoop.simps [of nm G X s] loop_body_def)

lemma stable_NegotiateLoop [stable_intros]:
  assumes nm: "length nm < 2147483648" shows "stable (NegotiateLoop nm G X)"
proof -
  have "outcome (NegotiateLoop nm G X s) = outcome (NegotiateLoop nm G X t) \<and>
        (\<forall>r s'. NegotiateLoop nm G X s = Some (r, s') \<longrightarrow> calm s')"
    if "calm s" "calm t" "view s = view t" for s t
    using nm that
  proof (induction nm G X s arbitrary: t rule: NegotiateLoop.induct)
    case (1 nm G X s)
    note st = "1.prems"(2-4)
    from stable_reply st show ?case
    proof (cases rule: stable_cases)
      case 1
      then show ?thesis by (simp add: NegotiateLoop.simps [of nm])
    next
      case (2 r s1 t1)
      show ?thesis
      proof (cases r)
        case (Inl e)
        then show ?thesis using 2 by (simp add: NegotiateLoop.simps [of nm] outcome_def)
      next
        case (Inr R)
        have e: "stable (error_reply (ReplyType R) nm G X)" by (intro stable_intros "1.prems")
        note IH = "1.IH" [OF 2(1) refl Inr _ _ _ "1.prems"(1) 2(3-5)]
        have S: "NegotiateLoop nm G X s = loop_body nm G X R s1"
          and T: "NegotiateLoop nm G X t = loop_body nm G X R t1"
          using 2 Inr by (simp_all add: NegotiateLoop_step)
        consider "ReplyType R AND NBD_REP_FLAG_ERROR \<noteq> 0"
          | "ReplyType R AND NBD_REP_FLAG_ERROR = 0" "fst (take_reply R X) = 0" "ReplyType R \<noteq> NBD_REP_ACK"
          | "ReplyType R AND NBD_REP_FLAG_ERROR = 0" "fst (take_reply R X) \<noteq> 0 \<or> ReplyType R = NBD_REP_ACK" by blast
        then show ?thesis
        proof cases
          case 1
          then show ?thesis unfolding S T loop_body_def using stableD [OF e 2(3-5)] by simp
        next
          case step: 2
          then have "loop_body nm G X R u = NegotiateLoop nm G (snd (take_reply R X)) u" for u
            by (simp add: loop_body_def)
          then show ?thesis unfolding S T using IH step by simp
        next
          case 3
          then show ?thesis unfolding S T loop_body_def using 2(3-5) by (auto simp: outcome_def)
        qed
      qed
    qed
  qed
  then show ?thesis unfolding stable_def by blast
qed

text \<open>
  C17: the outcome of the negotiation, the bytes it leaves unread and the bytes it sends depend on
  the byte streams only, not on the sizes in which the network delivers and accepts them.
\<close>

theorem negotiation_ignores_packets:
  assumes "SockOpen s" "\<forall>r \<in> set (TxResults s). \<exists>k. r = Accepted k"
    "SockOpen t" "\<forall>r \<in> set (TxResults t). \<exists>k. r = Accepted k"
    "view s = view t" "length Name < 2147483648"
  shows "outcome (NbdNegotiate Name ClientFlags X s) = outcome (NbdNegotiate Name ClientFlags X t)"
proof -
  have "stable (NbdNegotiate Name ClientFlags X)"
    unfolding NbdNegotiate_def negotiate_go_def Let_def using assms(6) by (intro stable_intros) simp_all
  moreover have "calm s" "calm t" using assms by (simp_all add: calm_def)
  ultimately show ?thesis using stableD(1) assms(5) by blast
qed

theorem negotiation_ignores_packets_witness:
  "outcome (NbdNegotiate [] 1 blank_export (short_server [3, 1, 9])) = outcome (NbdNegotiate [] 1 blank_export (short_server []))"
  by (rule negotiation_ignores_packets) (simp_all add: short_server_def view_def)

end
