(* ===== verification/NbdSpec.thy ===== *)
theory NbdSpec
  imports NbdProps
begin

text \<open>
  The negotiation as an exchange of messages: an abstract server sends a list of typed replies,
  the negotiation of \<^verbatim>\<open>libwnbd/nbd_protocol.cpp\<close> reads their encoding, and its
  result is the one the protocol prescribes for the list.
\<close>

section \<open>Messages\<close>

datatype message =
    Ack
  | Info_Export u64 u16
  | Info_Block u32 u32 u32
  | Info_Other u16 bytes
  | Unknown u32 bytes
  | Failure u32 bytes

fun type_of :: "message \<Rightarrow> u32" where
  "type_of Ack = NBD_REP_ACK"
| "type_of (Unknown t _) = t"
| "type_of (Failure t _) = t"
| "type_of _ = NBD_REP_INFO"

fun payload :: "message \<Rightarrow> bytes" where
  "payload Ack = []"
| "payload (Info_Export sz fl) = be_bytes 2 NBD_INFO_EXPORT @ be_bytes 8 sz @ be_bytes 2 fl"
| "payload (Info_Block a b c) = be_bytes 2 NBD_INFO_BLOCK_SIZE @ be_bytes 4 a @ be_bytes 4 b @ be_bytes 4 c"
| "payload (Info_Other t d) = be_bytes 2 t @ d"
| "payload (Unknown _ d) = d"
| "payload (Failure _ d) = d"

definition reply_header :: "u32 \<Rightarrow> message \<Rightarrow> bytes" where
  "reply_header opt m =
     be_bytes 8 REPLY_MAGIC @ be_bytes 4 opt @ be_bytes 4 (type_of m) @ be_bytes 4 (of_nat (length (payload m)) :: u32)"

definition encode :: "u32 \<Rightarrow> message \<Rightarrow> bytes" where
  "encode opt m = reply_header opt m @ payload m"

text \<open>The constructors are used for what they name, and the data fits one receive call.\<close>

definition proper :: "message \<Rightarrow> bool" where
  "proper m \<longleftrightarrow> length (payload m) < 2147483648 \<and>
     (case m of
        Info_Other t _ \<Rightarrow> t \<noteq> NBD_INFO_EXPORT \<and> t \<noteq> NBD_INFO_BLOCK_SIZE
      | Unknown t _ \<Rightarrow> t AND NBD_REP_FLAG_ERROR = 0 \<and> t \<noteq> NBD_REP_ACK \<and> t \<noteq> NBD_REP_INFO
      | Failure t _ \<Rightarrow> t AND NBD_REP_FLAG_ERROR \<noteq> 0 \<and> t \<noteq> NBD_REP_ERR_UNSUP
      | _ \<Rightarrow> True)"

section \<open>What the protocol prescribes\<close>

fun learn :: "message \<Rightarrow> export \<Rightarrow> export" where
  "learn (Info_Export sz fl) X = X\<lparr>ExSize := sz, ExFlags := fl, SeenExport := True\<rparr>"
| "learn (Info_Block a b c) X =
     X\<lparr>BlockInfo := map_option (\<lambda>_. \<lparr>Minimum = a, Preferred = b, Maximum = c, Received = True\<rparr>) (BlockInfo X)\<rparr>"
| "learn _ X = X"

text \<open>The replies are read up to the one that ends the exchange.\<close>

fun agree :: "message list \<Rightarrow> export \<Rightarrow> ((u32 + export) \<times> message list) option" where
  "agree [] X = None"
| "agree (m # ms) X =
     (case m of
        Ack \<Rightarrow> Some (if SeenExport X then Inr X else Inl ERROR_BAD_FORMAT, ms)
      | Failure t _ \<Rightarrow>
          Some (Inl (if t = NBD_REP_ERR_BLOCK_SIZE_REQD then ERROR_NOT_SUPPORTED else ERROR_ACCESS_DENIED), ms)
      | _ \<Rightarrow> agree ms (learn m X))"

text \<open>What the client says: its flags and one request for the export and its block sizes.\<close>

definition client_flags :: "u32 \<Rightarrow> u16 \<Rightarrow> u32" where
  "client_flags C G = (C OR (if G AND NBD_FLAG_NO_ZEROES \<noteq> 0 then ucast NBD_FLAG_NO_ZEROES else 0)) AND ucast G"

definition go_request :: "bytes \<Rightarrow> bytes" where
  "go_request nm =
     NBD_HANDSHAKE_REQ NBD_OPT_GO (10 + length nm) @ be_bytes 4 (of_nat (length nm) :: u32) @ nm @
     be_bytes 2 (2 :: u16) @ be_bytes 2 NBD_INFO_EXPORT @ be_bytes 2 NBD_INFO_BLOCK_SIZE"

definition greeting :: "u16 \<Rightarrow> bytes" where
  "greeting G = INIT_PASSWD @ be_bytes 8 OPTION_MAGIC @ be_bytes 2 G"

section \<open>Running over a known stream\<close>

definition runs :: "'a net \<Rightarrow> sock \<Rightarrow> u32 + 'a \<Rightarrow> stream \<Rightarrow> bool" where
  "runs m s r v \<longleftrightarrow> (\<exists>s'. m s = Some (r, s') \<and> calm s' \<and> view s' = v)"

lemma runs_after:
  assumes "runs m s (Inr a) v" "\<And>s'. calm s' \<Longrightarrow> view s' = v \<Longrightarrow> runs (f a) s' r w"
  shows "runs (after m f) s r w"
  using assms by (auto simp: runs_def after_def)

lemma runs_ret: "calm s \<Longrightarrow> v = view s \<Longrightarrow> runs (ret a) s (Inr a) v"
  by (simp add: runs_def ret_def)

lemma runs_check: "calm s \<Longrightarrow> v = view s \<Longrightarrow> runs (check 0) s (Inr ()) v"
  by (simp add: check_def runs_ret)

lemma runs_send: "calm s \<Longrightarrow> length bs < 2147483648 \<Longrightarrow> runs (SendExact bs) s (Inr ()) (stream_send bs (view s))"
  using SendExact_calm by (auto simp: runs_def)

lemma runs_recv:
  assumes "calm s" "RxBytes s = bs @ rest" "length bs = n" "n < 2147483648"
  shows "runs (RecvExact n) s (Inr bs) ((view s)\<lparr>In := rest\<rparr>)"
proof -
  have "outcome (RecvExact n s) = Some (Inr bs, (view s)\<lparr>In := rest\<rparr>)"
    using receive_is_stream_transfer [of n s] assms by (simp add: calm_def stream_recv_def)
  moreover have "stable (RecvExact n)" using assms by (intro stable_intros) simp
  ultimately show ?thesis using stableD(2) [OF _ assms(1,1) refl]
    by (fastforce simp: runs_def outcome_def)
qed

lemma be_fields [simp]:
  "be_word (be_bytes 8 (w :: u64)) = w" "be_word (be_bytes 4 (x :: u32)) = x" "be_word (be_bytes 2 (y :: u16)) = y"
  by (simp_all add: be_roundtrip)

lemma unat_of_small: "n < 4294967296 \<Longrightarrow> unat (of_nat n :: u32) = n"
  by (simp add: unsigned_of_nat take_bit_nat_eq_self)

lemma reply_header_fields:
  fixes opt :: u32 and m :: message
  defines "h \<equiv> reply_header opt m"
  shows "length h = 20" "be_word (take 8 h) = REPLY_MAGIC" "be_word (take 4 (drop 8 h)) = opt"
    "be_word (take 4 (drop 12 h)) = type_of m"
    "be_word (take 4 (drop 16 h)) = (of_nat (length (payload m)) :: u32)"
    "be_word (drop 16 h) = (of_nat (length (payload m)) :: u32)"
  by (simp_all add: h_def reply_header_def)

lemma runs_grant: "calm s \<Longrightarrow> Grants s n \<Longrightarrow> v = view s \<Longrightarrow> runs (grant n) s (Inr ()) v"
  by (simp add: runs_def grant_net)

lemma Grants_view: "view s' = v \<Longrightarrow> Grants s' = Memory v"
  and RxBytes_view: "view s' = v \<Longrightarrow> RxBytes s' = In v"
  and TxBytes_view: "view s' = v \<Longrightarrow> TxBytes s' = Out v"
  by auto

lemmas of_view = Grants_view RxBytes_view TxBytes_view

lemma runs_handshake_body:
  assumes s: "calm s" "RxBytes s = payload m @ rest" "\<forall>n. Grants s n"
    and m: "length (payload m) < 2147483648"
  shows "runs (handshake_body RecvExact (reply_header opt m)) s
           (Inr \<lparr>HsOption = opt, ReplyType = type_of m, HsData = payload m\<rparr>) ((view s)\<lparr>In := rest\<rparr>)"
proof (cases "payload m = []")
  case True
  then have "view s = (view s)\<lparr>In := rest\<rparr>" using s(2) by (simp add: view_def)
  then show ?thesis using s(1) True
    by (auto simp: handshake_body_def Let_def reply_header_fields intro: runs_ret)
next
  case False
  let ?n = "of_nat (length (payload m)) :: u32"
  have n: "unat ?n = length (payload m)" using m by (simp add: unat_of_small)
  then have pos: "?n > 0" using False by (metis length_0_conv unat_0 word_gt_0)
  have "runs (after (grant (20 + unat ?n)) (\<lambda>_. after (RecvExact (unat ?n)) (\<lambda>d.
          ret \<lparr>HsOption = opt, ReplyType = type_of m, HsData = d\<rparr>))) s
        (Inr \<lparr>HsOption = opt, ReplyType = type_of m, HsData = payload m\<rparr>) ((view s)\<lparr>In := rest\<rparr>)"
  proof (rule runs_after [OF runs_grant [OF s(1) spec [OF s(3)] refl]])
    fix s1 assume s1: "calm s1" "view s1 = view s"
    have "runs (RecvExact (unat ?n)) s1 (Inr (payload m)) ((view s)\<lparr>In := rest\<rparr>)"
      using runs_recv [OF s1(1), of "payload m" rest "unat ?n"] n m s(2) of_view [OF s1(2)] s1(2) by simp
    then show "runs (after (RecvExact (unat ?n)) (\<lambda>d. ret \<lparr>HsOption = opt, ReplyType = type_of m, HsData = d\<rparr>)) s1
        (Inr \<lparr>HsOption = opt, ReplyType = type_of m, HsData = payload m\<rparr>) ((view s)\<lparr>In := rest\<rparr>)"
      by (rule runs_after) (simp add: runs_ret)
  qed
  then show ?thesis using pos by (simp add: handshake_body_def Let_def reply_header_fields)
qed

lemma runs_reply:
  assumes s: "calm s" "RxBytes s = encode opt m @ rest" "\<forall>n. Grants s n"
    and m: "length (payload m) < 2147483648"
  shows "runs NbdReadHandshakeReply s
           (Inr \<lparr>HsOption = opt, ReplyType = type_of m, HsData = payload m\<rparr>) ((view s)\<lparr>In := rest\<rparr>)"
  unfolding NbdReadHandshakeReply_def NbdReadHandshakeReplyWithRecv_def
proof (rule runs_after [OF runs_grant [OF s(1) spec [OF s(3)] refl]])
  fix s1 assume s1: "calm s1" "view s1 = view s"
  have "runs (RecvExact 20) s1 (Inr (reply_header opt m)) ((view s)\<lparr>In := payload m @ rest\<rparr>)"
    using runs_recv [OF s1(1), of "reply_header opt m" "payload m @ rest" 20] s(2) of_view [OF s1(2)] s1(2)
    by (simp add: encode_def reply_header_fields)
  then show "runs (after (RecvExact 20) (handshake_body RecvExact)) s1
      (Inr \<lparr>HsOption = opt, ReplyType = type_of m, HsData = payload m\<rparr>) ((view s)\<lparr>In := rest\<rparr>)"
  proof (rule runs_after)
    fix s2 assume s2: "calm s2" "view s2 = (view s)\<lparr>In := payload m @ rest\<rparr>"
    show "runs (handshake_body RecvExact (reply_header opt m)) s2
      (Inr \<lparr>HsOption = opt, ReplyType = type_of m, HsData = payload m\<rparr>) ((view s)\<lparr>In := rest\<rparr>)"
      using runs_handshake_body [OF s2(1), of m rest opt] s2(2) of_view [OF s2(2)] s(3) m by simp
  qed
qed

lemma take_reply_learns:
  assumes "proper m" "\<forall>t d. m \<noteq> Failure t d"
  shows "take_reply \<lparr>HsOption = opt, ReplyType = type_of m, HsData = payload m\<rparr> X =
    (if m = Ack \<and> \<not> SeenExport X then (ERROR_BAD_FORMAT, X) else (0, learn m X))"
    "type_of m AND NBD_REP_FLAG_ERROR = 0" "type_of m = NBD_REP_ACK \<longleftrightarrow> m = Ack"
  using assms
  by (cases m; simp add: proper_def take_reply_def NbdParseOptGoReply_def NbdParseInfoBlockSize_def
        NbdParseSizes_def split: option.split)+

lemma agree_step:
  assumes "\<forall>t d. m \<noteq> Failure t d"
  shows "agree (m # ms) X =
    (if m = Ack then Some (if SeenExport X then Inr X else Inl ERROR_BAD_FORMAT, ms) else agree ms (learn m X))"
  using assms by (cases m) simp_all

lemma NegotiateLoop_agrees:
  "calm s \<Longrightarrow> RxBytes s = concat (map (encode opt) ms) @ rest \<Longrightarrow> \<forall>n. Grants s n \<Longrightarrow>
   \<forall>m \<in> set ms. proper m \<Longrightarrow> agree ms X = Some (r, ms') \<Longrightarrow>
   runs (NegotiateLoop nm G X) s r ((view s)\<lparr>In := concat (map (encode opt) ms') @ rest\<rparr>)"
proof (induction ms arbitrary: X s)
  case (Cons m ms)
  let ?R = "\<lparr>HsOption = opt, ReplyType = type_of m, HsData = payload m\<rparr>"
  let ?rest = "concat (map (encode opt) ms) @ rest"
  have m: "proper m" "length (payload m) < 2147483648" using Cons.prems(4) by (auto simp: proper_def)
  obtain s1 where s1: "NbdReadHandshakeReply s = Some (Inr ?R, s1)" "calm s1" "view s1 = (view s)\<lparr>In := ?rest\<rparr>"
    using runs_reply [OF Cons.prems(1) _ Cons.prems(3) m(2), of opt ?rest] Cons.prems(2)
    by (auto simp: runs_def)
  note step = NegotiateLoop_step [OF s1(1), of nm G X]
  show ?case
  proof (cases "\<exists>t d. m = Failure t d")
    case True
    then obtain t d where "m = Failure t d" by blast
    then show ?thesis using m(1) Cons.prems(5) s1(2,3)
      by (auto simp: runs_def step loop_body_def error_reply_def failed_def proper_def)
  next
    case False
    have nf: "\<forall>t d. m \<noteq> Failure t d" using False by blast
    note learns = take_reply_learns [OF m(1) nf]
    show ?thesis
    proof (cases "m = Ack")
      case True
      then show ?thesis using Cons.prems(5) learns s1(2,3)
        by (auto simp: runs_def step loop_body_def)
    next
      case notack: False
      have "NegotiateLoop nm G X s = NegotiateLoop nm G (learn m X) s1"
        using notack learns False by (simp add: step loop_body_def)
      moreover have "agree ms (learn m X) = Some (r, ms')"
        using Cons.prems(5) notack False agree_step [of m ms X] by auto
      moreover have "runs (NegotiateLoop nm G (learn m X)) s1 r ((view s1)\<lparr>In := concat (map (encode opt) ms') @ rest\<rparr>)"
        if "agree ms (learn m X) = Some (r, ms')"
        using Cons.IH [OF s1(2) _ _ _ that] of_view [OF s1(3)] Cons.prems(3,4) by simp
      ultimately show ?thesis using s1(3) by (simp add: runs_def)
    qed
  qed
qed simp

text \<open>A sequence of sends is the send of the concatenation.\<close>

fun sends :: "bytes list \<Rightarrow> unit net" where
  "sends [] = ret ()"
| "sends (b # bs) = after (SendExact b) (\<lambda>_. sends bs)"

lemma after_ret [simp]: "after m ret = m"
  by (rule ext) (auto simp: after_def ret_def split: option.split sum.split)

lemma check_after [simp]: "after (check 0) f = f ()"
  by (rule ext) (simp add: net_defs)

lemma runs_sends:
  "calm s \<Longrightarrow> \<forall>b \<in> set bs. length b < 2147483648 \<Longrightarrow>
     runs (sends bs) s (Inr ()) (stream_send (concat bs) (view s))"
proof (induction bs arbitrary: s)
  case (Cons b bs)
  have "runs (SendExact b) s (Inr ()) (stream_send b (view s))" using Cons.prems by (simp add: runs_send)
  then show ?case unfolding sends.simps
  proof (rule runs_after)
    fix s' assume "calm s'" "view s' = stream_send b (view s)"
    then show "runs (sends bs) s' (Inr ()) (stream_send (concat (b # bs)) (view s))"
      using Cons.IH [of s'] Cons.prems(2) by (simp add: stream_send_def)
  qed
qed (simp add: runs_ret stream_send_def)

lemma runs_NbdSendInfoRequest:
  assumes "calm s" "length nm < 2147483648"
  shows "runs (NbdSendInfoRequest NBD_OPT_GO 2
           (Some (be_bytes 2 NBD_INFO_EXPORT @ be_bytes 2 NBD_INFO_BLOCK_SIZE)) nm) s
           (Inr ()) (stream_send (go_request nm) (view s))"
proof -
  let ?bs = "[NBD_HANDSHAKE_REQ NBD_OPT_GO (10 + length nm), be_bytes 4 (of_nat (length nm) :: u32), nm,
    be_bytes 2 (2 :: u16), be_bytes 2 NBD_INFO_EXPORT @ be_bytes 2 NBD_INFO_BLOCK_SIZE]"
  have n: "4 + length nm + 2 + unat (2 :: u16) * 2 = 10 + length nm" by simp
  have "NbdSendInfoRequest NBD_OPT_GO 2
          (Some (be_bytes 2 NBD_INFO_EXPORT @ be_bytes 2 NBD_INFO_BLOCK_SIZE)) nm = sends ?bs"
    unfolding NbdSendInfoRequest_def Let_def n NbdSendHandshakeRequest_def by simp
  moreover have "concat ?bs = go_request nm" by (simp add: go_request_def)
  moreover have "length (NBD_HANDSHAKE_REQ NBD_OPT_GO (10 + length nm)) = 16"
    by (simp add: NBD_HANDSHAKE_REQ_def)
  ultimately show ?thesis using runs_sends [OF assms(1), of ?bs] assms(2) by simp
qed

text \<open>Receiving a known prefix of the stream, then going on.\<close>

lemma runs_recv_after:
  assumes "calm s" "In (view s) = bs @ rest" "length bs = n" "n < 2147483648"
    "\<And>s'. calm s' \<Longrightarrow> view s' = (view s)\<lparr>In := rest\<rparr> \<Longrightarrow> runs (f bs) s' r w"
  shows "runs (after (RecvExact n) f) s r w"
  using assms by (intro runs_after [OF runs_recv]) auto

lemma client_flags_code:
  "NbdMaskClientFlags (if G AND NBD_FLAG_NO_ZEROES \<noteq> 0 then C OR ucast NBD_FLAG_NO_ZEROES else C) G = client_flags C G"
  by (simp add: NbdMaskClientFlags_def client_flags_def)

lemma fixed_newstyle:
  assumes "bit C 0" "bit G 0" shows "NbdRequireFixedNewstyle (client_flags C G) = 0"
proof -
  have "bit (client_flags C G AND 1) 0"
    using assms by (simp add: client_flags_def bit_and_iff bit_or_iff bit_ucast_iff)
  then have "client_flags C G AND 1 \<noteq> 0" by (metis bit_0_eq bot_apply bot_bool_def)
  then show ?thesis by (simp add: NbdRequireFixedNewstyle_def)
qed

lemma runs_negotiate_go:
  assumes s: "calm s" "RxBytes s = concat (map (encode opt) ms) @ rest" "\<forall>n. Grants s n"
    and ms: "\<forall>m \<in> set ms. proper m" "agree ms (X\<lparr>SeenExport := False\<rparr>) = Some (r, ms')"
    and C: "bit C 0" "bit G 0" "length nm < 2147483648"
  shows "runs (negotiate_go nm C G X) s r
    ((view s)\<lparr>Out := TxBytes s @ be_bytes 4 (client_flags C G) @ go_request nm,
              In := concat (map (encode opt) ms') @ rest\<rparr>)"
proof -
  let ?go = "NbdSendInfoRequest NBD_OPT_GO 2 (Some (be_bytes 2 NBD_INFO_EXPORT @ be_bytes 2 NBD_INFO_BLOCK_SIZE)) nm"
  let ?w = "(view s)\<lparr>Out := TxBytes s @ be_bytes 4 (client_flags C G) @ go_request nm,
              In := concat (map (encode opt) ms') @ rest\<rparr>"
  have loop: "runs (NegotiateLoop nm G (X\<lparr>SeenExport := False\<rparr>)) s3 r ?w"
    if "calm s3" "view s3 = stream_send (go_request nm) (stream_send (be_bytes 4 (client_flags C G)) (view s))" for s3
    using NegotiateLoop_agrees [OF that(1) _ _ ms, of opt rest nm G] of_view [OF that(2)] that(2) s
    by (simp add: stream_send_def)
  have "runs (after (SendExact (be_bytes 4 (client_flags C G))) (\<lambda>_. after ?go (\<lambda>_.
      NegotiateLoop nm G (X\<lparr>SeenExport := False\<rparr>)))) s r ?w"
  proof (rule runs_after [OF runs_send [OF s(1)]])
    fix s1 assume s1: "calm s1" "view s1 = stream_send (be_bytes 4 (client_flags C G)) (view s)"
    show "runs (after ?go (\<lambda>_. NegotiateLoop nm G (X\<lparr>SeenExport := False\<rparr>))) s1 r ?w"
      by (rule runs_after [OF runs_NbdSendInfoRequest [OF s1(1) C(3)]]) (simp add: loop s1(2))
  qed simp
  then show ?thesis
    unfolding negotiate_go_def Let_def client_flags_code fixed_newstyle [OF C(1,2)]
    by simp
qed

lemma NbdNegotiate_runs:
  assumes "SockOpen s" "\<forall>r \<in> set (TxResults s). \<exists>k. r = Accepted k" "\<forall>n. Grants s n"
    and "RxBytes s = greeting G @ concat (map (encode opt) ms) @ rest" "\<forall>m \<in> set ms. proper m"
    and "bit C 0" "bit G 0" "length Name < 2147483648"
    and "agree ms (X\<lparr>SeenExport := False\<rparr>) = Some (r, ms')"
  shows "runs (NbdNegotiate Name C X) s r
    ((view s)\<lparr>Out := TxBytes s @ be_bytes 4 (client_flags C G) @ go_request Name,
              In := concat (map (encode opt) ms') @ rest\<rparr>)"
proof -
  let ?ms = "concat (map (encode opt) ms) @ rest"
  let ?w = "(view s)\<lparr>Out := TxBytes s @ be_bytes 4 (client_flags C G) @ go_request Name,
              In := concat (map (encode opt) ms') @ rest\<rparr>"
  have s: "calm s" using assms(1,2) by (simp add: calm_def)
  have go: "runs (negotiate_go Name C G X) s3 r ?w" if "calm s3" "view s3 = (view s)\<lparr>In := ?ms\<rparr>" for s3
    using runs_negotiate_go [OF that(1) _ _ assms(5,9) assms(6-8)] of_view [OF that(2)] that(2) assms(3) by simp
  have 2: "runs (after (RecvExact 2) (\<lambda>g. negotiate_go Name C (be_word g) X)) s2 r ?w"
    if "calm s2" "view s2 = (view s)\<lparr>In := be_bytes 2 G @ ?ms\<rparr>" for s2
    by (rule runs_recv_after [OF that(1), of "be_bytes 2 G" ?ms]) (simp_all add: that go)
  have 1: "runs (after (RecvExact 8) (\<lambda>Magic. after (check (fst (NbdValidateOptionMagic (be_word Magic)))) (\<lambda>_.
      after (RecvExact 2) (\<lambda>g. negotiate_go Name C (be_word g) X)))) s1 r ?w"
    if "calm s1" "view s1 = (view s)\<lparr>In := be_bytes 8 OPTION_MAGIC @ be_bytes 2 G @ ?ms\<rparr>" for s1
    by (rule runs_recv_after [OF that(1), of "be_bytes 8 OPTION_MAGIC" "be_bytes 2 G @ ?ms"])
       (simp_all add: that NbdValidateOptionMagic_def 2)
  show ?thesis unfolding NbdNegotiate_def
    by (rule runs_recv_after [OF s, of INIT_PASSWD "be_bytes 8 OPTION_MAGIC @ be_bytes 2 G @ ?ms"])
       (simp_all add: assms(4) greeting_def INIT_PASSWD_def NbdValidateInitialMagic_def 1)
qed

text \<open>
  C14: against a server that sends its greeting and the encoding of a list of replies, cut
  in any way, the negotiation refines the message exchange: it ends with the result the protocol
  prescribes for the list, leaves the following replies unread, and has sent its masked flags and
  one request for the export and its block sizes.
\<close>

theorem negotiation_refines_exchange:
  assumes "SockOpen s" "\<forall>r \<in> set (TxResults s). \<exists>k. r = Accepted k" "\<forall>n. Grants s n"
    and "RxBytes s = greeting G @ concat (map (encode opt) ms) @ rest" "\<forall>m \<in> set ms. proper m"
    and "bit C 0" "bit G 0" "length Name < 2147483648"
    and "agree ms (X\<lparr>SeenExport := False\<rparr>) = Some (r, ms')"
  shows "outcome (NbdNegotiate Name C X s) =
    Some (r, (view s)\<lparr>Out := TxBytes s @ be_bytes 4 (client_flags C G) @ go_request Name,
              In := concat (map (encode opt) ms') @ rest\<rparr>)"
  using NbdNegotiate_runs [OF assms] by (auto simp: runs_def outcome_def)

section \<open>Where the size comes from\<close>

lemma send_rx: "send bs s = Some (r, s') \<Longrightarrow> RxBytes s' = RxBytes s"
  by (auto simp: send_def Let_def split: if_splits send_result.splits list.splits)

lemma SendLoop_rx: "SendLoop bs s = Some (r, s') \<Longrightarrow> RxBytes s' = RxBytes s"
proof (induction bs s arbitrary: r s' rule: SendLoop.induct)
  case (1 bs s)
  show ?case
  proof (cases "bs = []")
    case False
    with "1.prems" show ?thesis using "1.IH" [OF False]
      by (subst (asm) SendLoop.simps)
         (auto simp: net_defs split: option.splits send_result.splits if_splits dest!: send_rx)
  qed (use "1.prems" in \<open>simp add: SendLoop.simps\<close>)
qed

definition quiet :: "'a net \<Rightarrow> bool" where
  "quiet m \<longleftrightarrow> (\<forall>s r s'. m s = Some (r, s') \<longrightarrow> RxBytes s' = RxBytes s)"

lemma quiet_D: "quiet m \<Longrightarrow> m s = Some (r, s') \<Longrightarrow> RxBytes s' = RxBytes s"
  unfolding quiet_def by blast

lemma quiet_after: "quiet m \<Longrightarrow> (\<And>a. quiet (f a)) \<Longrightarrow> quiet (after m f)"
  unfolding quiet_def after_def by (auto split: option.splits sum.splits)

lemma quiet_send: "quiet (SendExact bs)"
  unfolding quiet_def SendExact_def by (auto split: if_splits dest: SendLoop_rx)

lemma quiet_ret: "quiet (ret a)"
  by (simp add: quiet_def ret_def)

lemma quiet_requests:
  "quiet (NbdSendHandshakeRequest opt n d)" "quiet (NbdSendInfoRequest opt k q nm)"
  unfolding NbdSendInfoRequest_def NbdSendHandshakeRequest_def Let_def
  by (auto intro!: quiet_after quiet_send quiet_ret split: option.split)

lemma afterE:
  assumes "after m f s = Some (Inr b, s')"
  obtains a s1 where "m s = Some (Inr a, s1)" "f a s1 = Some (Inr b, s')"
  using assms by (auto simp: after_def split: option.splits sum.splits)

text \<open>The size and the flags as ten consecutive bytes of a piece of the stream.\<close>

definition announced :: "export \<Rightarrow> bytes \<Rightarrow> bool" where
  "announced X c \<longleftrightarrow> (\<exists>a b. c = a @ be_bytes 8 (ExSize X) @ be_bytes 2 (ExFlags X) @ b)"

lemma announced_extend: "announced X c \<Longrightarrow> announced X (a @ c @ b)"
  unfolding announced_def by (metis append.assoc)

lemma announced_cong: "ExSize X = ExSize Y \<Longrightarrow> ExFlags X = ExFlags Y \<Longrightarrow> announced X c = announced Y c"
  by (simp add: announced_def)

lemma parsed_sizes:
  assumes "length d = 10"
  shows "be_bytes 8 (fst (NbdParseSizes d)) @ be_bytes 2 (snd (NbdParseSizes d)) = d"
proof -
  have "be_bytes 8 (be_word (take 8 d) :: u64) = take 8 d" "be_bytes 2 (be_word (drop 8 d) :: u16) = drop 8 d"
    using assms by (simp_all add: be_bytes_be_word)
  then show ?thesis using assms by (simp add: NbdParseSizes_def)
qed

lemma take_reply_announced:
  assumes "take_reply R X = (0, X')"
  shows "(ExSize X' = ExSize X \<and> ExFlags X' = ExFlags X \<and> SeenExport X' = SeenExport X) \<or> announced X' (HsData R)"
proof (cases "length (HsData R) = 12")
  case True
  then have "announced X' (HsData R)"
    if "ExSize X' = fst (NbdParseSizes (drop 2 (HsData R)))" "ExFlags X' = snd (NbdParseSizes (drop 2 (HsData R)))"
    unfolding announced_def that using parsed_sizes [of "drop 2 (HsData R)"]
    by (intro exI [of _ "take 2 (HsData R)"] exI [of _ "[]"]) (simp flip: append.assoc)
  then show ?thesis using assms
    by (auto simp: take_reply_def NbdParseOptGoReply_def Let_def split: if_splits option.splits prod.splits)
next
  case False
  then show ?thesis using assms
    by (auto simp: take_reply_def NbdParseOptGoReply_def Let_def split: if_splits option.splits prod.splits)
qed

lemma legacy_announced:
  assumes "NbdSendOptExportName nm G X s = Some (Inr X', s')"
  shows "\<exists>c. RxBytes s = c @ RxBytes s' \<and> announced X' c"
proof -
  from assms obtain s1 where h: "NbdSendHandshakeRequest NBD_OPT_EXPORT_NAME (length nm) (Some nm) s = Some (Inr (), s1)"
    and 1: "after (RecvExact 10) (\<lambda>Buf.
       (let (Sz, Fl) = NbdParseSizes Buf; X = X\<lparr>ExSize := Sz, ExFlags := Fl\<rparr>
        in if G AND NBD_FLAG_NO_ZEROES = 0 then after (RecvExact 124) (\<lambda>_. ret X) else ret X)) s1 = Some (Inr X', s')"
    unfolding NbdSendOptExportName_def by (rule afterE) auto
  from 1 obtain d s2 where d: "RecvExact 10 s1 = Some (Inr d, s2)"
    and 2: "(let (Sz, Fl) = NbdParseSizes d; X = X\<lparr>ExSize := Sz, ExFlags := Fl\<rparr>
        in if G AND NBD_FLAG_NO_ZEROES = 0 then after (RecvExact 124) (\<lambda>_. ret X) else ret X) s2 = Some (Inr X', s')"
    by (rule afterE)
  from 2 have X': "ExSize X' = fst (NbdParseSizes d)" "ExFlags X' = snd (NbdParseSizes d)"
    and z: "\<exists>z. RxBytes s2 = z @ RxBytes s'"
    by (auto simp: Let_def ret_def split: prod.splits if_splits elim!: afterE dest!: nr.received)
  then obtain z where z: "RxBytes s2 = z @ RxBytes s'" by blast
  note d = nr.received [OF d]
  then have "announced X' (d @ z)"
    unfolding announced_def X' using parsed_sizes [of d] by (intro exI [of _ "[]"] exI [of _ z]) (simp flip: append.assoc)
  moreover have "RxBytes s = (d @ z) @ RxBytes s'" using quiet_D [OF quiet_requests(1) h] d z by simp
  ultimately show ?thesis by blast
qed

lemma NegotiateLoop_announced:
  "NegotiateLoop nm G X s = Some (Inr X', s') \<Longrightarrow> (SeenExport X \<longrightarrow> announced X c0) \<Longrightarrow>
     \<exists>c. RxBytes s = c @ RxBytes s' \<and> announced X' (c0 @ c)"
proof (induction nm G X s arbitrary: c0 rule: NegotiateLoop.induct)
  case (1 nm G X s)
  from "1.prems"(1) obtain R s1 where R: "NbdReadHandshakeReply s = Some (Inr R, s1)"
    by (subst (asm) NegotiateLoop.simps) (auto split: option.splits sum.splits)
  obtain h where h: "RxBytes s = h @ HsData R @ RxBytes s1"
    using nr.reply_consumes [OF R [unfolded NbdReadHandshakeReply_def]] by blast
  have b: "loop_body nm G X R s1 = Some (Inr X', s')" using "1.prems"(1) NegotiateLoop_step [OF R] by simp
  show ?case
  proof (cases "ReplyType R AND NBD_REP_FLAG_ERROR = 0")
    case False
    then have "error_reply (ReplyType R) nm G X s1 = Some (Inr X', s')" using b by (simp add: loop_body_def)
    then have "NbdSendOptExportName nm G X s1 = Some (Inr X', s')"
      by (auto simp: error_reply_def failed_def split: if_splits)
    from legacy_announced [OF this] obtain c where "RxBytes s1 = c @ RxBytes s'" "announced X' c" by blast
    then show ?thesis using h announced_extend [of X' c "c0 @ h @ HsData R" "[]"]
      by (intro exI [of _ "h @ HsData R @ c"]) simp
  next
    case True
    define X1 where "X1 = snd (take_reply R X)"
    from True b have t: "take_reply R X = (0, X1)"
      by (auto simp: loop_body_def X1_def prod_eq_iff split: if_splits)
    have X1: "SeenExport X1 \<longrightarrow> announced X1 (c0 @ h @ HsData R)"
    proof
      assume "SeenExport X1"
      with take_reply_announced [OF t] "1.prems"(2) consider "announced X1 c0" | "announced X1 (HsData R)"
        using announced_cong [of X1 X c0] by blast
      then show "announced X1 (c0 @ h @ HsData R)"
        using announced_extend [of X1 c0 "[]" "h @ HsData R"] announced_extend [of X1 "HsData R" "c0 @ h" "[]"]
        by cases simp_all
    qed
    show ?thesis
    proof (cases "ReplyType R = NBD_REP_ACK")
      case ack: True
      then have "X' = X1" "s' = s1" "SeenExport X" "SeenExport X1"
        using b t True by (auto simp: loop_body_def take_reply_def NbdParseOptGoReply_def NbdParseInfoBlockSize_def split: if_splits option.splits)
      then show ?thesis using X1 h by (intro exI [of _ "h @ HsData R"]) simp
    next
      case False
      then have "NegotiateLoop nm G X1 s1 = Some (Inr X', s')" using b t True by (simp add: loop_body_def)
      then obtain c where "RxBytes s1 = c @ RxBytes s'" "announced X' ((c0 @ h @ HsData R) @ c)"
        using "1.IH" [OF R refl refl, of "c0 @ h @ HsData R"] t True False X1 by auto
      then show ?thesis using h by (intro exI [of _ "h @ HsData R @ c"]) simp
    qed
  qed
qed

text \<open>
  C15: whatever the server sends, when the negotiation succeeds the size and the flags it
  reports are ten consecutive bytes of what the server sent during the negotiation, in the
  option reply or in the reply to the legacy request; they are never left over or made up.
\<close>

theorem negotiated_size_was_received:
  assumes "NbdNegotiate Name ClientFlags X s = Some (Inr X', s')"
  shows "\<exists>a b. RxBytes s = a @ be_bytes 8 (ExSize X') @ be_bytes 2 (ExFlags X') @ b @ RxBytes s'"
proof -
  from assms obtain x y z s1 G where p: "RxBytes s = x @ y @ z @ RxBytes s1"
    and g: "negotiate_go Name ClientFlags G X s1 = Some (Inr X', s')"
    unfolding NbdNegotiate_def by (auto elim!: afterE simp: check_def ret_def failed_def split: if_splits dest!: nr.received)
  from g obtain s2 where q: "RxBytes s2 = RxBytes s1"
    and l: "NegotiateLoop Name G (X\<lparr>SeenExport := False\<rparr>) s2 = Some (Inr X', s')"
    unfolding negotiate_go_def Let_def
    by (auto elim!: afterE simp: check_def ret_def failed_def split: if_splits
          dest!: quiet_D [OF quiet_send] quiet_D [OF quiet_requests(2)])
  from NegotiateLoop_announced [OF l, of "[]"] obtain c where c: "RxBytes s2 = c @ RxBytes s'" "announced X' c" by auto
  then obtain a b where "c = a @ be_bytes 8 (ExSize X') @ be_bytes 2 (ExFlags X') @ b"
    by (auto simp: announced_def)
  then show ?thesis using p q c(1) by (intro exI [of _ "x @ y @ z @ a"] exI [of _ b]) simp
qed

text \<open>A server that offers a 1 MiB export with block sizes, in packets of five bytes.\<close>

definition sample_server :: "nat list \<Rightarrow> sock" where
  "sample_server chunks =
     \<lparr>SockOpen = True,
      RxBytes = greeting 3 @ concat (map (encode 7) [Info_Export 0x100000 5, Info_Block 1 512 0x200000, Ack]) @ [],
      RxChunks = chunks, RxEnd = RxClosed, BadLength = 10014, TxBytes = [], TxResults = [Accepted 3],
      Grants = (\<lambda>_. True)\<rparr>"

definition no_export :: export where
  "no_export = \<lparr>ExSize = 0, ExFlags = 0, SeenExport = False,
     BlockInfo = Some \<lparr>Minimum = 0, Preferred = 0, Maximum = 0, Received = False\<rparr>\<rparr>"

definition sample_export :: export where
  "sample_export = \<lparr>ExSize = 0x100000, ExFlags = 5, SeenExport = True,
     BlockInfo = Some \<lparr>Minimum = 1, Preferred = 512, Maximum = 0x200000, Received = True\<rparr>\<rparr>"

lemma sample_agrees:
  "agree [Info_Export 0x100000 5, Info_Block 1 512 0x200000, Ack] (no_export\<lparr>SeenExport := False\<rparr>) =
     Some (Inr sample_export, [])"
  by (simp add: no_export_def sample_export_def)

theorem negotiation_refines_exchange_witness:
  "map_option fst (outcome (NbdNegotiate [0x78] 1 no_export (sample_server [5, 5, 5]))) = Some (Inr sample_export)"
  using negotiation_refines_exchange [of "sample_server [5, 5, 5]" 3 7
      "[Info_Export 0x100000 5, Info_Block 1 512 0x200000, Ack]" "[]" 1 "[0x78]" no_export, OF _ _ _ _ _ _ _ _ sample_agrees]
  by (simp add: sample_server_def proper_def)

lemma sample_negotiates:
  "\<exists>s'. NbdNegotiate [0x78] 1 no_export (sample_server chunks) = Some (Inr sample_export, s')"
  using NbdNegotiate_runs [of "sample_server chunks" 3 7
      "[Info_Export 0x100000 5, Info_Block 1 512 0x200000, Ack]" "[]" 1 "[0x78]" no_export, OF _ _ _ _ _ _ _ _ sample_agrees]
  by (auto simp: sample_server_def proper_def runs_def)

theorem negotiated_size_was_received_witness:
  "\<exists>a b (s' :: sock). RxBytes (sample_server []) = a @ be_bytes 8 (0x100000 :: u64) @ be_bytes 2 (5 :: u16) @ b @ RxBytes s'"
proof -
  obtain s' where "NbdNegotiate [0x78] 1 no_export (sample_server []) = Some (Inr sample_export, s')"
    using sample_negotiates by blast
  from negotiated_size_was_received [OF this] obtain a b
    where "RxBytes (sample_server []) = a @ be_bytes 8 (0x100000 :: u64) @ be_bytes 2 (5 :: u16) @ b @ RxBytes s'"
    by (auto simp: sample_export_def)
  then show ?thesis by blast
qed

section \<open>Requests and replies\<close>

text \<open>A server's reading of a request header.\<close>

definition decode_request :: "bytes \<Rightarrow> (u32 \<times> u64 \<times> u64 \<times> u32) option" where
  "decode_request b =
     (if length b = 28 \<and> be_word (take 4 b) = NBD_REQUEST_MAGIC
      then Some (be_word (take 4 (drop 4 b)), le_word (take 8 (drop 8 b)),
                 be_word (take 8 (drop 16 b)), be_word (drop 24 b))
      else None)"

lemma NbdEncodeRequest_length [simp]: "length (NbdEncodeRequest off len h t) = 28"
  by (simp add: NbdEncodeRequest_def)

lemma decode_encode: "decode_request (NbdEncodeRequest off len h t) = Some (t, h, off, len)"
  by (simp add: decode_request_def NbdEncodeRequest_def le_roundtrip)

text \<open>A server's reply header.\<close>

definition encode_reply :: "NBD_REPLY \<Rightarrow> bytes" where
  "encode_reply R = be_bytes 4 NBD_REPLY_MAGIC @ le_bytes 4 (NrError R) @ le_bytes 8 (NrHandle R)"

lemma runs_NbdReadReply:
  assumes "calm s" "RxBytes s = encode_reply R @ rest"
  shows "runs NbdReadReply s (Inr R) ((view s)\<lparr>In := rest\<rparr>)"
  unfolding NbdReadReply_def
proof (rule runs_recv_after [OF assms(1)])
  show "In (view s) = encode_reply R @ rest" using assms(2) by simp
  show "length (encode_reply R) = 16" by (simp add: encode_reply_def)
  fix s' assume s': "calm s'" "view s' = (view s)\<lparr>In := rest\<rparr>"
  have "be_word (take 4 (encode_reply R)) = NBD_REPLY_MAGIC"
    "\<lparr>NrError = le_word (take 4 (drop 4 (encode_reply R))), NrHandle = le_word (drop 8 (encode_reply R))\<rparr> = R"
    by (simp_all add: encode_reply_def le_roundtrip)
  then show "runs (if be_word (take 4 (encode_reply R)) \<noteq> NBD_REPLY_MAGIC then failed ERROR_BAD_FORMAT
      else ret \<lparr>NrError = le_word (take 4 (drop 4 (encode_reply R))), NrHandle = le_word (drop 8 (encode_reply R))\<rparr>) s'
      (Inr R) ((view s)\<lparr>In := rest\<rparr>)"
    using s' by (simp add: runs_ret)
qed simp

lemma runs_NbdRequest:
  assumes "calm s"
  shows "runs (NbdRequest off len h t) s (Inr ()) (stream_send (NbdEncodeRequest off len h t) (view s))"
proof -
  have "NbdRequest off len h t s = SendExact (NbdEncodeRequest off len h t) s"
    using assms by (simp add: NbdRequest_def calm_def)
  then show ?thesis using runs_send [OF assms, of "NbdEncodeRequest off len h t"] by (simp add: runs_def)
qed

lemma runs_NbdSendWrite:
  assumes "calm s" "unat len \<le> length d" "unat len < 2147483648"
  shows "runs (NbdSendWrite off len (Some d) h fl) s (Inr ())
    (stream_send (NbdEncodeRequest off len h (NBD_CMD_WRITE OR fl) @ take (unat len) d) (view s))"
proof -
  let ?h = "NbdEncodeRequest off len h (NBD_CMD_WRITE OR fl)"
  have "runs (sends [?h, take (unat len) d]) s (Inr ()) (stream_send (?h @ take (unat len) d) (view s))"
    using runs_sends [OF assms(1), of "[?h, take (unat len) d]"] assms(2,3) by simp
  moreover have "sends [?h, take (unat len) d] s = NbdSendWrite off len (Some d) h fl s" if "len \<noteq> 0"
    using assms(1) that by (simp add: NbdSendWrite_def calm_def)
  moreover have "runs (NbdSendWrite off 0 (Some d) h fl) s (Inr ()) (stream_send (NbdEncodeRequest off 0 h (NBD_CMD_WRITE OR fl)) (view s))"
    using runs_send [OF assms(1), of "NbdEncodeRequest off 0 h (NBD_CMD_WRITE OR fl)"] assms(1)
    by (simp add: NbdSendWrite_def calm_def runs_def ret_def)
  ultimately show ?thesis by (cases "len = 0") (auto simp: runs_def)
qed

end
