(* ===== verification/NbdServe.thy ===== *)
theory NbdServe
  imports NbdDaemon NbdSpec
begin

text \<open>
  The running daemon: dispatcher threads forward requests, the reply worker answers them, and the
  server replies in any order. The entry points of \<^verbatim>\<open>libwnbd/nbd_daemon.cpp\<close> have two
  critical sections each, the entry of the request and the frame on the socket; a step of the
  system is one of these sections of some thread, one reply of the server or one pass of the
  worker.
\<close>

section \<open>Operations\<close>

datatype nbd_op =
    OpRead u64 u64 u32
  | OpWrite u64 bytes u64 u32 bool
  | OpFlush u64 u64 u32
  | OpUnmap u64 bytes u32

fun op_handle :: "nbd_op \<Rightarrow> u64" where
  "op_handle (OpRead h _ _) = h"
| "op_handle (OpWrite h _ _ _ _) = h"
| "op_handle (OpFlush h _ _) = h"
| "op_handle (OpUnmap h _ _) = h"

fun op_info :: "u32 \<Rightarrow> nbd_op \<Rightarrow> PendingRequestInfo" where
  "op_info bs (OpRead h a n) = \<lparr>PrRequestHandle = h, PrRequestType = WnbdReqTypeRead, PrLength = n * bs\<rparr>"
| "op_info bs (OpWrite h b a n f) = \<lparr>PrRequestHandle = h, PrRequestType = WnbdReqTypeWrite, PrLength = n * bs\<rparr>"
| "op_info bs (OpFlush h a n) = \<lparr>PrRequestHandle = h, PrRequestType = WnbdReqTypeFlush, PrLength = n * bs\<rparr>"
| "op_info bs (OpUnmap h b n) =
     \<lparr>PrRequestHandle = h, PrRequestType = WnbdReqTypeUnmap, PrLength = UdBlockCount (first_descriptor b) * bs\<rparr>"

fun op_send :: "u32 \<Rightarrow> nbd_op \<Rightarrow> unit net" where
  "op_send bs (OpRead h a n) = NbdRequest (a * ucast bs) (n * bs) h NBD_CMD_READ"
| "op_send bs (OpWrite h b a n f) =
     NbdSendWrite (a * ucast bs) (n * bs) (Some b) h (if f then NBD_CMD_FLAG_FUA else 0)"
| "op_send bs (OpFlush h a n) = NbdRequest 0 0 h NBD_CMD_FLUSH"
| "op_send bs (OpUnmap h b n) =
     NbdRequest (UdBlockAddress (first_descriptor b) * ucast bs) (UdBlockCount (first_descriptor b) * bs) h NBD_CMD_TRIM"

text \<open>The frame of an operation: a header and, for a write, its data.\<close>

fun op_frame :: "u32 \<Rightarrow> nbd_op \<Rightarrow> bytes" where
  "op_frame bs (OpRead h a n) = NbdEncodeRequest (a * ucast bs) (n * bs) h NBD_CMD_READ"
| "op_frame bs (OpWrite h b a n f) =
     NbdEncodeRequest (a * ucast bs) (n * bs) h (NBD_CMD_WRITE OR (if f then NBD_CMD_FLAG_FUA else 0)) @
     take (unat (n * bs)) b"
| "op_frame bs (OpFlush h a n) = NbdEncodeRequest 0 0 h NBD_CMD_FLUSH"
| "op_frame bs (OpUnmap h b n) =
     NbdEncodeRequest (UdBlockAddress (first_descriptor b) * ucast bs) (UdBlockCount (first_descriptor b) * bs) h NBD_CMD_TRIM"

text \<open>The transfer limit of the adapter, and the data buffer of a write.\<close>

fun op_fits :: "u32 \<Rightarrow> nbd_op \<Rightarrow> bool" where
  "op_fits bs (OpRead h a n) \<longleftrightarrow> n * bs \<le> WNBD_DEFAULT_MAX_TRANSFER_LENGTH"
| "op_fits bs (OpWrite h b a n f) \<longleftrightarrow> n * bs \<le> WNBD_DEFAULT_MAX_TRANSFER_LENGTH \<and> unat (n * bs) \<le> length b"
| "op_fits bs _ \<longleftrightarrow> True"

lemma op_info_handle [simp]: "PrRequestHandle (op_info bs op) = op_handle op"
  by (cases op) simp_all

text \<open>The entry points are the two sections one after the other.\<close>

lemma entry_points:
  assumes "bs = BlockSize (WnbdProps (UContext u))"
  shows "Read drv ce h a n f u = transmit drv ce (op_send bs (OpRead h a n)) (pend_request (op_info bs (OpRead h a n)) u)"
    "Write drv ce h b a n f u = transmit drv ce (op_send bs (OpWrite h b a n f)) (pend_request (op_info bs (OpWrite h b a n f)) u)"
    "Flush drv ce h a n u = transmit drv ce (op_send bs (OpFlush h a n)) (pend_request (op_info bs (OpFlush h a n)) u)"
    "Unmap drv ce h b n u = transmit drv ce (op_send bs (OpUnmap h b n)) (pend_request (op_info bs (OpUnmap h b n)) u)"
  using assms by (simp_all add: Read_def Write_def Flush_def Unmap_def read_info_def Let_def)

lemma runs_op_send:
  assumes "calm s" "op_fits bs op"
  shows "runs (op_send bs op) s (Inr ()) (stream_send (op_frame bs op) (view s))"
proof (cases op)
  case (OpWrite h b a n f)
  then have "n * bs \<le> 2097152" and b: "unat (n * bs) \<le> length b" using assms(2) by auto
  then have "unat (n * bs) \<le> unat (2097152 :: u32)" by (simp add: word_le_nat_alt)
  then have "unat (n * bs) < 2147483648" by simp
  from runs_NbdSendWrite [OF assms(1) b this] show ?thesis using OpWrite by simp
qed (use assms runs_NbdRequest in simp_all)

lemma transmit_calm:
  assumes "calm (Socket (UContext u))" "op_fits bs op"
  shows "\<exists>s'. transmit drv ce (op_send bs op) u = Some (dm_upd (\<lambda>d. d\<lparr>Socket := s'\<rparr>) u) \<and> calm s' \<and>
    view s' = stream_send (op_frame bs op) (view (Socket (UContext u)))"
  using runs_op_send [OF assms] by (auto simp: runs_def transmit_def on_socket_def)

lemma transfer_limit: "(x :: u32) \<le> WNBD_DEFAULT_MAX_TRANSFER_LENGTH \<Longrightarrow> unat x < 2147483648"
  by (simp add: word_le_nat_alt)

section \<open>Processing one reply\<close>

text \<open>The data that follows a reply.\<close>

definition reply_carries :: "NBD_REPLY \<Rightarrow> PendingRequestInfo \<Rightarrow> bytes \<Rightarrow> bool" where
  "reply_carries R info data \<longleftrightarrow>
     (if NrError R = 0 \<and> PrRequestType info = WnbdReqTypeRead then length data = unat (PrLength info) else data = [])"

definition reply_buffer :: "NBD_REPLY \<Rightarrow> PendingRequestInfo \<Rightarrow> bytes \<Rightarrow> bytes option" where
  "reply_buffer R info data =
     (if NrError R = 0 \<and> PrRequestType info = WnbdReqTypeRead then Some data else None)"

definition reply_size :: "NBD_REPLY \<Rightarrow> PendingRequestInfo \<Rightarrow> u32" where
  "reply_size R info = (if NrError R = 0 \<and> PrRequestType info = WnbdReqTypeRead then PrLength info else 0)"

lemma ProcessNbdReply_answers:
  assumes s: "calm (Socket (UContext u))" "RxBytes (Socket (UContext u)) = encode_reply R @ data @ rest"
    and p: "PendingRequests (UContext u) (NrHandle R) = Some info"
    and d: "reply_carries R info data"
    and l: "PrRequestType info = WnbdReqTypeRead \<longrightarrow>
              PrLength info \<le> PreallocatedRBuffSz (UContext u) \<and> PrLength info \<le> WNBD_DEFAULT_MAX_TRANSFER_LENGTH"
  shows "\<exists>s'. ProcessNbdReply drv u = send_reply drv R info (reply_buffer R info data) (reply_size R info)
             (dm_upd (\<lambda>d. d\<lparr>Socket := s', PendingRequests := (PendingRequests d)(NrHandle R := None)\<rparr>) u) \<and>
           calm s' \<and> view s' = (view (Socket (UContext u)))\<lparr>In := rest\<rparr>"
proof -
  obtain s1 where 1: "NbdReadReply (Socket (UContext u)) = Some (Inr R, s1)" "calm s1"
    "view s1 = (view (Socket (UContext u)))\<lparr>In := data @ rest\<rparr>"
    using runs_NbdReadReply [OF s] by (auto simp: runs_def)
  have comm: "(UContext u)\<lparr>PendingRequests := x, Socket := s\<rparr> = (UContext u)\<lparr>Socket := s, PendingRequests := x\<rparr>" for x s
    by simp
  show ?thesis
  proof (cases "NrError R = 0 \<and> PrRequestType info = WnbdReqTypeRead")
    case True
    then have len: "length data = unat (PrLength info)" using d by (simp add: reply_carries_def)
    have lim: "unat (PrLength info) < 2147483648" using l True transfer_limit by blast
    obtain s2 where 2: "RecvExact (unat (PrLength info)) s1 = Some (Inr data, s2)" "calm s2"
      "view s2 = (view s1)\<lparr>In := rest\<rparr>"
      using runs_recv [OF 1(2), of data rest "unat (PrLength info)"] of_view [OF 1(3)] len lim
      by (auto simp: runs_def)
    have "NbdGetReadResponseBufferSize (PrLength info) (PreallocatedRBuffSz (UContext u)) 0 = (0, PrLength info)"
      using l True by (simp add: NbdGetReadResponseBufferSize_def not_less)
    then show ?thesis using 1 2 p True
      by (intro exI [of _ s2]) (simp add: ProcessNbdReply_def on_socket_def reply_buffer_def reply_size_def comm)
  next
    case False
    then have "data = []" using d by (simp add: reply_carries_def split: if_splits)
    then show ?thesis using 1 p False
      by (auto simp: ProcessNbdReply_def on_socket_def reply_buffer_def reply_size_def)
  qed
qed

text \<open>Responses leave the daemon's own state alone.\<close>

lemma WnbdSendResponseEx_context: "WnbdSendResponseEx drv R b n ov u = Some (e, u') \<Longrightarrow> UContext u' = UContext u"
  by (auto simp: WnbdSendResponseEx_def Let_def split: if_splits option.splits)

lemma send_reply_context: "send_reply drv R i b n u = Some (e, u') \<Longrightarrow> UContext u' = UContext u"
  by (auto simp: send_reply_def Let_def dest: WnbdSendResponseEx_context)

section \<open>The system\<close>

text \<open>
  Where an operation is: entered by its dispatcher thread, received by the server, answered on the
  wire. The system is the daemon, the operations under way by handle, the frames sent, in order,
  and the replies on the wire.
\<close>

datatype phase = Entered | ByServer | Answered

record 'd system =
  Sys :: "'d nbd"
  Ops :: "u64 \<rightharpoonup> nbd_op \<times> phase"
  Sent :: "nbd_op list"
  Wire :: "(NBD_REPLY \<times> nbd_op \<times> bytes) list"

definition wire_bytes :: "(NBD_REPLY \<times> nbd_op \<times> bytes) list \<Rightarrow> bytes" where
  "wire_bytes ws = concat (map (\<lambda>(R, op, data). encode_reply R @ data) ws)"

abbreviation daemon :: "'d system \<Rightarrow> NbdDaemon" where
  "daemon S \<equiv> UContext (Sys S)"

abbreviation block_size :: "'d system \<Rightarrow> u32" where
  "block_size S \<equiv> BlockSize (WnbdProps (daemon S))"

text \<open>
  The driver does not reuse a handle while it is in use, and keeps the transfer limit. The server
  answers requests it has received, once each, with the data a read asks for.
\<close>

inductive step :: "'d driver_calls \<Rightarrow> close_env \<Rightarrow> 'd system \<Rightarrow> 'd system \<Rightarrow> bool" for drv ce where
  enter: "op_fits (block_size S) op \<Longrightarrow> PendingRequests (daemon S) (op_handle op) = None \<Longrightarrow>
    step drv ce S (S\<lparr>Sys := pend_request (op_info (block_size S) op) (Sys S),
                     Ops := (Ops S)(op_handle op \<mapsto> (op, Entered))\<rparr>)"
| frame: "Ops S h = Some (op, Entered) \<Longrightarrow> transmit drv ce (op_send (block_size S) op) (Sys S) = Some u \<Longrightarrow>
    step drv ce S (S\<lparr>Sys := u, Ops := (Ops S)(h \<mapsto> (op, ByServer)), Sent := Sent S @ [op]\<rparr>)"
| answer: "Ops S (NrHandle R) = Some (op, ByServer) \<Longrightarrow> reply_carries R (op_info (block_size S) op) data \<Longrightarrow>
    step drv ce S (S\<lparr>Sys := dm_upd (\<lambda>d. d\<lparr>Socket := (Socket d)\<lparr>RxBytes := RxBytes (Socket d) @ encode_reply R @ data\<rparr>\<rparr>) (Sys S),
                     Ops := (Ops S)(NrHandle R \<mapsto> (op, Answered)), Wire := Wire S @ [(R, op, data)]\<rparr>)"
| reply: "Wire S = (R, op, data) # ws \<Longrightarrow> ProcessNbdReply drv (Sys S) = Some (e, u) \<Longrightarrow>
    step drv ce S (S\<lparr>Sys := u, Ops := (Ops S)(NrHandle R := None), Wire := ws\<rparr>)"

text \<open>A daemon that has just started: nothing pending, nothing on the wire.\<close>

definition serving :: "'d system \<Rightarrow> bool" where
  "serving S \<longleftrightarrow> calm (Socket (daemon S)) \<and> RxBytes (Socket (daemon S)) = [] \<and>
     PendingRequests (daemon S) = Map.empty \<and> PreallocatedRBuffSz (daemon S) = WNBD_DEFAULT_MAX_TRANSFER_LENGTH \<and>
     Ops S = Map.empty \<and> Sent S = [] \<and> Wire S = []"

text \<open>
  The invariant: the frames on the socket are whole, every operation under way has its entry and
  there are no other entries, the wire holds the answers in order.
\<close>

definition sys_inv :: "bytes \<Rightarrow> u32 \<Rightarrow> 'd system \<Rightarrow> bool" where
  "sys_inv pre bs S \<longleftrightarrow> block_size S = bs \<and> calm (Socket (daemon S)) \<and>
     PreallocatedRBuffSz (daemon S) = WNBD_DEFAULT_MAX_TRANSFER_LENGTH \<and>
     TxBytes (Socket (daemon S)) = pre @ concat (map (op_frame bs) (Sent S)) \<and>
     RxBytes (Socket (daemon S)) = wire_bytes (Wire S) \<and>
     (\<forall>h. case Ops S h of None \<Rightarrow> PendingRequests (daemon S) h = None
          | Some (op, ph) \<Rightarrow> op_handle op = h \<and> op_fits bs op \<and> PendingRequests (daemon S) h = Some (op_info bs op)) \<and>
     distinct (map (\<lambda>(R, op, data). NrHandle R) (Wire S)) \<and>
     (\<forall>(R, op, data) \<in> set (Wire S). Ops S (NrHandle R) = Some (op, Answered) \<and> reply_carries R (op_info bs op) data)"

lemma sys_invD:
  assumes "sys_inv pre bs S"
  shows "block_size S = bs" "calm (Socket (daemon S))"
    "PreallocatedRBuffSz (daemon S) = WNBD_DEFAULT_MAX_TRANSFER_LENGTH"
    "TxBytes (Socket (daemon S)) = pre @ concat (map (op_frame bs) (Sent S))"
    "RxBytes (Socket (daemon S)) = wire_bytes (Wire S)"
    "Ops S h = None \<Longrightarrow> PendingRequests (daemon S) h = None"
    "Ops S h = Some (op, ph) \<Longrightarrow> op_handle op = h \<and> op_fits bs op \<and> PendingRequests (daemon S) h = Some (op_info bs op)"
    "distinct (map (\<lambda>(R, op, data). NrHandle R) (Wire S))"
    "(R, op, data) \<in> set (Wire S) \<Longrightarrow> Ops S (NrHandle R) = Some (op, Answered) \<and> reply_carries R (op_info bs op) data"
  using assms unfolding sys_inv_def by (auto split: option.splits) (metis option.distinct(1) option.inject prod.inject)+

lemma serving_inv: "serving S \<Longrightarrow> sys_inv (TxBytes (Socket (daemon S))) (block_size S) S"
  by (simp add: serving_def sys_inv_def wire_bytes_def)

lemma op_info_length: "op_fits bs op \<Longrightarrow> PrRequestType (op_info bs op) = WnbdReqTypeRead \<Longrightarrow>
    PrLength (op_info bs op) \<le> WNBD_DEFAULT_MAX_TRANSFER_LENGTH"
  by (cases op) auto

text \<open>The answer at the head of the wire is processed for its own operation.\<close>

lemma head_answered:
  assumes inv: "sys_inv pre bs S" and w: "Wire S = (R, op, data) # ws"
  shows "\<exists>s'. ProcessNbdReply drv (Sys S) =
      send_reply drv R (op_info bs op) (reply_buffer R (op_info bs op) data) (reply_size R (op_info bs op))
             (dm_upd (\<lambda>d. d\<lparr>Socket := s', PendingRequests := (PendingRequests d)(NrHandle R := None)\<rparr>) (Sys S)) \<and>
      calm s' \<and> view s' = (view (Socket (daemon S)))\<lparr>In := wire_bytes ws\<rparr>"
proof -
  note D = sys_invD [OF inv]
  have o: "Ops S (NrHandle R) = Some (op, Answered)" "reply_carries R (op_info bs op) data"
    using D(9) [of R op data] w by auto
  note e = D(7) [OF o(1)]
  show ?thesis
    by (rule ProcessNbdReply_answers)
       (use D(2,3,5) e o(2) w op_info_length [of bs op] in \<open>auto simp: wire_bytes_def\<close>)
qed

lemma sys_invI:
  assumes "block_size S = bs" "calm (Socket (daemon S))"
    "PreallocatedRBuffSz (daemon S) = WNBD_DEFAULT_MAX_TRANSFER_LENGTH"
    "TxBytes (Socket (daemon S)) = pre @ concat (map (op_frame bs) (Sent S))"
    "RxBytes (Socket (daemon S)) = wire_bytes (Wire S)"
    "\<And>h. Ops S h = None \<Longrightarrow> PendingRequests (daemon S) h = None"
    "\<And>h op ph. Ops S h = Some (op, ph) \<Longrightarrow>
       op_handle op = h \<and> op_fits bs op \<and> PendingRequests (daemon S) h = Some (op_info bs op)"
    "distinct (map (\<lambda>(R, op, data). NrHandle R) (Wire S))"
    "\<And>R op data. (R, op, data) \<in> set (Wire S) \<Longrightarrow>
       Ops S (NrHandle R) = Some (op, Answered) \<and> reply_carries R (op_info bs op) data"
  shows "sys_inv pre bs S"
  unfolding sys_inv_def using assms by (auto split: option.split)

lemma enter_inv:
  assumes inv: "sys_inv pre bs S" and o: "op_fits bs op" "PendingRequests (daemon S) (op_handle op) = None"
  shows "sys_inv pre bs (S\<lparr>Sys := pend_request (op_info bs op) (Sys S),
                            Ops := (Ops S)(op_handle op \<mapsto> (op, Entered))\<rparr>)"
proof -
  note D = sys_invD [OF inv]
  have n: "Ops S (op_handle op) = None" using D(7) [of "op_handle op"] o(2) by (cases "Ops S (op_handle op)") auto
  have w: "NrHandle R \<noteq> op_handle op" if "(R, op', data) \<in> set (Wire S)" for R op' data
    using D(9) [OF that] n by auto
  show ?thesis
    by (rule sys_invI) (use D o w in \<open>auto simp: pend_request_def split: if_splits\<close>)
qed

lemma frame_inv:
  assumes inv: "sys_inv pre bs S" and o: "Ops S h = Some (op, Entered)"
    and t: "transmit drv ce (op_send bs op) (Sys S) = Some u"
  shows "sys_inv pre bs (S\<lparr>Sys := u, Ops := (Ops S)(h \<mapsto> (op, ByServer)), Sent := Sent S @ [op]\<rparr>)"
proof -
  note D = sys_invD [OF inv]
  note e = D(7) [OF o]
  obtain s' where u: "u = dm_upd (\<lambda>d. d\<lparr>Socket := s'\<rparr>) (Sys S)" "calm s'"
    "view s' = stream_send (op_frame bs op) (view (Socket (daemon S)))"
    using transmit_calm [OF D(2), of bs op drv ce] e t by auto
  have v: "RxBytes s' = RxBytes (Socket (daemon S))" "TxBytes s' = TxBytes (Socket (daemon S)) @ op_frame bs op"
    using of_view [OF u(3)] by (simp_all add: stream_send_def)
  have w: "NrHandle R \<noteq> h" if "(R, op', data) \<in> set (Wire S)" for R op' data
    using D(9) [OF that] o by auto
  show ?thesis
    by (rule sys_invI) (use D e u(2) v w in \<open>auto simp: u(1) split: if_splits\<close>)
qed

lemma answer_inv:
  assumes inv: "sys_inv pre bs S" and o: "Ops S (NrHandle R) = Some (op, ByServer)"
    and c: "reply_carries R (op_info bs op) data"
  shows "sys_inv pre bs (S\<lparr>Sys := dm_upd (\<lambda>d. d\<lparr>Socket := (Socket d)\<lparr>RxBytes := RxBytes (Socket d) @ encode_reply R @ data\<rparr>\<rparr>) (Sys S),
                     Ops := (Ops S)(NrHandle R \<mapsto> (op, Answered)), Wire := Wire S @ [(R, op, data)]\<rparr>)"
proof -
  note D = sys_invD [OF inv]
  note e = D(7) [OF o]
  have w: "NrHandle R' \<noteq> NrHandle R" if "(R', op', data') \<in> set (Wire S)" for R' op' data'
    using D(9) [OF that] o by auto
  have calm: "calm ((Socket (daemon S))\<lparr>RxBytes := b\<rparr>)" for b using D(2) by (simp add: calm_def)
  have fresh: "NrHandle R \<notin> (\<lambda>(R, op, data). NrHandle R) ` set (Wire S)" using w by force
  have w9: "((Ops S)(NrHandle R \<mapsto> (op, Answered))) (NrHandle R') = Some (op', Answered) \<and>
      reply_carries R' (op_info bs op') data'"
    if "(R', op', data') \<in> set (Wire S) \<or> (R', op', data') = (R, op, data)" for R' op' data'
    using that w [of R' op' data'] D(9) [of R' op' data'] c by auto
  show ?thesis (is "sys_inv _ _ ?S")
  proof (rule sys_invI)
    fix R' op' data' assume "(R', op', data') \<in> set (Wire ?S)"
    then show "Ops ?S (NrHandle R') = Some (op', Answered) \<and> reply_carries R' (op_info bs op') data'"
      using w9 [of R' op' data'] by auto
  qed (use D(1-8) e fresh calm in \<open>auto simp: wire_bytes_def split: if_splits\<close>)
qed

lemma reply_inv:
  assumes inv: "sys_inv pre bs S" and w: "Wire S = (R, op, data) # ws"
    and p: "ProcessNbdReply drv (Sys S) = Some (e, u)"
  shows "sys_inv pre bs (S\<lparr>Sys := u, Ops := (Ops S)(NrHandle R := None), Wire := ws\<rparr>)"
proof -
  note D = sys_invD [OF inv]
  obtain s' where s': "Some (e, u) = send_reply drv R (op_info bs op) (reply_buffer R (op_info bs op) data)
      (reply_size R (op_info bs op))
      (dm_upd (\<lambda>d. d\<lparr>Socket := s', PendingRequests := (PendingRequests d)(NrHandle R := None)\<rparr>) (Sys S))"
    "calm s'" "view s' = (view (Socket (daemon S)))\<lparr>In := wire_bytes ws\<rparr>"
    using head_answered [OF inv w, of drv] p by auto
  have u: "UContext u = (daemon S)\<lparr>Socket := s', PendingRequests := (PendingRequests (daemon S))(NrHandle R := None)\<rparr>"
    using send_reply_context [OF s'(1) [symmetric]] by simp
  have v: "RxBytes s' = wire_bytes ws" "TxBytes s' = TxBytes (Socket (daemon S))" using of_view [OF s'(3)] by simp_all
  have ws: "NrHandle R' \<noteq> NrHandle R" if "(R', op', data') \<in> set ws" for R' op' data'
    using D(8) w that by force
  have D9: "Ops S (NrHandle R') = Some (op', Answered) \<and> reply_carries R' (op_info bs op') data'"
    if "(R', op', data') \<in> set ws" for R' op' data'
    using D(9) [of R' op' data'] w that by simp
  show ?thesis
    by (rule sys_invI) (use D(1-8) D9 w s'(2) u v ws in \<open>simp_all split: if_splits\<close>)
qed

lemma step_inv: "step drv ce S T \<Longrightarrow> sys_inv pre bs S \<Longrightarrow> sys_inv pre bs T"
  by (induction rule: step.induct) (auto dest: sys_invD(1) intro: enter_inv frame_inv answer_inv reply_inv)

lemma reachable_inv: "(step drv ce)\<^sup>*\<^sup>* S T \<Longrightarrow> sys_inv pre bs S \<Longrightarrow> sys_inv pre bs T"
  by (induction rule: rtranclp_induct) (auto intro: step_inv)

text \<open>
  C18: in every interleaving of the dispatcher threads, the server and the reply worker, what
  went over the socket is the sequence of the whole frames sent, the table of pending requests
  holds exactly the operations under way, and the reply the worker reads next is handed to the
  driver as the answer to its own request, with the data that came for it.
\<close>

theorem replies_find_their_requests:
  assumes "serving S0" "(step drv ce)\<^sup>*\<^sup>* S0 S"
  shows "TxBytes (Socket (daemon S)) =
           TxBytes (Socket (daemon S0)) @ concat (map (op_frame (block_size S0)) (Sent S)) \<and>
         dom (PendingRequests (daemon S)) = dom (Ops S) \<and>
         (\<forall>R op data ws. Wire S = (R, op, data) # ws \<longrightarrow>
            (\<exists>u. ProcessNbdReply drv (Sys S) =
               send_reply drv R (op_info (block_size S0) op) (reply_buffer R (op_info (block_size S0) op) data)
                       (reply_size R (op_info (block_size S0) op)) u))"
proof -
  let ?bs = "block_size S0" and ?pre = "TxBytes (Socket (daemon S0))"
  have inv: "sys_inv ?pre ?bs S" using reachable_inv [OF assms(2) serving_inv [OF assms(1)]] .
  have "PendingRequests (daemon S) h = None \<longleftrightarrow> Ops S h = None" for h
    using sys_invD(6) [OF inv, of h] sys_invD(7) [OF inv, of h] by (cases "Ops S h") auto
  then have 2: "dom (PendingRequests (daemon S)) = dom (Ops S)" by (auto simp: dom_def)
  have 3: "\<exists>u. ProcessNbdReply drv (Sys S) =
       send_reply drv R (op_info ?bs op) (reply_buffer R (op_info ?bs op) data) (reply_size R (op_info ?bs op)) u"
    if "Wire S = (R, op, data) # ws" for R op data ws
    using head_answered [OF inv that, of drv] by (elim exE conjE) (rule exI)
  show ?thesis using 3 by (intro conjI allI impI sys_invD(4) [OF inv] 2)
qed

section \<open>A read from the driver to the server and back\<close>

text \<open>The server sends bytes.\<close>

definition server_sends :: "bytes \<Rightarrow> 'd nbd \<Rightarrow> 'd nbd" where
  "server_sends bs u = dm_upd (\<lambda>d. d\<lparr>Socket := (Socket d)\<lparr>RxBytes := RxBytes (Socket d) @ bs\<rparr>\<rparr>) u"

abbreviation stats :: "('c, 'd) user \<Rightarrow> WNBD_USR_STATS" where
  "stats u \<equiv> DkStats (UDisk u)"

lemma WnbdHandleRequest_read:
  assumes u: "calm (Socket (UContext u))" "PendingRequests (UContext u) h = None"
    and l: "n * BlockSize (WnbdProps (UContext u)) \<le> WNBD_DEFAULT_MAX_TRANSFER_LENGTH"
  shows "\<exists>s' st. WnbdHandleRequest drv (WnbdInterface drv ce)
      \<lparr>RequestHandle = h, RequestType = WnbdReqTypeRead, Cmd = CmdRead a n f\<rparr> Buf u =
    Some (count (\<lambda>_. st) (dm_upd (\<lambda>d. d\<lparr>PendingRequests :=
            (PendingRequests d)(h \<mapsto> op_info (BlockSize (WnbdProps d)) (OpRead h a n)), Socket := s'\<rparr>) u)) \<and>
    calm s' \<and> view s' = stream_send (op_frame (BlockSize (WnbdProps (UContext u))) (OpRead h a n)) (view (Socket (UContext u))) \<and>
    PendingSubmittedRequests st = PendingSubmittedRequests (stats u) + 1"
proof -
  let ?bs = "BlockSize (WnbdProps (UContext u))"
  let ?u = "count (\<lambda>st. st\<lparr>TotalReceivedRequests := TotalReceivedRequests st + 1,
                              UnsubmittedRequests := UnsubmittedRequests st + 1\<rparr>) u"
  let ?p = "pend_request (op_info ?bs (OpRead h a n)) ?u"
  have "calm (Socket (UContext ?p))" using u by (simp add: pend_request_def)
  from transmit_calm [OF this, of ?bs "OpRead h a n" drv ce] l obtain s'
    where s': "transmit drv ce (op_send ?bs (OpRead h a n)) ?p = Some (dm_upd (\<lambda>d. d\<lparr>Socket := s'\<rparr>) ?p)"
      "calm s'" "view s' = stream_send (op_frame ?bs (OpRead h a n)) (view (Socket (UContext ?p)))" by auto
  have "Read drv ce h a n f ?u = Some (dm_upd (\<lambda>d. d\<lparr>Socket := s'\<rparr>) ?p)"
    using entry_points(1) [of ?bs ?u] s'(1) by simp
  then show ?thesis using s'(2,3) u(2)
    by (intro exI [of _ s'] exI [of _ "(stats u)\<lparr>TotalReceivedRequests := TotalReceivedRequests (stats u) + 1,
          TotalRWRequests := TotalRWRequests (stats u) + 1, TotalReadBlocks := TotalReadBlocks (stats u) + ucast n,
          TotalSubmittedRequests := TotalSubmittedRequests (stats u) + 1,
          PendingSubmittedRequests := PendingSubmittedRequests (stats u) + 1\<rparr>"])
       (simp add: WnbdHandleRequest_def serve_def WnbdInterface_def pend_request_def Let_def)
qed

lemma send_reply_read:
  assumes "WnbdIsRunning (UDisk u)"
    and "IoctlSendResponse drv True (CiConnectionId (DkConnectionInfo (UDisk u)))
           \<lparr>RspRequestHandle = NrHandle R, RspRequestType = PrRequestType info, RspStatus = zero_status\<rparr> b n (UDriver u) = Some (0, D)"
    and "NrError R = 0"
  shows "\<exists>u'. send_reply drv R info b n u = Some (0, u') \<and> UDriver u' = D \<and> UContext u' = UContext u \<and>
    PendingSubmittedRequests (stats u') = PendingSubmittedRequests (stats u) - 1 \<and>
    TotalReceivedReplies (stats u') = TotalReceivedReplies (stats u) + 1"
  using assms
  by (simp add: send_reply_def WnbdSendResponseEx_def nbd_response_def zero_status_def Let_def WnbdIsRunning_def WnbdIsStopped_def)

text \<open>
  A read the dispatcher takes from the driver leaves as one frame that names its handle and
  its byte range; when the server answers with the data, the driver gets that data as the reply to
  the same handle, and the daemon is left with the requests it had before.
\<close>

lemma nbd_read_flow:
  assumes "calm (Socket (UContext u))" "RxBytes (Socket (UContext u)) = []" "PendingRequests (UContext u) h = None"
    and "BlockSize (WnbdProps (UContext u)) = bs" "n * bs \<le> WNBD_DEFAULT_MAX_TRANSFER_LENGTH"
    and "PreallocatedRBuffSz (UContext u) = WNBD_DEFAULT_MAX_TRANSFER_LENGTH"
    and "Started (UDisk u)" "\<not> Stopped (UDisk u)" "length data = unat (n * bs)"
    and "IoctlSendResponse drv True (CiConnectionId (DkConnectionInfo (UDisk u)))
           \<lparr>RspRequestHandle = h, RspRequestType = WnbdReqTypeRead, RspStatus = zero_status\<rparr>
           (Some data) (n * bs) (UDriver u) = Some (0, D)"
  shows "\<exists>u1 u2 frame.
    WnbdHandleRequest drv (WnbdInterface drv ce)
      \<lparr>RequestHandle = h, RequestType = WnbdReqTypeRead, Cmd = CmdRead a n f\<rparr> Buf u = Some u1 \<and>
    TxBytes (Socket (UContext u1)) = TxBytes (Socket (UContext u)) @ frame \<and>
    decode_request frame = Some (NBD_CMD_READ, h, a * ucast bs, n * bs) \<and>
    ProcessNbdReply drv (server_sends (encode_reply \<lparr>NrError = 0, NrHandle = h\<rparr> @ data) u1) = Some (0, u2) \<and>
    UDriver u2 = D \<and> PendingRequests (UContext u2) = PendingRequests (UContext u) \<and>
    PendingSubmittedRequests (stats u2) = PendingSubmittedRequests (stats u)"
proof -
  let ?op = "OpRead h a n" and ?R = "\<lparr>NrError = 0, NrHandle = h\<rparr>"
  let ?info = "op_info bs ?op"
  obtain s1 st where 1: "WnbdHandleRequest drv (WnbdInterface drv ce)
      \<lparr>RequestHandle = h, RequestType = WnbdReqTypeRead, Cmd = CmdRead a n f\<rparr> Buf u =
      Some (count (\<lambda>_. st) (dm_upd (\<lambda>d. d\<lparr>PendingRequests := (PendingRequests d)(h \<mapsto> op_info (BlockSize (WnbdProps d)) ?op),
              Socket := s1\<rparr>) u))" (is "_ = Some ?u1")
    "calm s1" "view s1 = stream_send (op_frame bs ?op) (view (Socket (UContext u)))"
    "PendingSubmittedRequests st = PendingSubmittedRequests (stats u) + 1"
    using WnbdHandleRequest_read [OF assms(1,3), of n drv ce a f Buf] assms(4,5) by auto
  have tx: "TxBytes s1 = TxBytes (Socket (UContext u)) @ op_frame bs ?op" "RxBytes s1 = []"
    using of_view [OF 1(3)] assms(2) by (simp_all add: stream_send_def)
  let ?v = "server_sends (encode_reply ?R @ data) ?u1"
  have v: "calm (Socket (UContext ?v))" "RxBytes (Socket (UContext ?v)) = encode_reply ?R @ data @ []"
    "PendingRequests (UContext ?v) (NrHandle ?R) = Some ?info"
    using 1(2) tx(2) assms(4) by (simp_all add: server_sends_def calm_def)
  obtain s2 where 2: "ProcessNbdReply drv ?v =
      send_reply drv ?R ?info (reply_buffer ?R ?info data) (reply_size ?R ?info)
        (dm_upd (\<lambda>d. d\<lparr>Socket := s2, PendingRequests := (PendingRequests d)(h := None)\<rparr>) ?v)"
    using ProcessNbdReply_answers [OF v, where drv = drv] assms(5,6,9)
    by (auto simp: reply_carries_def server_sends_def)
  have b: "reply_buffer ?R ?info data = Some data" "reply_size ?R ?info = n * bs"
    by (simp_all add: reply_buffer_def reply_size_def)
  let ?w = "dm_upd (\<lambda>d. d\<lparr>Socket := s2, PendingRequests := (PendingRequests d)(h := None)\<rparr>) ?v"
  obtain u2 where u2: "send_reply drv ?R ?info (Some data) (n * bs) ?w = Some (0, u2)" "UDriver u2 = D"
    "UContext u2 = UContext ?w" "PendingSubmittedRequests (stats u2) = PendingSubmittedRequests (stats ?w) - 1"
    using send_reply_read [of ?w drv ?R ?info "Some data" "n * bs" D] assms(7,8,10)
    by (auto simp: server_sends_def WnbdIsRunning_def WnbdIsStopped_def)
  have p: "(PendingRequests (UContext u))(h := None) = PendingRequests (UContext u)" using assms(3) by auto
  have "PendingRequests (UContext u2) = PendingRequests (UContext u)"
    "PendingSubmittedRequests (stats u2) = PendingSubmittedRequests (stats u)"
    using u2(3,4) 1(4) p by (simp_all add: server_sends_def)
  then show ?thesis
    using 1(1) tx(1) 2 b u2(1,2) decode_encode [of "a * ucast bs" "n * bs" h NBD_CMD_READ]
    by (intro exI [of _ ?u1] exI [of _ u2] exI [of _ "op_frame bs ?op"]) simp
qed

text \<open>
  The byte length of a trim is computed in 32 bits: unmapping 4 GiB is sent with length 0.
\<close>

lemma trim_length_wraps:
  assumes "UdBlockCount (first_descriptor b) = 0x800000"
  shows "decode_request (op_frame 512 (OpUnmap h b n)) =
    Some (NBD_CMD_TRIM, h, UdBlockAddress (first_descriptor b) * 512, 0)"
  using assms by (simp add: decode_encode)

section \<open>The disk the daemon creates\<close>

lemma start_threads_properties:
  "start_threads drv env w es u = Some (0, u') \<Longrightarrow> DkProperties (UDisk u') = DkProperties (UDisk u)"
  by (induction es arbitrary: u) (auto split: if_splits option.splits)

lemma WnbdStartDispatcher_properties:
  assumes "WnbdStartDispatcher drv env g c w k u = Some (0, u')"
  shows "DkProperties (UDisk u') = DkProperties (UDisk u)"
proof -
  have "start_threads drv env w (map c [0..<unat k])
      (disk_upd (\<lambda>d. d\<lparr>DispatcherThreads := True, Started := True, DispatcherThreadsCount := 0\<rparr>) u) = Some (0, u')"
    using assms by (auto simp: WnbdStartDispatcher_def split: if_splits)
  from start_threads_properties [OF this] show ?thesis by simp
qed

lemma WnbdCreate_properties:
  assumes "WnbdCreate drv g P D = Some (e, Some dk, D')" shows "DkProperties dk = P"
  using assms by (auto simp: WnbdCreate_def new_disk_def split: if_splits option.splits)

lemma WnbdCreate_disk: "WnbdCreate drv g P D = Some (0, None, D') \<Longrightarrow> False"
  by (auto simp: WnbdCreate_def split: if_splits option.splits)

lemma start_disk_properties:
  assumes "start_disk drv ce env fl u = Some (0, u')"
  defines "P \<equiv> WnbdProps (UContext u)"
  shows "DkProperties (UDisk u') = P\<lparr>Flags := nbd_flags fl (Flags P)\<rparr>" "\<not> invalid_geometry P"
proof -
  let ?P = "P\<lparr>Flags := nbd_flags fl (Flags P)\<rparr>"
  have g: "\<not> invalid_geometry ?P"
    using assms(1) by (auto simp: start_disk_def Let_def P_def split: if_splits)
  then show "\<not> invalid_geometry P" by (simp add: invalid_geometry_def)
  obtain e dk D where c: "WnbdCreate drv (StDisk env) ?P (UDriver u) = Some (e, Some dk, D)"
    using assms(1) g by (auto simp: start_disk_def Let_def P_def dest: WnbdCreate_disk split: if_splits option.splits)
  from WnbdCreate_properties [OF c] assms(1) c g
  show "DkProperties (UDisk u') = ?P"
    by (auto simp: start_disk_def Let_def P_def dest!: WnbdStartDispatcher_properties split: if_splits)
qed

text \<open>The errors of the negotiation are not zero.\<close>

definition sound :: "'a net \<Rightarrow> bool" where
  "sound m \<longleftrightarrow> (\<forall>s s'. m s \<noteq> Some (Inl 0, s'))"

named_theorems sound_intros \<open>operations whose errors are not zero\<close>

lemma sound_basic [sound_intros]: "sound (ret a)" "e \<noteq> 0 \<Longrightarrow> sound (failed e)" "sound (check r)"
  by (auto simp: sound_def net_defs)

lemma sound_after [sound_intros]: "sound m \<Longrightarrow> (\<And>a. sound (f a)) \<Longrightarrow> sound (after m f)"
  unfolding sound_def after_def by (auto split: option.splits sum.splits)

lemma socket_error_nonzero: "socket_error SOCKET_ERROR e \<noteq> 0"
  by (simp add: socket_error_def)

lemma RecvLoop_sound: "RecvLoop n acc s \<noteq> Some (Inl 0, s')"
proof (induction n acc s rule: RecvLoop.induct)
  case (1 n acc s)
  then show ?case using socket_error_nonzero
    by (subst RecvLoop.simps) (auto split: option.splits recv_result.splits)
qed

lemma sound_RecvExact [sound_intros]: "sound (RecvExact n)"
  by (simp add: sound_def RecvExact_def RecvLoop_sound)

lemma SendLoop_sound: "SendLoop bs s \<noteq> Some (Inl 0, s')"
proof (induction bs s rule: SendLoop.induct)
  case (1 bs s)
  then show ?case
    by (subst SendLoop.simps) (auto simp: net_defs split: option.splits send_result.splits)
qed

lemma sound_SendExact [sound_intros]: "sound (SendExact bs)"
  by (simp add: sound_def SendExact_def SendLoop_sound)

lemma sound_requests [sound_intros]:
  "sound (NbdSendHandshakeRequest opt n d)" "sound (NbdSendInfoRequest opt k q nm)"
  "sound (NbdSendOptExportName nm G X)" "sound (error_reply t nm G X)"
  unfolding NbdSendHandshakeRequest_def NbdSendInfoRequest_def NbdSendOptExportName_def error_reply_def Let_def
  by (auto intro!: sound_intros split: option.split prod.split)

lemma NegotiateLoop_sound: "NegotiateLoop nm G X s \<noteq> Some (Inl 0, s')"
proof (induction nm G X s rule: NegotiateLoop.induct)
  case (1 nm G X s)
  show ?case
  proof (cases "NbdReadHandshakeReply s")
    case (Some rs)
    then obtain r s1 where rs: "NbdReadHandshakeReply s = Some (r, s1)" by (cases rs) auto
    show ?thesis
    proof (cases r)
      case (Inr R)
      then show ?thesis using "1.IH" [OF rs refl Inr] rs sound_requests(4) [of "ReplyType R" nm G X]
        by (subst NegotiateLoop.simps) (simp add: sound_def)
    qed (use rs in \<open>simp add: NegotiateLoop.simps [of nm G X s]\<close>)
  qed (simp add: NegotiateLoop.simps [of nm G X s])
qed

lemma sound_NbdNegotiate: "sound (NbdNegotiate nm C X)"
  unfolding NbdNegotiate_def negotiate_go_def Let_def
  by (intro sound_intros) (simp add: sound_def NegotiateLoop_sound)

lemma start_negotiate_error: "start_negotiate u \<noteq> Some (Inl 0, u')"
  using sound_NbdNegotiate
  by (auto simp: start_negotiate_def Let_def on_socket_def sound_def split: option.splits sum.splits if_splits)

lemma start_negotiate_phases:
  assumes "start_negotiate u = Some (Inr fl, u')" "\<not> SkipNegotiation (NbdProperties (WnbdProps (UContext u)))"
  defines "P \<equiv> WnbdProps (UContext u)"
  shows "\<exists>X s s'. NbdNegotiate (cstr (ExportName (NbdProperties P))) NBD_FLAG_FIXED_NEWSTYLE zero_export s = Some (Inr X, s') \<and>
    fl = ExFlags X \<and> WnbdProps (UContext u') = P\<lparr>BlockCount := ExSize X div ucast (BlockSize P)\<rparr> \<and>
    (\<forall>B. BlockInfo X = Some B \<longrightarrow> block_size_ok B (BlockSize P))"
proof -
  obtain X s' where "NbdNegotiate (cstr (ExportName (NbdProperties P))) NBD_FLAG_FIXED_NEWSTYLE zero_export
      (Socket (UContext u)) = Some (Inr X, s')"
    using assms(1,2)
    by (auto simp: start_negotiate_def Let_def on_socket_def P_def split: option.splits sum.splits if_splits)
  then show ?thesis using assms(1,2)
    by (intro exI [of _ X] exI [of _ "Socket (UContext u)"] exI [of _ s'])
       (auto simp: start_negotiate_def Let_def on_socket_def P_def split: option.splits if_splits)
qed

lemma ConnectNbdServer_props: "WnbdProps (UContext (snd (ConnectNbdServer r u))) = WnbdProps (UContext u)"
  by (auto simp: ConnectNbdServer_def split: sum.split option.split)

lemma TryStart_phases:
  assumes "TryStart drv ce env u = Some (0, u')"
  shows "\<exists>u1 fl u2. BlockSize (start_props (WnbdProps (UContext u))) = 512 \<and>
    WnbdProps (UContext u1) = start_props (WnbdProps (UContext u)) \<and>
    start_negotiate u1 = Some (Inr fl, u2) \<and> start_disk drv ce env fl u2 = Some (0, u')"
proof -
  let ?u = "dm_upd (\<lambda>d. d\<lparr>PreallocatedRBuffSz := WNBD_DEFAULT_MAX_TRANSFER_LENGTH, PreallocatedRBuff := StAlloc env\<rparr>)
    (dm_upd (\<lambda>d. d\<lparr>WnbdProps := start_props (WnbdProps d)\<rparr>) u)"
  obtain e u1 where c: "ConnectNbdServer (StResolved env) ?u = (e, u1)" by (cases "ConnectNbdServer (StResolved env) ?u")
  then have p: "WnbdProps (UContext u1) = start_props (WnbdProps (UContext u))"
    using ConnectNbdServer_props [of "StResolved env" ?u] by simp
  have "BlockSize (start_props (WnbdProps (UContext u))) = 512"
    "\<exists>fl u2. start_negotiate u1 = Some (Inr fl, u2) \<and> start_disk drv ce env fl u2 = Some (0, u')"
    using assms c start_negotiate_error [of u1 u']
    by (auto simp: TryStart_def Let_def split: if_splits option.splits sum.splits)
  with p show ?thesis by blast
qed

text \<open>
  A successful start has made exactly one call of the driver, the creation of the disk with
  the properties of the configuration; the negotiation fills in the block count and the flags.
\<close>

lemma start_threads_driver: "start_threads drv env w es u = Some (0, u') \<Longrightarrow> UDriver u' = UDriver u"
  by (induction es arbitrary: u) (auto split: if_splits option.splits)

lemma WnbdStartDispatcher_driver:
  assumes "WnbdStartDispatcher drv env g c w k u = Some (0, u')" shows "UDriver u' = UDriver u"
proof -
  have "start_threads drv env w (map c [0..<unat k])
      (disk_upd (\<lambda>d. d\<lparr>DispatcherThreads := True, Started := True, DispatcherThreadsCount := 0\<rparr>) u) = Some (0, u')"
    using assms by (auto simp: WnbdStartDispatcher_def split: if_splits)
  from start_threads_driver [OF this] show ?thesis by simp
qed

lemma connect_keeps_driver: "UDriver (snd (ConnectNbdServer r u)) = UDriver u"
  by (auto simp: ConnectNbdServer_def split: sum.split option.split)

lemma negotiate_keeps_driver:
  "start_negotiate u = Some (Inr fl, u') \<Longrightarrow>
     UDriver u' = UDriver u \<and>
     WnbdProps (UContext u') = (WnbdProps (UContext u))\<lparr>BlockCount := BlockCount (WnbdProps (UContext u'))\<rparr>"
  by (auto simp: start_negotiate_def Let_def on_socket_def split: option.splits sum.splits if_splits)

lemma TryStart_creates:
  assumes "TryStart drv ce env u = Some (0, u')"
  shows "OpenAdapter drv (UDriver u) = 0 \<and> (\<exists>c F info.
    IoctlCreate drv ((start_props (WnbdProps (UContext u)))\<lparr>BlockCount := c, Flags := F\<rparr>) (UDriver u) = Some (0, info, UDriver u'))"
proof -
  let ?u = "dm_upd (\<lambda>d. d\<lparr>PreallocatedRBuffSz := WNBD_DEFAULT_MAX_TRANSFER_LENGTH, PreallocatedRBuff := StAlloc env\<rparr>)
    (dm_upd (\<lambda>d. d\<lparr>WnbdProps := start_props (WnbdProps d)\<rparr>) u)"
  obtain e u1 where c: "ConnectNbdServer (StResolved env) ?u = (e, u1)" by (cases "ConnectNbdServer (StResolved env) ?u")
  then have p: "WnbdProps (UContext u1) = start_props (WnbdProps (UContext u))" "UDriver u1 = UDriver u"
    using ConnectNbdServer_props [of "StResolved env" ?u] connect_keeps_driver [of "StResolved env" ?u] by simp_all
  obtain fl u2 where n: "start_negotiate u1 = Some (Inr fl, u2)" and d: "start_disk drv ce env fl u2 = Some (0, u')"
    using assms c start_negotiate_error [of u1 u']
    by (auto simp: TryStart_def Let_def split: if_splits option.splits sum.splits)
  let ?k = "BlockCount (WnbdProps (UContext u2))"
  have k: "WnbdProps (UContext u2) = (start_props (WnbdProps (UContext u)))\<lparr>BlockCount := ?k\<rparr>" "UDriver u2 = UDriver u"
    using negotiate_keeps_driver [OF n] unfolding p by simp_all
  let ?P = "(WnbdProps (UContext u2))\<lparr>Flags := nbd_flags fl (Flags (WnbdProps (UContext u2)))\<rparr>"
  obtain dk D where w: "WnbdCreate drv (StDisk env) ?P (UDriver u2) = Some (0, Some dk, D)" "UDriver u' = D"
    using d by (auto simp: start_disk_def Let_def WnbdCreate_def dest!: WnbdStartDispatcher_driver split: if_splits option.splits)
  then obtain info where o: "OpenAdapter drv (UDriver u) = 0" and i: "IoctlCreate drv ?P (UDriver u) = Some (0, info, UDriver u')"
    using k(2) by (auto simp: WnbdCreate_def split: if_splits option.splits)
  have "?P = (start_props (WnbdProps (UContext u)))\<lparr>BlockCount := ?k, Flags := nbd_flags fl (Flags (WnbdProps (UContext u2)))\<rparr>"
    by (subst k(1)) simp
  with o i show ?thesis by metis
qed


section \<open>Concrete runs\<close>

text \<open>A driver that grants everything and keeps the responses it gets.\<close>

type_synonym response_log = "(WNBD_IO_RESPONSE \<times> bytes option \<times> u32) list"

definition sample_flags :: WNBD_FLAGS where
  "sample_flags = \<lparr>ReadOnly = False, FlushSupported = False, FUASupported = False, UnmapSupported = False,
     UnmapAnchorSupported = False, UseKernelNbd = False, PersistResSupported = False, NaaIdSpecified = False,
     UseUserspaceNbd = True\<rparr>"

definition nbd_props :: WNBD_PROPERTIES where
  "nbd_props = \<lparr>InstanceName = [0x61, 0], SerialNumber = [0], Owner = [0], Flags = sample_flags, BlockCount = 0,
     BlockSize = 0, MaxUnmapDescCount = 0, Pid = 0,
     NbdProperties = \<lparr>Hostname = [0x68, 0], PortNumber = 10809, ExportName = [0x78, 0], SkipNegotiation = False\<rparr>,
     NaaIdentifier = []\<rparr>"

definition sample_info :: WNBD_CONNECTION_INFO where
  "sample_info = \<lparr>CiProperties = nbd_props, BusNumber = 0, CiTargetId = 0, CiLun = 0, CiConnectionId = 9,
     CiDiskNumber = 1, CiPNPDeviceID = []\<rparr>"

definition log_driver :: "response_log driver_calls" where
  "log_driver = \<lparr>OpenAdapter = (\<lambda>_. 0), IoctlCreate = (\<lambda>P D. Some (0, sample_info, D)),
     IoctlRemove = (\<lambda>n D. Some (0, D)), IoctlShow = (\<lambda>n D. Some (0, sample_info, D)),
     IoctlFetchRequest = (\<lambda>i b D. Some (0, zero_request, b, D)),
     IoctlSendResponse = (\<lambda>ov i R b n D. Some (0, D @ [(R, b, n)])), OverlappedResult = (\<lambda>_. 0)\<rparr>"

definition sample_close :: close_env where
  "sample_close = \<lparr>ShutdownFails = False, CloseFails = False, ClosePnp = \<lparr>LocateStatus = 0, RemoveAttempts = [(0, 0)]\<rparr>\<rparr>"

definition sample_daemon :: "sock \<Rightarrow> NbdDaemon" where
  "sample_daemon s = \<lparr>WnbdProps = nbd_props\<lparr>BlockSize := 512, BlockCount := 2048\<rparr>, Socket = s, NbdTransmissionStarted = True,
     Terminated = False, TerminateInProgress = False, WnbdDisk = True, PreallocatedRBuff = True,
     PreallocatedRBuffSz = 2097152, PendingRequests = Map.empty, ReplyDispatcher = True\<rparr>"

definition sample_socket :: sock where
  "sample_socket = \<lparr>SockOpen = True, RxBytes = [], RxChunks = [7, 3], RxEnd = RxSilent, BadLength = 10014, TxBytes = [],
     TxResults = [Accepted 5], Grants = (\<lambda>_. True)\<rparr>"

definition sample_user :: "response_log nbd" where
  "sample_user = \<lparr>UDisk = (new_disk nbd_props sample_info)\<lparr>Started := True\<rparr>, UContext = sample_daemon sample_socket, UDriver = []\<rparr>"

definition sample_system :: "response_log system" where
  "sample_system = \<lparr>Sys = sample_user, Ops = Map.empty, Sent = [], Wire = []\<rparr>"

lemma sample_serving: "serving sample_system"
  by (simp add: serving_def sample_system_def sample_user_def sample_daemon_def sample_socket_def calm_def)

lemma sample_run:
  "\<exists>S. (step log_driver sample_close)\<^sup>*\<^sup>* sample_system S \<and> Sent S = [OpFlush 5 0 0] \<and>
     Wire S = [(\<lparr>NrError = 0, NrHandle = 5\<rparr>, OpFlush 5 0 0, [])]"
proof -
  let ?op = "OpFlush 5 0 0"
  let ?S1 = "sample_system\<lparr>Sys := pend_request (op_info (block_size sample_system) ?op) (Sys sample_system),
      Ops := (Ops sample_system)(5 \<mapsto> (?op, Entered))\<rparr>"
  have 1: "step log_driver sample_close sample_system ?S1"
    using step.enter [of sample_system ?op log_driver sample_close] sample_serving by (simp add: serving_def)
  have "calm (Socket (UContext (Sys ?S1)))"
    using sample_serving by (simp add: serving_def pend_request_def)
  from transmit_calm [OF this, of "block_size ?S1" ?op log_driver sample_close] obtain u
    where u: "transmit log_driver sample_close (op_send (block_size ?S1) ?op) (Sys ?S1) = Some u" by auto
  let ?S2 = "?S1\<lparr>Sys := u, Ops := (Ops ?S1)(5 \<mapsto> (?op, ByServer)), Sent := Sent ?S1 @ [?op]\<rparr>"
  have 2: "step log_driver sample_close ?S1 ?S2" using step.frame [of ?S1 5 ?op log_driver sample_close u] u by simp
  from step.answer [of ?S2 "\<lparr>NrError = 0, NrHandle = 5\<rparr>" ?op "[]" log_driver sample_close]
  obtain S3 where 3: "step log_driver sample_close ?S2 S3" "Sent S3 = [?op]"
    "Wire S3 = [(\<lparr>NrError = 0, NrHandle = 5\<rparr>, ?op, [])]"
    by (auto simp: reply_carries_def sample_system_def)
  then show ?thesis using 1 2 by (intro exI [of _ S3] conjI) (auto intro: rtranclp.intros)
qed

theorem replies_find_their_requests_witness:
  "\<exists>S u. TxBytes (Socket (daemon S)) = NbdEncodeRequest 0 0 5 NBD_CMD_FLUSH \<and>
     ProcessNbdReply log_driver (Sys S) =
       send_reply log_driver \<lparr>NrError = 0, NrHandle = 5\<rparr>
               \<lparr>PrRequestHandle = 5, PrRequestType = WnbdReqTypeFlush, PrLength = 0\<rparr> None 0 u"
proof -
  obtain S where S: "(step log_driver sample_close)\<^sup>*\<^sup>* sample_system S" "Sent S = [OpFlush 5 0 0]"
    "Wire S = [(\<lparr>NrError = 0, NrHandle = 5\<rparr>, OpFlush 5 0 0, [])]" using sample_run by blast
  show ?thesis
    using replies_find_their_requests [OF sample_serving S(1)] S(2,3)
    by (auto simp: reply_buffer_def reply_size_def sample_system_def sample_user_def sample_daemon_def sample_socket_def)
qed

text \<open>The server of the protocol samples is found at the second address.\<close>

definition sample_start :: start_env where
  "sample_start = \<lparr>StAlloc = True, StResolved = Inr [Refused, Connected (sample_server [4, 4])], StTcp = 0, StDisk = True,
     StThreadsEnv = None, StThreadArray = True, StThreads = (\<lambda>_. 0), StWait = None\<rparr>"

definition idle_user :: "response_log nbd" where
  "idle_user = sample_user\<lparr>UContext := (sample_daemon sample_socket)\<lparr>WnbdProps := nbd_props,
     Socket := sample_socket\<lparr>SockOpen := False\<rparr>, NbdTransmissionStarted := False, WnbdDisk := False\<rparr>\<rparr>"

lemma sample_negotiated:
  assumes "WnbdProps (UContext u) = nbd_props\<lparr>BlockSize := 512, MaxUnmapDescCount := 1\<rparr>"
    and "Socket (UContext u) = sample_server [4, 4]"
  shows "\<exists>s'. start_negotiate u = Some (Inr 5, dm_upd (\<lambda>d. d\<lparr>Socket := s',
    WnbdProps := (WnbdProps d)\<lparr>BlockCount := 2048\<rparr>\<rparr>) u)"
proof -
  obtain s' where n: "NbdNegotiate [0x78] 1 no_export (sample_server [4, 4]) = Some (Inr sample_export, s')"
    using sample_negotiates by blast
  have z: "zero_export = no_export" by (simp add: zero_export_def no_export_def)
  have "block_size_ok \<lparr>Minimum = 1, Preferred = 512, Maximum = 0x200000, Received = True\<rparr> 512"
    by (simp add: block_size_ok_def)
  then show ?thesis using n assms
    by (intro exI [of _ s']) (simp add: start_negotiate_def on_socket_def Let_def z nbd_props_def cstr_def sample_export_def)
qed

lemma sample_starts: "\<exists>u'. TryStart log_driver sample_close sample_start idle_user = Some (0, u')"
proof -
  let ?u = "dm_upd (\<lambda>d. d\<lparr>PreallocatedRBuffSz := 2097152, PreallocatedRBuff := True\<rparr>)
    (dm_upd (\<lambda>d. d\<lparr>WnbdProps := start_props (WnbdProps d)\<rparr>) idle_user)"
  let ?v = "dm_upd (\<lambda>d. d\<lparr>Socket := (sample_server [4, 4])\<lparr>SockOpen := True\<rparr>\<rparr>) ?u"
  have p: "start_props nbd_props = nbd_props\<lparr>BlockSize := 512, MaxUnmapDescCount := 1\<rparr>"
    by (simp add: start_props_def nbd_props_def sample_flags_def)
  have c: "ConnectNbdServer (StResolved sample_start) ?u = (0, ?v)"
    by (simp add: ConnectNbdServer_def sample_start_def)
  have "(sample_server [4, 4])\<lparr>SockOpen := True\<rparr> = sample_server [4, 4]" by (simp add: sample_server_def)
  then obtain s' where n: "start_negotiate ?v = Some (Inr 5, dm_upd (\<lambda>d. d\<lparr>Socket := s',
      WnbdProps := (WnbdProps d)\<lparr>BlockCount := 2048\<rparr>\<rparr>) ?v)" (is "_ = Some (_, ?w)")
    using sample_negotiated [of ?v] p by (auto simp: idle_user_def)
  have "\<not> invalid_geometry (WnbdProps (UContext ?w))"
    using p by (simp add: invalid_geometry_def idle_user_def)
  then have "\<exists>u'. start_disk log_driver sample_close sample_start 5 ?w = Some (0, u')"
    by (simp add: start_disk_def Let_def invalid_geometry_def WnbdCreate_def log_driver_def sample_start_def
        WnbdStartDispatcher_def dispatcher_threads_def)
  then show ?thesis using c n p by (simp add: TryStart_def Let_def sample_start_def SetTcpFlags_def idle_user_def nbd_props_def)
qed


end
