(* ===== verification/UserIoctl.thy ===== *)
theory UserIoctl
  imports Ioctl LibWnbd
begin

text \<open>
  The calls of user space into the driver, the second half of
  \<^verbatim>\<open>libwnbd/wnbd_ioctl.cpp\<close>: one function per command, each of which fills a command
  structure and hands it to \<^verbatim>\<open>DeviceIoControl\<close>. The device is an argument, so that the
  calls run on the model of the driver as well as on any other. A call that does not return, or that
  writes outside its own structure, gives \<open>None\<close>. Log messages are left out; the conversion of
  option names to wide strings belongs to a library and is an argument.
\<close>

section \<open>Device control\<close>

text \<open>
  The operating system's part: the error of creating an event (0 if it is created), a control call
  with the lengths of its buffers, and the wait for an operation that is pending. Both give the
  error (0 for success), the number of bytes if it is stored, and what was written to the
  output buffer.
\<close>

type_synonym ('d, 'o) answer = "(u32 \<times> u32 option \<times> 'o option \<times> 'd) option"

record ('d, 'c, 'o) device =
  CreateEvent :: "'d \<Rightarrow> u32"
  DeviceIoControl :: "'c \<Rightarrow> u32 \<Rightarrow> u32 \<Rightarrow> 'd \<Rightarrow> ('d, 'o) answer"
  GetOverlappedResult :: "'c \<Rightarrow> 'd \<Rightarrow> ('d, 'o) answer"

type_synonym 'd adapter = "('d, command, out_data) device"

definition WnbdDeviceIoControl ::
    "('d, 'c, 'o) device \<Rightarrow> bool \<Rightarrow> 'c \<Rightarrow> u32 \<Rightarrow> u32 \<Rightarrow> 'd \<Rightarrow> ('d, 'o) answer" where
  "WnbdDeviceIoControl dev Overlapped c isz osz D =
     (if \<not> Overlapped \<and> CreateEvent dev D \<noteq> 0 then Some (CreateEvent dev D, None, None, D)
      else case DeviceIoControl dev c isz osz D of
             None \<Rightarrow> None
           | Some (Status, n, out, D) \<Rightarrow>
               if Status = ERROR_IO_PENDING \<and> \<not> Overlapped then GetOverlappedResult dev c D
               else Some (Status, n, out, D))"

text \<open>A command without output.\<close>

definition simple_call :: "'d adapter \<Rightarrow> bool \<Rightarrow> command \<Rightarrow> u32 \<Rightarrow> 'd \<Rightarrow> (u32 \<times> 'd) option" where
  "simple_call dev ov c isz D =
     map_option (\<lambda>(Status, _, _, D). (Status, D)) (WnbdDeviceIoControl dev ov c isz 0 D)"

section \<open>Names\<close>

abbreviation (input) ERROR_BUFFER_OVERFLOW :: u32 where "ERROR_BUFFER_OVERFLOW \<equiv> 111"
abbreviation (input) ERROR_NOT_ENOUGH_MEMORY :: u32 where "ERROR_NOT_ENOUGH_MEMORY \<equiv> 8"

text \<open>
  The macro looks at the string from its second character on. A field that is not terminated is
  read on into what follows it in the structure.
\<close>

definition STRING_OVERFLOWS :: "bytes \<Rightarrow> nat \<Rightarrow> bool" where
  "STRING_OVERFLOWS Str MaxLen \<longleftrightarrow> strlen (drop 1 Str) > MaxLen"

definition flag_bytes :: "WNBD_FLAGS \<Rightarrow> bytes" where
  "flag_bytes f =
     [of_bool (ReadOnly f) + 2 * of_bool (FlushSupported f) + 4 * of_bool (FUASupported f) +
        8 * of_bool (UnmapSupported f) + 16 * of_bool (UnmapAnchorSupported f) + 32 * of_bool (UseKernelNbd f) +
        64 * of_bool (PersistResSupported f) + 128 * of_bool (NaaIdSpecified f),
      of_bool (UseUserspaceNbd f), 0, 0]"

definition properties_overflow :: "WNBD_PROPERTIES \<Rightarrow> bool" where
  "properties_overflow P \<longleftrightarrow>
     (let tail = flag_bytes (Flags P); nbd = NbdProperties P;
          nbdtail = [of_bool (SkipNegotiation nbd), 0, 0, 0]
      in STRING_OVERFLOWS (InstanceName P @ SerialNumber P @ Owner P @ tail) WNBD_MAX_NAME_LENGTH \<or>
         STRING_OVERFLOWS (SerialNumber P @ Owner P @ tail) WNBD_MAX_NAME_LENGTH \<or>
         STRING_OVERFLOWS (Owner P @ tail) WNBD_MAX_OWNER_LENGTH \<or>
         STRING_OVERFLOWS (Hostname nbd @ le_bytes 4 (PortNumber nbd) @ ExportName nbd @ nbdtail) WNBD_MAX_NAME_LENGTH \<or>
         STRING_OVERFLOWS (ExportName nbd @ nbdtail) WNBD_MAX_NAME_LENGTH)"

text \<open>
  The characters of a name copied into a zeroed command, without a terminator: the field and the
  reserved bytes behind it, of which the field is read. \<open>None\<close> is a copy over the end of
  the structure.
\<close>

definition copy_name :: "nat \<Rightarrow> bytes \<Rightarrow> bytes option" where
  "copy_name room name =
     (if strlen name > room then None else Some (take WNBD_MAX_NAME_LENGTH (cstr name @ replicate WNBD_MAX_NAME_LENGTH 0)))"

definition option_name :: "(bytes \<Rightarrow> wstr) \<Rightarrow> bytes \<Rightarrow> wstr" where
  "option_name to_wstring Name =
     (let w = take WNBD_MAX_OPT_NAME_LENGTH (to_wstring (cstr Name))
      in w @ replicate (WNBD_MAX_NAME_LENGTH - length w) 0)"

section \<open>The commands\<close>

text \<open>A structure the caller provides for the answer keeps its contents if nothing is written.\<close>

fun got_info :: "out_data option \<Rightarrow> WNBD_CONNECTION_INFO \<Rightarrow> WNBD_CONNECTION_INFO" where
  "got_info (Some (OutInfo i)) _ = i" | "got_info _ i = i"

fun got_stats :: "out_data option \<Rightarrow> WNBD_DRV_STATS \<Rightarrow> WNBD_DRV_STATS" where
  "got_stats (Some (OutStats s)) _ = s" | "got_stats _ s = s"

fun got_version :: "out_data option \<Rightarrow> WNBD_VERSION \<Rightarrow> WNBD_VERSION" where
  "got_version (Some (OutVersion v)) _ = v" | "got_version _ v = v"

fun got_value :: "out_data option \<Rightarrow> WNBD_OPTION_VALUE \<Rightarrow> WNBD_OPTION_VALUE" where
  "got_value (Some (OutOption v)) _ = v" | "got_value _ v = v"

fun got_request :: "out_data option \<Rightarrow> bytes \<Rightarrow> WNBD_IO_REQUEST \<times> bytes" where
  "got_request (Some (OutRequest r b)) _ = (r, b)" | "got_request _ b = (zero_request, b)"

fun got_list :: "out_data option \<Rightarrow> WNBD_CONNECTION_INFO list \<Rightarrow> WNBD_CONNECTION_INFO list" where
  "got_list (Some (OutList l)) _ = l" | "got_list _ l = l"

fun got_options :: "out_data option \<Rightarrow> WNBD_OPTION list \<Rightarrow> WNBD_OPTION list" where
  "got_options (Some (OutOptions l)) _ = l" | "got_options _ l = l"

definition WnbdIoctlCreate ::
    "'d adapter \<Rightarrow> WNBD_PROPERTIES \<Rightarrow> WNBD_CONNECTION_INFO \<Rightarrow> bool \<Rightarrow> 'd \<Rightarrow>
     (u32 \<times> WNBD_CONNECTION_INFO \<times> 'd) option" where
  "WnbdIoctlCreate dev P info ov D =
     (if properties_overflow P then Some (ERROR_BUFFER_OVERFLOW, info, D)
      else map_option (\<lambda>(Status, _, out, D). (Status, got_info out info, D))
             (WnbdDeviceIoControl dev ov (IOCTL_WNBD_CREATE P) 1408 2032 D))"

text \<open>
  Removal, the only command that looks at the length of its name. The macro reads the name before
  the check for a null pointer, which is therefore never true here.
\<close>

definition WnbdIoctlRemove :: "'d adapter \<Rightarrow> bytes \<Rightarrow> bool \<Rightarrow> 'd \<Rightarrow> (u32 \<times> 'd) option" where
  "WnbdIoctlRemove dev name ov D =
     (if STRING_OVERFLOWS name WNBD_MAX_NAME_LENGTH then Some (ERROR_BUFFER_OVERFLOW, D)
      else case copy_name 372 name of
             None \<Rightarrow> None
           | Some n \<Rightarrow> simple_call dev ov (IOCTL_WNBD_REMOVE n) 376 D)"

text \<open>
  The request is copied out of the command as soon as the call returns, even if the operation is
  still pending: then it is what the command was initialised with.
\<close>

definition WnbdIoctlFetchRequest ::
    "'d adapter \<Rightarrow> u64 \<Rightarrow> WNBD_IO_REQUEST \<Rightarrow> bytes \<Rightarrow> u32 \<Rightarrow> bool \<Rightarrow> 'd \<Rightarrow>
     (u32 \<times> WNBD_IO_REQUEST \<times> bytes \<times> 'd) option" where
  "WnbdIoctlFetchRequest dev i Request Buf BufSize ov D =
     map_option (\<lambda>(Status, _, out, D).
         (Status,
          if Status \<noteq> 0 \<and> \<not> (Status = ERROR_IO_PENDING \<and> ov) then Request else fst (got_request out Buf),
          snd (got_request out Buf), D))
       (WnbdDeviceIoControl dev ov (IOCTL_WNBD_FETCH_REQ i zero_request Buf BufSize) 128 128 D)"

definition WnbdIoctlSendResponse ::
    "'d adapter \<Rightarrow> u64 \<Rightarrow> WNBD_IO_RESPONSE \<Rightarrow> bytes option \<Rightarrow> u32 \<Rightarrow> bool \<Rightarrow> 'd \<Rightarrow> (u32 \<times> 'd) option" where
  "WnbdIoctlSendResponse dev i R Buf BufSize ov D =
     simple_call dev ov (IOCTL_WNBD_SEND_RSP i \<lparr>Response = R, RspBuffer = Buf, RspBufferSize = BufSize\<rparr>) 144 D"

definition WnbdIoctlSetDiskSize :: "'d adapter \<Rightarrow> u64 \<Rightarrow> u64 \<Rightarrow> bool \<Rightarrow> 'd \<Rightarrow> (u32 \<times> 'd) option" where
  "WnbdIoctlSetDiskSize dev i n ov D = simple_call dev ov (IOCTL_WNBD_SET_DISK_SIZE i n) 56 D"

text \<open>The buffer size is replaced by the number of bytes.\<close>

definition WnbdIoctlList ::
    "'d adapter \<Rightarrow> WNBD_CONNECTION_INFO list \<Rightarrow> u32 \<Rightarrow> bool \<Rightarrow> 'd \<Rightarrow>
     (u32 \<times> WNBD_CONNECTION_INFO list \<times> u32 \<times> 'd) option" where
  "WnbdIoctlList dev l BufferSize ov D =
     map_option (\<lambda>(Status, n, out, D). (Status, got_list out l, (case n of None \<Rightarrow> BufferSize | Some n \<Rightarrow> n), D))
       (WnbdDeviceIoControl dev ov IOCTL_WNBD_LIST 4 BufferSize D)"

text \<open>Statistics and show copy the name without looking at its length.\<close>

definition WnbdIoctlStats ::
    "'d adapter \<Rightarrow> bytes \<Rightarrow> WNBD_DRV_STATS \<Rightarrow> bool \<Rightarrow> 'd \<Rightarrow> (u32 \<times> WNBD_DRV_STATS \<times> 'd) option" where
  "WnbdIoctlStats dev name s ov D =
     (case copy_name 288 name of
        None \<Rightarrow> None
      | Some n \<Rightarrow> map_option (\<lambda>(Status, _, out, D). (Status, got_stats out s, D))
                    (WnbdDeviceIoControl dev ov (IOCTL_WNBD_STATS n) 292 192 D))"

definition WnbdIoctlShow ::
    "'d adapter \<Rightarrow> bytes \<Rightarrow> WNBD_CONNECTION_INFO \<Rightarrow> bool \<Rightarrow> 'd \<Rightarrow> (u32 \<times> WNBD_CONNECTION_INFO \<times> 'd) option" where
  "WnbdIoctlShow dev name info ov D =
     (case copy_name 288 name of
        None \<Rightarrow> None
      | Some n \<Rightarrow> map_option (\<lambda>(Status, _, out, D). (Status, got_info out info, D))
                    (WnbdDeviceIoControl dev ov (IOCTL_WNBD_SHOW n) 292 2032 D))"

text \<open>The limits of a disk, from the port driver's own query on the disk; both are written on success only.\<close>

record IO_CAPABILITY =
  LunMaxIoCount :: u32
  AdapterMaxIoCount :: u32

definition WnbdIoctlGetIOLimits ::
    "('d, unit, IO_CAPABILITY) device \<Rightarrow> bool \<Rightarrow> 'd \<Rightarrow> (u32 \<times> (u32 \<times> u32) option \<times> 'd) option" where
  "WnbdIoctlGetIOLimits dev ov D =
     map_option (\<lambda>(Status, _, out, D).
         if Status \<noteq> 0 then (Status, None, D)
         else (let c = (case out of None \<Rightarrow> \<lparr>LunMaxIoCount = 0, AdapterMaxIoCount = 0\<rparr> | Some c \<Rightarrow> c)
               in (0, Some (LunMaxIoCount c, AdapterMaxIoCount c), D)))
       (WnbdDeviceIoControl dev ov () 12 16 D)"

definition WnbdIoctlReloadConfig :: "'d adapter \<Rightarrow> bool \<Rightarrow> 'd \<Rightarrow> (u32 \<times> 'd) option" where
  "WnbdIoctlReloadConfig dev ov D = simple_call dev ov IOCTL_WNBD_RELOAD_CONFIG 4 D"

definition WnbdIoctlPing :: "'d adapter \<Rightarrow> bool \<Rightarrow> 'd \<Rightarrow> (u32 \<times> 'd) option" where
  "WnbdIoctlPing dev ov D = simple_call dev ov IOCTL_WNBD_PING 4 D"

definition WnbdIoctlGetDrvOpt ::
    "(bytes \<Rightarrow> wstr) \<Rightarrow> 'd adapter \<Rightarrow> bytes \<Rightarrow> WNBD_OPTION_VALUE \<Rightarrow> bool \<Rightarrow> bool \<Rightarrow> 'd \<Rightarrow>
     (u32 \<times> WNBD_OPTION_VALUE \<times> 'd) option" where
  "WnbdIoctlGetDrvOpt to_wstring dev Name v Persistent ov D =
     map_option (\<lambda>(Status, _, out, D). (Status, got_value out v, D))
       (WnbdDeviceIoControl dev ov (IOCTL_WNBD_GET_DRV_OPT (option_name to_wstring Name) Persistent) 552 584 D)"

definition WnbdIoctlSetDrvOpt ::
    "(bytes \<Rightarrow> wstr) \<Rightarrow> 'd adapter \<Rightarrow> bytes \<Rightarrow> WNBD_OPTION_VALUE \<Rightarrow> bool \<Rightarrow> bool \<Rightarrow> 'd \<Rightarrow> (u32 \<times> 'd) option" where
  "WnbdIoctlSetDrvOpt to_wstring dev Name v Persistent ov D =
     simple_call dev ov (IOCTL_WNBD_SET_DRV_OPT (option_name to_wstring Name) v Persistent) 1144 D"

definition WnbdIoctlResetDrvOpt ::
    "(bytes \<Rightarrow> wstr) \<Rightarrow> 'd adapter \<Rightarrow> bytes \<Rightarrow> bool \<Rightarrow> bool \<Rightarrow> 'd \<Rightarrow> (u32 \<times> 'd) option" where
  "WnbdIoctlResetDrvOpt to_wstring dev Name Persistent ov D =
     simple_call dev ov (IOCTL_WNBD_RESET_DRV_OPT (option_name to_wstring Name) Persistent) 552 D"

definition WnbdIoctlListDrvOpt ::
    "'d adapter \<Rightarrow> WNBD_OPTION list \<Rightarrow> u32 \<Rightarrow> bool \<Rightarrow> bool \<Rightarrow> 'd \<Rightarrow>
     (u32 \<times> WNBD_OPTION list \<times> u32 \<times> 'd) option" where
  "WnbdIoctlListDrvOpt dev l BufferSize Persistent ov D =
     map_option (\<lambda>(Status, n, out, D). (Status, got_options out l, (case n of None \<Rightarrow> BufferSize | Some n \<Rightarrow> n), D))
       (WnbdDeviceIoControl dev ov (IOCTL_WNBD_LIST_DRV_OPT Persistent) 40 BufferSize D)"

definition WnbdIoctlVersion ::
    "'d adapter \<Rightarrow> WNBD_VERSION \<Rightarrow> bool \<Rightarrow> 'd \<Rightarrow> (u32 \<times> WNBD_VERSION \<times> 'd) option" where
  "WnbdIoctlVersion dev v ov D =
     map_option (\<lambda>(Status, _, out, D). (Status, got_version out v, D))
       (WnbdDeviceIoControl dev ov IOCTL_WNBD_VERSION 4 396 D)"

section \<open>Removing every disk\<close>

fun remove_each :: "'d adapter \<Rightarrow> bytes list \<Rightarrow> u32 \<Rightarrow> 'd \<Rightarrow> (u32 \<times> 'd) option" where
  "remove_each dev [] Status D = Some (Status, D)"
| "remove_each dev (n # ns) Status D =
     (case WnbdIoctlRemove dev n False D of
        None \<Rightarrow> None
      | Some (Status, D) \<Rightarrow> if Status \<noteq> 0 then Some (Status, D) else remove_each dev ns Status D)"

text \<open>
  New mappings are forbidden first. The size of the list is asked for with an empty buffer, and
  only whether it is zero is looked at; then the buffer is allocated, zeroed, so that it is an
  empty list if nothing is written to it.
\<close>

definition forbid :: WNBD_OPTION_VALUE where
  "forbid = \<lparr>ValType = WnbdOptBool, Data = bool_data False\<rparr>"

definition new_mappings_allowed :: bytes where
  "new_mappings_allowed = map of_char ''NewMappingsAllowed'' @ [0]"

definition WnbdRemoveAllDisks ::
    "(bytes \<Rightarrow> wstr) \<Rightarrow> 'd adapter \<Rightarrow> (u32 \<Rightarrow> bool) \<Rightarrow> 'd \<Rightarrow> (u32 \<times> 'd) option" where
  "WnbdRemoveAllDisks to_wstring dev granted D =
     (case WnbdIoctlSetDrvOpt to_wstring dev new_mappings_allowed forbid False False D of
        None \<Rightarrow> None
      | Some (Status, D) \<Rightarrow>
          if Status \<noteq> 0 then Some (Status, D)
          else case WnbdIoctlList dev [] 0 False D of
                 None \<Rightarrow> None
               | Some (Status, _, BufferSize, D) \<Rightarrow>
                   if BufferSize = 0 then Some (Status, D)
                   else if \<not> granted BufferSize then Some (ERROR_NOT_ENOUGH_MEMORY, D)
                   else case WnbdIoctlList dev [] BufferSize False D of
                          None \<Rightarrow> None
                        | Some (Status, l, _, D) \<Rightarrow>
                            if Status \<noteq> 0 then Some (Status, D)
                            else remove_each dev (map (\<lambda>i. InstanceName (CiProperties i)) l) Status D)"

section \<open>The library over the calls\<close>

text \<open>
  What the library model asks of the driver, by the calls. Opening the adapter and waiting for an
  operation that the caller overlapped are separate.
\<close>

definition calls_of :: "'d adapter \<Rightarrow> ('d \<Rightarrow> u32) \<Rightarrow> ('d \<Rightarrow> u32) \<Rightarrow> 'd driver_calls" where
  "calls_of dev opened waited =
     \<lparr>OpenAdapter = opened,
      IoctlCreate = (\<lambda>P. WnbdIoctlCreate dev P zero_info False),
      IoctlRemove = (\<lambda>n. WnbdIoctlRemove dev n False),
      IoctlShow = (\<lambda>n. WnbdIoctlShow dev n zero_info False),
      IoctlFetchRequest = (\<lambda>i Buf. WnbdIoctlFetchRequest dev i zero_request Buf 0x200000 True),
      IoctlSendResponse = (\<lambda>ov i R Buf n. WnbdIoctlSendResponse dev i R Buf n ov),
      OverlappedResult = waited\<rparr>"

end
