(* ===== verification/Contract.thy ===== *)
theory Contract
  imports NbdDaemon
begin

text \<open>
  The contract between the library and the driver: the calls keep an invariant of the driver. Every
  operation of the library and of the NBD daemon then keeps it, whatever the socket, the server and
  the operating system do.
\<close>

section \<open>The contract\<close>

locale driver_contract =
  fixes drv :: "'d driver_calls" and ok :: "'d \<Rightarrow> bool"
  assumes create_ok: "IoctlCreate drv P D = Some (e, info, D') \<Longrightarrow> ok D \<Longrightarrow> ok D'"
    and remove_ok: "IoctlRemove drv name D = Some (e, D') \<Longrightarrow> ok D \<Longrightarrow> ok D'"
    and show_ok: "IoctlShow drv name D = Some (e, info, D') \<Longrightarrow> ok D \<Longrightarrow> ok D'"
    and fetch_ok: "IoctlFetchRequest drv i b D = Some (e, r, b', D') \<Longrightarrow> ok D \<Longrightarrow> ok D'"
    and send_ok: "IoctlSendResponse drv ov i rsp data n D = Some (e, D') \<Longrightarrow> ok D \<Longrightarrow> ok D'"

text \<open>Callbacks that keep the invariant.\<close>

definition keeps :: "('d \<Rightarrow> bool) \<Rightarrow> (('c, 'd) user \<Rightarrow> ('c, 'd) user option) \<Rightarrow> bool" where
  "keeps ok f \<longleftrightarrow> (\<forall>u u'. f u = Some u' \<longrightarrow> ok (UDriver u) \<longrightarrow> ok (UDriver u'))"

definition interface_keeps :: "('d \<Rightarrow> bool) \<Rightarrow> ('c, 'd) user WNBD_INTERFACE \<Rightarrow> bool" where
  "interface_keeps ok I \<longleftrightarrow>
     (\<forall>f. IfRead I = Some f \<longrightarrow> (\<forall>h a n fua. keeps ok (f h a n fua))) \<and>
     (\<forall>f. IfWrite I = Some f \<longrightarrow> (\<forall>h b a n fua. keeps ok (f h b a n fua))) \<and>
     (\<forall>f. IfFlush I = Some f \<longrightarrow> (\<forall>h a n. keeps ok (f h a n))) \<and>
     (\<forall>f. IfUnmap I = Some f \<longrightarrow> (\<forall>h b n. keeps ok (f h b n))) \<and>
     (\<forall>f. IfPersistResIn I = Some f \<longrightarrow> (\<forall>h a. keeps ok (f h a))) \<and>
     (\<forall>f. IfPersistResOut I = Some f \<longrightarrow> (\<forall>h a s t b n. keeps ok (f h a s t b n)))"

lemma keepsD: "keeps ok f \<Longrightarrow> f u = Some u' \<Longrightarrow> ok (UDriver u) \<Longrightarrow> ok (UDriver u')"
  by (auto simp: keeps_def)

lemma keepsI: "(\<And>u u'. f u = Some u' \<Longrightarrow> ok (UDriver u) \<Longrightarrow> ok (UDriver u')) \<Longrightarrow> keeps ok f"
  by (simp add: keeps_def)

lemma keeps_counted: "(\<And>u. UDriver (g u) = UDriver u) \<Longrightarrow> keeps ok f \<Longrightarrow> keeps ok (\<lambda>u. map_option g (f u))"
  by (auto simp: keeps_def)

lemma serve_keeps:
  assumes "interface_keeps ok I" "serve I Rq Buf P = Inr f"
  shows "keeps ok f"
proof (cases "RequestType Rq")
  case WnbdReqTypeRead
  then show ?thesis using assms
    by (auto simp: serve_def interface_keeps_def split: option.splits intro!: keeps_counted)
next
  case WnbdReqTypeWrite
  then show ?thesis using assms
    by (auto simp: serve_def interface_keeps_def split: option.splits intro!: keeps_counted)
next
  case WnbdReqTypeDisconnect
  then show ?thesis using assms(2) by (auto simp: serve_def keeps_def)
qed (use assms in \<open>auto simp: serve_def interface_keeps_def split: option.splits if_splits\<close>)

section \<open>The library\<close>

context driver_contract
begin

lemma WnbdCreate_ok: "WnbdCreate drv g P D = Some (e, dk, D') \<Longrightarrow> ok D \<Longrightarrow> ok D'"
  by (auto simp: WnbdCreate_def dest!: create_ok split: if_splits option.splits)

lemma remove_hard_ok: "remove_hard drv n f D = Some (e, D') \<Longrightarrow> ok D \<Longrightarrow> ok D'"
  by (auto simp: remove_hard_def dest!: remove_ok)

lemma WnbdShow_ok: "WnbdShow drv n D = Some (e, i, D') \<Longrightarrow> ok D \<Longrightarrow> ok D'"
  by (auto simp: WnbdShow_def dest!: show_ok split: if_splits)

lemma WnbdRemoveEx_ok: "WnbdRemoveEx drv env n opt D = Some (e, D') \<Longrightarrow> ok D \<Longrightarrow> ok D'"
  by (auto simp: WnbdRemoveEx_def Let_def dest!: remove_hard_ok WnbdShow_ok split: if_splits option.splits)

lemma WnbdRemove_ok: "WnbdRemove drv env opt u = Some (e, u') \<Longrightarrow> ok (UDriver u) \<Longrightarrow> ok (UDriver u')"
  by (auto simp: WnbdRemove_def dest!: WnbdRemoveEx_ok split: if_splits option.splits)

lemma WnbdSendResponseEx_ok:
  "WnbdSendResponseEx drv R b n ov u = Some (e, u') \<Longrightarrow> ok (UDriver u) \<Longrightarrow> ok (UDriver u')"
  by (auto simp: WnbdSendResponseEx_def Let_def dest!: send_ok split: if_splits option.splits)

lemma refuse_ok: "refuse drv asc Rq u = Some u' \<Longrightarrow> ok (UDriver u) \<Longrightarrow> ok (UDriver u')"
  by (auto simp: refuse_def WnbdSendResponse_def Let_def dest!: WnbdSendResponseEx_ok)

lemma WnbdHandleRequest_ok:
  "interface_keeps ok I \<Longrightarrow> WnbdHandleRequest drv I Rq Buf u = Some u' \<Longrightarrow> ok (UDriver u) \<Longrightarrow> ok (UDriver u')"
  by (auto simp: WnbdHandleRequest_def Let_def dest!: refuse_ok keepsD [OF serve_keeps] split: sum.splits)

lemma dispatcher_pass_ok:
  "interface_keeps ok I \<Longrightarrow> dispatcher_pass drv I r Buf u = Some (x, u') \<Longrightarrow> ok (UDriver u) \<Longrightarrow> ok (UDriver u')"
  by (auto simp: dispatcher_pass_def Let_def dest!: fetch_ok dest!: WnbdHandleRequest_ok split: if_splits option.splits)

lemma dispatcher_loop_ok:
  assumes "interface_keeps ok I"
  shows "dispatcher_loop drv I rs Buf u = Some (e, u') \<Longrightarrow> ok (UDriver u) \<Longrightarrow> ok (UDriver u')"
proof (induction rs arbitrary: Buf u)
  case (Cons r rs)
  then show ?case
    using dispatcher_pass_ok [OF assms, of r Buf u]
    by (subst (asm) dispatcher_loop.simps) (auto split: if_splits option.splits sum.splits)
qed (subst (asm) dispatcher_loop.simps, auto split: if_splits)

lemma WnbdStopDispatcher_ok:
  "WnbdStopDispatcher drv env opt u = Some (e, u') \<Longrightarrow> ok (UDriver u) \<Longrightarrow> ok (UDriver u')"
  by (auto simp: WnbdStopDispatcher_def Let_def dest!: WnbdRemove_ok split: if_splits)

lemma WnbdDispatcherLoop_ok:
  assumes "interface_keeps ok I" "WnbdDispatcherLoop drv env I ev g rs Buf u = Some (e, u')" "ok (UDriver u)"
  shows "ok (UDriver u')"
  using assms
  by (auto simp: WnbdDispatcherLoop_def dest!: WnbdStopDispatcher_ok dispatcher_loop_ok split: if_splits option.splits)

lemma start_threads_ok:
  "start_threads drv env w es u = Some (e, u') \<Longrightarrow> ok (UDriver u) \<Longrightarrow> ok (UDriver u')"
  by (induction es arbitrary: u) (auto dest!: WnbdStopDispatcher_ok split: if_splits option.splits)

lemma WnbdStartDispatcher_ok:
  "WnbdStartDispatcher drv env g c w k u = Some (e, u') \<Longrightarrow> ok (UDriver u) \<Longrightarrow> ok (UDriver u')"
  by (auto simp: WnbdStartDispatcher_def dest!: start_threads_ok split: if_splits)

end

section \<open>The daemon\<close>

text \<open>What happens on the socket does not touch the driver.\<close>

lemma on_socket_driver: "on_socket m u = Some (r, u') \<Longrightarrow> UDriver u' = UDriver u"
  by (auto simp: on_socket_def split: option.splits)

lemma DisconnectNbd_driver: "DisconnectNbd ce u = Some (r, u') \<Longrightarrow> UDriver u' = UDriver u"
  by (auto simp: DisconnectNbd_def Let_def dest!: on_socket_driver split: if_splits option.splits)

lemma ConnectNbdServer_driver: "UDriver (snd (ConnectNbdServer r u)) = UDriver u"
  by (auto simp: ConnectNbdServer_def split: sum.split option.split)

lemma start_negotiate_driver: "start_negotiate u = Some (r, u') \<Longrightarrow> UDriver u' = UDriver u"
  by (auto simp: start_negotiate_def Let_def dest!: on_socket_driver split: if_splits option.splits sum.splits)

lemma pend_request_driver [simp]: "UDriver (pend_request info u) = UDriver u"
  by (simp add: pend_request_def)

text \<open>
  What the threads of a running daemon do, in any order: the start, a pass of a dispatcher thread,
  its end, a pass of the reply worker, shutting down from any thread, the destructor, and the server
  sending.
\<close>

inductive daemon_step :: "'d driver_calls \<Rightarrow> close_env \<Rightarrow> 'd nbd \<Rightarrow> 'd nbd \<Rightarrow> bool" for drv ce where
  start: "Start drv ce env u = Some (e, u') \<Longrightarrow> daemon_step drv ce u u'"
| pass: "dispatcher_pass drv (WnbdInterface drv ce) r Buf u = Some (x, u') \<Longrightarrow> daemon_step drv ce u u'"
| stop: "WnbdStopDispatcher drv pnp opt u = Some (e, u') \<Longrightarrow> daemon_step drv ce u u'"
| reply: "ProcessNbdReply drv u = Some (e, u') \<Longrightarrow> daemon_step drv ce u u'"
| shutdown: "Shutdown drv ce hard u = Some (e, u') \<Longrightarrow> daemon_step drv ce u u'"
| destroy: "destroy_daemon drv ce w j u = Some u' \<Longrightarrow> daemon_step drv ce u u'"
| server: "daemon_step drv ce u (dm_upd (\<lambda>d. d\<lparr>Socket := (Socket d)\<lparr>RxBytes := RxBytes (Socket d) @ bs\<rparr>\<rparr>) u)"

context driver_contract
begin

lemma Shutdown_ok: "Shutdown drv ce hard u = Some (e, u') \<Longrightarrow> ok (UDriver u) \<Longrightarrow> ok (UDriver u')"
  by (auto simp: Shutdown_def Let_def dest!: WnbdRemove_ok DisconnectNbd_driver split: if_splits option.splits)

lemma transmit_ok: "transmit drv ce m u = Some u' \<Longrightarrow> ok (UDriver u) \<Longrightarrow> ok (UDriver u')"
  by (auto simp: transmit_def dest!: Shutdown_ok on_socket_driver split: option.splits sum.splits)

lemma WnbdInterface_keeps: "interface_keeps ok (WnbdInterface drv ce)"
  by (auto simp: interface_keeps_def WnbdInterface_def Read_def Write_def Flush_def Unmap_def Let_def
      intro!: keepsI dest!: transmit_ok)

lemma send_reply_ok: "send_reply drv R info b n u = Some (e, u') \<Longrightarrow> ok (UDriver u) \<Longrightarrow> ok (UDriver u')"
  by (auto simp: send_reply_def Let_def dest!: WnbdSendResponseEx_ok)

lemma ProcessNbdReply_ok: "ProcessNbdReply drv u = Some (e, u') \<Longrightarrow> ok (UDriver u) \<Longrightarrow> ok (UDriver u')"
  by (auto simp: ProcessNbdReply_def Let_def dest!: on_socket_driver send_reply_ok
      split: option.splits sum.splits if_splits prod.splits)

lemma worker_loop_ok: "worker_loop drv ce rs u = Some u' \<Longrightarrow> ok (UDriver u) \<Longrightarrow> ok (UDriver u')"
proof (induction rs arbitrary: u)
  case (Cons r rs)
  then show ?case
    by (subst (asm) worker_loop.simps) (auto dest!: Shutdown_ok ProcessNbdReply_ok split: if_splits option.splits)
qed (subst (asm) worker_loop.simps, auto split: if_splits)

lemma NbdReplyWorker_ok: "NbdReplyWorker drv ce ev rs u = Some u' \<Longrightarrow> ok (UDriver u) \<Longrightarrow> ok (UDriver u')"
  by (auto simp: NbdReplyWorker_def dest!: Shutdown_ok worker_loop_ok split: if_splits)

lemma start_disk_ok: "start_disk drv ce env fl u = Some (e, u') \<Longrightarrow> ok (UDriver u) \<Longrightarrow> ok (UDriver u')"
  by (auto simp: start_disk_def Let_def dest!: WnbdStartDispatcher_ok dest!: WnbdCreate_ok split: if_splits option.splits)

lemma TryStart_ok:
  assumes "TryStart drv ce env u = Some (e, u')" "ok (UDriver u)"
  shows "ok (UDriver u')"
proof -
  have c: "UDriver u2 = UDriver u1" if "ConnectNbdServer r u1 = (e, u2)" for r u1 e u2
    using ConnectNbdServer_driver [of r u1] that by simp
  show ?thesis using assms
    by (auto simp: TryStart_def Let_def dest!: c dest!: start_negotiate_driver start_disk_ok
        split: if_splits option.splits sum.splits prod.splits)
qed

lemma Start_ok: "Start drv ce env u = Some (e, u') \<Longrightarrow> ok (UDriver u) \<Longrightarrow> ok (UDriver u')"
  by (auto simp: Start_def dest!: TryStart_ok Shutdown_ok split: if_splits option.splits)

lemma destroy_daemon_ok: "destroy_daemon drv ce w j u = Some u' \<Longrightarrow> ok (UDriver u) \<Longrightarrow> ok (UDriver u')"
  by (auto simp: destroy_daemon_def Let_def dest!: Shutdown_ok split: if_splits option.splits)

lemma WnbdRunNbdDaemon_ok:
  "WnbdRunNbdDaemon drv ce env w j u = Some (e, u') \<Longrightarrow> ok (UDriver u) \<Longrightarrow> ok (UDriver u')"
  by (auto simp: WnbdRunNbdDaemon_def dest!: Start_ok destroy_daemon_ok split: if_splits option.splits)

lemma daemon_step_ok: "daemon_step drv ce u u' \<Longrightarrow> ok (UDriver u) \<Longrightarrow> ok (UDriver u')"
  by (induction rule: daemon_step.induct)
     (auto dest!: Start_ok dispatcher_pass_ok [OF WnbdInterface_keeps] WnbdStopDispatcher_ok ProcessNbdReply_ok
        Shutdown_ok destroy_daemon_ok)

lemma daemon_run_ok: "(daemon_step drv ce)\<^sup>*\<^sup>* u u' \<Longrightarrow> ok (UDriver u) \<Longrightarrow> ok (UDriver u')"
  by (induction rule: rtranclp_induct) (auto intro: daemon_step_ok)

end

end
