(* ===== verification/Kernel.thy ===== *)
theory Kernel
  imports UserIoctl IoctlProps Contract
begin

text \<open>
  The library on the driver: the device of \<^verbatim>\<open>libwnbd/wnbd_ioctl.cpp\<close> is the model of
  the driver, so that a call of the library runs through the marshalling of its command and the
  command switch of \<^verbatim>\<open>driver/userspace.c\<close>. What the library relies on is a contract, and
  every operation of the library and of the NBD daemon keeps it.
\<close>

section \<open>The driver as a device\<close>

text \<open>The driver and the number of commands it has executed.\<close>

record 'r kernel =
  Driver :: "'r driver"
  Commands :: nat

text \<open>
  The operating system between the two: the Win32 code of a status, the error of creating an event,
  the process, how the system buffer of a command reads as an option value, and what the
  kernel answers the driver during a command.
\<close>

record 'r machine =
  DosError :: "u32 \<Rightarrow> u32"
  EventError :: "nat \<Rightarrow> u32"
  Process :: u32
  AsValue :: "command \<Rightarrow> WNBD_OPTION_VALUE"
  Answers :: "nat \<Rightarrow> 'r driver \<Rightarrow> 'r ioctl_env"

definition NT_ERROR :: "u32 \<Rightarrow> bool" where
  "NT_ERROR St \<longleftrightarrow> St \<ge> 0xC0000000"

text \<open>The error of a control call by the status of its request; warnings are errors to user space.\<close>

definition io_status :: "(u32 \<Rightarrow> u32) \<Rightarrow> u32 \<Rightarrow> u32" where
  "io_status conv St =
     (if St = STATUS_PENDING then ERROR_IO_PENDING else if St < 0x80000000 then 0 else conv St)"

text \<open>
  The system buffer is copied back unless the status is an error. The data of a fetched request is
  not in the system buffer: the driver has written it to the caller's memory.
\<close>

definition copied_out :: "u32 \<Rightarrow> command \<Rightarrow> out_data \<Rightarrow> out_data option" where
  "copied_out St c out =
     (if \<not> NT_ERROR St then Some out
      else case (c, out) of
             (IOCTL_WNBD_FETCH_REQ i req _ _, OutRequest _ user) \<Rightarrow> Some (OutRequest req user)
           | _ \<Rightarrow> None)"

definition service_irp :: "'r machine \<Rightarrow> command \<Rightarrow> u32 \<Rightarrow> u32 \<Rightarrow> IRP" where
  "service_irp M c isz osz =
     \<lparr>ServiceIrp = True, SystemBuffer = Some c, InputBufferLength = isz, OutputBufferLength = osz,
      RequestorProcessId = Process M, SystemBufferAsValue = AsValue M c\<rparr>"

definition driver_device :: "'r machine \<Rightarrow> 'r kernel adapter" where
  "driver_device M =
     \<lparr>CreateEvent = (\<lambda>K. EventError M (Commands K)),
      DeviceIoControl = (\<lambda>c isz osz K.
        case WnbdHwProcessServiceRequest True (Answers M (Commands K) (Driver K)) (service_irp M c isz osz) (Driver K) of
          Returned (_, r) \<Rightarrow>
            Some (io_status (DosError M) (RStatus r),
                  (if NT_ERROR (RStatus r) then None
                   else Some (case RInformation r of None \<Rightarrow> 0 | Some n \<Rightarrow> of_nat n)),
                  copied_out (RStatus r) c (ROutput r), \<lparr>Driver = RDriver r, Commands = Commands K + 1\<rparr>)
        | _ \<Rightarrow> None),
      GetOverlappedResult = (\<lambda>_ _. None)\<rparr>"

abbreviation library :: "'r machine \<Rightarrow> ('r kernel \<Rightarrow> u32) \<Rightarrow> ('r kernel \<Rightarrow> u32) \<Rightarrow> 'r kernel driver_calls" where
  "library M opened waited \<equiv> calls_of (driver_device M) opened waited"

text \<open>A command that the driver executes, seen from user space.\<close>

lemma control_call_success:
  assumes "WnbdParseUserIOCTL (Answers M (Commands K) (Driver K)) (service_irp M c isz osz) (Driver K) = Returned r"
    and "RStatus r = STATUS_SUCCESS" "ov \<or> EventError M (Commands K) = 0"
  shows "WnbdDeviceIoControl (driver_device M) ov c isz osz K =
    Some (0, Some (case RInformation r of None \<Rightarrow> 0 | Some n \<Rightarrow> of_nat n), Some (ROutput r),
      \<lparr>Driver = RDriver r, Commands = Commands K + 1\<rparr>)"
  using assms
  by (auto simp: WnbdDeviceIoControl_def driver_device_def WnbdHwProcessServiceRequest_def io_status_def NT_ERROR_def
      copied_out_def)

lemma control_call_returned:
  assumes "WnbdDeviceIoControl (driver_device M) ov c isz osz K = Some (St, n, out, K')"
  shows "K' = K \<or> (\<exists>r. WnbdParseUserIOCTL (Answers M (Commands K) (Driver K)) (service_irp M c isz osz) (Driver K) = Returned r \<and>
    K' = \<lparr>Driver = RDriver r, Commands = Commands K + 1\<rparr>)"
  using assms
  by (auto simp: WnbdDeviceIoControl_def driver_device_def WnbdHwProcessServiceRequest_def
      split: if_splits run.splits option.splits prod.splits)

section \<open>Connection ids\<close>

text \<open>A command draws at most one connection id.\<close>

abbreviation ids :: "WNBD_EXTENSION \<Rightarrow> u64" where
  "ids x \<equiv> ConnectionIdCounter x"

lemma find_device_ids: "find_device P a ps x = (r, x') \<Longrightarrow> ids x' = ids x"
  by (auto simp: find_device_def Let_def split: option.splits if_splits prod.splits)

lemma finders_ids:
  "WnbdFindDeviceByInstanceName n a x = (r, x') \<Longrightarrow> ids x' = ids x"
  "WnbdFindDeviceByConnId i a x = (r, x') \<Longrightarrow> ids x' = ids x"
  unfolding WnbdFindDeviceByInstanceName_def WnbdFindDeviceByConnId_def by (rule find_device_ids, assumption)+

lemma monitor_ids [simp]: "ids (monitor_wake p x) = ids x"
  by (simp add: monitor_wake_def)

lemma monitor_teardown_ids: "ids (snd (monitor_teardown opts now p s)) = ids (snd s)"
  by (cases s) (simp add: monitor_teardown_def clear_bit_def Let_def split_beta)

lemma delete_ids: "WnbdDeleteConnection opts now n (m, x) = Some (St, m', x') \<Longrightarrow> ids x' = ids x"
proof -
  have t: "ids x' = ids y" if "monitor_teardown opts now p (m, y) = (m', x')" for p y
    using monitor_teardown_ids [of opts now p "(m, y)"] that by simp
  assume "WnbdDeleteConnection opts now n (m, x) = Some (St, m', x')"
  then show ?thesis
    by (auto simp: WnbdDeleteConnection_def WnbdDeviceMonitorThread_def Let_def dest!: finders_ids t
        split: prod.splits option.splits if_splits)
qed

lemma create_ids:
  assumes "adapter_ok x" "env_ok env m x" "ids x \<noteq> - 1"
    and "WnbdCreateConnection env opts P info (m, x) = (St, info', m', x')"
  shows "ids x' = ids x \<or> ids x' = ids x + 1"
  using assms(4)
proof (rule WnbdCreateConnection_cases [OF assms(1-3)], goal_cases)
  case 3
  then show ?case by (auto simp: rolled_back_def)
next
  case 4
  then show ?case by (auto simp: created_def Let_def)
qed (simp_all add: referenced_def)

lemma ioctl_command_ids:
  assumes "driver_ok D" "ioctl_env_ok env D" "r \<in> results (ioctl_command env irp c D)"
  shows "unat (ids (DrvExt (RDriver r))) \<le> unat (ids (DrvExt D)) + 1"
proof -
  have "ids (DrvExt (RDriver r)) = ids (DrvExt D) \<or> ids (DrvExt (RDriver r)) = ids (DrvExt D) + 1"
  proof (cases c)
    case (IOCTL_WNBD_CREATE P)
    show ?thesis
      using assms create_ids [of "DrvExt D" "IeCreate env" "DrvMem D"]
      by (fastforce simp: IOCTL_WNBD_CREATE ioctl_create_def Let_def driver_ok_def ioctl_env_ok_def split: if_splits prod.splits)
  next
    case (IOCTL_WNBD_REMOVE n)
    show ?thesis
      using assms(3)
      by (auto simp: IOCTL_WNBD_REMOVE ioctl_remove_def delete_started_def Let_def dest!: finders_ids delete_ids
          split: if_splits option.splits prod.splits)
  next
    case IOCTL_WNBD_LIST
    then show ?thesis using assms(3) by (auto dest: ioctl_reports)
  qed (use assms(3) in \<open>auto simp: ioctl_query_def ioctl_fetch_def ioctl_send_def ioctl_version_def
        ioctl_get_opt_def ioctl_set_opt_def ioctl_reset_opt_def ioctl_list_opt_def WnbdSetDiskSize_def Let_def
        dest!: finders_ids split: if_splits option.splits prod.splits run.splits\<close>)
  moreover have "unat (w + 1) \<le> unat w + 1" for w :: u64 by (simp add: unat_word_ariths)
  ultimately show ?thesis by auto
qed

section \<open>The driver keeps the contract\<close>

text \<open>
  What the kernel promises in every state: memory that is not in use, a clear bit, no thread
  without its object. The invariant covers as many commands as there are connection ids.
\<close>

definition lawful_machine :: "'r machine \<Rightarrow> bool" where
  "lawful_machine M \<longleftrightarrow>
     (\<forall>n D. driver_ok D \<longrightarrow> env_ok (IeCreate (Answers M n D)) (DrvMem D) (DrvExt D))"

definition kernel_ok :: "'r machine \<Rightarrow> 'r kernel \<Rightarrow> bool" where
  "kernel_ok M K \<longleftrightarrow> lawful_machine M \<and>
     (Commands K < 2 ^ 64 - 1 \<longrightarrow> driver_ok (Driver K) \<and> unat (ids (DrvExt (Driver K))) \<le> Commands K)"

lemma not_last_id: "unat (w :: u64) < 2 ^ 64 - 1 \<Longrightarrow> w \<noteq> - 1"
  by (auto simp: unsigned_minus_1_eq_mask mask_eq_exp_minus_1)

lemma control_call_ok:
  assumes "WnbdDeviceIoControl (driver_device M) ov c isz osz K = Some (St, n, out, K')" "command_ok c" "kernel_ok M K"
  shows "kernel_ok M K'"
  using control_call_returned [OF assms(1)]
proof (elim disjE exE conjE)
  fix r
  let ?env = "Answers M (Commands K) (Driver K)"
  assume r: "WnbdParseUserIOCTL ?env (service_irp M c isz osz) (Driver K) = Returned r"
    "K' = \<lparr>Driver = RDriver r, Commands = Commands K + 1\<rparr>"
  show ?thesis
  proof (cases "Commands K < 2 ^ 64 - 1")
    case True
    then have ok: "driver_ok (Driver K)" "unat (ids (DrvExt (Driver K))) \<le> Commands K" "lawful_machine M"
      using assms(3) by (simp_all add: kernel_ok_def)
    then have env: "ioctl_env_ok ?env (Driver K)"
      using True not_last_id by (auto simp: ioctl_env_ok_def lawful_machine_def)
    consider "RDriver r = Driver K" | "r \<in> results (ioctl_command ?env (service_irp M c isz osz) c (Driver K))"
      using r(1) by (auto simp: WnbdParseUserIOCTL_def service_irp_def reply_def split: if_splits)
    then show ?thesis
    proof cases
      case 2
      from ioctl_command_ok [OF ok(1) env assms(2) 2] ioctl_command_ids [OF ok(1) env 2] ok show ?thesis
        by (simp add: kernel_ok_def r(2))
    qed (use ok in \<open>simp add: kernel_ok_def r(2)\<close>)
  qed (use assms(3) in \<open>simp add: kernel_ok_def r(2)\<close>)
qed (use assms(3) in simp)

lemma simple_call_ok:
  "simple_call (driver_device M) ov c isz K = Some (e, K') \<Longrightarrow> command_ok c \<Longrightarrow> kernel_ok M K \<Longrightarrow> kernel_ok M K'"
  by (auto simp: simple_call_def dest: control_call_ok)

lemma command_ok_simps [simp]:
  "command_ok (IOCTL_WNBD_CREATE P)" "command_ok (IOCTL_WNBD_REMOVE n)" "command_ok (IOCTL_WNBD_SHOW n)"
  "command_ok (IOCTL_WNBD_FETCH_REQ i r b z)" "command_ok (IOCTL_WNBD_SEND_RSP i rsp)" "command_ok IOCTL_WNBD_LIST"
  "command_ok (IOCTL_WNBD_SET_DRV_OPT nm v p) \<longleftrightarrow> length (Data v) = 512" "command_ok (IOCTL_WNBD_RESET_DRV_OPT nm p)"
  by (simp_all add: command_ok_def)

lemma calls_of_sel [simp]:
  "OpenAdapter (calls_of dev opened waited) = opened"
  "IoctlCreate (calls_of dev opened waited) P = WnbdIoctlCreate dev P zero_info False"
  "IoctlRemove (calls_of dev opened waited) n = WnbdIoctlRemove dev n False"
  "IoctlShow (calls_of dev opened waited) n = WnbdIoctlShow dev n zero_info False"
  "IoctlFetchRequest (calls_of dev opened waited) i b = WnbdIoctlFetchRequest dev i zero_request b 0x200000 True"
  "IoctlSendResponse (calls_of dev opened waited) ov i R d z = WnbdIoctlSendResponse dev i R d z ov"
  "OverlappedResult (calls_of dev opened waited) = waited"
  by (simp_all add: calls_of_def)

interpretation lib: driver_contract "library M opened waited" "kernel_ok M" for M opened waited
  by unfold_locales
     (auto simp: WnbdIoctlCreate_def WnbdIoctlRemove_def WnbdIoctlShow_def WnbdIoctlFetchRequest_def
        WnbdIoctlSendResponse_def split: if_splits option.splits dest: control_call_ok simple_call_ok)

end
