(* ===== verification/Stack.thy ===== *)
theory Stack
  imports Kernel EndToEnd NbdServe
begin

text \<open>
  The whole stack: the port driver above, the driver, the library, the NBD daemon and the server
  below. The library's calls run on the driver itself.
\<close>

section \<open>A read, from the port driver to the server and back\<close>

text \<open>The library's user with the driver in a given state.\<close>

definition at_driver :: "'r driver \<Rightarrow> 'r kernel nbd \<Rightarrow> 'r kernel nbd" where
  "at_driver D u = u\<lparr>UDriver := (UDriver u)\<lparr>Driver := D\<rparr>\<rparr>"

abbreviation driver_of :: "'r kernel nbd \<Rightarrow> 'r driver" where
  "driver_of u \<equiv> Driver (UDriver u)"

text \<open>A daemon that serves a disk and has nothing to do.\<close>

definition idle_daemon :: "u32 \<Rightarrow> u64 \<Rightarrow> 'd nbd \<Rightarrow> bool" where
  "idle_daemon bs i u \<longleftrightarrow>
     calm (Socket (UContext u)) \<and> RxBytes (Socket (UContext u)) = [] \<and> PendingRequests (UContext u) = Map.empty \<and>
     BlockSize (WnbdProps (UContext u)) = bs \<and> PreallocatedRBuffSz (UContext u) = WNBD_DEFAULT_MAX_TRANSFER_LENGTH \<and>
     Started (UDisk u) \<and> \<not> Stopped (UDisk u) \<and> CiConnectionId (DkConnectionInfo (UDisk u)) = i"

text \<open>The kernel lets the next command wait, map the buffer and lock it, and the one after it copy.\<close>

definition next_granted :: "'r machine \<Rightarrow> nat \<Rightarrow> nat \<Rightarrow> bool" where
  "next_granted M n waits \<longleftrightarrow>
     (\<forall>D. IeWaits (Answers M n D) \<noteq> [] \<and> (\<forall>w \<in> set (IeWaits (Answers M n D)). granting w) \<and>
          length (IeWaits (Answers M n D)) \<le> waits \<and>
          IeLock (Answers M (n + 1) D) = LockOk \<and> IeStor (Answers M (n + 1) D) = 0)"

lemma fetch_through_library:
  assumes "WnbdParseUserIOCTL (Answers M (Commands K) (Driver K))
      (service_irp M (IOCTL_WNBD_FETCH_REQ i zero_request Buf 0x200000) 128 128) (Driver K) =
      reply_with STATUS_SUCCESS 128 (OutRequest req user) D"
  shows "IoctlFetchRequest (library M opened waited) i Buf K =
    Some (0, req, user, \<lparr>Driver = D, Commands = Commands K + 1\<rparr>)"
  using control_call_success [OF assms [unfolded reply_with_def], of True]
  by (simp add: WnbdIoctlFetchRequest_def)

lemma send_through_library:
  assumes "WnbdParseUserIOCTL (Answers M (Commands K) (Driver K))
      (service_irp M (IOCTL_WNBD_SEND_RSP i \<lparr>Response = R, RspBuffer = b, RspBufferSize = n\<rparr>) 144 0) (Driver K) =
      reply STATUS_SUCCESS D"
  shows "IoctlSendResponse (library M opened waited) True i R b n K = Some (0, \<lparr>Driver = D, Commands = Commands K + 1\<rparr>)"
  using control_call_success [OF assms [unfolded reply_def], of True]
  by (simp add: WnbdIoctlSendResponse_def simple_call_def)

lemma dispatcher_pass_read:
  assumes "IoctlFetchRequest drv (CiConnectionId (DkConnectionInfo (UDisk u))) Buf (UDriver u) = Some (0, req, Buf', D)"
    and "WnbdHandleRequest drv Ifc req Buf' (u\<lparr>UDriver := D\<rparr>) = Some u'"
  shows "dispatcher_pass drv Ifc 0 Buf u = Some (Inr Buf', u')"
  using assms by (simp add: dispatcher_pass_def)

lemma answered_through_daemon:
  fixes u :: "'r kernel nbd"
  assumes "awaits_reply (Process M) i h (length data) Srb b notified (driver_of u)" "idle_daemon bs i u"
    and "IeLock (Answers M (Commands (UDriver u)) (driver_of u)) = LockOk"
    and "IeStor (Answers M (Commands (UDriver u)) (driver_of u)) = 0"
    and "length data = unat (n * bs)" "n * bs \<le> WNBD_DEFAULT_MAX_TRANSFER_LENGTH" "lib = library M opened waited"
  obtains u1 u2 frame where
    "WnbdHandleRequest lib (WnbdInterface lib ce)
       \<lparr>RequestHandle = h, RequestType = WnbdReqTypeRead, Cmd = CmdRead a n f\<rparr> Buf u = Some u1"
    "TxBytes (Socket (UContext u1)) = TxBytes (Socket (UContext u)) @ frame"
    "decode_request frame = Some (NBD_CMD_READ, h, a * ucast bs, n * bs)"
    "ProcessNbdReply lib (server_sends (encode_reply \<lparr>NrError = 0, NrHandle = h\<rparr> @ data) u1) = Some (0, u2)"
    "Notified (DrvMem (driver_of u2)) = notified @ [Srb]" "SrbStatus (Srbs (DrvMem (driver_of u2)) Srb) = SRB_STATUS_SUCCESS"
    "unat (DataTransferLength (Srbs (DrvMem (driver_of u2)) Srb)) = length data"
    "DataBuffer (Srbs (DrvMem (driver_of u2)) Srb) = Some (data @ drop (length data) b)"
proof -
  let ?c = "Commands (UDriver u)" and ?R = "\<lparr>RspRequestHandle = h, RspRequestType = WnbdReqTypeRead, RspStatus = zero_status\<rparr>"
  let ?rsp = "\<lparr>Response = ?R, RspBuffer = Some data, RspBufferSize = n * bs\<rparr>"
  have dm: "CiConnectionId (DkConnectionInfo (UDisk u)) = i" using assms(2) by (simp add: idle_daemon_def)
  obtain D where D: "WnbdParseUserIOCTL (Answers M ?c (driver_of u)) (service_irp M (IOCTL_WNBD_SEND_RSP i ?rsp) 144 0) (driver_of u) =
      reply STATUS_SUCCESS D"
    "Notified (DrvMem D) = notified @ [Srb]" "SrbStatus (Srbs (DrvMem D) Srb) = SRB_STATUS_SUCCESS"
    "unat (DataTransferLength (Srbs (DrvMem D) Srb)) = length data"
    "DataBuffer (Srbs (DrvMem D) Srb) = Some (data @ drop (length data) b)"
    using assms(1) [unfolded awaits_reply_def, rule_format, of "Answers M ?c (driver_of u)" ?rsp
        "service_irp M (IOCTL_WNBD_SEND_RSP i ?rsp) 144 0" data] assms(3-5)
    by (auto simp: fetch_irp_def service_irp_def zero_status_def)
  have send: "IoctlSendResponse lib True (CiConnectionId (DkConnectionInfo (UDisk u))) ?R (Some data) (n * bs) (UDriver u) =
      Some (0, \<lparr>Driver = D, Commands = ?c + 1\<rparr>)"
    unfolding dm assms(7) by (rule send_through_library [OF D(1)])
  from nbd_read_flow [OF _ _ _ _ assms(6) _ _ _ assms(5) send, where ce = ce and a = a and Buf = Buf and f = f] assms(2)
  obtain u1 u2 frame where n: "WnbdHandleRequest lib (WnbdInterface lib ce)
       \<lparr>RequestHandle = h, RequestType = WnbdReqTypeRead, Cmd = CmdRead a n f\<rparr> Buf u = Some u1"
    "TxBytes (Socket (UContext u1)) = TxBytes (Socket (UContext u)) @ frame"
    "decode_request frame = Some (NBD_CMD_READ, h, a * ucast bs, n * bs)"
    "ProcessNbdReply lib (server_sends (encode_reply \<lparr>NrError = 0, NrHandle = h\<rparr> @ data) u1) = Some (0, u2)"
    "UDriver u2 = \<lparr>Driver = D, Commands = ?c + 1\<rparr>"
    by (auto simp: idle_daemon_def)
  show ?thesis by (rule that [OF n(1-4)]) (simp_all add: n(5) D)
qed

text \<open>
  C1: a read that the port driver gives to an idle disk leaves the daemon, after one pass of its
  dispatcher, as one frame that asks the server for the bytes of the blocks; when the server has
  answered with these bytes, one pass of the reply worker completes the request block, exactly
  once, with them in its buffer.
\<close>

theorem nbd_read_end_to_end:
  fixes u :: "'r kernel nbd" and bs cnt :: u32
  defines "D \<equiv> driver_of u"
  assumes "serves (Process M) p D" "Devices (DrvExt D) p = d" "PendingReqListHead d = []" "\<not> HardRemoveDevice d"
    and "mapped_at (Srbs (DrvMem D) Srb) p (DrvExt D)"
    and "Srbs (DrvMem D) Srb = srb" "SrbFunction srb = SRB_FUNCTION_EXECUTE_SCSI" "SrbCdb srb = Some Cdb"
    and "ScsiOpToWnbdReqType (cdb_byte Cdb 0) = WnbdReqTypeRead" "SrbCdbGetRange Cdb = (addr, cnt, fua)"
    and "BlockSize (Properties d) = bs" "bs \<noteq> 0" "unat (BlockCount (Properties d)) * unat bs < 2 ^ 64"
    and "unat addr + unat cnt \<le> unat (BlockCount (Properties d))" "unat cnt * unat bs \<le> 0x200000"
    and "DataBuffer srb = Some b" "unat (DataTransferLength srb) \<le> unat cnt * unat bs" "unat cnt * unat bs \<le> length b"
    and "IoPool io = Some a" "a \<notin> Allocated (DrvMem D)"
    and "idle_daemon bs (ConnectionId d) u" "0x200000 \<le> length Buf" "length data = unat cnt * unat bs"
    and "next_granted M (Commands (UDriver u)) waits" "unat (RequestHandleCounter (DrvMem D)) + waits < 2 ^ 64"
  shows "\<exists>m1 x1 Buf' u1 h frame u2.
    let lib = library M opened waited; m2 = DrvMem (driver_of u2) in
    WnbdHwStartIo io opts ext Srb (DrvMem D, DrvExt D) = Some ([], m1, x1) \<and> Notified m1 = Notified (DrvMem D) \<and>
    dispatcher_pass lib (WnbdInterface lib ce) 0 Buf (at_driver (D\<lparr>DrvMem := m1, DrvExt := x1\<rparr>) u) = Some (Inr Buf', u1) \<and>
    TxBytes (Socket (UContext u1)) = TxBytes (Socket (UContext u)) @ frame \<and>
    decode_request frame = Some (NBD_CMD_READ, h, addr * ucast bs, cnt * bs) \<and>
    ProcessNbdReply lib (server_sends (encode_reply \<lparr>NrError = 0, NrHandle = h\<rparr> @ data) u1) = Some (0, u2) \<and>
    Notified m2 = Notified (DrvMem D) @ [Srb] \<and> SrbStatus (Srbs m2 Srb) = SRB_STATUS_SUCCESS \<and>
    unat (DataTransferLength (Srbs m2 Srb)) = unat cnt * unat bs \<and>
    DataBuffer (Srbs m2 Srb) = Some (data @ drop (unat cnt * unat bs) b)"
proof -
  let ?lib = "library M opened waited" and ?n = "Commands (UDriver u)" and ?pid = "Process M"
  let ?cmd = "IOCTL_WNBD_FETCH_REQ (ConnectionId d) zero_request Buf 0x200000"
  let ?D1 = "\<lambda>m x. D\<lparr>DrvMem := m, DrvExt := x\<rparr>"
  note g = assms(25) [unfolded next_granted_def, rule_format]
  have len: "unat (cnt * bs) = unat cnt * unat bs" using assms(16) by (simp add: unat_mult_lem [THEN iffD1])
  have irp: "fetch_irp ?pid ?cmd (service_irp M ?cmd 128 128)" by (simp add: fetch_irp_def service_irp_def)
  note hyps = assms(2-15) _ assms(17-21) _ _ _ _ _ _ irp
  have flow: "\<exists>m1 x1 D2 req user. WnbdHwStartIo io opts ext Srb (DrvMem D, DrvExt D) = Some ([], m1, x1) \<and>
      Notified m1 = Notified (DrvMem D) \<and>
      WnbdParseUserIOCTL (Answers M ?n D') (service_irp M ?cmd 128 128) (?D1 m1 x1) =
        reply_with STATUS_SUCCESS 128 (OutRequest req user) D2 \<and>
      RequestType req = WnbdReqTypeRead \<and> Cmd req = CmdRead addr cnt (fua \<noteq> 0 \<and> FUASupported (Flags (Properties d))) \<and>
      awaits_reply ?pid (ConnectionId d) (RequestHandle req) (unat cnt * unat bs) Srb b (Notified (DrvMem D)) D2" for D'
    by (rule read_flow [OF hyps, of "Answers M ?n D'" opts ext]) (use assms(16,23,26) g [of D'] in auto)
  obtain m1 x1 where st: "WnbdHwStartIo io opts ext Srb (DrvMem D, DrvExt D) = Some ([], m1, x1)" using flow by blast
  obtain D2 req user where f: "Notified m1 = Notified (DrvMem D)"
    "WnbdParseUserIOCTL (Answers M ?n (?D1 m1 x1)) (service_irp M ?cmd 128 128) (?D1 m1 x1) =
        reply_with STATUS_SUCCESS 128 (OutRequest req user) D2"
    "RequestType req = WnbdReqTypeRead" "Cmd req = CmdRead addr cnt (fua \<noteq> 0 \<and> FUASupported (Flags (Properties d)))"
    "awaits_reply ?pid (ConnectionId d) (RequestHandle req) (unat cnt * unat bs) Srb b (Notified (DrvMem D)) D2"
    using flow [of "?D1 m1 x1"] st by auto
  let ?u = "at_driver (?D1 m1 x1) u" and ?K = "\<lparr>Driver = D2, Commands = ?n + 1\<rparr>" and ?h = "RequestHandle req"
  have req: "req = \<lparr>RequestHandle = ?h, RequestType = WnbdReqTypeRead, Cmd = CmdRead addr cnt (fua \<noteq> 0 \<and> FUASupported (Flags (Properties d)))\<rparr>"
    using f(3,4) by simp
  have fetch: "IoctlFetchRequest ?lib (CiConnectionId (DkConnectionInfo (UDisk ?u))) Buf (UDriver ?u) = Some (0, req, user, ?K)"
    using fetch_through_library [of M "UDriver ?u" "ConnectionId d" Buf req user D2 opened waited] f(2) assms(22)
    by (simp add: at_driver_def idle_daemon_def)
  have mid: "idle_daemon bs (ConnectionId d) (?u\<lparr>UDriver := ?K\<rparr>)" using assms(22) by (simp add: at_driver_def idle_daemon_def)
  have lim: "cnt * bs \<le> WNBD_DEFAULT_MAX_TRANSFER_LENGTH" using assms(16) len by (simp add: word_le_nat_alt)
  obtain u1 u2 frame where n: "WnbdHandleRequest ?lib (WnbdInterface ?lib ce)
      \<lparr>RequestHandle = ?h, RequestType = WnbdReqTypeRead, Cmd = CmdRead addr cnt (fua \<noteq> 0 \<and> FUASupported (Flags (Properties d)))\<rparr>
      user (?u\<lparr>UDriver := ?K\<rparr>) = Some u1"
    "TxBytes (Socket (UContext u1)) = TxBytes (Socket (UContext u)) @ frame"
    "decode_request frame = Some (NBD_CMD_READ, ?h, addr * ucast bs, cnt * bs)"
    "ProcessNbdReply ?lib (server_sends (encode_reply \<lparr>NrError = 0, NrHandle = ?h\<rparr> @ data) u1) = Some (0, u2)"
    "Notified (DrvMem (driver_of u2)) = Notified (DrvMem D) @ [Srb]" "SrbStatus (Srbs (DrvMem (driver_of u2)) Srb) = SRB_STATUS_SUCCESS"
    "unat (DataTransferLength (Srbs (DrvMem (driver_of u2)) Srb)) = unat cnt * unat bs"
    "DataBuffer (Srbs (DrvMem (driver_of u2)) Srb) = Some (data @ drop (unat cnt * unat bs) b)"
    by (rule answered_through_daemon [OF _ mid _ _ _ lim refl, of M ?h data Srb b "Notified (DrvMem D)" opened waited ce addr _ user],
        use f(5) assms(24) len g [of D2] in \<open>simp_all add: at_driver_def\<close>)
  have "dispatcher_pass ?lib (WnbdInterface ?lib ce) 0 Buf ?u = Some (Inr user, u1)"
    by (rule dispatcher_pass_read [OF fetch]) (use n(1) req in simp)
  then show ?thesis
    using st f(1) n by (intro exI [of _ m1] exI [of _ x1] exI [of _ user] exI [of _ u1] exI [of _ ?h] exI [of _ frame] exI [of _ u2])
      (simp add: Let_def)
qed

text \<open>The sample disk, behind a daemon.\<close>

definition sample_machine :: "unit machine" where
  "sample_machine = \<lparr>DosError = (\<lambda>St. if St = STATUS_OBJECT_NAME_NOT_FOUND then ERROR_FILE_NOT_FOUND else St),
     EventError = (\<lambda>_. 0), Process = 42, AsValue = (\<lambda>_. \<lparr>ValType = WnbdOptUnknown, Data = replicate 512 0\<rparr>),
     Answers = (\<lambda>n D. (sample_ioctl_env [Dispatch.sample_env])
       \<lparr>IeCreate := Lifecycle.sample_env (Suc (sum_list (DeviceList (DrvExt D))))\<rparr>)\<rparr>"

definition nbd_user :: "unit driver \<Rightarrow> unit kernel nbd" where
  "nbd_user D = \<lparr>UDisk = (new_disk nbd_props (sample_info\<lparr>CiConnectionId := ConnectionId (Devices (DrvExt D) 1)\<rparr>))\<lparr>Started := True\<rparr>,
     UContext = sample_daemon sample_socket, UDriver = \<lparr>Driver = D, Commands = 5\<rparr>\<rparr>"

lemma sample_next_granted: "next_granted sample_machine n 1"
  by (simp add: next_granted_def sample_machine_def sample_ioctl_env_def granting_def Dispatch.sample_env_def)

lemma nbd_user_idle: "idle_daemon 512 (ConnectionId (Devices (DrvExt D) 1)) (nbd_user D)"
  by (simp add: idle_daemon_def nbd_user_def sample_daemon_def sample_socket_def calm_def new_disk_def)

theorem nbd_read_end_to_end_witness:
  "\<exists>D m1 x1 Buf' u1 h u2.
    let lib = library sample_machine (\<lambda>_. 0) (\<lambda>_. 0); m2 = DrvMem (driver_of u2) in
    WnbdHwStartIo sample_io WnbdDriverOptions 0 100 (DrvMem D, DrvExt D) = Some ([], m1, x1) \<and>
    dispatcher_pass lib (WnbdInterface lib sample_close) 0 (replicate 0x200000 0)
      (at_driver (D\<lparr>DrvMem := m1, DrvExt := x1\<rparr>) (nbd_user D)) = Some (Inr Buf', u1) \<and>
    ProcessNbdReply lib (server_sends (encode_reply \<lparr>NrError = 0, NrHandle = h\<rparr> @ replicate 512 3) u1) = Some (0, u2) \<and>
    Notified m2 = [100] \<and> DataBuffer (Srbs m2 100) = Some (replicate 512 3)"
proof (rule sample_read_disk)
  fix D :: "unit driver"
  assume h: "serves 42 1 D" "mapped_at (Srbs (DrvMem D) 100) 1 (DrvExt D)"
    "Srbs (DrvMem D) 100 = read_srb (Target (Devices (DrvExt D) 1))" "Notified (DrvMem D) = []"
    "PendingReqListHead (Devices (DrvExt D) 1) = []" "\<not> HardRemoveDevice (Devices (DrvExt D) 1)"
    "Properties (Devices (DrvExt D) 1) = named_props 100" "9 \<notin> Allocated (DrvMem D)" "RequestHandleCounter (DrvMem D) = 10"
  let ?Cdb = "[0x28, 0, 0, 0, 0, 1, 0, 0, 1, 0] :: u8 list"
  have rg: "SrbCdbGetRange ?Cdb = (1, 1, 0)"
    by (simp add: SrbCdbGetRange_def cdb_byte_def cdb_field_def be_word_def)
  have op: "ScsiOpToWnbdReqType (cdb_byte ?Cdb 0) = WnbdReqTypeRead"
    by (simp add: cdb_byte_def ScsiOpToWnbdReqType_def)
  have srb: "SrbFunction (read_srb t) = SRB_FUNCTION_EXECUTE_SCSI" "SrbCdb (read_srb t) = Some ?Cdb"
    "DataBuffer (read_srb t) = Some (replicate 512 7)" "DataTransferLength (read_srb t) = 512" for t
    by (simp_all add: read_srb_def sample_srb_def)
  have D: "driver_of (nbd_user D) = D" by (simp add: nbd_user_def)
  have sv: "serves (Process sample_machine) 1 (driver_of (nbd_user D))" using h(1) by (simp add: sample_machine_def D)
  note e = nbd_read_end_to_end [where u = "nbd_user D" and M = sample_machine and p = 1 and Srb = 100 and bs = 512
      and Buf = "replicate 0x200000 0" and data = "replicate 512 3" and io = sample_io and opts = WnbdDriverOptions
      and ext = 0 and opened = "\<lambda>_. 0" and waited = "\<lambda>_. 0" and ce = sample_close, unfolded D,
      OF sv [unfolded D] refl h(5,6,2,3) srb(1,2) op rg _ _ _ _ _ srb(3) _ _ _ h(8) nbd_user_idle _ _ sample_next_granted]
  show ?thesis
    using e h(4,7,9) by (simp add: named_props_def srb sample_io_def Let_def) blast
qed

section \<open>The daemon and the driver's invariants\<close>

text \<open>
  C3: whatever the threads of a daemon do, in any order, with whatever the server sends, the
  driver's option table stays well-typed and its device list, index, address bitmap and counts
  consistent, as long as there are connection ids left.
\<close>

theorem daemon_keeps_driver_typed:
  assumes "(daemon_step (library M opened waited) ce)\<^sup>*\<^sup>* u u'" "lawful_machine M"
    and "adapter_ok (DrvExt (driver_of u))" "opts_ok (DrvOptions (driver_of u))"
    and "unat (ConnectionIdCounter (DrvExt (driver_of u))) \<le> Commands (UDriver u)"
    and "Commands (UDriver u') < 2 ^ 64 - 1"
  shows "opts_ok (DrvOptions (driver_of u')) \<and> adapter_ok (DrvExt (driver_of u'))"
proof -
  have "kernel_ok M (UDriver u)" using assms(2-5) by (simp add: kernel_ok_def driver_ok_def)
  from lib.daemon_run_ok [OF assms(1) this] assms(6) show ?thesis by (simp add: kernel_ok_def driver_ok_def)
qed

text \<open>A dispatcher that ends on an adapter without disks: its removal reaches the driver and finds nothing.\<close>

abbreviation empty_user :: "unit kernel nbd" where
  "empty_user \<equiv> nbd_user (sample_driver sample_mem empty_adapter)"

lemma sample_remove:
  "WnbdIoctlRemove (driver_device sample_machine) [0x61, 0] False (UDriver empty_user) =
     Some (ERROR_FILE_NOT_FOUND, \<lparr>Driver = sample_driver sample_mem empty_adapter, Commands = 6\<rparr>)"
proof -
  let ?n = "take 256 (cstr [0x61, 0] @ replicate 256 0)"
  let ?t = "terminate_at 256 ?n" and ?D = "sample_driver sample_mem empty_adapter"
  have n: "strlen ?t \<noteq> 0" by (simp add: terminate_at_def strlen_def cstr_def take_Cons')
  have f: "WnbdFindDeviceByInstanceName ?t True empty_adapter = (None, empty_adapter)"
    by (simp add: WnbdFindDeviceByInstanceName_def find_device_def extension_init_def WnbdInitScsiIds_def)
  have r: "ioctl_remove env (service_irp sample_machine c 376 0) ?n ?D = reply STATUS_OBJECT_NAME_NOT_FOUND ?D" for env c
    using n f by (simp add: ioctl_remove_def service_irp_def CHECK_I_LOCATION_def WnbdDeleteConnection_def sample_driver_def)
  have c: "copy_name 372 [0x61, 0] = Some ?n" by (simp add: copy_name_def strlen_def cstr_def)
  have s: "\<not> STRING_OVERFLOWS [0x61, 0] WNBD_MAX_NAME_LENGTH" by (simp add: STRING_OVERFLOWS_def strlen_def cstr_def)
  have "simple_call (driver_device sample_machine) False (IOCTL_WNBD_REMOVE ?n) 376 \<lparr>Driver = ?D, Commands = 5\<rparr> =
      Some (ERROR_FILE_NOT_FOUND, \<lparr>Driver = ?D, Commands = 6\<rparr>)"
    using r
    by (simp add: simple_call_def WnbdDeviceIoControl_def driver_device_def WnbdHwProcessServiceRequest_def
        WnbdParseUserIOCTL_def service_irp_def CHECK_I_LOCATION_def reply_def io_status_def)
       (simp add: sample_machine_def)
  with c s show ?thesis by (simp add: WnbdIoctlRemove_def nbd_user_def)
qed

lemma sample_lawful: "lawful_machine sample_machine"
proof -
  have "Suc (sum_list ps) \<notin> set ps" for ps :: "nat list"
    using member_le_sum_list [of "Suc (sum_list ps)" ps] by auto
  then show ?thesis
    by (auto simp: lawful_machine_def sample_machine_def driver_ok_def adapter_defs intro!: sample_env_ok)
qed

theorem daemon_keeps_driver_typed_witness:
  "\<exists>u'. (daemon_step (library sample_machine (\<lambda>_. 0) (\<lambda>_. 0)) sample_close)\<^sup>*\<^sup>* empty_user u' \<and>
     Commands (UDriver u') = 6 \<and> opts_ok (DrvOptions (driver_of u'))"
proof -
  let ?lib = "library sample_machine (\<lambda>_. 0) (\<lambda>_. 0)"
  have e: "DkHandle (UDisk empty_user)" "\<not> Stopping (UDisk empty_user)" "InstanceName (DkProperties (UDisk empty_user)) = [0x61, 0]"
    by (simp_all add: nbd_user_def new_disk_def nbd_props_def)
  obtain u' where u': "WnbdStopDispatcher ?lib (ClosePnp sample_close) (Some hard_remove) empty_user = Some (ERROR_FILE_NOT_FOUND, u')"
    "UDriver u' = \<lparr>Driver = sample_driver sample_mem empty_adapter, Commands = 6\<rparr>"
    using sample_remove e
    by (simp add: WnbdStopDispatcher_def WnbdRemove_def WnbdRemoveEx_def remove_hard_def hard_remove_def Let_def)
  have "(daemon_step ?lib sample_close)\<^sup>*\<^sup>* empty_user u'" using daemon_step.stop [OF u'(1)] by blast
  from daemon_keeps_driver_typed [OF this sample_lawful] this u'(2) adapter_ok_init opts_ok_init
  show ?thesis by (intro exI [of _ u']) (simp add: nbd_user_def sample_driver_def extension_init_def)
qed

end
