(* ===== verification/PnpDispatch.thy ===== *)
theory PnpDispatch
  imports Kernel Removal
begin

text \<open>
  The driver's entry point, the Plug and Play requests of its device objects and its unloading
  (\<^verbatim>\<open>driver/driver.c\<close>), and the helpers that ask the storage stack for an address, a
  disk number and an instance path (\<^verbatim>\<open>driver/util.c\<close>). What the system answers is an
  argument; the port driver's own routines are, too.
\<close>

section \<open>Asking the storage stack\<close>

text \<open>
  A control request to another driver: its packet may not be allocated; otherwise the lower driver
  returns a status, and the status block is what the completion leaves, waited for if it is pending.
\<close>

record IO_STATUS_BLOCK =
  IoStatus :: u32
  IoInformation :: nat

datatype io_call = NoIrp | IoCallDriver u32 IO_STATUS_BLOCK

fun WnbdSendIoctl :: "io_call \<Rightarrow> IO_STATUS_BLOCK" where
  "WnbdSendIoctl NoIrp = \<lparr>IoStatus = STATUS_INSUFFICIENT_RESOURCES, IoInformation = 0\<rparr>"
| "WnbdSendIoctl (IoCallDriver Result completed) =
     (if NT_ERROR Result then \<lparr>IoStatus = Result, IoInformation = 0\<rparr> else completed)"

record SCSI_ADDRESS =
  AddrPathId :: u8
  AddrTargetId :: u8
  AddrLun :: u8

definition answered :: "nat \<Rightarrow> io_call \<Rightarrow> u32" where
  "answered n c =
     (let Block = WnbdSendIoctl c in
      if \<not> NT_SUCCESS (IoStatus Block) then IoStatus Block
      else if IoInformation Block < n then STATUS_OBJECT_NAME_NOT_FOUND
      else STATUS_SUCCESS)"

text \<open>
  \<^verbatim>\<open>SCSI_ADDRESS\<close> has 8 bytes, \<^verbatim>\<open>STORAGE_DEVICE_NUMBER\<close> 12. The second component of
  an answer is what the lower driver put into the buffer. The disk number is written on success only.
\<close>

definition WnbdGetScsiAddress :: "io_call \<times> SCSI_ADDRESS \<Rightarrow> u32 \<times> SCSI_ADDRESS" where
  "WnbdGetScsiAddress a = (answered 8 (fst a), snd a)"

definition WnbdGetDiskNumber :: "io_call \<times> u32 \<Rightarrow> u32 \<Rightarrow> u32 \<times> u32" where
  "WnbdGetDiskNumber a n =
     (let Status = answered 12 (fst a) in (Status, if Status = STATUS_SUCCESS then snd a else n))"

text \<open>The property is written over the beginning of the buffer.\<close>

definition WnbdGetDiskInstancePath :: "u32 \<times> wstr \<Rightarrow> wstr \<Rightarrow> u32 \<times> wstr" where
  "WnbdGetDiskInstancePath a buf = (fst a, snd a @ drop (length (snd a)) buf)"

section \<open>Plug and Play requests\<close>

datatype pnp_minor =
    IRP_MN_START_DEVICE
  | IRP_MN_QUERY_REMOVE_DEVICE
  | IRP_MN_REMOVE_DEVICE
  | IRP_MN_QUERY_CAPABILITIES
  | IRP_MN_OTHER u8

record DEVICE_CAPABILITIES =
  SilentInstall :: bool
  SurpriseRemovalOK :: bool
  Removable :: bool
  EjectSupported :: bool

record pnp_irp =
  MinorFunction :: pnp_minor
  Capabilities :: DEVICE_CAPABILITIES
  IrpStatus :: u32

text \<open>
  The environment of one request: whether the extension is set, the answers about the device object,
  whether something is attached above it, and the port driver's dispatch routine.
\<close>

record pnp_dispatch_env =
  PeGlobalExt :: bool
  PeAddress :: "io_call \<times> SCSI_ADDRESS"
  PeAttached :: bool
  PeDiskNumber :: "io_call \<times> u32"
  PeInstancePath :: "u32 \<times> wstr"
  PeTime :: u64
  StorPortDispatchPnp :: "ptr \<Rightarrow> pnp_irp \<Rightarrow> astate \<Rightarrow> u32 \<times> astate"

definition find_by_address :: "SCSI_ADDRESS \<Rightarrow> WNBD_EXTENSION \<Rightarrow> ptr option \<times> WNBD_EXTENSION" where
  "find_by_address a = WnbdFindDeviceByAddr (AddrPathId a) (AddrTargetId a) (AddrLun a) True"

definition start_device :: "pnp_dispatch_env \<Rightarrow> ptr \<Rightarrow> WNBD_EXTENSION \<Rightarrow> WNBD_EXTENSION" where
  "start_device env DeviceObject x =
     (if \<not> PeGlobalExt env then x
      else let (Status, ScsiAddress) = WnbdGetScsiAddress (PeAddress env) in
           if Status \<noteq> 0 then x
           else case find_by_address ScsiAddress x of
                  (None, x) \<Rightarrow> x
                | (Some p, x) \<Rightarrow>
                    (let x = dev_upd p (\<lambda>d. d\<lparr>PDO := Some DeviceObject\<rparr>) x;
                         x = (if PeAttached env
                              then dev_upd p (\<lambda>d. d\<lparr>DiskNumber :=
                                     snd (WnbdGetDiskNumber (PeDiskNumber env) (DiskNumber d))\<rparr>) x else x);
                         x = dev_upd p (\<lambda>d. d\<lparr>PNPDeviceID :=
                               snd (WnbdGetDiskInstancePath (PeInstancePath env) (PNPDeviceID d))\<rparr>) x
                     in dev_upd p WnbdReleaseDevice x))"

text \<open>
  The disk a removal is about: the device at the address, acquired, if it belongs to the device
  object. The name is copied into a local buffer of 256 bytes. \<open>None\<close> is a request about
  no disk of the driver.
\<close>

definition removal_target :: "pnp_dispatch_env \<Rightarrow> ptr \<Rightarrow> WNBD_EXTENSION \<Rightarrow> (ptr option \<times> WNBD_EXTENSION) run" where
  "removal_target env DeviceObject x =
     (if \<not> PeGlobalExt env \<or> DeviceCount x = 0 then Returned (None, x)
      else let (Status, ScsiAddress) = WnbdGetScsiAddress (PeAddress env) in
           if Status \<noteq> 0 then Returned (None, x)
           else case find_by_address ScsiAddress x of
                  (None, x) \<Rightarrow> Returned (None, x)
                | (Some p, x) \<Rightarrow>
                    if strlen (InstanceName (Properties (Devices x p))) > 256 then Fault
                    else if PDO (Devices x p) \<noteq> Some DeviceObject
                    then Returned (None, dev_upd p WnbdReleaseDevice x)
                    else Returned (Some p, x))"

text \<open>True is a request that is answered here and not forwarded.\<close>

definition query_remove_device :: "pnp_dispatch_env \<Rightarrow> ptr \<Rightarrow> WNBD_EXTENSION \<Rightarrow> (bool \<times> WNBD_EXTENSION) run" where
  "query_remove_device env DeviceObject x =
     (case removal_target env DeviceObject x of
        Returned (None, x) \<Rightarrow> Returned (False, x)
      | Returned (Some p, x) \<Rightarrow>
          Returned (HasPendingAsyncRequests (Devices x p), dev_upd p WnbdReleaseDevice x)
      | Waiting (r, x) \<Rightarrow> Waiting (False, x)
      | Fault \<Rightarrow> Fault)"

text \<open>The removal waits for the monitor thread of the disk.\<close>

definition remove_device :: "WNBD_OPTION list \<Rightarrow> pnp_dispatch_env \<Rightarrow> ptr \<Rightarrow> astate \<Rightarrow> astate run" where
  "remove_device opts env DeviceObject s =
     (let (m, x) = s in
      case removal_target env DeviceObject x of
        Returned (None, x) \<Rightarrow> Returned (m, x)
      | Returned (Some p, x) \<Rightarrow>
          (let x = dev_upd p WnbdDisconnectSync x
           in case WnbdDeviceMonitorThread opts (PeTime env) p (m, x) of
                None \<Rightarrow> Waiting (m, x)
              | Some s \<Rightarrow> Returned s)
      | Waiting (r, x) \<Rightarrow> Waiting (m, x)
      | Fault \<Rightarrow> Fault)"

text \<open>The switch: the status of a request that is completed here, the packet and the driver.\<close>

definition pnp_request :: "WNBD_OPTION list \<Rightarrow> pnp_dispatch_env \<Rightarrow> ptr \<Rightarrow> pnp_irp \<Rightarrow> astate \<Rightarrow> (u32 option \<times> pnp_irp \<times> astate) run" where
  "pnp_request opts env DeviceObject Irp s =
     (let (m, x) = s in
      case MinorFunction Irp of
        IRP_MN_QUERY_CAPABILITIES \<Rightarrow>
          Returned (None, Irp\<lparr>Capabilities := \<lparr>SilentInstall = True, SurpriseRemovalOK = False, Removable = True,
            EjectSupported = True\<rparr>\<rparr>, s)
      | IRP_MN_START_DEVICE \<Rightarrow> Returned (None, Irp, m, start_device env DeviceObject x)
      | IRP_MN_QUERY_REMOVE_DEVICE \<Rightarrow>
          (case query_remove_device env DeviceObject x of
             Returned (busy, x) \<Rightarrow>
               if busy then Returned (Some STATUS_DEVICE_BUSY, Irp\<lparr>IrpStatus := STATUS_DEVICE_BUSY\<rparr>, m, x)
               else Returned (None, Irp, m, x)
           | Waiting (b, x) \<Rightarrow> Waiting (None, Irp, m, x)
           | Fault \<Rightarrow> Fault)
      | IRP_MN_REMOVE_DEVICE \<Rightarrow>
          (case remove_device opts env DeviceObject s of
             Returned s \<Rightarrow> Returned (None, Irp, s)
           | Waiting s \<Rightarrow> Waiting (None, Irp, s)
           | Fault \<Rightarrow> Fault)
      | IRP_MN_OTHER n \<Rightarrow> Returned (None, Irp, s))"

definition WnbdDispatchPnp :: "WNBD_OPTION list \<Rightarrow> pnp_dispatch_env \<Rightarrow> ptr \<Rightarrow> pnp_irp \<Rightarrow> astate \<Rightarrow> (u32 \<times> astate) run" where
  "WnbdDispatchPnp opts env DeviceObject Irp s =
     (case pnp_request opts env DeviceObject Irp s of
        Returned (Some Status, Irp, s) \<Rightarrow> Returned (Status, s)
      | Returned (None, Irp, s) \<Rightarrow> Returned (StorPortDispatchPnp env DeviceObject Irp s)
      | Waiting (St, Irp, s) \<Rightarrow> Waiting (0, s)
      | Fault \<Rightarrow> Fault)"

section \<open>Entry and unloading\<close>

datatype miniport_callback =
    AdapterControl | FindAdapter | FreeAdapterResources | Initialize | ProcessServiceRequest | ResetBus | StartIo

datatype map_buffers = STOR_MAP_NO_BUFFERS | STOR_MAP_ALL_BUFFERS | STOR_MAP_NON_READ_WRITE_BUFFERS

record HW_INITIALIZATION_DATA =
  HwAdapterControl :: "miniport_callback option"
  HwCompleteServiceIrp :: "miniport_callback option"
  HwFindAdapter :: "miniport_callback option"
  HwFreeAdapterResources :: "miniport_callback option"
  HwInitialize :: "miniport_callback option"
  HwProcessServiceRequest :: "miniport_callback option"
  HwResetBus :: "miniport_callback option"
  HwStartIo :: "miniport_callback option"
  HwInterrupt :: "miniport_callback option"
  HwDmaStarted :: "miniport_callback option"
  HwAdapterState :: "miniport_callback option"
  MultipleRequestPerLu :: bool
  TaggedQueuing :: bool
  AutoRequestSense :: bool
  MapBuffers :: map_buffers
  VirtualMiniport :: bool
  FullPnpDeviceCapabilities :: bool
  AdapterNotRequireIoPort :: bool
  StorageRequestBlock :: bool
  ScsiRequestBlock :: bool

definition WnbdInitData :: HW_INITIALIZATION_DATA where
  "WnbdInitData =
     \<lparr>HwAdapterControl = Some AdapterControl, HwCompleteServiceIrp = None, HwFindAdapter = Some FindAdapter,
      HwFreeAdapterResources = Some FreeAdapterResources, HwInitialize = Some Initialize,
      HwProcessServiceRequest = Some ProcessServiceRequest, HwResetBus = Some ResetBus, HwStartIo = Some StartIo,
      HwInterrupt = None, HwDmaStarted = None, HwAdapterState = None, MultipleRequestPerLu = True,
      TaggedQueuing = True, AutoRequestSense = True, MapBuffers = STOR_MAP_NON_READ_WRITE_BUFFERS,
      VirtualMiniport = True, FullPnpDeviceCapabilities = True, AdapterNotRequireIoPort = True,
      StorageRequestBlock = True, ScsiRequestBlock = True\<rparr>"

text \<open>The routines of a driver object are the port driver's or this driver's own.\<close>

datatype routine = PortRoutine | WnbdRoutine

record driver_object =
  DriverUnload :: "routine option"
  DispatchPnp :: "routine option"

record driver_globals =
  GlobalExt :: bool
  GlobalDrvRegHandle :: bool
  TraceRegistered :: bool
  SavedDriverUnload :: "routine option"
  SavedDispatchPnp :: "routine option"
  DriverObject :: driver_object

text \<open>
  The entry: tracing is registered, persistent options are read if the registry key can be opened,
  the port driver is initialised (a status and the routines it installs), and its routines for
  unloading and for Plug and Play are replaced by the driver's own.
\<close>

definition DriverEntry ::
    "u32 \<Rightarrow> 'r registry \<Rightarrow> (nat \<Rightarrow> wstr \<Rightarrow> u32 \<times> u64) \<Rightarrow> 'r \<Rightarrow> (HW_INITIALIZATION_DATA \<Rightarrow> u32 \<times> driver_object) \<Rightarrow>
     WNBD_OPTION list \<Rightarrow> driver_globals \<Rightarrow> u32 \<times> WNBD_OPTION list \<times> driver_globals" where
  "DriverEntry KeyStatus R toInt64 reg StorPortInitialize opts G =
     (let G = G\<lparr>TraceRegistered := True\<rparr>;
          (opts, G) = (if NT_SUCCESS KeyStatus
                       then (snd (WnbdReloadPersistentOptions R toInt64 reg opts), G\<lparr>GlobalDrvRegHandle := True\<rparr>)
                       else (opts, G));
          (Status, Object) = StorPortInitialize WnbdInitData;
          G = G\<lparr>DriverObject := Object\<rparr>
      in if \<not> NT_SUCCESS Status then (Status, opts, G)
         else (Status, opts,
               G\<lparr>SavedDriverUnload := DriverUnload Object, SavedDispatchPnp := DispatchPnp Object,
                 DriverObject := \<lparr>DriverUnload = Some WnbdRoutine,
                   DispatchPnp = (if DispatchPnp Object \<noteq> None then Some WnbdRoutine else None)\<rparr>,
                 GlobalExt := False\<rparr>))"

text \<open>Unloading tells whether the port driver's routine was called.\<close>

definition WnbdDriverUnload :: "driver_globals \<Rightarrow> bool \<times> driver_globals" where
  "WnbdDriverUnload G =
     (SavedDriverUnload G \<noteq> None, G\<lparr>TraceRegistered := False, GlobalDrvRegHandle := False\<rparr>)"

text \<open>
  A driver whose entry succeeded has typed options, and unloading gives back what the entry took. An
  entry that fails keeps the registry key and the trace registration, and nobody unloads it.
\<close>

lemma entry_then_unload:
  assumes "DriverEntry KeyStatus R toInt64 reg init WnbdDriverOptions G = (Status, opts, G')"
  shows "opts_ok opts \<and> TraceRegistered G' \<and> (NT_SUCCESS KeyStatus \<longrightarrow> GlobalDrvRegHandle G') \<and>
    (NT_SUCCESS Status \<longrightarrow>
       DriverUnload (DriverObject G') = Some WnbdRoutine \<and> \<not> GlobalExt G' \<and>
       \<not> TraceRegistered (snd (WnbdDriverUnload G')) \<and> \<not> GlobalDrvRegHandle (snd (WnbdDriverUnload G'))) \<and>
    (\<not> NT_SUCCESS Status \<longrightarrow> DriverObject G' = snd (init WnbdInitData))"
  using assms WnbdReloadPersistentOptions_ok [OF opts_ok_init, of R toInt64 reg]
  by (auto simp: DriverEntry_def WnbdDriverUnload_def opts_ok_init Let_def split: prod.splits if_splits)

section \<open>Removing a disk by Plug and Play\<close>

text \<open>Looking at the target of a removal does not change the adapter, except for the reference that is taken.\<close>

lemma removal_target_cases:
  assumes "removal_target env dev x = Returned (r, y)"
  obtains (none) "r = None" "y = x"
  | (disk) p where "r = Some p" "p \<in> devs x" "PDO (Devices x p) = Some dev" "\<not> RdStarted (RundownProtection (Devices x p))"
      "y = dev_upd p (\<lambda>d. d\<lparr>RundownProtection := (RundownProtection d)\<lparr>RdCount := Suc (RdCount (RundownProtection d))\<rparr>\<rparr>) x"
      "dev_upd p WnbdReleaseDevice y = x"
proof (cases "find_by_address (snd (PeAddress env)) x")
  case (Pair q z)
  show thesis
  proof (cases q)
    case None
    then have "z = x" using Pair find_device_None by (auto simp: find_by_address_def WnbdFindDeviceByAddr_def)
    with None Pair assms show thesis
      by (auto simp: removal_target_def WnbdGetScsiAddress_def split: if_splits intro: none)
  next
    case (Some p)
    note f = Pair [unfolded Some find_by_address_def WnbdFindDeviceByAddr_def]
    note fd = find_device_Some [OF f] and rel = find_device_release [OF f]
    show thesis
    proof (cases "r = None")
      case True
      with Some Pair rel assms show thesis
        by (auto simp: removal_target_def WnbdGetScsiAddress_def split: if_splits intro: none)
    next
      case False
      then have y: "r = Some p" "y = z" "PDO (Devices z p) = Some dev"
        using Some Pair assms by (auto simp: removal_target_def WnbdGetScsiAddress_def split: if_splits)
      show thesis by (rule disk [of p]) (use y fd rel in simp_all)
    qed
  qed
qed

lemma query_remove_keeps:
  assumes "query_remove_device env dev x = Returned (busy, y)"
  shows "y = x \<and> (busy \<longrightarrow> (\<exists>p \<in> devs x. PDO (Devices x p) = Some dev \<and> HasPendingAsyncRequests (Devices x p)))"
proof -
  obtain r z where t: "removal_target env dev x = Returned (r, z)"
    using assms by (auto simp: query_remove_device_def split: run.splits)
  from t show ?thesis
    by (rule removal_target_cases)
       (use t assms in \<open>auto simp: query_remove_device_def HasPendingAsyncRequests_def\<close>)
qed

lemma disconnected_disk:
  assumes "adapter_ok x" "p \<in> devs x"
    and "y = dev_upd p (\<lambda>d. d\<lparr>RundownProtection := (RundownProtection d)\<lparr>RdCount := Suc (RdCount (RundownProtection d))\<rparr>\<rparr>) x"
    and "WnbdDeviceMonitorThread opts now p (m, dev_upd p WnbdDisconnectSync y) = Some (m', x')"
  shows "adapter_ok x'" "DeviceList x' = remove1 p (DeviceList x)" "\<forall>q. q \<noteq> p \<longrightarrow> Devices x' q = Devices x q"
    "queues_ok m (Devices x p) \<Longrightarrow> Notified m' = Notified m @ srbs_of m (queued (Devices x p))"
proof -
  define z where "z = monitor_wake p (dev_upd p WnbdDisconnectSync y)"
  have z: "Devices z p = (Devices x p)\<lparr>HardRemoveDevice := True, DeviceRemovalEvent := True,
      RundownProtection := ExRundownWait (RundownProtection (Devices x p))\<rparr>"
    "DeviceList z = DeviceList x" "\<forall>q. q \<noteq> p \<longrightarrow> Devices z q = Devices x q"
    by (simp_all add: z_def assms(3) monitor_wake_def WnbdDisconnectSync_def WnbdReleaseDevice_def ExReleaseRundownProtection_def)
  have "adapter_ok y"
    unfolding assms(3) by (rule adapter_ok_dev_upd [OF assms(1)]) (simp add: same_identity_def)
  then have "adapter_ok (dev_upd p WnbdDisconnectSync y)"
    by (rule adapter_ok_dev_upd) (simp add: same_identity_def WnbdDisconnectSync_def WnbdReleaseDevice_def)
  then have ok: "adapter_ok z" unfolding z_def by (rule monitor_wake_ok)
  have t: "monitor_teardown opts now p (m, z) = (m', x')"
    using assms(4) by (auto simp: WnbdDeviceMonitorThread_def z_def Let_def split: if_splits)
  have p: "p \<in> devs z" using assms(2) z(2) by simp
  have inq: "InquiryData (Devices z p) \<noteq> None" using ok p by (simp add: adapter_defs)
  note rm = monitor_teardown_removed [OF inq t]
  show "adapter_ok x'" by (rule removed_ok [OF ok p rm])
  show "DeviceList x' = remove1 p (DeviceList x)" "\<forall>q. q \<noteq> p \<longrightarrow> Devices x' q = Devices x q"
    using rm z by (simp_all add: removed_def)
  have same: "queued (Devices z p) = queued (Devices x p)" by (simp add: z(1) queued_def)
  show "Notified m' = Notified m @ srbs_of m (queued (Devices x p))" if "queues_ok m (Devices x p)"
    using monitor_teardown_ok(1) [OF _ inq t] that by (simp add: same) (simp add: z(1) queue_defs)
qed

text \<open>
  C20: a removal request changes the driver only when it is the request to remove the disk of its own
  device object: that disk is taken out with its queued requests completed once, aborted, and no other
  disk changes. The question whether a disk may be removed changes nothing, and is refused only for a
  disk of the device object with requests under way.
\<close>

theorem pnp_removes_own_disk:
  assumes "adapter_ok x" "pnp_request opts env dev Irp (m, x) = Returned (St, Irp', m', x')"
    and "MinorFunction Irp \<noteq> IRP_MN_START_DEVICE"
  shows "((m', x') = (m, x) \<and>
      (St \<noteq> None \<longrightarrow> MinorFunction Irp = IRP_MN_QUERY_REMOVE_DEVICE \<and> St = Some STATUS_DEVICE_BUSY \<and>
         (\<exists>p \<in> devs x. PDO (Devices x p) = Some dev \<and> HasPendingAsyncRequests (Devices x p)))) \<or>
    (MinorFunction Irp = IRP_MN_REMOVE_DEVICE \<and> St = None \<and>
      (\<exists>p \<in> devs x. PDO (Devices x p) = Some dev \<and> adapter_ok x' \<and> DeviceList x' = remove1 p (DeviceList x) \<and>
         (\<forall>q. q \<noteq> p \<longrightarrow> Devices x' q = Devices x q) \<and>
         (queues_ok m (Devices x p) \<longrightarrow> Notified m' = Notified m @ srbs_of m (queued (Devices x p)))))"
proof (cases "MinorFunction Irp")
  case IRP_MN_QUERY_REMOVE_DEVICE
  then obtain busy y where q: "query_remove_device env dev x = Returned (busy, y)"
    using assms(2) by (auto simp: pnp_request_def split: run.splits)
  with query_remove_keeps [OF q] assms(2) IRP_MN_QUERY_REMOVE_DEVICE show ?thesis
    by (auto simp: pnp_request_def split: if_splits)
next
  case IRP_MN_REMOVE_DEVICE
  then obtain r y where t: "removal_target env dev x = Returned (r, y)"
    using assms(2) by (auto simp: pnp_request_def remove_device_def split: run.splits)
  from t show ?thesis
  proof (cases rule: removal_target_cases)
    case none
    then show ?thesis using t assms(2) IRP_MN_REMOVE_DEVICE by (simp add: pnp_request_def remove_device_def)
  next
    case (disk p)
    have run: "WnbdDeviceMonitorThread opts (PeTime env) p (m, dev_upd p WnbdDisconnectSync y) = Some (m', x')" "St = None"
      using t disk(1) assms(2) IRP_MN_REMOVE_DEVICE
      by (auto simp: pnp_request_def remove_device_def Let_def split: option.splits run.splits)
    from disconnected_disk [OF assms(1) disk(2,5) run(1)] disk(2,3) run(2) IRP_MN_REMOVE_DEVICE show ?thesis by blast
  qed
qed (use assms(2,3) in \<open>auto simp: pnp_request_def\<close>)

section \<open>Starting a disk\<close>

text \<open>What a start does to the disk at the address of its device object.\<close>

definition started :: "pnp_dispatch_env \<Rightarrow> ptr \<Rightarrow> WNBD_DISK_DEVICE \<Rightarrow> WNBD_DISK_DEVICE" where
  "started env dev d =
     d\<lparr>PDO := Some dev, DiskNumber := snd (PeDiskNumber env),
       PNPDeviceID := snd (PeInstancePath env) @ drop (length (snd (PeInstancePath env))) (PNPDeviceID d)\<rparr>"

definition at_address :: "SCSI_ADDRESS \<Rightarrow> WNBD_DISK_DEVICE \<Rightarrow> bool" where
  "at_address a d \<longleftrightarrow> Bus d = ucast (AddrPathId a) \<and> Target d = ucast (AddrTargetId a) \<and> Lun d = ucast (AddrLun a)"

lemma find_by_address_idle:
  assumes "find (\<lambda>p. at_address a (Devices x p)) (DeviceList x) = Some p" "\<not> RdStarted (RundownProtection (Devices x p))"
  shows "find_by_address a x = (Some p, dev_upd p
    (\<lambda>d. d\<lparr>RundownProtection := (RundownProtection d)\<lparr>RdCount := Suc (RdCount (RundownProtection d))\<rparr>\<rparr>) x)"
  using assms
  by (simp add: find_by_address_def WnbdFindDeviceByAddr_def find_device_def at_address_def WnbdAcquireDevice_def
      ExAcquireRundownProtection_def dev_upd_def)

lemma start_device_started:
  assumes "find (\<lambda>p. at_address (snd (PeAddress env)) (Devices x p)) (DeviceList x) = Some p"
    and "\<not> RdStarted (RundownProtection (Devices x p))"
    and "PeGlobalExt env" "fst (WnbdGetScsiAddress (PeAddress env)) = 0" "PeAttached env" "answered 12 (fst (PeDiskNumber env)) = 0"
  shows "start_device env dev x = dev_upd p (started env dev) x"
  using find_by_address_idle [OF assms(1,2)] assms(3-6)
  by (simp add: start_device_def WnbdGetScsiAddress_def WnbdGetDiskNumber_def WnbdGetDiskInstancePath_def dev_upd_def
      started_def WnbdReleaseDevice_def ExReleaseRundownProtection_def)

lemma removal_target_found:
  assumes "find (\<lambda>p. at_address (snd (PeAddress env)) (Devices x p)) (DeviceList x) = Some p"
    and "\<not> RdStarted (RundownProtection (Devices x p))"
    and "PeGlobalExt env" "fst (WnbdGetScsiAddress (PeAddress env)) = 0" "DeviceCount x \<noteq> 0"
    and "strlen (InstanceName (Properties (Devices x p))) \<le> 256"
  shows "removal_target env dev x = Returned
    (if PDO (Devices x p) = Some dev
     then (Some p, dev_upd p (\<lambda>d. d\<lparr>RundownProtection := (RundownProtection d)\<lparr>RdCount := Suc (RdCount (RundownProtection d))\<rparr>\<rparr>) x)
     else (None, x))"
  using find_by_address_idle [OF assms(1,2)] assms(3-6)
  by (simp add: removal_target_def WnbdGetScsiAddress_def dev_upd_def WnbdReleaseDevice_def ExReleaseRundownProtection_def)

lemma find_dev_upd:
  assumes "find (\<lambda>q. P (Devices x q)) (DeviceList x) = Some p" "P (f (Devices x p)) = P (Devices x p)"
  shows "find (\<lambda>q. P (Devices (dev_upd p f x) q)) (DeviceList (dev_upd p f x)) = Some p"
proof -
  have "(\<lambda>q. P (Devices (dev_upd p f x) q)) = (\<lambda>q. P (Devices x q))" using assms(2) by auto
  with assms(1) show ?thesis by simp
qed

abbreviation (input) held_at :: "ptr \<Rightarrow> WNBD_EXTENSION \<Rightarrow> WNBD_EXTENSION" where
  "held_at p x \<equiv> dev_upd p (\<lambda>d. d\<lparr>RundownProtection := (RundownProtection d)\<lparr>RdCount := Suc (RdCount (RundownProtection d))\<rparr>\<rparr>) x"

lemma release_acquired_disk [simp]: "dev_upd p WnbdReleaseDevice (held_at p x) = x"
  by (simp add: dev_upd_def WnbdReleaseDevice_def ExReleaseRundownProtection_def)

lemma acquired_pending [simp]: "HasPendingAsyncRequests (Devices (held_at p x) p) = HasPendingAsyncRequests (Devices x p)"
  by (simp add: HasPendingAsyncRequests_def)

text \<open>The answers to a removal of the disk at the address, by the device object that asks.\<close>

lemma query_remove_found:
  assumes "removal_target env dev x = Returned (if PDO (Devices x p) = Some dev then (Some p, held_at p x) else (None, x))"
  shows "query_remove_device env dev x =
    Returned (PDO (Devices x p) = Some dev \<and> HasPendingAsyncRequests (Devices x p), x)"
  using assms by (cases "PDO (Devices x p) = Some dev") (simp_all add: query_remove_device_def del: dev_upd_sel)

lemma remove_found:
  assumes "removal_target env dev x = Returned (if PDO (Devices x p) = Some dev then (Some p, held_at p x) else (None, x))"
    and "RundownProtection (Devices x p) = rundown_init" "adapter_ok x" "p \<in> devs x"
  shows "\<exists>m' z. remove_device opts env dev (m, x) = Returned (m', z) \<and> adapter_ok z \<and>
    (if PDO (Devices x p) = Some dev then DeviceList z = remove1 p (DeviceList x) else (m', z) = (m, x))"
proof (cases "PDO (Devices x p) = Some dev")
  case True
  have "WnbdDeviceMonitorThread opts (PeTime env) p (m, dev_upd p WnbdDisconnectSync (held_at p x)) \<noteq> None"
    by (simp add: WnbdDeviceMonitorThread_def monitor_woken_def monitor_wake_def WnbdDisconnectSync_def WnbdReleaseDevice_def
        ExReleaseRundownProtection_def ExRundownDone_def ExRundownWait_def assms(2) rundown_init_def)
  then obtain m' z where r: "WnbdDeviceMonitorThread opts (PeTime env) p (m, dev_upd p WnbdDisconnectSync (held_at p x)) = Some (m', z)"
    by auto
  note d = disconnected_disk [OF assms(3,4) refl r]
  have "remove_device opts env dev (m, x) = Returned (m', z)" using r True by (simp add: remove_device_def assms(1))
  with d(1,2) True show ?thesis by auto
next
  case False
  then show ?thesis using assms(3) by (simp add: remove_device_def assms(1))
qed

lemma started_disk:
  assumes "adapter_ok x" "find (\<lambda>p. at_address (snd (PeAddress env)) (Devices x p)) (DeviceList x) = Some p"
    and "RundownProtection (Devices x p) = rundown_init" "DeviceCount x \<noteq> 0" "PeGlobalExt env" "PeAttached env"
    and "fst (WnbdGetScsiAddress (PeAddress env)) = 0" "answered 12 (fst (PeDiskNumber env)) = 0"
    and "strlen (InstanceName (Properties (Devices x p))) \<le> 256"
    and "y = dev_upd p (started env dev) x"
  shows "start_device env dev x = y" "adapter_ok y" "p \<in> devs y" "PDO (Devices y p) = Some dev"
    "RundownProtection (Devices y p) = rundown_init"
    "removal_target env d y = Returned (if PDO (Devices y p) = Some d then (Some p, held_at p y) else (None, y))"
proof -
  have idle: "\<not> RdStarted (RundownProtection (Devices x p))" by (simp add: assms(3) rundown_init_def)
  show "start_device env dev x = y" unfolding assms(10) by (rule start_device_started) (use assms idle in auto)
  show "PDO (Devices y p) = Some dev" "RundownProtection (Devices y p) = rundown_init"
    by (simp_all add: assms(3,10) started_def)
  show "adapter_ok y"
    unfolding assms(10) by (rule adapter_ok_dev_upd [OF assms(1)]) (simp add: same_identity_def started_def)
  have f: "find (\<lambda>q. at_address (snd (PeAddress env)) (Devices y q)) (DeviceList y) = Some p"
    unfolding assms(10) by (rule find_dev_upd [OF assms(2)]) (simp add: at_address_def started_def)
  show "removal_target env d y = Returned (if PDO (Devices y p) = Some d then (Some p, held_at p y) else (None, y))"
    by (rule removal_target_found [OF f]) (use assms idle in \<open>simp_all add: started_def\<close>)
  show "p \<in> devs y" using assms(2,10) by (auto simp: find_Some_iff)
qed

text \<open>
  C21: once the disk at an address was started, the list reports its disk number and instance path, its
  device object may be removed exactly when no request is under way, the removal takes the disk out,
  and a request of another device object at the address changes nothing.
\<close>

theorem started_disk_is_removable:
  assumes "adapter_ok x" "find (\<lambda>p. at_address (snd (PeAddress env)) (Devices x p)) (DeviceList x) = Some p"
    and "RundownProtection (Devices x p) = rundown_init" "DeviceCount x \<noteq> 0" "PeGlobalExt env" "PeAttached env"
    and "fst (WnbdGetScsiAddress (PeAddress env)) = 0" "answered 12 (fst (PeDiskNumber env)) = 0"
    and "strlen (InstanceName (Properties (Devices x p))) \<le> 256" "other \<noteq> dev"
  shows "let y = start_device env dev x in
    adapter_ok y \<and> DeviceList y = DeviceList x \<and> (\<forall>q. q \<noteq> p \<longrightarrow> Devices y q = Devices x q) \<and>
    connection_entry (Devices y p) = (connection_entry (Devices x p))\<lparr>CiDiskNumber := snd (PeDiskNumber env),
      CiPNPDeviceID := snd (PeInstancePath env) @ drop (length (snd (PeInstancePath env))) (PNPDeviceID (Devices x p))\<rparr> \<and>
    query_remove_device env dev y = Returned (HasPendingAsyncRequests (Devices x p), y) \<and>
    query_remove_device env other y = Returned (False, y) \<and> remove_device opts env other (m, y) = Returned (m, y) \<and>
    (\<exists>m' z. remove_device opts env dev (m, y) = Returned (m', z) \<and> adapter_ok z \<and> DeviceList z = remove1 p (DeviceList x))"
proof -
  let ?y = "dev_upd p (started env dev) x"
  note y = started_disk [OF assms(1-9) refl, where dev = dev]
  have "connection_entry (Devices ?y p) = (connection_entry (Devices x p))\<lparr>CiDiskNumber := snd (PeDiskNumber env),
      CiPNPDeviceID := snd (PeInstancePath env) @ drop (length (snd (PeInstancePath env))) (PNPDeviceID (Devices x p))\<rparr>"
    "HasPendingAsyncRequests (Devices ?y p) = HasPendingAsyncRequests (Devices x p)"
    by (simp_all add: connection_entry_def started_def HasPendingAsyncRequests_def)
  with query_remove_found [OF y(6) [of dev]] query_remove_found [OF y(6) [of other]] y(2) assms(10)
    remove_found [OF y(6) [of dev] y(5,2,3), where opts = opts and m = m]
    remove_found [OF y(6) [of other] y(5,2,3), where opts = opts and m = m]
  show ?thesis unfolding y(1) Let_def y(4) by auto
qed

text \<open>The first disk of an adapter, started at its address.\<close>

definition sample_pnp :: "u8 \<Rightarrow> pnp_dispatch_env" where
  "sample_pnp t = \<lparr>PeGlobalExt = True,
     PeAddress = (IoCallDriver 0 \<lparr>IoStatus = 0, IoInformation = 8\<rparr>, \<lparr>AddrPathId = 0, AddrTargetId = t, AddrLun = 0\<rparr>),
     PeAttached = True, PeDiskNumber = (IoCallDriver STATUS_PENDING \<lparr>IoStatus = 0, IoInformation = 12\<rparr>, 5),
     PeInstancePath = (0, wlit ''SCSI''), PeTime = 9, StorPortDispatchPnp = (\<lambda>_ _ s. (0, s))\<rparr>"

lemma sample_pnp_answers:
  "fst (WnbdGetScsiAddress (PeAddress (sample_pnp t))) = 0" "answered 12 (fst (PeDiskNumber (sample_pnp t))) = 0"
  "PeGlobalExt (sample_pnp t)" "PeAttached (sample_pnp t)" "snd (PeDiskNumber (sample_pnp t)) = 5"
  by (simp_all add: sample_pnp_def WnbdGetScsiAddress_def answered_def NT_ERROR_def)

lemma addressed_disk:
  obtains m x t where "adapter_ok x" "DeviceList x = [1]" "DeviceCount x \<noteq> 0" "RundownProtection (Devices x 1) = rundown_init"
    "find (\<lambda>p. at_address (snd (PeAddress (sample_pnp t))) (Devices x p)) (DeviceList x) = Some 1"
    "strlen (InstanceName (Properties (Devices x 1))) \<le> 256" "queues_ok m (Devices x 1)"
proof (rule one_disk)
  fix info m x
  assume h: "created (named_props 100) 1 (referenced empty_adapter) x" "adapter_ok x" "DeviceList x = [1]"
    "RundownProtection (Devices x 1) = rundown_init" "InstanceName (Properties (Devices x 1)) = [100, 0]"
    "queues_ok m (Devices x 1)"
  let ?d = "Devices x 1"
  have d: "Bus ?d = 0" "Lun ?d = 0" "scsi_bit ?d < 128"
    using h(1) by (auto simp: created_def Let_def extension_init_def WnbdInitScsiIds_def)
  then have "unat (Target ?d) < 2 ^ 8" by (simp add: scsi_bit_def)
  then have "(ucast (ucast (Target ?d) :: u8) :: u16) = Target ?d"
    by (simp add: word_unat_eq_iff unsigned_ucast_eq unsigned_take_bit_eq take_bit_nat_eq_self)
  then have "at_address (snd (PeAddress (sample_pnp (ucast (Target ?d))))) ?d"
    using d by (simp add: at_address_def sample_pnp_def)
  with that [of x "ucast (Target ?d)" m] h show thesis by (auto simp: adapter_defs strlen_def cstr_def)
qed

theorem started_disk_is_removable_witness:
  "\<exists>t m x m' z. DeviceList x = [1] \<and> DiskNumber (Devices (start_device (sample_pnp t) 70 x) 1) = 5 \<and>
     remove_device WnbdDriverOptions (sample_pnp t) 70 (m, start_device (sample_pnp t) 70 x) = Returned (m', z) \<and> DeviceList z = []"
proof (rule addressed_disk)
  fix m x t
  assume h: "adapter_ok x" "DeviceList x = [1]" "DeviceCount x \<noteq> 0" "RundownProtection (Devices x 1) = rundown_init"
    "find (\<lambda>p. at_address (snd (PeAddress (sample_pnp t))) (Devices x p)) (DeviceList x) = Some 1"
    "strlen (InstanceName (Properties (Devices x 1))) \<le> 256"
  note s = sample_pnp_answers [of t]
  let ?y = "start_device (sample_pnp t) 70 x"
  have "DiskNumber (Devices ?y 1) = 5 \<and>
    (\<exists>m' z. remove_device WnbdDriverOptions (sample_pnp t) 70 (m, ?y) = Returned (m', z) \<and> DeviceList z = [])"
    using started_disk_is_removable [OF h(1,5,4,3) s(3,4,1,2) h(6), of 71 70 WnbdDriverOptions m] h(2) s(5)
    by (auto simp: Let_def dest!: arg_cong [of _ _ CiDiskNumber]) (simp add: connection_entry_def)
  with h(2) show ?thesis by blast
qed

theorem pnp_removes_own_disk_witness:
  "\<exists>t m x m' z Irp. DeviceList x = [1] \<and>
     pnp_request WnbdDriverOptions (sample_pnp t) 70 Irp (m, start_device (sample_pnp t) 70 x) = Returned (None, Irp, m', z) \<and>
     DeviceList z = [] \<and> (\<forall>q. q \<noteq> 1 \<longrightarrow> Devices z q = Devices x q)"
proof (rule addressed_disk)
  fix m x t
  assume h: "adapter_ok x" "DeviceList x = [1]" "DeviceCount x \<noteq> 0" "RundownProtection (Devices x 1) = rundown_init"
    "find (\<lambda>p. at_address (snd (PeAddress (sample_pnp t))) (Devices x p)) (DeviceList x) = Some 1"
    "strlen (InstanceName (Properties (Devices x 1))) \<le> 256"
  note s = sample_pnp_answers [of t]
  let ?y = "dev_upd 1 (started (sample_pnp t) 70) x"
  note y = started_disk [OF h(1,5,4,3) s(3,4,1,2) h(6) refl, where dev = 70]
  define Irp where "Irp = \<lparr>MinorFunction = IRP_MN_REMOVE_DEVICE, Capabilities = undefined, IrpStatus = 0\<rparr>"
  obtain m' z where r: "remove_device WnbdDriverOptions (sample_pnp t) 70 (m, ?y) = Returned (m', z)" "DeviceList z = []"
    using remove_found [OF y(6) [of 70] y(5,2,3), where opts = WnbdDriverOptions and m = m] y(4) h(2) by auto
  then have p: "pnp_request WnbdDriverOptions (sample_pnp t) 70 Irp (m, ?y) = Returned (None, Irp, m', z)"
    by (simp add: pnp_request_def Irp_def)
  from pnp_removes_own_disk [OF y(2) p] r(2) h(2) have "\<forall>q. q \<noteq> 1 \<longrightarrow> Devices z q = Devices x q"
    by (auto simp: Irp_def)
  with p r(2) h(2) y(1) show ?thesis by (metis (no_types, lifting))
qed

end
