(* ===== verification/Usage.thy ===== *)
theory Usage
  imports Prelude "HOL-Library.Char_ord" "HOL-Library.List_Lexorder"
begin

text \<open>
  The help texts of the command line client, \<^verbatim>\<open>wnbd-client/usage.cpp\<close>: wrapping of
  paragraphs, option summaries, and the pages themselves. Texts are strings of 8-bit characters;
  what a page prints is its result. The option descriptions are the tables that
  \<^verbatim>\<open>client.cpp\<close> fills, as the option library keeps them.
\<close>

section \<open>Strings\<close>

text \<open>White space of the C locale, the two searches of \<^verbatim>\<open>std::string\<close>, and trimming.\<close>

definition isspace :: "char \<Rightarrow> bool" where
  "isspace c \<longleftrightarrow> c \<in> {CHR '' '', CHR 0x09, CHR 0x0A, CHR 0x0B, CHR 0x0C, CHR 0x0D}"

abbreviation (input) newline :: char where "newline \<equiv> CHR 0x0A"
abbreviation (input) blank :: char where "blank \<equiv> CHR '' ''"

definition trim :: "string \<Rightarrow> string" where
  "trim s = rev (dropWhile isspace (rev (dropWhile isspace s)))"

definition find_char :: "char \<Rightarrow> string \<Rightarrow> nat option" where
  "find_char c s = (if c \<in> set s then Some (length (takeWhile (\<lambda>x. x \<noteq> c) s)) else None)"

text \<open>The last occurrence that is not behind \<open>pos\<close>.\<close>

definition rfind_char :: "char \<Rightarrow> nat \<Rightarrow> string \<Rightarrow> nat option" where
  "rfind_char c pos s =
     (let s = take (Suc pos) s
      in if c \<in> set s then Some (length s - Suc (length (takeWhile (\<lambda>x. x \<noteq> c) (rev s)))) else None)"

section \<open>Wrapping a paragraph\<close>

definition line_length :: "nat \<Rightarrow> string \<Rightarrow> nat" where
  "line_length width text =
     (let n = length text;
          n = (if length text > width
               then case rfind_char blank width text of
                      Some n \<Rightarrow> n
                    | None \<Rightarrow> (case find_char blank text of Some n \<Rightarrow> n | None \<Rightarrow> length text)
               else n)
      in case find_char newline text of None \<Rightarrow> n | Some k \<Rightarrow> min n k)"

lemma takeWhile_neq_less: "c \<in> set s \<Longrightarrow> length (takeWhile (\<lambda>x. x \<noteq> c) s) < length s"
  by (induction s) auto

lemma find_char_Some:
  assumes "find_char c s = Some n"
  shows "n < length s \<and> s ! n = c \<and> c \<notin> set (take n s)"
proof -
  have n: "n = length (takeWhile (\<lambda>x. x \<noteq> c) s)" "c \<in> set s"
    using assms by (auto simp: find_char_def split: if_splits)
  from n(2) have "n < length s" unfolding n(1) by (rule takeWhile_neq_less)
  moreover from this have "s ! n = c" using nth_length_takeWhile [of "\<lambda>x. x \<noteq> c" s] n(1) by auto
  moreover have "take n s = takeWhile (\<lambda>x. x \<noteq> c) s" unfolding n(1) by (metis takeWhile_eq_take)
  ultimately show ?thesis by (auto dest: set_takeWhileD)
qed

lemma rfind_char_Some:
  assumes "rfind_char c pos s = Some n" shows "n \<le> pos \<and> n < length s \<and> s ! n = c"
proof -
  let ?t = "take (Suc pos) s" and ?k = "length (takeWhile (\<lambda>x. x \<noteq> c) (rev (take (Suc pos) s)))"
  have c: "c \<in> set ?t" and n: "n = length ?t - Suc ?k"
    using assms by (auto simp: rfind_char_def Let_def split: if_splits)
  have k: "?k < length ?t" using takeWhile_neq_less [of c "rev ?t"] c by simp
  then have "rev ?t ! ?k = c" using nth_length_takeWhile [of "\<lambda>x. x \<noteq> c" "rev ?t"] by auto
  then have "?t ! n = c" using k n by (simp add: rev_nth)
  with k n show ?thesis by auto
qed

lemma find_char_None: "find_char c s = None \<longleftrightarrow> c \<notin> set s"
  by (simp add: find_char_def)

lemma line_length_le: "line_length width text \<le> length text"
  by (auto simp: line_length_def Let_def min_def split: option.splits
      dest!: find_char_Some rfind_char_Some)

lemma line_length_break:
  assumes "line_length width text < length text" shows "isspace (text ! line_length width text)"
  using assms
  by (auto simp: line_length_def Let_def min_def isspace_def split: option.splits if_splits
      dest!: find_char_Some rfind_char_Some)

lemma in_take_mono: "c \<in> set (take k s) \<Longrightarrow> k \<le> n \<Longrightarrow> c \<in> set (take n s)"
  using set_take_subset_set_take [of k n s] by blast

lemma in_take_less: "c \<in> set (take k s) \<Longrightarrow> \<not> n \<le> k \<Longrightarrow> c \<in> set (take n s)"
  by (rule in_take_mono, assumption, simp)

lemma line_length_short:
  "length (take (line_length width text) text) \<le> width \<or> blank \<notin> set (take (line_length width text) text)"
  by (auto simp: line_length_def Let_def min_def find_char_None split: option.splits if_splits
      dest!: find_char_Some rfind_char_Some dest: in_set_takeD in_take_mono in_take_less)

lemma line_length_newline: "newline \<notin> set (take (line_length width text) text)"
  by (auto simp: line_length_def Let_def min_def find_char_None split: option.splits
      dest!: find_char_Some dest: in_set_takeD in_take_mono in_take_less)

lemma length_trim: "length (trim s) \<le> length s"
  by (metis le_trans length_dropWhile_le length_rev trim_def)

lemma trim_shorter:
  assumes "s \<noteq> []" "isspace (hd s)" shows "length (trim s) < length s"
proof -
  have "length (trim s) \<le> length (dropWhile isspace s)"
    by (simp add: trim_def) (metis length_dropWhile_le length_rev)
  also have "\<dots> < length s" using assms by (cases s) (simp_all add: le_imp_less_Suc length_dropWhile_le)
  finally show ?thesis .
qed

lemma fmt_shorter:
  assumes "text \<noteq> []"
  shows "length (trim (drop (line_length width text) text)) < length text"
proof (cases "line_length width text = 0")
  case True
  with line_length_break [of width "text"] assms show ?thesis
    by (simp add: hd_conv_nth trim_shorter)
next
  case False
  have "length (trim (drop (line_length width text) text)) \<le> length (drop (line_length width text) text)"
    by (rule length_trim)
  also have "\<dots> < length text" using False assms line_length_le [of width "text"] by simp
  finally show ?thesis .
qed

function fmt_loop :: "nat \<Rightarrow> nat \<Rightarrow> string \<Rightarrow> string \<Rightarrow> string" where
  "fmt_loop margin width text result =
     (if text = [] then result
      else (let result = (if result \<noteq> [] then result @ replicate margin blank else result);
                n = line_length width text;
                result = result @ take n text;
                text = trim (drop n text)
            in fmt_loop margin width text (if text \<noteq> [] then result @ [newline] else result)))"
  by pat_completeness auto
termination
  by (relation "measure (\<lambda>(margin, width, text, result). length text)") (auto simp: fmt_shorter)

declare fmt_loop.simps [simp del]

definition fmt_text :: "nat \<Rightarrow> nat \<Rightarrow> string \<Rightarrow> string" where
  "fmt_text margin width text = fmt_loop margin width (trim text) []"

text \<open>\<^verbatim>\<open>boost::algorithm::join\<close>.\<close>

fun join :: "string \<Rightarrow> string list \<Rightarrow> string" where
  "join sep [] = []"
| "join sep [p] = p"
| "join sep (p # q # ps) = p @ sep @ join sep (q # ps)"

lemma join_Cons: "ps \<noteq> [] \<Longrightarrow> join sep (p # ps) = p @ sep @ join sep ps"
  by (cases ps) simp_all

subsection \<open>Words\<close>

text \<open>What a reader sees of a text: its maximal runs of characters other than white space.\<close>

function words :: "string \<Rightarrow> string list" where
  "words [] = []"
| "words (c # s) =
     (if isspace c then words s
      else (c # takeWhile (\<lambda>x. \<not> isspace x) s) # words (dropWhile (\<lambda>x. \<not> isspace x) s))"
  by pat_completeness auto
termination by (relation "measure length") (simp_all add: le_imp_less_Suc length_dropWhile_le)

lemma words_append_space: "isspace c \<Longrightarrow> words (a @ c # b) = words a @ words b"
proof (induction a rule: words.induct)
  case (2 d s)
  show ?case
  proof (cases "\<forall>x \<in> set s. \<not> isspace x")
    case True
    then have t: "takeWhile (\<lambda>x. \<not> isspace x) s = s" "dropWhile (\<lambda>x. \<not> isspace x) s = []" by simp_all
    show ?thesis using 2(1,3) True by (simp add: t takeWhile_append dropWhile_append)
  next
    case False
    then show ?thesis using 2 by (auto simp: takeWhile_append dropWhile_append)
  qed
qed simp

lemma words_spaces: "list_all isspace w \<Longrightarrow> words w = [] \<and> words (w @ s) = words s \<and> words (s @ w) = words s"
  by (induction w arbitrary: s) (auto simp: words_append_space)

lemma words_trim [simp]: "words (trim s) = words s"
proof -
  have l: "list_all isspace (takeWhile isspace t)" for t by (auto simp: list_all_iff dest: set_takeWhileD)
  have d: "words (dropWhile isspace t) = words t" for t
    using words_spaces [OF l, of t "dropWhile isspace t"] by simp
  have "words (rev (dropWhile isspace (rev t))) = words t" for t
    using words_spaces [of "rev (takeWhile isspace (rev t))" "rev (dropWhile isspace (rev t))"] l [of "rev t"]
    by (simp add: list_all_rev flip: rev_append)
  with d show ?thesis by (simp add: trim_def)
qed

lemma words_take_drop: "words (take (line_length w t) t) @ words (drop (line_length w t) t) = words t"
proof (cases "line_length w t < length t")
  case True
  let ?n = "line_length w t"
  have "drop ?n t = t ! ?n # drop (Suc ?n) t" using True by (simp add: Cons_nth_drop_Suc)
  then show ?thesis
    using words_append_space [OF line_length_break [OF True], of "take ?n t" "drop (Suc ?n) t"]
      words_append_space [OF line_length_break [OF True], of "[]" "drop (Suc ?n) t"]
    by (simp add: id_take_nth_drop [OF True, symmetric])
qed simp

lemma words_append_after: "r = [] \<or> isspace (last r) \<Longrightarrow> words (r @ s) = words r @ words s"
proof (cases r rule: rev_exhaust)
  case (snoc r' c)
  then show "r = [] \<or> isspace (last r) \<Longrightarrow> ?thesis"
    using words_append_space [of c r' s] words_append_space [of c r' "[]"] by simp
qed simp

subsection \<open>The shape of the result\<close>

lemma hd_trim: "trim s = [] \<or> \<not> isspace (hd (trim s))"
proof -
  let ?d = "dropWhile isspace s"
  have "trim s \<noteq> [] \<Longrightarrow> hd (trim s) = hd ?d"
  proof -
    assume n: "trim s \<noteq> []"
    have "?d = trim s @ rev (takeWhile isspace (rev ?d))"
      by (simp add: trim_def flip: rev_append)
    with n show ?thesis by (metis hd_append2)
  qed
  moreover have "trim s \<noteq> [] \<Longrightarrow> ?d \<noteq> []" by (metis dropWhile.simps(1) rev.simps(1) trim_def)
  ultimately show ?thesis using hd_dropWhile [of isspace s] by auto
qed

definition line_ok :: "nat \<Rightarrow> string \<Rightarrow> bool" where
  "line_ok width p \<longleftrightarrow> p \<noteq> [] \<and> newline \<notin> set p \<and> \<not> isspace (hd p) \<and> (length p \<le> width \<or> blank \<notin> set p)"

lemma first_line_ok:
  assumes "t \<noteq> []" "\<not> isspace (hd t)" shows "line_ok w (take (line_length w t) t)"
proof -
  have "line_length w t \<noteq> 0" using line_length_break [of w t] assms
    by (cases "line_length w t = 0") (auto simp: hd_conv_nth)
  with assms show ?thesis
    using line_length_short [of w t] line_length_newline [of w t] by (simp add: line_ok_def)
qed

lemma fmt_loop_shape:
  assumes "t = [] \<or> \<not> isspace (hd t)"
  shows "\<exists>ps. fmt_loop m w t r =
      r @ (if r = [] \<or> t = [] then [] else replicate m blank) @ join (newline # replicate m blank) ps \<and>
    list_all (line_ok w) ps \<and> (ps = [] \<longleftrightarrow> t = [])"
  using assms
proof (induction t arbitrary: r rule: measure_induct_rule [where f = length])
  case (less t)
  show ?case
  proof (cases "t = []")
    case True
    then show ?thesis by (intro exI [of _ "[]"]) (simp add: fmt_loop.simps)
  next
    case False
    let ?n = "line_length w t"
    let ?t = "trim (drop ?n t)" and ?r = "r @ (if r = [] then [] else replicate m blank) @ take ?n t"
    have ok: "line_ok w (take ?n t)" using first_line_ok [OF False] less.prems False by simp
    obtain ps where ps: "fmt_loop m w ?t (if ?t = [] then ?r else ?r @ [newline]) =
        (if ?t = [] then ?r else ?r @ [newline] @ replicate m blank) @ join (newline # replicate m blank) ps"
      "list_all (line_ok w) ps" "ps = [] \<longleftrightarrow> ?t = []"
      using less.IH [OF fmt_shorter [OF False, of w], where r = "if ?t = [] then ?r else ?r @ [newline]"] hd_trim
      by (auto split: if_splits)
    have "fmt_loop m w t r = fmt_loop m w ?t (if ?t = [] then ?r else ?r @ [newline])"
      using False by (subst fmt_loop.simps) (simp add: Let_def)
    with ps ok False show ?thesis
      by (intro exI [of _ "take ?n t # ps"]) (auto simp: join_Cons)
  qed
qed

lemma fmt_loop_words:
  assumes "r = [] \<or> isspace (last r)" shows "words (fmt_loop m w t r) = words r @ words t"
  using assms
proof (induction t arbitrary: r rule: measure_induct_rule [where f = length])
  case (less t)
  show ?case
  proof (cases "t = []")
    case False
    let ?n = "line_length w t" and ?b = "if r = [] then [] else replicate m blank"
    let ?t = "trim (drop ?n t)" and ?r = "r @ ?b @ take ?n t"
    have b: "list_all isspace ?b" by (simp add: list_all_iff isspace_def)
    have "words (?b @ take ?n t) = words (take ?n t)" using words_spaces [OF b] by blast
    then have r: "words ?r = words r @ words (take ?n t)" using words_append_after [OF less.prems] by simp
    have "isspace newline" by (simp add: isspace_def)
    then have rn: "words (?r @ [newline]) = words ?r" using words_append_space [of newline ?r "[]"] by simp
    have "fmt_loop m w t r = fmt_loop m w ?t (if ?t = [] then ?r else ?r @ [newline])"
      using False by (subst fmt_loop.simps) (simp add: Let_def)
    moreover have "words (fmt_loop m w ?t (if ?t = [] then ?r else ?r @ [newline])) = words ?r @ words ?t"
    proof (cases "?t = []")
      case True
      then show ?thesis by (simp add: fmt_loop.simps)
    next
      case F: False
      then show ?thesis
        using less.IH [OF fmt_shorter [OF False, of w], where r = "?r @ [newline]"] rn by (simp add: isspace_def)
    qed
    ultimately show ?thesis using r words_take_drop [of w t] by simp
  qed (simp add: fmt_loop.simps)
qed

text \<open>
  Wrapping changes white space only, and no line of the result is longer than the width unless
  it is a single run without blanks.
\<close>

lemma fmt_text_wraps:
  "words (fmt_text m w t) = words t \<and>
   (\<exists>ps. fmt_text m w t = join (newline # replicate m blank) ps \<and> list_all (line_ok w) ps)"
  using fmt_loop_shape [OF hd_trim, of m w t "[]"] by (auto simp: fmt_text_def fmt_loop_words)

section \<open>Option descriptions\<close>

text \<open>
  The C++ types of option values. A switch is a boolean option that takes no argument; the two
  32-bit types are different types to the option library. A positional description is the list
  of the names by position, all of them for a single argument.
\<close>

datatype opt_type = TString | TBool | TDword | TUint32 | TUint64

datatype opt_value = VString string | VBool bool | VDword u32 | VUint32 u32 | VUint64 u64

record option_description =
  OdName :: string
  OdType :: opt_type
  OdRequired :: bool
  OdDefault :: "opt_value option"
  OdDescription :: string

definition max_tokens :: "option_description \<Rightarrow> nat" where
  "max_tokens d = (if OdType d = TBool then 0 else 1)"

text \<open>A command; its function is a tag. Commands without an option table have \<open>None\<close>.\<close>

record 'x Command =
  CmName :: string
  CmAliases :: "string list"
  CmDescription :: string
  CmExecute :: 'x
  CmOptions :: "(string list \<times> option_description list) option"

definition get_command :: "'x Command list \<Rightarrow> string \<Rightarrow> 'x Command option" where
  "get_command commands name = find (\<lambda>c. CmName c = name \<or> name \<in> set (CmAliases c)) commands"

definition options_of :: "'x Command \<Rightarrow> string list \<times> option_description list" where
  "options_of c = (case CmOptions c of None \<Rightarrow> ([], []) | Some p \<Rightarrow> p)"

section \<open>Pages\<close>

definition setw :: "nat \<Rightarrow> string \<Rightarrow> string" where
  "setw n s = s @ replicate (n - length s) blank"

abbreviation (input) LINE_WIDTH :: nat where "LINE_WIDTH \<equiv> 80"
abbreviation (input) MIN_LCOLUMN_WIDTH :: nat where "MIN_LCOLUMN_WIDTH \<equiv> 20"

text \<open>The space right of a column; the subtraction is the one of \<^verbatim>\<open>size_t\<close>.\<close>

definition text_width :: "nat \<Rightarrow> nat" where
  "text_width used = unat (max (of_nat LINE_WIDTH - of_nat used) (of_nat (LINE_WIDTH div 3)) :: u64)"

definition fmt_pos_opt_short :: "string \<Rightarrow> string" where
  "fmt_pos_opt_short opt_name = ''<'' @ opt_name @ ''>''"

definition fmt_opt_short :: "option_description \<Rightarrow> string" where
  "fmt_opt_short d =
     (if \<not> OdRequired d then ''['' else '''') @ ''--'' @ OdName d @
     (if max_tokens d \<noteq> 0 then '' <arg>'' else '''') @ (if \<not> OdRequired d then '']'' else '''')"

text \<open>
  Positional options by name, in the order of the names. The name of the previous option is never
  recorded, so that only an empty name ends the loop early.
\<close>

type_synonym descriptions = "(string \<times> string) list"

definition insert_description :: "string \<Rightarrow> descriptions \<Rightarrow> descriptions" where
  "insert_description n m = (if n \<in> fst ` set m then m else insort_key fst (n, '''') m)"

fun positional_column :: "string list \<Rightarrow> descriptions \<Rightarrow> nat \<Rightarrow> descriptions \<times> nat" where
  "positional_column [] m w = (m, w)"
| "positional_column (n # ns) m w =
     (if n = '''' then (m, w)
      else positional_column ns (insert_description n m) (max w (length n + 3 + 2)))"

text \<open>The remaining options, the descriptions of the positional ones, and the width of the column.\<close>

fun named_column ::
    "option_description list \<Rightarrow> descriptions \<Rightarrow> nat \<Rightarrow> option_description list \<times> descriptions \<times> nat" where
  "named_column [] m w = ([], m, w)"
| "named_column (d # ds) m w =
     (if OdName d \<in> fst ` set m
      then named_column ds (map (\<lambda>(n, t). if n = OdName d then (n, OdDescription d) else (n, t)) m) w
      else (let (l, m, w) = named_column ds m (max w (length (fmt_opt_short d) + 1 + 2)) in (d # l, m, w)))"

definition print_row :: "nat \<Rightarrow> string \<Rightarrow> string \<Rightarrow> string" where
  "print_row w name desc =
     replicate 2 blank @ setw (w - 2) name @ fmt_text w (text_width w) desc @ [newline]"

definition print_option_details ::
    "string list \<Rightarrow> option_description list \<Rightarrow> nat \<Rightarrow> string \<Rightarrow> string \<times> nat" where
  "print_option_details positional named lcol_width title =
     (let (m, w) = positional_column positional [] (max lcol_width MIN_LCOLUMN_WIDTH);
          (optional, m, w) = named_column named m w
      in ((if m \<noteq> []
           then ''Positional arguments:'' @ [newline] @
                concat (map (\<lambda>(n, t). print_row w (fmt_pos_opt_short n) t) m) @ [newline]
           else '''') @
          (if optional \<noteq> []
           then title @ '':'' @ [newline] @
                concat (map (\<lambda>d. print_row w (fmt_opt_short d) (OdDescription d)) optional) @ [newline]
           else ''''), w))"

fun usage_positions :: "string list \<Rightarrow> string \<times> string list" where
  "usage_positions [] = ('''', [])"
| "usage_positions (n # ns) =
     (if n = '''' then ('' [<> ...]'', [])
      else (let (s, ps) = usage_positions ns in (''<'' @ n @ ''> '' @ s, n # ps)))"

definition print_command_usage :: "string \<Rightarrow> string \<Rightarrow> string list \<Rightarrow> option_description list \<Rightarrow> string" where
  "print_command_usage binary_name command_name positional named =
     (let usage_str = ''Usage: '' @ binary_name @ '' '' @ command_name;
          margin = length usage_str + 1;
          (pos_stream, pos_names) = usage_positions positional;
          ops_stream = concat (map (\<lambda>d. fmt_opt_short d @ '' '') (filter (\<lambda>d. OdName d \<notin> set pos_names) named))
      in usage_str @ '' '' @ fmt_text margin (text_width (margin + 1)) (join [newline] [pos_stream, ops_stream]) @ [newline])"

text \<open>
  The page of a command, with the common options last. An unknown command has no page and the
  status \<^verbatim>\<open>ERROR_INVALID_PARAMETER\<close>.
\<close>

definition print_command_help ::
    "'x Command list \<Rightarrow> option_description list \<Rightarrow> string \<Rightarrow> u32 \<times> string" where
  "print_command_help commands common command_name =
     (case get_command commands command_name of
        None \<Rightarrow> (87, '''')
      | Some c \<Rightarrow>
          (let (positional, named) = options_of c;
               (details, w) = print_option_details positional named MIN_LCOLUMN_WIDTH ''Optional arguments''
           in (0, print_command_usage ''wnbd-client'' (CmName c) positional named @ [newline] @
                  fmt_text 0 LINE_WIDTH (CmDescription c) @ [newline, newline] @ details @
                  fst (print_option_details [] common w ''Common arguments''))))"

definition name_width :: "'x Command \<Rightarrow> nat" where
  "name_width c = length (CmName c) + sum_list (map length (CmAliases c)) + length (CmAliases c) * 3"

definition print_command_list :: "'x Command list \<Rightarrow> string" where
  "print_command_list commands =
     (let w = foldl (\<lambda>w c. max w (name_width c)) 0 commands
      in ''wnbd-client commands: '' @ [newline, newline] @
         concat (map (\<lambda>c. setw w (join '' | '' (CmName c # CmAliases c)) @ '' '' @
                           fmt_text (w + 1) (text_width w) (CmDescription c) @ [newline]) commands))"

end
