(* ===== verification/Setup.thy ===== *)
theory Setup
  imports UserIoctl Usage
begin

text \<open>
  Finding, installing and removing the adapter (\<^verbatim>\<open>libwnbd/wnbd_ioctl.cpp\<close> up to the
  calls into the driver, and \<^verbatim>\<open>libwnbd/utils.cpp\<close>). What the device installation functions of
  the operating system answer and do is an argument: a record of functions on the state of the
  system. The devices that were uninstalled and the driver packages that were deleted are recorded.
  A function that reports a failure has set a last error; where it is 0 the code goes on as if
  nothing had failed, and so does the model.
\<close>

section \<open>Identifiers and versions\<close>

record GUID =
  Data1 :: u32
  Data2 :: u16
  Data3 :: u16
  Data4 :: bytes

definition WNBD_GUID :: GUID where
  "WNBD_GUID = \<lparr>Data1 = 0x949dd17c, Data2 = 0xb06c, Data3 = 0x4c14,
     Data4 = [0x8e, 0x13, 0xf1, 0xa3, 0xa4, 0xa6, 0xdb, 0xcb]\<rparr>"

definition GUID_NULL :: GUID where
  "GUID_NULL = \<lparr>Data1 = 0, Data2 = 0, Data3 = 0, Data4 = replicate 8 0\<rparr>"

definition GUID_DEVCLASS_SCSIADAPTER :: GUID where
  "GUID_DEVCLASS_SCSIADAPTER = \<lparr>Data1 = 0x4d36e97b, Data2 = 0xe325, Data3 = 0x11ce,
     Data4 = [0xbf, 0xc1, 0x08, 0x00, 0x2b, 0xe1, 0x03, 0x18]\<rparr>"

definition hex_digit :: "nat \<Rightarrow> char" where
  "hex_digit n = char_of (if n < 10 then 48 + n else 55 + n)"

text \<open>The last \<open>k\<close> hexadecimal digits, which are all of a value of \<open>k\<close> digits.\<close>

fun hex :: "nat \<Rightarrow> nat \<Rightarrow> string" where
  "hex 0 n = ''''"
| "hex (Suc k) n = hex k (n div 16) @ [hex_digit (n mod 16)]"

definition hex_bytes :: "bytes \<Rightarrow> string" where
  "hex_bytes bs = concat (map (\<lambda>b. hex 2 (unat b)) bs)"

definition guid_to_string :: "GUID \<Rightarrow> string" where
  "guid_to_string g =
     [CHR 0x7B] @ hex 8 (unat (Data1 g)) @ ''-'' @ hex 4 (unat (Data2 g)) @ ''-'' @ hex 4 (unat (Data3 g)) @ ''-'' @
     hex_bytes (take 2 (Data4 g)) @ ''-'' @ hex_bytes (drop 2 (Data4 g)) @ [CHR 0x7D]"

text \<open>
  The version of the system: no library gives nothing, no function or a failing one gives zeros.
\<close>

record win_version =
  dwMajorVersion :: u32
  dwMinorVersion :: u32
  dwBuildNumber :: u32

record version_query =
  VqLibrary :: bool
  VqGetVersion :: "(u32 \<times> win_version) option"

definition GetWinVersion :: "version_query \<Rightarrow> win_version option" where
  "GetWinVersion q =
     (if \<not> VqLibrary q then None
      else Some (case VqGetVersion q of
                   None \<Rightarrow> \<lparr>dwMajorVersion = 0, dwMinorVersion = 0, dwBuildNumber = 0\<rparr>
                 | Some (Status, v) \<Rightarrow> v))"

fun lexicographical_compare :: "u32 list \<Rightarrow> u32 list \<Rightarrow> bool" where
  "lexicographical_compare [] ys = (ys \<noteq> [])"
| "lexicographical_compare (x # xs) [] = False"
| "lexicographical_compare (x # xs) (y # ys) =
     (if x < y then True else if y < x then False else lexicographical_compare xs ys)"

definition CheckWindowsVersion :: "version_query \<Rightarrow> u32 \<Rightarrow> u32 \<Rightarrow> u32 \<Rightarrow> bool" where
  "CheckWindowsVersion q major minor build =
     (case GetWinVersion q of
        None \<Rightarrow> False
      | Some v \<Rightarrow>
          \<not> lexicographical_compare [dwMajorVersion v, dwMinorVersion v, dwBuildNumber v] [major, minor, build])"

definition EnsureWindowsVersionSupported :: "version_query \<Rightarrow> bool" where
  "EnsureWindowsVersionSupported q = CheckWindowsVersion q 10 0 17763"

section \<open>What the system answers\<close>

abbreviation (input) ERROR_INVALID_DATA :: u32 where "ERROR_INVALID_DATA \<equiv> 13"
abbreviation (input) ERROR_INSUFFICIENT_BUFFER :: u32 where "ERROR_INSUFFICIENT_BUFFER \<equiv> 122"
abbreviation (input) ERROR_BAD_PATHNAME :: u32 where "ERROR_BAD_PATHNAME \<equiv> 161"
abbreviation (input) ERROR_NO_MORE_ITEMS :: u32 where "ERROR_NO_MORE_ITEMS \<equiv> 259"
abbreviation (input) ERROR_FILE_NOT_FOUND :: u32 where "ERROR_FILE_NOT_FOUND \<equiv> 2"
abbreviation (input) ERROR_INVALID_HANDLE :: u32 where "ERROR_INVALID_HANDLE \<equiv> 6"
abbreviation (input) ERROR_NOT_SUPPORTED :: u32 where "ERROR_NOT_SUPPORTED \<equiv> 50"
abbreviation (input) ERROR_LINE_NOT_FOUND :: u32 where "ERROR_LINE_NOT_FOUND \<equiv> 0xE0000102"
abbreviation (input) ERROR_DUPLICATE_FOUND :: u32 where "ERROR_DUPLICATE_FOUND \<equiv> 0xE0000202"

record device_info =
  ClassGuid :: GUID
  DevInst :: u32

definition zero_device_info :: device_info where
  "zero_device_info = \<lparr>ClassGuid = GUID_NULL, DevInst = 0\<rparr>"

text \<open>The two queries of a hardware id, 0 for success, with the allocation between them.\<close>

record hwid_query =
  HqFirst :: u32
  HqAlloc :: bool
  HqSecond :: u32
  HqData :: wstr

text \<open>An interface of an adapter: the errors of the steps that lead to its handle, 0 for success.\<close>

record 'd adapter_interface =
  IfSize :: u32
  IfAlloc :: bool
  IfDetail :: u32
  IfGuid :: GUID
  IfDevice :: device_info
  IfOpen :: "u32 + 'd adapter"

record inf_file =
  InfOpen :: u32
  InfCatalog :: u32
  InfField :: "u32 + wstr"

record 'd os =
  OsInterfaces :: "'d \<Rightarrow> u32 + (u32 + 'd adapter_interface) list"
  OsDevices :: "'d \<Rightarrow> u32 + (u32 + device_info) list"
  OsHardwareId :: "device_info \<Rightarrow> 'd \<Rightarrow> hwid_query"
  OsUninstallDevice :: "device_info \<Rightarrow> 'd \<Rightarrow> u32 \<times> bool \<times> 'd"
  OsWindowsDirectory :: "u32 + wstr"
  OsFindFiles :: "wstr \<Rightarrow> 'd \<Rightarrow> wstr list"
  OsInf :: "wstr \<Rightarrow> 'd \<Rightarrow> inf_file"
  OsUninstallInf :: "wstr \<Rightarrow> 'd \<Rightarrow> u32 \<times> 'd"
  OsVersion :: version_query
  OsFullPath :: "string \<Rightarrow> u32 + string"
  OsFileExists :: "string \<Rightarrow> bool"
  OsInfClass :: "string \<Rightarrow> u32"
  OsCreateList :: "'d \<Rightarrow> u32"
  OsCreateInfo :: "'d \<Rightarrow> u32 \<times> 'd"
  OsSetHardwareId :: "wstr \<Rightarrow> 'd \<Rightarrow> u32 \<times> 'd"
  OsRegisterDevice :: "'d \<Rightarrow> u32 \<times> 'd"
  OsInstallFlags :: "'d \<Rightarrow> u32 + u32"
  OsUpdateDriver :: "string \<Rightarrow> bool \<Rightarrow> 'd \<Rightarrow> u32 \<times> bool \<times> 'd"

record 'd setup_state =
  SyState :: 'd
  Uninstalled :: "device_info list"
  DeletedInfs :: "wstr list"

section \<open>Hardware ids\<close>

text \<open>A sequence of terminated strings, ended by an empty one.\<close>

function multi_sz :: "wstr \<Rightarrow> wstr list" where
  "multi_sz s =
     (if s = [] \<or> hd s = 0 then []
      else takeWhile (\<lambda>c. c \<noteq> 0) s # multi_sz (drop (length (takeWhile (\<lambda>c. c \<noteq> 0) s) + 1) s))"
  by pat_completeness auto
termination by (relation "measure length") (auto simp: neq_Nil_conv)

declare multi_sz.simps [simp del]

definition GetDeviceHardwareIds :: "hwid_query \<Rightarrow> u32 \<times> wstr set" where
  "GetDeviceHardwareIds q =
     (if HqFirst q = ERROR_INVALID_DATA then (0, {})
      else if HqFirst q \<noteq> 0 \<and> HqFirst q \<noteq> ERROR_INSUFFICIENT_BUFFER then (HqFirst q, {})
      else if \<not> HqAlloc q then (ERROR_NOT_ENOUGH_MEMORY, {})
      else if HqSecond q \<noteq> 0 then (HqSecond q, {})
      else (0, set (multi_sz (HqData q))))"

definition WNBD_HARDWAREID :: wstr where
  "WNBD_HARDWAREID = wlit (''root'' @ [CHR 0x5C] @ ''wnbd'')"

section \<open>Opening an adapter\<close>

text \<open>
  The enumeration of interfaces: a failure is not noticed, because the address of the argument is
  compared; the calls that use the list then fail.
\<close>

definition InitializeWnbdAdapterList :: "u32 + (u32 + 'a) list \<Rightarrow> u32 \<times> (u32 + 'a) list" where
  "InitializeWnbdAdapterList r = (0, case r of Inl e \<Rightarrow> [Inl ERROR_INVALID_HANDLE] | Inr l \<Rightarrow> l)"

definition enum_at :: "(u32 + 'a) list \<Rightarrow> nat \<Rightarrow> u32 + 'a" where
  "enum_at l i = (if i < length l then l ! i else Inl ERROR_NO_MORE_ITEMS)"

definition WnbdOpenAdapterEx ::
    "(u32 + 'd adapter_interface) list \<Rightarrow> nat \<Rightarrow> u32 \<times> 'd adapter option \<times> device_info" where
  "WnbdOpenAdapterEx l DevIndex =
     (case enum_at l DevIndex of
        Inl e \<Rightarrow> (e, None, zero_device_info)
      | Inr f \<Rightarrow>
          if IfSize f \<noteq> 0 \<and> IfSize f \<noteq> ERROR_INSUFFICIENT_BUFFER then (IfSize f, None, zero_device_info)
          else if \<not> IfAlloc f then (ERROR_NOT_ENOUGH_MEMORY, None, zero_device_info)
          else if IfDetail f \<noteq> 0 then (IfDetail f, None, zero_device_info)
          else if IfGuid f \<noteq> WNBD_GUID then (ERROR_INVALID_HANDLE, None, IfDevice f)
          else (case IfOpen f of Inl e \<Rightarrow> (e, None, IfDevice f) | Inr h \<Rightarrow> (0, Some h, IfDevice f)))"

definition WnbdOpenAdapter :: "'d os \<Rightarrow> 'd \<Rightarrow> u32 \<times> 'd adapter option" where
  "WnbdOpenAdapter os D =
     (let (Status, l) = InitializeWnbdAdapterList (OsInterfaces os D) in
      if Status \<noteq> 0 then (Status, None)
      else let (Status, h, dev) = WnbdOpenAdapterEx l 0 in (Status, if Status = 0 then h else None))"

definition WnbdAdapterExists :: "'d os \<Rightarrow> 'd \<Rightarrow> bool \<Rightarrow> u32 \<times> bool" where
  "WnbdAdapterExists os D Exists =
     (let (Status, l) = InitializeWnbdAdapterList (OsInterfaces os D) in
      if Status \<noteq> 0 then (Status, Exists)
      else let (Status, h, dev) = WnbdOpenAdapterEx l 0 in
           if Status = 0 \<or> Status = ERROR_FILE_NOT_FOUND then (Status, True)
           else if Status = ERROR_NO_MORE_ITEMS then (0, Exists)
           else (Status, Exists))"

definition WnbdGetAdapterDevInst :: "'d os \<Rightarrow> 'd \<Rightarrow> u32 \<Rightarrow> u32 \<times> u32" where
  "WnbdGetAdapterDevInst os D DeviceInst =
     (let (Status, l) = InitializeWnbdAdapterList (OsInterfaces os D) in
      if Status \<noteq> 0 then (Status, DeviceInst)
      else let (Status, h, dev) = WnbdOpenAdapterEx l 0 in (Status, if Status = 0 then DevInst dev else DeviceInst))"

section \<open>Driver packages\<close>

text \<open>A package is this driver's if its catalog is \<^verbatim>\<open>wnbd.cat\<close>; one without a catalog is not.\<close>

definition CheckInfFile :: "inf_file \<Rightarrow> u32 \<times> bool" where
  "CheckInfFile f =
     (if InfOpen f \<noteq> 0 then (InfOpen f, False)
      else if InfCatalog f \<noteq> 0
      then (if InfCatalog f = ERROR_LINE_NOT_FOUND then (0, False) else (InfCatalog f, False))
      else case InfField f of
             Inl e \<Rightarrow> (e, False)
           | Inr InfData \<Rightarrow> (0, wcs InfData = wlit ''wnbd.cat''))"

text \<open>The last component of a path.\<close>

definition file_name :: "wstr \<Rightarrow> wstr" where
  "file_name p = rev (takeWhile (\<lambda>c. c \<noteq> 0x5C \<and> c \<noteq> 0x2F) (rev p))"

fun clean_infs :: "'d os \<Rightarrow> wstr list \<Rightarrow> u32 \<Rightarrow> 'd setup_state \<Rightarrow> u32 \<times> 'd setup_state" where
  "clean_infs os [] Status s = (Status, s)"
| "clean_infs os (n # ns) Status s =
     (let (TempStatus, IsWnbdDriver) = CheckInfFile (OsInf os n (SyState s)) in
      if TempStatus \<noteq> 0 then clean_infs os ns TempStatus s
      else if \<not> IsWnbdDriver then clean_infs os ns Status s
      else let (e, D) = OsUninstallInf os (file_name n) (SyState s)
           in clean_infs os ns (if e \<noteq> 0 then e else Status)
                (s\<lparr>SyState := D, DeletedInfs := DeletedInfs s @ [n]\<rparr>))"

text \<open>The path has room for 260 characters with the terminator.\<close>

definition CleanDrivers :: "'d os \<Rightarrow> 'd setup_state \<Rightarrow> u32 \<times> 'd setup_state" where
  "CleanDrivers os s =
     (case OsWindowsDirectory os of
        Inl e \<Rightarrow> (e, s)
      | Inr dir \<Rightarrow>
          (let OemName = dir @ wlit ([CHR 0x5C] @ ''INF'' @ [CHR 0x5C] @ ''OEM*.INF'') in
           if length OemName \<ge> 260 then (ERROR_BAD_PATHNAME, s)
           else clean_infs os (OsFindFiles os OemName (SyState s)) 0 s))"

section \<open>Removing adapters\<close>

definition RemoveWnbdAdapterDevice :: "'d os \<Rightarrow> device_info \<Rightarrow> bool \<Rightarrow> 'd setup_state \<Rightarrow> u32 \<times> bool \<times> 'd setup_state" where
  "RemoveWnbdAdapterDevice os dev RebootRequired s =
     (let (Status, HardwareIds) = GetDeviceHardwareIds (OsHardwareId os dev (SyState s)) in
      if Status \<noteq> 0 then (Status, RebootRequired, s)
      else let (e, DeviceRemovalRequiresReboot, D) = OsUninstallDevice os dev (SyState s)
           in (e, RebootRequired \<or> DeviceRemovalRequiresReboot,
               s\<lparr>SyState := D, Uninstalled := Uninstalled s @ [dev]\<rparr>))"

text \<open>
  Devices left behind by failed installations: those with the hardware id of the adapter and no
  class or the class of SCSI adapters. Any device at all sets \<open>Found\<close>.
\<close>

fun remove_stale ::
    "'d os \<Rightarrow> (u32 + device_info) list \<Rightarrow> bool \<Rightarrow> bool \<Rightarrow> 'd setup_state \<Rightarrow> u32 \<times> bool \<times> bool \<times> 'd setup_state" where
  "remove_stale os [] RebootRequired Found s = (0, RebootRequired, Found, s)"
| "remove_stale os (Inl e # l) RebootRequired Found s =
     (if e = ERROR_NO_MORE_ITEMS then 0 else e, RebootRequired, Found, s)"
| "remove_stale os (Inr dev # l) RebootRequired Found s =
     (let (Status, HardwareIds) = GetDeviceHardwareIds (OsHardwareId os dev (SyState s)) in
      if Status \<noteq> 0 then (Status, RebootRequired, True, s)
      else if WNBD_HARDWAREID \<in> HardwareIds \<and> (ClassGuid dev = GUID_NULL \<or> ClassGuid dev = GUID_DEVCLASS_SCSIADAPTER)
      then (let (Status, RebootRequired, s) = RemoveWnbdAdapterDevice os dev RebootRequired s in
            if Status \<noteq> 0 then (Status, RebootRequired, True, s)
            else remove_stale os l RebootRequired True s)
      else remove_stale os l RebootRequired True s)"

definition RemoveStaleWnbdAdapters :: "'d os \<Rightarrow> bool \<Rightarrow> bool \<Rightarrow> 'd setup_state \<Rightarrow> u32 \<times> bool \<times> bool \<times> 'd setup_state" where
  "RemoveStaleWnbdAdapters os RebootRequired Found s =
     (let (Status, l) = InitializeWnbdAdapterList (OsDevices os (SyState s)) in
      if Status \<noteq> 0 then (Status, RebootRequired, Found, s)
      else remove_stale os l RebootRequired Found s)"

text \<open>
  The loop over the adapters. An adapter that cannot be opened because it is not available is removed
  without looking at its disks; any other error ends the loop; the last error is kept. The disks are
  removed over the handle, by the conversion and allocations of the calls into the driver.
\<close>

fun remove_adapters ::
    "(bytes \<Rightarrow> wstr) \<Rightarrow> (u32 \<Rightarrow> bool) \<Rightarrow> 'd os \<Rightarrow> (u32 + 'd adapter_interface) list \<Rightarrow> u32 \<Rightarrow> bool \<Rightarrow> bool \<Rightarrow> 'd setup_state \<Rightarrow>
       (u32 \<times> bool \<times> bool \<times> 'd setup_state) option" where
  "remove_adapters conv granted os [] Status RebootRequired Found s = Some (Status, RebootRequired, Found, s)"
| "remove_adapters conv granted os (i # l) Status RebootRequired Found s =
     (let (TempStatus, h, dev) = WnbdOpenAdapterEx (i # l) 0 in
      if TempStatus = ERROR_NO_MORE_ITEMS then Some (Status, RebootRequired, Found, s)
      else if TempStatus \<noteq> 0 \<and> TempStatus \<noteq> ERROR_FILE_NOT_FOUND
      then Some (TempStatus, RebootRequired, Found, s)
      else case (if TempStatus = 0
                 then (case h of None \<Rightarrow> Some (ERROR_INVALID_HANDLE, SyState s)
                       | Some a \<Rightarrow> WnbdRemoveAllDisks conv a granted (SyState s))
                 else Some (0, SyState s)) of
             None \<Rightarrow> None
           | Some (T, D) \<Rightarrow>
               (let Status = (if T \<noteq> 0 then T else Status);
                    (T, RebootRequired, s) = RemoveWnbdAdapterDevice os dev RebootRequired (s\<lparr>SyState := D\<rparr>)
                in remove_adapters conv granted os l (if T \<noteq> 0 then T else Status) RebootRequired True s))"

definition RemoveAllWnbdDevices ::
    "(bytes \<Rightarrow> wstr) \<Rightarrow> (u32 \<Rightarrow> bool) \<Rightarrow> 'd os \<Rightarrow> bool \<Rightarrow> 'd setup_state \<Rightarrow> (u32 \<times> bool \<times> 'd setup_state) option" where
  "RemoveAllWnbdDevices conv granted os RebootRequired s =
     (let (Status, l) = InitializeWnbdAdapterList (OsInterfaces os (SyState s)) in
      if Status \<noteq> 0 then Some (Status, RebootRequired, s)
      else case remove_adapters conv granted os l 0 RebootRequired False s of
             None \<Rightarrow> None
           | Some (Status, RebootRequired, Found, s) \<Rightarrow>
               (let (T, RebootRequired, Found, s) = RemoveStaleWnbdAdapters os RebootRequired Found s
                in Some (if T \<noteq> 0 then T else Status, RebootRequired, s)))"

definition WnbdUninstallDriver ::
    "(bytes \<Rightarrow> wstr) \<Rightarrow> (u32 \<Rightarrow> bool) \<Rightarrow> 'd os \<Rightarrow> bool \<Rightarrow> 'd setup_state \<Rightarrow> (u32 \<times> bool \<times> 'd setup_state) option" where
  "WnbdUninstallDriver conv granted os RebootRequired s =
     (case RemoveAllWnbdDevices conv granted os RebootRequired s of
        None \<Rightarrow> None
      | Some (Status, RebootRequired, s) \<Rightarrow>
          (let (TempStatus, s) = CleanDrivers os s
           in Some (if TempStatus \<noteq> 0 then TempStatus else Status, RebootRequired, s)))"

section \<open>Installing the driver\<close>

definition CreateWnbdAdapter :: "'d os \<Rightarrow> 'd \<Rightarrow> u32 \<times> 'd" where
  "CreateWnbdAdapter os D =
     (if OsCreateList os D \<noteq> 0 then (OsCreateList os D, D)
      else let (Status, D) = OsCreateInfo os D in
           if Status \<noteq> 0 then (Status, D)
           else OsSetHardwareId os WNBD_HARDWAREID D)"

text \<open>A failure to create the adapter is reported as the status so far, which is success.\<close>

definition InstallDriver :: "'d os \<Rightarrow> string \<Rightarrow> bool \<Rightarrow> 'd \<Rightarrow> u32 \<times> bool \<times> 'd" where
  "InstallDriver os FileName RebootRequired D =
     (if OsInfClass os FileName \<noteq> 0 then (OsInfClass os FileName, RebootRequired, D)
      else let (e, D) = CreateWnbdAdapter os D in
           if e \<noteq> 0 then (0, RebootRequired, D)
           else let (e, D) = OsRegisterDevice os D in
                if e \<noteq> 0 then (e, RebootRequired, D)
                else case OsInstallFlags os D of
                       Inl e \<Rightarrow> (e, RebootRequired, D)
                     | Inr fl \<Rightarrow> (0, RebootRequired \<or> (fl AND 0x180) \<noteq> 0, D))"

definition install_attempt :: "'d os \<Rightarrow> string \<Rightarrow> bool \<Rightarrow> 'd \<Rightarrow> u32 \<times> bool \<times> 'd" where
  "install_attempt os FullFileName RebootRequired D =
     (let (Status, RebootRequired, D) = InstallDriver os FullFileName RebootRequired D in
      if Status \<noteq> 0 then (Status, RebootRequired, D)
      else OsUpdateDriver os FullFileName RebootRequired D)"

definition WnbdInstallDriver ::
    "(bytes \<Rightarrow> wstr) \<Rightarrow> (u32 \<Rightarrow> bool) \<Rightarrow> 'd os \<Rightarrow> string \<Rightarrow> bool \<Rightarrow> 'd setup_state \<Rightarrow> (u32 \<times> bool \<times> 'd setup_state) option" where
  "WnbdInstallDriver conv granted os FileName RebootRequired s =
     (if \<not> EnsureWindowsVersionSupported (OsVersion os) then Some (ERROR_NOT_SUPPORTED, RebootRequired, s)
      else case OsFullPath os FileName of
        Inl e \<Rightarrow> Some (e, RebootRequired, s)
      | Inr FullFileName \<Rightarrow>
          if \<not> OsFileExists os FullFileName then Some (ERROR_FILE_NOT_FOUND, RebootRequired, s)
          else let (Status, AdapterExists) = WnbdAdapterExists os (SyState s) False in
            if Status \<noteq> 0 then Some (Status, RebootRequired, s)
            else if AdapterExists then Some (ERROR_DUPLICATE_FOUND, RebootRequired, s)
            else let (Status, RebootRequired, Found, s) = RemoveStaleWnbdAdapters os RebootRequired False s in
              if Status \<noteq> 0 then Some (Status, RebootRequired, s)
              else let (Status, RebootRequired, D) = install_attempt os FullFileName RebootRequired (SyState s);
                       s = s\<lparr>SyState := D\<rparr>
                   in if Status = 0 then Some (0, RebootRequired, s)
                      else map_option (\<lambda>(TempStatus, RebootRequired, s).
                               (if TempStatus \<noteq> 0 then TempStatus else Status, RebootRequired, s))
                             (WnbdUninstallDriver conv granted os RebootRequired s))"

section \<open>Printing an identifier\<close>

lemma length_hex [simp]: "length (hex k n) = k"
  by (induction k arbitrary: n) simp_all

lemma hex_digit_inj: "m < 16 \<Longrightarrow> n < 16 \<Longrightarrow> hex_digit m = hex_digit n \<Longrightarrow> m = n"
  by (auto simp: hex_digit_def of_char_of dest!: arg_cong [of _ _ "of_char :: char \<Rightarrow> nat"] split: if_splits)

lemma hex_inj: "hex k m = hex k n \<Longrightarrow> m < 16 ^ k \<Longrightarrow> n < 16 ^ k \<Longrightarrow> m = n"
proof (induction k arbitrary: m n)
  case (Suc k)
  then have "m mod 16 = n mod 16" "hex k (m div 16) = hex k (n div 16)"
    by (auto intro: hex_digit_inj)
  moreover have "m div 16 < 16 ^ k" "n div 16 < 16 ^ k" using Suc.prems by (simp_all add: div_less_iff_less_mult mult.commute)
  ultimately show ?case using Suc.IH by (metis div_mult_mod_eq)
qed simp

lemma hex_bytes_inj: "length as = length bs \<Longrightarrow> hex_bytes as = hex_bytes bs \<Longrightarrow> as = bs"
proof (induction as bs rule: list_induct2)
  case (Cons a as b bs)
  then have "hex 2 (unat a) = hex 2 (unat b)" "as = bs" by (auto simp: hex_bytes_def)
  moreover have "unat a < 16 ^ 2" "unat b < 16 ^ 2" using unsigned_less [of a, where 'a = nat] unsigned_less [of b, where 'a = nat] by simp_all
  ultimately show ?case using hex_inj by (auto simp: word_unat_eq_iff)
qed simp

lemma length_hex_bytes [simp]: "length (hex_bytes bs) = 2 * length bs"
  by (induction bs) (simp_all add: hex_bytes_def)

text \<open>The text of an identifier has 38 characters, which fit the buffer of 40, and determines it.\<close>

lemma guid_to_string_exact:
  assumes "length (Data4 g) = 8" "length (Data4 h) = 8"
  shows "length (guid_to_string g) = 38" "guid_to_string g = guid_to_string h \<longleftrightarrow> g = h"
proof -
  show "length (guid_to_string g) = 38" by (simp add: guid_to_string_def assms)
  have "g = h" if e: "guid_to_string g = guid_to_string h"
  proof -
    have p: "hex 8 (unat (Data1 g)) = hex 8 (unat (Data1 h))" "hex 4 (unat (Data2 g)) = hex 4 (unat (Data2 h))"
      "hex 4 (unat (Data3 g)) = hex 4 (unat (Data3 h))" "hex_bytes (take 2 (Data4 g)) = hex_bytes (take 2 (Data4 h))"
      "hex_bytes (drop 2 (Data4 g)) = hex_bytes (drop 2 (Data4 h))"
      using e by (auto simp: guid_to_string_def assms)
    have "take 2 (Data4 g) = take 2 (Data4 h)" "drop 2 (Data4 g) = drop 2 (Data4 h)"
      by (rule hex_bytes_inj; use p assms in simp)+
    then have "Data4 g = Data4 h" by (metis append_take_drop_id)
    moreover have "unat (Data1 g) = unat (Data1 h)" by (rule hex_inj [OF p(1)]; simp add: order.strict_trans2 [OF unsigned_less])
    moreover have "unat (Data2 g) = unat (Data2 h)" "unat (Data3 g) = unat (Data3 h)"
      by (rule hex_inj [OF p(2)] hex_inj [OF p(3)]; simp add: order.strict_trans2 [OF unsigned_less])+
    ultimately show ?thesis by (simp add: word_unat_eq_iff)
  qed
  then show "guid_to_string g = guid_to_string h \<longleftrightarrow> g = h" by auto
qed

text \<open>The version check is the order of version numbers.\<close>

lemma version_order:
  assumes "GetWinVersion q = Some v"
  shows "CheckWindowsVersion q major minor build \<longleftrightarrow>
    dwMajorVersion v > major \<or> dwMajorVersion v = major \<and>
      (dwMinorVersion v > minor \<or> dwMinorVersion v = minor \<and> dwBuildNumber v \<ge> build)"
  using assms by (auto simp: CheckWindowsVersion_def)

text \<open>A sequence of strings is read back.\<close>

lemma multi_sz_Cons:
  assumes "w \<noteq> []" "0 \<notin> set w" shows "multi_sz (w @ 0 # s) = w # multi_sz s"
proof -
  have "takeWhile (\<lambda>c. c \<noteq> 0) (w @ 0 # s) = w" using assms(2) by (induction w) auto
  moreover have "hd (w @ 0 # s) \<noteq> 0" using assms by (cases w) auto
  ultimately show ?thesis using assms(1) by (subst multi_sz.simps) simp
qed

lemma multi_sz_concat:
  "\<forall>w \<in> set ws. w \<noteq> [] \<and> 0 \<notin> set w \<Longrightarrow> multi_sz (concat (map (\<lambda>w. w @ [0]) ws) @ [0]) = ws"
proof (induction ws)
  case Nil
  show ?case by (simp add: multi_sz.simps)
next
  case (Cons w ws)
  then show ?case using multi_sz_Cons [of w "concat (map (\<lambda>w. w @ [0]) ws) @ [0]"] by simp
qed

section \<open>What is touched\<close>

text \<open>
  A device of the adapter: one whose interface has the adapter's identifier, or one with its hardware
  id and no class or the class of SCSI adapters. A package of the driver.
\<close>

definition is_adapter :: "'d os \<Rightarrow> device_info \<Rightarrow> bool" where
  "is_adapter os dev \<longleftrightarrow>
     (\<exists>D l f. OsInterfaces os D = Inr l \<and> Inr f \<in> set l \<and> IfGuid f = WNBD_GUID \<and> IfDevice f = dev) \<or>
     (\<exists>D. WNBD_HARDWAREID \<in> snd (GetDeviceHardwareIds (OsHardwareId os dev D)) \<and>
       (ClassGuid dev = GUID_NULL \<or> ClassGuid dev = GUID_DEVCLASS_SCSIADAPTER))"

definition is_package :: "'d os \<Rightarrow> wstr \<Rightarrow> bool" where
  "is_package os n \<longleftrightarrow> (\<exists>D. CheckInfFile (OsInf os n D) = (0, True))"

text \<open>The system refuses a query of a device description that was never filled in.\<close>

definition rejects_empty :: "'d os \<Rightarrow> bool" where
  "rejects_empty os \<longleftrightarrow> (\<forall>D. fst (GetDeviceHardwareIds (OsHardwareId os zero_device_info D)) \<noteq> 0)"

definition touches_own :: "'d os \<Rightarrow> 'd setup_state \<Rightarrow> 'd setup_state \<Rightarrow> bool" where
  "touches_own os s s' \<longleftrightarrow>
     (\<exists>ds ns. Uninstalled s' = Uninstalled s @ ds \<and> DeletedInfs s' = DeletedInfs s @ ns \<and>
       (\<forall>d \<in> set ds. is_adapter os d) \<and> (\<forall>n \<in> set ns. is_package os n))"

lemma touches_own_refl [simp]: "touches_own os s s" "touches_own os s (s\<lparr>SyState := D\<rparr>)"
  "touches_own os (s\<lparr>SyState := D\<rparr>) s' = touches_own os s s'"
  by (simp_all add: touches_own_def)

lemma touches_own_trans [trans]:
  assumes "touches_own os s t" "touches_own os t u" shows "touches_own os s u"
proof -
  obtain ds ns where t: "Uninstalled t = Uninstalled s @ ds" "DeletedInfs t = DeletedInfs s @ ns"
    "\<forall>d \<in> set ds. is_adapter os d" "\<forall>n \<in> set ns. is_package os n"
    using assms(1) by (auto simp: touches_own_def)
  obtain es ms where u: "Uninstalled u = Uninstalled t @ es" "DeletedInfs u = DeletedInfs t @ ms"
    "\<forall>d \<in> set es. is_adapter os d" "\<forall>n \<in> set ms. is_package os n"
    using assms(2) by (auto simp: touches_own_def)
  show ?thesis using t u by (auto simp: touches_own_def intro!: exI [of _ "ds @ es"] exI [of _ "ns @ ms"])
qed

section \<open>The calls of a run\<close>

text \<open>
  An uninstallation is a sequence of calls, each in the state the call before it left: the disks of an
  adapter removed over its handle, the device of an adapter or a device left behind removed, a driver
  package deleted or kept. A call carries the error it returned. The device and the package are
  identified in the state of the call; a device left behind has the hardware id of the adapter and no
  class or the class of SCSI adapters in that state.
\<close>

datatype 'd setup_event =
  DisksRemoved "'d adapter" u32
| AdapterRemoved device_info u32
| StaleRemoved device_info u32
| PackageDeleted wstr u32
| PackageKept wstr

fun setup_call :: "(bytes \<Rightarrow> wstr) \<Rightarrow> (u32 \<Rightarrow> bool) \<Rightarrow> 'd os \<Rightarrow> 'd setup_event \<Rightarrow> 'd \<Rightarrow> 'd \<Rightarrow> bool" where
  "setup_call conv granted os (DisksRemoved a T) D D' \<longleftrightarrow> WnbdRemoveAllDisks conv a granted D = Some (T, D')"
| "setup_call conv granted os (AdapterRemoved dev T) D D' \<longleftrightarrow>
     fst (GetDeviceHardwareIds (OsHardwareId os dev D)) = 0 \<and> (\<exists>b. OsUninstallDevice os dev D = (T, b, D'))"
| "setup_call conv granted os (StaleRemoved dev T) D D' \<longleftrightarrow>
     fst (GetDeviceHardwareIds (OsHardwareId os dev D)) = 0 \<and> (\<exists>b. OsUninstallDevice os dev D = (T, b, D')) \<and>
     WNBD_HARDWAREID \<in> snd (GetDeviceHardwareIds (OsHardwareId os dev D)) \<and>
     (ClassGuid dev = GUID_NULL \<or> ClassGuid dev = GUID_DEVCLASS_SCSIADAPTER)"
| "setup_call conv granted os (PackageDeleted n T) D D' \<longleftrightarrow>
     CheckInfFile (OsInf os n D) = (0, True) \<and> OsUninstallInf os (file_name n) D = (T, D')"
| "setup_call conv granted os (PackageKept n) D D' \<longleftrightarrow> CheckInfFile (OsInf os n D) = (0, False) \<and> D' = D"

fun setup_calls :: "(bytes \<Rightarrow> wstr) \<Rightarrow> (u32 \<Rightarrow> bool) \<Rightarrow> 'd os \<Rightarrow> 'd setup_event list \<Rightarrow> 'd \<Rightarrow> 'd \<Rightarrow> bool" where
  "setup_calls conv granted os [] D D' \<longleftrightarrow> D' = D"
| "setup_calls conv granted os (e # es) D D' \<longleftrightarrow>
     (\<exists>D1. setup_call conv granted os e D D1 \<and> setup_calls conv granted os es D1 D')"

lemma setup_calls_append:
  "setup_calls conv granted os (es @ es') D D' \<longleftrightarrow>
     (\<exists>D1. setup_calls conv granted os es D D1 \<and> setup_calls conv granted os es' D1 D')"
  by (induction es arbitrary: D) auto

lemma setup_calls_Cons [intro]:
  "setup_call conv granted os e D D1 \<Longrightarrow> setup_calls conv granted os es D1 D' \<Longrightarrow> setup_calls conv granted os (e # es) D D'"
  by auto

text \<open>What a call adds to the two records.\<close>

fun removed_device :: "'d setup_event \<Rightarrow> device_info list" where
  "removed_device (AdapterRemoved dev T) = [dev]"
| "removed_device (StaleRemoved dev T) = [dev]"
| "removed_device _ = []"

fun deleted_package :: "'d setup_event \<Rightarrow> wstr list" where
  "deleted_package (PackageDeleted n T) = [n]"
| "deleted_package _ = []"

text \<open>The calls for a listed adapter, and those that make up its whole removal without an error.\<close>

fun call_for :: "'d adapter_interface \<Rightarrow> 'd setup_event \<Rightarrow> bool" where
  "call_for i (DisksRemoved a T) \<longleftrightarrow> IfGuid i = WNBD_GUID \<and> IfOpen i = Inr a"
| "call_for i (AdapterRemoved dev T) \<longleftrightarrow> IfGuid i = WNBD_GUID \<and> IfDevice i = dev"
| "call_for i _ \<longleftrightarrow> False"

definition adapter_calls :: "'d adapter_interface \<Rightarrow> 'd setup_event list" where
  "adapter_calls i =
     (case WnbdOpenAdapterEx [Inr i] 0 of (T, h, dev) \<Rightarrow>
        (case h of None \<Rightarrow> [] | Some a \<Rightarrow> [DisksRemoved a 0]) @ [AdapterRemoved (IfDevice i) 0])"

fun stale_call :: "'d setup_event \<Rightarrow> bool" where
  "stale_call (StaleRemoved dev T) \<longleftrightarrow> True"
| "stale_call _ \<longleftrightarrow> False"

fun package_call :: "'d setup_event \<Rightarrow> bool" where
  "package_call (PackageDeleted n T) \<longleftrightarrow> True"
| "package_call (PackageKept n) \<longleftrightarrow> True"
| "package_call _ \<longleftrightarrow> False"

text \<open>The packages found are looked at in order, each in the state the deletions before it left.\<close>

lemma clean_infs_calls:
  "clean_infs os ns St s = (St', s') \<Longrightarrow>
   \<exists>es. setup_calls conv granted os es (SyState s) (SyState s') \<and> list_all package_call es \<and>
     Uninstalled s' = Uninstalled s \<and> DeletedInfs s' = DeletedInfs s @ concat (map deleted_package es) \<and>
     (St' = 0 \<longrightarrow> St = 0 \<and> list_all2 (\<lambda>n e. e \<in> {PackageDeleted n 0, PackageKept n}) ns es)"
proof (induction ns arbitrary: St s)
  case Nil
  then show ?case by (intro exI [of _ "[]"]) auto
next
  case (Cons n ns)
  obtain T b where c: "CheckInfFile (OsInf os n (SyState s)) = (T, b)" by (cases "CheckInfFile (OsInf os n (SyState s))")
  obtain e D where u: "OsUninstallInf os (file_name n) (SyState s) = (e, D)" by (cases "OsUninstallInf os (file_name n) (SyState s)")
  consider (failed) "T \<noteq> 0" | (kept) "T = 0" "\<not> b" | (deleted) "T = 0" "b" by blast
  then show ?case
  proof cases
    case failed
    with Cons.prems c Cons.IH [of T s] show ?thesis by auto
  next
    case kept
    with Cons.prems c Cons.IH [of St s] obtain es where "setup_calls conv granted os es (SyState s) (SyState s')"
      "list_all package_call es" "Uninstalled s' = Uninstalled s" "DeletedInfs s' = DeletedInfs s @ concat (map deleted_package es)"
      "St' = 0 \<longrightarrow> St = 0 \<and> list_all2 (\<lambda>n e. e \<in> {PackageDeleted n 0, PackageKept n}) ns es" by auto
    with c kept show ?thesis by (intro exI [of _ "PackageKept n # es"]) auto
  next
    case deleted
    let ?t = "s\<lparr>SyState := D, DeletedInfs := DeletedInfs s @ [n]\<rparr>"
    obtain es where "setup_calls conv granted os es (SyState ?t) (SyState s')" "list_all package_call es"
      "Uninstalled s' = Uninstalled ?t" "DeletedInfs s' = DeletedInfs ?t @ concat (map deleted_package es)"
      "St' = 0 \<longrightarrow> (if e \<noteq> 0 then e else St) = 0 \<and> list_all2 (\<lambda>n e. e \<in> {PackageDeleted n 0, PackageKept n}) ns es"
      using Cons.IH [of "if e \<noteq> 0 then e else St" ?t] Cons.prems deleted c u by auto
    with c u deleted show ?thesis by (intro exI [of _ "PackageDeleted n e # es"]) (auto split: if_splits)
  qed
qed

lemma CleanDrivers_calls:
  assumes "CleanDrivers os s = (St, s')"
  shows "\<exists>es. setup_calls conv granted os es (SyState s) (SyState s') \<and> list_all package_call es \<and>
     Uninstalled s' = Uninstalled s \<and> DeletedInfs s' = DeletedInfs s @ concat (map deleted_package es) \<and>
     (\<forall>dir. St = 0 \<longrightarrow> OsWindowsDirectory os = Inr dir \<longrightarrow>
        list_all2 (\<lambda>n e. e \<in> {PackageDeleted n 0, PackageKept n})
          (OsFindFiles os (dir @ wlit ([CHR 0x5C] @ ''INF'' @ [CHR 0x5C] @ ''OEM*.INF'')) (SyState s)) es)"
proof (cases "s' = s \<and> (\<forall>dir. OsWindowsDirectory os = Inr dir \<longrightarrow> St \<noteq> 0)")
  case True
  then show ?thesis by (intro exI [of _ "[]"]) auto
next
  case False
  then obtain dir where "OsWindowsDirectory os = Inr dir"
    "clean_infs os (OsFindFiles os (dir @ wlit ([CHR 0x5C] @ ''INF'' @ [CHR 0x5C] @ ''OEM*.INF'')) (SyState s)) 0 s = (St, s')"
    using assms by (auto simp: CleanDrivers_def Let_def split: sum.splits if_splits)
  with clean_infs_calls [OF this(2)] show ?thesis by auto
qed

lemma remove_device_calls:
  assumes "RemoveWnbdAdapterDevice os dev r s = (St, r', s')"
  shows "s' = s \<and> St \<noteq> 0 \<or>
    fst (GetDeviceHardwareIds (OsHardwareId os dev (SyState s))) = 0 \<and>
    (\<exists>b. OsUninstallDevice os dev (SyState s) = (St, b, SyState s')) \<and>
    Uninstalled s' = Uninstalled s @ [dev] \<and> DeletedInfs s' = DeletedInfs s"
  using assms by (auto simp: RemoveWnbdAdapterDevice_def Let_def split: prod.splits if_splits)

lemma remove_stale_calls:
  "remove_stale os l r f s = (St, r', f', s') \<Longrightarrow>
   \<exists>es. setup_calls conv granted os es (SyState s) (SyState s') \<and> list_all stale_call es \<and>
     Uninstalled s' = Uninstalled s @ concat (map removed_device es) \<and> DeletedInfs s' = DeletedInfs s \<and>
     (St = 0 \<longrightarrow> (\<forall>e \<in> set es. \<exists>dev. e = StaleRemoved dev 0))"
proof (induction l arbitrary: r f s)
  case Nil
  then show ?case by (intro exI [of _ "[]"]) auto
next
  case (Cons i l)
  show ?case
  proof (cases "\<exists>dev r1 s1. i = Inr dev \<and> RemoveWnbdAdapterDevice os dev r s = (0, r1, s1) \<and> remove_stale os l r1 True s1 = (St, r', f', s') \<and>
      WNBD_HARDWAREID \<in> snd (GetDeviceHardwareIds (OsHardwareId os dev (SyState s))) \<and>
      (ClassGuid dev = GUID_NULL \<or> ClassGuid dev = GUID_DEVCLASS_SCSIADAPTER)")
    case True
    then obtain dev r1 s1 where h: "RemoveWnbdAdapterDevice os dev r s = (0, r1, s1)" "remove_stale os l r1 True s1 = (St, r', f', s')"
      "WNBD_HARDWAREID \<in> snd (GetDeviceHardwareIds (OsHardwareId os dev (SyState s)))"
      "ClassGuid dev = GUID_NULL \<or> ClassGuid dev = GUID_DEVCLASS_SCSIADAPTER" by blast
    obtain es where "setup_calls conv granted os es (SyState s1) (SyState s')" "list_all stale_call es"
      "Uninstalled s' = Uninstalled s1 @ concat (map removed_device es)" "DeletedInfs s' = DeletedInfs s1"
      "St = 0 \<longrightarrow> (\<forall>e \<in> set es. \<exists>dev. e = StaleRemoved dev 0)"
      using Cons.IH [OF h(2)] by blast
    with h(3,4) remove_device_calls [OF h(1)] show ?thesis by (intro exI [of _ "StaleRemoved dev 0 # es"]) auto
  next
    case False
    show ?thesis
    proof (cases "remove_stale os l r True s = (St, r', f', s')")
      case True
      from Cons.IH [OF this] show ?thesis .
    next
      case skip: False
      consider (same) "s' = s" | (failed) dev r1 where "RemoveWnbdAdapterDevice os dev r s = (St, r1, s')" "St \<noteq> 0"
          "WNBD_HARDWAREID \<in> snd (GetDeviceHardwareIds (OsHardwareId os dev (SyState s)))"
          "ClassGuid dev = GUID_NULL \<or> ClassGuid dev = GUID_DEVCLASS_SCSIADAPTER"
        using Cons.prems False skip by (cases i) (auto simp: Let_def split: prod.splits if_splits)
      then show ?thesis
      proof cases
        case same
        then show ?thesis by (intro exI [of _ "[]"]) auto
      next
        case failed
        with remove_device_calls [OF failed(1)] show ?thesis
          by (intro exI [of _ "if s' = s then [] else [StaleRemoved dev St]"]) auto
      qed
    qed
  qed
qed

lemma RemoveStale_calls:
  assumes "RemoveStaleWnbdAdapters os r f s = (St, r', f', s')"
  shows "\<exists>es. setup_calls conv granted os es (SyState s) (SyState s') \<and> list_all stale_call es \<and>
     Uninstalled s' = Uninstalled s @ concat (map removed_device es) \<and> DeletedInfs s' = DeletedInfs s \<and>
     (St = 0 \<longrightarrow> (\<forall>e \<in> set es. \<exists>dev. e = StaleRemoved dev 0))"
  using assms remove_stale_calls by (auto simp: RemoveStaleWnbdAdapters_def InitializeWnbdAdapterList_def)

text \<open>The devices and packages the calls concern belong to the driver.\<close>

lemma call_own:
  assumes "setup_call conv granted os e D D'" "\<forall>dev T. e = AdapterRemoved dev T \<longrightarrow> is_adapter os dev"
  shows "(\<forall>d \<in> set (removed_device e). is_adapter os d) \<and> (\<forall>n \<in> set (deleted_package e). is_package os n)"
  using assms by (cases e) (auto simp: is_adapter_def is_package_def)

lemma calls_own:
  assumes "setup_calls conv granted os es D D'" "\<forall>dev T. AdapterRemoved dev T \<in> set es \<longrightarrow> is_adapter os dev"
  shows "\<forall>d \<in> set (concat (map removed_device es)). is_adapter os d"
    "\<forall>n \<in> set (concat (map deleted_package es)). is_package os n"
proof -
  have "(\<forall>d \<in> set (concat (map removed_device es)). is_adapter os d) \<and> (\<forall>n \<in> set (concat (map deleted_package es)). is_package os n)"
    using assms
  proof (induction es arbitrary: D)
    case (Cons e es)
    obtain D1 where c: "setup_call conv granted os e D D1" "setup_calls conv granted os es D1 D'" using Cons.prems(1) by auto
    have "\<forall>dev T. e = AdapterRemoved dev T \<longrightarrow> is_adapter os dev"
      "\<forall>dev T. AdapterRemoved dev T \<in> set es \<longrightarrow> is_adapter os dev" using Cons.prems(2) by simp_all
    from call_own [OF c(1) this(1)] Cons.IH [OF c(2) this(2)] show ?case
      unfolding list.map concat.simps set_append ball_Un by blast
  qed simp
  then show "\<forall>d \<in> set (concat (map removed_device es)). is_adapter os d"
    "\<forall>n \<in> set (concat (map deleted_package es)). is_package os n" by blast+
qed

lemma RemoveStale_touches:
  assumes "RemoveStaleWnbdAdapters os r f s = (St, r', f', s')" shows "touches_own os s s'"
proof -
  obtain es where es: "setup_calls (\<lambda>_. []) (\<lambda>_. True) os es (SyState s) (SyState s')" "list_all stale_call es"
    "Uninstalled s' = Uninstalled s @ concat (map removed_device es)" "DeletedInfs s' = DeletedInfs s"
    using RemoveStale_calls [OF assms] by blast
  have "\<forall>dev T. AdapterRemoved dev T \<in> set es \<longrightarrow> is_adapter os dev" using es(2) by (fastforce simp: list_all_iff)
  from calls_own(1) [OF es(1) this] es(3,4) show ?thesis by (auto simp: touches_own_def)
qed

section \<open>Uninstalling\<close>

lemma open_adapter_cases:
  assumes "WnbdOpenAdapterEx (i # l) 0 = (T, h, dev)" "T = 0 \<or> T = ERROR_FILE_NOT_FOUND"
  obtains (opened) f a where "i = Inr f" "IfGuid f = WNBD_GUID" "IfOpen f = Inr a" "T = 0" "h = Some a" "dev = IfDevice f"
    | (unavailable) f where "i = Inr f" "IfGuid f = WNBD_GUID" "h = None" "dev = IfDevice f"
    | (empty) "dev = zero_device_info" "h = None"
  using assms by (auto simp: WnbdOpenAdapterEx_def enum_at_def split: sum.splits if_splits)

lemma open_adapter_first:
  "WnbdOpenAdapterEx (i # l) 0 = (T, h, dev) \<Longrightarrow> WnbdOpenAdapterEx [i] 0 = (T, h, dev)"
  by (simp add: WnbdOpenAdapterEx_def enum_at_def)

text \<open>One adapter: its disks, if it could be opened, then its device, if the description is its own.\<close>

lemma one_adapter_calls:
  assumes "rejects_empty os" "WnbdOpenAdapterEx (i # l) 0 = (T, h, dev)" "T = 0 \<or> T = ERROR_FILE_NOT_FOUND"
    and "(if T = 0 then (case h of None \<Rightarrow> Some (ERROR_INVALID_HANDLE, SyState s)
           | Some a \<Rightarrow> WnbdRemoveAllDisks conv a granted (SyState s)) else Some (0, SyState s)) = Some (T1, D)"
    and "RemoveWnbdAdapterDevice os dev r (s\<lparr>SyState := D\<rparr>) = (T2, r2, s2)"
  shows "\<exists>es. setup_calls conv granted os es (SyState s) (SyState s2) \<and>
    Uninstalled s2 = Uninstalled s @ concat (map removed_device es) \<and> DeletedInfs s2 = DeletedInfs s \<and>
    (\<forall>e \<in> set es. \<exists>f. i = Inr f \<and> call_for f e) \<and>
    (\<forall>f. T1 = 0 \<longrightarrow> T2 = 0 \<longrightarrow> i = Inr f \<longrightarrow> es = adapter_calls f)"
  using assms(2,3)
proof (cases rule: open_adapter_cases)
  case (opened f a)
  have "adapter_calls f = [DisksRemoved a 0, AdapterRemoved (IfDevice f) 0]"
    using open_adapter_first [OF assms(2)] opened by (simp add: adapter_calls_def)
  moreover have "WnbdRemoveAllDisks conv a granted (SyState s) = Some (T1, D)" using assms(4) opened by simp
  ultimately show ?thesis
    using remove_device_calls [OF assms(5)] opened
    by (intro exI [of _ "DisksRemoved a T1 # (if s2 = s\<lparr>SyState := D\<rparr> then [] else [AdapterRemoved dev T2])"]) auto
next
  case (unavailable f)
  have "adapter_calls f = [AdapterRemoved (IfDevice f) 0]"
    using open_adapter_first [OF assms(2)] unavailable by (simp add: adapter_calls_def)
  moreover have "D = SyState s" using assms(4) unavailable by (auto split: if_splits)
  ultimately show ?thesis
    using remove_device_calls [OF assms(5)] unavailable
    by (intro exI [of _ "if s2 = s\<lparr>SyState := D\<rparr> then [] else [AdapterRemoved dev T2]"]) auto
next
  case empty
  have "D = SyState s" using assms(4) empty(2) by (auto split: if_splits)
  moreover have "fst (GetDeviceHardwareIds (OsHardwareId os dev D)) \<noteq> 0"
    using assms(1) empty(1) by (simp add: rejects_empty_def)
  ultimately have "s2 = s" "T2 \<noteq> 0" using remove_device_calls [OF assms(5)] by auto
  then show ?thesis by (intro exI [of _ "[]"]) simp
qed

lemma remove_adapters_calls:
  assumes "rejects_empty os"
  shows "remove_adapters conv granted os l St r f s = Some (St', r', f', s') \<Longrightarrow>
    \<exists>es. setup_calls conv granted os es (SyState s) (SyState s') \<and>
      Uninstalled s' = Uninstalled s @ concat (map removed_device es) \<and> DeletedInfs s' = DeletedInfs s \<and>
      (\<forall>e \<in> set es. \<exists>f. Inr f \<in> set l \<and> call_for f e) \<and>
      (St' = 0 \<longrightarrow> St = 0 \<and> (\<forall>is. l = map Inr is \<longrightarrow>
         (\<forall>i \<in> set is. fst (WnbdOpenAdapterEx [Inr i] 0) \<noteq> ERROR_NO_MORE_ITEMS) \<longrightarrow> es = concat (map adapter_calls is)))"
proof (induction l arbitrary: St r f s)
  case Nil
  then show ?case by (intro exI [of _ "[]"]) auto
next
  case (Cons i l)
  obtain T h dev where o: "WnbdOpenAdapterEx (i # l) 0 = (T, h, dev)" by (cases "WnbdOpenAdapterEx (i # l) 0")
  consider (last) "T = ERROR_NO_MORE_ITEMS" | (fail) "T \<noteq> ERROR_NO_MORE_ITEMS" "T \<noteq> 0" "T \<noteq> ERROR_FILE_NOT_FOUND"
    | (here) "T = 0 \<or> T = ERROR_FILE_NOT_FOUND" by auto
  then show ?case
  proof cases
    case last
    with Cons.prems o open_adapter_first [OF o] show ?thesis by (intro exI [of _ "[]"]) auto
  next
    case fail
    with Cons.prems o show ?thesis by (intro exI [of _ "[]"]) auto
  next
    case here
    obtain T1 D where d: "(if T = 0 then (case h of None \<Rightarrow> Some (ERROR_INVALID_HANDLE, SyState s)
           | Some a \<Rightarrow> WnbdRemoveAllDisks conv a granted (SyState s)) else Some (0, SyState s)) = Some (T1, D)"
      using Cons.prems(1) o here by (auto split: option.splits if_splits)
    obtain T2 r2 s2 where rm: "RemoveWnbdAdapterDevice os dev r (s\<lparr>SyState := D\<rparr>) = (T2, r2, s2)"
      by (cases "RemoveWnbdAdapterDevice os dev r (s\<lparr>SyState := D\<rparr>)")
    let ?St = "if T2 \<noteq> 0 then T2 else if T1 \<noteq> 0 then T1 else St"
    have run: "remove_adapters conv granted os l ?St r2 True s2 = Some (St', r', f', s')"
      using Cons.prems(1) o here d rm by (auto simp: Let_def)
    obtain es0 where e0: "setup_calls conv granted os es0 (SyState s) (SyState s2)"
      "Uninstalled s2 = Uninstalled s @ concat (map removed_device es0)" "DeletedInfs s2 = DeletedInfs s"
      "\<forall>e \<in> set es0. \<exists>f. i = Inr f \<and> call_for f e" "\<forall>f. T1 = 0 \<longrightarrow> T2 = 0 \<longrightarrow> i = Inr f \<longrightarrow> es0 = adapter_calls f"
      using one_adapter_calls [OF assms o here d rm] by blast
    obtain es where e: "setup_calls conv granted os es (SyState s2) (SyState s')"
      "Uninstalled s' = Uninstalled s2 @ concat (map removed_device es)" "DeletedInfs s' = DeletedInfs s2"
      "\<forall>e \<in> set es. \<exists>f. Inr f \<in> set l \<and> call_for f e"
      "St' = 0 \<longrightarrow> ?St = 0 \<and> (\<forall>is. l = map Inr is \<longrightarrow>
         (\<forall>i \<in> set is. fst (WnbdOpenAdapterEx [Inr i] 0) \<noteq> ERROR_NO_MORE_ITEMS) \<longrightarrow> es = concat (map adapter_calls is))"
      using Cons.IH [OF run] by blast
    have "setup_calls conv granted os (es0 @ es) (SyState s) (SyState s')" using e0(1) e(1) by (auto simp: setup_calls_append)
    moreover have "Uninstalled s' = Uninstalled s @ concat (map removed_device (es0 @ es))" "DeletedInfs s' = DeletedInfs s"
      using e0(2,3) e(2,3) by simp_all
    moreover have "\<forall>e \<in> set (es0 @ es). \<exists>f. Inr f \<in> set (i # l) \<and> call_for f e" using e0(4) e(4) by auto
    moreover have "St = 0 \<and> (\<forall>is. i # l = map Inr is \<longrightarrow>
         (\<forall>i \<in> set is. fst (WnbdOpenAdapterEx [Inr i] 0) \<noteq> ERROR_NO_MORE_ITEMS) \<longrightarrow> es0 @ es = concat (map adapter_calls is))"
      if "St' = 0"
      using e(5) e0(5) that by (auto simp: Cons_eq_map_conv split: if_splits)
    ultimately show ?thesis by blast
  qed
qed

definition listed :: "'d os \<Rightarrow> 'd \<Rightarrow> 'd adapter_interface list" where
  "listed os D = (case OsInterfaces os D of Inl _ \<Rightarrow> [] | Inr l \<Rightarrow> map projr (filter (\<lambda>i. \<not> isl i) l))"

lemma RemoveAll_calls:
  assumes "rejects_empty os" "RemoveAllWnbdDevices conv granted os r s = Some (St, r', s')"
  obtains as bs D where "setup_calls conv granted os as (SyState s) D" "setup_calls conv granted os bs D (SyState s')"
    "Uninstalled s' = Uninstalled s @ concat (map removed_device (as @ bs))" "DeletedInfs s' = DeletedInfs s"
    "\<forall>e \<in> set as. \<exists>i \<in> set (listed os (SyState s)). call_for i e" "list_all stale_call bs"
    "St = 0 \<longrightarrow> (\<forall>e \<in> set bs. \<exists>dev. e = StaleRemoved dev 0)"
    "\<And>is. St = 0 \<Longrightarrow> OsInterfaces os (SyState s) = Inr (map Inr is) \<Longrightarrow>
       \<forall>i \<in> set is. fst (WnbdOpenAdapterEx [Inr i] 0) \<noteq> ERROR_NO_MORE_ITEMS \<Longrightarrow> as = concat (map adapter_calls is)"
proof -
  obtain l where l: "InitializeWnbdAdapterList (OsInterfaces os (SyState s)) = (0, l)"
    by (simp add: InitializeWnbdAdapterList_def)
  obtain St1 r1 f1 s1 where a: "remove_adapters conv granted os l 0 r False s = Some (St1, r1, f1, s1)"
    using assms(2) l by (auto simp: RemoveAllWnbdDevices_def split: option.splits)
  obtain T r2 f2 s2 where b: "RemoveStaleWnbdAdapters os r1 f1 s1 = (T, r2, f2, s2)"
    by (cases "RemoveStaleWnbdAdapters os r1 f1 s1")
  have e: "St = (if T \<noteq> 0 then T else St1)" "s' = s2" using assms(2) l a b by (auto simp: RemoveAllWnbdDevices_def)
  have ll: "f \<in> set (listed os (SyState s))" if "Inr f \<in> set l" for f
    using l that by (force simp: InitializeWnbdAdapterList_def listed_def image_iff split: sum.splits)
  have lk: "l = k" if "OsInterfaces os (SyState s) = Inr k" for k
    using l that by (simp add: InitializeWnbdAdapterList_def)
  obtain as where as: "setup_calls conv granted os as (SyState s) (SyState s1)"
    "Uninstalled s1 = Uninstalled s @ concat (map removed_device as)" "DeletedInfs s1 = DeletedInfs s"
    "\<forall>e \<in> set as. \<exists>f. Inr f \<in> set l \<and> call_for f e"
    "St1 = 0 \<longrightarrow> (\<forall>is. l = map Inr is \<longrightarrow>
       (\<forall>i \<in> set is. fst (WnbdOpenAdapterEx [Inr i] 0) \<noteq> ERROR_NO_MORE_ITEMS) \<longrightarrow> as = concat (map adapter_calls is))"
    using remove_adapters_calls [OF assms(1) a] by blast
  obtain bs where bs: "setup_calls conv granted os bs (SyState s1) (SyState s2)" "list_all stale_call bs"
    "Uninstalled s2 = Uninstalled s1 @ concat (map removed_device bs)" "DeletedInfs s2 = DeletedInfs s1"
    "T = 0 \<longrightarrow> (\<forall>e \<in> set bs. \<exists>dev. e = StaleRemoved dev 0)"
    using RemoveStale_calls [OF b] by blast
  show ?thesis
  proof (rule that [OF as(1)])
    show "as = concat (map adapter_calls is)"
      if "St = 0" "OsInterfaces os (SyState s) = Inr (map Inr is)"
        "\<forall>i \<in> set is. fst (WnbdOpenAdapterEx [Inr i] 0) \<noteq> ERROR_NO_MORE_ITEMS" for "is"
      using as(5) that lk [OF that(2)] e(1) by (auto split: if_splits)
    show "\<forall>e \<in> set as. \<exists>i \<in> set (listed os (SyState s)). call_for i e" using as(4) ll by blast
  qed (use as(2,3) bs e in \<open>auto split: if_splits\<close>)
qed

lemma uninstall_calls:
  assumes "rejects_empty os" "WnbdUninstallDriver conv granted os r s = Some (St, r', s')"
  obtains as bs cs D1 D2 where "setup_calls conv granted os as (SyState s) D1" "setup_calls conv granted os bs D1 D2"
    "setup_calls conv granted os cs D2 (SyState s')"
    "Uninstalled s' = Uninstalled s @ concat (map removed_device (as @ bs))"
    "DeletedInfs s' = DeletedInfs s @ concat (map deleted_package cs)"
    "\<forall>e \<in> set as. \<exists>i \<in> set (listed os (SyState s)). call_for i e" "list_all stale_call bs" "list_all package_call cs"
    "St = 0 \<longrightarrow> (\<forall>e \<in> set bs. \<exists>dev. e = StaleRemoved dev 0)"
    "\<And>is. St = 0 \<Longrightarrow> OsInterfaces os (SyState s) = Inr (map Inr is) \<Longrightarrow>
       \<forall>i \<in> set is. fst (WnbdOpenAdapterEx [Inr i] 0) \<noteq> ERROR_NO_MORE_ITEMS \<Longrightarrow> as = concat (map adapter_calls is)"
    "\<And>dir. St = 0 \<Longrightarrow> OsWindowsDirectory os = Inr dir \<Longrightarrow>
       list_all2 (\<lambda>n e. e \<in> {PackageDeleted n 0, PackageKept n})
         (OsFindFiles os (dir @ wlit ([CHR 0x5C] @ ''INF'' @ [CHR 0x5C] @ ''OEM*.INF'')) D2) cs"
proof -
  obtain St1 r1 s1 where a: "RemoveAllWnbdDevices conv granted os r s = Some (St1, r1, s1)"
    using assms(2) by (auto simp: WnbdUninstallDriver_def split: option.splits)
  obtain T s2 where b: "CleanDrivers os s1 = (T, s2)" by (cases "CleanDrivers os s1")
  have e: "St = (if T \<noteq> 0 then T else St1)" "s' = s2" using assms(2) a b by (auto simp: WnbdUninstallDriver_def)
  obtain cs where cs: "setup_calls conv granted os cs (SyState s1) (SyState s')" "list_all package_call cs"
    "Uninstalled s' = Uninstalled s1" "DeletedInfs s' = DeletedInfs s1 @ concat (map deleted_package cs)"
    "\<forall>dir. T = 0 \<longrightarrow> OsWindowsDirectory os = Inr dir \<longrightarrow> list_all2 (\<lambda>n e. e \<in> {PackageDeleted n 0, PackageKept n})
       (OsFindFiles os (dir @ wlit ([CHR 0x5C] @ ''INF'' @ [CHR 0x5C] @ ''OEM*.INF'')) (SyState s1)) cs"
    using CleanDrivers_calls [OF b] e(2) by blast
  show ?thesis
  proof (rule RemoveAll_calls [OF assms(1) a], goal_cases)
    case (1 as bs D)
    show ?case by (rule that [OF 1(1,2) cs(1)]) (use 1 cs e in \<open>auto split: if_splits\<close>)
  qed
qed

lemma uninstall_touches:
  assumes "rejects_empty os" "WnbdUninstallDriver conv granted os r s = Some (St, r', s')" shows "touches_own os s s'"
proof (rule uninstall_calls [OF assms], goal_cases)
  case (1 as bs cs D1 D2)
  have "is_adapter os (IfDevice i)" if "i \<in> set (listed os (SyState s))" "IfGuid i = WNBD_GUID" for i
    using that by (force simp: is_adapter_def listed_def isl_def split: sum.splits)
  moreover have "\<exists>i \<in> set (listed os (SyState s)). call_for i (AdapterRemoved dev T)" if "AdapterRemoved dev T \<in> set as" for dev T
    using 1(6) that by blast
  ultimately have "\<forall>dev T. AdapterRemoved dev T \<in> set as \<longrightarrow> is_adapter os dev" by auto
  moreover have "\<not> stale_call (AdapterRemoved dev T)" "\<not> package_call (AdapterRemoved dev T)" for dev T by simp_all
  then have "\<forall>dev T. AdapterRemoved dev T \<notin> set bs" "\<forall>dev T. AdapterRemoved dev T \<notin> set cs"
    using 1(7,8) unfolding list_all_iff by blast+
  ultimately have "\<forall>d \<in> set (concat (map removed_device as)). is_adapter os d"
    "\<forall>d \<in> set (concat (map removed_device bs)). is_adapter os d" "\<forall>n \<in> set (concat (map deleted_package cs)). is_package os n"
    using calls_own(1) [OF 1(1)] calls_own(1) [OF 1(2)] calls_own(2) [OF 1(3)] by blast+
  then have "\<forall>d \<in> set (concat (map removed_device (as @ bs))). is_adapter os d"
    "\<forall>n \<in> set (concat (map deleted_package cs)). is_package os n"
    by (simp_all only: map_append concat_append set_append ball_Un simp_thms)
  with 1(4,5) show ?case unfolding touches_own_def by blast
qed


text \<open>An adapter that could not be created is not noticed.\<close>

lemma install_hides_failure:
  assumes "OsInfClass os file = 0" "CreateWnbdAdapter os D = (e, D')" "e \<noteq> 0"
  shows "InstallDriver os file r D = (0, r, D')"
  using assms by (simp add: InstallDriver_def)

text \<open>
  C23: an installation reports success only on a supported system without an adapter, with the driver
  of the file installed as its last step; when it fails after its first step, everything was
  uninstalled again; and it removes nothing but what belongs to the driver.
\<close>

theorem install_driver_outcome:
  assumes "rejects_empty os" "OsFullPath os FileName \<noteq> Inl 0"
    and "WnbdInstallDriver conv granted os FileName r s = Some (St, r', s')"
  shows "touches_own os s s' \<and>
    (St = 0 \<longrightarrow> EnsureWindowsVersionSupported (OsVersion os) \<and> WnbdAdapterExists os (SyState s) False = (0, False) \<and>
      (\<exists>path r0 D0 r1 D1. OsFullPath os FileName = Inr path \<and> OsFileExists os path \<and>
         InstallDriver os path r0 D0 = (0, r1, D1) \<and> OsUpdateDriver os path r1 D1 = (0, r', SyState s'))) \<and>
    (St \<noteq> 0 \<longrightarrow> s' = s \<or>
      (\<exists>r1. RemoveStaleWnbdAdapters os r False s = (St, r', r1, s')) \<or>
      (\<exists>T r1 s1. WnbdUninstallDriver conv granted os r1 s1 = Some (T, r', s')))"
proof -
  consider (early) "s' = s" "St \<noteq> 0"
    | (stale) f1 where "RemoveStaleWnbdAdapters os r False s = (St, r', f1, s')" "St \<noteq> 0"
    | (tried) path r1 f1 s1 where "EnsureWindowsVersionSupported (OsVersion os)" "OsFullPath os FileName = Inr path"
      "OsFileExists os path" "WnbdAdapterExists os (SyState s) False = (0, False)"
      "RemoveStaleWnbdAdapters os r False s = (0, r1, f1, s1)"
      "case install_attempt os path r1 (SyState s1) of (T, r2, D) \<Rightarrow>
         if T = 0 then (St, r', s') = (0, r2, s1\<lparr>SyState := D\<rparr>)
         else \<exists>T'. WnbdUninstallDriver conv granted os r2 (s1\<lparr>SyState := D\<rparr>) = Some (T', r', s') \<and> St \<noteq> 0"
    using assms(2,3)
    by (auto simp: WnbdInstallDriver_def Let_def split: if_splits sum.splits prod.splits option.splits)
  then show ?thesis
  proof cases
    case (tried path r1 f1 s1)
    obtain T r2 D where i: "install_attempt os path r1 (SyState s1) = (T, r2, D)" by (cases "install_attempt os path r1 (SyState s1)")
    note t = RemoveStale_touches [OF tried(5)]
    show ?thesis
    proof (cases "T = 0")
      case True
      then have e: "St = 0" "r' = r2" "s' = s1\<lparr>SyState := D\<rparr>" using tried(6) i by simp_all
      have "\<exists>r0 D0 r1 D1. InstallDriver os path r0 D0 = (0, r1, D1) \<and> OsUpdateDriver os path r1 D1 = (0, r', SyState s')"
        using i True e by (auto simp: install_attempt_def Let_def split: prod.splits if_splits)
      moreover have "touches_own os s s'" using t e(3) by (simp add: touches_own_def)
      ultimately show ?thesis using tried(1-4) e(1) by auto
    next
      case False
      then obtain T' where u: "WnbdUninstallDriver conv granted os r2 (s1\<lparr>SyState := D\<rparr>) = Some (T', r', s')" "St \<noteq> 0"
        using tried(6) i by auto
      have "touches_own os s s'" using uninstall_touches [OF assms(1) u(1)] touches_own_trans [OF t] by simp
      with u show ?thesis by blast
    qed
  qed (auto dest: RemoveStale_touches)
qed

end
