(* ===== verification/LibCalls.thy ===== *)
theory LibCalls
  imports UserIoctl
begin

text \<open>
  The rest of \<^verbatim>\<open>libwnbd/libwnbd.cpp\<close>: the functions that open the adapter and pass on
  one command, the resize, and the accessors of the disk object. Opening the adapter is an argument,
  and so are the results of the calls that touch the physical drive or the registry, and the
  version numbers of a generated header.
\<close>

section \<open>One command each\<close>

definition WnbdList ::
    "'d adapter \<Rightarrow> ('d \<Rightarrow> u32) \<Rightarrow> WNBD_CONNECTION_INFO list \<Rightarrow> u32 \<Rightarrow> 'd \<Rightarrow>
     (u32 \<times> WNBD_CONNECTION_INFO list \<times> u32 \<times> 'd) option" where
  "WnbdList dev opened l BufferSize D =
     (if opened D \<noteq> 0 then Some (ERROR_OPEN_FAILED, l, BufferSize, D) else WnbdIoctlList dev l BufferSize False D)"

definition WnbdGetDriverStats ::
    "'d adapter \<Rightarrow> ('d \<Rightarrow> u32) \<Rightarrow> bytes \<Rightarrow> WNBD_DRV_STATS \<Rightarrow> 'd \<Rightarrow> (u32 \<times> WNBD_DRV_STATS \<times> 'd) option" where
  "WnbdGetDriverStats dev opened name s D =
     (if opened D \<noteq> 0 then Some (ERROR_OPEN_FAILED, s, D) else WnbdIoctlStats dev name s False D)"

definition WnbdGetDriverVersion ::
    "'d adapter \<Rightarrow> ('d \<Rightarrow> u32) \<Rightarrow> WNBD_VERSION \<Rightarrow> 'd \<Rightarrow> (u32 \<times> WNBD_VERSION \<times> 'd) option" where
  "WnbdGetDriverVersion dev opened v D =
     (if opened D \<noteq> 0 then Some (ERROR_OPEN_FAILED, v, D) else WnbdIoctlVersion dev v False D)"

definition WnbdGetDrvOpt_lib ::
    "(bytes \<Rightarrow> wstr) \<Rightarrow> 'd adapter \<Rightarrow> ('d \<Rightarrow> u32) \<Rightarrow> bytes \<Rightarrow> WNBD_OPTION_VALUE \<Rightarrow> bool \<Rightarrow> 'd \<Rightarrow>
     (u32 \<times> WNBD_OPTION_VALUE \<times> 'd) option" where
  "WnbdGetDrvOpt_lib to_wstring dev opened Name v Persistent D =
     (if opened D \<noteq> 0 then Some (ERROR_OPEN_FAILED, v, D)
      else WnbdIoctlGetDrvOpt to_wstring dev Name v Persistent False D)"

definition WnbdSetDrvOpt_lib ::
    "(bytes \<Rightarrow> wstr) \<Rightarrow> 'd adapter \<Rightarrow> ('d \<Rightarrow> u32) \<Rightarrow> bytes \<Rightarrow> WNBD_OPTION_VALUE \<Rightarrow> bool \<Rightarrow> 'd \<Rightarrow> (u32 \<times> 'd) option" where
  "WnbdSetDrvOpt_lib to_wstring dev opened Name v Persistent D =
     (if opened D \<noteq> 0 then Some (ERROR_OPEN_FAILED, D)
      else WnbdIoctlSetDrvOpt to_wstring dev Name v Persistent False D)"

definition WnbdResetDrvOpt_lib ::
    "(bytes \<Rightarrow> wstr) \<Rightarrow> 'd adapter \<Rightarrow> ('d \<Rightarrow> u32) \<Rightarrow> bytes \<Rightarrow> bool \<Rightarrow> 'd \<Rightarrow> (u32 \<times> 'd) option" where
  "WnbdResetDrvOpt_lib to_wstring dev opened Name Persistent D =
     (if opened D \<noteq> 0 then Some (ERROR_OPEN_FAILED, D)
      else WnbdIoctlResetDrvOpt to_wstring dev Name Persistent False D)"

definition WnbdListDrvOpt_lib ::
    "'d adapter \<Rightarrow> ('d \<Rightarrow> u32) \<Rightarrow> WNBD_OPTION list \<Rightarrow> u32 \<Rightarrow> bool \<Rightarrow> 'd \<Rightarrow>
     (u32 \<times> WNBD_OPTION list \<times> u32 \<times> 'd) option" where
  "WnbdListDrvOpt_lib dev opened l BufferSize Persistent D =
     (if opened D \<noteq> 0 then Some (ERROR_OPEN_FAILED, l, BufferSize, D)
      else WnbdIoctlListDrvOpt dev l BufferSize Persistent False D)"

section \<open>Accessors\<close>

text \<open>A null disk is \<open>None\<close>.\<close>

definition WnbdGetUserspaceStats :: "WNBD_DISK option \<Rightarrow> u32 \<times> WNBD_USR_STATS option" where
  "WnbdGetUserspaceStats Disk =
     (case Disk of None \<Rightarrow> (ERROR_INVALID_PARAMETER, None) | Some d \<Rightarrow> (0, Some (DkStats d)))"

definition WnbdGetUserContext :: "('c, 'd) user option \<Rightarrow> u32 \<times> 'c option" where
  "WnbdGetUserContext Disk =
     (case Disk of None \<Rightarrow> (ERROR_INVALID_PARAMETER, None) | Some u \<Rightarrow> (0, Some (UContext u)))"

definition WnbdGetConnectionInfo :: "WNBD_DISK option \<Rightarrow> u32 \<times> WNBD_CONNECTION_INFO option" where
  "WnbdGetConnectionInfo Disk =
     (case Disk of None \<Rightarrow> (ERROR_INVALID_PARAMETER, None) | Some d \<Rightarrow> (0, Some (DkConnectionInfo d)))"

text \<open>The version the library was built as, its description cut to the field with its terminator.\<close>

definition WnbdGetLibVersion :: "WNBD_VERSION \<Rightarrow> WNBD_VERSION option \<Rightarrow> u32 \<times> WNBD_VERSION option" where
  "WnbdGetLibVersion built Version =
     (case Version of
        None \<Rightarrow> (ERROR_INVALID_PARAMETER, None)
      | Some v \<Rightarrow> (0, Some (v\<lparr>Major := Major built, Minor := Minor built, Patch := Patch built,
                            Description := take 127 (cstr (Description built)) @ [0]\<rparr>)))"

section \<open>Resizing a disk\<close>

text \<open>
  After the driver, the physical drive: the errors of opening it, of telling it that its properties
  changed and of closing it. The last two are reported but do not stop the function.
\<close>

record resize_env =
  RsOpen :: u32
  RsUpdate :: u32
  RsClose :: u32

definition resize_drive :: "resize_env \<Rightarrow> u32" where
  "resize_drive env = (if RsClose env \<noteq> 0 then RsClose env else RsUpdate env)"

definition WnbdSetDiskSize_lib ::
    "'d adapter \<Rightarrow> ('d \<Rightarrow> u32) \<Rightarrow> resize_env \<Rightarrow> u64 \<Rightarrow> ('c, 'd) user \<Rightarrow> (u32 \<times> ('c, 'd) user) option" where
  "WnbdSetDiskSize_lib dev opened env n u =
     (if \<not> DkHandle (UDisk u) then Some (ERROR_NOT_FOUND, u)
      else case WnbdIoctlSetDiskSize dev (CiConnectionId (DkConnectionInfo (UDisk u))) n False (UDriver u) of
             None \<Rightarrow> None
           | Some (e, D) \<Rightarrow>
               (let u = u\<lparr>UDriver := D\<rparr> in
                if e \<noteq> 0 then Some (e, u)
                else case (if opened D \<noteq> 0 then Some (ERROR_OPEN_FAILED, zero_info, D)
                           else WnbdIoctlShow dev (InstanceName (DkProperties (UDisk u))) zero_info False D) of
                       None \<Rightarrow> None
                     | Some (e, info, D) \<Rightarrow>
                         (let u = u\<lparr>UDriver := D\<rparr> in
                          if e \<noteq> 0 then Some (e, u)
                          else if RsOpen env \<noteq> 0 then Some (RsOpen env, u)
                          else Some (resize_drive env,
                                 disk_upd (\<lambda>d. d\<lparr>DkProperties := (DkProperties d)\<lparr>BlockCount := n\<rparr>\<rparr>) u))))"

section \<open>Registry keys\<close>

text \<open>The results of opening and of creating the key: an error, or 0 and the key.\<close>

definition OpenRegistryKey :: "u32 \<times> 'k \<Rightarrow> u32 \<times> 'k \<Rightarrow> bool \<Rightarrow> u32 \<times> 'k option" where
  "OpenRegistryKey opened made Create =
     (let (Status, Key) =
        (if fst opened \<noteq> 0 \<and> fst opened = ERROR_FILE_NOT_FOUND \<and> Create then made else opened)
      in (Status, if Status = 0 then Some Key else None))"

end
