(* ===== verification/Cmd.thy ===== *)
theory Cmd
  imports LibCalls NbdDaemon Usage
begin

text \<open>
  The commands of the client, \<^verbatim>\<open>wnbd-client/cmd.cpp\<close>, over the library and through it
  over any driver. What a command writes to the standard output is part of its result; messages on
  the error output are left out. The conversions between narrow and wide strings belong to a
  library and are arguments. A command that does not return or reads through a null pointer
  gives \<open>None\<close>.
\<close>

section \<open>Output\<close>

text \<open>Numbers in decimal, and the two output streams.\<close>

fun dec :: "nat \<Rightarrow> string" where
  "dec n = (if n < 10 then [char_of (48 + n)] else dec (n div 10) @ [char_of (48 + n mod 10)])"

declare dec.simps [simp del]

definition sdec :: "int \<Rightarrow> string" where
  "sdec i = (if i < 0 then ''-'' @ dec (nat (- i)) else dec (nat i))"

datatype console = Cout string | Wcout wstr

text \<open>The text of a terminated character array, and a C++ string as one.\<close>

definition text_of :: "bytes \<Rightarrow> string" where
  "text_of bs = map (\<lambda>b. char_of (unat b)) (cstr bs)"

definition c_str :: "string \<Rightarrow> bytes" where
  "c_str s = map of_char s @ [0]"

text \<open>\<^verbatim>\<open>std::string::copy\<close> into a zeroed array, without a terminator of its own.\<close>

definition copied :: "nat \<Rightarrow> string \<Rightarrow> bytes" where
  "copied n s = take n (map of_char s) @ replicate (n - length s) 0"

definition row :: "nat \<Rightarrow> string \<Rightarrow> string \<Rightarrow> string" where
  "row n name v = setw n name @ '' : '' @ v @ [newline]"

definition flag_text :: "bool \<Rightarrow> string" where
  "flag_text b = (if b then ''1'' else ''0'')"

fun OptValToWString :: "WNBD_OPTION_VALUE \<Rightarrow> wstr" where
  "OptValToWString v =
     (case ValType v of
        WnbdOptBool \<Rightarrow> wlit (if AsBool (Data v) then ''true'' else ''false'')
      | WnbdOptInt64 \<Rightarrow> wlit (sdec (sint (AsInt64 (Data v))))
      | WnbdOptWstr \<Rightarrow> wcs (AsWstr (Data v))
      | WnbdOptUnknown \<Rightarrow> wlit ''UNKNOWN TYPE (0)'')"

section \<open>The host\<close>

text \<open>
  What the commands get from outside: the driver as a device, opening the adapter and the raw disk
  (an error or the disk's own device), the answers of the configuration manager, the environment of
  the daemon, the result of starting the socket layer, the process id, milliseconds since the start
  of the system, the allocation of a buffer, the string conversions, versions, and the installation.
\<close>

record 'd host =
  HDevice :: "'d adapter"
  HOpened :: "'d \<Rightarrow> u32"
  HWaited :: "'d \<Rightarrow> u32"
  HDisk :: "string \<Rightarrow> u32 + ('d, unit, IO_CAPABILITY) device"
  HPnp :: pnp_env
  HReset :: "(u32 \<times> nat) list"
  HClose :: close_env
  HStart :: start_env
  HWait :: "u32 option"
  HJoined :: bool
  HSocket :: sock
  HStartup :: u32
  HPid :: u32
  HTicks :: u64
  HAlloc :: "u32 \<Rightarrow> bool"
  HWide :: "bytes \<Rightarrow> wstr"
  HNarrow :: "wstr \<Rightarrow> string"
  HUninitialised :: WNBD_OPTION_VALUE
  HClientVersion :: string
  HLibVersion :: WNBD_VERSION
  HInstall :: "string \<Rightarrow> 'd \<Rightarrow> (u32 \<times> 'd) option"
  HUninstall :: "'d \<Rightarrow> (u32 \<times> 'd) option"

abbreviation host_calls :: "'d host \<Rightarrow> 'd driver_calls" where
  "host_calls H \<equiv> calls_of (HDevice H) (HOpened H) (HWaited H)"

section \<open>Mapping a disk\<close>

definition zero_flags :: WNBD_FLAGS where
  "zero_flags = \<lparr>ReadOnly = False, FlushSupported = False, FUASupported = False, UnmapSupported = False,
     UnmapAnchorSupported = False, UseKernelNbd = False, PersistResSupported = False, NaaIdSpecified = False,
     UseUserspaceNbd = False\<rparr>"

definition map_properties ::
    "string \<Rightarrow> string \<Rightarrow> u32 \<Rightarrow> string \<Rightarrow> u64 \<Rightarrow> u32 \<Rightarrow> bool \<Rightarrow> bool \<Rightarrow> u32 \<Rightarrow> WNBD_PROPERTIES" where
  "map_properties Inst Host Port Export DiskSize BSize Skip RO pid =
     \<lparr>InstanceName = copied WNBD_MAX_NAME_LENGTH Inst, SerialNumber = copied WNBD_MAX_NAME_LENGTH Inst,
      Owner = copied WNBD_MAX_OWNER_LENGTH ''wnbd-client'',
      Flags = zero_flags\<lparr>UseUserspaceNbd := True, ReadOnly := RO\<rparr>,
      BlockCount = (if BSize \<noteq> 0 then DiskSize div ucast BSize else 0), BlockSize = BSize,
      MaxUnmapDescCount = 0, Pid = pid,
      NbdProperties = \<lparr>Hostname = copied WNBD_MAX_NAME_LENGTH Host, PortNumber = Port,
        ExportName = copied WNBD_MAX_NAME_LENGTH Export, SkipNegotiation = Skip\<rparr>,
      NaaIdentifier = replicate 16 0\<rparr>"

text \<open>The constructor of the daemon. It has no disk yet: what stands for one is not used.\<close>

definition new_daemon :: "sock \<Rightarrow> WNBD_PROPERTIES \<Rightarrow> 'd \<Rightarrow> 'd nbd" where
  "new_daemon s P D =
     \<lparr>UDisk = (new_disk P zero_info)\<lparr>DkHandle := False\<rparr>,
      UContext = \<lparr>WnbdProps = P, Socket = s\<lparr>SockOpen := False\<rparr>, NbdTransmissionStarted = False, Terminated = False,
        TerminateInProgress = False, WnbdDisk = False, PreallocatedRBuff = False, PreallocatedRBuffSz = 0,
        PendingRequests = Map.empty, ReplyDispatcher = False\<rparr>,
      UDriver = D\<rparr>"

definition run_daemon :: "'d host \<Rightarrow> WNBD_PROPERTIES \<Rightarrow> 'd \<Rightarrow> (u32 \<times> 'd) option" where
  "run_daemon H P D =
     map_option (\<lambda>(Status, u). (Status, UDriver u))
       (WnbdRunNbdDaemon (host_calls H) (HClose H) (HStart H) (HWait H) (HJoined H) (new_daemon (HSocket H) P D))"

definition CmdMap ::
    "'d host \<Rightarrow> string \<Rightarrow> string \<Rightarrow> u32 \<Rightarrow> string \<Rightarrow> u64 \<Rightarrow> u32 \<Rightarrow> bool \<Rightarrow> bool \<Rightarrow> 'd \<Rightarrow> (u32 \<times> 'd) option" where
  "CmdMap H Inst Host Port Export DiskSize BSize Skip RO D =
     (if Port = 0 then Some (ERROR_INVALID_PARAMETER, D)
      else if Port > 65353 then Some (ERROR_INVALID_PARAMETER, D)
      else if Skip \<and> \<not> (BSize \<noteq> 0 \<and> DiskSize \<noteq> 0) then Some (ERROR_INVALID_PARAMETER, D)
      else (let Export = (if Export = '''' then Inst else Export)
            in if Inst = '''' then Some (ERROR_INVALID_PARAMETER, D)
               else if Host = '''' then Some (ERROR_INVALID_PARAMETER, D)
               else if HStartup H \<noteq> 0 then Some (HStartup H, D)
               else run_daemon H (map_properties Inst Host Port Export DiskSize BSize Skip RO (HPid H)) D))"

text \<open>The times are multiplied in 32 bits.\<close>

definition CmdUnmap :: "'d host \<Rightarrow> string \<Rightarrow> bool \<Rightarrow> bool \<Rightarrow> u32 \<Rightarrow> u32 \<Rightarrow> 'd \<Rightarrow> (u32 \<times> 'd) option" where
  "CmdUnmap H Inst hard no_fallback timeout interval D =
     WnbdRemoveEx (host_calls H) (HPnp H) (c_str Inst)
       (Some \<lparr>HardRemove = hard, HardRemoveFallback = \<not> no_fallback, SoftRemoveTimeoutMs = timeout * 1000,
              SoftRemoveRetryIntervalMs = interval * 1000\<rparr>) D"

text \<open>A control signal removes the disk of the daemon; the name is empty in the other commands.\<close>

definition ConsoleHandlerRoutine :: "'d host \<Rightarrow> string \<Rightarrow> 'd \<Rightarrow> (bool \<times> 'd) option" where
  "ConsoleHandlerRoutine H DaemonInstanceName D =
     (if DaemonInstanceName \<noteq> '''' then map_option (\<lambda>(_, D). (True, D)) (CmdUnmap H DaemonInstanceName False False 3 1 D)
      else Some (True, D))"

section \<open>Statistics and properties of a disk\<close>

text \<open>Milliseconds since a time stamp in units of 100 ns, read as a signed number; not less than zero.\<close>

definition time_since :: "u64 \<Rightarrow> u64 \<Rightarrow> string" where
  "time_since now stamp = sdec (max 0 (sint (now - stamp div 10000)))"

definition stats_text :: "u64 \<Rightarrow> WNBD_DRV_STATS \<Rightarrow> string" where
  "stats_text now s =
     ''Disk stats'' @ [newline] @
     row 30 ''TotalReceivedIORequests'' (sdec (sint (TotalReceivedIORequests s))) @
     row 30 ''TotalSubmittedIORequests'' (sdec (sint (TotalSubmittedIORequests s))) @
     row 30 ''TotalReceivedIOReplies'' (sdec (sint (TotalReceivedIOReplies s))) @
     row 30 ''UnsubmittedIORequests'' (sdec (sint (UnsubmittedIORequests s))) @
     row 30 ''PendingSubmittedIORequests'' (sdec (sint (PendingSubmittedIORequests s))) @
     row 30 ''AbortedSubmittedIORequests'' (sdec (sint (AbortedSubmittedIORequests s))) @
     row 30 ''AbortedUnsubmittedIORequests'' (sdec (sint (AbortedUnsubmittedIORequests s))) @
     row 30 ''CompletedAbortedIORequests'' (sdec (sint (CompletedAbortedIORequests s))) @
     row 30 ''OutstandingIOCount'' (sdec (sint (OutstandingIOCount s))) @
     row 30 ''TimeSinceLastReceivedReqMs'' (time_since now (LastReceivedReqTimestamp s)) @
     row 30 ''TimeSinceLastSubmittedReqMs'' (time_since now (LastSubmittedReqTimestamp s)) @
     row 30 ''TimeSinceLastReplyMs'' (time_since now (LastReplyTimestamp s)) @ [newline]"

definition CmdStats :: "'d host \<Rightarrow> string \<Rightarrow> 'd \<Rightarrow> (u32 \<times> string \<times> 'd) option" where
  "CmdStats H Inst D =
     map_option (\<lambda>(Status, s, D). if Status \<noteq> 0 then (Status, '''', D) else (Status, stats_text (HTicks H) s, D))
       (WnbdGetDriverStats (HDevice H) (HOpened H) (c_str Inst) zero_stats D)"

definition GetIOLimits :: "'d host \<Rightarrow> string \<Rightarrow> 'd \<Rightarrow> (u32 \<times> (u32 \<times> u32) option \<times> 'd) option" where
  "GetIOLimits H DiskPath D =
     (case HDisk H DiskPath of
        Inl e \<Rightarrow> Some (e, None, D)
      | Inr disk \<Rightarrow> WnbdIoctlGetIOLimits disk False D)"

definition show_text :: "(wstr \<Rightarrow> string) \<Rightarrow> WNBD_CONNECTION_INFO \<Rightarrow> u32 \<times> u32 \<Rightarrow> string" where
  "show_text narrow c limits =
     (let P = CiProperties c; f = Flags P; nbd = NbdProperties P in
      ''Connection info'' @ [newline] @
      row 25 ''InstanceName'' (text_of (InstanceName P)) @
      row 25 ''SerialNumber'' (text_of (SerialNumber P)) @
      row 25 ''Owner'' (text_of (Owner P)) @
      row 25 ''ReadOnly'' (flag_text (ReadOnly f)) @
      row 25 ''FlushSupported'' (flag_text (FlushSupported f)) @
      row 25 ''FUASupported'' (flag_text (FUASupported f)) @
      row 25 ''UnmapSupported'' (flag_text (UnmapSupported f)) @
      row 25 ''UnmapAnchorSupported '' (flag_text (UnmapAnchorSupported f)) @
      row 25 ''UseUserspaceNbd'' (flag_text (UseUserspaceNbd f)) @
      row 25 ''BlockCount'' (dec (unat (BlockCount P))) @
      row 25 ''BlockSize'' (dec (unat (BlockSize P))) @
      row 25 ''MaxUnmapDescCount'' (dec (unat (MaxUnmapDescCount P))) @
      row 25 ''Pid'' (dec (unat (Pid P))) @
      row 25 ''DiskNumber'' (sdec (sint (CiDiskNumber c))) @
      row 25 ''PNPDeviceID'' (narrow (wcs (CiPNPDeviceID c))) @
      row 25 ''BusNumber'' (dec (unat (BusNumber c))) @
      row 25 ''TargetId'' (dec (unat (CiTargetId c))) @
      row 25 ''Lun'' (dec (unat (CiLun c))) @
      row 25 ''MaxIOReqPerLun'' (sdec (sint (fst limits))) @
      row 25 ''MaxIOReqPerAdapter'' (sdec (sint (snd limits))) @ [newline] @
      (if UseUserspaceNbd f
       then ''Nbd properties'' @ [newline] @
            row 25 ''Hostname'' (text_of (Hostname nbd)) @
            row 25 ''PortNumber'' (dec (unat (PortNumber nbd))) @
            row 25 ''ExportName'' (text_of (ExportName nbd)) @
            row 25 ''SkipNegotiation'' (flag_text (SkipNegotiation nbd)) @ [newline]
       else ''''))"

definition physical_drive :: "u32 \<Rightarrow> string" where
  "physical_drive n =
     [CHR 0x5C, CHR 0x5C, CHR ''.'', CHR 0x5C] @ ''PhysicalDrive'' @ sdec (sint n)"

definition CmdShow :: "'d host \<Rightarrow> string \<Rightarrow> 'd \<Rightarrow> (u32 \<times> string \<times> 'd) option" where
  "CmdShow H Inst D =
     (case WnbdShow (host_calls H) (c_str Inst) D of
        None \<Rightarrow> None
      | Some (Status, info, D) \<Rightarrow>
          if Status \<noteq> 0 then Some (Status, '''', D)
          else (let c = (case info of None \<Rightarrow> zero_info | Some c \<Rightarrow> c) in
                case (if CiDiskNumber c \<noteq> - 1
                      then GetIOLimits H (physical_drive (CiDiskNumber c)) D
                      else Some (0, None, D)) of
                  None \<Rightarrow> None
                | Some (Status, limits, D) \<Rightarrow>
                    if Status \<noteq> 0 then Some (Status, '''', D)
                    else Some (Status, show_text (HNarrow H) c (case limits of None \<Rightarrow> (- 1, - 1) | Some l \<Rightarrow> l), D)))"

section \<open>Lists\<close>

text \<open>
  The loops that fetch a list: the buffer grows until what the driver needs fits in. The pointer is
  null (\<open>None\<close>) as long as the size is zero.
\<close>

lemma grown: "v < w \<Longrightarrow> 4294967296 - unat w < 4294967296 - unat (v :: u32)"
  using unsigned_less [of v, where 'a = nat] by (simp add: word_less_nat_alt diff_less_mono2)

function get_list :: "'d host \<Rightarrow> u32 \<Rightarrow> 'd \<Rightarrow> (u32 \<times> WNBD_CONNECTION_INFO list option \<times> 'd) option" where
  "get_list H BufferSize D =
     (if BufferSize \<noteq> 0 \<and> \<not> HAlloc H BufferSize then Some (ERROR_NOT_ENOUGH_MEMORY, None, D)
      else case WnbdList (HDevice H) (HOpened H) [] BufferSize D of
             None \<Rightarrow> None
           | Some (Status, l, Needed, D) \<Rightarrow>
               if Status \<noteq> 0 then Some (Status, None, D)
               else if BufferSize < Needed then get_list H Needed D
               else Some (0, if BufferSize = 0 then None else Some l, D))"
  by pat_completeness auto
termination
  by (relation "measure (\<lambda>(H, n, D). 2 ^ 32 - unat n)") (auto simp: grown grown [of 0, simplified])

declare get_list.simps [simp del]

definition GetList :: "'d host \<Rightarrow> 'd \<Rightarrow> (u32 \<times> WNBD_CONNECTION_INFO list option \<times> 'd) option" where
  "GetList H = get_list H 0"

definition list_row :: "WNBD_CONNECTION_INFO \<Rightarrow> string" where
  "list_row c =
     (let P = CiProperties c in
      setw 10 (dec (unat (Pid P))) @ ''  '' @ setw 10 (sdec (sint (CiDiskNumber c))) @ ''  '' @
      setw 5 (if UseKernelNbd (Flags P) \<or> UseUserspaceNbd (Flags P) then ''true'' else ''false'') @ ''  '' @
      setw 15 (text_of (Owner P)) @ ''  '' @ text_of (InstanceName P) @ [newline])"

definition list_header :: string where
  "list_header = setw 10 ''Pid'' @ ''  '' @ setw 10 ''DiskNumber'' @ ''  '' @ setw 5 ''Nbd'' @ ''  '' @
     setw 15 ''Owner'' @ ''  '' @ ''InstanceName'' @ [newline]"

definition CmdList :: "'d host \<Rightarrow> 'd \<Rightarrow> (u32 \<times> string \<times> 'd) option" where
  "CmdList H D =
     (case GetList H D of
        None \<Rightarrow> None
      | Some (err, l, D) \<Rightarrow>
          if err \<noteq> 0 then Some (err, '''', D)
          else (case l of None \<Rightarrow> None | Some l \<Rightarrow> Some (0, list_header @ concat (map list_row l), D)))"

function get_opt_list :: "'d host \<Rightarrow> bool \<Rightarrow> u32 \<Rightarrow> 'd \<Rightarrow> (u32 \<times> WNBD_OPTION list option \<times> 'd) option" where
  "get_opt_list H Persistent BufferSize D =
     (if BufferSize \<noteq> 0 \<and> \<not> HAlloc H BufferSize then Some (ERROR_NOT_ENOUGH_MEMORY, None, D)
      else case WnbdListDrvOpt_lib (HDevice H) (HOpened H) [] BufferSize Persistent D of
             None \<Rightarrow> None
           | Some (Status, l, Needed, D) \<Rightarrow>
               if Status \<noteq> 0 then Some (Status, None, D)
               else if BufferSize < Needed then get_opt_list H Persistent Needed D
               else Some (0, if BufferSize = 0 then None else Some l, D))"
  by pat_completeness auto
termination
  by (relation "measure (\<lambda>(H, p, n, D). 2 ^ 32 - unat n)") (auto simp: grown grown [of 0, simplified])

declare get_opt_list.simps [simp del]

definition GetOptList :: "'d host \<Rightarrow> bool \<Rightarrow> 'd \<Rightarrow> (u32 \<times> WNBD_OPTION list option \<times> 'd) option" where
  "GetOptList H Persistent = get_opt_list H Persistent 0"

section \<open>Driver options\<close>

definition wsetw :: "nat \<Rightarrow> wstr \<Rightarrow> wstr" where
  "wsetw n s = s @ replicate (n - length s) 0x20"

definition option_row :: "nat \<Rightarrow> WNBD_OPTION \<Rightarrow> wstr" where
  "option_row w opt = wsetw w (wcs (OptName opt)) @ wlit '' : '' @ OptValToWString (OptValue opt) @
     wlit '' (Default: '' @ OptValToWString (OptDefault opt) @ wlit '')'' @ [0x0A]"

definition CmdListOpt :: "'d host \<Rightarrow> bool \<Rightarrow> 'd \<Rightarrow> (u32 \<times> wstr \<times> 'd) option" where
  "CmdListOpt H Persistent D =
     (case GetOptList H Persistent D of
        None \<Rightarrow> None
      | Some (Status, l, D) \<Rightarrow>
          if Status \<noteq> 0 then Some (Status, [], D)
          else (case l of
                  None \<Rightarrow> None
                | Some l \<Rightarrow>
                    (let w = foldl (\<lambda>w opt. max w (length (wcs (OptName opt)))) 0 l
                     in Some (0, concat (map (option_row w) l), D))))"

definition CmdGetOpt :: "'d host \<Rightarrow> string \<Rightarrow> bool \<Rightarrow> 'd \<Rightarrow> (u32 \<times> wstr \<times> 'd) option" where
  "CmdGetOpt H Name Persistent D =
     map_option (\<lambda>(Status, v, D).
         if Status \<noteq> 0 then (Status, [], D)
         else (Status, wlit ''Name: '' @ HWide H (map of_char Name) @ [0x0A] @
                       wlit ''Value: '' @ OptValToWString v @ [0x0A], D))
       (WnbdGetDrvOpt_lib (HWide H) (HDevice H) (HOpened H) (c_str Name) (HUninitialised H) Persistent D)"

definition wide_value :: "wstr \<Rightarrow> WNBD_OPTION_VALUE" where
  "wide_value w = \<lparr>ValType = WnbdOptWstr,
     Data = (let bs = concat (map (le_bytes 2) (take WNBD_MAX_NAME_LENGTH w)) in bs @ replicate (512 - length bs) 0)\<rparr>"

definition CmdSetOpt :: "'d host \<Rightarrow> string \<Rightarrow> string \<Rightarrow> bool \<Rightarrow> 'd \<Rightarrow> (u32 \<times> 'd) option" where
  "CmdSetOpt H Name Value Persistent D =
     WnbdSetDrvOpt_lib (HWide H) (HDevice H) (HOpened H) (c_str Name) (wide_value (HWide H (map of_char Value))) Persistent D"

definition CmdResetOpt :: "'d host \<Rightarrow> string \<Rightarrow> bool \<Rightarrow> 'd \<Rightarrow> (u32 \<times> 'd) option" where
  "CmdResetOpt H Name Persistent D =
     WnbdResetDrvOpt_lib (HWide H) (HDevice H) (HOpened H) (c_str Name) Persistent D"

section \<open>Versions, installation and reset\<close>

text \<open>The version of the driver is left out if it cannot be had; then the status says why.\<close>

definition zero_version :: WNBD_VERSION where
  "zero_version = \<lparr>Major = 0, Minor = 0, Patch = 0, Description = replicate 128 0\<rparr>"

definition CmdVersion :: "'d host \<Rightarrow> 'd \<Rightarrow> (u32 \<times> string \<times> 'd) option" where
  "CmdVersion H D =
     (let lib = (case snd (WnbdGetLibVersion (HLibVersion H) (Some zero_version)) of None \<Rightarrow> zero_version | Some v \<Rightarrow> v);
          out = ''wnbd-client.exe: '' @ HClientVersion H @ [newline] @
                ''libwnbd.dll: '' @ text_of (Description lib) @ [newline]
      in map_option (\<lambda>(Status, v, D).
             (Status, if Status \<noteq> 0 then out else out @ ''wnbd.sys: '' @ text_of (Description v) @ [newline], D))
           (WnbdGetDriverVersion (HDevice H) (HOpened H) zero_version D))"

definition CmdInstall :: "'d host \<Rightarrow> string \<Rightarrow> 'd \<Rightarrow> (u32 \<times> 'd) option" where
  "CmdInstall H FileName D = HInstall H FileName D"

definition CmdUninstall :: "'d host \<Rightarrow> 'd \<Rightarrow> (u32 \<times> 'd) option" where
  "CmdUninstall H D = HUninstall H D"

text \<open>
  New mappings are allowed again after every attempt to remove the disks, whether it succeeded or
  not; an error of that hides the others.
\<close>

definition CmdResetAdapter :: "'d host \<Rightarrow> bool \<Rightarrow> u32 \<Rightarrow> u32 \<Rightarrow> 'd \<Rightarrow> (u32 \<times> 'd) option" where
  "CmdResetAdapter H HardRemoveMappings ResetTimeout ResetRetryInterval D =
     (if \<not> HardRemoveMappings
      then map_option (\<lambda>Status. (Status, D)) (WnbdResetAdapterEx (ResetTimeout * 1000) (HReset H))
      else if HOpened H D \<noteq> 0 then Some (HOpened H D, D)
      else case WnbdRemoveAllDisks (HWide H) (HDevice H) (HAlloc H) D of
             None \<Rightarrow> None
           | Some (Status, D) \<Rightarrow>
               (case (if Status \<noteq> 0 then Some Status
                      else WnbdResetAdapterEx (ResetTimeout * 1000) (HReset H)) of
                  None \<Rightarrow> None
                | Some Status \<Rightarrow>
                    map_option (\<lambda>(OptStatus, D). (if OptStatus \<noteq> 0 then OptStatus else Status, D))
                      (WnbdResetDrvOpt_lib (HWide H) (HDevice H) (HOpened H) new_mappings_allowed False D)))"

end
