(* ===== verification/Client.thy ===== *)
theory Client
  imports Cmd
begin

text \<open>
  The command line client, \<^verbatim>\<open>wnbd-client/client.cpp\<close>: the table of commands with their
  options, and the execution of a command line. The option library parses a command line by the
  option descriptions of the command and gives typed values; parsing is an argument. Reading a value
  at another type than its own raises an exception, here \<open>None\<close>.
\<close>

section \<open>Typed values\<close>

type_synonym variables_map = "string \<rightharpoonup> opt_value"

fun as_string :: "opt_value \<Rightarrow> string option" where
  "as_string (VString s) = Some s" | "as_string _ = None"

fun as_bool :: "opt_value \<Rightarrow> bool option" where
  "as_bool (VBool b) = Some b" | "as_bool _ = None"

fun as_dword :: "opt_value \<Rightarrow> u32 option" where
  "as_dword (VDword w) = Some w" | "as_dword _ = None"

fun as_uint32 :: "opt_value \<Rightarrow> u32 option" where
  "as_uint32 (VUint32 w) = Some w" | "as_uint32 _ = None"

fun as_uint64 :: "opt_value \<Rightarrow> u64 option" where
  "as_uint64 (VUint64 w) = Some w" | "as_uint64 _ = None"

definition safe_get_param :: "(opt_value \<Rightarrow> 'a option) \<Rightarrow> variables_map \<Rightarrow> string \<Rightarrow> 'a \<Rightarrow> 'a option" where
  "safe_get_param conv vm name default_val =
     (case vm name of None \<Rightarrow> Some default_val | Some v \<Rightarrow> conv v)"

section \<open>The options of the commands\<close>

definition bool_switch :: "string \<Rightarrow> string \<Rightarrow> option_description" where
  "bool_switch name desc =
     \<lparr>OdName = name, OdType = TBool, OdRequired = False, OdDefault = Some (VBool False), OdDescription = desc\<rparr>"

definition value_opt :: "opt_type \<Rightarrow> string \<Rightarrow> string \<Rightarrow> option_description" where
  "value_opt t name desc = \<lparr>OdName = name, OdType = t, OdRequired = False, OdDefault = None, OdDescription = desc\<rparr>"

definition required_string :: "string \<Rightarrow> string \<Rightarrow> option_description" where
  "required_string name desc =
     \<lparr>OdName = name, OdType = TString, OdRequired = True, OdDefault = None, OdDescription = desc\<rparr>"

definition default_dword :: "string \<Rightarrow> u32 \<Rightarrow> string \<Rightarrow> option_description" where
  "default_dword name v desc =
     \<lparr>OdName = name, OdType = TDword, OdRequired = False, OdDefault = Some (VDword v), OdDescription = desc\<rparr>"

definition get_common_options :: "option_description list" where
  "get_common_options = [bool_switch ''debug'' ''Enable debug logging.'']"

definition get_help_args :: "string list \<times> option_description list" where
  "get_help_args = ([''command-name''], [value_opt TString ''command-name'' ''Command name.''])"

definition get_show_args :: "string list \<times> option_description list" where
  "get_show_args = ([''instance-name''], [required_string ''instance-name'' ''Disk identifier.''])"

definition get_map_args :: "string list \<times> option_description list" where
  "get_map_args = ([''instance-name'', ''hostname''],
     [required_string ''instance-name'' ''Disk identifier.'',
      required_string ''hostname'' ''NBD server hostname.'',
      default_dword ''port'' 10809 ''NBD server port number. Default: 10809.'',
      value_opt TString ''export-name'' ''NBD export name, defaults to <instance-name>.'',
      bool_switch ''skip-handshake''
        (''Skip NBD handshake and jump right into the transmission phase. '' @
         ''This is useful for minimal NBD servers. If set, the disk size '' @
         ''and block size must be provided.''),
      value_opt TUint64 ''disk-size'' ''The disk size. Ignored when using NBD handshake.'',
      value_opt TUint32 ''block-size'' ''The block size. Ignored when using NBD handshake.'',
      bool_switch ''read-only'' ''Enable disk read-only mode.''])"

definition get_unmap_args :: "string list \<times> option_description list" where
  "get_unmap_args = ([''instance-name''],
     [required_string ''instance-name'' ''Disk identifier.'',
      bool_switch ''hard-disconnect''
        (''Perform a hard disconnect. Warning: pending IO operations as '' @
         ''well as unflushed data will be discarded.''),
      bool_switch ''no-hard-disconnect-fallback''
        (''Immediately return an error if the soft disconnect fails instead '' @
         ''of attempting a hard disconnect as fallback.''),
      default_dword ''soft-disconnect-timeout'' (WNBD_DEFAULT_RM_TIMEOUT_MS div 1000)
        (''Soft disconnect timeout in seconds. The soft disconnect operation '' @
         ''uses PnP to notify the Windows storage stack that the device is '' @
         ''going to be disconnected. Storage drivers can block this operation '' @
         ''if there are pending operations, unflushed caches or open handles. '' @
         ''Default: '' @ dec (unat (WNBD_DEFAULT_RM_TIMEOUT_MS div 1000)) @ ''.''),
      default_dword ''soft-disconnect-retry-interval'' (WNBD_DEFAULT_RM_RETRY_INTERVAL_MS div 1000)
        (''Soft disconnect retry interval in seconds. '' @
         ''Default: '' @ dec (unat (WNBD_DEFAULT_RM_RETRY_INTERVAL_MS div 1000)) @ ''.'')])"

definition get_stats_args :: "string list \<times> option_description list" where
  "get_stats_args = ([''instance-name''], [required_string ''instance-name'' ''Disk identifier.''])"

definition get_list_opt_args :: "string list \<times> option_description list" where
  "get_list_opt_args = ([], [bool_switch ''persistent'' ''List persistent options only.''])"

definition get_opt_getter_args :: "string list \<times> option_description list" where
  "get_opt_getter_args = ([''name''],
     [required_string ''name'' ''Option name.'',
      bool_switch ''persistent'' ''Get the persistent value, if set.''])"

definition get_opt_setter_args :: "string list \<times> option_description list" where
  "get_opt_setter_args = ([''name'', ''value''],
     [required_string ''name'' ''Option name.'', required_string ''value'' ''Option value.'',
      bool_switch ''persistent'' ''Persist the value across reboots.''])"

definition get_reset_opt_args :: "string list \<times> option_description list" where
  "get_reset_opt_args = ([''name''],
     [required_string ''name'' ''Option name.'',
      bool_switch ''persistent'' ''Persist the value across reboots.''])"

definition get_install_args :: "string list \<times> option_description list" where
  "get_install_args = ([''filename''],
     [required_string ''filename'' ''The OEM driver information (wnbd.inf) path.''])"

definition get_reset_adapter_args :: "string list \<times> option_description list" where
  "get_reset_adapter_args = ([],
     [bool_switch ''hard-disconnect-mappings'' ''Forcefully removes existing disk mappings.'',
      default_dword ''reset-timeout'' 10
        (''Adapter reset timeout in seconds. The PnP reset request can be '' @
         ''vetoed if the device is still in use. Default: 10s.''),
      default_dword ''reset-retry-interval'' 1 ''Adapter reset retry interval in seconds. Default: 1s.''])"

section \<open>The commands\<close>

text \<open>The functions of the table as tags.\<close>

datatype execute_func =
    execute_version | execute_help | execute_list | execute_show | execute_map | execute_unmap | execute_stats
  | execute_list_opt | execute_get_opt | execute_set_opt | execute_reset_opt | execute_install | execute_uninstall
  | execute_reset_adapter

definition client_command ::
    "string \<Rightarrow> string list \<Rightarrow> string \<Rightarrow> execute_func \<Rightarrow> (string list \<times> option_description list) option \<Rightarrow>
     execute_func Command" where
  "client_command name aliases desc f opts =
     \<lparr>CmName = name, CmAliases = aliases, CmDescription = desc, CmExecute = f, CmOptions = opts\<rparr>"

definition client_commands :: "execute_func Command list" where
  "client_commands =
     [client_command ''version'' [''-v''] ''Get the client, library and driver version.'' execute_version None,
      client_command ''help'' [''-h'', ''--help'']
        ''List all commands or get more details about a specific command.'' execute_help (Some get_help_args),
      client_command ''list'' [''ls''] ''List WNBD disks.'' execute_list None,
      client_command ''show'' [] ''Show detailed disk information.'' execute_show (Some get_show_args),
      client_command ''map'' [] (''Create a new disk mapping, connecting to the '' @ ''specified NBD server.'')
        execute_map (Some get_map_args),
      client_command ''unmap'' [''rm''] ''Remove disk mapping.'' execute_unmap (Some get_unmap_args),
      client_command ''stats'' [] ''Get disk stats.'' execute_stats (Some get_stats_args),
      client_command ''list-opt'' [] ''List driver options.'' execute_list_opt (Some get_list_opt_args),
      client_command ''get-opt'' [] ''Get driver option.'' execute_get_opt (Some get_opt_getter_args),
      client_command ''set-opt'' [] ''Set driver option.'' execute_set_opt (Some get_opt_setter_args),
      client_command ''reset-opt'' [] ''Reset driver option.'' execute_reset_opt (Some get_reset_opt_args),
      client_command ''install-driver'' [] ''Install WNBD driver and create its adapter.''
        execute_install (Some get_install_args),
      client_command ''uninstall-driver'' []
        (''Hard remove all disk mappings and adapters'' @ '' and uninstall all WNBD driver instances.'')
        execute_uninstall None,
      client_command ''reset-adapter'' []
        (''Resets the WNBD adapter using PnP. Existing '' @ ''disk mappings need to be removed.'')
        execute_reset_adapter (Some get_reset_adapter_args)]"

text \<open>
  A function reads its values, in the order of the source, and runs the command; the outer option
  is the bad cast, the inner one the command that does not return.
\<close>

type_synonym 'd ran = "(u32 \<times> console list \<times> 'd) option"

definition quiet :: "(u32 \<times> 'd) option \<Rightarrow> 'd ran" where
  "quiet r = map_option (\<lambda>(Status, D). (Status, [], D)) r"

definition printed :: "(u32 \<times> string \<times> 'd) option \<Rightarrow> 'd ran" where
  "printed r = map_option (\<lambda>(Status, s, D). (Status, [Cout s], D)) r"

definition wprinted :: "(u32 \<times> wstr \<times> 'd) option \<Rightarrow> 'd ran" where
  "wprinted r = map_option (\<lambda>(Status, s, D). (Status, [Wcout s], D)) r"

fun execute_command :: "'d host \<Rightarrow> execute_func \<Rightarrow> variables_map \<Rightarrow> 'd \<Rightarrow> 'd ran option" where
  "execute_command H execute_version vm D = Some (printed (CmdVersion H D))"
| "execute_command H execute_help vm D =
     (case vm ''command-name'' of
        None \<Rightarrow> Some (Some (0, [Cout (print_command_list client_commands)], D))
      | Some v \<Rightarrow> do {
          n \<leftarrow> as_string v;
          let (Status, page) = print_command_help client_commands get_common_options n;
          Some (Some (Status, [Cout page], D)) })"
| "execute_command H execute_list vm D = Some (printed (CmdList H D))"
| "execute_command H execute_show vm D = do {
     n \<leftarrow> safe_get_param as_string vm ''instance-name'' '''';
     Some (printed (CmdShow H n D)) }"
| "execute_command H execute_map vm D = do {
     n \<leftarrow> safe_get_param as_string vm ''instance-name'' '''';
     host \<leftarrow> safe_get_param as_string vm ''hostname'' '''';
     port \<leftarrow> safe_get_param as_dword vm ''port'' 0;
     export \<leftarrow> safe_get_param as_string vm ''export-name'' '''';
     disk_size \<leftarrow> safe_get_param as_uint64 vm ''disk-size'' 0;
     block_size \<leftarrow> safe_get_param as_uint32 vm ''block-size'' 0;
     skip_handshake \<leftarrow> safe_get_param as_bool vm ''skip-handshake'' False;
     read_only \<leftarrow> safe_get_param as_bool vm ''read-only'' False;
     Some (quiet (CmdMap H n host port export disk_size block_size skip_handshake read_only D)) }"
| "execute_command H execute_unmap vm D = do {
     n \<leftarrow> safe_get_param as_string vm ''instance-name'' '''';
     hard \<leftarrow> safe_get_param as_bool vm ''hard-disconnect'' False;
     no_fallback \<leftarrow> safe_get_param as_bool vm ''no-hard-disconnect-fallback'' False;
     timeout \<leftarrow> safe_get_param as_dword vm ''soft-disconnect-timeout'' 0;
     interval \<leftarrow> safe_get_param as_dword vm ''soft-disconnect-retry-interval'' 0;
     Some (quiet (CmdUnmap H n hard no_fallback timeout interval D)) }"
| "execute_command H execute_stats vm D = do {
     n \<leftarrow> safe_get_param as_string vm ''instance-name'' '''';
     Some (printed (CmdStats H n D)) }"
| "execute_command H execute_list_opt vm D = do {
     persistent \<leftarrow> safe_get_param as_bool vm ''persistent'' False;
     Some (wprinted (CmdListOpt H persistent D)) }"
| "execute_command H execute_get_opt vm D = do {
     n \<leftarrow> safe_get_param as_string vm ''name'' '''';
     persistent \<leftarrow> safe_get_param as_bool vm ''persistent'' False;
     Some (wprinted (CmdGetOpt H n persistent D)) }"
| "execute_command H execute_set_opt vm D = do {
     n \<leftarrow> safe_get_param as_string vm ''name'' '''';
     v \<leftarrow> safe_get_param as_string vm ''value'' '''';
     persistent \<leftarrow> safe_get_param as_bool vm ''persistent'' False;
     Some (quiet (CmdSetOpt H n v persistent D)) }"
| "execute_command H execute_reset_opt vm D = do {
     n \<leftarrow> safe_get_param as_string vm ''name'' '''';
     persistent \<leftarrow> safe_get_param as_bool vm ''persistent'' False;
     Some (quiet (CmdResetOpt H n persistent D)) }"
| "execute_command H execute_install vm D = do {
     file \<leftarrow> safe_get_param as_string vm ''filename'' '''';
     Some (quiet (CmdInstall H file D)) }"
| "execute_command H execute_uninstall vm D = Some (quiet (CmdUninstall H D))"
| "execute_command H execute_reset_adapter vm D = do {
     hard \<leftarrow> safe_get_param as_bool vm ''hard-disconnect-mappings'' False;
     timeout \<leftarrow> safe_get_param as_dword vm ''reset-timeout'' 0;
     interval \<leftarrow> safe_get_param as_dword vm ''reset-retry-interval'' 0;
     Some (quiet (CmdResetAdapter H hard timeout interval D)) }"

section \<open>A command line\<close>

datatype parse_error = required_option | too_many_positional_options_error | po_error | other_exception

type_synonym parser = "string list \<Rightarrow> string list \<Rightarrow> option_description list \<Rightarrow> parse_error + variables_map"

abbreviation (input) ERROR_INTERNAL_ERROR :: u32 where "ERROR_INTERNAL_ERROR \<equiv> 1359"

fun error_status :: "parse_error \<Rightarrow> u32" where
  "error_status other_exception = ERROR_INTERNAL_ERROR"
| "error_status _ = ERROR_INVALID_PARAMETER"

datatype WnbdLogLevel =
    WnbdLogLevelCritical | WnbdLogLevelError | WnbdLogLevelWarning | WnbdLogLevelInfo | WnbdLogLevelDebug
  | WnbdLogLevelTrace

definition handle_common_options :: "variables_map \<Rightarrow> WnbdLogLevel option" where
  "handle_common_options vm = do {
     debug \<leftarrow> safe_get_param as_bool vm ''debug'' False;
     Some (if debug then WnbdLogLevelDebug else WnbdLogLevelInfo) }"

text \<open>
  The first argument is the name of the program. A bad cast ends in the handler of all other
  exceptions.
\<close>

definition Client_execute :: "'d host \<Rightarrow> parser \<Rightarrow> string list \<Rightarrow> 'd \<Rightarrow> 'd ran" where
  "Client_execute H parse argv D =
     (let args = drop 1 argv;
          args = (if args = [] then [''help''] else args)
      in case get_command client_commands (hd args) of
           None \<Rightarrow> Some (ERROR_INVALID_PARAMETER, [], D)
         | Some c \<Rightarrow>
             (let (positional, named) = options_of c
              in case parse (tl args) positional (named @ get_common_options) of
                   Inl e \<Rightarrow> Some (error_status e, [], D)
                 | Inr vm \<Rightarrow>
                     (case handle_common_options vm of
                        None \<Rightarrow> Some (ERROR_INTERNAL_ERROR, [], D)
                      | Some _ \<Rightarrow>
                          (case execute_command H (CmExecute c) vm D of
                             None \<Rightarrow> Some (ERROR_INTERNAL_ERROR, [], D)
                           | Some r \<Rightarrow> r))))"

section \<open>The values a command reads have the types of its options\<close>

text \<open>
  What the option library documents of a successful parse: a value has the type it was
  declared with, a required option and one with a default value is present, nothing else is.
\<close>

fun has_type :: "opt_type \<Rightarrow> opt_value \<Rightarrow> bool" where
  "has_type TString v = (case v of VString _ \<Rightarrow> True | _ \<Rightarrow> False)"
| "has_type TBool v = (case v of VBool _ \<Rightarrow> True | _ \<Rightarrow> False)"
| "has_type TDword v = (case v of VDword _ \<Rightarrow> True | _ \<Rightarrow> False)"
| "has_type TUint32 v = (case v of VUint32 _ \<Rightarrow> True | _ \<Rightarrow> False)"
| "has_type TUint64 v = (case v of VUint64 _ \<Rightarrow> True | _ \<Rightarrow> False)"

definition vm_conforms :: "option_description list \<Rightarrow> variables_map \<Rightarrow> bool" where
  "vm_conforms named vm \<longleftrightarrow>
     list_all (\<lambda>d. case vm (OdName d) of
                     None \<Rightarrow> \<not> OdRequired d \<and> OdDefault d = None
                   | Some v \<Rightarrow> has_type (OdType d) v) named \<and>
     dom vm \<subseteq> OdName ` set named"

definition parser_conforms :: "parser \<Rightarrow> bool" where
  "parser_conforms parse \<longleftrightarrow>
     (\<forall>args positional named vm. parse args positional named = Inr vm \<longrightarrow> vm_conforms named vm)"

lemma has_type_reads [simp]:
  "has_type TString v \<longleftrightarrow> (\<exists>s. v = VString s)" "has_type TBool v \<longleftrightarrow> (\<exists>b. v = VBool b)"
  "has_type TDword v \<longleftrightarrow> (\<exists>w. v = VDword w)" "has_type TUint32 v \<longleftrightarrow> (\<exists>w. v = VUint32 w)"
  "has_type TUint64 v \<longleftrightarrow> (\<exists>w. v = VUint64 w)"
  by (cases v; simp add: has_type.simps)+

declare has_type.simps [simp del]

lemmas option_tables =
  get_common_options_def get_help_args_def get_show_args_def
  get_map_args_def get_unmap_args_def get_stats_args_def get_list_opt_args_def get_opt_getter_args_def
  get_opt_setter_args_def get_reset_opt_args_def get_install_args_def get_reset_adapter_args_def
  bool_switch_def value_opt_def required_string_def default_dword_def

lemma get_command_mem: "get_command cs n = Some c \<Longrightarrow> c \<in> set cs \<and> n \<in> set (CmName c # CmAliases c)"
  by (auto simp: get_command_def find_Some_iff)

lemma vm_at:
  "vm_conforms named vm \<Longrightarrow> d \<in> set named \<Longrightarrow>
   (vm (OdName d) = None \<and> \<not> OdRequired d \<and> OdDefault d = None) \<or> (\<exists>v. vm (OdName d) = Some v \<and> has_type (OdType d) v)"
  by (auto simp: vm_conforms_def list_all_iff split: option.splits)

lemma vm_outside: "vm_conforms named vm \<Longrightarrow> n \<notin> OdName ` set named \<Longrightarrow> vm n = None"
  by (auto simp: vm_conforms_def)

lemma conv_ok:
  assumes "vm_conforms named vm" "list_all (\<lambda>d. OdName d = n \<longrightarrow> (\<forall>v. has_type (OdType d) v \<longrightarrow> conv v \<noteq> None)) named"
    and "vm n = Some v"
  shows "conv v \<noteq> None"
proof -
  obtain d where d: "d \<in> set named" "OdName d = n" using vm_outside [OF assms(1), of n] assms(3) by auto
  with vm_at [OF assms(1) d(1)] assms(3) have "has_type (OdType d) v" by auto
  with d assms(2) show ?thesis by (simp add: list_all_iff)
qed

lemma safe_get_ok:
  assumes "vm_conforms named vm" "list_all (\<lambda>d. OdName d = n \<longrightarrow> (\<forall>v. has_type (OdType d) v \<longrightarrow> conv v \<noteq> None)) named"
  shows "safe_get_param conv vm n x \<noteq> None"
  using conv_ok [OF assms] by (auto simp: safe_get_param_def split: option.split)

lemma bind_ok: "m \<noteq> None \<Longrightarrow> (\<And>x. k x \<noteq> None) \<Longrightarrow> Option.bind m k \<noteq> None"
  by (cases m) auto

text \<open>The options of the command a function belongs to.\<close>

fun declared :: "execute_func \<Rightarrow> option_description list" where
  "declared execute_help = snd get_help_args"
| "declared execute_show = snd get_show_args"
| "declared execute_map = snd get_map_args"
| "declared execute_unmap = snd get_unmap_args"
| "declared execute_stats = snd get_stats_args"
| "declared execute_list_opt = snd get_list_opt_args"
| "declared execute_get_opt = snd get_opt_getter_args"
| "declared execute_set_opt = snd get_opt_setter_args"
| "declared execute_reset_opt = snd get_reset_opt_args"
| "declared execute_install = snd get_install_args"
| "declared execute_reset_adapter = snd get_reset_adapter_args"
| "declared _ = []"

lemma options_declared: "c \<in> set client_commands \<Longrightarrow> snd (options_of c) = declared (CmExecute c)"
  by (auto simp: client_commands_def client_command_def options_of_def)

lemma execute_command_ok:
  assumes "vm_conforms (declared f @ get_common_options) vm" shows "execute_command H f vm D \<noteq> None"
proof (cases "f = execute_help")
  case True
  have "vm ''command-name'' = Some v \<Longrightarrow> as_string v \<noteq> None" for v
    by (rule conv_ok [OF assms]) (auto simp: True option_tables)
  then show ?thesis by (auto simp: True split: option.split prod.split)
next
  case False
  note ok = safe_get_ok [OF assms]
  show ?thesis using False
    by (cases f; simp only: execute_command.simps; (intro bind_ok ok)?; auto simp: option_tables)
qed

lemma common_options_ok:
  assumes "vm_conforms (declared f @ get_common_options) vm" shows "handle_common_options vm \<noteq> None"
  unfolding handle_common_options_def
  by (intro bind_ok safe_get_ok [OF assms]; cases f; auto simp: option_tables)

text \<open>
  C27: every command reads its options at the types they are declared with: whatever conforming
  values the parser gives, the command runs, and the client's status is the command's.
\<close>

theorem client_reads_declared_types:
  assumes "parser_conforms parse" "get_command client_commands name = Some c"
    and "parse args (fst (options_of c)) (snd (options_of c) @ get_common_options) = Inr vm"
  shows "\<exists>r. execute_command H (CmExecute c) vm D = Some r \<and> Client_execute H parse (prog # name # args) D = r"
proof -
  have "vm_conforms (declared (CmExecute c) @ get_common_options) vm"
    using assms options_declared get_command_mem [OF assms(2)] by (fastforce simp: parser_conforms_def)
  from execute_command_ok [OF this, of H D] common_options_ok [OF this] assms(2,3) show ?thesis
    by (auto simp: Client_execute_def split: prod.split)
qed

text \<open>A mapping without options: the parser gives the defaults.\<close>

definition sample_vm :: variables_map where
  "sample_vm = [''instance-name'' \<mapsto> VString ''a'', ''hostname'' \<mapsto> VString ''h'', ''port'' \<mapsto> VDword 10809,
     ''skip-handshake'' \<mapsto> VBool False, ''read-only'' \<mapsto> VBool False, ''debug'' \<mapsto> VBool False]"

definition sample_parser :: parser where
  "sample_parser args positional named =
     (if args = [''a'', ''h''] \<and> named = snd get_map_args @ get_common_options then Inr sample_vm else Inl po_error)"

theorem client_reads_declared_types_witness:
  "\<forall>H (D :: unit). Client_execute H sample_parser [''wnbd-client'', ''map'', ''a'', ''h''] D =
     quiet (CmdMap H ''a'' ''h'' 10809 '''' 0 0 False False D)"
proof (intro allI)
  fix H :: "unit host" and D
  let ?c = "client_command ''map'' [] ''Create a new disk mapping, connecting to the specified NBD server.''
        execute_map (Some get_map_args)"
  have c: "get_command client_commands ''map'' = Some ?c"
    by (simp add: get_command_def client_commands_def client_command_def)
  have opts: "options_of ?c = get_map_args" "CmExecute ?c = execute_map" by (simp_all add: options_of_def client_command_def)
  have p: "parser_conforms sample_parser"
    by (auto simp: parser_conforms_def sample_parser_def vm_conforms_def sample_vm_def option_tables)
  have "sample_parser [''a'', ''h''] (fst (options_of ?c)) (snd (options_of ?c) @ get_common_options) = Inr sample_vm"
    by (simp add: sample_parser_def opts)
  from client_reads_declared_types [OF p c this, of H D "''wnbd-client''"]
  show "Client_execute H sample_parser [''wnbd-client'', ''map'', ''a'', ''h''] D =
      quiet (CmdMap H ''a'' ''h'' 10809 '''' 0 0 False False D)"
    by (auto simp: opts sample_vm_def safe_get_param_def)
qed

text \<open>Every name of a command finds it.\<close>

lemma commands_found:
  "list_all (\<lambda>c. list_all (\<lambda>n. get_command client_commands n = Some c) (CmName c # CmAliases c)) client_commands"
  by (simp add: client_commands_def client_command_def get_command_def)

end
