(* ===== verification/ClientDriver.thy ===== *)
theory ClientDriver
  imports Client Stack Removal
begin

text \<open>
  The client's commands on the model of the driver: what they report is what the adapter holds,
  and what they promise is what the driver's state says afterwards. The commands are taken one
  after the other; no other process uses the adapter meanwhile.
\<close>

section \<open>A call that succeeds\<close>

text \<open>The system's conversion gives an error for every warning and error status.\<close>

definition dos_errors :: "'r machine \<Rightarrow> bool" where
  "dos_errors M \<longleftrightarrow> (\<forall>St \<ge> 0x80000000. DosError M St \<noteq> 0)"

lemma control_call_zero:
  assumes "WnbdDeviceIoControl (driver_device M) False c isz osz K = Some (0, n, out, K')" "dos_errors M"
  obtains r where
    "WnbdParseUserIOCTL (Answers M (Commands K) (Driver K)) (service_irp M c isz osz) (Driver K) = Returned r"
    "RStatus r < 0x80000000" "n = Some (case RInformation r of None \<Rightarrow> 0 | Some n \<Rightarrow> of_nat n)" "out = Some (ROutput r)"
    "K' = \<lparr>Driver = RDriver r, Commands = Commands K + 1\<rparr>"
proof -
  have ok: "St < 0x80000000 \<and> \<not> NT_ERROR St" if "io_status (DosError M) St = 0" for St
    using that assms(2) order.strict_trans [of St "0x80000000" "0xC0000000"]
    by (auto simp: io_status_def dos_errors_def NT_ERROR_def not_le split: if_splits)
  show ?thesis
    using assms(1) that
    by (auto simp: WnbdDeviceIoControl_def driver_device_def WnbdHwProcessServiceRequest_def copied_out_def
        split: if_splits run.splits option.splits dest!: ok)
qed

lemma simple_call_zero:
  assumes "simple_call (driver_device M) False c isz K = Some (0, K')" "dos_errors M"
  obtains r where
    "WnbdParseUserIOCTL (Answers M (Commands K) (Driver K)) (service_irp M c isz 0) (Driver K) = Returned r"
    "RStatus r < 0x80000000" "K' = \<lparr>Driver = RDriver r, Commands = Commands K + 1\<rparr>"
proof -
  obtain n out where "WnbdDeviceIoControl (driver_device M) False c isz 0 K = Some (0, n, out, K')"
    using assms(1) by (auto simp: simple_call_def)
  from control_call_zero [OF this assms(2)] that show ?thesis by blast
qed

section \<open>Removing every disk\<close>

lemma remove_zero:
  assumes "WnbdIoctlRemove (driver_device M) n False K = Some (0, K')" "dos_errors M" "adapter_ok (DrvExt (Driver K))"
  shows "adapter_ok (DrvExt (Driver K')) \<and> DrvOptions (Driver K') = DrvOptions (Driver K) \<and>
    Suc (length (DeviceList (DrvExt (Driver K')))) = length (DeviceList (DrvExt (Driver K)))"
proof -
  obtain n' where call: "simple_call (driver_device M) False (IOCTL_WNBD_REMOVE n') 376 K = Some (0, K')"
    using assms(1) by (auto simp: WnbdIoctlRemove_def split: if_splits option.splits)
  obtain r where r: "WnbdParseUserIOCTL (Answers M (Commands K) (Driver K))
      (service_irp M (IOCTL_WNBD_REMOVE n') 376 0) (Driver K) = Returned r"
    "RStatus r < 0x80000000" "K' = \<lparr>Driver = RDriver r, Commands = Commands K + 1\<rparr>"
    by (rule simple_call_zero [OF call assms(2)])
  from r show ?thesis
    using WnbdDeleteConnection_effect [OF assms(3)]
    by (auto simp: WnbdParseUserIOCTL_def service_irp_def CHECK_I_LOCATION_def ioctl_remove_def reply_def Let_def
        split: if_splits option.splits dest!: WnbdDeleteConnection_effect [OF assms(3)])
qed

lemma remove_each_zero:
  assumes "dos_errors M"
  shows "remove_each (driver_device M) ns 0 K = Some (0, K') \<Longrightarrow> adapter_ok (DrvExt (Driver K)) \<Longrightarrow>
    adapter_ok (DrvExt (Driver K')) \<and> DrvOptions (Driver K') = DrvOptions (Driver K) \<and>
    length (DeviceList (DrvExt (Driver K'))) + length ns = length (DeviceList (DrvExt (Driver K)))"
proof (induction ns arbitrary: K)
  case (Cons n ns)
  then obtain K1 where K1: "WnbdIoctlRemove (driver_device M) n False K = Some (0, K1)"
    "remove_each (driver_device M) ns 0 K1 = Some (0, K')"
    by (auto split: option.splits if_splits)
  from remove_zero [OF K1(1) assms Cons.prems(2)] Cons.IH [OF K1(2)] show ?case by auto
qed simp

text \<open>The list is complete, or its size is.\<close>

abbreviation entries :: "WNBD_EXTENSION \<Rightarrow> WNBD_CONNECTION_INFO list" where
  "entries x \<equiv> map (\<lambda>p. connection_entry (Devices x p)) (DeviceList x)"

lemma list_call:
  assumes "adapter_ok (DrvExt (Driver K))" "EventError M (Commands K) = 0"
  shows "WnbdIoctlList (driver_device M) l len False K =
    (let n = length (DeviceList (DrvExt (Driver K))) in
     if n * 2032 + 2040 \<le> unat len
     then Some (0, entries (DrvExt (Driver K)), of_nat (n * 2032 + 8), K\<lparr>Commands := Commands K + 1\<rparr>)
     else Some (0, l, of_nat (n * 2032 + 2040), K\<lparr>Commands := Commands K + 1\<rparr>))"
proof -
  let ?irp = "service_irp M IOCTL_WNBD_LIST 4 len" and ?n = "length (DeviceList (DrvExt (Driver K)))"
  let ?r = "if ?n * 2032 + 2040 \<le> unat len
      then \<lparr>RStatus = STATUS_SUCCESS, RInformation = Some (?n * 2032 + 8),
             ROutput = OutList (entries (DrvExt (Driver K))), RDriver = Driver K\<rparr>
      else \<lparr>RStatus = STATUS_SUCCESS, RInformation = Some (?n * 2032 + 2040), ROutput = OutNone, RDriver = Driver K\<rparr>"
  have "WnbdParseUserIOCTL (Answers M (Commands K) (Driver K)) ?irp (Driver K) = Returned ?r"
    using ioctl_list_complete [OF assms(1), of ?irp]
    by (simp add: WnbdParseUserIOCTL_def CHECK_I_LOCATION_def service_irp_def reply_with_def Let_def)
  from control_call_success [OF this] assms(2) show ?thesis
    by (cases K) (auto simp: WnbdIoctlList_def Let_def)
qed

text \<open>The option that forbids new mappings.\<close>

definition names_option :: "(bytes \<Rightarrow> wstr) \<Rightarrow> bool" where
  "names_option conv \<longleftrightarrow> conv (cstr new_mappings_allowed) = wlit ''NewMappingsAllowed''"

lemma option_found:
  assumes "names_option conv" "opts_ok opts"
  shows "WnbdFindOpt opts (terminate_at WNBD_MAX_OPT_NAME_LENGTH (option_name conv new_mappings_allowed)) = Some 1"
proof -
  have z: "(replicate 238 0)[45 := 0] = replicate 238 (0 :: u16)" by (rule nth_equalityI) (simp_all add: nth_list_update)
  show ?thesis
    unfolding WnbdFindOpt_ok [OF assms(2)] option_name_def assms(1) [unfolded names_option_def]
    by (simp add: WnbdFindOpt_def WnbdDriverOptions_def bool_opt_def int64_opt_def wcsieq_def wcs_def wlit_def
        terminate_at_def towlower_def Let_def z)
qed

text \<open>The state after an option was set.\<close>

definition option_set :: "nat \<Rightarrow> WNBD_OPTION_VALUE \<Rightarrow> 'r kernel \<Rightarrow> 'r kernel" where
  "option_set i v K =
     K\<lparr>Driver := (Driver K)\<lparr>DrvOptions :=
           (DrvOptions (Driver K))[i := (DrvOptions (Driver K) ! i)\<lparr>OptValue := v\<rparr>]\<rparr>,
       Commands := Commands K + 1\<rparr>"

abbreviation (input) bool_value :: "bool \<Rightarrow> WNBD_OPTION_VALUE" where
  "bool_value b \<equiv> \<lparr>ValType = WnbdOptBool, Data = bool_data b\<rparr>"

abbreviation sent_name :: "(bytes \<Rightarrow> wstr) \<Rightarrow> bytes \<Rightarrow> wstr" where
  "sent_name conv n \<equiv> terminate_at WNBD_MAX_OPT_NAME_LENGTH (option_name conv n)"

lemma mappings_set_ok:
  assumes "opts_ok (DrvOptions (Driver K))"
  shows "DrvExt (Driver (option_set 1 (bool_value b) K)) = DrvExt (Driver K) \<and>
    opts_ok (DrvOptions (Driver (option_set 1 (bool_value b) K))) \<and>
    opt_bool (DrvOptions (Driver (option_set 1 (bool_value b) K))) OptNewMappingsAllowed = b \<and>
    Commands (option_set 1 (bool_value b) K) = Commands K + 1"
proof -
  let ?opts = "DrvOptions (Driver K)"
  have "OptType (?opts ! 1) = WnbdOptBool" using opts_ok_nth(4) [OF assms, of 1] by (simp add: WnbdDriverOptions_def bool_opt_def)
  then have "opts_ok (?opts[1 := (?opts ! 1)\<lparr>OptValue := bool_value b\<rparr>])"
    by (intro opts_ok_update [OF assms]) simp_all
  then show ?thesis using opts_ok_length [OF assms] by (simp add: option_set_def opt_bool_def)
qed

lemma set_call:
  fixes K :: "'r kernel"
  assumes "WnbdFindOpt (DrvOptions (Driver K)) (sent_name conv n) = Some i" "EventError M (Commands K) = 0"
    and "\<And>c. WnbdProcessOptionValue c (DrvOptions (Driver K) ! i) v = (0, v')"
  shows "WnbdIoctlSetDrvOpt conv (driver_device M) n v False False K = Some (0, option_set i v' K)"
proof -
  let ?opts = "DrvOptions (Driver K)" and ?n = "option_name conv n"
  have "WnbdSetDrvOpt reg c rg ?opts (sent_name conv n) v False = (STATUS_SUCCESS, rg, ?opts[i := (?opts ! i)\<lparr>OptValue := v'\<rparr>], v')"
    for reg :: "'r registry" and c rg
    using assms(1,3) by (simp add: WnbdSetDrvOpt_def Let_def)
  then have "WnbdParseUserIOCTL (Answers M (Commands K) (Driver K))
      (service_irp M (IOCTL_WNBD_SET_DRV_OPT ?n v False) 1144 0) (Driver K) =
    Returned \<lparr>RStatus = STATUS_SUCCESS, RInformation = None, ROutput = OutNone, RDriver = Driver (option_set i v' K)\<rparr>"
    by (simp add: WnbdParseUserIOCTL_def service_irp_def CHECK_I_LOCATION_def ioctl_set_opt_def reply_def option_set_def)
  from control_call_success [OF this] assms(2) show ?thesis
    by (simp add: WnbdIoctlSetDrvOpt_def simple_call_def) (simp add: option_set_def)
qed

lemma get_call:
  assumes "WnbdFindOpt (DrvOptions (Driver K)) (sent_name conv n) = Some i" "EventError M (Commands K) = 0"
  shows "WnbdIoctlGetDrvOpt conv (driver_device M) n v False False K =
    Some (0, OptValue (DrvOptions (Driver K) ! i), K\<lparr>Commands := Commands K + 1\<rparr>)"
proof -
  have "WnbdParseUserIOCTL (Answers M (Commands K) (Driver K))
      (service_irp M (IOCTL_WNBD_GET_DRV_OPT (option_name conv n) False) 552 584) (Driver K) =
    Returned \<lparr>RStatus = STATUS_SUCCESS, RInformation = Some 584, ROutput = OutOption (OptValue (DrvOptions (Driver K) ! i)),
      RDriver = Driver K\<rparr>"
    using assms(1)
    by (simp add: WnbdParseUserIOCTL_def service_irp_def CHECK_I_LOCATION_def CHECK_O_LOCATION_def ioctl_get_opt_def
        reply_with_def WnbdGetDrvOpt_def)
  from control_call_success [OF this] assms(2) show ?thesis by (cases K) (simp add: WnbdIoctlGetDrvOpt_def)
qed

lemma forbid_call:
  assumes "names_option conv" "opts_ok (DrvOptions (Driver K))" "EventError M (Commands K) = 0"
  shows "WnbdIoctlSetDrvOpt conv (driver_device M) new_mappings_allowed forbid False False K =
    Some (0, option_set 1 (bool_value False) K)"
proof (rule set_call [OF option_found [OF assms(1,2)] assms(3)])
  have "OptType (DrvOptions (Driver K) ! 1) = WnbdOptBool"
    using opts_ok_nth(4) [OF assms(2), of 1] by (simp add: WnbdDriverOptions_def bool_opt_def)
  then show "WnbdProcessOptionValue c (DrvOptions (Driver K) ! 1) forbid = (0, bool_value False)" for c
    by (simp add: WnbdProcessOptionValue_def forbid_def Let_def)
qed

lemma allow_call:
  fixes K :: "'r kernel"
  assumes "names_option conv" "opts_ok (DrvOptions (Driver K))" "EventError M (Commands K) = 0"
  shows "WnbdIoctlResetDrvOpt conv (driver_device M) new_mappings_allowed False False K =
    Some (0, option_set 1 (bool_value True) K)"
proof -
  let ?opts = "DrvOptions (Driver K)" and ?n = "option_name conv new_mappings_allowed"
  have "OptDefault (?opts ! 1) = bool_value True" using opts_ok_nth(5) [OF assms(2), of 1] by (simp add: WnbdDriverOptions_def bool_opt_def)
  then have "WnbdResetDrvOpt reg rg ?opts (sent_name conv new_mappings_allowed) False =
      (STATUS_SUCCESS, rg, ?opts[1 := (?opts ! 1)\<lparr>OptValue := bool_value True\<rparr>])" for reg :: "'r registry" and rg
    using option_found [OF assms(1,2)] by (simp add: WnbdResetDrvOpt_def Let_def)
  then have "WnbdParseUserIOCTL (Answers M (Commands K) (Driver K))
      (service_irp M (IOCTL_WNBD_RESET_DRV_OPT ?n False) 552 0) (Driver K) =
    Returned \<lparr>RStatus = STATUS_SUCCESS, RInformation = None, ROutput = OutNone,
      RDriver = Driver (option_set 1 (bool_value True) K)\<rparr>"
    by (simp add: WnbdParseUserIOCTL_def service_irp_def CHECK_I_LOCATION_def ioctl_reset_opt_def reply_def option_set_def)
  from control_call_success [OF this] assms(3) show ?thesis
    by (simp add: WnbdIoctlResetDrvOpt_def simple_call_def) (simp add: option_set_def)
qed

lemma remove_all_zero:
  assumes "WnbdRemoveAllDisks conv (driver_device M) granted K = Some (0, K')" "dos_errors M" "names_option conv"
    and "adapter_ok (DrvExt (Driver K))" "opts_ok (DrvOptions (Driver K))" "\<forall>n. EventError M n = 0"
  shows "DeviceList (DrvExt (Driver K')) = [] \<and> adapter_ok (DrvExt (Driver K')) \<and> opts_ok (DrvOptions (Driver K')) \<and>
    \<not> opt_bool (DrvOptions (Driver K')) OptNewMappingsAllowed"
proof -
  define K1 where "K1 = option_set 1 (bool_value False) K"
  have K1: "WnbdIoctlSetDrvOpt conv (driver_device M) new_mappings_allowed forbid False False K = Some (0, K1)"
    using forbid_call [OF assms(3,5)] assms(6) by (simp add: K1_def)
  note f = mappings_set_ok [OF assms(5), of False, folded K1_def]
  define n where "n = length (DeviceList (DrvExt (Driver K1)))"
  have ok: "adapter_ok (DrvExt (Driver K1))" using f assms(4) by simp
  have len: "n \<le> 128" using device_count(1) [OF ok] by (simp add: n_def)
  have sz: "unat (of_nat (n * 2032 + 2040) :: u32) = n * 2032 + 2040" by (rule unat_of_nat_eq) (use len in simp)
  then have nz: "(of_nat (n * 2032 + 2040) :: u32) \<noteq> 0" by (metis add_is_0 unat_0 zero_neq_numeral)
  let ?K2 = "K1\<lparr>Commands := Commands K1 + 1\<rparr>"
  have l1: "WnbdIoctlList (driver_device M) [] 0 False K1 = Some (0, [], of_nat (n * 2032 + 2040), ?K2)"
    using list_call [OF ok] assms(6) by (simp add: n_def)
  have l2: "WnbdIoctlList (driver_device M) [] (of_nat (n * 2032 + 2040)) False ?K2 =
      Some (0, entries (DrvExt (Driver K1)), of_nat (n * 2032 + 8), ?K2\<lparr>Commands := Commands ?K2 + 1\<rparr>)"
    using list_call [of ?K2] ok assms(6) sz by (simp add: n_def Let_def)
  have "remove_each (driver_device M) (map (\<lambda>i. InstanceName (CiProperties i)) (entries (DrvExt (Driver K1)))) 0
      (?K2\<lparr>Commands := Commands ?K2 + 1\<rparr>) = Some (0, K')"
    using assms(1) K1 l1 l2 nz by (auto simp: WnbdRemoveAllDisks_def split: if_splits)
  from remove_each_zero [OF assms(2) this] ok f show ?thesis by (simp add: n_def)
qed

text \<open>
  C24: when the removal of all disks reports success, the adapter has no disk left and refuses new
  ones, whatever the names of the disks were.
\<close>

theorem remove_all_disks_empties_adapter:
  assumes "WnbdRemoveAllDisks conv (driver_device M) granted K = Some (0, K')" "dos_errors M" "names_option conv"
    and "adapter_ok (DrvExt (Driver K))" "opts_ok (DrvOptions (Driver K))" "\<forall>n. EventError M n = 0"
  shows "DeviceList (DrvExt (Driver K')) = [] \<and> \<not> opt_bool (DrvOptions (Driver K')) OptNewMappingsAllowed"
  using remove_all_zero [OF assms] by blast

text \<open>Removing a single disk that nobody uses.\<close>

lemma remove_call:
  assumes "find (\<lambda>p. streq (InstanceName (Properties (Devices (DrvExt D) p))) n) (DeviceList (DrvExt D)) = Some p"
    and "adapter_ok (DrvExt D)" "queues_ok (DrvMem D) (Devices (DrvExt D) p)" "DeviceList (DrvExt D) = [p]"
    and "RundownProtection (Devices (DrvExt D) p) = rundown_init" "EventError M k = 0" "strlen n \<noteq> 0" "strlen n < 256"
  obtains D' where "WnbdIoctlRemove (driver_device M) n False \<lparr>Driver = D, Commands = k\<rparr> = Some (0, \<lparr>Driver = D', Commands = k + 1\<rparr>)"
    "DeviceList (DrvExt D') = []" "DrvOptions D' = DrvOptions D" "adapter_ok (DrvExt D')"
proof -
  let ?env = "Answers M k D"
  define nm where "nm = take 256 (cstr n @ replicate 256 0)"
  have z: "(cstr n @ replicate (256 - strlen n) 0)[255 := 0] = cstr n @ replicate (256 - strlen n) 0"
    using assms(8) by (intro nth_equalityI) (auto simp: strlen_def nth_list_update nth_append)
  have nz: "c \<noteq> 0" if "c \<in> set (cstr n)" for c using that by (auto simp: cstr_def dest: set_takeWhileD)
  have "cstr (terminate_at 256 nm) = cstr n"
    using assms(8) nz by (simp add: nm_def terminate_at_def z [unfolded strlen_def] strlen_def cstr_def [of "_ @ _"] takeWhile_append2 min_def)
  then have s: "streq m (terminate_at 256 nm) = streq m n" "strlen (terminate_at 256 nm) = strlen n" for m
    by (simp_all add: streq_def strlen_def)
  obtain m' x' where del: "WnbdDeleteConnection (DrvOptions D) (IeTime ?env) (terminate_at 256 nm) (DrvMem D, DrvExt D) =
      Some (STATUS_SUCCESS, m', x')" "adapter_ok x'" "DeviceList x' = remove1 p (DeviceList (DrvExt D))"
    by (rule delete_runs [of "DrvExt D" "terminate_at 256 nm" p "DrvMem D" "DrvOptions D" "IeTime ?env"])
      (use assms in \<open>auto simp: s\<close>)
  let ?D = "D\<lparr>DrvMem := m', DrvExt := x'\<rparr>"
  have "WnbdParseUserIOCTL ?env (service_irp M (IOCTL_WNBD_REMOVE nm) 376 0) D =
      Returned \<lparr>RStatus = STATUS_SUCCESS, RInformation = None, ROutput = OutNone, RDriver = ?D\<rparr>"
    using del(1) assms(7) s(2)
    by (simp add: WnbdParseUserIOCTL_def service_irp_def CHECK_I_LOCATION_def ioctl_remove_def reply_def)
  from control_call_success [where K = "\<lparr>Driver = D, Commands = k\<rparr>", simplified, OF this, of False] assms(6)
  have "simple_call (driver_device M) False (IOCTL_WNBD_REMOVE nm) 376 \<lparr>Driver = D, Commands = k\<rparr> =
      Some (0, \<lparr>Driver = ?D, Commands = k + 1\<rparr>)" by (simp add: simple_call_def)
  moreover have "copy_name 372 n = Some nm" using assms(8) by (simp add: copy_name_def nm_def)
  moreover have "\<not> STRING_OVERFLOWS n 256"
    using assms(7,8) by (cases n) (auto simp: STRING_OVERFLOWS_def strlen_def cstr_def split: if_splits)
  ultimately have "WnbdIoctlRemove (driver_device M) n False \<lparr>Driver = D, Commands = k\<rparr> =
      Some (0, \<lparr>Driver = ?D, Commands = k + 1\<rparr>)" by (simp add: WnbdIoctlRemove_def)
  from that [OF this] del assms(4) show ?thesis by simp
qed

text \<open>A host for the driver with one disk.\<close>

definition sample_host :: "unit kernel host" where
  "sample_host = \<lparr>HDevice = driver_device sample_machine, HOpened = (\<lambda>_. 0), HWaited = (\<lambda>_. 0), HDisk = (\<lambda>_. Inl 2),
     HPnp = ClosePnp sample_close, HReset = [(ERROR_BUSY, 10), (0, 20)], HClose = sample_close, HStart = sample_start,
     HWait = None, HJoined = True, HSocket = sample_socket, HStartup = 0, HPid = 42, HTicks = 0, HAlloc = (\<lambda>_. True),
     HWide = map ucast, HNarrow = map (\<lambda>c. char_of (unat c)), HUninitialised = forbid, HClientVersion = ''1.0'',
     HLibVersion = zero_version, HInstall = (\<lambda>_ K. Some (0, K)), HUninstall = (\<lambda>K. Some (0, K))\<rparr>"

lemma sample_machine_errors [simp]: "EventError sample_machine n = 0" "dos_errors sample_machine"
  by (auto simp: sample_machine_def dos_errors_def)

lemma names_option_ascii [simp]: "names_option (map ucast)"
  by (simp add: names_option_def new_mappings_allowed_def wlit_def cstr_def)

lemma remove_all_one_disk:
  obtains m x K' where "DeviceList x = [1]" "adapter_ok x"
    "WnbdRemoveAllDisks (map ucast) (driver_device sample_machine) (\<lambda>_. True)
       \<lparr>Driver = sample_driver m x, Commands = 0\<rparr> = Some (0, K')"
    "opts_ok (DrvOptions (Driver K'))"
proof (rule one_disk)
  fix info m x
  assume h: "adapter_ok x" "queues_ok m (Devices x 1)" "DeviceList x = [1]"
    "RundownProtection (Devices x 1) = rundown_init" "InstanceName (Properties (Devices x 1)) = [100, 0]"
  let ?M = sample_machine and ?K = "\<lparr>Driver = sample_driver m x, Commands = 0\<rparr>"
  let ?K1 = "option_set 1 (bool_value False) ?K"
  have K: "DrvExt (Driver ?K) = x" "opts_ok (DrvOptions (Driver ?K))" by (simp_all add: sample_driver_def opts_ok_init)
  note f = mappings_set_ok [OF K(2), of False]
  have K1: "?K1 = \<lparr>Driver = Driver ?K1, Commands = 1\<rparr>" "DrvMem (Driver ?K1) = m" "DrvExt (Driver ?K1) = x"
    by (simp_all add: option_set_def sample_driver_def)
  have c1: "WnbdIoctlSetDrvOpt (map ucast) (driver_device ?M) new_mappings_allowed forbid False False ?K = Some (0, ?K1)"
    by (rule forbid_call [OF names_option_ascii K(2)]) simp
  let ?K3 = "\<lparr>Driver = Driver ?K1, Commands = 3\<rparr>"
  have l1: "WnbdIoctlList (driver_device ?M) [] 0 False ?K1 = Some (0, [], 4072, ?K1\<lparr>Commands := 2\<rparr>)"
    using list_call [of ?K1 ?M] h(1,3) K1(3) f by simp
  have l2: "WnbdIoctlList (driver_device ?M) [] 4072 False (?K1\<lparr>Commands := 2\<rparr>) = Some (0, entries x, 2040, ?K3)"
    using list_call [of "?K1\<lparr>Commands := 2\<rparr>" ?M] h(1,3) K1(1,3) by (simp add: Let_def)
  obtain D' where r: "WnbdIoctlRemove (driver_device ?M) [100, 0] False ?K3 = Some (0, \<lparr>Driver = D', Commands = 3 + 1\<rparr>)"
    "DrvOptions D' = DrvOptions (Driver ?K1)"
    by (rule remove_call [of "Driver ?K1" "[100, 0]" 1 ?M 3]) (use h K1 in \<open>simp_all add: strlen_def cstr_def\<close>)
  have "WnbdRemoveAllDisks (map ucast) (driver_device ?M) (\<lambda>_. True) ?K = Some (0, \<lparr>Driver = D', Commands = 4\<rparr>)"
    using c1 l1 l2 r(1) h(3,5) by (simp add: WnbdRemoveAllDisks_def connection_entry_def)
  with r(2) f h show ?thesis by (intro that [of x m "\<lparr>Driver = D', Commands = 4\<rparr>"]) simp_all
qed

theorem remove_all_disks_empties_adapter_witness:
  "\<exists>m x K'. DeviceList x = [1] \<and>
     WnbdRemoveAllDisks (map ucast) (driver_device sample_machine) (\<lambda>_. True)
       \<lparr>Driver = sample_driver m x, Commands = 0\<rparr> = Some (0, K') \<and>
     DeviceList (DrvExt (Driver K')) = []"
proof (rule remove_all_one_disk)
  fix m x K'
  assume h: "DeviceList x = [1]" "adapter_ok x" "WnbdRemoveAllDisks (map ucast) (driver_device sample_machine) (\<lambda>_. True)
       \<lparr>Driver = sample_driver m x, Commands = 0\<rparr> = Some (0, K')"
  from remove_all_disks_empties_adapter [OF h(3)] h show ?thesis
    by (auto simp: sample_driver_def opts_ok_init)
qed

section \<open>Resetting the adapter\<close>

text \<open>
  C28: a hard reset of the adapter that reports success has removed every disk, and new mappings are
  allowed afterwards, also where they were forbidden before.
\<close>

theorem hard_reset_allows_mappings:
  assumes "CmdResetAdapter H True timeout interval K = Some (0, K')" "HDevice H = driver_device M"
    and "dos_errors M" "names_option (HWide H)" "adapter_ok (DrvExt (Driver K))" "opts_ok (DrvOptions (Driver K))"
    and "\<forall>n. EventError M n = 0"
  shows "DeviceList (DrvExt (Driver K')) = [] \<and> opt_bool (DrvOptions (Driver K')) OptNewMappingsAllowed"
proof -
  obtain K1 where K1: "WnbdRemoveAllDisks (HWide H) (driver_device M) (HAlloc H) K = Some (0, K1)"
    "WnbdIoctlResetDrvOpt (HWide H) (driver_device M) new_mappings_allowed False False K1 = Some (0, K')"
    using assms(1,2) by (auto simp: CmdResetAdapter_def WnbdResetDrvOpt_lib_def split: if_splits option.splits)
  note rm = remove_all_zero [OF K1(1) assms(3-7)]
  then have "K' = option_set 1 (bool_value True) K1"
    using allow_call [OF assms(4), of K1 M] K1(2) assms(7) by simp
  with rm mappings_set_ok [of K1 True] show ?thesis by simp
qed

theorem hard_reset_allows_mappings_witness:
  "\<exists>m x K'. DeviceList x = [1] \<and>
     CmdResetAdapter sample_host True 10 1 \<lparr>Driver = sample_driver m x, Commands = 0\<rparr> = Some (0, K') \<and>
     DeviceList (DrvExt (Driver K')) = [] \<and> opt_bool (DrvOptions (Driver K')) OptNewMappingsAllowed"
proof (rule remove_all_one_disk)
  fix m x K'
  let ?K = "\<lparr>Driver = sample_driver m x, Commands = 0\<rparr>"
  assume h: "DeviceList x = [1]" "adapter_ok x" "WnbdRemoveAllDisks (map ucast) (driver_device sample_machine) (\<lambda>_. True)
       ?K = Some (0, K')" "opts_ok (DrvOptions (Driver K'))"
  have r: "CmdResetAdapter sample_host True 10 1 ?K = Some (0, option_set 1 (bool_value True) K')"
    using h(3) allow_call [OF names_option_ascii h(4), of sample_machine]
    by (simp add: CmdResetAdapter_def sample_host_def WnbdResetDrvOpt_lib_def word_less_nat_alt)
  from hard_reset_allows_mappings [OF r, of sample_machine] h(1,2) r show ?thesis
    by (auto simp: sample_host_def sample_driver_def opts_ok_init)
qed

section \<open>Listing the disks\<close>

lemma GetList_complete:
  assumes "HDevice H = driver_device M" "\<And>K. HOpened H K = 0" "\<And>n. HAlloc H n" "\<And>n. EventError M n = 0"
    and "adapter_ok (DrvExt (Driver K))"
  shows "GetList H K = Some (0, Some (entries (DrvExt (Driver K))), K\<lparr>Commands := Commands K + 2\<rparr>)"
proof -
  let ?n = "length (DeviceList (DrvExt (Driver K)))" and ?K = "K\<lparr>Commands := Commands K + 1\<rparr>"
  let ?need = "of_nat (?n * 2032 + 2040) :: u32"
  have len: "?n \<le> 128" by (rule device_count(1) [OF assms(5)])
  have sz: "unat ?need = ?n * 2032 + 2040" "unat (of_nat (?n * 2032 + 8) :: u32) = ?n * 2032 + 8"
    by (rule unat_of_nat_eq, use len in simp)+
  have l1: "WnbdList (HDevice H) (HOpened H) [] 0 K = Some (0, [], ?need, ?K)"
    using list_call [OF assms(5)] assms(1,2,4) by (simp add: WnbdList_def)
  have l2: "WnbdList (HDevice H) (HOpened H) [] ?need ?K =
      Some (0, entries (DrvExt (Driver K)), of_nat (?n * 2032 + 8), K\<lparr>Commands := Commands K + 2\<rparr>)"
    using list_call [of ?K] assms sz(1) by (simp add: WnbdList_def Let_def)
  have "0 < ?need" "\<not> ?need < of_nat (?n * 2032 + 8)" by (simp_all only: word_less_nat_alt sz) simp_all
  moreover from this have "get_list H ?need ?K = Some (0, Some (entries (DrvExt (Driver K))), K\<lparr>Commands := Commands K + 2\<rparr>)"
    using assms(3) l2 by (subst get_list.simps) auto
  ultimately show ?thesis
    using l1 by (simp add: GetList_def) (subst get_list.simps, simp)
qed

text \<open>
  C25: the list command prints one row for every disk of the adapter, in mapping order, and takes two
  commands to get them.
\<close>

theorem client_lists_every_disk:
  assumes "HDevice H = driver_device M" "\<And>K. HOpened H K = 0" "\<And>n. HAlloc H n" "\<And>n. EventError M n = 0"
    and "adapter_ok (DrvExt (Driver K))"
  shows "CmdList H K = Some (0, list_header @ concat (map list_row (entries (DrvExt (Driver K)))),
    K\<lparr>Commands := Commands K + 2\<rparr>)"
  using GetList_complete [OF assms] by (simp add: CmdList_def)

theorem client_lists_every_disk_witness:
  "\<exists>m x. DeviceList x = [1, 2] \<and>
     CmdList sample_host \<lparr>Driver = sample_driver m x, Commands = 0\<rparr> =
       Some (0, list_header @ list_row (connection_entry (Devices x 1)) @ list_row (connection_entry (Devices x 2)),
         \<lparr>Driver = sample_driver m x, Commands = 2\<rparr>)"
proof (rule two_disks)
  fix m x
  assume h: "adapter_ok x" "DeviceList x = [1, 2]"
  from client_lists_every_disk [of sample_host sample_machine "\<lparr>Driver = sample_driver m x, Commands = 0\<rparr>"] h show ?thesis
    by (intro exI [of _ m] exI [of _ x]) (simp add: sample_host_def sample_driver_def numeral_2_eq_2)
qed

section \<open>Names\<close>

lemma strlen_drop:
  assumes "strlen n \<noteq> 0" shows "strlen (drop 1 n) = strlen n - 1"
  using assms by (cases n) (auto simp: strlen_def cstr_def split: if_splits)

text \<open>
  A name of up to 257 characters is sent with a removal, cut to the field of 256 (which the driver
  then terminates), a longer one is refused; show and statistics take every name, and one of more
  than 288 characters is written over the end of the command.
\<close>

lemma names_through_the_library:
  assumes "strlen n \<noteq> 0"
  shows "WnbdIoctlRemove dev n ov D =
      (if strlen n > 257 then Some (ERROR_BUFFER_OVERFLOW, D)
       else simple_call dev ov (IOCTL_WNBD_REMOVE (take 256 (cstr n @ replicate 256 0))) 376 D) \<and>
    (strlen n > 288 \<longrightarrow> WnbdIoctlShow dev n info ov D = None \<and> WnbdIoctlStats dev n st ov D = None)"
  using strlen_drop [OF assms]
  by (cases "strlen n > 257") (auto simp: WnbdIoctlRemove_def WnbdIoctlShow_def WnbdIoctlStats_def STRING_OVERFLOWS_def copy_name_def)

text \<open>Text copied into a field that is longer than it.\<close>

definition plain :: "nat \<Rightarrow> string \<Rightarrow> bool" where
  "plain n s \<longleftrightarrow> length s < n \<and> CHR 0x00 \<notin> set s"

lemma unat_of_char [simp]: "unat (of_char c :: u8) = of_char c"
proof -
  have "(of_char c :: nat) < 256" by (rule nat_of_char_less_256)
  then have "unat (of_nat (of_char c) :: u8) = of_char c" by (intro unat_of_nat_eq) simp
  then show ?thesis by (simp only: of_nat_of_char)
qed

lemma of_char_zero [simp]: "(of_char c :: u8) = 0 \<longleftrightarrow> c = CHR 0x00"
proof
  assume "(of_char c :: u8) = 0"
  then have "char_of (unat (of_char c :: u8)) = (char_of (0 :: nat) :: char)" by simp
  then have "c = char_of (0 :: nat)" by simp
  also have "\<dots> = CHR 0x00" by (simp add: char_of_def)
  finally show "c = CHR 0x00" .
qed simp

lemma cstr_chars: "CHR 0x00 \<notin> set s \<Longrightarrow> cstr (map of_char s @ 0 # t) = map of_char s"
  by (induction s) (auto simp: cstr_def)

lemma copied_plain:
  assumes "plain n s" shows "copied n s = map of_char s @ 0 # replicate (n - length s - 1) 0"
proof -
  obtain k where "n - length s = Suc k" using assms by (cases "n - length s") (auto simp: plain_def)
  with assms show ?thesis by (simp add: copied_def plain_def)
qed

lemma plain_field:
  assumes "plain n s"
  shows "cstr (copied n s @ t) = map of_char s" "text_of (terminate_at n (copied n s)) = s"
    "cstr (terminate_at n (copied n s)) = map of_char s"
proof -
  have c: "cstr (copied n s @ t) = map of_char s" for t
    using assms cstr_chars [of s] by (simp add: copied_plain plain_def)
  then show "cstr (copied n s @ t) = map of_char s" by simp
  have "terminate_at n (copied n s) = copied n s"
    using assms by (intro nth_equalityI)
      (auto simp: terminate_at_def copied_plain plain_def nth_list_update nth_append nth_Cons split: nat.split)
  with c [of "[]"] show t: "cstr (terminate_at n (copied n s)) = map of_char s" by simp
  then show "text_of (terminate_at n (copied n s)) = s" by (simp add: text_of_def comp_def)
qed

lemma plain_fits:
  assumes "plain n s" "1 < n" shows "\<not> STRING_OVERFLOWS (copied n s @ t) n"
proof (cases s)
  case Nil
  then have "copied n s @ t = 0 # 0 # replicate (n - 2) 0 @ t"
    using assms by (simp add: copied_def) (metis Suc_diff_Suc diff_zero numeral_2_eq_2 replicate_Suc append_Cons Suc_lessD)
  then show ?thesis by (simp add: STRING_OVERFLOWS_def strlen_def cstr_def)
next
  case (Cons c s')
  have l: "strlen (copied n s @ t) = length s" using plain_field(1) [OF assms(1), of t] by (simp add: strlen_def)
  then have "strlen (drop 1 (copied n s @ t)) = length s - 1" using strlen_drop [of "copied n s @ t"] Cons by simp
  then show ?thesis using assms(1) by (auto simp: STRING_OVERFLOWS_def plain_def)
qed

text \<open>The names of a configuration of the client, after the start and after the driver's handler.\<close>

lemma names_kept:
  assumes "plain 256 Inst" "plain 256 Host" "plain 256 Export" "Inst \<noteq> ''''"
    and "P = (start_props (map_properties Inst Host Port Export DiskSize BSize Skip RO pid))\<lparr>BlockCount := c, Flags := F\<rparr>"
  shows "\<not> properties_overflow P \<and> text_of (InstanceName (create_properties r P)) = Inst \<and>
    text_of (SerialNumber (create_properties r P)) = Inst \<and> text_of (Owner (create_properties r P)) = ''wnbd-client'' \<and>
    text_of (Hostname (NbdProperties (create_properties r P))) = Host \<and>
    text_of (ExportName (NbdProperties (create_properties r P))) = Export \<and>
    PortNumber (NbdProperties (create_properties r P)) = Port"
proof -
  have owner: "plain 16 ''wnbd-client''" by (simp add: plain_def)
  have fits: "\<not> STRING_OVERFLOWS (copied 256 Inst @ t) 256" "\<not> STRING_OVERFLOWS (copied 256 Host @ t) 256"
    "\<not> STRING_OVERFLOWS (copied 256 Export @ t) 256" "\<not> STRING_OVERFLOWS (copied 16 ''wnbd-client'' @ t) 16" for t
    by (rule plain_fits; use assms(1-3) owner in simp)+
  note f = plain_field [OF assms(1)] plain_field [OF assms(2)] plain_field [OF assms(3)] plain_field [OF owner]
  show ?thesis
    unfolding assms(5) using fits f assms(4)
    by (simp add: start_props_def map_properties_def create_properties_def properties_overflow_def strlen_def Let_def)
qed

text \<open>A creation either succeeds or gives an error status.\<close>

lemma create_status:
  "WnbdCreateConnection env opts Props info s = (St, info', s') \<Longrightarrow> St = STATUS_SUCCESS \<or> bit St 31"
  by (auto simp: WnbdCreateConnection_def create_device_def create_addressed_def NT_SUCCESS_def Let_def
      split: prod.splits option.splits if_splits)

lemma small_status: "St < 0x80000000 \<Longrightarrow> \<not> bit (St :: u32) 31"
proof
  assume "St < 0x80000000" "bit St 31"
  then have "unat St < 2 ^ 31" "bit (unat St) 31" by (simp_all add: word_less_nat_alt bit_unsigned_iff)
  then show False by (simp add: bit_iff_odd)
qed

lemma library_create_zero:
  assumes "WnbdIoctlCreate (driver_device M) P zero_info False K = Some (0, info, K')" "dos_errors M"
    and "adapter_ok (DrvExt (Driver K))" "ioctl_env_ok (Answers M (Commands K) (Driver K)) (Driver K)"
  obtains p where "p \<notin> devs (DrvExt (Driver K))" "DeviceList (DrvExt (Driver K')) = DeviceList (DrvExt (Driver K)) @ [p]"
    "Properties (Devices (DrvExt (Driver K')) p) = create_properties (Process M) P"
proof -
  obtain n out where call: "WnbdDeviceIoControl (driver_device M) False (IOCTL_WNBD_CREATE P) 1408 2032 K = Some (0, n, out, K')"
    using assms(1) by (auto simp: WnbdIoctlCreate_def split: if_splits)
  let ?env = "Answers M (Commands K) (Driver K)" and ?irp = "service_irp M (IOCTL_WNBD_CREATE P) 1408 2032"
  obtain r where r: "WnbdParseUserIOCTL ?env ?irp (Driver K) = Returned r" "RStatus r < 0x80000000"
    "K' = \<lparr>Driver = RDriver r, Commands = Commands K + 1\<rparr>"
    by (rule control_call_zero [OF call assms(2)])
  then have c: "ioctl_create ?env ?irp P (Driver K) = Returned r"
    by (simp add: WnbdParseUserIOCTL_def service_irp_def CHECK_I_LOCATION_def)
  have "RStatus r = STATUS_SUCCESS"
    using c small_status [OF r(2)]
    by (auto simp: ioctl_create_def reply_def reply_with_def Let_def dest: create_status split: prod.splits if_splits)
  from ioctl_create_success [OF assms(3,4) c this] obtain p where
    p: "created (create_properties (Process M) P) p (referenced (DrvExt (Driver K))) (DrvExt (RDriver r))"
    "p \<notin> devs (DrvExt (Driver K))" by (auto simp: service_irp_def)
  then show ?thesis using r(3) by (intro that [of p]) (auto simp: created_def Let_def)
qed

text \<open>A successful map command is a successful start, a wait and the destructor of the daemon.\<close>

lemma run_daemon_zero:
  assumes "run_daemon H P K = Some (0, K')"
  obtains u v where
    "TryStart (host_calls H) (HClose H) (HStart H) (new_daemon (HSocket H) P K) = Some (0, u)"
    "Start (host_calls H) (HClose H) (HStart H) (new_daemon (HSocket H) P K) = Some (0, u)"
    "destroy_daemon (host_calls H) (HClose H) (HWait H) (HJoined H) u = Some v" "K' = UDriver v"
  using assms that
  by (auto simp: run_daemon_def WnbdRunNbdDaemon_def Start_def split: option.splits if_splits)

text \<open>
  C26: the names given to the map command, of up to 255 characters, reach the driver. The command
  refuses an empty instance name or host name and leaves the driver as it was. When it returns 0 its
  start has succeeded and has added one disk at the end of the driver's list, whose stored instance
  name, serial number, host name and port read as they were given, whose export name is the instance
  name when none was given, and whose owner is the client; what the command leaves is that state
  after the destructor of the daemon.
\<close>

theorem map_names_arrive:
  assumes "plain 256 Inst" "plain 256 Host" "plain 256 Export" "HDevice H = driver_device M" "dos_errors M"
    and "adapter_ok (DrvExt (Driver K))" "ioctl_env_ok (Answers M (Commands K) (Driver K)) (Driver K)"
  defines "E \<equiv> if Export = '''' then Inst else Export"
  shows "(Inst = '''' \<or> Host = '''' \<longrightarrow>
      CmdMap H Inst Host Port Export DiskSize BSize Skip RO K = Some (ERROR_INVALID_PARAMETER, K)) \<and>
    (\<forall>K'. CmdMap H Inst Host Port Export DiskSize BSize Skip RO K = Some (0, K') \<longrightarrow>
      (\<exists>u v p. Start (host_calls H) (HClose H) (HStart H)
           (new_daemon (HSocket H) (map_properties Inst Host Port E DiskSize BSize Skip RO (HPid H)) K) = Some (0, u) \<and>
         destroy_daemon (host_calls H) (HClose H) (HWait H) (HJoined H) u = Some v \<and> K' = UDriver v \<and>
         p \<notin> devs (DrvExt (Driver K)) \<and>
         DeviceList (DrvExt (Driver (UDriver u))) = DeviceList (DrvExt (Driver K)) @ [p] \<and>
         (let Q = Properties (Devices (DrvExt (Driver (UDriver u))) p)
          in text_of (InstanceName Q) = Inst \<and> text_of (SerialNumber Q) = Inst \<and> text_of (Owner Q) = ''wnbd-client'' \<and>
             text_of (Hostname (NbdProperties Q)) = Host \<and> PortNumber (NbdProperties Q) = Port \<and>
             text_of (ExportName (NbdProperties Q)) = E)))"
proof (intro conjI allI impI, goal_cases)
  case 1
  then show ?case by (auto simp: CmdMap_def Let_def)
next
  case (2 K')
  let ?P = "map_properties Inst Host Port E DiskSize BSize Skip RO (HPid H)"
  have run: "run_daemon H ?P K = Some (0, K')" "Inst \<noteq> ''''"
    using 2 unfolding E_def by (auto simp: CmdMap_def Let_def split: if_splits)
  have E: "plain 256 E" using assms(1,3) by (simp add: E_def)
  obtain u v where d:
    "TryStart (host_calls H) (HClose H) (HStart H) (new_daemon (HSocket H) ?P K) = Some (0, u)"
    "Start (host_calls H) (HClose H) (HStart H) (new_daemon (HSocket H) ?P K) = Some (0, u)"
    "destroy_daemon (host_calls H) (HClose H) (HWait H) (HJoined H) u = Some v" "K' = UDriver v"
    by (rule run_daemon_zero [OF run(1)])
  from TryStart_creates [OF d(1)] obtain c F info where
    "WnbdIoctlCreate (driver_device M) ((start_props ?P)\<lparr>BlockCount := c, Flags := F\<rparr>) zero_info False K = Some (0, info, UDriver u)"
    by (auto simp: new_daemon_def assms(4))
  from library_create_zero [OF this assms(5-7)] obtain p where
    p: "p \<notin> devs (DrvExt (Driver K))" "DeviceList (DrvExt (Driver (UDriver u))) = DeviceList (DrvExt (Driver K)) @ [p]"
    "Properties (Devices (DrvExt (Driver (UDriver u))) p) =
       create_properties (Process M) ((start_props ?P)\<lparr>BlockCount := c, Flags := F\<rparr>)" by blast
  show ?case
    using d(2-4) p names_kept [OF assms(1,2) E run(2) refl, where r = "Process M" and Port = Port and DiskSize = DiskSize and BSize = BSize
        and Skip = Skip and RO = RO and pid = "HPid H" and c = c and F = F]
    by (intro exI [of _ u] exI [of _ v] exI [of _ p]) (simp add: Let_def)
qed

text \<open>
  A disk of 1000 blocks mapped without a negotiation; the adapter can be opened once, so that the
  removal by the destructor fails and the disk stays.
\<close>

definition map_host :: "unit kernel host" where
  "map_host = sample_host\<lparr>HOpened := (\<lambda>K. if Commands K = 1 then 0 else 5),
     HStart := sample_start\<lparr>StResolved := Inr [Connected sample_socket]\<rparr>, HWait := Some 0\<rparr>"

definition map_kernel :: "unit kernel" where
  "map_kernel = \<lparr>Driver = sample_driver sample_mem empty_adapter, Commands = 1\<rparr>"

abbreviation (input) sample_map_properties :: WNBD_PROPERTIES where
  "sample_map_properties \<equiv> map_properties ''disk'' ''server'' 10809 ''disk'' 512000 512 True False 42"

abbreviation (input) sample_map_sent :: WNBD_PROPERTIES where
  "sample_map_sent \<equiv> (start_props sample_map_properties)\<lparr>BlockCount := 1000,
     Flags := nbd_flags 0 (Flags (start_props sample_map_properties))\<rparr>"

lemma sample_map_fields:
  "BlockCount sample_map_sent = 1000" "BlockSize sample_map_sent = 512" "\<not> UseKernelNbd (Flags sample_map_sent)"
  "start_props sample_map_properties = (start_props sample_map_properties)\<lparr>BlockCount := 1000\<rparr>"
  by (simp_all add: start_props_def map_properties_def nbd_flags_def zero_flags_def)

lemma sample_map_creates:
  obtains info K' where
    "WnbdIoctlCreate (driver_device sample_machine) sample_map_sent zero_info False map_kernel = Some (0, info, K')"
    "Commands K' = 2"
proof -
  let ?P = "create_properties 42 sample_map_sent" and ?D = "sample_driver sample_mem empty_adapter"
  let ?env = "Answers sample_machine 1 ?D" and ?irp = "service_irp sample_machine (IOCTL_WNBD_CREATE sample_map_sent) 1408 2032"
  have pl: "plain 256 ''disk''" "plain 256 ''server''" "plain 16 ''wnbd-client''" by (simp_all add: plain_def)
  note n = names_kept [OF pl(1,2,1) _ refl, where r = 42 and Port = 10809 and DiskSize = 512000 and BSize = 512
        and Skip = True and RO = False and pid = 42 and c = 1000
        and F = "nbd_flags 0 (Flags (start_props sample_map_properties))"]
  have nm: "strlen (InstanceName ?P) \<noteq> 0"
    using plain_field(3) [OF pl(1)] by (simp add: create_properties_def start_props_def map_properties_def Let_def strlen_def)
  have f: "BlockCount ?P = 1000" "BlockSize ?P = 512" "\<not> UseKernelNbd (Flags ?P)"
    using sample_map_fields by (simp_all add: create_properties_def Let_def)
  have rej: "\<not> create_rejected ?P" using f nm by (simp add: create_rejected_def word_less_nat_alt unat_div)
  have geo: "geometry_ok ?P" using f by (simp add: geometry_ok_def word_less_nat_alt unat_div)
  have env: "IeCreate ?env = Lifecycle.sample_env 1"
    by (simp add: sample_machine_def sample_driver_def extension_init_def WnbdInitScsiIds_def)
  obtain St info m x where run: "WnbdCreateConnection (IeCreate ?env) WnbdDriverOptions ?P zero_info
      (sample_mem, empty_adapter) = (St, info, m, x)"
    by (cases "WnbdCreateConnection (IeCreate ?env) WnbdDriverOptions ?P zero_info (sample_mem, empty_adapter)")
  have St: "St = STATUS_SUCCESS"
    by (rule create_succeeds [OF adapter_ok_init sample_env_ok _ _ new_mappings_allowed _ _ _ _ _ geo run [unfolded env]])
       (simp_all add: Lifecycle.sample_env_def)
  have "WnbdParseUserIOCTL ?env ?irp ?D = Returned \<lparr>RStatus = STATUS_SUCCESS, RInformation = Some 2032,
      ROutput = OutInfo info, RDriver = ?D\<lparr>DrvMem := m, DrvExt := x\<rparr>\<rparr>"
    using run St rej
    by (simp add: WnbdParseUserIOCTL_def ioctl_create_def service_irp_def CHECK_I_LOCATION_def CHECK_O_LOCATION_def
        reply_with_def sample_driver_def sample_machine_def Let_def)
  from control_call_success [of sample_machine "\<lparr>Driver = ?D, Commands = 1\<rparr>", unfolded kernel.simps, OF this, of False] n show ?thesis
    by (intro that [of info "\<lparr>Driver = ?D\<lparr>DrvMem := m, DrvExt := x\<rparr>, Commands = 2\<rparr>"])
       (simp_all add: WnbdIoctlCreate_def map_kernel_def)
qed

lemma sample_map_runs:
  obtains K' where "CmdMap map_host ''disk'' ''server'' 10809 '''' 512000 512 True False map_kernel = Some (0, K')"
proof (rule sample_map_creates)
  fix info K'
  assume c: "WnbdIoctlCreate (driver_device sample_machine) sample_map_sent zero_info False map_kernel = Some (0, info, K')"
    and K': "Commands K' = 2"
  let ?P = "start_props sample_map_properties"
  have c': "WnbdIoctlCreate (driver_device sample_machine) (?P\<lparr>Flags := nbd_flags 0 (Flags ?P)\<rparr>) zero_info False map_kernel =
      Some (0, info, K')"
    using c unfolding sample_map_fields(4) [symmetric] by simp
  have P: "BlockSize ?P = 512" "BlockCount ?P = 1000" "SkipNegotiation (NbdProperties ?P)"
    by (simp_all add: start_props_def map_properties_def)
  have o: "HOpened map_host map_kernel = 0" "HOpened map_host K' = 5"
    using K' by (simp_all add: map_host_def map_kernel_def)
  have st: "StAlloc (HStart map_host)" "StResolved (HStart map_host) = Inr [Connected sample_socket]"
    "SetTcpFlags (StTcp (HStart map_host)) = 0" "StDisk (HStart map_host)" "StThreadsEnv (HStart map_host) = None"
    "StThreadArray (HStart map_host)" "StThreads (HStart map_host) 0 = 0" "HDevice map_host = driver_device sample_machine"
    by (simp_all add: map_host_def sample_host_def sample_start_def SetTcpFlags_def)
  let ?u = "new_daemon sample_socket sample_map_properties map_kernel"
  let ?started = "\<lambda>u. UDriver u = K' \<and> WnbdDisk (UContext u) \<and> DkHandle (UDisk u) \<and> Started (UDisk u) \<and>
    \<not> Terminated (UContext u) \<and> ReplyDispatcher (UContext u)"
  have sd: "\<exists>u. start_disk (host_calls map_host) sample_close (HStart map_host) 0 w = Some (0, u) \<and> ?started u"
    if "WnbdProps (UContext w) = ?P" "UDriver w = map_kernel" "\<not> Terminated (UContext w)" for w
    using that c' P(1,2) o(1) st
    by (simp add: start_disk_def invalid_geometry_def WnbdCreate_def WnbdStartDispatcher_def dispatcher_threads_def new_disk_def Let_def)
  have sn: "start_negotiate w = Some (Inr 0, w)" if "WnbdProps (UContext w) = ?P" for w
    using that P(3) by (simp add: start_negotiate_def)
  have "\<exists>u. TryStart (host_calls map_host) sample_close (HStart map_host) ?u = Some (0, u) \<and> ?started u"
    using P st sd by (simp add: TryStart_def new_daemon_def ConnectNbdServer_def sn)
  then obtain u where u: "TryStart (host_calls map_host) sample_close (HStart map_host) ?u = Some (0, u)" "?started u" by blast
  have sh: "\<exists>e v. Shutdown (host_calls map_host) sample_close False u = Some (e, v) \<and> ?started v"
    using u(2) o(2) by (simp add: Shutdown_def Let_def WnbdRemove_def WnbdRemoveEx_def)
  have wt: "Wait (HWait map_host) w = Some 0" if "?started w" for w
    using that by (simp add: Wait_def WnbdWaitDispatcher_def map_host_def)
  show ?thesis
    using u sh wt
    by (intro that [of K'])
       (auto simp: CmdMap_def run_daemon_def WnbdRunNbdDaemon_def Start_def destroy_daemon_def map_host_def sample_host_def Let_def)
qed

theorem map_names_arrive_witness:
  "\<exists>K' u p. CmdMap map_host ''disk'' ''server'' 10809 '''' 512000 512 True False map_kernel = Some (0, K') \<and>
     Start (host_calls map_host) sample_close (HStart map_host) (new_daemon sample_socket sample_map_properties map_kernel) =
       Some (0, u) \<and>
     DeviceList (DrvExt (Driver (UDriver u))) = [p] \<and>
     (let Q = Properties (Devices (DrvExt (Driver (UDriver u))) p)
      in text_of (InstanceName Q) = ''disk'' \<and> text_of (Hostname (NbdProperties Q)) = ''server'' \<and>
         text_of (ExportName (NbdProperties Q)) = ''disk'')"
proof (rule sample_map_runs)
  fix K'
  assume run: "CmdMap map_host ''disk'' ''server'' 10809 '''' 512000 512 True False map_kernel = Some (0, K')"
  have h: "HDevice map_host = driver_device sample_machine" "HClose map_host = sample_close" "HSocket map_host = sample_socket"
    "HPid map_host = 42" by (simp_all add: map_host_def sample_host_def)
  have a: "adapter_ok (DrvExt (Driver map_kernel))" "DeviceList (DrvExt (Driver map_kernel)) = []"
    using adapter_ok_init by (simp_all add: map_kernel_def sample_driver_def)
  have e: "ioctl_env_ok (Answers sample_machine (Commands map_kernel) (Driver map_kernel)) (Driver map_kernel)"
    by (simp add: ioctl_env_ok_def sample_machine_def map_kernel_def sample_driver_def sample_env_ok extension_init_def WnbdInitScsiIds_def)
  have pl: "plain 256 ''disk''" "plain 256 ''server''" "plain 256 ''''" by (simp_all add: plain_def)
  from map_names_arrive [OF pl h(1) sample_machine_errors(2) a(1) e, of 10809 512000 512 True False] run
  show ?thesis unfolding h a(2) by (simp add: Let_def) blast
qed

section \<open>Options\<close>

lemma AsWstr_le_bytes: "AsWstr (concat (map (le_bytes 2) w) @ bs) = w @ AsWstr bs"
proof (induction w)
  case (Cons c w)
  have "le_bytes 2 c = [le_bytes 2 c ! 0, le_bytes 2 c ! 1]"
    by (intro nth_equalityI) (auto simp: less_2_cases_iff)
  moreover have "le_word (le_bytes 2 c) = c" by (rule le_roundtrip) simp
  ultimately show ?case using Cons by (metis AsWstr.simps(1) append_Cons append_Nil append_assoc concat.simps(2) list.simps(9))
qed simp

lemma replicate_update [simp]: "(replicate n x)[k := x] = replicate n x"
proof (rule nth_equalityI)
  fix i assume "i < length ((replicate n x)[k := x])"
  then show "(replicate n x)[k := x] ! i = replicate n x ! i" by (cases "i = k") simp_all
qed simp

text \<open>A short value arrives with a terminator.\<close>

lemma wide_value_short:
  assumes "length w \<le> 255"
  shows "AsWstr ((Data (wide_value w))[510 := 0, 511 := 0]) = w @ AsWstr (replicate (512 - 2 * length w) 0)"
proof -
  let ?bs = "concat (map (le_bytes 2) w)" and ?r = "replicate (512 - 2 * length w) (0 :: u8)"
  have l: "length ?bs = 2 * length w" by (induction w) simp_all
  have "take 256 w = w" using assms by simp
  then have d: "Data (wide_value w) = ?bs @ ?r" by (simp add: wide_value_def Let_def l)
  have "(?bs @ ?r)[k := 0] = ?bs @ ?r" if "k \<ge> 510" for k
    using that assms l by (simp add: list_update_append)
  then show ?thesis by (simp add: d AsWstr_le_bytes)
qed

text \<open>
  Setting a switch of the driver to true or false and getting it again prints the value that was set.
\<close>

lemma set_then_get_prints:
  assumes "HDevice H = driver_device M" "\<And>K. HOpened H K = 0" "\<And>n. EventError M n = 0" "opts_ok (DrvOptions (Driver K))"
    and "WnbdFindOpt (DrvOptions (Driver K)) (sent_name (HWide H) (c_str Name)) = Some i"
    and "OptType (DrvOptions (Driver K) ! i) = WnbdOptBool"
    and "v = (if b then ''true'' else ''false'')" "HWide H (map of_char v) = wlit v"
  shows "\<exists>K1 K2. CmdSetOpt H Name v False K = Some (0, K1) \<and> OptValue (DrvOptions (Driver K1) ! i) = bool_value b \<and>
    CmdGetOpt H Name False K1 = Some (0, wlit ''Name: '' @ HWide H (map of_char Name) @ [0x0A] @
      wlit ''Value: '' @ wlit v @ [0x0A], K2)"
proof -
  let ?opts = "DrvOptions (Driver K)" and ?K1 = "option_set i (bool_value b) K"
  note i = WnbdFindOpt_Some [OF assms(5)]
  have "length (wlit v) \<le> 255" by (simp add: assms(7) wlit_def)
  note w = wide_value_short [OF this]
  have z: "AsWstr (replicate (2 * n) 0) = replicate n 0" for n
    by (induction n) (simp_all add: le_word_def be_word_def)
  have "WstrToBool (AsWstr ((Data (wide_value (wlit v)))[510 := 0, 511 := 0])) = (STATUS_SUCCESS, b)"
    unfolding w using z [of 252] z [of 251]
    by (cases b) (simp_all add: assms(7) wlit_def WstrToBool_def wcsieq_def wcs_def towlower_def)
  then have "WnbdProcessOptionValue c (?opts ! i) (wide_value (wlit v)) = (0, bool_value b)" for c
    by (simp add: WnbdProcessOptionValue_def assms(6) wide_value_def [of "wlit v", THEN arg_cong [of _ _ ValType]] Let_def)
  from set_call [OF assms(5) _ this] assms(3)
  have s: "CmdSetOpt H Name v False K = Some (0, ?K1)"
    by (simp add: CmdSetOpt_def WnbdSetDrvOpt_lib_def assms(1,2,8))
  have ok: "opts_ok (DrvOptions (Driver ?K1))"
    unfolding option_set_def using assms(6) i by (simp add: opts_ok_update [OF assms(4)] opts_ok_length [OF assms(4)])
  have f: "WnbdFindOpt (DrvOptions (Driver ?K1)) (sent_name (HWide H) (c_str Name)) = Some i"
    using assms(5) WnbdFindOpt_ok [OF ok] WnbdFindOpt_ok [OF assms(4)] by simp
  have v: "OptValue (DrvOptions (Driver ?K1) ! i) = bool_value b" using i by (simp add: option_set_def)
  from get_call [OF f assms(3)] v
  have "CmdGetOpt H Name False ?K1 = Some (0, wlit ''Name: '' @ HWide H (map of_char Name) @ [0x0A] @
      wlit ''Value: '' @ wlit v @ [0x0A], ?K1\<lparr>Commands := Commands ?K1 + 1\<rparr>)"
    by (simp add: CmdGetOpt_def WnbdGetDrvOpt_lib_def assms(1,2,7))
  with s v show ?thesis by auto
qed

end
