(* ===== verification/SetupDriver.thy ===== *)
theory SetupDriver
  imports Setup ClientDriver
begin

text \<open>
  The installation commands of the client over the functions of the library, and a system whose only
  adapter is the model of the driver.
\<close>

section \<open>The client's commands\<close>

text \<open>
  The commands start with no reboot required; the message about one goes to the error output. Opening
  the adapter is opening the first interface.
\<close>

definition new_system :: "'d \<Rightarrow> 'd setup_state" where
  "new_system D = \<lparr>SyState = D, Uninstalled = [], DeletedInfs = []\<rparr>"

definition host_setup :: "'d os \<Rightarrow> 'd host \<Rightarrow> 'd host" where
  "host_setup os H = H\<lparr>
     HOpened := (\<lambda>D. fst (WnbdOpenAdapter os D)),
     HInstall := (\<lambda>file D. map_option (\<lambda>(Status, r, s). (Status, SyState s))
       (WnbdInstallDriver (HWide H) (HAlloc H) os file False (new_system D))),
     HUninstall := (\<lambda>D. map_option (\<lambda>(Status, r, s). (Status, SyState s))
       (WnbdUninstallDriver (HWide H) (HAlloc H) os False (new_system D)))\<rparr>"

lemma client_uninstall_touches:
  assumes "rejects_empty os" "CmdUninstall (host_setup os H) D = Some (Status, D')"
  shows "\<exists>s'. SyState s' = D' \<and> touches_own os (new_system D) s'"
  using assms(2) uninstall_touches [OF assms(1)]
  by (fastforce simp: CmdUninstall_def host_setup_def)

text \<open>Over the model of the driver, the removal of the disks of an adapter leaves none at the state it ends in.\<close>

lemma disks_removed_empties:
  assumes "setup_call conv granted os (DisksRemoved (driver_device M) 0) K K'" "dos_errors M" "names_option conv"
    and "adapter_ok (DrvExt (Driver K))" "opts_ok (DrvOptions (Driver K))" "\<forall>n. EventError M n = 0"
  shows "DeviceList (DrvExt (Driver K')) = []"
  using remove_all_zero [OF _ assms(2-6)] assms(1) by simp

section \<open>A system with one adapter\<close>

abbreviation adapter_device :: device_info where
  "adapter_device \<equiv> \<lparr>ClassGuid = GUID_DEVCLASS_SCSIADAPTER, DevInst = 7\<rparr>"

abbreviation other_device :: device_info where
  "other_device \<equiv> \<lparr>ClassGuid = GUID_DEVCLASS_SCSIADAPTER, DevInst = 8\<rparr>"

definition sample_interface :: "unit kernel adapter_interface" where
  "sample_interface = \<lparr>IfSize = ERROR_INSUFFICIENT_BUFFER, IfAlloc = True, IfDetail = 0, IfGuid = WNBD_GUID,
     IfDevice = adapter_device, IfOpen = Inr (driver_device sample_machine)\<rparr>"

definition sample_os :: "unit kernel os" where
  "sample_os =
     \<lparr>OsInterfaces = (\<lambda>_. Inr [Inr sample_interface]),
      OsDevices = (\<lambda>_. Inr [Inr other_device]),
      OsHardwareId = (\<lambda>dev _. \<lparr>HqFirst = (if dev = zero_device_info then ERROR_INVALID_HANDLE else ERROR_INSUFFICIENT_BUFFER),
        HqAlloc = True, HqSecond = 0, HqData = wlit ''other'' @ [0, 0]\<rparr>),
      OsUninstallDevice = (\<lambda>dev D. (0, False, D)),
      OsWindowsDirectory = Inr (wlit ''C:''),
      OsFindFiles = (\<lambda>_ _. [wlit ''oem1.inf'', wlit ''oem2.inf'']),
      OsInf = (\<lambda>n _. \<lparr>InfOpen = 0, InfCatalog = 0,
        InfField = Inr (if n = wlit ''oem1.inf'' then wlit ''wnbd.cat'' else wlit ''net.cat'')\<rparr>),
      OsUninstallInf = (\<lambda>_ D. (0, D)),
      OsVersion = \<lparr>VqLibrary = True, VqGetVersion = Some (0, \<lparr>dwMajorVersion = 10, dwMinorVersion = 0, dwBuildNumber = 19045\<rparr>)\<rparr>,
      OsFullPath = Inr, OsFileExists = (\<lambda>_. True), OsInfClass = (\<lambda>_. 0), OsCreateList = (\<lambda>_. 0),
      OsCreateInfo = (\<lambda>D. (0, D)), OsSetHardwareId = (\<lambda>_ D. (0, D)), OsRegisterDevice = (\<lambda>D. (0, D)),
      OsInstallFlags = (\<lambda>_. Inr 0), OsUpdateDriver = (\<lambda>_ r D. (0, r, D))\<rparr>"

lemma sample_rejects: "rejects_empty sample_os" "rejects_empty (sample_os\<lparr>OsInterfaces := f\<rparr>)"
  by (simp_all add: rejects_empty_def sample_os_def GetDeviceHardwareIds_def)

lemma sample_other: "multi_sz (wlit ''other'' @ [0, 0]) = [wlit ''other'']"
  using multi_sz_concat [of "[wlit ''other'']"] by (simp add: wlit_def)

lemma sample_stale:
  "RemoveStaleWnbdAdapters (sample_os\<lparr>OsInterfaces := f\<rparr>) r b s = (0, r, True, s)"
  "RemoveStaleWnbdAdapters sample_os r b s = (0, r, True, s)"
  by (simp_all add: RemoveStaleWnbdAdapters_def InitializeWnbdAdapterList_def sample_os_def GetDeviceHardwareIds_def
      zero_device_info_def sample_other [unfolded wlit_def, simplified] WNBD_HARDWAREID_def wlit_def)


theorem install_driver_outcome_witness:
  "\<forall>K. \<exists>s'. WnbdInstallDriver (map ucast) (\<lambda>_. True) (sample_os\<lparr>OsInterfaces := \<lambda>_. Inr []\<rparr>) ''wnbd.inf'' False (new_system K) =
       Some (0, False, s') \<and> touches_own (sample_os\<lparr>OsInterfaces := \<lambda>_. Inr []\<rparr>) (new_system K) s'"
proof
  fix K
  let ?os = "sample_os\<lparr>OsInterfaces := \<lambda>_. Inr []\<rparr>"
  have i: "WnbdInstallDriver (map ucast) (\<lambda>_. True) ?os ''wnbd.inf'' False (new_system K) = Some (0, False, new_system K)"
    unfolding WnbdInstallDriver_def sample_stale
    by (simp add: sample_os_def EnsureWindowsVersionSupported_def CheckWindowsVersion_def GetWinVersion_def
        WnbdAdapterExists_def InitializeWnbdAdapterList_def WnbdOpenAdapterEx_def enum_at_def install_attempt_def
        InstallDriver_def CreateWnbdAdapter_def)
  have "OsFullPath ?os ''wnbd.inf'' \<noteq> Inl 0" by (simp add: sample_os_def)
  from install_driver_outcome [OF sample_rejects(2) this i] i
  show "\<exists>s'. WnbdInstallDriver (map ucast) (\<lambda>_. True) ?os ''wnbd.inf'' False (new_system K) = Some (0, False, s') \<and>
      touches_own ?os (new_system K) s'" by auto
qed

end
