(* ===== verification/Footprint.thy ===== *)
theory Footprint
  imports HwProps IoctlProps
begin

text \<open>
  What an operation on one device touches of the memory all devices share. Queue elements are
  the only structures the devices of an adapter could confuse: an operation changes and frees
  only elements its own device had in a list or in hand, and takes over only elements nobody
  had allocated. \<open>foot b F m F' m'\<close> says so for the sets \<open>F\<close> and \<open>F'\<close> before and after; with
  \<open>b\<close> also that no descriptor list was allocated or locked.
\<close>

definition foot :: "bool \<Rightarrow> ptr set \<Rightarrow> kmem \<Rightarrow> ptr set \<Rightarrow> kmem \<Rightarrow> bool" where
  "foot b F m F' m' \<longleftrightarrow>
     (\<forall>e \<in> Allocated m - F. Elems m' e = Elems m e \<and> e \<in> Allocated m') \<and>
     F' \<inter> Allocated m \<subseteq> F \<and> RequestHandleCounter m \<le> RequestHandleCounter m' \<and>
     (b \<longrightarrow> Mdls m' = Mdls m \<and> LockedMdls m' = LockedMdls m)"

abbreviation elems_of :: "WNBD_DISK_DEVICE \<Rightarrow> ptr set" where
  "elems_of d \<equiv> set (linked d)"

section \<open>Composition\<close>

lemma foot_trans [trans]: "foot b F m G m1 \<Longrightarrow> foot b G m1 H m2 \<Longrightarrow> foot b F m H m2"
proof -
  assume a: "foot b F m G m1" "foot b G m1 H m2"
  have "Elems m2 e = Elems m e \<and> e \<in> Allocated m2" if "e \<in> Allocated m - F" for e
  proof -
    have e: "Elems m1 e = Elems m e" "e \<in> Allocated m1" "e \<notin> G" using a(1) that by (auto simp: foot_def)
    then have "Elems m2 e = Elems m1 e \<and> e \<in> Allocated m2" using a(2) by (simp add: foot_def)
    with e(1) show ?thesis by simp
  qed
  moreover have "H \<inter> Allocated m \<subseteq> F" using a by (auto simp: foot_def)
  ultimately show "foot b F m H m2" using a by (auto simp: foot_def intro: order_trans)
qed

lemma foot_refl: "G \<subseteq> F \<Longrightarrow> foot b F m G m"
  by (auto simp: foot_def)

lemma foot_shrink: "foot b F m G m' \<Longrightarrow> H \<subseteq> G \<Longrightarrow> foot b F m H m'"
  by (auto simp: foot_def)

lemma foot_widen: "foot b F m G m' \<Longrightarrow> F \<subseteq> F' \<Longrightarrow> foot b F' m G m'"
  by (auto simp: foot_def)

lemma foot_weaken: "foot True F m G m' \<Longrightarrow> foot b F m G m'"
  by (simp add: foot_def)

text \<open>Memory that differs outside the elements.\<close>

lemma foot_same:
  assumes "Elems m' = Elems m" "Allocated m' = Allocated m" "RequestHandleCounter m' = RequestHandleCounter m"
    and "b \<longrightarrow> Mdls m' = Mdls m \<and> LockedMdls m' = LockedMdls m" "G \<subseteq> F"
  shows "foot b F m G m'"
  using assms by (auto simp: foot_def)

lemma foot_elem_upd: "e \<in> F \<Longrightarrow> G \<subseteq> F \<Longrightarrow> foot b F m G (elem_upd e f m)"
  by (auto simp: foot_def)

lemma elems_of_stat_upd [simp]: "elems_of (stat_upd f d) = elems_of d"
  by simp

section \<open>Elements\<close>

lemma foot_alloc:
  assumes "WnbdAllocSrbElement a (m, d) = (Some e, m', d')" "fresh a m"
  shows "foot b (elems_of d) m (insert e (elems_of d')) m'"
  using assms
  by (cases a) (auto simp: WnbdAllocSrbElement_def foot_def linked_def fresh_def split: list.splits)

lemma foot_complete:
  assumes "CompleteRequest e f (m, d) = (m', d')"
  shows "foot b (insert e (elems_of d)) m (elems_of d') m'"
  using assms
  by (auto simp: CompleteRequest_def WnbdFreeSrbElement_def ExFreePool_def foot_def linked_def Let_def
      split: if_splits)

lemma foot_free:
  assumes "WnbdFreeSrbElement e (m, d) = (m', d')"
  shows "foot b (insert e (elems_of d)) m (elems_of d') m'"
  using assms
  by (auto simp: WnbdFreeSrbElement_def ExFreePool_def foot_def linked_def split: if_splits)

section \<open>Draining\<close>

lemma drain_remove_elems:
  "drain_remove b d = (Some e, d') \<Longrightarrow> insert e (elems_of d') \<subseteq> elems_of d"
  by (auto simp: drain_remove_def WnbdSubmittedReqRemoveHead_def submitted_unlink_def linked_def
      split: if_splits list.splits dest: set_remove1_subset [THEN subsetD])

lemma foot_abort:
  assumes "abort_element b e (m, d) = (m', d')"
  shows "foot c (insert e (elems_of d)) m (insert e (elems_of d')) m'"
  using assms
  by (auto simp: abort_element_def foot_def linked_def Let_def split: if_splits)

lemma foot_drain_loop:
  "drain_loop opts now b c st (m, d) = (st', m', d') \<Longrightarrow> foot k (elems_of d) m (elems_of d') m'"
proof (induction opts now b c st "(m, d)" arbitrary: m d rule: drain_loop.induct)
  case (1 opts now b c st m d)
  obtain r d1 where r: "drain_remove b d = (r, d1)" by (cases "drain_remove b d")
  show ?case
  proof (cases r)
    case None
    with r 1(2) drain_remove_None [of b d d1] show ?thesis
      by (simp add: drain_loop.simps [of opts now b c st m d] foot_refl)
  next
    case (Some e)
    obtain m2 d2 where ab: "abort_element b e (m, d1) = (m2, d2)" by (cases "abort_element b e (m, d1)")
    obtain m3 d3 where cp: "CompleteRequest e True (m2, d2) = (m3, d3)" by (cases "CompleteRequest e True (m2, d2)")
    have "foot k (elems_of d) m (insert e (elems_of d2)) m2"
      using foot_widen [OF foot_abort [OF ab] drain_remove_elems [OF r [unfolded Some]]] .
    also have "foot k (insert e (elems_of d2)) m2 (elems_of d3) m3" by (rule foot_complete [OF cp])
    also have "foot k (elems_of d3) m3 (elems_of d') m'"
      using 1(1) [OF r [symmetric] Some ab [symmetric] refl] 1(2) cp
      by (simp add: drain_loop.simps [of opts now b c st m d] r Some ab Let_def)
    finally show ?thesis .
  qed
qed

lemma foot_drain:
  assumes "DrainDeviceQueue opts now b c (m, d) = (m', d')"
  shows "foot k (elems_of d) m (elems_of d') m'"
proof -
  obtain st m1 d1 where l: "drain_loop opts now b c False (m, d) = (st, m1, d1)"
    by (cases "drain_loop opts now b c False (m, d)") auto
  have "m' = m1" "d' = d1 \<or> d' = WnbdDisconnectAsync d1"
    using assms l by (auto simp: DrainDeviceQueue_def split: if_splits)
  with foot_drain_loop [OF l] show ?thesis by (auto simp: linked_def)
qed

section \<open>Queueing a command\<close>

lemma foot_pend_element:
  assumes "WnbdPendElement ext Srb lbn len fua a now (m, d) = (St, m', d')" "fresh a m"
  shows "foot b (elems_of d) m (elems_of d') m'"
proof -
  define d0 where "d0 = stat_upd (\<lambda>st. st\<lparr>LastReceivedReqTimestamp := now,
     TotalReceivedIORequests := TotalReceivedIORequests st + 1,
     UnsubmittedIORequests := UnsubmittedIORequests st + 1\<rparr>) d"
  obtain r m1 d1 where al: "WnbdAllocSrbElement a (m, d0) = (r, m1, d1)"
    by (cases "WnbdAllocSrbElement a (m, d0)") auto
  show ?thesis
  proof (cases r)
    case None
    then have "(m1, d1) = (m, d0)" using WnbdAllocSrbElement_None [of a m d0 "(m1, d1)"] al by simp
    with None al assms(1) show ?thesis
      by (auto simp: WnbdPendElement_def d0_def [symmetric] Let_def intro!: foot_same) (simp add: d0_def)
  next
    case (Some e)
    have "foot b (elems_of d) m (insert e (elems_of d1)) m1"
      using foot_alloc [OF al [unfolded Some] assms(2)] by (simp add: d0_def)
    also have "foot b (insert e (elems_of d1)) m1 (elems_of d') m'"
      using Some al assms(1)
      by (auto simp: WnbdPendElement_def d0_def [symmetric] Let_def intro!: foot_elem_upd) (auto simp: linked_def)
    finally show ?thesis .
  qed
qed

lemma foot_set_status [simp]: "foot b F (set_status Srb st m) G m' = foot b F m G m'"
  by (simp add: foot_def set_status_def)

lemma foot_srb_upd: "G \<subseteq> F \<Longrightarrow> foot b F m G (srb_upd Srb f m)" "G \<subseteq> F \<Longrightarrow> foot b F m G (set_status Srb st m)"
  by (auto simp: foot_def set_status_def)

lemma foot_pend_operation:
  assumes "WnbdPendOperation ext Srb a now (m, d) = (St, m', d')" "fresh a m"
  shows "foot b (elems_of d) m (elems_of d') m'"
  using assms(1) unfolding WnbdPendOperation_def pend_block_def pend_unmap_def Let_def prod.case
  by (auto intro: foot_srb_upd foot_pend_element [OF _ assms(2)] split: option.splits if_splits prod.splits)

lemma foot_handle_srb:
  assumes "WnbdHandleSrbOperation ext Srb a now (m, d) = Some (St, m', d')" "fresh a m"
  shows "foot b (elems_of d) m (elems_of d') m'"
proof -
  have f: "fresh a (set_status Srb st m)" for st
    using assms(2) by (simp add: fresh_def set_status_def split: option.splits)
  have ans: "foot b (elems_of d) m (elems_of d') m'" if "answer Srb h (m, d) = Some (St, m', d')" for h
    using that by (auto simp: answer_def bind_eq_Some_conv intro: foot_srb_upd)
  have pend: "foot b (elems_of d) m (elems_of d') m'"
    if "WnbdPendOperation ext Srb a now (set_status Srb st m, d) = (St, m', d')" for st
    using foot_pend_operation [OF that f] by simp
  show ?thesis
    using assms(1) unfolding WnbdHandleSrbOperation_def Let_def prod.case
    by (auto intro: foot_srb_upd ans pend split: option.splits if_splits)
qed

section \<open>Replies\<close>

lemma foot_reply_frame: "reply_frame v p m m' \<Longrightarrow> G \<subseteq> F \<Longrightarrow> foot False F m G m'"
  by (auto simp: reply_frame_def foot_def)

lemma remove_by_tag_elems:
  "WnbdSubmittedReqRemoveByTag m t d = (r, d') \<Longrightarrow> elems_of d' \<subseteq> elems_of d"
  by (auto simp: WnbdSubmittedReqRemoveByTag_def submitted_unlink_def linked_def split: option.splits
      dest: set_remove1_subset [THEN subsetD])

lemma foot_reply_exit:
  assumes "reply_exit now v e (m, d) = (m', d')"
  shows "foot False (insert e (elems_of d)) m (elems_of d') m'"
proof -
  define m1 where "m1 = (if Mdl v then release_mdl v m else m)"
  obtain d1 m2 d2 where d1: "elems_of d1 = elems_of d"
    and c: "(m2, d2) = (if Aborted (Elems m1 e) then (m1, d1) else CompleteRequest e False (m1, d1))"
    and f: "WnbdFreeSrbElement e (m2, d2) = (m', d')"
  proof -
    define d0 where "d0 = stat_upd (reply_stats now) d"
    define d1 where "d1 = (if Aborted (Elems m e) then stat_upd (\<lambda>st. st\<lparr>CompletedAbortedIORequests :=
       CompletedAbortedIORequests st + 1\<rparr>) d0 else d0)"
    obtain m2 d2 where c: "(if Aborted (Elems m1 e) then (m1, d1) else CompleteRequest e False (m1, d1)) = (m2, d2)"
      by (cases "if Aborted (Elems m1 e) then (m1, d1) else CompleteRequest e False (m1, d1)")
    show ?thesis
      by (rule that [of d1 m2 d2])
         (use c assms in \<open>simp_all add: reply_exit_def m1_def d1_def d0_def Let_def split: if_splits\<close>)
  qed
  have "foot False (insert e (elems_of d)) m (insert e (elems_of d1)) m1"
    by (rule foot_same) (auto simp: m1_def d1)
  also have "foot False (insert e (elems_of d1)) m1 (insert e (elems_of d2)) m2"
    using c by (auto intro!: foot_refl simp: CompleteRequest_def foot_def linked_def Let_def split: if_splits)
  also have "foot False (insert e (elems_of d2)) m2 (elems_of d') m'" by (rule foot_free [OF f])
  finally show ?thesis .
qed

lemma foot_reply:
  assumes "queues_ok m d" "WnbdHandleResponse pid cmd lk stor now (m, d) = Some (St, m', d')"
  shows "foot False (elems_of d) m (elems_of d') m'"
proof -
  obtain r d1 where rm: "WnbdSubmittedReqRemoveByTag m (RspRequestHandle (Response cmd)) d = (r, d1)"
    by (cases "WnbdSubmittedReqRemoveByTag m (RspRequestHandle (Response cmd)) d")
  consider (none) "m' = m" "elems_of d' \<subseteq> elems_of d"
    | (hit) e v m1 where "r = Some e" "reply_body cmd lk stor e m = Some (St, v, m1)" "reply_exit now v e (m1, d1) = (m', d')"
    using assms(2) rm remove_by_tag_elems [OF rm]
    by (cases r) (auto simp: WnbdHandleResponse_def bind_eq_Some_conv split: if_splits)
  then show ?thesis
  proof cases
    case none
    then show ?thesis by (simp add: foot_refl)
  next
    case hit
    have "e \<in> elems_of d" using remove_by_tag_ok(1) [OF assms(1) rm [unfolded hit(1)]] by (simp add: linked_def)
    then have "foot False (elems_of d) m (insert e (elems_of d1)) m1"
      using remove_by_tag_elems [OF rm] by (intro foot_reply_frame [OF reply_body_frame [OF hit(2)]]) simp
    also have "foot False (insert e (elems_of d1)) m1 (elems_of d') m'" by (rule foot_reply_exit [OF hit(3)])
    finally show ?thesis .
  qed
qed

section \<open>Fetches\<close>

abbreviation (input) touched :: "ptr \<Rightarrow> disp \<Rightarrow> disp \<Rightarrow> bool" where
  "touched e x y \<equiv> foot False (insert e (elems_of (DDev x))) (DMem x) (insert e (elems_of (DDev y))) (DMem y)"

lemma foot_lock:
  "LockFetchBuffer lk v m = (St, v', m') \<Longrightarrow> G \<subseteq> F \<Longrightarrow> foot False F m G m'"
  by (cases lk) (auto simp: LockFetchBuffer_def foot_def split: if_splits)

lemma foot_fail_element:
  assumes "fail_element st e (m, d) = (m', d')"
  shows "foot b (insert e (elems_of d)) m (elems_of d') m'"
proof -
  let ?m = "srb_upd (ElemSrb (Elems m e)) (\<lambda>srb. srb\<lparr>SrbStatus := st\<rparr>) m"
  obtain d1 where c: "CompleteRequest e True (?m, d) = (m', d1)" "d' = unsubmitted_dec d1"
    using assms by (auto simp: fail_element_def Let_def split: prod.splits)
  have "foot b (insert e (elems_of d)) m (insert e (elems_of d)) ?m" by (rule foot_srb_upd) simp
  also have "foot b (insert e (elems_of d)) ?m (elems_of d1) m'" by (rule foot_complete [OF c(1)])
  finally show ?thesis by (simp add: c(2) unsubmitted_dec_def)
qed

lemma touched_fail:
  assumes "foot False F m (insert e (elems_of d)) m1" "fail_element st e (m1, d) = (m', d')"
  shows "foot False F m (insert e (elems_of d')) m'"
proof -
  have "fail_element st e (m1, d) = (m', d') \<Longrightarrow> foot False (insert e (elems_of d)) m1 (insert e (elems_of d')) m'"
    by (auto simp: fail_element_def CompleteRequest_def WnbdFreeSrbElement_def ExFreePool_def foot_def linked_def
        unsubmitted_dec_def Let_def split: if_splits prod.splits)
  from foot_trans [OF assms(1) this [OF assms(2)]] show ?thesis .
qed

lemma touched_unmap:
  assumes "dispatch_unmap bsz env e x = Some (n, y)" shows "touched e x y"
proof -
  obtain St v m where lk: "LockFetchBuffer (EnvLock env) (DVars x) (DMem x) = (St, v, m)"
    by (cases "LockFetchBuffer (EnvLock env) (DVars x) (DMem x)") auto
  obtain m1 d1 where f0: "fail_element SRB_STATUS_INTERNAL_ERROR e (DMem x, DDev x) = (m1, d1)"
    by (cases "fail_element SRB_STATUS_INTERNAL_ERROR e (DMem x, DDev x)")
  obtain m2 d2 where f1: "fail_element SRB_STATUS_INTERNAL_ERROR e (m, DDev x) = (m2, d2)"
    by (cases "fail_element SRB_STATUS_INTERNAL_ERROR e (m, DDev x)")
  let ?F = "insert e (elems_of (DDev x))"
  have l: "foot False ?F (DMem x) ?F m" by (rule foot_lock [OF lk]) simp
  show ?thesis
    using assms lk l touched_fail [OF foot_refl f0, of ?F] touched_fail [OF l f1]
    by (auto simp: dispatch_unmap_def with_state_def f0 f1 Let_def bind_eq_Some_conv split: if_splits)
qed

lemma touched_copy:
  assumes "dispatch_copy bsz env e x = Some (n, y)" shows "touched e x y"
proof -
  obtain St v m where lk: "LockFetchBuffer (EnvLock env) (DVars x) (DMem x) = (St, v, m)"
    by (cases "LockFetchBuffer (EnvLock env) (DVars x) (DMem x)") auto
  obtain m1 d1 where f0: "fail_element SRB_STATUS_INTERNAL_ERROR e (DMem x, DDev x) = (m1, d1)"
    by (cases "fail_element SRB_STATUS_INTERNAL_ERROR e (DMem x, DDev x)")
  obtain m2 d2 where f1: "fail_element SRB_STATUS_INTERNAL_ERROR e (m, DDev x) = (m2, d2)"
    by (cases "fail_element SRB_STATUS_INTERNAL_ERROR e (m, DDev x)")
  let ?F = "insert e (elems_of (DDev x))"
  have l: "foot False ?F (DMem x) ?F m" by (rule foot_lock [OF lk]) simp
  note f = touched_fail [OF l f1]
  have r: "foot False ?F (DMem x) (insert e (elems_of d2)) (release_mdl v m2)"
    using foot_trans [OF f foot_same [of "release_mdl v m2" m2 False]] by simp
  show ?thesis
    using assms lk l r touched_fail [OF foot_refl f0, of ?F] f
    by (auto simp: dispatch_copy_def with_state_def f0 f1 Let_def bind_eq_Some_conv foot_refl split: if_splits)
qed

lemma touched_element:
  assumes "dispatch_element bsz env e x = Some (stop, y)" "RequestHandleCounter (DMem x) \<noteq> - 1"
  shows "touched e x y"
proof -
  let ?m = "tag_element e (DMem x)" and ?F = "insert e (elems_of (DDev x))"
  have t: "foot False ?F (DMem x) ?F ?m"
    using word_less_inc [OF assms(2)] by (auto simp: foot_def tag_element_sel)
  obtain m1 d1 where f: "fail_element SRB_STATUS_INVALID_REQUEST e (?m, DDev x) = (m1, d1)"
    by (cases "fail_element SRB_STATUS_INVALID_REQUEST e (?m, DDev x)")
  have sub: "touched e z (dispatch_submit env e z)" for z
    by (auto simp: dispatch_submit_def unsubmitted_dec_def WnbdSubmittedReqInsert_def linked_def Let_def foot_def)
  have tr: "touched e z w" if "dispatch_transfer bsz env t e z = Some (n, w)" for t n z w
    using that touched_unmap touched_copy by (auto simp: dispatch_transfer_def foot_refl split: if_splits)
  let ?y = "x\<lparr>DMem := ?m, DRequest := zero_request\<rparr>" and ?t = "srb_type (srb_of ?m e)"
  consider (invalid) "y = with_state (m1, d1) ?y"
    | (moved) q n z where "dispatch_transfer bsz env ?t e (?y\<lparr>DRequest := q\<rparr>) = Some (n, z)"
        "y = z \<or> y = dispatch_submit env e z"
  proof (cases "ValidateScsiRequest (DDev x) (srb_of ?m e)")
    case False
    with assms(1) show ?thesis by (intro invalid) (simp add: dispatch_element_def Let_def f)
  next
    case True
    then obtain q n z where t: "dispatch_transfer bsz env ?t e (?y\<lparr>DRequest := q\<rparr>) = Some (n, z)"
      and n: "(case n of Retry \<Rightarrow> Some (False, z) | Leave \<Rightarrow> Some (True, z)
         | Proceed \<Rightarrow> Some (True, dispatch_submit env e z)) = Some (stop, y)"
      using assms(1) by (auto simp: dispatch_element_def Let_def bind_eq_Some_conv)
    from n have "y = z \<or> y = dispatch_submit env e z" by (cases n) simp_all
    with t show ?thesis by (rule moved)
  qed
  then show ?thesis
  proof cases
    case invalid
    with touched_fail [OF t f] show ?thesis by (simp add: with_state_def)
  next
    case moved
    from tr [OF moved(1)] have "foot False ?F ?m (insert e (elems_of (DDev z))) (DMem z)" by simp
    with t have "touched e x z" by (rule foot_trans)
    with moved(2) foot_trans [OF this sub] show ?thesis by auto
  qed
qed

text \<open>An iteration of the dispatch loop.\<close>

lemma foot_iter:
  assumes "dispatch_iter bsz env x = Some (stop, y)" "RequestHandleCounter (DMem x) \<noteq> - 1"
  shows "foot False (elems_of (DDev x)) (DMem x) (elems_of (DDev y)) (DMem y)"
proof -
  define d where "d = (if EnvHard env then WnbdDisconnectAsync (DDev x) else DDev x)"
  have d: "elems_of d = elems_of (DDev x)" by (simp add: d_def linked_def)
  have idle: ?thesis if "DMem y = DMem x" "elems_of (DDev y) \<subseteq> elems_of d"
    using that d by (simp add: foot_refl)
  show ?thesis
  proof (cases "EnvWait env = WAIT_0 \<and> PendingReqListHead d \<noteq> [] \<and> \<not> HardRemoveDevice d")
    case False
    then show ?thesis using assms(1)
      by (intro idle; cases "EnvWait env")
         (auto simp: dispatch_iter_def d_def [symmetric] linked_def Let_def split: list.splits if_splits)
  next
    case True
    then obtain e es where p: "PendingReqListHead d = e # es" by (cases "PendingReqListHead d") auto
    let ?z = "x\<lparr>DDev := d\<lparr>DeviceEvent := DeviceEvent d - 1, PendingReqListHead := es\<rparr>\<rparr>"
    have "dispatch_element bsz env e ?z = Some (stop, y)"
      using assms(1) True p by (simp add: dispatch_iter_def d_def [symmetric] Let_def)
    from touched_element [OF this] assms(2) have "touched e ?z y" by simp
    moreover have "insert e (elems_of (DDev ?z)) = elems_of (DDev x)"
      unfolding d [symmetric] by (auto simp: linked_def p)
    ultimately show ?thesis by (auto intro: foot_shrink)
  qed
qed

section \<open>Creation and teardown\<close>

lemma foot_populate:
  assumes "populate n as (m, d) = (m', d')" "distinct as" "\<forall>p. Some p \<in> set as \<longrightarrow> p \<notin> Allocated m"
  shows "foot b (elems_of d) m (elems_of d') m' \<and> Notified m' = Notified m"
  using assms
proof (induction n arbitrary: as m d)
  case (Suc n)
  show ?case
  proof (cases "\<exists>p bs. as = Some p # bs")
    case False
    then have "populate (Suc n) as (m, d) = (m, d)" by (cases as; cases "hd as") auto
    with Suc.prems show ?thesis by (simp add: foot_refl)
  next
    case True
    then obtain p bs where as: "as = Some p # bs" by blast
    let ?m = "elem_upd p (\<lambda>e. e\<lparr>Pooled := True\<rparr>)
      (m\<lparr>Elems := (Elems m)(p := zero_element), Allocated := insert p (Allocated m)\<rparr>)"
    let ?d = "d\<lparr>SrbElementPool := p # SrbElementPool d\<rparr>"
    have "populate n bs (?m, ?d) = (m', d')" using Suc.prems(1) as by (simp add: Let_def)
    then have "foot b (elems_of ?d) ?m (elems_of d') m' \<and> Notified m' = Notified ?m"
      by (rule Suc.IH) (use Suc.prems(2,3) as in auto)
    moreover have "foot b (elems_of d) m (elems_of ?d) ?m"
      using Suc.prems(3) as by (auto simp: foot_def linked_def)
    ultimately show ?thesis using foot_trans by auto
  qed
qed (simp add: foot_refl)

lemma foot_pool_drain:
  "WnbdDrainSrbElementPool (m, d) = (m', d') \<Longrightarrow> foot b (elems_of d) m (elems_of d') m'"
proof (induction "(m, d)" arbitrary: m d rule: WnbdDrainSrbElementPool.induct)
  case (1 m d)
  show ?case
  proof (cases "SrbElementPool d")
    case Nil
    with 1(2) show ?thesis by (simp add: WnbdDrainSrbElementPool.simps [of m d] foot_refl)
  next
    case (Cons e es)
    let ?d = "d\<lparr>SrbElementPool := es\<rparr>"
    have "foot b (elems_of d) m (elems_of ?d) (ExFreePool e m)"
      by (auto simp: foot_def linked_def Cons ExFreePool_def)
    also have "foot b (elems_of ?d) (ExFreePool e m) (elems_of d') m'"
      using 1(1) [OF Cons] 1(2) Cons by (simp add: WnbdDrainSrbElementPool.simps [of m d])
    finally show ?thesis .
  qed
qed

end
