(* ===== verification/Conserve.thy ===== *)
theory Conserve
  imports Footprint Removal "HOL-Library.Multiset"
begin

text \<open>
  The ledger of requests. \<open>moved\<close> says what an operation on one device did with request
  blocks: which it took in, which it handed back to the port driver and which it dropped.
  \<open>io_ok\<close> is the ledger of the whole adapter: every block the port driver handed over was
  completed, waits in exactly one queue of one device, or was dropped by a device under
  removal.
\<close>

section \<open>One device\<close>

definition moved :: "ptr list \<Rightarrow> ptr list \<Rightarrow> ptr list \<Rightarrow> dstate \<Rightarrow> dstate \<Rightarrow> bool" where
  "moved ins outs gone s s' \<longleftrightarrow>
     (let (m, d) = s; (m', d') = s' in
      queues_ok m' d' \<and> foot False (elems_of d) m (elems_of d') m' \<and>
      Notified m' = Notified m @ outs \<and>
      mset (srbs_of m' (queued d')) + mset outs + mset gone = mset (srbs_of m (queued d)) + mset ins \<and>
      (HardRemoveDevice d \<longrightarrow> HardRemoveDevice d') \<and> (gone \<noteq> [] \<longrightarrow> HardRemoveDevice d') \<and>
      (stats_ok d \<longrightarrow> stats_ok d' \<or> HardRemoveDevice d'))"

lemma moved_refl: "queues_ok m d \<Longrightarrow> moved [] [] [] (m, d) (m, d)"
  by (simp add: moved_def foot_refl)

lemma moved_trans:
  assumes "moved i1 o1 g1 s s1" "moved i2 o2 g2 s1 s2"
  shows "moved (i1 @ i2) (o1 @ o2) (g1 @ g2) s s2"
proof -
  obtain m d where s: "s = (m, d)" by (cases s)
  obtain m1 d1 where s1: "s1 = (m1, d1)" by (cases s1)
  obtain m2 d2 where s2: "s2 = (m2, d2)" by (cases s2)
  let ?M = "\<lambda>m d. mset (srbs_of m (queued d))"
  have "foot False (elems_of d) m (elems_of d1) m1" "foot False (elems_of d1) m1 (elems_of d2) m2"
    using assms by (simp_all add: moved_def s s1 s2)
  then have f: "foot False (elems_of d) m (elems_of d2) m2" by (rule foot_trans)
  have a: "?M m1 d1 + mset o1 + mset g1 = ?M m d + mset i1" "?M m2 d2 + mset o2 + mset g2 = ?M m1 d1 + mset i2"
    using assms by (simp_all add: moved_def s s1 s2)
  have "?M m2 d2 + mset (o1 @ o2) + mset (g1 @ g2) = (?M m2 d2 + mset o2 + mset g2) + (mset o1 + mset g1)"
    by (simp only: mset_append ac_simps)
  also have "\<dots> = (?M m1 d1 + mset o1 + mset g1) + mset i2" unfolding a(2) by (simp only: ac_simps)
  also have "\<dots> = ?M m d + mset (i1 @ i2)" unfolding a(1) by (simp only: mset_append ac_simps)
  finally have e: "?M m2 d2 + mset (o1 @ o2) + mset (g1 @ g2) = ?M m d + mset (i1 @ i2)" .
  have "queues_ok m2 d2" "Notified m2 = Notified m @ o1 @ o2"
    "HardRemoveDevice d \<longrightarrow> HardRemoveDevice d2" "g1 @ g2 \<noteq> [] \<longrightarrow> HardRemoveDevice d2"
    "stats_ok d \<longrightarrow> stats_ok d2 \<or> HardRemoveDevice d2"
    using assms by (auto simp: moved_def s s1 s2)
  with e f show ?thesis by (simp only: moved_def s s2 Let_def prod.case)
qed

lemma srbs_of_append: "srbs_of m (xs @ ys) = srbs_of m xs @ srbs_of m ys"
  by (simp add: srbs_of_def)

lemma queued_distinct: "queues_ok m d \<Longrightarrow> distinct (queued d)"
  by (auto simp: queue_defs)

lemma srbs_of_remove1:
  "e \<in> set es \<Longrightarrow> add_mset (ElemSrb (Elems m e)) (mset (srbs_of m (remove1 e es))) = mset (srbs_of m es)"
  by (induction es) (auto simp: srbs_of_def add_mset_commute)

lemma drain_hard:
  assumes "DrainDeviceQueue opts now b c (m, d) = (m', d')" "HardRemoveDevice d"
  shows "HardRemoveDevice d'"
proof -
  obtain st m1 d1 where l: "drain_loop opts now b c False (m, d) = (st, m1, d1)"
    by (cases "drain_loop opts now b c False (m, d)") auto
  with drain_loop_hard [OF l] assms show ?thesis
    by (auto simp: DrainDeviceQueue_def WnbdDisconnectAsync_def split: if_splits)
qed

lemma moved_drain:
  assumes "queues_ok m d" "DrainDeviceQueue opts now b c (m, d) = (m', d')"
  shows "moved [] (srbs_of m (queue_of b d)) [] (m, d) (m', d')"
proof -
  note ok = DrainDeviceQueue_ok [OF assms]
  have "srbs_of m' (queue_of (\<not> b) d) = srbs_of m (queue_of (\<not> b) d)"
  proof (rule srbs_of_cong)
    fix e assume "e \<in> set (queue_of (\<not> b) d)"
    then have "e \<notin> set (queue_of b d)" using assms(1) by (auto simp: queue_defs)
    with ok(6) show "ElemSrb (Elems m' e) = ElemSrb (Elems m e)" by simp
  qed
  then have "mset (srbs_of m' (queued d')) + mset (srbs_of m (queue_of b d)) = mset (srbs_of m (queued d))"
    using ok(2,3) by (cases b) (simp_all add: queued_def srbs_of_append)
  then show ?thesis
    using ok(1,4) foot_drain [OF assms(2)] drain_hard [OF assms(2)] DrainDeviceQueue_stats_ok [OF assms(1) _ assms(2)]
    by (auto simp: moved_def)
qed

lemma foot_drain_mdls:
  "DrainDeviceQueue opts now b c (m, d) = (m', d') \<Longrightarrow> Mdls m' = Mdls m \<and> LockedMdls m' = LockedMdls m"
  using foot_drain [of opts now b c m d m' d' True] by (simp add: foot_def)

section \<open>Replies\<close>

lemma reply_exit_hard: "HardRemoveDevice (snd (reply_exit now v e (m, d))) = HardRemoveDevice d"
  by (simp add: reply_exit_def CompleteRequest_def WnbdFreeSrbElement_def Let_def)

lemma remove_by_tag_hard:
  "WnbdSubmittedReqRemoveByTag m t d = (r, d') \<Longrightarrow> HardRemoveDevice d' = HardRemoveDevice d"
  by (auto simp: WnbdSubmittedReqRemoveByTag_def submitted_unlink_def split: option.splits)

lemma reply_hard:
  assumes "WnbdHandleResponse pid cmd lk stor now (m, d) = Some (St, m', d')"
  shows "HardRemoveDevice d' = HardRemoveDevice d"
proof -
  obtain r d1 where rm: "WnbdSubmittedReqRemoveByTag m (RspRequestHandle (Response cmd)) d = (r, d1)"
    by (cases "WnbdSubmittedReqRemoveByTag m (RspRequestHandle (Response cmd)) d")
  have ex: "reply_exit now v e (m1, d1) = (m', d') \<Longrightarrow> HardRemoveDevice d' = HardRemoveDevice d1" for v e m1
    using reply_exit_hard [of now v e m1 d1] by simp
  show ?thesis using assms rm remove_by_tag_hard [OF rm]
    by (auto simp: WnbdHandleResponse_def bind_eq_Some_conv dest: ex split: if_splits option.splits)
qed

lemma reply_effect:
  assumes "queues_ok m d" "WnbdHandleResponse pid cmd lk stor now (m, d) = Some (St, m', d')"
  obtains (none) "m' = m" "d' = d"
  | (hit) e where "owner pid d" "e \<in> set (SubmittedReqListHead d)" "Tag (Elems m e) = RspRequestHandle (Response cmd)"
proof (cases "owner pid d \<and> (\<exists>e \<in> set (SubmittedReqListHead d). Tag (Elems m e) = RspRequestHandle (Response cmd))")
  case True
  with hit show ?thesis by blast
next
  case False
  have sub: "submitted_ok m d" using assms(1) by (simp add: queues_ok_def)
  show ?thesis
  proof (cases "owner pid d")
    case True
    then have "RspRequestHandle (Response cmd) \<notin> (\<lambda>e. Tag (Elems m e)) ` set (SubmittedReqListHead d)"
      using False by auto
    from sq.rem_tag_miss [OF sub this] True assms(2) none show ?thesis
      by (simp add: WnbdHandleResponse_def owner_def)
  next
    case False
    with assms(2) none show ?thesis by (auto simp: WnbdHandleResponse_def owner_def split: if_splits)
  qed
qed

lemma moved_reply:
  assumes "queues_ok m d" "WnbdHandleResponse pid cmd lk stor now (m, d) = Some (St, m', d')"
  shows "\<exists>outs. moved [] outs [] (m, d) (m', d') \<and> Mdls m' = Mdls m \<and> LockedMdls m' = LockedMdls m"
  using assms
proof (cases rule: reply_effect)
  case none
  with moved_refl [OF assms(1)] show ?thesis by auto
next
  case (hit e)
  note ok = WnbdHandleResponse_ok [OF assms(1) hit assms(2)]
  note dist = queued_distinct [OF assms(1)]
  have e: "e \<in> set (queued d)" "queued d' = remove1 e (queued d)"
    using hit(2) ok(2,3) dist by (auto simp: queued_def remove1_append simp del: remove1_append)
       (auto simp: remove1_append)
  have "srbs_of m' (queued d') = srbs_of m (queued d')"
    by (rule srbs_of_cong) (use ok(9) dist e(2) in auto)
  then have "mset (srbs_of m' (queued d')) + mset [ElemSrb (Elems m e)] = mset (srbs_of m (queued d))"
    using srbs_of_remove1 [OF e(1), of m] by (simp add: e(2))
  moreover have "stats_ok d \<longrightarrow> stats_ok d'"
  proof -
    obtain n where n: "length (SubmittedReqListHead d) = Suc n"
      using hit(2) by (cases "SubmittedReqListHead d") auto
    then show ?thesis
      using ok(2,3,7) hit(2) by (simp add: stats_ok_def queued_def length_remove1 reply_stats_def)
  qed
  ultimately have "moved [] [ElemSrb (Elems m e)] [] (m, d) (m', d')"
    using ok(1,4) foot_reply [OF assms] reply_hard [OF assms(2)] by (simp add: moved_def)
  with ok(5,6) show ?thesis by blast
qed

section \<open>Fetches\<close>

text \<open>
  The request an iteration drops: the head of the pending list, when the wait was satisfied
  while the device is being removed.
\<close>

definition dropped :: "dispatch_env \<Rightarrow> kmem \<Rightarrow> WNBD_DISK_DEVICE \<Rightarrow> ptr list" where
  "dropped env m d =
     (if EnvWait env = WAIT_0 \<and> (EnvHard env \<or> HardRemoveDevice d)
      then srbs_of m (take 1 (PendingReqListHead d)) else [])"

lemma iter_hard:
  assumes "queues_ok (DMem x) (DDev x)" "no_lock x" "lock_code_ok (EnvLock env)"
    and "RequestHandleCounter (DMem x) \<noteq> - 1" "dispatch_iter bsz env x = Some (stop, y)"
  shows "HardRemoveDevice (DDev y) \<longleftrightarrow> EnvHard env \<or> HardRemoveDevice (DDev x)"
proof -
  define d where "d = (if EnvHard env then WnbdDisconnectAsync (DDev x) else DDev x)"
  have d: "queues_ok (DMem x) d" "HardRemoveDevice d \<longleftrightarrow> EnvHard env \<or> HardRemoveDevice (DDev x)"
    using assms(1) by (auto simp: d_def) (auto simp: WnbdDisconnectAsync_def)
  show ?thesis
  proof (cases "EnvWait env = WAIT_0 \<and> PendingReqListHead d \<noteq> [] \<and> \<not> HardRemoveDevice d")
    case False
    then have "HardRemoveDevice (DDev y) = HardRemoveDevice d" using assms(5)
      by (cases "EnvWait env")
         (auto simp: dispatch_iter_def d_def [symmetric] Let_def split: list.splits if_splits)
    with d(2) show ?thesis by simp
  next
    case True
    then obtain e es where p: "PendingReqListHead d = e # es" by (cases "PendingReqListHead d") auto
    let ?z = "x\<lparr>DDev := d\<lparr>DeviceEvent := DeviceEvent d - 1, PendingReqListHead := es\<rparr>\<rparr>"
    have run: "dispatch_element bsz env e ?z = Some (stop, y)"
      using assms(5) True p by (simp add: dispatch_iter_def d_def [symmetric] Let_def)
    have "failed 1 e ?z y \<or> stop \<and> submitted e ?z y"
      by (intro dispatch_element_ok) (use pop_ok [OF d(1) p] assms(2-4) run in \<open>auto simp: no_lock_def\<close>)
    with True d(2) show ?thesis by (auto simp: failed_def submitted_def)
  qed
qed

lemma iter_removal:
  assumes "EnvHard env \<or> HardRemoveDevice (DDev x)" "dispatch_iter bsz env x = Some (stop, y)"
  shows "DMem y = DMem x \<and> Stats (DDev y) = Stats (DDev x) \<and>
    SubmittedReqListHead (DDev y) = SubmittedReqListHead (DDev x) \<and>
    PendingReqListHead (DDev y) = (if EnvWait env = WAIT_0 then drop 1 else id) (PendingReqListHead (DDev x))"
  using assms
  by (cases "EnvWait env")
     (auto simp: dispatch_iter_def WnbdDisconnectAsync_def Let_def split: list.splits if_splits)

lemma moved_iter:
  assumes "queues_ok (DMem x) (DDev x)" "no_lock x" "lock_code_ok (EnvLock env)"
    and "RequestHandleCounter (DMem x) \<noteq> - 1" "dispatch_iter bsz env x = Some (stop, y)"
  shows "\<exists>outs. moved [] outs (dropped env (DMem x) (DDev x)) (DMem x, DDev x) (DMem y, DDev y)"
proof -
  obtain fin sub lost where c: "consumed fin sub lost x y" using dispatch_iter_ok [OF assms] by blast
  note hard = iter_hard [OF assms]
  note foot = foot_iter [OF assms(5,4)]
  have qok: "queues_ok (DMem y) (DDev y)" using c by (simp add: consumed_def)
  show ?thesis
  proof (cases "EnvHard env \<or> HardRemoveDevice (DDev x)")
    case True
    note rm = iter_removal [OF this assms(5)]
    have "srbs_of (DMem x) (PendingReqListHead (DDev x)) =
        dropped env (DMem x) (DDev x) @ srbs_of (DMem x) (PendingReqListHead (DDev y))"
      using rm True by (cases "PendingReqListHead (DDev x)") (auto simp: dropped_def srbs_of_def)
    then have "moved [] [] (dropped env (DMem x) (DDev x)) (DMem x, DDev x) (DMem y, DDev y)"
      using qok foot rm hard True by (simp add: moved_def queued_def srbs_of_append)
    then show ?thesis by blast
  next
    case False
    with hard have ns: "\<not> HardRemoveDevice (DDev y)" by simp
    then have lost: "lost = []" using c by (simp add: consumed_def)
    have dp: "dropped env (DMem x) (DDev x) = []" using False by (simp add: dropped_def)
    have q: "PendingReqListHead (DDev x) = fin @ sub @ PendingReqListHead (DDev y)"
      "SubmittedReqListHead (DDev y) = SubmittedReqListHead (DDev x) @ sub"
      using c lost by (simp_all add: consumed_def)
    have dist: "distinct (queued (DDev x))" by (rule queued_distinct [OF assms(1)])
    have "srbs_of (DMem y) (queued (DDev y)) = srbs_of (DMem x) (queued (DDev y))"
    proof (rule srbs_of_cong)
      fix e assume "e \<in> set (queued (DDev y))"
      then have "e \<notin> set fin" using dist by (auto simp: queued_def q)
      then have "Elems (DMem y) e = (Elems (DMem x) e)\<lparr>Tag := Tag (Elems (DMem y) e)\<rparr>"
        using c by (simp add: consumed_def)
      then show "ElemSrb (Elems (DMem y) e) = ElemSrb (Elems (DMem x) e)"
        by (metis SRB_QUEUE_ELEMENT.select_convs(1) SRB_QUEUE_ELEMENT.surjective
            SRB_QUEUE_ELEMENT.update_convs(6))
    qed
    then have ms: "mset (srbs_of (DMem y) (queued (DDev y))) + mset (srbs_of (DMem x) fin) =
        mset (srbs_of (DMem x) (queued (DDev x)))"
      by (simp add: queued_def q srbs_of_append)
    have "stats_ok (DDev x) \<longrightarrow> stats_ok (DDev y)"
      using c lost q by (simp add: consumed_def stats_ok_def queued_def)
    with ms qok foot c False hard dp lost
    have "moved [] (srbs_of (DMem x) fin) [] (DMem x, DDev x) (DMem y, DDev y)"
      by (simp add: moved_def consumed_def)
    then show ?thesis unfolding dp by blast
  qed
qed

section \<open>The adapter\<close>

definition waiting :: "kmem \<Rightarrow> WNBD_EXTENSION \<Rightarrow> ptr list" where
  "waiting m x = concat (map (\<lambda>p. srbs_of m (queued (Devices x p))) (DeviceList x))"

definition apart :: "WNBD_EXTENSION \<Rightarrow> bool" where
  "apart x \<longleftrightarrow> (\<forall>p \<in> devs x. \<forall>q \<in> devs x. p \<noteq> q \<longrightarrow> elems_of (Devices x p) \<inter> elems_of (Devices x q) = {})"

text \<open>A dropped request is kept with the connection id of its device.\<close>

definition lost_ok :: "(u64 \<times> ptr) list \<Rightarrow> WNBD_EXTENSION \<Rightarrow> bool" where
  "lost_ok lost x \<longleftrightarrow> (\<forall>i \<in> fst ` set lost. i \<le> ConnectionIdCounter x \<and>
     (\<forall>p \<in> devs x. ConnectionId (Devices x p) = i \<longrightarrow> HardRemoveDevice (Devices x p)))"

lemma lost_ok_append [simp]: "lost_ok (a @ b) x \<longleftrightarrow> lost_ok a x \<and> lost_ok b x"
  by (simp add: lost_ok_def image_Un ball_Un)

definition io_ok :: "ptr list \<Rightarrow> (u64 \<times> ptr) list \<Rightarrow> kmem \<Rightarrow> WNBD_EXTENSION \<Rightarrow> bool" where
  "io_ok accepted lost m x \<longleftrightarrow>
     (\<forall>p \<in> devs x. queues_ok m (Devices x p) \<and> (stats_ok (Devices x p) \<or> HardRemoveDevice (Devices x p))) \<and>
     apart x \<and> mset accepted = mset (Notified m) + mset (waiting m x) + mset (map snd lost) \<and> lost_ok lost x"

text \<open>The other devices do not notice.\<close>

lemma foot_others:
  assumes "foot b (elems_of d) m G m'" "queues_ok m d0" "elems_of d \<inter> elems_of d0 = {}"
  shows "queues_ok m' d0" "srbs_of m' (queued d0) = srbs_of m (queued d0)" "G \<inter> elems_of d0 = {}"
proof -
  have el: "Elems m' e = Elems m e \<and> e \<in> Allocated m'" if "e \<in> elems_of d0" for e
    using assms that by (auto simp: foot_def queues_ok_def)
  show "queues_ok m' d0"
    by (rule queues_ok_frame [OF assms(2)]) (use el assms(1) in \<open>auto simp: foot_def\<close>)
  show "srbs_of m' (queued d0) = srbs_of m (queued d0)"
    by (rule srbs_of_cong) (use el in \<open>auto simp: linked_def queued_def\<close>)
  show "G \<inter> elems_of d0 = {}" using assms by (auto simp: foot_def queues_ok_def)
qed

lemma waiting_split:
  assumes "DeviceList x = ps @ p # qs"
  shows "mset (waiting m x) = mset (srbs_of m (queued (Devices x p))) +
    mset (concat (map (\<lambda>p. srbs_of m (queued (Devices x p))) (ps @ qs)))"
  by (simp add: waiting_def assms)

text \<open>One device does something; the rest of the adapter stays.\<close>

lemma io_act:
  assumes "adapter_ok x" "io_ok acc lost m x" "p \<in> devs x"
    and "moved ins outs gone (m, Devices x p) (m', d')" "ConnectionId d' = ConnectionId (Devices x p)"
  shows "io_ok (acc @ ins) (lost @ map (Pair (ConnectionId d')) gone) m' (dev_upd p (\<lambda>_. d') x)"
proof -
  let ?d = "Devices x p" and ?x = "dev_upd p (\<lambda>_. d') x"
  have mv: "queues_ok m' d'" "foot False (elems_of ?d) m (elems_of d') m'" "Notified m' = Notified m @ outs"
    "mset (srbs_of m' (queued d')) + mset outs + mset gone = mset (srbs_of m (queued ?d)) + mset ins"
    "HardRemoveDevice ?d \<longrightarrow> HardRemoveDevice d'" "gone \<noteq> [] \<longrightarrow> HardRemoveDevice d'"
    "stats_ok ?d \<longrightarrow> stats_ok d' \<or> HardRemoveDevice d'"
    using assms(4) by (simp_all add: moved_def)
  have oth: "queues_ok m' (Devices x q)" "srbs_of m' (queued (Devices x q)) = srbs_of m (queued (Devices x q))"
    "elems_of d' \<inter> elems_of (Devices x q) = {}" if "q \<in> devs x" "q \<noteq> p" for q
    using foot_others [OF mv(2), of "Devices x q"] assms(2,3) that by (auto simp: io_ok_def apart_def)
  obtain ps qs where sp: "DeviceList x = ps @ p # qs" using assms(3) by (meson split_list)
  have np: "p \<notin> set (ps @ qs)" using adapter_ok_distinct [OF assms(1)] sp by simp
  let ?rest = "mset (concat (map (\<lambda>q. srbs_of m (queued (Devices x q))) (ps @ qs)))"
  have mp: "map (\<lambda>q. srbs_of m' (queued (Devices ?x q))) (ps @ qs) = map (\<lambda>q. srbs_of m (queued (Devices x q))) (ps @ qs)"
    using np oth(2) sp by (intro map_cong) auto
  have "DeviceList ?x = ps @ p # qs" using sp by simp
  then have w': "mset (waiting m' ?x) = mset (srbs_of m' (queued d')) + ?rest"
    by (subst waiting_split [of ?x ps p qs m']) (simp_all only: mp, simp)
  have "mset (acc @ ins) = mset (Notified m) + (mset (srbs_of m (queued ?d)) + mset ins) + ?rest + mset (map snd lost)"
    using assms(2) waiting_split [OF sp, of m] by (simp add: io_ok_def ac_simps)
  also have "\<dots> = mset (Notified m') + mset (waiting m' ?x) + (mset (map snd lost) + mset gone)"
    unfolding mv(4) [symmetric] w' mv(3) by (simp only: mset_append ac_simps)
  finally have led: "mset (acc @ ins) = mset (Notified m') + mset (waiting m' ?x) +
      mset (map snd (lost @ map (Pair (ConnectionId d')) gone))"
    by (simp add: o_def)
  have "apart ?x" using assms(2) oth(3) by (auto simp: apart_def io_ok_def Int_commute)
  moreover have "\<forall>q \<in> devs ?x. queues_ok m' (Devices ?x q) \<and> (stats_ok (Devices ?x q) \<or> HardRemoveDevice (Devices ?x q))"
    using assms(2,3) mv(1,5,7) oth(1) by (auto simp: io_ok_def)
  moreover have "lost_ok (lost @ map (Pair (ConnectionId d')) gone) ?x"
  proof -
    have l0: "lost_ok lost ?x" using assms(2,3,5) mv(5) by (auto simp: io_ok_def lost_ok_def)
    have "inj_on (\<lambda>p. ConnectionId (Devices x p)) (devs x)" "ConnectionId ?d \<le> ConnectionIdCounter x"
      using assms(1,3) by (auto simp: adapter_defs)
    then have "lost_ok (map (Pair (ConnectionId d')) gone) ?x"
      using mv(6) assms(3,5) by (auto simp: lost_ok_def inj_on_def)
    with l0 show ?thesis by simp
  qed
  ultimately show ?thesis using led unfolding io_ok_def by blast
qed

text \<open>Changes that do not concern requests.\<close>

definition like :: "WNBD_DISK_DEVICE \<Rightarrow> WNBD_DISK_DEVICE \<Rightarrow> bool" where
  "like d d' \<longleftrightarrow>
     PendingReqListHead d' = PendingReqListHead d \<and> SubmittedReqListHead d' = SubmittedReqListHead d \<and>
     SubmittedReqHashBuckets d' = SubmittedReqHashBuckets d \<and> SrbElementPool d' = SrbElementPool d \<and>
     DeviceEvent d' = DeviceEvent d \<and> Stats d' = Stats d \<and> ConnectionId d' = ConnectionId d \<and>
     (HardRemoveDevice d \<longrightarrow> HardRemoveDevice d')"

lemma like_refl [simp]: "like d d"
  by (simp add: like_def)

lemma like_same:
  assumes "like d d'"
  shows "queues_ok m d' = queues_ok m d" "elems_of d' = elems_of d" "queued d' = queued d" "stats_ok d' = stats_ok d"
  using assms by (simp_all add: like_def queue_defs stats_ok_def)

lemma io_like:
  assumes "io_ok acc lost m x" "DeviceList x' = DeviceList x" "ConnectionIdCounter x \<le> ConnectionIdCounter x'"
    and "\<And>p. p \<in> devs x \<Longrightarrow> like (Devices x p) (Devices x' p)"
  shows "io_ok acc lost m x'"
proof -
  note same = assms(4) [THEN like_same(1)] assms(4) [THEN like_same(2)] assms(4) [THEN like_same(3)]
    assms(4) [THEN like_same(4)]
  have "waiting m x' = waiting m x"
    unfolding waiting_def assms(2) by (rule arg_cong [where f = concat], rule map_cong) (simp_all add: same(3))
  moreover have "lost_ok lost x'"
    using assms by (fastforce simp: lost_ok_def io_ok_def like_def intro: order_trans)
  moreover have "stats_ok (Devices x' p) \<or> HardRemoveDevice (Devices x' p)" if "p \<in> devs x" for p
    using assms(1) assms(4) [OF that] same(4) [OF that] that by (auto simp: io_ok_def like_def)
  ultimately show ?thesis using assms(1) same(1,2) by (simp add: io_ok_def apart_def assms(2))
qed

text \<open>Memory outside the elements, and requests completed without being queued.\<close>

lemma io_mem:
  assumes "io_ok acc lost m x" "Elems m' = Elems m" "Allocated m' = Allocated m"
    and "RequestHandleCounter m' = RequestHandleCounter m" "Notified m' = Notified m @ ns"
  shows "io_ok (acc @ ns) lost m' x"
proof -
  have "queues_ok m' d = queues_ok m d" for d
    by (simp add: queues_ok_def submitted_ok_def linked_def queued_def assms)
  moreover have "waiting m' x = waiting m x" by (simp add: waiting_def srbs_of_def assms(2))
  ultimately show ?thesis using assms(1,5) by (simp add: io_ok_def)
qed

section \<open>Creation and removal\<close>

text \<open>A new device brings no requests and only its own elements.\<close>

lemma io_add:
  assumes "io_ok acc lost m x" "adapter_ok x" "p \<notin> devs x" "DeviceList x' = DeviceList x @ [p]"
    and "\<And>q. q \<noteq> p \<Longrightarrow> Devices x' q = Devices x q" "ConnectionIdCounter x \<le> ConnectionIdCounter x'"
    and "ConnectionIdCounter x < ConnectionId (Devices x' p)" "queued (Devices x' p) = []"
    and "stats_ok (Devices x' p)" "queues_ok m' (Devices x' p)"
    and "foot b {} m (elems_of (Devices x' p)) m'" "Notified m' = Notified m"
  shows "io_ok acc lost m' x'"
proof -
  have dx: "Devices x' q = Devices x q" "q \<noteq> p" if "q \<in> devs x" for q
    using assms(3) assms(5) [of q] that by metis+
  have f: "foot b (elems_of zero_device) m (elems_of (Devices x' p)) m'"
    using assms(11) by (simp add: zero_device_def linked_def)
  have oth: "queues_ok m' (Devices x q)" "srbs_of m' (queued (Devices x q)) = srbs_of m (queued (Devices x q))"
    "elems_of (Devices x' p) \<inter> elems_of (Devices x q) = {}" if "q \<in> devs x" for q
    using foot_others [OF f, of "Devices x q"] assms(1) that by (auto simp: io_ok_def linked_def zero_device_def)
  have mp: "map (\<lambda>q. srbs_of m' (queued (Devices x' q))) (DeviceList x) = map (\<lambda>q. srbs_of m (queued (Devices x q))) (DeviceList x)"
    by (rule map_cong) (simp_all add: dx(1) oth(2))
  have "srbs_of m' (queued (Devices x' p)) = []" by (simp add: assms(8) srbs_of_def)
  then have "waiting m' x' = waiting m x"
    by (simp only: waiting_def assms(4) map_append concat_append mp) simp
  moreover have "apart x'"
    using assms(1) dx oth(3) by (auto simp: apart_def io_ok_def assms(4) Int_commute)
  moreover have "lost_ok lost x'"
    using assms(1,6,7) dx by (fastforce simp: lost_ok_def io_ok_def assms(4) intro: order_trans dest: leD)
  moreover have "\<forall>q \<in> devs x'. queues_ok m' (Devices x' q) \<and> (stats_ok (Devices x' q) \<or> HardRemoveDevice (Devices x' q))"
    using assms(1,9,10) dx(1) oth(1) by (auto simp: io_ok_def assms(4))
  ultimately show ?thesis using assms(1,12) by (simp add: io_ok_def)
qed

lemma io_remove:
  assumes "io_ok acc lost m x" "adapter_ok x" "p \<in> devs x" "queued (Devices x p) = []"
    and "DeviceList x' = remove1 p (DeviceList x)" "\<And>q. q \<noteq> p \<Longrightarrow> Devices x' q = Devices x q"
    and "ConnectionIdCounter x' = ConnectionIdCounter x"
    and "foot b (elems_of (Devices x p)) m G m'" "Notified m' = Notified m"
  shows "io_ok acc lost m' x'"
proof -
  have ds: "devs x' = devs x - {p}" using adapter_ok_distinct [OF assms(2)] assms(5) by simp
  have oth: "queues_ok m' (Devices x q)" "srbs_of m' (queued (Devices x q)) = srbs_of m (queued (Devices x q))"
    "Devices x' q = Devices x q" if "q \<in> devs x'" for q
    using foot_others [OF assms(8), of "Devices x q"] assms(1,3,6) that by (auto simp: io_ok_def apart_def ds)
  obtain ps qs where sp: "DeviceList x = ps @ p # qs" "p \<notin> set ps" using assms(3) by (meson split_list_first)
  have l: "DeviceList x' = ps @ qs" using sp assms(5) by (simp add: remove1_append)
  have "map (\<lambda>q. srbs_of m' (queued (Devices x' q))) (ps @ qs) = map (\<lambda>q. srbs_of m (queued (Devices x q))) (ps @ qs)"
    by (rule map_cong) (use l oth in auto)
  then have "mset (waiting m' x') = mset (waiting m x)"
    using waiting_split [OF sp(1), of m] assms(4) by (simp only: waiting_def l) (simp add: srbs_of_def)
  moreover have "apart x'" using assms(1) oth(3) ds by (auto simp: apart_def io_ok_def)
  moreover have "lost_ok lost x'" using assms(1,7) oth(3) ds by (auto simp: lost_ok_def io_ok_def)
  moreover have "\<forall>q \<in> devs x'. queues_ok m' (Devices x' q) \<and> (stats_ok (Devices x' q) \<or> HardRemoveDevice (Devices x' q))"
    using assms(1) oth(1,3) ds by (auto simp: io_ok_def)
  ultimately show ?thesis using assms(1,9) by (simp add: io_ok_def)
qed

lemma io_teardown:
  assumes "adapter_ok x" "io_ok acc lost m x" "p \<in> devs x" "monitor_teardown opts now p (m, x) = (m', x')"
  shows "io_ok acc lost m' x'" "Mdls m' = Mdls m" "LockedMdls m' = LockedMdls m" "removed p x x'"
proof -
  let ?d = "Devices x p"
  have inq: "InquiryData ?d \<noteq> None" using assms(1,3) by (simp add: adapter_defs)
  obtain m1 d1 where D1: "DrainDeviceQueue opts now False False (m, ?d) = (m1, d1)"
    by (cases "DrainDeviceQueue opts now False False (m, ?d)")
  obtain m2 d2 where D2: "DrainDeviceQueue opts now True False (m1, d1) = (m2, d2)"
    by (cases "DrainDeviceQueue opts now True False (m1, d1)")
  obtain d3 where D3: "WnbdDrainSrbElementPool (m2, d2\<lparr>InquiryData := None\<rparr>) = (m', d3)"
    using monitor_teardown_run(2) [OF inq assms(4) D1 D2] by blast
  show rm: "removed p x x'" by (rule monitor_teardown_run(1) [OF inq assms(4) D1 D2])
  have q: "queues_ok m ?d" using assms(2,3) by (simp add: io_ok_def)
  note ok1 = DrainDeviceQueue_ok [OF q D1]
  note ok2 = DrainDeviceQueue_ok [OF ok1(1) D2]
  have mv: "moved ([] @ []) (srbs_of m (queue_of False ?d) @ srbs_of m1 (queue_of True d1)) ([] @ []) (m, ?d) (m2, d2)"
    using moved_trans [OF moved_drain [OF q D1] moved_drain [OF ok1(1) D2]] .
  have id: "same_identity ?d d2"
    using drain_identity(1) [OF D1] drain_identity(1) [OF D2] by (rule same_identity_trans)
  let ?x = "dev_upd p (\<lambda>_. d2) x"
  have io: "io_ok acc lost m2 ?x"
    using io_act [OF assms(1-3) mv] id by (simp add: same_identity_def)
  have aok: "adapter_ok ?x" by (rule adapter_ok_dev_upd [OF assms(1) id])
  have f: "foot b (elems_of d2) m2 (elems_of d3) m'" for b
    using foot_pool_drain [OF D3, of b] by (simp add: linked_def)
  have "m' = m2\<lparr>Allocated := Allocated m'\<rparr>" using pool_drain_frame [OF D3] by simp
  then have n: "Notified m' = Notified m2" by (metis kmem.select_convs(4) kmem.surjective kmem.update_convs(2))
  have e: "queued d2 = []" using ok2(2,3) ok1(2) by (simp add: queued_def)
  show "io_ok acc lost m' x'"
    by (rule io_remove [OF io aok, of p _ True "elems_of d3"])
       (use assms(3) rm e f n in \<open>auto simp: removed_def\<close>)
  show "Mdls m' = Mdls m" "LockedMdls m' = LockedMdls m"
    using f [of True] foot_drain_mdls [OF D1] foot_drain_mdls [OF D2] by (simp_all add: foot_def)
qed

end
