(* ===== verification/Traffic.thy ===== *)
theory Traffic
  imports Conserve EndToEnd PnpDispatch
begin

text \<open>
  The driver under load, as a step relation: the port driver hands over request blocks, user
  space sends commands, any number of threads fetch requests from any number of devices, disks
  are started, queried and removed by Plug and Play, the monitor threads remove devices, and the
  adapter is cleaned up, in every order; a device or bus reset makes the port driver complete
  requests by itself. The fetch, the only operation that waits,
  is cut where other threads can get in between: at the test of the loop of
  \<^verbatim>\<open>WnbdDispatchRequest\<close> and at its wait. Every other operation is one step: between the
  list operations its spin locks bracket it works on elements no list holds, which nobody else
  can see.
\<close>

section \<open>Threads\<close>

datatype fetch_phase = AtHead | AtWait | AtExit

text \<open>A thread in \<^verbatim>\<open>WnbdDispatchRequest\<close>: its device, where it is, its buffer size, its variables.\<close>

record fetch_thread =
  FDev :: ptr
  FPhase :: fetch_phase
  FSize :: u32
  FVars :: disp

record 'r traffic =
  Drv :: "'r driver"
  Fetches :: "fetch_thread list"
  Accepted :: "ptr list"
  Lost :: "(u64 \<times> ptr) list"
  PortDone :: "(port_call \<times> ptr) list"

text \<open>
  What the port driver does when the driver calls \<^verbatim>\<open>StorPortCompleteRequest\<close>: it completes
  requests it handed over and whose address the call names; 0xFF stands for every target and every
  unit. Which of them is its choice; it completes no request more often than it handed it over.
  These completions do not go through the driver and stay in a list of their own.
\<close>

definition addressed :: "port_call \<Rightarrow> SRB \<Rightarrow> bool" where
  "addressed c b \<longleftrightarrow> SrbPathId b = PcPath c \<and> PcTarget c \<in> {SrbTargetId b, 0xFF} \<and> PcLun c \<in> {SrbLun b, 0xFF}"

definition port_completes ::
  "port_call list \<Rightarrow> kmem \<Rightarrow> ptr list \<Rightarrow> (port_call \<times> ptr) list \<Rightarrow> (port_call \<times> ptr) list \<Rightarrow> bool" where
  "port_completes calls m accepted pd new \<longleftrightarrow>
     (\<forall>(c, s) \<in> set new. c \<in> set calls \<and> addressed c (Srbs m s)) \<and>
     mset (map snd new) \<subseteq># mset accepted - mset (map snd pd)"

lemma port_completes_nil [simp]: "port_completes [] m accepted pd new \<longleftrightarrow> new = []"
  by (cases new) (auto simp: port_completes_def)

text \<open>Every completion the port driver has seen: by the driver, and its own.\<close>

definition completions :: "'r traffic \<Rightarrow> ptr list" where
  "completions T = Notified (DrvMem (Drv T)) @ map snd (PortDone T)"

text \<open>The variables of a thread with the memory and the device as they are now.\<close>

definition load :: "'r driver \<Rightarrow> fetch_thread \<Rightarrow> disp" where
  "load D t = (FVars t)\<lparr>DMem := DrvMem D, DDev := Devices (DrvExt D) (FDev t)\<rparr>"

definition put_device :: "'r driver \<Rightarrow> ptr \<Rightarrow> kmem \<Rightarrow> WNBD_DISK_DEVICE \<Rightarrow> 'r driver" where
  "put_device D p m d = D\<lparr>DrvMem := m, DrvExt := dev_upd p (\<lambda>_. d) (DrvExt D)\<rparr>"

section \<open>Steps\<close>

inductive traffic_step :: "'r traffic \<Rightarrow> 'r traffic \<Rightarrow> bool" where
  start: "WnbdHwStartIo env (DrvOptions D) ext Srb (DrvMem D, DrvExt D) = Some (calls, m, x) \<Longrightarrow>
    fresh (IoPool env) (DrvMem D) \<Longrightarrow> port_completes calls (DrvMem D) (acc @ [Srb]) pd new \<Longrightarrow>
    traffic_step \<lparr>Drv = D, Fetches = ts, Accepted = acc, Lost = lost, PortDone = pd\<rparr>
      \<lparr>Drv = D\<lparr>DrvMem := m, DrvExt := x\<rparr>, Fetches = ts, Accepted = acc @ [Srb], Lost = lost, PortDone = pd @ new\<rparr>"
| reset_bus: "WnbdHwResetBus PathId = (ok, call) \<Longrightarrow> port_completes [call] (DrvMem D) acc pd new \<Longrightarrow>
    traffic_step \<lparr>Drv = D, Fetches = ts, Accepted = acc, Lost = lost, PortDone = pd\<rparr>
      \<lparr>Drv = D, Fetches = ts, Accepted = acc, Lost = lost, PortDone = pd @ new\<rparr>"
| command: "r \<in> results (WnbdParseUserIOCTL env irp D) \<Longrightarrow> ioctl_env_ok env D \<Longrightarrow>
    \<forall>c. SystemBuffer irp = Some c \<longrightarrow> command_ok c \<and> (\<forall>i req user bsz. c \<noteq> IOCTL_WNBD_FETCH_REQ i req user bsz) \<Longrightarrow>
    traffic_step \<lparr>Drv = D, Fetches = ts, Accepted = acc, Lost = lost, PortDone = pd\<rparr>
      \<lparr>Drv = RDriver r, Fetches = ts, Accepted = acc, Lost = lost, PortDone = pd\<rparr>"
| fetch_call: "WnbdFindDeviceByConnId i True (DrvExt D) = (Some p, x) \<Longrightarrow> owner pid (Devices x p) \<Longrightarrow>
    traffic_step \<lparr>Drv = D, Fetches = ts, Accepted = acc, Lost = lost, PortDone = pd\<rparr>
      \<lparr>Drv = D\<lparr>DrvExt := x\<rparr>, Fetches = ts @ [\<lparr>FDev = p, FPhase = AtHead, FSize = bsz,
         FVars = start_disp req user (DrvMem D, Devices x p)\<rparr>], Accepted = acc, Lost = lost, PortDone = pd\<rparr>"
| loop_test: "FPhase t = AtHead \<Longrightarrow>
    traffic_step \<lparr>Drv = D, Fetches = ts @ t # us, Accepted = acc, Lost = lost, PortDone = pd\<rparr>
      \<lparr>Drv = D, Fetches = ts @ t\<lparr>FPhase := if HardRemoveDevice (Devices (DrvExt D) (FDev t)) then AtExit else AtWait\<rparr> # us,
       Accepted = acc, Lost = lost, PortDone = pd\<rparr>"
| loop_body: "FPhase t = AtWait \<Longrightarrow> dispatch_iter (FSize t) env (load D t) = Some (stop, y) \<Longrightarrow>
    lock_code_ok (EnvLock env) \<Longrightarrow> RequestHandleCounter (DrvMem D) \<noteq> - 1 \<Longrightarrow>
    traffic_step \<lparr>Drv = D, Fetches = ts @ t # us, Accepted = acc, Lost = lost, PortDone = pd\<rparr>
      \<lparr>Drv = put_device D (FDev t) (DMem y) (DDev y),
       Fetches = ts @ t\<lparr>FPhase := if stop then AtExit else AtHead, FVars := y\<rparr> # us, Accepted = acc,
       Lost = lost @ map (Pair (ConnectionId (Devices (DrvExt D) (FDev t))))
         (dropped env (DrvMem D) (Devices (DrvExt D) (FDev t))), PortDone = pd\<rparr>"
| fetch_return: "FPhase t = AtExit \<Longrightarrow> y = dispatch_exit (load D t) \<Longrightarrow>
    traffic_step \<lparr>Drv = D, Fetches = ts @ t # us, Accepted = acc, Lost = lost, PortDone = pd\<rparr>
      \<lparr>Drv = put_device D (FDev t) (DMem y) (WnbdReleaseDevice (DDev y)), Fetches = ts @ us, Accepted = acc, Lost = lost, PortDone = pd\<rparr>"
| monitor: "monitor_step (DrvMem D, DrvExt D) (m, x) \<Longrightarrow>
    traffic_step \<lparr>Drv = D, Fetches = ts, Accepted = acc, Lost = lost, PortDone = pd\<rparr>
      \<lparr>Drv = D\<lparr>DrvMem := m, DrvExt := x\<rparr>, Fetches = ts, Accepted = acc, Lost = lost, PortDone = pd\<rparr>"
| pnp: "(St, Irp', m, x) \<in> results (pnp_request (DrvOptions D) env DeviceObject Irp (DrvMem D, DrvExt D)) \<Longrightarrow>
    traffic_step \<lparr>Drv = D, Fetches = ts, Accepted = acc, Lost = lost, PortDone = pd\<rparr>
      \<lparr>Drv = D\<lparr>DrvMem := m, DrvExt := x\<rparr>, Fetches = ts, Accepted = acc, Lost = lost, PortDone = pd\<rparr>"
| cleanup: "traffic_step \<lparr>Drv = D, Fetches = ts, Accepted = acc, Lost = lost, PortDone = pd\<rparr>
      \<lparr>Drv = D\<lparr>DrvExt := WnbdCleanupAllDevices (DrvExt D)\<rparr>, Fetches = ts, Accepted = acc, Lost = lost, PortDone = pd\<rparr>"

section \<open>The invariant\<close>

definition on_device :: "ptr \<Rightarrow> fetch_thread list \<Rightarrow> nat" where
  "on_device p ts = length (filter (\<lambda>t. FDev t = p) ts)"

text \<open>
  The device of a thread is listed, the references of a device are its threads, and a thread
  holds a descriptor list only when it has left the loop.
\<close>

definition threads_ok :: "fetch_thread list \<Rightarrow> kmem \<Rightarrow> WNBD_EXTENSION \<Rightarrow> bool" where
  "threads_ok ts m x \<longleftrightarrow>
     (\<forall>t \<in> set ts. FDev t \<in> devs x \<and> (FPhase t \<noteq> AtExit \<longrightarrow> no_lock (FVars t)) \<and>
        (BufferLocked (DVars (FVars t)) \<longrightarrow> Mdl (DVars (FVars t)))) \<and>
     (\<forall>p \<in> devs x. RdCount (RundownProtection (Devices x p)) = on_device p ts) \<and>
     Mdls m = length (filter (\<lambda>t. Mdl (DVars (FVars t))) ts) \<and>
     LockedMdls m = length (filter (\<lambda>t. BufferLocked (DVars (FVars t))) ts)"

definition core_ok :: "fetch_thread list \<Rightarrow> ptr list \<Rightarrow> (u64 \<times> ptr) list \<Rightarrow> kmem \<Rightarrow> WNBD_EXTENSION \<Rightarrow> bool" where
  "core_ok ts acc lost m x \<longleftrightarrow> adapter_ok x \<and> io_ok acc lost m x \<and> threads_ok ts m x"

text \<open>Only the two resets make the port driver complete requests, and each at most as often as it handed it over.\<close>

definition port_ok :: "ptr list \<Rightarrow> (port_call \<times> ptr) list \<Rightarrow> bool" where
  "port_ok accepted pd \<longleftrightarrow> mset (map snd pd) \<subseteq># mset accepted \<and>
     (\<forall>c \<in> fst ` set pd. PcStatus c \<in> {SRB_STATUS_TIMEOUT, SRB_STATUS_BUS_RESET})"

lemma port_ok_nil [simp]: "port_ok accepted []"
  by (simp add: port_ok_def)

lemma port_ok_more:
  assumes "port_ok accepted pd" "port_completes calls m (accepted @ ss) pd new"
    and "\<forall>c \<in> set calls. PcStatus c \<in> {SRB_STATUS_TIMEOUT, SRB_STATUS_BUS_RESET}"
  shows "port_ok (accepted @ ss) (pd @ new)"
proof -
  have "mset (map snd pd) \<subseteq># mset (accepted @ ss)"
    using assms(1) by (auto simp: port_ok_def intro: subset_mset.order_trans)
  with assms(2) have "mset (map snd (pd @ new)) \<subseteq># mset (accepted @ ss)"
    by (simp add: port_completes_def subset_mset.le_diff_conv2 add.commute)
  then show ?thesis using assms by (fastforce simp: port_ok_def port_completes_def)
qed

lemma start_calls:
  assumes "WnbdHwStartIo env opts ext Srb (m, x) = Some (calls, m', x')"
  shows "calls = [] \<or> SrbFunction (Srbs m Srb) = SRB_FUNCTION_RESET_DEVICE \<and>
    calls = [StorPortCompleteRequest (SrbPathId (Srbs m Srb)) (SrbTargetId (Srbs m Srb)) (SrbLun (Srbs m Srb)) SRB_STATUS_TIMEOUT]"
  using assms
  by (auto simp: WnbdHwStartIo_def WnbdResetDeviceFunction_def Let_def bind_eq_Some_conv split: if_splits)

definition traffic_ok :: "'r traffic \<Rightarrow> bool" where
  "traffic_ok T \<longleftrightarrow> opts_ok (DrvOptions (Drv T)) \<and> port_ok (Accepted T) (PortDone T) \<and>
     core_ok (Fetches T) (Accepted T) (Lost T) (DrvMem (Drv T)) (DrvExt (Drv T))"

lemma threads_frame:
  assumes "threads_ok ts m x" "DeviceList x' = DeviceList x" "Mdls m' = Mdls m" "LockedMdls m' = LockedMdls m"
    and "\<And>p. p \<in> devs x \<Longrightarrow> RdCount (RundownProtection (Devices x' p)) = RdCount (RundownProtection (Devices x p))"
  shows "threads_ok ts m' x'"
  using assms by (simp add: threads_ok_def)

text \<open>A change of devices that concerns neither requests nor references.\<close>

lemma core_like:
  assumes "core_ok ts acc lost m x" "adapter_ok x'" "DeviceList x' = DeviceList x"
    and "ConnectionIdCounter x \<le> ConnectionIdCounter x'"
    and "\<And>p. p \<in> devs x \<Longrightarrow> like (Devices x p) (Devices x' p) \<and>
      RdCount (RundownProtection (Devices x' p)) = RdCount (RundownProtection (Devices x p))"
  shows "core_ok ts acc lost m x'"
  using assms io_like [of acc lost m x x'] threads_frame [of ts m x x' m] by (auto simp: core_ok_def)

text \<open>An operation on one device that gives its references back.\<close>

lemma core_act:
  assumes "core_ok ts acc lost m x" "p \<in> devs x" "moved ins outs gone (m, Devices x p) (m', d')"
    and "same_identity (Devices x p) d'" "Mdls m' = Mdls m" "LockedMdls m' = LockedMdls m"
    and "RdCount (RundownProtection d') = RdCount (RundownProtection (Devices x p))"
  shows "core_ok ts (acc @ ins) (lost @ map (Pair (ConnectionId (Devices x p))) gone) m' (dev_upd p (\<lambda>_. d') x)"
proof -
  have id: "ConnectionId d' = ConnectionId (Devices x p)" using assms(4) by (simp add: same_identity_def)
  have "threads_ok ts m' (dev_upd p (\<lambda>_. d') x)"
    by (rule threads_frame [of ts m x]) (use assms in \<open>auto simp: core_ok_def\<close>)
  then show ?thesis
    using assms(1,2,4) io_act [OF _ _ assms(2,3) id] adapter_ok_dev_upd [of x p "\<lambda>_. d'"] id
    by (simp add: core_ok_def)
qed

lemma core_mem:
  assumes "core_ok ts acc lost m x" "Elems m' = Elems m" "Allocated m' = Allocated m"
    and "RequestHandleCounter m' = RequestHandleCounter m" "Notified m' = Notified m @ ns"
    and "Mdls m' = Mdls m" "LockedMdls m' = LockedMdls m"
  shows "core_ok ts (acc @ ns) lost m' x"
  using assms io_mem [OF _ assms(2-5)] by (auto simp: core_ok_def threads_ok_def)

section \<open>Devices found and released\<close>

lemma acquired_identity [simp]:
  "same_identity d (acquired d)" "like d (acquired d)" "elems_of (acquired d) = elems_of d" "queued (acquired d) = queued d"
  by (simp_all add: same_identity_def like_def acquired_def linked_def queued_def)

lemma released_identity [simp]:
  "same_identity d (WnbdReleaseDevice d') = same_identity d d'" "elems_of (WnbdReleaseDevice d) = elems_of d"
  "queued (WnbdReleaseDevice d) = queued d" "HardRemoveDevice (WnbdReleaseDevice d) = HardRemoveDevice d"
  "ConnectionId (WnbdReleaseDevice d) = ConnectionId d"
  "like d0 (WnbdReleaseDevice d) = like d0 d"
  by (simp_all add: same_identity_def WnbdReleaseDevice_def linked_def queued_def like_def)

lemma moved_acquired:
  "moved ins outs gone (m, acquired d) (m', d') \<Longrightarrow> moved ins outs gone (m, d) (m', WnbdReleaseDevice d')"
  by (simp add: moved_def stats_ok_def)

lemma found:
  assumes "find_device P True ps x = (Some p, y)" "set ps \<subseteq> devs x"
  shows "p \<in> devs x" "y = dev_upd p acquired x" "P (Devices x p)" "\<not> RdStarted (RundownProtection (Devices x p))"
  using find_device_Some [OF assms(1)] assms(2) by (auto simp: acquired_def)

lemma found_id:
  assumes "adapter_ok x" "WnbdFindDeviceByConnId i True x = (Some p, y)"
  shows "p \<in> devs x" "y = dev_upd p acquired x" "ConnectionId (Devices x p) = i"
    "\<not> RdStarted (RundownProtection (Devices x p))"
proof -
  have "WNBD_CONN_ID_BUCKET i < length (ConnIdHashBuckets x)" using assms(1) by (simp add: adapter_defs indexed_def)
  then have "set (ConnIdHashBuckets x ! WNBD_CONN_ID_BUCKET i) \<subseteq> devs x"
    using assms(1) by (auto simp: adapter_defs indexed_def)
  from found [OF assms(2) [unfolded WnbdFindDeviceByConnId_def] this]
  show "p \<in> devs x" "y = dev_upd p acquired x" "ConnectionId (Devices x p) = i"
    "\<not> RdStarted (RundownProtection (Devices x p))" by simp_all
qed

lemma found_name:
  assumes "WnbdFindDeviceByInstanceName n True x = (Some p, y)"
  shows "p \<in> devs x" "y = dev_upd p acquired x" "\<not> RdStarted (RundownProtection (Devices x p))"
  using found [OF assms [unfolded WnbdFindDeviceByInstanceName_def]] by simp_all

lemma found_addr:
  assumes "WnbdFindDeviceByAddr b t l True x = (Some p, y)"
  shows "p \<in> devs x" "y = dev_upd p acquired x"
  using found [OF assms [unfolded WnbdFindDeviceByAddr_def]] by simp_all

lemma found_none:
  "WnbdFindDeviceByConnId i a x = (None, y) \<Longrightarrow> y = x" "WnbdFindDeviceByInstanceName n a x = (None, y) \<Longrightarrow> y = x"
  "WnbdFindDeviceByAddr b t l a x = (None, y) \<Longrightarrow> y = x"
  using find_device_None by (auto simp: WnbdFindDeviceByConnId_def WnbdFindDeviceByInstanceName_def WnbdFindDeviceByAddr_def)

text \<open>The operation runs on the device with a reference taken and gives the reference back.\<close>

lemma core_act_acquired:
  assumes "core_ok ts acc lost m x" "p \<in> devs x" "moved ins outs gone (m, acquired (Devices x p)) (m', d')"
    and "same_identity (Devices x p) d'" "Mdls m' = Mdls m" "LockedMdls m' = LockedMdls m"
    and "RundownProtection d' = RundownProtection (acquired (Devices x p))"
  shows "core_ok ts (acc @ ins) (lost @ map (Pair (ConnectionId (Devices x p))) gone) m'
    (dev_upd p (\<lambda>_. WnbdReleaseDevice d') (dev_upd p acquired x))"
  using core_act [OF assms(1,2) moved_acquired [OF assms(3)] _ assms(5,6)] assms(4) release_acquired [OF assms(7)] by simp

section \<open>Starting requests\<close>

lemma core_drains:
  assumes "core_ok ts acc lost m x" "DrainDeviceQueues opts now stale Srb (m, x) = (st, m', x')"
  shows "core_ok ts acc lost m' x'"
proof -
  let ?b = "Srbs m Srb"
  obtain r y where f: "WnbdFindDeviceByAddr (SrbPathId ?b) (SrbTargetId ?b) (SrbLun ?b) True x = (r, y)"
    by (cases "WnbdFindDeviceByAddr (SrbPathId ?b) (SrbTargetId ?b) (SrbLun ?b) True x")
  show ?thesis
  proof (cases r)
    case None
    with f have "y = x" using found_none(3) by simp
    with None f assms show ?thesis by (auto simp: DrainDeviceQueues_def)
  next
    case (Some p)
    note fd = found_addr [OF f [unfolded Some]]
    let ?d = "acquired (Devices x p)"
    obtain m1 d1 where D1: "DrainDeviceQueue opts now False stale (m, ?d) = (m1, d1)"
      by (cases "DrainDeviceQueue opts now False stale (m, ?d)")
    obtain m2 d2 where D2: "DrainDeviceQueue opts now True stale (m1, d1) = (m2, d2)"
      by (cases "DrainDeviceQueue opts now True stale (m1, d1)")
    have q: "queues_ok m ?d" using assms(1) fd(1) by (simp add: core_ok_def io_ok_def)
    note mv = moved_trans [OF moved_drain [OF q D1] moved_drain [OF DrainDeviceQueue_ok(1) [OF q D1] D2]]
    have id: "same_identity (Devices x p) d2"
      using drain_identity(1) [OF D1] drain_identity(1) [OF D2] acquired_identity(1) by (blast intro: same_identity_trans)
    have r: "m' = m2" "x' = dev_upd p (\<lambda>_. WnbdReleaseDevice d2) (dev_upd p acquired x)"
      using assms(2) f Some fd(2) D1 D2 by (auto simp: DrainDeviceQueues_def Let_def)
    show ?thesis
      using core_act_acquired [OF assms(1) fd(1) mv id] foot_drain_mdls [OF D1] foot_drain_mdls [OF D2]
        drain_identity(3) [OF D1] drain_identity(3) [OF D2] by (simp add: r)
  qed
qed

lemma core_execute:
  assumes "core_ok ts acc lost m x" "fresh a m"
    and "WnbdExecuteScsiFunction ext a now Srb (m, x) = Some (st, Complete, m', x')"
  shows "core_ok ts (if Complete then acc else acc @ [Srb]) lost m' x'"
proof -
  let ?b = "Srbs m Srb"
  obtain r y where f: "WnbdFindDeviceByAddr (SrbPathId ?b) (SrbTargetId ?b) (SrbLun ?b) True x = (r, y)"
    by (cases "WnbdFindDeviceByAddr (SrbPathId ?b) (SrbTargetId ?b) (SrbLun ?b) True x")
  show ?thesis
  proof (cases r)
    case None
    with f have "y = x" using found_none(3) by simp
    with None f assms show ?thesis by (auto simp: WnbdExecuteScsiFunction_def)
  next
    case (Some p)
    note fd = found_addr [OF f [unfolded Some]]
    let ?d = "Devices x p"
    have q: "queues_ok m ?d" using assms(1) fd(1) by (simp add: core_ok_def io_ok_def)
    show ?thesis
    proof (cases "HardRemoveDevice ?d")
      case True
      then have "Complete" "m' = m" "x' = dev_upd p (\<lambda>_. WnbdReleaseDevice (acquired ?d)) (dev_upd p acquired x)"
        using assms(3) f Some fd(2) by (simp_all add: WnbdExecuteScsiFunction_def dev_upd_def acquired_def)
      with core_act_acquired [OF assms(1) fd(1) moved_refl] q show ?thesis by simp
    next
      case False
      then obtain St d2 where h: "WnbdHandleSrbOperation ext Srb a now (m, count_io 1 (acquired ?d)) = Some (St, m', d2)"
        "Complete = (St \<noteq> STATUS_PENDING)"
        "x' = dev_upd p (\<lambda>_. WnbdReleaseDevice (if Complete then count_io (- 1) d2 else d2)) (dev_upd p acquired x)"
        using assms(3) f Some fd(2)
        by (auto simp: WnbdExecuteScsiFunction_def bind_eq_Some_conv Let_def count_io_def acquired_def split: if_splits)
      let ?d' = "if Complete then count_io (- 1) d2 else d2"
      have ex: "executed Srb Complete (m, ?d) (m', WnbdReleaseDevice ?d')"
        using handled_executed [OF q assms(2) h(1)] h(2) by (simp add: if_distrib cong: if_cong)
      have ft: "foot b (elems_of ?d) m (elems_of ?d') m'" for b
        using foot_handle_srb [OF h(1) assms(2), of b] by (simp add: count_io_def)
      let ?ins = "if Complete then [] else [Srb]"
      have "mset (srbs_of m' (queued ?d')) = mset (srbs_of m (queued ?d)) + mset ?ins"
      proof -
        have "srbs_of m' (queued ?d) = srbs_of m (queued ?d)"
          by (rule srbs_of_cong) (use ex in \<open>auto simp: executed_def split: if_splits\<close>)
        moreover have "mset (srbs_of m' (queued ?d')) = mset (srbs_of m' (queued ?d)) + mset ?ins"
          using ex by (cases Complete) (auto simp: executed_def queued_def srbs_of_def count_io_def)
        ultimately show ?thesis by simp
      qed
      then have mv: "moved ?ins [] [] (m, ?d) (m', WnbdReleaseDevice ?d')"
        using ex ft [of False] False by (cases Complete) (simp_all add: moved_def executed_def)
      have id: "same_identity ?d (WnbdReleaseDevice ?d')"
        using handle_frame [OF h(1)] by (cases Complete) (simp_all add: same_identity_def count_io_def stat_upd_def acquired_def WnbdReleaseDevice_def)
      have rd: "RundownProtection (WnbdReleaseDevice ?d') = RundownProtection ?d" using ex by (simp add: executed_def)
      have x': "x' = dev_upd p (\<lambda>_. WnbdReleaseDevice ?d') x" using h(3) by simp
      have acc: "acc @ ?ins = (if Complete then acc else acc @ [Srb])" by simp
      show ?thesis
        using core_act [OF assms(1) fd(1) mv id _ _] rd ft [of True] unfolding acc x' by (simp add: foot_def)
    qed
  qed
qed

lemma core_complete:
  assumes "core_ok ts acc lost m x" "start_complete Srb (st, m, x) = (m', x')"
  shows "core_ok ts (acc @ [Srb]) lost m' x'"
  using core_mem [OF assms(1), of m' "[Srb]"] assms(2) by (auto simp: start_complete_def set_status_def Let_def)

lemma core_start:
  assumes "core_ok ts acc lost m x" "fresh (IoPool env) m" "WnbdHwStartIo env opts ext Srb (m, x) = Some (calls, m', x')"
  shows "core_ok ts (acc @ [Srb]) lost m' x'"
proof -
  let ?f = "SrbFunction (Srbs m Srb)"
  consider (exec) "?f = SRB_FUNCTION_EXECUTE_SCSI"
    | (drain) "?f \<in> {SRB_FUNCTION_ABORT_COMMAND, SRB_FUNCTION_RESET_LOGICAL_UNIT}"
    | (srb) h where "map_option (\<lambda>r. ([], start_complete Srb r)) (srb_only Srb h (m, x)) = Some (calls, m', x')"
    | (direct) st where "start_complete Srb (st, m, x) = (m', x')"
    using assms(3) by (auto simp: WnbdHwStartIo_def WnbdResetDeviceFunction_def Let_def split: if_splits)
  then show ?thesis
  proof cases
    case exec
    then obtain st Complete m1 x1 where e: "WnbdExecuteScsiFunction ext (IoPool env) (IoTime env) Srb (m, x) = Some (st, Complete, m1, x1)"
      "(m', x') = (if Complete then start_complete Srb (st, m1, x1) else (m1, x1))"
      using assms(3) by (auto simp: WnbdHwStartIo_def bind_eq_Some_conv)
    from core_execute [OF assms(1,2) e(1)] e(2) core_complete [of ts acc lost m1 x1 Srb st m' x'] show ?thesis
      by (cases Complete) auto
  next
    case drain
    obtain st m1 x1 where d: "DrainDeviceQueues opts (IoTime env) True Srb (m, x) = (st, m1, x1)"
      by (cases "DrainDeviceQueues opts (IoTime env) True Srb (m, x)")
    have "start_complete Srb (st, m1, x1) = (m', x')"
      using assms(3) drain d by (auto simp: WnbdHwStartIo_def WnbdAbortFunction_def WnbdResetLogicalUnitFunction_def)
    from core_complete [OF core_drains [OF assms(1) d] this] show ?thesis .
  next
    case (srb h)
    then obtain st b where "start_complete Srb (st, srb_upd Srb (\<lambda>_. b) m, x) = (m', x')"
      by (auto simp: srb_only_def bind_eq_Some_conv)
    moreover have "core_ok ts acc lost (srb_upd Srb (\<lambda>_. b) m) x"
      using core_mem [OF assms(1), of "srb_upd Srb (\<lambda>_. b) m" "[]"] by simp
    ultimately show ?thesis using core_complete by blast
  next
    case (direct st)
    from core_complete [OF assms(1) this] show ?thesis .
  qed
qed

section \<open>Commands\<close>

text \<open>The elements of a new device are new.\<close>

lemma initialize_foot:
  assumes "WnbdInitializeDevice env (m, d) = (St, m', d')" "pool_ok env m"
  shows "foot b {} m (elems_of d') m' \<and> Notified m' = Notified m"
proof -
  define d1 where "d1 = (WnbdInitSubmittedReqHash (d\<lparr>PendingReqListHead := [], SubmittedReqListHead := []\<rparr>))
     \<lparr>SrbElementPool := [], RundownProtection := rundown_init, DeviceEvent := 0, DeviceRemovalEvent := False\<rparr>"
  have e: "elems_of (d1\<lparr>DeviceMonitorThread := t\<rparr>) = {}" "elems_of d1 = {}" for t
    by (simp_all add: d1_def WnbdInitSubmittedReqHash_def linked_def)
  have pop: "foot b {} m (elems_of d2) m2 \<and> Notified m2 = Notified m"
    if "populate 256 (CePool env) (m, d1\<lparr>DeviceMonitorThread := t\<rparr>) = (m2, d2)" for t m2 d2
    using foot_populate [OF that] assms(2) e by (simp add: pool_ok_def)
  show ?thesis
    using assms(1) e unfolding WnbdInitializeDevice_def WnbdPopulateSrbElementPool_def Let_def prod.case d1_def [symmetric]
    by (auto simp: foot_refl split: prod.splits if_splits dest: pop)
qed

lemma create_foot:
  assumes "env_ok env m x" "WnbdCreateConnection env opts Props info (m, x) = (St, info', m', x')"
    and "CeDevice env = Some p" "St = STATUS_SUCCESS"
  shows "foot b {} m (elems_of (Devices x' p)) m' \<and> Notified m' = Notified m"
proof -
  have pool: "pool_ok env m" using assms(1) by (simp add: env_ok_def)
  have run: "\<exists>y. create_device env Props p info (m, y) = (St, info', m', x')"
    using assms(2-4) by (auto simp: WnbdCreateConnection_def by_name_unacquired Let_def split: if_splits prod.splits option.splits)
  then obtain n y where "create_addressed env p n info (m, y) = (St, info', m', x')"
    using assms(4) by (auto simp: create_device_def Let_def split: if_splits option.splits)
  then obtain d s m1 d' where i: "WnbdInitializeDevice env (m, d) = (s, m1, d')"
    and r: "m' = m1" "Devices x' p = d'\<lparr>Connected := True\<rparr>"
    using assms(4)
    by (auto simp: create_addressed_def create_publish_def Let_def split: if_splits prod.splits)
  have "elems_of (Devices x' p) = elems_of d'" by (simp add: r(2) linked_def)
  with initialize_foot [OF i pool, of b] r(1) show ?thesis by simp
qed

lemma core_create:
  assumes "core_ok ts acc lost m x" "env_ok env m x" "ConnectionIdCounter x \<noteq> - 1"
    and "WnbdCreateConnection env opts Props info (m, x) = (St, info', m', x')"
  shows "core_ok ts acc lost m' x'"
proof -
  have aok: "adapter_ok x" using assms(1) by (simp add: core_ok_def)
  have aok': "adapter_ok x'" by (rule create_step_ok [OF aok assms(2-4)])
  show ?thesis
  proof (rule WnbdCreateConnection_cases [OF aok assms(2-4)])
    assume "m' = m" "x' = x"
    with assms(1) show ?thesis by simp
  next
    assume "m' = m" "x' = referenced x"
    with core_like [OF assms(1) aok'] show ?thesis by simp
  next
    fix p assume h: "CeDevice env = Some p" "m' = m" "rolled_back p (referenced x) x'"
    have "p \<notin> devs x" using assms(2) h(1) aok by (auto simp: env_ok_def adapter_defs)
    then have "Devices x' q = Devices x q" if "q \<in> devs x" for q using h(3) that by (auto simp: rolled_back_def)
    moreover have "ConnectionIdCounter x \<le> ConnectionIdCounter x'"
      using h(3) word_less_inc [OF assms(3)] by (auto simp: rolled_back_def)
    ultimately show ?thesis using core_like [OF assms(1) aok'] h(2,3) by (simp add: rolled_back_def)
  next
    fix p assume h: "CeDevice env = Some p" "St = STATUS_SUCCESS" "created Props p (referenced x) x'"
      "queues_ok m' (Devices x' p)"
    have new: "p \<notin> devs x" using assms(2) h(1) aok by (auto simp: env_ok_def adapter_defs)
    have c: "DeviceList x' = DeviceList x @ [p]" "\<And>q. q \<noteq> p \<Longrightarrow> Devices x' q = Devices x q"
      "ConnectionIdCounter x' = ConnectionIdCounter x + 1" "ConnectionId (Devices x' p) = ConnectionIdCounter x + 1"
      "queued (Devices x' p) = []" "Stats (Devices x' p) = zero_stats" "RundownProtection (Devices x' p) = rundown_init"
      using h(3) by (simp_all add: created_def Let_def)
    have f: "foot True {} m (elems_of (Devices x' p)) m' \<and> Notified m' = Notified m"
      by (rule create_foot [OF assms(2,4) h(1,2)])
    note lt = word_less_inc [OF assms(3)]
    have "io_ok acc lost m' x'"
      by (rule io_add [OF _ aok new c(1,2), where b = True])
         (use assms(1) lt f c(3-6) h(4) in \<open>auto simp: core_ok_def stats_ok_def queued_def zero_stats_def less_imp_le\<close>)
    moreover have "threads_ok ts m' x'"
    proof -
      have "on_device p ts = 0" using assms(1) new by (auto simp: core_ok_def threads_ok_def on_device_def filter_empty_conv)
      moreover have "Devices x' q = Devices x q" if "q \<in> devs x" for q using c(2) [of q] new that by metis
      ultimately show ?thesis using assms(1) f c(1,7) by (simp add: core_ok_def threads_ok_def foot_def rundown_init_def)
    qed
    ultimately show ?thesis using aok' by (simp add: core_ok_def)
  qed
qed

text \<open>A device found by name, looked at and released: nothing changes.\<close>

lemma release_acquired_same: "dev_upd p WnbdReleaseDevice (dev_upd p acquired x) = x"
proof -
  have "WnbdReleaseDevice (acquired d) = d" for d
    by (simp add: WnbdReleaseDevice_def acquired_def ExReleaseRundownProtection_def)
  then show ?thesis by (simp add: dev_upd_def)
qed

lemma query_same:
  assumes "r \<in> results (ioctl_query isz osz f irp n D)" shows "RDriver r = D"
  using assms
  by (auto simp: ioctl_query_def Let_def release_acquired_same split: if_splits option.splits prod.splits
      dest: found_name(2) found_none(2))

lemma core_resize:
  assumes "core_ok ts acc lost m x" "WnbdSetDiskSize i n x = (St, x')"
  shows "core_ok ts acc lost m x'"
proof -
  have aok: "adapter_ok x" using assms(1) by (simp add: core_ok_def)
  obtain r y where f: "WnbdFindDeviceByConnId i True x = (r, y)" by (cases "WnbdFindDeviceByConnId i True x")
  show ?thesis
  proof (cases r)
    case None
    with f have "y = x" using found_none(1) by simp
    with None f assms show ?thesis by (auto simp: WnbdSetDiskSize_def)
  next
    case (Some p)
    note fd = found_id [OF aok f [unfolded Some]]
    have "x' = dev_upd p (\<lambda>d. WnbdReleaseDevice (d\<lparr>Properties := (Properties d)\<lparr>BlockCount := n\<rparr>\<rparr>)) (dev_upd p acquired x)"
      using assms(2) f Some fd(2) by (simp add: WnbdSetDiskSize_def)
    then show ?thesis
      by (intro core_like [OF assms(1) resize_ok [OF aok assms(2)]])
         (auto simp: like_def WnbdReleaseDevice_def acquired_def ExReleaseRundownProtection_def)
  qed
qed

lemma core_wake: "core_ok ts acc lost m x \<Longrightarrow> core_ok ts acc lost m (monitor_wake p x)"
  by (rule core_like [of _ _ _ _ x])
     (simp_all add: core_ok_def monitor_wake_ok, simp_all add: monitor_wake_def like_def ExRundownWait_def)

lemma core_disconnect:
  assumes "core_ok ts acc lost m x"
  shows "core_ok ts acc lost m (dev_upd p WnbdDisconnectSync (dev_upd p acquired x))"
proof -
  have "WnbdDisconnectSync (acquired d) = d\<lparr>DeviceRemovalEvent := True\<rparr>" for d
    by (simp add: WnbdDisconnectSync_def WnbdReleaseDevice_def acquired_def ExReleaseRundownProtection_def)
  then have e: "dev_upd p WnbdDisconnectSync (dev_upd p acquired x) = dev_upd p (\<lambda>d. d\<lparr>DeviceRemovalEvent := True\<rparr>) x"
    by (simp add: dev_upd_def)
  show ?thesis unfolding e
    by (rule core_like [OF assms], rule adapter_ok_dev_upd)
       (use assms in \<open>auto simp: core_ok_def same_identity_def like_def\<close>)
qed

lemma core_teardown:
  assumes "core_ok ts acc lost m x" "p \<in> devs x" "ExRundownDone (RundownProtection (Devices x p))"
    and "monitor_teardown opts now p (m, x) = (m', x')"
  shows "core_ok ts acc lost m' x'"
proof -
  have aok: "adapter_ok x" "io_ok acc lost m x" "threads_ok ts m x" using assms(1) by (simp_all add: core_ok_def)
  note td = io_teardown [OF aok(1,2) assms(2,4)]
  have ds: "devs x' = devs x - {p}" using td(4) adapter_ok_distinct [OF aok(1)] by (simp add: removed_def)
  have none: "on_device p ts = 0" using aok(3) assms(2,3) by (auto simp: threads_ok_def ExRundownDone_def)
  then have "\<forall>t \<in> set ts. FDev t \<noteq> p" by (simp add: on_device_def filter_empty_conv)
  then have "threads_ok ts m' x'" using aok(3) td(2-4) ds by (auto simp: threads_ok_def removed_def)
  with td(1) removed_ok [OF aok(1) assms(2) td(4)] show ?thesis by (simp add: core_ok_def)
qed

text \<open>A disk that was looked up is disconnected, and its monitor thread runs to its end.\<close>

lemma core_removal:
  assumes "core_ok ts acc lost m x" "p \<in> devs x"
    and "WnbdDeviceMonitorThread opts now p (m, dev_upd p WnbdDisconnectSync (dev_upd p acquired x)) = Some (m', x')"
  shows "core_ok ts acc lost m' x'"
proof -
  define z where "z = monitor_wake p (dev_upd p WnbdDisconnectSync (dev_upd p acquired x))"
  have "core_ok ts acc lost m z" unfolding z_def by (intro core_wake core_disconnect assms(1))
  moreover have "p \<in> devs z" using assms(2) by (simp add: z_def monitor_wake_def)
  moreover have "ExRundownDone (RundownProtection (Devices z p))" "monitor_teardown opts now p (m, z) = (m', x')"
    using assms(3) by (auto simp: WnbdDeviceMonitorThread_def z_def Let_def split: if_splits)
  ultimately show ?thesis by (rule core_teardown)
qed

lemma core_delete:
  assumes "core_ok ts acc lost m x" "WnbdDeleteConnection opts now n (m, x) = Some (St, m', x')"
  shows "core_ok ts acc lost m' x'"
proof -
  obtain r y where f: "WnbdFindDeviceByInstanceName n True x = (r, y)" by (cases "WnbdFindDeviceByInstanceName n True x")
  show ?thesis
  proof (cases r)
    case None
    with f have "y = x" using found_none(2) by simp
    with None f assms show ?thesis by (auto simp: WnbdDeleteConnection_def)
  next
    case (Some p)
    note fd = found_name [OF f [unfolded Some]]
    show ?thesis
      by (rule core_removal [OF assms(1) fd(1), of opts now])
         (use f Some assms(2) fd(2) in \<open>auto simp: WnbdDeleteConnection_def Let_def split: option.splits\<close>)
  qed
qed

section \<open>Plug and Play requests\<close>

lemma core_start_device:
  assumes "core_ok ts acc lost m x" shows "core_ok ts acc lost m (start_device env DeviceObject x)"
proof -
  have keep: "core_ok ts acc lost m (dev_upd p F x)"
    if "\<And>d. same_identity d (F d) \<and> like d (F d) \<and> RdCount (RundownProtection (F d)) = RdCount (RundownProtection d)" for p F
    by (rule core_like [OF assms], rule adapter_ok_dev_upd) (use that assms in \<open>auto simp: core_ok_def\<close>)
  have upd: "dev_upd p f (dev_upd p g x) = dev_upd p (\<lambda>d. f (g d)) x" for p f g x by (simp add: dev_upd_def)
  show ?thesis
    using assms
    by (auto simp: start_device_def find_by_address_def Let_def upd same_identity_def like_def WnbdReleaseDevice_def
        acquired_def ExReleaseRundownProtection_def split: prod.splits option.splits
        dest!: found_none(3) found_addr(2) intro!: keep)
qed

lemma removal_target_core:
  assumes "removal_target env DeviceObject x = Returned (r, y)"
  shows "case r of None \<Rightarrow> y = x | Some p \<Rightarrow> p \<in> devs x \<and> y = dev_upd p acquired x"
  using assms release_acquired_same
  by (auto simp: removal_target_def find_by_address_def split: if_splits option.splits prod.splits
      dest: found_addr dest!: found_none(3))

lemma removal_target_returns: "removal_target env DeviceObject x \<noteq> Waiting w"
  by (auto simp: removal_target_def split: option.splits prod.splits)

lemma core_query_remove:
  assumes "core_ok ts acc lost m x" "(b, x') \<in> results (query_remove_device env DeviceObject x)"
  shows "core_ok ts acc lost m x'"
proof -
  obtain r y where t: "removal_target env DeviceObject x = Returned (r, y)"
    using assms(2) removal_target_returns [of env DeviceObject x]
    by (cases "removal_target env DeviceObject x") (auto simp: query_remove_device_def)
  then show ?thesis
    using assms removal_target_core [OF t] release_acquired_same
    by (cases r) (auto simp: query_remove_device_def)
qed

lemma core_remove_device:
  assumes "core_ok ts acc lost m x" "(m', x') \<in> results (remove_device opts env DeviceObject (m, x))"
  shows "core_ok ts acc lost m' x'"
proof -
  obtain r y where t: "removal_target env DeviceObject x = Returned (r, y)"
    using assms(2) removal_target_returns [of env DeviceObject x]
    by (cases "removal_target env DeviceObject x") (auto simp: remove_device_def)
  show ?thesis
  proof (cases r)
    case None
    with assms t removal_target_core [OF t] show ?thesis by (auto simp: remove_device_def)
  next
    case (Some p)
    with removal_target_core [OF t] have y: "p \<in> devs x" "y = dev_upd p acquired x" by simp_all
    with assms t Some core_disconnect [OF assms(1), of p] core_removal [OF assms(1) y(1), of opts "PeTime env" m' x'] show ?thesis
      by (auto simp: remove_device_def Let_def split: option.splits)
  qed
qed

lemma core_pnp:
  assumes "core_ok ts acc lost m x" "(St, Irp', m', x') \<in> results (pnp_request opts env DeviceObject Irp (m, x))"
  shows "core_ok ts acc lost m' x'"
  using assms core_start_device [OF assms(1)] core_query_remove [OF assms(1), of _ _ env DeviceObject]
    core_remove_device [OF assms(1), of _ _ opts env DeviceObject]
  by (auto simp: pnp_request_def split: pnp_minor.splits run.splits prod.splits if_splits)

section \<open>Replies\<close>

lemma core_send:
  assumes "core_ok ts acc lost m x" "WnbdFindDeviceByConnId i True x = (Some p, y)"
    and "WnbdHandleResponse pid rsp lk stor now (m, Devices y p) = Some (St, m', d)"
  shows "core_ok ts acc lost m' (dev_upd p (\<lambda>_. WnbdReleaseDevice d) y)"
proof -
  have aok: "adapter_ok x" using assms(1) by (simp add: core_ok_def)
  note fd = found_id [OF aok assms(2)]
  have q: "queues_ok m (acquired (Devices x p))" using assms(1) fd(1) by (simp add: core_ok_def io_ok_def)
  have run: "WnbdHandleResponse pid rsp lk stor now (m, acquired (Devices x p)) = Some (St, m', d)"
    using assms(3) by (simp add: fd(2))
  obtain outs where mv: "moved [] outs [] (m, acquired (Devices x p)) (m', d)" "Mdls m' = Mdls m" "LockedMdls m' = LockedMdls m"
    using moved_reply [OF q run] by blast
  have st: "steady (acquired (Devices x p)) d" by (rule WnbdHandleResponse_steady [OF run])
  then have "same_identity (Devices x p) d"
    using same_identity_trans [OF acquired_identity(1)] by (simp add: steady_def)
  from core_act_acquired [OF assms(1) fd(1) mv(1) this mv(2,3)] st show ?thesis by (simp add: steady_def fd(2))
qed

definition driver_core :: "fetch_thread list \<Rightarrow> ptr list \<Rightarrow> (u64 \<times> ptr) list \<Rightarrow> 'r driver \<Rightarrow> bool" where
  "driver_core ts acc lost D \<longleftrightarrow> core_ok ts acc lost (DrvMem D) (DrvExt D)"

lemma driver_core_upd [simp]:
  "driver_core ts acc lost (D\<lparr>DrvMem := m, DrvExt := x\<rparr>) = core_ok ts acc lost m x"
  "driver_core ts acc lost (D\<lparr>DrvExt := x\<rparr>) = core_ok ts acc lost (DrvMem D) x"
  "driver_core ts acc lost (D\<lparr>DrvOptions := opts\<rparr>) = driver_core ts acc lost D"
  "driver_core ts acc lost (D\<lparr>DrvRegistry := reg\<rparr>) = driver_core ts acc lost D"
  by (simp_all add: driver_core_def)

lemma core_remove:
  assumes "driver_core ts acc lost D" "r \<in> results (ioctl_remove env irp n D)"
  shows "driver_core ts acc lost (RDriver r)"
proof -
  have c: "core_ok ts acc lost (DrvMem D) (DrvExt D)" using assms(1) by (simp add: driver_core_def)
  have started: "core_ok ts acc lost (DrvMem D) (delete_started n (DrvExt D))" for n
    unfolding delete_started_def
    by (auto split: option.splits prod.splits dest!: found_none(2) found_name(2) intro: c core_disconnect)
  show ?thesis using assms started core_delete [OF c]
    by (auto simp: ioctl_remove_def Let_def split: if_splits option.splits prod.splits)
qed

lemma core_send_command:
  assumes "driver_core ts acc lost D" "r \<in> results (ioctl_send env irp i rsp D)"
  shows "driver_core ts acc lost (RDriver r)"
proof -
  have c: "core_ok ts acc lost (DrvMem D) (DrvExt D)" using assms(1) by (simp add: driver_core_def)
  show ?thesis using assms core_send [OF c] c
    by (auto simp: ioctl_send_def Let_def split: if_splits option.splits prod.splits dest!: found_none(1))
qed

lemma core_create_command:
  assumes "driver_core ts acc lost D" "ioctl_env_ok env D" "r \<in> results (ioctl_create env irp P D)"
  shows "driver_core ts acc lost (RDriver r)"
proof -
  have c: "core_ok ts acc lost (DrvMem D) (DrvExt D)" using assms(1) by (simp add: driver_core_def)
  show ?thesis using assms core_create [OF c]
    by (fastforce simp: ioctl_create_def Let_def ioctl_env_ok_def split: if_splits prod.splits)
qed

lemma core_command:
  assumes "driver_core ts acc lost D" "ioctl_env_ok env D" "r \<in> results (ioctl_command env irp c D)"
    and "\<forall>i req user bsz. c \<noteq> IOCTL_WNBD_FETCH_REQ i req user bsz"
  shows "driver_core ts acc lost (RDriver r)"
proof (cases c)
  case (IOCTL_WNBD_SET_DISK_SIZE i n)
  with assms core_resize [of ts acc lost "DrvMem D" "DrvExt D" i n] show ?thesis
    by (auto simp: driver_core_def split: prod.splits)
next
  case (IOCTL_WNBD_SET_DRV_OPT n v p)
  with assms show ?thesis by (auto simp: ioctl_set_opt_def split: if_splits prod.splits)
next
  case (IOCTL_WNBD_RESET_DRV_OPT n p)
  with assms show ?thesis by (auto simp: ioctl_reset_opt_def split: if_splits prod.splits)
next
  case (IOCTL_WNBD_SHOW n)
  with assms query_same show ?thesis by fastforce
next
  case (IOCTL_WNBD_STATS n)
  with assms query_same show ?thesis by fastforce
qed (use assms in \<open>auto dest: ioctl_reports intro: core_create_command core_send_command core_remove split: prod.splits\<close>)

section \<open>Fetch threads\<close>

lemma on_device_simps [simp]:
  "on_device p [] = 0" "on_device p (t # ts) = of_bool (FDev t = p) + on_device p ts"
  "on_device p (ts @ us) = on_device p ts + on_device p us"
  by (simp_all add: on_device_def)

lemma core_fetch_call:
  assumes "core_ok ts acc lost m x" "WnbdFindDeviceByConnId i True x = (Some p, y)"
  shows "core_ok (ts @ [\<lparr>FDev = p, FPhase = AtHead, FSize = bsz, FVars = start_disp req user s\<rparr>]) acc lost m y"
proof -
  have aok: "adapter_ok x" using assms(1) by (simp add: core_ok_def)
  note fd = found_id [OF aok assms(2)]
  have "io_ok acc lost m y"
    by (rule io_like [of acc lost m x]) (use assms(1) in \<open>auto simp: fd(2) core_ok_def\<close>)
  moreover have "adapter_ok y" unfolding fd(2) by (rule adapter_ok_dev_upd [OF aok]) simp
  moreover have "threads_ok (ts @ [\<lparr>FDev = p, FPhase = AtHead, FSize = bsz, FVars = start_disp req user s\<rparr>]) m y"
    using assms(1) fd(1) by (auto simp: fd(2) core_ok_def threads_ok_def acquired_def start_disp_def no_lock_def no_mdl_def)
  ultimately show ?thesis by (simp add: core_ok_def)
qed

lemma core_loop_test:
  assumes "core_ok (ts @ t # us) acc lost m x" "FPhase t = AtHead"
  shows "core_ok (ts @ t\<lparr>FPhase := ph\<rparr> # us) acc lost m x"
  using assms by (auto simp: core_ok_def threads_ok_def)

lemma core_loop_body:
  assumes "core_ok (ts @ t # us) acc lost (DrvMem D) (DrvExt D)" "FPhase t = AtWait"
    and "dispatch_iter (FSize t) env (load D t) = Some (stop, y)" "lock_code_ok (EnvLock env)"
    and "RequestHandleCounter (DrvMem D) \<noteq> - 1"
  shows "core_ok (ts @ t\<lparr>FPhase := if stop then AtExit else AtHead, FVars := y\<rparr> # us) acc
    (lost @ map (Pair (ConnectionId (Devices (DrvExt D) (FDev t)))) (dropped env (DrvMem D) (Devices (DrvExt D) (FDev t))))
    (DMem y) (dev_upd (FDev t) (\<lambda>_. DDev y) (DrvExt D))"
proof -
  let ?d = "Devices (DrvExt D) (FDev t)" and ?x = "dev_upd (FDev t) (\<lambda>_. DDev y) (DrvExt D)"
  have aok: "adapter_ok (DrvExt D)" "io_ok acc lost (DrvMem D) (DrvExt D)" "threads_ok (ts @ t # us) (DrvMem D) (DrvExt D)"
    using assms(1) by (simp_all add: core_ok_def)
  have t: "FDev t \<in> devs (DrvExt D)" "no_lock (FVars t)" using aok(3) assms(2) by (auto simp: threads_ok_def)
  have ld: "DMem (load D t) = DrvMem D" "DDev (load D t) = ?d" "no_lock (load D t)"
    using t(2) by (simp_all add: load_def no_lock_def)
  have q: "queues_ok (DMem (load D t)) (DDev (load D t))" using aok(2) t(1) by (simp add: ld io_ok_def)
  obtain outs where mv: "moved [] outs (dropped env (DrvMem D) ?d) (DrvMem D, ?d) (DMem y, DDev y)"
    using moved_iter [OF q ld(3) assms(4) _ assms(3)] assms(5) by (auto simp: ld)
  have st: "same_identity ?d (DDev y)" "RundownProtection (DDev y) = RundownProtection ?d"
    using dispatch_iter_steady [OF assms(3)] by (simp_all add: steady_def ld)
  then have id: "ConnectionId (DDev y) = ConnectionId ?d" by (simp add: same_identity_def)
  have io: "io_ok acc (lost @ map (Pair (ConnectionId ?d)) (dropped env (DrvMem D) ?d)) (DMem y) ?x"
    using io_act [OF aok(1,2) t(1) mv id] by (simp add: id)
  obtain fin sub gone where c: "consumed fin sub gone (load D t) y" "stop \<or> no_lock y"
    using dispatch_iter_ok [OF q ld(3) assms(4) _ assms(3)] assms(5) by (auto simp: ld)
  then have b: "balanced (DVars y) (DMem y) (DrvMem D)" by (simp add: consumed_def ld)
  have "threads_ok (ts @ t\<lparr>FPhase := if stop then AtExit else AtHead, FVars := y\<rparr> # us) (DMem y) ?x"
    using aok(3) t b c(2) st(2) by (auto simp: threads_ok_def balanced_def no_lock_def)
  with io adapter_ok_dev_upd [OF aok(1), of "FDev t" "\<lambda>_. DDev y"] st(1) show ?thesis by (simp add: core_ok_def)
qed

lemma core_fetch_return:
  assumes "core_ok (ts @ t # us) acc lost (DrvMem D) (DrvExt D)" "y = dispatch_exit (load D t)"
  shows "core_ok (ts @ us) acc lost (DMem y) (dev_upd (FDev t) (\<lambda>_. WnbdReleaseDevice (DDev y)) (DrvExt D))"
proof -
  let ?d = "Devices (DrvExt D) (FDev t)" and ?x = "dev_upd (FDev t) (\<lambda>_. WnbdReleaseDevice (DDev y)) (DrvExt D)"
  have aok: "adapter_ok (DrvExt D)" "io_ok acc lost (DrvMem D) (DrvExt D)" "threads_ok (ts @ t # us) (DrvMem D) (DrvExt D)"
    using assms(1) by (simp_all add: core_ok_def)
  have y: "DDev y = ?d" "Elems (DMem y) = Elems (DrvMem D)" "Allocated (DMem y) = Allocated (DrvMem D)"
    "Notified (DMem y) = Notified (DrvMem D)" "RequestHandleCounter (DMem y) = RequestHandleCounter (DrvMem D)"
    "Mdls (DMem y) = Mdls (DrvMem D) - of_bool (Mdl (DVars (FVars t)))"
    "LockedMdls (DMem y) = LockedMdls (DrvMem D) - of_bool (Mdl (DVars (FVars t)) \<and> BufferLocked (DVars (FVars t)))"
    by (simp_all add: assms(2) load_def dispatch_exit_def release_mdl_def Let_def)
  have "io_ok acc lost (DMem y) (DrvExt D)" using io_mem [OF aok(2) y(2,3,5), of "[]"] y(4) by simp
  then have "io_ok acc lost (DMem y) ?x" by (rule io_like) (simp_all add: y(1))
  moreover have "adapter_ok ?x" by (rule adapter_ok_dev_upd [OF aok(1)]) (simp add: y(1))
  moreover have "threads_ok (ts @ us) (DMem y) ?x"
    using aok(3) by (auto simp: threads_ok_def y WnbdReleaseDevice_def ExReleaseRundownProtection_def)
  ultimately show ?thesis by (simp add: core_ok_def)
qed

section \<open>Every step keeps the ledger\<close>

lemma core_monitor:
  assumes "monitor_step (m, x) (m', x')" "core_ok ts acc lost m x" shows "core_ok ts acc lost m' x'"
  using assms(1)
proof cases
  case (wake p)
  with core_wake [OF assms(2)] show ?thesis by simp
next
  case (teardown p opts now)
  have "p \<in> devs x" using teardown assms(2) by (auto simp: core_ok_def adapter_defs)
  with core_teardown [OF assms(2)] teardown show ?thesis by simp
qed

lemma traffic_step_ok:
  assumes "traffic_step T T'" "traffic_ok T" shows "traffic_ok T'"
  using assms
proof (induction rule: traffic_step.induct)
  case (start env D ext Srb calls m x acc pd new ts lost)
  have "port_ok (acc @ [Srb]) (pd @ new)"
    by (rule port_ok_more [OF _ start(3)]) (use start(4) start_calls [OF start(1)] in \<open>auto simp: traffic_ok_def\<close>)
  with start core_start show ?case by (auto simp: traffic_ok_def)
next
  case (reset_bus PathId ok call D acc pd new ts lost)
  have "port_ok (acc @ []) (pd @ new)"
    by (rule port_ok_more [of _ _ "[call]" "DrvMem D"])
       (use reset_bus in \<open>auto simp: traffic_ok_def WnbdHwResetBus_def\<close>)
  with reset_bus show ?case by (simp add: traffic_ok_def)
next
  case (command r env irp D ts acc lost pd)
  have "driver_core ts acc lost D" "driver_ok D" using command(4)
    by (simp_all add: traffic_ok_def driver_core_def driver_ok_def core_ok_def)
  note ok = this
  consider (same) "RDriver r = D" | (run) c where "SystemBuffer irp = Some c" "r \<in> results (ioctl_command env irp c D)"
    using command(1) by (auto simp: WnbdParseUserIOCTL_def split: if_splits option.splits)
  then have "driver_core ts acc lost (RDriver r) \<and> driver_ok (RDriver r)"
  proof cases
    case same
    with ok show ?thesis by simp
  next
    case (run c)
    with command(3) have "command_ok c" "\<forall>i req user bsz. c \<noteq> IOCTL_WNBD_FETCH_REQ i req user bsz" by simp_all
    with core_command [OF ok(1) command(2) run(2)] ioctl_command_ok [OF ok(2) command(2) _ run(2)] show ?thesis by blast
  qed
  with command(4) show ?case by (simp add: traffic_ok_def driver_core_def driver_ok_def)
next
  case (fetch_call i D p x pid ts acc lost pd bsz req user)
  from core_fetch_call [OF _ this(1)] this(3) show ?case by (simp add: traffic_ok_def)
next
  case (loop_test t D ts us acc lost pd)
  then show ?case using core_loop_test by (simp add: traffic_ok_def)
next
  case (loop_body t env D stop y ts us acc lost pd)
  from core_loop_body [OF _ loop_body(1-4)] loop_body(5) show ?case by (simp add: traffic_ok_def put_device_def)
next
  case (fetch_return t y D ts us acc lost pd)
  from core_fetch_return [OF _ fetch_return(2)] fetch_return(3) show ?case by (simp add: traffic_ok_def put_device_def)
next
  case (monitor D m x ts acc lost pd)
  then show ?case using core_monitor by (simp add: traffic_ok_def)
next
  case (pnp St Irp' m x D env DeviceObject Irp ts acc lost pd)
  then show ?case using core_pnp by (fastforce simp: traffic_ok_def)
next
  case (cleanup D ts acc lost pd)
  then have c: "core_ok ts acc lost (DrvMem D) (DrvExt D)" by (simp add: traffic_ok_def)
  then have "adapter_ok (WnbdCleanupAllDevices (DrvExt D))" by (simp add: core_ok_def cleanup_ok)
  from core_like [OF c this] have "core_ok ts acc lost (DrvMem D) (WnbdCleanupAllDevices (DrvExt D))"
    by (simp add: WnbdCleanupAllDevices_def)
  with cleanup show ?case by (simp add: traffic_ok_def)
qed

section \<open>Runs\<close>

text \<open>A driver as \<^verbatim>\<open>WnbdHwFindAdapter\<close> leaves it, with no thread in it and nothing accepted.\<close>

definition fresh_driver :: "'r driver \<Rightarrow> bool" where
  "fresh_driver D \<longleftrightarrow> opts_ok (DrvOptions D) \<and> (\<exists>h c. DrvExt D = extension_init h c) \<and>
     Notified (DrvMem D) = [] \<and> Mdls (DrvMem D) = 0 \<and> LockedMdls (DrvMem D) = 0"

definition idle_traffic :: "'r driver \<Rightarrow> 'r traffic" where
  "idle_traffic D = \<lparr>Drv = D, Fetches = [], Accepted = [], Lost = [], PortDone = []\<rparr>"

lemma fresh_ok: "fresh_driver D \<Longrightarrow> traffic_ok (idle_traffic D)"
  by (auto simp: fresh_driver_def traffic_ok_def idle_traffic_def core_ok_def adapter_ok_init io_ok_def apart_def
      waiting_def lost_ok_def threads_ok_def)

lemma traffic_run_ok:
  "traffic_step\<^sup>*\<^sup>* T T' \<Longrightarrow> traffic_ok T \<Longrightarrow> traffic_ok T'"
  by (induction rule: rtranclp_induct) (auto intro: traffic_step_ok)

lemma fresh_run_ok: "traffic_step\<^sup>*\<^sup>* (idle_traffic D) T \<Longrightarrow> fresh_driver D \<Longrightarrow> traffic_ok T"
  by (rule traffic_run_ok [OF _ fresh_ok])

text \<open>
  A run for the witnesses: process 7 creates a disk that process 42 serves, and the port driver hands over a read of
  its second block. Every address has its own request block, whatever address the disk gets; the
  blocks from 256 on are device resets, those from 512 on unit resets.
\<close>

definition sample_start :: "unit driver" where
  "sample_start = sample_driver (sample_mem\<lparr>Srbs := (\<lambda>s. if s < 256 then sample_srb\<lparr>SrbTargetId := of_nat s\<rparr>
     else sample_srb\<lparr>SrbTargetId := of_nat s,
       SrbFunction := if s < 512 then SRB_FUNCTION_RESET_DEVICE else SRB_FUNCTION_RESET_LOGICAL_UNIT\<rparr>)\<rparr>) empty_adapter"

definition sample_fetch :: "u64 \<Rightarrow> IRP" where
  "sample_fetch i = (sample_irp (IOCTL_WNBD_FETCH_REQ i zero_request (replicate 512 0) 512))\<lparr>RequestorProcessId := 42\<rparr>"

lemma sample_start_fresh: "fresh_driver sample_start"
  by (auto simp: fresh_driver_def sample_start_def sample_driver_def opts_ok_init)

lemma sample_disk:
  obtains D s where "traffic_step (idle_traffic sample_start) \<lparr>Drv = D, Fetches = [], Accepted = [], Lost = [], PortDone = []\<rparr>"
    "serves 42 1 D" "mapped_at (Srbs (DrvMem D) s) 1 (DrvExt D)" "Srbs (DrvMem D) s = sample_srb\<lparr>SrbTargetId := of_nat s\<rparr>"
    "DrvMem D = DrvMem sample_start" "queued (Devices (DrvExt D) 1) = []" "\<not> HardRemoveDevice (Devices (DrvExt D) 1)"
    "Properties (Devices (DrvExt D) 1) = create_properties 7 full_props" "DeviceList (DrvExt D) = [1]"
    "DrvOptions D = WnbdDriverOptions" "s < 128"
proof -
  let ?P = "create_properties 7 full_props" and ?m = "DrvMem sample_start"
  have m: "sample_start = sample_driver ?m empty_adapter" by (simp add: sample_start_def sample_driver_def)
  obtain St info m' x where run: "WnbdCreateConnection (Lifecycle.sample_env 1) WnbdDriverOptions ?P zero_info (?m, empty_adapter) = (St, info, m', x)"
    by (cases "WnbdCreateConnection (Lifecycle.sample_env 1) WnbdDriverOptions ?P zero_info (?m, empty_adapter)")
  have pr: "BlockSize ?P = 512" "BlockCount ?P = 1000" "\<not> UseKernelNbd (Flags ?P)" "strlen (InstanceName ?P) \<noteq> 0" "Pid ?P = 42"
    by (simp_all add: create_properties_def full_props_def Let_def sample_props_def sample_flags_def terminate_at_def
        strlen_def cstr_def)
  have g: "geometry_ok ?P" using pr by (simp add: geometry_ok_def)
  have e: "env_ok (Lifecycle.sample_env 1) ?m empty_adapter" by (simp add: sample_env_ok)
  have St: "St = STATUS_SUCCESS"
    by (rule create_succeeds [OF adapter_ok_init e _ _ new_mappings_allowed _ _ _ _ _ g run])
       (simp_all add: Lifecycle.sample_env_def)
  have m': "m' = ?m" by (rule sample_create_mem [OF run])
  have "adapter_ok x \<and> queues_ok ?m (Devices x 1) \<and> created ?P 1 (referenced empty_adapter) x"
  proof (rule WnbdCreateConnection_cases [OF adapter_ok_init e _ run], goal_cases)
    case (5 q)
    then show ?case using m' by (simp add: Lifecycle.sample_env_def)
  qed (use St in auto)
  then have c: "adapter_ok x" "queues_ok ?m (Devices x 1)" "Bus (Devices x 1) = 0" "Lun (Devices x 1) = 0"
    "queued (Devices x 1) = []" "\<not> HardRemoveDevice (Devices x 1)" "Properties (Devices x 1) = ?P" "DeviceList x = [1]"
    "RundownProtection (Devices x 1) = rundown_init"
    by (simp_all add: created_def Let_def)
  let ?D = "sample_driver ?m x" and ?s = "unat (Target (Devices x 1))"
  have "\<not> create_rejected ?P" using pr by (simp add: create_rejected_def word_less_nat_alt unat_div)
  then have "WnbdParseUserIOCTL (sample_ioctl_env []) (sample_irp (IOCTL_WNBD_CREATE full_props)) sample_start =
      Returned \<lparr>RStatus = STATUS_SUCCESS, RInformation = Some 2032, ROutput = OutInfo info, RDriver = ?D\<rparr>"
    using run St m' by (subst m) (simp add: WnbdParseUserIOCTL_def ioctl_create_def ioctl_samples CHECK_I_LOCATION_def
      CHECK_O_LOCATION_def reply_with_def)
  then have step: "traffic_step (idle_traffic sample_start) \<lparr>Drv = ?D, Fetches = [], Accepted = [], Lost = [], PortDone = []\<rparr>"
    using traffic_step.command [of "\<lparr>RStatus = STATUS_SUCCESS, RInformation = Some 2032, ROutput = OutInfo info, RDriver = ?D\<rparr>"
        "sample_ioctl_env []" "sample_irp (IOCTL_WNBD_CREATE full_props)" sample_start "[]" "[]" "[]" "[]"] e
    by (simp add: idle_traffic_def ioctl_env_ok_def sample_ioctl_env_def sample_irp_def command_ok_def)
       (simp add: sample_start_def sample_driver_def)
  have lt: "unat (Target (Devices x 1)) < 128" using c(1,8) by (simp add: adapter_defs)
  then have t: "(ucast (word_of_nat ?s :: u8) :: u16) = Target (Devices x 1)"
    by (simp add: word_unat_eq_iff unsigned_ucast_eq unsigned_of_nat unsigned_take_bit_eq take_bit_nat_eq_self)
  have b: "Srbs ?m ?s = sample_srb\<lparr>SrbTargetId := of_nat ?s\<rparr>" using lt by (simp add: sample_start_def sample_driver_def)
  have "mapped_at (Srbs ?m ?s) 1 x"
    using c t unfolding b by (simp add: mapped_at_def WnbdFindDeviceByAddr_def find_device_def sample_srb_def)
  moreover have "serves 42 1 ?D"
    using c pr(3,5) by (simp add: serves_def owner_def sample_driver_def queue_defs)
  ultimately show ?thesis
    using c b lt by (intro that [OF step, of ?s]) (simp_all add: sample_driver_def)
qed

lemma sample_traffic:
  obtains s D D2 e req user where
    "traffic_step\<^sup>*\<^sup>* (idle_traffic sample_start) \<lparr>Drv = D, Fetches = [], Accepted = [s], Lost = [], PortDone = []\<rparr>"
    "Notified (DrvMem D) = []" "DeviceList (DrvExt D) = [1]" "queued (Devices (DrvExt D) 1) = [e]"
    "\<not> HardRemoveDevice (Devices (DrvExt D) 1)" "serves 42 1 D" "RequestHandleCounter (DrvMem D) = 10"
    "WnbdParseUserIOCTL (sample_ioctl_env [Dispatch.sample_env]) (sample_fetch (ConnectionId (Devices (DrvExt D) 1))) D =
       reply_with STATUS_SUCCESS 128 (OutRequest req user) D2"
    "mapped_at (Srbs (DrvMem D) s) 1 (DrvExt D)" "srbs_of (DrvMem D) [e] = [s]" "s < 128"
    "Srbs (DrvMem D) = (Srbs (DrvMem sample_start))(s := sample_srb\<lparr>SrbTargetId := of_nat s, SrbStatus := SRB_STATUS_ABORTED\<rparr>)"
proof (rule sample_disk)
  fix D s assume h: "traffic_step (idle_traffic sample_start) \<lparr>Drv = D, Fetches = [], Accepted = [], Lost = [], PortDone = []\<rparr>"
    "serves 42 1 D" "mapped_at (Srbs (DrvMem D) s) 1 (DrvExt D)" "Srbs (DrvMem D) s = sample_srb\<lparr>SrbTargetId := of_nat s\<rparr>"
    "DrvMem D = DrvMem sample_start" "queued (Devices (DrvExt D) 1) = []" "\<not> HardRemoveDevice (Devices (DrvExt D) 1)"
    "Properties (Devices (DrvExt D) 1) = create_properties 7 full_props" "DeviceList (DrvExt D) = [1]"
    "DrvOptions D = WnbdDriverOptions" "s < 128"
  let ?d = "Devices (DrvExt D) 1" and ?Cdb = "[0x28, 0, 0, 0, 0, 1, 0, 0, 1, 0] :: u8 list"
  have rg: "SrbCdbGetRange ?Cdb = (1, 1, 0)"
    by (simp add: SrbCdbGetRange_def cdb_byte_def cdb_field_def be_word_def)
  have srb: "SrbFunction (Srbs (DrvMem D) s) = SRB_FUNCTION_EXECUTE_SCSI" "SrbCdb (Srbs (DrvMem D) s) = Some ?Cdb"
    "DataBuffer (Srbs (DrvMem D) s) = Some (replicate 512 7)" "DataTransferLength (Srbs (DrvMem D) s) = 512"
    by (simp_all add: h(4) sample_srb_def)
  have op: "ScsiOpToWnbdReqType (cdb_byte ?Cdb 0) = WnbdReqTypeRead"
    by (simp add: cdb_byte_def ScsiOpToWnbdReqType_def)
  have q: "PendingReqListHead ?d = []" using h(6) by (simp add: queued_def)
  have pr: "BlockSize (Properties ?d) = 512" "BlockCount (Properties ?d) = 1000"
    by (simp_all add: h(8) create_properties_def full_props_def Let_def sample_props_def sample_flags_def del: One_nat_def)
  have mem: "9 \<notin> Allocated (DrvMem D)" "RequestHandleCounter (DrvMem D) = 10" "Notified (DrvMem D) = []"
    by (simp_all add: h(5) sample_start_def sample_driver_def) (simp add: sample_mem_def)
  have wt: "\<forall>w \<in> set (IeWaits (sample_ioctl_env [Dispatch.sample_env])). granting w" "IeWaits (sample_ioctl_env [Dispatch.sample_env]) \<noteq> []"
    by (simp_all add: sample_ioctl_env_def granting_def Dispatch.sample_env_def)
  have io: "fetch_irp 42 (IOCTL_WNBD_FETCH_REQ (ConnectionId ?d) zero_request (replicate 512 0) 512) (sample_fetch (ConnectionId ?d))"
    by (simp add: fetch_irp_def sample_fetch_def sample_irp_def)
  have sv: "adapter_ok (DrvExt D)" "1 \<in> devs (DrvExt D)" "queues_ok (DrvMem D) ?d" using h(2) by (simp_all add: serves_def Let_def)
  show thesis
  proof (rule read_flow [OF h(2) refl q h(7,3) refl srb(1,2) op rg refl _ _ _ _ srb(3) _ _ _ mem(1) _ _ _ wt _ io, of sample_io WnbdDriverOptions 0], goal_cases)
    case (12 m1 x1 D2 req user)
    have opb: "cdb_byte ?Cdb 0 \<in> block_ops" by (simp add: cdb_byte_def)
    obtain e m1' d' where st: "WnbdHwStartIo sample_io WnbdDriverOptions 0 s (DrvMem D, DrvExt D) =
        Some ([], m1', dev_upd 1 (\<lambda>_. d') (DrvExt D))"
      "steady ?d d'" "HardRemoveDevice d' = HardRemoveDevice ?d" "PendingReqListHead d' = [e]" "SubmittedReqListHead d' = []"
      "Notified m1' = Notified (DrvMem D)" "RequestHandleCounter m1' = RequestHandleCounter (DrvMem D)" "queues_ok m1' d'"
      "Srbs m1' = (Srbs (DrvMem D))(s := (Srbs (DrvMem D) s)\<lparr>SrbStatus := SRB_STATUS_ABORTED\<rparr>)" "ElemSrb (Elems m1' e) = s"
      by (rule start_io_queues [OF h(3) sv(3) h(7) srb(1,2) opb rg refl, of sample_io 9 WnbdDriverOptions 0])
         (use pr srb(4) mem q h(6) in \<open>simp_all add: sample_io_def queued_def del: One_nat_def\<close>)
    let ?D = "D\<lparr>DrvMem := m1', DrvExt := dev_upd 1 (\<lambda>_. d') (DrvExt D)\<rparr>"
    have eq: "m1 = m1'" "x1 = dev_upd 1 (\<lambda>_. d') (DrvExt D)" using 12(1) st(1) by simp_all
    have id: "ConnectionId (Devices (DrvExt ?D) 1) = ConnectionId ?d" using st(2) by (simp add: steady_defs)
    have s2: "traffic_step \<lparr>Drv = D, Fetches = [], Accepted = [], Lost = [], PortDone = []\<rparr> \<lparr>Drv = ?D, Fetches = [], Accepted = [s], Lost = [], PortDone = []\<rparr>"
      using traffic_step.start [of sample_io D 0 s "[]" m1' "dev_upd 1 (\<lambda>_. d') (DrvExt D)" "[]" "[]" "[]" "[]" "[]"] st(1) mem(1) h(10)
      by (simp add: fresh_def sample_io_def del: One_nat_def)
    show thesis
    proof (rule that)
      show "traffic_step\<^sup>*\<^sup>* (idle_traffic sample_start) \<lparr>Drv = ?D, Fetches = [], Accepted = [s], Lost = [], PortDone = []\<rparr>"
        by (rule converse_rtranclp_into_rtranclp [of traffic_step, OF h(1) r_into_rtranclp [of traffic_step, OF s2]])
      show "serves 42 1 ?D" by (rule serves_dev_upd [OF h(2) st(2,8)])
      show "WnbdParseUserIOCTL (sample_ioctl_env [Dispatch.sample_env]) (sample_fetch (ConnectionId (Devices (DrvExt ?D) 1))) ?D =
          reply_with STATUS_SUCCESS 128 (OutRequest req user) D2"
        using 12(3) unfolding id eq .
      show "Srbs (DrvMem ?D) = (Srbs (DrvMem sample_start))(s := sample_srb\<lparr>SrbTargetId := of_nat s, SrbStatus := SRB_STATUS_ABORTED\<rparr>)"
        using st(9) h(4,5) by simp
      show "mapped_at (Srbs (DrvMem ?D) s) 1 (DrvExt ?D)"
        using h(3,9) st(2,9) by (auto simp: mapped_at_def WnbdFindDeviceByAddr_def find_device_def steady_defs split: if_splits)
      show "srbs_of (DrvMem ?D) [e] = [s]" using st(10) by (simp add: srbs_of_def)
    qed (use st h(7,9,11) mem in \<open>simp_all add: queued_def\<close>)
  qed (use pr srb(4) mem in \<open>simp_all add: sample_io_def sample_ioctl_env_def\<close>)
qed

section \<open>Properties\<close>

text \<open>
  C4: every request is accounted for. Whatever the port driver, Plug and
  Play, the processes and the monitor threads do, in every order, the requests the driver was
  handed are exactly those it handed back, those that wait in the queue of some device, and those
  a fetch dropped; and a request is dropped only by a device that is being removed or is gone. The
  completions the port driver makes by itself come on top: it makes them only when a device or bus
  reset of the driver asks it to, and the driver keeps no record of them, so that such a request
  stays in the account of the driver.
\<close>

theorem every_request_accounted:
  assumes "traffic_step\<^sup>*\<^sup>* (idle_traffic D0) T" "fresh_driver D0"
  shows "mset (Accepted T) =
      mset (Notified (DrvMem (Drv T))) + mset (waiting (DrvMem (Drv T)) (DrvExt (Drv T))) + mset (map snd (Lost T)) \<and>
    (\<forall>(i, s) \<in> set (Lost T). \<forall>p \<in> devs (DrvExt (Drv T)).
       ConnectionId (Devices (DrvExt (Drv T)) p) = i \<longrightarrow> HardRemoveDevice (Devices (DrvExt (Drv T)) p)) \<and>
    mset (Accepted T) + mset (map snd (PortDone T)) =
      mset (completions T) + mset (waiting (DrvMem (Drv T)) (DrvExt (Drv T))) + mset (map snd (Lost T)) \<and>
    (\<forall>(c, s) \<in> set (PortDone T). s \<in> set (Accepted T) \<and> PcStatus c \<in> {SRB_STATUS_TIMEOUT, SRB_STATUS_BUS_RESET})"
proof -
  have ok: "io_ok (Accepted T) (Lost T) (DrvMem (Drv T)) (DrvExt (Drv T))" "port_ok (Accepted T) (PortDone T)"
    using fresh_run_ok [OF assms] by (simp_all add: traffic_ok_def core_ok_def)
  have "set (map snd (PortDone T)) \<subseteq> set (Accepted T)"
    using ok(2) set_mset_mono [of "mset (map snd (PortDone T))" "mset (Accepted T)"] by (simp add: port_ok_def)
  then have "\<forall>(c, s) \<in> set (PortDone T). s \<in> set (Accepted T) \<and> PcStatus c \<in> {SRB_STATUS_TIMEOUT, SRB_STATUS_BUS_RESET}"
    using ok(2) by (force simp: port_ok_def)
  then show ?thesis using ok(1) by (force simp: io_ok_def lost_ok_def completions_def)
qed

theorem every_request_accounted_witness:
  "\<exists>s D. traffic_step\<^sup>*\<^sup>* (idle_traffic sample_start) \<lparr>Drv = D, Fetches = [], Accepted = [s], Lost = [], PortDone = []\<rparr> \<and>
     waiting (DrvMem D) (DrvExt D) = [s]"
proof (rule sample_traffic)
  fix s D assume h: "traffic_step\<^sup>*\<^sup>* (idle_traffic sample_start) \<lparr>Drv = D, Fetches = [], Accepted = [s], Lost = [], PortDone = []\<rparr>"
    "Notified (DrvMem D) = []"
  from every_request_accounted [OF h(1) sample_start_fresh] h show ?thesis by auto
qed

text \<open>
  C11: devices never mix. In every reachable state the queues, the tag index and the element
  pool of every device are consistent, no queue element belongs to two devices, and the count
  of outstanding requests in the statistics of a device that is not being removed is the number
  of requests in its two queues.
\<close>

theorem devices_stay_apart:
  assumes "traffic_step\<^sup>*\<^sup>* (idle_traffic D0) T" "fresh_driver D0"
    and "p \<in> devs (DrvExt (Drv T))" "q \<in> devs (DrvExt (Drv T))"
  shows "queues_ok (DrvMem (Drv T)) (Devices (DrvExt (Drv T)) p) \<and>
    (p \<noteq> q \<longrightarrow> set (linked (Devices (DrvExt (Drv T)) p)) \<inter> set (linked (Devices (DrvExt (Drv T)) q)) = {}) \<and>
    (HardRemoveDevice (Devices (DrvExt (Drv T)) p) \<or>
     OutstandingIOCount (Stats (Devices (DrvExt (Drv T)) p)) = of_nat (length (queued (Devices (DrvExt (Drv T)) p))))"
  using fresh_run_ok [OF assms(1,2)] assms(3,4)
  by (auto simp: traffic_ok_def core_ok_def io_ok_def apart_def stats_ok_def)

theorem devices_stay_apart_witness:
  "\<exists>s D. traffic_step\<^sup>*\<^sup>* (idle_traffic sample_start) \<lparr>Drv = D, Fetches = [], Accepted = [s], Lost = [], PortDone = []\<rparr> \<and>
     queues_ok (DrvMem D) (Devices (DrvExt D) 1) \<and> OutstandingIOCount (Stats (Devices (DrvExt D) 1)) = 1"
proof (rule sample_traffic)
  fix s D e assume h: "traffic_step\<^sup>*\<^sup>* (idle_traffic sample_start) \<lparr>Drv = D, Fetches = [], Accepted = [s], Lost = [], PortDone = []\<rparr>"
    "DeviceList (DrvExt D) = [1]" "queued (Devices (DrvExt D) 1) = [e]" "\<not> HardRemoveDevice (Devices (DrvExt D) 1)"
  from devices_stay_apart [OF h(1) sample_start_fresh, of 1 1] h show ?thesis by auto
qed

text \<open>
  C7: a fetch never outlives its device. The device of every thread that is fetching is still
  listed, the references of a device are exactly the threads that fetch from it, and the
  descriptor lists in existence are those of threads about to return: none when no fetch runs.
\<close>

theorem fetches_hold_their_device:
  assumes "traffic_step\<^sup>*\<^sup>* (idle_traffic D0) T" "fresh_driver D0"
  shows "(\<forall>t \<in> set (Fetches T). FDev t \<in> devs (DrvExt (Drv T))) \<and>
    (\<forall>p \<in> devs (DrvExt (Drv T)). RdCount (RundownProtection (Devices (DrvExt (Drv T)) p)) =
       length (filter (\<lambda>t. FDev t = p) (Fetches T))) \<and>
    Mdls (DrvMem (Drv T)) \<le> length (filter (\<lambda>t. FPhase t = AtExit) (Fetches T)) \<and>
    LockedMdls (DrvMem (Drv T)) \<le> Mdls (DrvMem (Drv T))"
proof -
  have ok: "threads_ok (Fetches T) (DrvMem (Drv T)) (DrvExt (Drv T))"
    using fresh_run_ok [OF assms] by (simp add: traffic_ok_def core_ok_def)
  have mono: "length (filter P xs) \<le> length (filter Q xs)" if "\<forall>x \<in> set xs. P x \<longrightarrow> Q x"
    for P Q :: "fetch_thread \<Rightarrow> bool" and xs
    using that by (induction xs) auto
  have "\<forall>t \<in> set (Fetches T). Mdl (DVars (FVars t)) \<longrightarrow> FPhase t = AtExit"
    "\<forall>t \<in> set (Fetches T). BufferLocked (DVars (FVars t)) \<longrightarrow> Mdl (DVars (FVars t))"
    using ok by (auto simp: threads_ok_def no_lock_def)
  from mono [OF this(1)] mono [OF this(2)] show ?thesis using ok by (simp add: threads_ok_def on_device_def)
qed

theorem fetches_hold_their_device_witness:
  "\<exists>s D t. traffic_step\<^sup>*\<^sup>* (idle_traffic sample_start) \<lparr>Drv = D, Fetches = [t], Accepted = [s], Lost = [], PortDone = []\<rparr> \<and>
     FDev t \<in> devs (DrvExt D) \<and> RdCount (RundownProtection (Devices (DrvExt D) (FDev t))) = 1"
proof (rule sample_traffic)
  fix s D assume h: "traffic_step\<^sup>*\<^sup>* (idle_traffic sample_start) \<lparr>Drv = D, Fetches = [], Accepted = [s], Lost = [], PortDone = []\<rparr>"
    "serves 42 1 D"
  obtain x where f: "WnbdFindDeviceByConnId (ConnectionId (Devices (DrvExt D) 1)) True (DrvExt D) = (Some 1, x)" "owner 42 (Devices x 1)"
    using h(2) by_id_acquires [of "DrvExt D" 1] by (auto simp: serves_def owner_def Let_def)
  let ?t = "\<lparr>FDev = 1, FPhase = AtHead, FSize = 512, FVars = start_disp zero_request (replicate 512 0) (DrvMem D, Devices x 1)\<rparr>"
  have s: "traffic_step\<^sup>*\<^sup>* (idle_traffic sample_start) \<lparr>Drv = D\<lparr>DrvExt := x\<rparr>, Fetches = [?t], Accepted = [s], Lost = [], PortDone = []\<rparr>"
    using rtranclp.rtrancl_into_rtrancl [of traffic_step, OF h(1) traffic_step.fetch_call [OF f]] by simp
  from fetches_hold_their_device [OF s sample_start_fresh] s show ?thesis
    by (intro exI [of _ s] exI [of _ "D\<lparr>DrvExt := x\<rparr>"] exI [of _ ?t]) simp
qed

section \<open>Resets\<close>

text \<open>A waiting request was handed over; the reset of a logical unit hands back what its disk has queued.\<close>

lemma waiting_was_accepted:
  assumes "io_ok acc lost m x" "p \<in> devs x" "s \<in> set (srbs_of m (queued (Devices x p)))" shows "s \<in> set acc"
proof -
  have "s \<in># mset (waiting m x)" using assms(2,3) by (auto simp: waiting_def)
  moreover have "mset acc = mset (Notified m) + mset (waiting m x) + mset (map snd lost)"
    using assms(1) by (simp add: io_ok_def)
  ultimately show ?thesis by (metis set_mset_mset union_iff)
qed

lemma unit_reset_hands_back:
  assumes "queues_ok m (Devices x p)" "mapped_at (Srbs m Q) p x" "SrbFunction (Srbs m Q) = SRB_FUNCTION_RESET_LOGICAL_UNIT"
  obtains m' x' where "WnbdHwStartIo (sample_io\<lparr>IoPool := None\<rparr>) opts 0 Q (m, x) = Some ([], m', x')"
    "Notified m' = Notified m @ srbs_of m (queued (Devices x p)) @ [Q]"
proof -
  obtain st m2 x2 where D: "DrainDeviceQueues opts 7 True Q (m, x) = (st, m2, x2)"
    by (cases "DrainDeviceQueues opts 7 True Q (m, x)")
  then have "Notified m2 = Notified m @ srbs_of m (queued (Devices x p))"
    using DrainDeviceQueues_ok [OF assms(2,1)] by blast
  moreover obtain m3 where "start_complete Q (st, m2, x2) = (m3, x2)" "Notified m3 = Notified m2 @ [Q]"
    by (simp add: start_complete_def set_status_def Let_def)
  ultimately show ?thesis
    using D assms(3) by (intro that [of m3 x2]) (simp_all add: WnbdHwStartIo_def WnbdResetLogicalUnitFunction_def sample_io_def)
qed

text \<open>
  C12: a device reset completes requests twice. It makes the port driver complete the requests of the
  device and leaves them in the queues, so that the reset of the logical unit that follows hands
  each of them back again. From every reachable state in which a request waits at a mapped disk
  there is such a run: the request is completed two times more, though handed over no more often.
\<close>

theorem device_reset_completes_twice:
  assumes "traffic_step\<^sup>*\<^sup>* (idle_traffic D0) T" "fresh_driver D0"
    and "mapped_at (Srbs (DrvMem (Drv T)) R) p (DrvExt (Drv T))" "SrbFunction (Srbs (DrvMem (Drv T)) R) = SRB_FUNCTION_RESET_DEVICE"
    and "mapped_at (Srbs (DrvMem (Drv T)) Q) p (DrvExt (Drv T))" "SrbFunction (Srbs (DrvMem (Drv T)) Q) = SRB_FUNCTION_RESET_LOGICAL_UNIT"
    and "s \<in> set (srbs_of (DrvMem (Drv T)) (queued (Devices (DrvExt (Drv T)) p)))" "s \<notin> snd ` set (PortDone T)" "s \<notin> {R, Q}"
    and "SrbPathId (Srbs (DrvMem (Drv T)) s) = SrbPathId (Srbs (DrvMem (Drv T)) R)"
    and "SrbTargetId (Srbs (DrvMem (Drv T)) s) = SrbTargetId (Srbs (DrvMem (Drv T)) R)"
    and "SrbLun (Srbs (DrvMem (Drv T)) s) = SrbLun (Srbs (DrvMem (Drv T)) R)"
  shows "\<exists>T'. traffic_step\<^sup>*\<^sup>* T T' \<and> Accepted T' = Accepted T @ [R, Q] \<and>
    count_list (Accepted T') s = count_list (Accepted T) s \<and>
    count_list (completions T) s + 2 \<le> count_list (completions T') s"
proof -
  obtain D ts acc lost pd where T: "T = \<lparr>Drv = D, Fetches = ts, Accepted = acc, Lost = lost, PortDone = pd\<rparr>"
    by (cases T) auto
  let ?m = "DrvMem D" and ?x = "DrvExt D" and ?env = "sample_io\<lparr>IoPool := None\<rparr>"
  let ?c = "StorPortCompleteRequest (SrbPathId (Srbs ?m R)) (SrbTargetId (Srbs ?m R)) (SrbLun (Srbs ?m R)) SRB_STATUS_TIMEOUT"
  have io: "io_ok acc lost ?m ?x"
    using fresh_run_ok [OF assms(1,2)] by (simp add: traffic_ok_def core_ok_def T)
  have p: "p \<in> devs ?x"
    using found_addr(1) [OF mapped_at_found [OF assms(3) [unfolded T, simplified]]] by simp
  then have q: "queues_ok ?m (Devices ?x p)" using io by (simp add: io_ok_def)
  have acc: "s \<in> set acc" using waiting_was_accepted [OF io p] assms(7) by (simp add: T)
  obtain m1 where m1: "start_complete R (SRB_STATUS_SUCCESS, ?m, ?x) = (m1, ?x)" "Elems m1 = Elems ?m"
    "Allocated m1 = Allocated ?m" "RequestHandleCounter m1 = RequestHandleCounter ?m"
    "Notified m1 = Notified ?m @ [R]" "\<And>b. b \<noteq> R \<Longrightarrow> Srbs m1 b = Srbs ?m b"
    by (simp add: start_complete_def set_status_def Let_def)
  have RQ: "Q \<noteq> R" using assms(4,6) by auto
  have n: "s \<in># mset (acc @ [R]) - mset (map snd pd)"
    using acc assms(8) by (simp add: T in_diff_count not_in_iff [THEN iffD1])
  let ?T1 = "\<lparr>Drv = D\<lparr>DrvMem := m1, DrvExt := ?x\<rparr>, Fetches = ts, Accepted = acc @ [R], Lost = lost, PortDone = pd @ [(?c, s)]\<rparr>"
  have s1: "traffic_step T ?T1"
    unfolding T
    by (rule traffic_step.start [of ?env D 0 R "[?c]"])
       (use m1(1) n assms(4,10-12) in \<open>simp_all add: T WnbdHwStartIo_def WnbdResetDeviceFunction_def fresh_def
          port_completes_def addressed_def\<close>)
  have "queues_ok m1 (Devices ?x p)" using q m1(2-4) by (simp add: queue_defs)
  moreover have "mapped_at (Srbs m1 Q) p ?x" "SrbFunction (Srbs m1 Q) = SRB_FUNCTION_RESET_LOGICAL_UNIT"
    using assms(5,6) m1(6) RQ by (simp_all add: T)
  ultimately obtain m3 x2 where io2: "WnbdHwStartIo ?env (DrvOptions D) 0 Q (m1, ?x) = Some ([], m3, x2)"
    "Notified m3 = Notified m1 @ srbs_of m1 (queued (Devices ?x p)) @ [Q]" by (rule unit_reset_hands_back)
  moreover have "srbs_of m1 (queued (Devices ?x p)) = srbs_of ?m (queued (Devices ?x p))"
    by (rule srbs_of_cong) (simp add: m1(2))
  ultimately have nt: "Notified m3 = Notified ?m @ R # srbs_of ?m (queued (Devices ?x p)) @ [Q]" by (simp add: m1(5))
  let ?T2 = "\<lparr>Drv = (D\<lparr>DrvMem := m1, DrvExt := ?x\<rparr>)\<lparr>DrvMem := m3, DrvExt := x2\<rparr>, Fetches = ts, Accepted = (acc @ [R]) @ [Q],
    Lost = lost, PortDone = (pd @ [(?c, s)]) @ []\<rparr>"
  have s2: "traffic_step ?T1 ?T2"
    by (rule traffic_step.start [of ?env _ 0 Q "[]"]) (use io2(1) in \<open>simp_all add: fresh_def sample_io_def\<close>)
  have "count_list (srbs_of ?m (queued (Devices ?x p))) s \<noteq> 0"
    unfolding count_list_0_iff using assms(7) by (simp add: T)
  then have "count_list (completions T) s + 2 \<le> count_list (completions ?T2) s"
    using nt by (simp add: T completions_def)
  moreover have "traffic_step\<^sup>*\<^sup>* T ?T2" using s1 s2 by (meson converse_rtranclp_into_rtranclp rtranclp.rtrancl_refl)
  ultimately show ?thesis using assms(9) by (intro exI [of _ ?T2]) (simp add: T)
qed

lemma mapped_at_cong:
  assumes "mapped_at b p x" "SrbPathId b' = SrbPathId b" "SrbTargetId b' = SrbTargetId b" "SrbLun b' = SrbLun b"
  shows "mapped_at b' p x"
  using assms by (simp add: mapped_at_def)

theorem device_reset_completes_twice_witness:
  "\<exists>s T'. traffic_step\<^sup>*\<^sup>* (idle_traffic sample_start) T' \<and> Accepted T' = [s, s + 256, s + 512] \<and>
     2 \<le> count_list (completions T') s"
proof (rule sample_traffic)
  fix s D e assume h: "traffic_step\<^sup>*\<^sup>* (idle_traffic sample_start) \<lparr>Drv = D, Fetches = [], Accepted = [s], Lost = [], PortDone = []\<rparr>"
    "queued (Devices (DrvExt D) 1) = [e]" "mapped_at (Srbs (DrvMem D) s) 1 (DrvExt D)" "srbs_of (DrvMem D) [e] = [s]" "s < 128"
    "Srbs (DrvMem D) = (Srbs (DrvMem sample_start))(s := sample_srb\<lparr>SrbTargetId := of_nat s, SrbStatus := SRB_STATUS_ABORTED\<rparr>)"
  let ?T = "\<lparr>Drv = D, Fetches = [], Accepted = [s], Lost = [], PortDone = []\<rparr> :: unit traffic"
  have w: "(of_nat (s + 256) :: u8) = of_nat s" "(of_nat (s + 512) :: u8) = of_nat s"
    unfolding word_of_nat_eq_iff using mod_mult_self1 [of s 2 256] by (simp_all add: take_bit_eq_mod)
  have b: "Srbs (DrvMem D) (s + 256) = sample_srb\<lparr>SrbTargetId := of_nat s, SrbFunction := SRB_FUNCTION_RESET_DEVICE\<rparr>"
    "Srbs (DrvMem D) (s + 512) = sample_srb\<lparr>SrbTargetId := of_nat s, SrbFunction := SRB_FUNCTION_RESET_LOGICAL_UNIT\<rparr>"
    using h(5) w by (simp_all add: h(6) sample_start_def sample_driver_def del: of_nat_add)
  have bs: "Srbs (DrvMem D) s = sample_srb\<lparr>SrbTargetId := of_nat s, SrbStatus := SRB_STATUS_ABORTED\<rparr>" by (simp add: h(6))
  have mp: "mapped_at (Srbs (DrvMem D) (s + 256)) 1 (DrvExt D)" "mapped_at (Srbs (DrvMem D) (s + 512)) 1 (DrvExt D)"
    by (rule mapped_at_cong [OF h(3)]; simp add: b bs)+
  obtain T' where "traffic_step\<^sup>*\<^sup>* ?T T'" "Accepted T' = Accepted ?T @ [s + 256, s + 512]"
    "count_list (completions ?T) s + 2 \<le> count_list (completions T') s"
    using device_reset_completes_twice [OF h(1) sample_start_fresh, of "s + 256" 1 "s + 512" s] mp b bs h(2,4) by auto
  then show ?thesis using h(1) by (intro exI [of _ s] exI [of _ T']) (auto intro: rtranclp_trans)
qed

section \<open>The sequential fetch is one of the interleavings\<close>

lemma load_put_device: "DMem y = m \<Longrightarrow> DDev y = d \<Longrightarrow> FDev t = p \<Longrightarrow> load (put_device D p m d) (t\<lparr>FPhase := ph, FVars := y\<rparr>) = y"
  by (simp add: load_def put_device_def)

lemma put_device_twice [simp]: "put_device (put_device D p m d) p m' d' = put_device D p m' d'"
  by (simp add: put_device_def dev_upd_def)

lemma put_device_same: "put_device D p (DrvMem D) (Devices (DrvExt D) p) = D"
  by (simp add: put_device_def dev_upd_def)

text \<open>The variables of a thread that nobody has interrupted are the state.\<close>

lemma loaded:
  assumes "load D t = FVars t" shows "DDev (FVars t) = Devices (DrvExt D) (FDev t)" "DMem (FVars t) = DrvMem D"
  using arg_cong [OF assms, of DDev] arg_cong [OF assms, of DMem] by (simp_all add: load_def)

lemma loop_leaves:
  assumes "FPhase t = AtHead" "load D t = FVars t" "HardRemoveDevice (DDev (FVars t))"
  shows "traffic_step \<lparr>Drv = D, Fetches = ts @ t # us, Accepted = acc, Lost = lost, PortDone = pd\<rparr>
    \<lparr>Drv = put_device D (FDev t) (DMem (FVars t)) (DDev (FVars t)), Fetches = ts @ t\<lparr>FPhase := AtExit, FVars := FVars t\<rparr> # us,
     Accepted = acc, Lost = lost, PortDone = pd\<rparr>"
  using traffic_step.loop_test [OF assms(1), of D ts us acc lost pd] assms(3) loaded [OF assms(2)]
  by (simp add: put_device_same)

text \<open>One turn of the loop: its test, its wait, its body.\<close>

lemma loop_turns:
  assumes "FPhase t = AtHead" "load D t = FVars t" "\<not> HardRemoveDevice (DDev (FVars t))"
    and "dispatch_iter (FSize t) env (FVars t) = Some (stop, z)" "lock_code_ok (EnvLock env)"
    and "unat (RequestHandleCounter (DrvMem D)) + Suc n < 2 ^ 64"
    and "traffic_ok \<lparr>Drv = D, Fetches = ts @ t # us, Accepted = acc, Lost = lost, PortDone = pd\<rparr>"
  shows "\<exists>lost'. traffic_step\<^sup>*\<^sup>* \<lparr>Drv = D, Fetches = ts @ t # us, Accepted = acc, Lost = lost, PortDone = pd\<rparr>
      \<lparr>Drv = put_device D (FDev t) (DMem z) (DDev z),
       Fetches = ts @ t\<lparr>FPhase := if stop then AtExit else AtHead, FVars := z\<rparr> # us, Accepted = acc, Lost = lost', PortDone = pd\<rparr>"
    and "unat (RequestHandleCounter (DMem z)) + n < 2 ^ 64"
proof -
  note v = loaded [OF assms(2)]
  let ?w = "t\<lparr>FPhase := AtWait\<rparr>"
  have s1: "traffic_step \<lparr>Drv = D, Fetches = ts @ t # us, Accepted = acc, Lost = lost, PortDone = pd\<rparr>
      \<lparr>Drv = D, Fetches = ts @ ?w # us, Accepted = acc, Lost = lost, PortDone = pd\<rparr>"
    using traffic_step.loop_test [OF assms(1), of D ts us acc lost pd] assms(3) v by simp
  have lw: "load D ?w = FVars t" using assms(2) by (simp add: load_def)
  have ne: "RequestHandleCounter (DrvMem D) \<noteq> - 1"
    by (rule counter_step(1) [OF assms(6), of "RequestHandleCounter (DrvMem D)"]) simp
  let ?l = "lost @ map (Pair (ConnectionId (Devices (DrvExt D) (FDev t)))) (dropped env (DrvMem D) (Devices (DrvExt D) (FDev t)))"
  have "traffic_step \<lparr>Drv = D, Fetches = ts @ ?w # us, Accepted = acc, Lost = lost, PortDone = pd\<rparr>
      \<lparr>Drv = put_device D (FDev t) (DMem z) (DDev z),
       Fetches = ts @ t\<lparr>FPhase := if stop then AtExit else AtHead, FVars := z\<rparr> # us, Accepted = acc, Lost = ?l, PortDone = pd\<rparr>"
    using traffic_step.loop_body [of ?w env D stop z ts us acc lost pd] assms(4,5) lw ne by simp
  with s1 show "\<exists>lost'. traffic_step\<^sup>*\<^sup>* \<lparr>Drv = D, Fetches = ts @ t # us, Accepted = acc, Lost = lost, PortDone = pd\<rparr>
      \<lparr>Drv = put_device D (FDev t) (DMem z) (DDev z),
       Fetches = ts @ t\<lparr>FPhase := if stop then AtExit else AtHead, FVars := z\<rparr> # us, Accepted = acc, Lost = lost', PortDone = pd\<rparr>"
    by (meson converse_rtranclp_into_rtranclp rtranclp.rtrancl_refl)
  have "queues_ok (DMem (FVars t)) (DDev (FVars t))" "no_lock (FVars t)"
    using assms(1,7) v by (auto simp: traffic_ok_def core_ok_def io_ok_def threads_ok_def)
  then show "unat (RequestHandleCounter (DMem z)) + n < 2 ^ 64"
    using counter_step(2) [OF assms(6)] dispatch_iter_counter [OF _ _ assms(5) _ assms(4)] ne v(2) by simp
qed

lemma dispatch_loop_steps:
  assumes "dispatch_loop (FSize t) envs (FVars t) = Returned y" "load D t = FVars t" "FPhase t = AtHead"
    and "\<forall>env \<in> set envs. lock_code_ok (EnvLock env)"
    and "unat (RequestHandleCounter (DrvMem D)) + length envs < 2 ^ 64"
    and "traffic_ok \<lparr>Drv = D, Fetches = ts @ t # us, Accepted = acc, Lost = lost, PortDone = pd\<rparr>"
  shows "\<exists>lost'. traffic_step\<^sup>*\<^sup>* \<lparr>Drv = D, Fetches = ts @ t # us, Accepted = acc, Lost = lost, PortDone = pd\<rparr>
    \<lparr>Drv = put_device D (FDev t) (DMem y) (DDev y), Fetches = ts @ t\<lparr>FPhase := AtExit, FVars := y\<rparr> # us,
     Accepted = acc, Lost = lost', PortDone = pd\<rparr>"
  using assms
proof (induction envs arbitrary: t D lost)
  case Nil
  then have "HardRemoveDevice (DDev (FVars t))" "y = FVars t" by (auto simp: dispatch_loop.simps split: if_splits)
  then show ?case using loop_leaves [OF Nil.prems(3,2), of ts us acc lost pd] by blast
next
  case (Cons env envs)
  show ?case
  proof (cases "HardRemoveDevice (DDev (FVars t))")
    case True
    then have "y = FVars t" using Cons.prems(1) by (simp add: dispatch_loop.simps [of "FSize t" "env # envs"])
    then show ?thesis using loop_leaves [OF Cons.prems(3,2) True, of ts us acc lost pd] by blast
  next
    case False
    obtain stop z where it: "dispatch_iter (FSize t) env (FVars t) = Some (stop, z)"
      and rest: "(if stop then Returned z else dispatch_loop (FSize t) envs z) = Returned y"
      using Cons.prems(1) False
      by (auto simp: dispatch_loop.simps [of "FSize t" "env # envs"] split: option.splits bool.splits)
    have lk: "lock_code_ok (EnvLock env)" and n: "unat (RequestHandleCounter (DrvMem D)) + Suc (length envs) < 2 ^ 64"
      using Cons.prems(4,5) by simp_all
    let ?z = "t\<lparr>FPhase := if stop then AtExit else AtHead, FVars := z\<rparr>"
    obtain lost' where run: "traffic_step\<^sup>*\<^sup>* \<lparr>Drv = D, Fetches = ts @ t # us, Accepted = acc, Lost = lost, PortDone = pd\<rparr>
        \<lparr>Drv = put_device D (FDev t) (DMem z) (DDev z), Fetches = ts @ ?z # us, Accepted = acc, Lost = lost', PortDone = pd\<rparr>"
      using loop_turns(1) [OF Cons.prems(3,2) False it lk n Cons.prems(6)] by blast
    show ?thesis
    proof (cases stop)
      case True
      with rest run show ?thesis by auto
    next
      case ns: False
      have "\<exists>lost''. traffic_step\<^sup>*\<^sup>*
          \<lparr>Drv = put_device D (FDev t) (DMem z) (DDev z), Fetches = ts @ ?z # us, Accepted = acc, Lost = lost', PortDone = pd\<rparr>
          \<lparr>Drv = put_device (put_device D (FDev t) (DMem z) (DDev z)) (FDev ?z) (DMem y) (DDev y),
           Fetches = ts @ ?z\<lparr>FPhase := AtExit, FVars := y\<rparr> # us, Accepted = acc, Lost = lost'', PortDone = pd\<rparr>"
        by (rule Cons.IH)
           (use rest ns Cons.prems(4) loop_turns(2) [OF Cons.prems(3,2) False it lk n Cons.prems(6)]
             traffic_run_ok [OF run Cons.prems(6)] load_put_device [of z "DMem z" "DDev z" t "FDev t" D] in
             \<open>simp_all add: put_device_def\<close>)
      then show ?thesis using run by (auto intro: rtranclp_trans)
    qed
  qed
qed

lemma fetch_call_steps:
  assumes "traffic_ok \<lparr>Drv = D, Fetches = ts, Accepted = acc, Lost = lost, PortDone = pd\<rparr>"
    and "WnbdFindDeviceByConnId i True (DrvExt D) = (Some p, x)"
    and "WnbdDispatchRequest pid req user bsz envs (DrvMem D, Devices x p) = Returned y"
    and "\<forall>env \<in> set envs. lock_code_ok (EnvLock env)"
    and "unat (RequestHandleCounter (DrvMem D)) + length envs < 2 ^ 64"
  shows "\<exists>lost'. traffic_step\<^sup>*\<^sup>* \<lparr>Drv = D, Fetches = ts, Accepted = acc, Lost = lost, PortDone = pd\<rparr>
    \<lparr>Drv = D\<lparr>DrvMem := DMem y, DrvExt := dev_upd p (\<lambda>_. WnbdReleaseDevice (DDev y)) x\<rparr>, Fetches = ts,
     Accepted = acc, Lost = lost', PortDone = pd\<rparr>"
proof -
  let ?T = "\<lparr>Drv = D, Fetches = ts, Accepted = acc, Lost = lost, PortDone = pd\<rparr>"
  let ?s = "start_disp req user (DrvMem D, Devices x p)" and ?D = "D\<lparr>DrvExt := x\<rparr>"
  let ?t = "\<lparr>FDev = p, FPhase = AtHead, FSize = bsz, FVars = ?s\<rparr>"
  have aok: "adapter_ok (DrvExt D)" using assms(1) by (simp add: traffic_ok_def core_ok_def)
  note fd = found_id [OF aok assms(2)]
  show ?thesis
  proof (cases "owner pid (Devices x p)")
    case False
    then have "y = ?s\<lparr>DStatus := STATUS_ACCESS_DENIED\<rparr>"
      using assms(3) by (auto simp: WnbdDispatchRequest_def start_disp_def owner_def Let_def split: if_splits)
    then have "D\<lparr>DrvMem := DMem y, DrvExt := dev_upd p (\<lambda>_. WnbdReleaseDevice (DDev y)) x\<rparr> = D"
      using release_acquired_same [of p "DrvExt D"] by (simp add: fd(2) dev_upd_def)
    then show ?thesis by (intro exI [of _ lost]) simp
  next
    case True
    then obtain z where z: "dispatch_loop bsz envs ?s = Returned z" "y = dispatch_exit z"
      using assms(3)
      by (auto simp: WnbdDispatchRequest_def start_disp_def owner_def Let_def split: if_splits run.splits)
    let ?U = "\<lparr>Drv = ?D, Fetches = ts @ [?t], Accepted = acc, Lost = lost, PortDone = pd\<rparr>"
    have s1: "traffic_step ?T ?U" by (rule traffic_step.fetch_call [OF assms(2) True])
    let ?E = "put_device ?D p (DMem z) (DDev z)" and ?u = "?t\<lparr>FPhase := AtExit, FVars := z\<rparr>"
    have "\<exists>lost'. traffic_step\<^sup>*\<^sup>* ?U \<lparr>Drv = put_device ?D (FDev ?t) (DMem z) (DDev z), Fetches = ts @ [?u],
        Accepted = acc, Lost = lost', PortDone = pd\<rparr>"
      by (rule dispatch_loop_steps)
         (use z(1) assms(4,5) traffic_step_ok [OF s1 assms(1)] in \<open>simp_all add: load_def start_disp_def\<close>)
    then obtain lost' where s2: "traffic_step\<^sup>*\<^sup>* ?U \<lparr>Drv = ?E, Fetches = ts @ [?u], Accepted = acc, Lost = lost', PortDone = pd\<rparr>"
      by auto
    have "load ?E ?u = z" using load_put_device [of z "DMem z" "DDev z" ?t p ?D] by simp
    then have s3: "traffic_step \<lparr>Drv = ?E, Fetches = ts @ [?u], Accepted = acc, Lost = lost', PortDone = pd\<rparr>
        \<lparr>Drv = put_device ?E (FDev ?u) (DMem y) (WnbdReleaseDevice (DDev y)), Fetches = ts @ [], Accepted = acc, Lost = lost', PortDone = pd\<rparr>"
      by (intro traffic_step.fetch_return) (simp_all add: z(2))
    have "put_device ?E p (DMem y) d = D\<lparr>DrvMem := DMem y, DrvExt := dev_upd p (\<lambda>_. d) x\<rparr>" for d
      unfolding put_device_twice by (simp add: put_device_def)
    with s3 s2 s1 show ?thesis
      by (auto intro!: exI [of _ lost'] intro: rtranclp.rtrancl_into_rtrancl converse_rtranclp_into_rtranclp)
  qed
qed

text \<open>
  The fetch command as one operation refines the interleaved threads. From any state the
  driver can be in, whatever other threads are fetching, a fetch command that returns leaves the
  driver in a state that the steps of a thread reach when no other thread gets in between.
\<close>

lemma fetch_command_is_a_run:
  assumes "traffic_step\<^sup>*\<^sup>* (idle_traffic D0) \<lparr>Drv = D, Fetches = ts, Accepted = acc, Lost = lost, PortDone = pd\<rparr>" "fresh_driver D0"
    and "SystemBuffer irp = Some (IOCTL_WNBD_FETCH_REQ i req user bsz)" "WnbdParseUserIOCTL env irp D = Returned r"
    and "\<forall>w \<in> set (IeWaits env). lock_code_ok (EnvLock w)"
    and "unat (RequestHandleCounter (DrvMem D)) + length (IeWaits env) < 2 ^ 64"
  shows "\<exists>lost'. traffic_step\<^sup>*\<^sup>* \<lparr>Drv = D, Fetches = ts, Accepted = acc, Lost = lost, PortDone = pd\<rparr>
    \<lparr>Drv = RDriver r, Fetches = ts, Accepted = acc, Lost = lost', PortDone = pd\<rparr>"
proof -
  note ok = fresh_run_ok [OF assms(1,2)]
  consider (same) "RDriver r = D"
    | (run) p x y where "WnbdFindDeviceByConnId i True (DrvExt D) = (Some p, x)"
        "WnbdDispatchRequest (RequestorProcessId irp) req user bsz (IeWaits env) (DrvMem D, Devices x p) = Returned y"
        "RDriver r = D\<lparr>DrvMem := DMem y, DrvExt := dev_upd p (\<lambda>_. WnbdReleaseDevice (DDev y)) x\<rparr>"
    using assms(3,4)
    by (auto simp: WnbdParseUserIOCTL_def ioctl_fetch_def within_def reply_def reply_with_def
        split: if_splits option.splits prod.splits run.splits dest!: found_none(1))
  then show ?thesis
  proof cases
    case same
    then show ?thesis by (intro exI [of _ lost]) simp
  next
    case run
    from fetch_call_steps [OF ok run(1,2) assms(5,6)] show ?thesis by (simp add: run(3))
  qed
qed

end
