(* ===== verification/Logging.thy ===== *)
theory Logging
  imports Client
begin

text \<open>
  Log output. The driver's log (\<^verbatim>\<open>debug.c\<close>) with its level and its three facilities, which are
  driver options; the names it prints for codes (\<^verbatim>\<open>scsi_trace.c\<close>); the log of the library
  (\<^verbatim>\<open>wnbd_log.c\<close>), whose logger and level the consumer sets; and the messages of system errors
  (\<^verbatim>\<open>utils.cpp\<close>, \<^verbatim>\<open>cmd.cpp\<close>). A message is the text that formatting its arguments gives.
\<close>

section \<open>Names of codes\<close>

text \<open>A switch that returns the text of its labels; \<^verbatim>\<open>CASE_STR\<close> makes one branch.\<close>

definition case_str :: "('a \<times> string) list \<Rightarrow> string \<Rightarrow> 'a \<Rightarrow> string" where
  "case_str labels other x = (case map_of labels x of Some s \<Rightarrow> s | None \<Rightarrow> other)"

definition WnbdToStringSrbFunction :: "u32 \<Rightarrow> string" where
  "WnbdToStringSrbFunction = case_str
     [(0x00, ''SRB_FUNCTION_EXECUTE_SCSI''), (0x01, ''SRB_FUNCTION_CLAIM_DEVICE''),
      (0x02, ''SRB_FUNCTION_IO_CONTROL''), (0x03, ''SRB_FUNCTION_RECEIVE_EVENT''),
      (0x04, ''SRB_FUNCTION_RELEASE_QUEUE''), (0x05, ''SRB_FUNCTION_ATTACH_DEVICE''),
      (0x06, ''SRB_FUNCTION_RELEASE_DEVICE''), (0x07, ''SRB_FUNCTION_SHUTDOWN''),
      (0x08, ''SRB_FUNCTION_FLUSH''), (0x09, ''SRB_FUNCTION_PROTOCOL_COMMAND''),
      (0x10, ''SRB_FUNCTION_ABORT_COMMAND''), (0x11, ''SRB_FUNCTION_RELEASE_RECOVERY''),
      (0x12, ''SRB_FUNCTION_RESET_BUS''), (0x13, ''SRB_FUNCTION_RESET_DEVICE''),
      (0x14, ''SRB_FUNCTION_TERMINATE_IO''), (0x15, ''SRB_FUNCTION_FLUSH_QUEUE''),
      (0x16, ''SRB_FUNCTION_REMOVE_DEVICE''), (0x17, ''SRB_FUNCTION_WMI''),
      (0x18, ''SRB_FUNCTION_LOCK_QUEUE''), (0x19, ''SRB_FUNCTION_UNLOCK_QUEUE''),
      (0x1A, ''SRB_FUNCTION_QUIESCE_DEVICE''), (0x20, ''SRB_FUNCTION_RESET_LOGICAL_UNIT''),
      (0x21, ''SRB_FUNCTION_SET_LINK_TIMEOUT''), (0x22, ''SRB_FUNCTION_LINK_TIMEOUT_OCCURRED''),
      (0x23, ''SRB_FUNCTION_LINK_TIMEOUT_COMPLETE''), (0x24, ''SRB_FUNCTION_POWER''),
      (0x25, ''SRB_FUNCTION_PNP''), (0x26, ''SRB_FUNCTION_DUMP_POINTERS''),
      (0x27, ''SRB_FUNCTION_FREE_DUMP_POINTERS'')]
     ''UNKNOWN_SRB_FUNCTION''"

text \<open>\<open>recent\<close> tells whether the driver kit defines the two labels that are conditional.\<close>

definition WnbdToStringSrbStatus :: "bool \<Rightarrow> u8 \<Rightarrow> string" where
  "WnbdToStringSrbStatus recent = case_str
     ([(0x00, ''SRB_STATUS_PENDING''), (0x01, ''SRB_STATUS_SUCCESS''), (0x02, ''SRB_STATUS_ABORTED''),
       (0x03, ''SRB_STATUS_ABORT_FAILED''), (0x04, ''SRB_STATUS_ERROR''), (0x05, ''SRB_STATUS_BUSY''),
       (0x06, ''SRB_STATUS_INVALID_REQUEST''), (0x07, ''SRB_STATUS_INVALID_PATH_ID''),
       (0x08, ''SRB_STATUS_NO_DEVICE''), (0x09, ''SRB_STATUS_TIMEOUT''),
       (0x0A, ''SRB_STATUS_SELECTION_TIMEOUT''), (0x0B, ''SRB_STATUS_COMMAND_TIMEOUT''),
       (0x0D, ''SRB_STATUS_MESSAGE_REJECTED''), (0x0E, ''SRB_STATUS_BUS_RESET''),
       (0x0F, ''SRB_STATUS_PARITY_ERROR''), (0x10, ''SRB_STATUS_REQUEST_SENSE_FAILED''),
       (0x11, ''SRB_STATUS_NO_HBA''), (0x12, ''SRB_STATUS_DATA_OVERRUN''),
       (0x13, ''SRB_STATUS_UNEXPECTED_BUS_FREE''), (0x14, ''SRB_STATUS_PHASE_SEQUENCE_FAILURE''),
       (0x15, ''SRB_STATUS_BAD_SRB_BLOCK_LENGTH''), (0x16, ''SRB_STATUS_REQUEST_FLUSHED''),
       (0x20, ''SRB_STATUS_INVALID_LUN''), (0x21, ''SRB_STATUS_INVALID_TARGET_ID''),
       (0x22, ''SRB_STATUS_BAD_FUNCTION''), (0x23, ''SRB_STATUS_ERROR_RECOVERY''),
       (0x24, ''SRB_STATUS_NOT_POWERED''), (0x25, ''SRB_STATUS_LINK_DOWN'')] @
      (if recent then [(0x26, ''SRB_STATUS_INSUFFICIENT_RESOURCES''), (0x27, ''SRB_STATUS_THROTTLED_REQUEST'')]
       else []))
     ''UNKNOWN_SRB_STATUS''"

definition WnbdToStringPnpMinorFunction :: "u8 \<Rightarrow> string" where
  "WnbdToStringPnpMinorFunction = case_str
     [(0x00, ''IRP_MN_START_DEVICE''), (0x01, ''IRP_MN_QUERY_REMOVE_DEVICE''), (0x02, ''IRP_MN_REMOVE_DEVICE''),
      (0x03, ''IRP_MN_CANCEL_REMOVE_DEVICE''), (0x04, ''IRP_MN_STOP_DEVICE''), (0x05, ''IRP_MN_QUERY_STOP_DEVICE''),
      (0x06, ''IRP_MN_CANCEL_STOP_DEVICE''), (0x07, ''IRP_MN_QUERY_DEVICE_RELATIONS''),
      (0x08, ''IRP_MN_QUERY_INTERFACE''), (0x09, ''IRP_MN_QUERY_CAPABILITIES''), (0x0A, ''IRP_MN_QUERY_RESOURCES''),
      (0x0B, ''IRP_MN_QUERY_RESOURCE_REQUIREMENTS''), (0x0C, ''IRP_MN_QUERY_DEVICE_TEXT''),
      (0x0D, ''IRP_MN_FILTER_RESOURCE_REQUIREMENTS''), (0x0F, ''IRP_MN_READ_CONFIG''), (0x10, ''IRP_MN_WRITE_CONFIG''),
      (0x11, ''IRP_MN_EJECT''), (0x12, ''IRP_MN_SET_LOCK''), (0x13, ''IRP_MN_QUERY_ID''),
      (0x14, ''IRP_MN_QUERY_PNP_DEVICE_STATE''), (0x15, ''IRP_MN_QUERY_BUS_INFORMATION''),
      (0x16, ''IRP_MN_DEVICE_USAGE_NOTIFICATION''), (0x17, ''IRP_MN_SURPRISE_REMOVAL''),
      (0x19, ''IRP_MN_DEVICE_ENUMERATED'')]
     ''IRP_MN_UNKNOWN''"

text \<open>The driver kit adds control types before \<open>ScsiAdapterControlMax\<close>, whose value is an argument.\<close>

definition WnbdToStringScsiAdapterCtrlType :: "u8 \<Rightarrow> u8 \<Rightarrow> string" where
  "WnbdToStringScsiAdapterCtrlType ScsiAdapterControlMax = case_str
     [(0, ''ScsiQuerySupportedControlTypes''), (1, ''ScsiStopAdapter''), (2, ''ScsiRestartAdapter''),
      (3, ''ScsiSetBootConfig''), (4, ''ScsiSetRunningConfig''), (ScsiAdapterControlMax, ''ScsiAdapterControlMax'')]
     ''Unknown''"

fun WnbdRequestTypeToStr :: "WnbdRequestType \<Rightarrow> string" where
  "WnbdRequestTypeToStr WnbdReqTypeRead = ''READ''"
| "WnbdRequestTypeToStr WnbdReqTypeWrite = ''WRITE''"
| "WnbdRequestTypeToStr WnbdReqTypeFlush = ''FLUSH''"
| "WnbdRequestTypeToStr WnbdReqTypeUnmap = ''UNMAP''"
| "WnbdRequestTypeToStr WnbdReqTypeDisconnect = ''DISCONNECT''"
| "WnbdRequestTypeToStr WnbdReqTypePersistResIn = ''PERSISTENT_RESERVE_IN''"
| "WnbdRequestTypeToStr WnbdReqTypePersistResOut = ''PERSISTENT_RESERVE_OUT''"
| "WnbdRequestTypeToStr WnbdReqTypeUnknown = ''UNKNOWN''"

definition NbdRequestTypeStr :: "u32 \<Rightarrow> string" where
  "NbdRequestTypeStr = case_str
     [(NBD_CMD_READ, ''NBD_CMD_READ''), (NBD_CMD_WRITE, ''NBD_CMD_WRITE''), (NBD_CMD_DISC, ''NBD_CMD_DISC''),
      (NBD_CMD_FLUSH, ''NBD_CMD_FLUSH''), (NBD_CMD_TRIM, ''NBD_CMD_TRIM'')] ''UNKNOWN''"

text \<open>A name tells which code was printed, unless it is the one for all others.\<close>

lemma map_of_distinct_snd:
  "distinct (map snd xs) \<Longrightarrow> map_of xs a = Some s \<Longrightarrow> map_of xs b = Some s \<Longrightarrow> a = b"
  by (induction xs) (auto split: if_splits dest!: map_of_SomeD intro: rev_image_eqI)

lemma case_str_identifies:
  assumes "case_str labels other a = case_str labels other b" "distinct (other # map snd labels)"
  shows "a = b \<or> case_str labels other a = other"
proof (cases "map_of labels a")
  case (Some s)
  then have "s \<noteq> other" using assms(2) by (auto dest!: map_of_SomeD intro: rev_image_eqI)
  with Some assms(1) have "map_of labels b = Some s" by (simp add: case_str_def split: option.splits)
  with Some map_of_distinct_snd [of labels a s b] assms(2) show ?thesis by simp
qed (simp add: case_str_def)

lemma srb_status_names_differ:
  "WnbdToStringSrbStatus r a = WnbdToStringSrbStatus r b \<Longrightarrow> a = b \<or> WnbdToStringSrbStatus r a = ''UNKNOWN_SRB_STATUS''"
  unfolding WnbdToStringSrbStatus_def by (erule case_str_identifies) (cases r; simp)

lemma srb_function_names_differ:
  "WnbdToStringSrbFunction a = WnbdToStringSrbFunction b \<Longrightarrow>
   a = b \<or> WnbdToStringSrbFunction a = ''UNKNOWN_SRB_FUNCTION''"
  unfolding WnbdToStringSrbFunction_def by (erule case_str_identifies) simp

text \<open>
  A request block with sense data has the status bit that says so, and the name is looked up with
  that bit: the log calls every such error unknown.
\<close>

lemma sense_data_hides_status:
  assumes "SenseInfoBuffer Srb \<noteq> None" "18 \<le> unat (SenseInfoBufferLength Srb)"
    and "SrbFlags Srb AND SRB_FLAGS_DISABLE_AUTOSENSE = 0"
  shows "WnbdToStringSrbStatus r (SrbStatus (SetSrbStatus Srb St)) = ''UNKNOWN_SRB_STATUS''"
proof -
  have "SrbStatus (SetSrbStatus Srb St) = 0x84" using assms by (simp add: SetSrbStatus_def Let_def)
  then show ?thesis by (simp add: WnbdToStringSrbStatus_def case_str_def)
qed

section \<open>The driver's log\<close>

abbreviation (input) WNBD_LVL_ERROR :: u32 where "WNBD_LVL_ERROR \<equiv> 0"
abbreviation (input) WNBD_LVL_WARN :: u32 where "WNBD_LVL_WARN \<equiv> 1"
abbreviation (input) WNBD_LVL_INFO :: u32 where "WNBD_LVL_INFO \<equiv> 3"
abbreviation (input) WNBD_LVL_DEBUG :: u32 where "WNBD_LVL_DEBUG \<equiv> 4"

text \<open>What reaches the operating system: an event, a line for the debugger, a trace message.\<close>

datatype etw_event = ErrorEvent | WarningEvent | InformationalEvent

datatype log_output =
    EventWrite etw_event string u32 string
  | DbgPrintEx u32 string
  | WnbdWppTrace u32 string

definition EtwPrint :: "WNBD_OPTION list \<Rightarrow> u32 \<Rightarrow> string \<Rightarrow> u32 \<Rightarrow> string \<Rightarrow> log_output list" where
  "EtwPrint opts Level FuncName Line Buf =
     (if \<not> opt_bool opts OptEtwLoggingEnabled then []
      else [EventWrite (if Level = WNBD_LVL_ERROR then ErrorEvent
                        else if Level = WNBD_LVL_WARN then WarningEvent else InformationalEvent)
              FuncName Line Buf])"

text \<open>The message is cut to the buffer of 512 characters with the terminator.\<close>

definition WnbdLog :: "WNBD_OPTION list \<Rightarrow> u32 \<Rightarrow> string \<Rightarrow> u32 \<Rightarrow> string \<Rightarrow> log_output list" where
  "WnbdLog opts Level FuncName Line Message =
     (if ucast Level > opt_int64 opts OptLogLevel then []
      else let Buf = take 511 Message;
               text = FuncName @ '':'' @ dec (unat Line) @ '' '' @ Buf @ [newline]
           in EtwPrint opts Level FuncName Line Buf @
              (if opt_bool opts OptDbgPrintEnabled then [DbgPrintEx Level text] else []) @
              (if opt_bool opts OptWppLoggingEnabled then [WnbdWppTrace Level text] else []))"

text \<open>
  Setting the level of the log decides from then on which messages leave the driver; which
  facilities get them does not change.
\<close>

lemma log_level_takes_effect:
  assumes "opts_ok opts" "wcsieq Name (wlit ''LogLevel'')"
    and "WnbdSetDrvOpt R c r opts Name \<lparr>ValType = WnbdOptInt64, Data = int64_data n\<rparr> Persistent =
      (STATUS_SUCCESS, r', opts', Val')"
  shows "WnbdLog opts' Level F L msg \<noteq> [] \<longleftrightarrow> ucast Level \<le> n \<and>
    (\<exists>k \<in> {OptEtwLoggingEnabled, OptDbgPrintEnabled, OptWppLoggingEnabled}. opt_bool opts k)"
proof -
  have d: "WnbdDriverOptions ! 0 = int64_opt ''LogLevel'' 1" by (simp add: WnbdDriverOptions_def)
  have f: "WnbdFindOpt opts Name = Some 0"
    using assms(2) WnbdFindOpt_ok [OF assms(1)] by (simp add: WnbdFindOpt_def WnbdDriverOptions_def int64_opt_def)
  have t: "OptType (opts ! 0) = WnbdOptInt64" using opts_ok_nth(4) [OF assms(1), of 0] d by (simp add: int64_opt_def)
  have "opts' = opts[0 := (opts ! 0)\<lparr>OptValue := \<lparr>ValType = WnbdOptInt64, Data = int64_data n\<rparr>\<rparr>]"
    using assms(3) f t by (auto simp: WnbdSetDrvOpt_def WnbdProcessOptionValue_def Let_def split: prod.splits if_splits)
  then have "opt_int64 opts' OptLogLevel = n"
    "\<forall>k. opt_index k \<noteq> 0 \<longrightarrow> opt_bool opts' k = opt_bool opts k"
    using assms(1) by (simp_all add: opt_int64_def opt_bool_def)
  then show ?thesis by (auto simp: WnbdLog_def EtwPrint_def Let_def not_less)
qed

section \<open>The library's log\<close>

text \<open>The levels in their order.\<close>

fun level_number :: "WnbdLogLevel \<Rightarrow> nat" where
  "level_number WnbdLogLevelCritical = 0"
| "level_number WnbdLogLevelError = 1"
| "level_number WnbdLogLevelWarning = 2"
| "level_number WnbdLogLevelInfo = 3"
| "level_number WnbdLogLevelDebug = 4"
| "level_number WnbdLogLevelTrace = 5"

lemma level_number_inj: "level_number a = level_number b \<Longrightarrow> a = b"
  by (cases a; cases b) simp_all

instantiation WnbdLogLevel :: linorder
begin

definition less_eq_WnbdLogLevel :: "WnbdLogLevel \<Rightarrow> WnbdLogLevel \<Rightarrow> bool" where
  "less_eq_WnbdLogLevel a b \<longleftrightarrow> level_number a \<le> level_number b"

definition less_WnbdLogLevel :: "WnbdLogLevel \<Rightarrow> WnbdLogLevel \<Rightarrow> bool" where
  "less_WnbdLogLevel a b \<longleftrightarrow> level_number a < level_number b"

instance
  by standard (auto simp: less_eq_WnbdLogLevel_def less_WnbdLogLevel_def intro: level_number_inj)

end

fun WnbdLogLevelToStr :: "WnbdLogLevel \<Rightarrow> string" where
  "WnbdLogLevelToStr WnbdLogLevelCritical = ''CRITICAL''"
| "WnbdLogLevelToStr WnbdLogLevelError = ''ERROR''"
| "WnbdLogLevelToStr WnbdLogLevelWarning = ''WARNING''"
| "WnbdLogLevelToStr WnbdLogLevelInfo = ''INFO''"
| "WnbdLogLevelToStr WnbdLogLevelDebug = ''DEBUG''"
| "WnbdLogLevelToStr WnbdLogLevelTrace = ''TRACE''"

text \<open>
  A logger of the consumer changes a state of its own; the one of the library prints on the error
  output, with the local time in hours, minutes, seconds and milliseconds.
\<close>

type_synonym 'w LogMessageFunc = "WnbdLogLevel \<Rightarrow> string \<Rightarrow> string \<Rightarrow> u32 \<Rightarrow> string \<Rightarrow> 'w \<Rightarrow> 'w"

record 'w logger =
  WnbdCurrLogger :: "'w LogMessageFunc option"
  WnbdCurrLogLevel :: WnbdLogLevel

definition pad_dec :: "nat \<Rightarrow> nat \<Rightarrow> string" where
  "pad_dec k n = replicate (k - length (dec n)) (CHR ''0'') @ dec n"

definition ConsoleLogger :: "nat \<times> nat \<times> nat \<times> nat \<Rightarrow> string LogMessageFunc" where
  "ConsoleLogger T LogLevel Message FileName Line FunctionName err =
     (let (hour, minute, second, milli) = T
      in err @ pad_dec 2 hour @ '':'' @ pad_dec 2 minute @ '':'' @ pad_dec 2 second @ ''.'' @ pad_dec 3 milli @
           '' libwnbd.dll!'' @ FunctionName @ '' '' @ WnbdLogLevelToStr LogLevel @ '' '' @ Message @ [newline])"

definition initial_logger :: "nat \<times> nat \<times> nat \<times> nat \<Rightarrow> string logger" where
  "initial_logger T = \<lparr>WnbdCurrLogger = Some (ConsoleLogger T), WnbdCurrLogLevel = WnbdLogLevelWarning\<rparr>"

definition WnbdSetLogger :: "'w LogMessageFunc option \<Rightarrow> 'w logger \<Rightarrow> 'w logger" where
  "WnbdSetLogger Logger S = S\<lparr>WnbdCurrLogger := Logger\<rparr>"

definition WnbdSetLogLevel :: "WnbdLogLevel \<Rightarrow> 'w logger \<Rightarrow> 'w logger" where
  "WnbdSetLogLevel LogLevel S = S\<lparr>WnbdCurrLogLevel := LogLevel\<rparr>"

text \<open>\<open>allocated\<close> is the outcome of the allocation of the message buffer.\<close>

definition LogMessage ::
  "'w logger \<Rightarrow> bool \<Rightarrow> WnbdLogLevel \<Rightarrow> string \<Rightarrow> u32 \<Rightarrow> string \<Rightarrow> string \<Rightarrow> 'w \<Rightarrow> 'w" where
  "LogMessage S allocated LogLevel FileName Line FunctionName Message w =
     (case WnbdCurrLogger S of
        None \<Rightarrow> w
      | Some CurrLogger \<Rightarrow>
          if WnbdCurrLogLevel S < LogLevel then w
          else if \<not> allocated then w
          else CurrLogger LogLevel Message FileName Line FunctionName w)"

text \<open>
  Without a logger nothing is logged at any level. The client's option for debug messages lets
  exactly these through as well; trace messages never get out of the client.
\<close>

lemma no_logger_no_log: "LogMessage (WnbdSetLogLevel l (WnbdSetLogger None S)) a lv f ln fn msg w = w"
  by (simp add: LogMessage_def WnbdSetLogLevel_def WnbdSetLogger_def)

lemma client_log_level:
  assumes "vm ''debug'' = Some (VBool debug)" "handle_common_options vm = Some l"
    and "WnbdCurrLogger S = Some logger"
  shows "LogMessage (WnbdSetLogLevel l S) True lv f ln fn msg w =
    (if lv = WnbdLogLevelTrace \<or> lv = WnbdLogLevelDebug \<and> \<not> debug then w else logger lv msg f ln fn w)"
  using assms
  by (cases lv) (auto simp: LogMessage_def WnbdSetLogLevel_def handle_common_options_def safe_get_param_def
      less_WnbdLogLevel_def split: if_splits)

section \<open>Messages of system errors\<close>

text \<open>
  \<open>format_message\<close> is what \<^verbatim>\<open>FormatMessage\<close> finds for an error code, if it finds
  something.
\<close>

definition win32_strerror :: "(u32 \<Rightarrow> string option) \<Rightarrow> u32 \<Rightarrow> string" where
  "win32_strerror format_message err =
     (case format_message err of
        None \<Rightarrow> ''Unknown error ('' @ sdec (sint err) @ '').''
      | Some msg \<Rightarrow> msg)"

text \<open>
  The client prints the variable that points to the message, an untyped pointer: the stream
  prints its address, given by \<open>pointer_text\<close>.
\<close>

definition PrintFormattedError :: "string \<Rightarrow> u32 \<Rightarrow> string \<Rightarrow> string" where
  "PrintFormattedError pointer_text Error err =
     err @ ''Error code: '' @ dec (unat Error) @ ''. Error message: '' @ pointer_text @ [newline]"

end
