(* ===== verification/Spec2Isabelle.thy ===== *)
theory Spec2Isabelle
  imports DeviceProps Removal EndToEnd NbdServe Stack PnpDispatch SetupDriver Traffic Logging
begin

text \<open>
  WNBD is a virtual storage adapter for Windows. A kernel driver (\<^verbatim>\<open>src/driver\<close>, a
  StorPort virtual miniport) exposes disks whose reads and writes are served by user-space
  processes; a library (\<^verbatim>\<open>src/libwnbd\<close>) is the user-space end, and its NBD daemon serves
  a disk from an NBD server; a command line client (\<^verbatim>\<open>src/wnbd-client\<close>) maps and removes disks.
  This development models the driver, the library and the client and proves what
  keeps a request from being lost, answered twice or answered with the wrong data.

  \<^bold>\<open>How the parts interact.\<close> The port driver hands a SCSI request block to
  \<^verbatim>\<open>WnbdHwStartIo\<close>. Commands about the disk are answered at once
  (\<^verbatim>\<open>scsi_operation.c\<close>); reads, writes, flushes, unmaps and reservations become queue
  elements on the pending list of their device. The serving process sends commands through
  \<^verbatim>\<open>WnbdParseUserIOCTL\<close>: a fetch takes the first pending element, gives it a tag, puts it
  on the submitted list and describes it to the process; a response finds the element by its tag,
  copies data and status into the request block and completes it. Devices are created, looked up,
  listed and removed by the adapter; a monitor thread per device tears it down. In user space the
  library's dispatcher fetches requests and calls the consumer; the NBD daemon writes one frame per
  request to the server's socket, and its reply worker reads the replies and sends the responses.

  \<^bold>\<open>Theories\<close>, in the order of their imports.

  \<^item> \<open>Prelude\<close>: machine words, byte buffers with checked stores, C strings, big- and little-endian
    fields and their round trips. \<open>HashIndex\<close>: the locale \<open>hash_index\<close>, chained buckets as
    an index of a list by a key; interpreted for the tags of a device (\<open>tag_index\<close>) and for the
    connection ids of the adapter (\<open>conn_index\<close>).

  \<^item> \<open>Platform\<close>, \<open>Types\<close>: constants of the driver kit, rundown protection and events; the
    structures of \<^verbatim>\<open>include/wnbd_ioctl.h\<close>.

  \<^item> \<open>Srb\<close>: command blocks, their block ranges and sense data (\<^verbatim>\<open>srb_helper.h\<close>,
    \<^verbatim>\<open>util.c\<close>, \<^verbatim>\<open>util.h\<close>).

  \<^item> \<open>Options\<close>: the option table of \<^verbatim>\<open>options.c\<close>, typed invariant, persistence. The
    registry is an argument.

  \<^item> \<open>Device\<close>, \<open>Samples\<close>, \<open>DeviceProps\<close>: the device with its two queues, tag
    index, element pool and statistics (\<^verbatim>\<open>scsi_driver_extensions.h\<close>, \<^verbatim>\<open>util.c\<close>).
    Elements and request blocks live in an explicit memory \<open>kmem\<close>, because the queues hold
    pointers and completion writes through them. The locale \<open>submitted_queue\<close> is the contract of
    the tagged queue. Shown: the index is a search of the list, a drain completes every request
    once, the stale connection check fires exactly under its condition.

  \<^item> \<open>Dispatch\<close>, \<open>Reply\<close>: the two halves of \<^verbatim>\<open>wnbd_dispatch.c\<close>. Shown: a fetch
    accounts for every element it takes and releases every descriptor list; when its waits are
    granted it delivers; the description matches the element; a response completes the element it
    names, once, with its data.

  \<^item> \<open>ScsiOperation\<close>: \<^verbatim>\<open>scsi_operation.c\<close>. Every write into the data buffer is a
    checked store, so that leaving the buffer is a value. Shown: queued ranges are on the disk, their
    stored length is the range's modulo two to the 32, which commands stay in their buffer.

  \<^item> \<open>Adapter\<close>, \<open>AdapterProps\<close>, \<open>Lifecycle\<close>, \<open>Removal\<close>: creation, lookup, enumeration,
    monitor threads and cleanup (\<^verbatim>\<open>userspace.c\<close>, \<^verbatim>\<open>util.c\<close>). \<open>Lifecycle\<close> is a step
    relation over creations, lookups, releases, disconnects and monitor threads in any order; its
    invariant gives unique addresses and connection ids. Shown: what a failed creation gives back,
    what a removal completes and restores, when the cleanup of the adapter ends and when it hangs.

  \<^item> \<open>HwExtension\<close>, \<open>HwProps\<close>: the miniport callbacks (\<^verbatim>\<open>scsi_driver_extensions.c\<close>,
    \<^verbatim>\<open>scsi_function.c\<close>). Shown: a request block is completed exactly once or queued.

  \<^item> \<open>Ioctl\<close>, \<open>IoctlProps\<close>, \<open>EndToEnd\<close>: the commands of \<^verbatim>\<open>WnbdParseUserIOCTL\<close>
    with their buffer checks and accesses; fetch and reply read the connection id first and the data
    buffer fields only for a request that needs them. Shown: invariants survive every command, created disks
    are shown and listed, which commands leave a short system buffer, and a read across driver and
    serving process.

  \<^item> \<open>Footprint\<close>, \<open>Conserve\<close>, \<open>Traffic\<close>: the driver under load. \<open>Footprint\<close> shows of every operation on
    a device which queue elements it can write, allocate or free: only its own and new ones.
    \<open>Conserve\<close> is the ledger of a device (what goes in, is handed back, is dropped, still waits) and
    its sum over the adapter. \<open>Traffic\<close> is a step relation over request blocks handed over, commands,
    Plug and Play requests, cleanup, monitor threads and any number of threads that fetch, from the state \<^verbatim>\<open>WnbdHwFindAdapter\<close>
    leaves. What the port driver completes by itself when a device or bus reset asks it to is kept
    apart from what the driver completes. Shown for every interleaving: requests accepted are requests
    completed by the driver, waiting or dropped by a fetch from a device being removed, and the port
    driver's completions come on top; after a device reset requests are completed twice; devices share
    no element; a fetch holds its device and its descriptor list. A lemma says that the fetch command
    as one operation is one of these interleavings.

  \<^item> \<open>NbdProtocol\<close>, \<open>NbdProps\<close>, \<open>NbdSpec\<close>: \<^verbatim>\<open>nbd_protocol.cpp\<close> over a socket that
    delivers and accepts bytes in arbitrary pieces and may fail, close or stay silent. The locale
    \<open>exact_receiver\<close> is the contract of a receive routine, interpreted for \<^verbatim>\<open>RecvExact\<close>.
    \<open>NbdSpec\<close> has the abstract specification: typed messages, their encoding, and what the protocol
    prescribes for a list of them. Shown: the negotiation returns unless the peer stays silent, does
    not depend on packet boundaries, refines the message exchange, and reports a size the server
    has sent.

  \<^item> \<open>LibWnbd\<close>, \<open>NbdDaemon\<close>, \<open>NbdServe\<close>: the library's disk object, dispatcher, responses and
    removal (\<^verbatim>\<open>libwnbd.cpp\<close>), the daemon (\<^verbatim>\<open>nbd_daemon.cpp\<close>), and the running daemon
    as a step relation whose steps are the critical sections of the threads. Shown: in every
    interleaving frames are whole and replies find their requests; a read to the server and back; the
    created disk fits the export.

  \<^item> \<open>UserIoctl\<close>, \<open>LibCalls\<close>: the calls into the driver (\<^verbatim>\<open>wnbd_ioctl.cpp\<close>), one function per
    command over an arbitrary device, and the library functions that pass on one command. \<open>Contract\<close>:
    the locale \<open>driver_contract\<close>, what the library relies on: its calls keep an invariant of the
    driver; every operation of the library and of the daemon then keeps it. \<open>Kernel\<close>: the model of the
    driver as the device of these calls, and the interpretation of the contract on it. \<open>Stack\<close>: a read
    from the port driver through driver, library, daemon and server and back, and the driver's
    invariants under every run of a daemon.

  \<^item> \<open>Usage\<close>, \<open>Cmd\<close>, \<open>Client\<close>, \<open>ClientDriver\<close>: the command line client: text wrapping and help
    pages (\<^verbatim>\<open>usage.cpp\<close>), the commands with what they print (\<^verbatim>\<open>cmd.cpp\<close>), the option
    tables, the command table and its execution (\<^verbatim>\<open>client.cpp\<close>), and the client on the model of
    the driver. The parser of the option library is an argument that conforms to its documentation.
    Shown: wrapping keeps the words, commands read their options at their types, the list is the
    adapter's, a successful map command has created the disk it names, option values arrive, removing
    every disk empties the adapter. Disabling and enabling the adapter by Plug and Play gives a status
    and has no effect on the driver's state.

  \<^item> \<open>PnpDispatch\<close>: the driver's entry, Plug and Play dispatch and unloading (\<^verbatim>\<open>driver.c\<close>,
    \<^verbatim>\<open>util.c\<close>). Shown: a removal touches the disk of its own device object only, a busy disk is
    not given away, a started disk is reported and removable.

  \<^item> \<open>Setup\<close>, \<open>SetupDriver\<close>: finding, installing and removing the adapter
    (\<^verbatim>\<open>wnbd_ioctl.cpp\<close>, \<^verbatim>\<open>utils.cpp\<close>) over a record of operating system functions, and
    the client's commands over it. An uninstallation is described by the calls it made, each in the
    state the one before it left. Shown: only the adapter's own devices and packages are removed, a
    successful uninstallation has made every removal it had to make without an error, a failed
    installation is rolled back.

  \<^item> \<open>Logging\<close>: the logs of the driver (\<^verbatim>\<open>debug.c\<close>, \<^verbatim>\<open>scsi_trace.c\<close>) and of the library
    (\<^verbatim>\<open>wnbd_log.c\<close>), and messages of system errors. Shown: setting the level option decides which
    messages leave the driver, names identify codes, which levels the client lets through.

  \<^bold>\<open>Environment and bounds.\<close> What the kernel, the socket layer and other threads answer is
  an argument: results of waits, locks, allocations, thread creation, registry and time. A loop that
  waits runs over the list of these answers: where the list ends the model says \<open>Waiting\<close> or
  \<open>None\<close>, so that a theorem about a result is about a list that suffices, and the theorems
  hold for every list. The drain loops and the receive, send and negotiation loops are total functions
  with termination proofs (length of the queue, bytes still to transfer, bytes still to come), without
  fuel. \<open>Fault\<close> and \<open>None\<close> of the buffer operations stand for an access outside a buffer.
  Word arithmetic keeps its width everywhere.

  \<^bold>\<open>Atomicity.\<close> A driver operation runs under its spin lock or mutex as one step; the adapter
  interleaves operations and monitor threads, the daemon interleaves its critical sections. A fetch,
  which waits, is cut at the test of its loop and at its wait: between the two, after the loop and
  before the release any other step may happen. The wait may end for any reason at any time, and the
  device may be marked for removal while it lasts.

  \<^bold>\<open>Not modelled.\<close> The operations do not carry the messages they log, which have no effect on
  them (\<open>Logging\<close> has the log functions themselves); the conversions between narrow and wide
  strings and the option parser, which belong to a third-party library; the main function, which sets
  the code page; test programs and build files.
\<close>

end
